(* ===== verification/Rdc_Prelude.thy ===== *)
theory Rdc_Prelude
  imports Complex_Main "HOL-Library.Word" "HOL-Library.Product_Lexorder"
    "HOL-Library.List_Lexorder" "HOL-Library.Char_ord" "HOL-Library.Signed_Division"
begin

text \<open>
  Shared material of the development: the C++ integer types, the ordered container
  \<^verbatim>\<open>std::map\<close> as a strictly sorted association list with its interface locale, the
  public status and value types of \<^verbatim>\<open>include/rdc/rdc.h\<close>, the C string copy
  \<^verbatim>\<open>strncpy_with_null\<close>, and the locale for invariants of transition systems.
\<close>

section \<open>Machine types\<close>

type_synonym u32 = "32 word"
type_synonym u64 = "64 word"

text \<open>An \<^verbatim>\<open>int64_t\<close> is a 64-bit pattern read in two's complement by \<^const>\<open>sint\<close>.\<close>
type_synonym i64 = "64 word"

named_theorems rdc_defs \<open>definitions unfolded when an operation is executed symbolically\<close>

text \<open>An increment that does not wrap around is strictly larger.\<close>

lemma word_le_less_plus_one:
  fixes w :: "'a::len word"
  assumes "w \<noteq> - 1" and "i \<le> w"
  shows "i < w + 1"
proof -
  from assms(1) have "1 + w \<noteq> 0" by (metis add_eq_0_iff)
  then have "unat (w + 1) = Suc (unat w)" using unatSuc by (metis add.commute)
  with assms(2) show ?thesis by (simp add: word_less_nat_alt word_le_nat_alt)
qed

section \<open>\<open>std::map\<close>\<close>

text \<open>
  \<^verbatim>\<open>std::map\<close> iterates in key order, \<^verbatim>\<open>insert\<close> and \<^verbatim>\<open>emplace\<close> keep the
  element that is already there, \<^verbatim>\<open>operator[]\<close> followed by an assignment replaces it.
  Keys are compared by \<open><\<close>: numeric on words, lexicographic on pairs and on strings.
\<close>

type_synonym ('k, 'v) smap = "('k \<times> 'v) list"

fun map_put :: "'k::linorder \<Rightarrow> 'v \<Rightarrow> ('k, 'v) smap \<Rightarrow> ('k, 'v) smap" where
  "map_put k v [] = [(k, v)]"
| "map_put k v (e # m) =
     (if k < fst e then (k, v) # e # m
      else if fst e < k then e # map_put k v m
      else (k, v) # m)"

definition map_insert :: "'k::linorder \<Rightarrow> 'v \<Rightarrow> ('k, 'v) smap \<Rightarrow> ('k, 'v) smap" where
  "map_insert k v m = (case map_of m k of None \<Rightarrow> map_put k v m | Some _ \<Rightarrow> m)"

definition map_erase :: "'k \<Rightarrow> ('k, 'v) smap \<Rightarrow> ('k, 'v) smap" where
  "map_erase k m = filter (\<lambda>e. fst e \<noteq> k) m"

text \<open>Assignment through an iterator: the element of key \<open>k\<close>, if any, is rewritten.\<close>

definition map_modify :: "'k \<Rightarrow> ('v \<Rightarrow> 'v) \<Rightarrow> ('k, 'v) smap \<Rightarrow> ('k, 'v) smap" where
  "map_modify k f m = map (\<lambda>e. if fst e = k then (fst e, f (snd e)) else e) m"

definition map_keys :: "('k, 'v) smap \<Rightarrow> 'k list" where
  "map_keys m = map fst m"

definition map_wf :: "('k::linorder, 'v) smap \<Rightarrow> bool" where
  "map_wf m \<longleftrightarrow> sorted_wrt (<) (map fst m)"

locale ordered_map =
  fixes empty :: "'m"
    and find :: "'m \<Rightarrow> 'k::linorder \<Rightarrow> 'v option"
    and insert :: "'k \<Rightarrow> 'v \<Rightarrow> 'm \<Rightarrow> 'm"
    and assign :: "'k \<Rightarrow> 'v \<Rightarrow> 'm \<Rightarrow> 'm"
    and erase :: "'k \<Rightarrow> 'm \<Rightarrow> 'm"
    and keys :: "'m \<Rightarrow> 'k list"
    and wf :: "'m \<Rightarrow> bool"
  assumes find_empty: "find empty k = None"
    and find_assign: "wf m \<Longrightarrow> find (assign k v m) = (find m)(k \<mapsto> v)"
    and find_insert: "wf m \<Longrightarrow>
      find (insert k v m) = (case find m k of None \<Rightarrow> (find m)(k \<mapsto> v) | Some _ \<Rightarrow> find m)"
    and find_erase: "wf m \<Longrightarrow> find (erase k m) = (find m)(k := None)"
    and keys_find: "wf m \<Longrightarrow> set (keys m) = dom (find m)"
    and keys_sorted: "wf m \<Longrightarrow> sorted_wrt (<) (keys m)"
    and wf_empty: "wf empty"
    and wf_assign: "wf m \<Longrightarrow> wf (assign k v m)"
    and wf_insert: "wf m \<Longrightarrow> wf (insert k v m)"
    and wf_erase: "wf m \<Longrightarrow> wf (erase k m)"
begin

lemmas map_laws = find_assign find_insert find_erase
lemmas wf_laws = wf_empty wf_assign wf_insert wf_erase

lemma keys_distinct: "wf m \<Longrightarrow> distinct (keys m)"
  using keys_sorted strict_sorted_iff by blast

lemma length_keys: "wf m \<Longrightarrow> length (keys m) = card (dom (find m))"
  using keys_distinct keys_find distinct_card by metis

lemma finite_dom: "wf m \<Longrightarrow> finite (dom (find m))"
  by (metis keys_find List.finite_set)

lemma keys_eqI: "wf m \<Longrightarrow> wf m' \<Longrightarrow> dom (find m) = dom (find m') \<Longrightarrow> keys m = keys m'"
  by (rule strict_sorted_equal [OF keys_sorted keys_sorted]) (simp_all add: keys_find)

lemma size_insert:
  assumes "wf m"
  shows "length (keys (insert k v m)) =
    (if find m k = None then Suc (length (keys m)) else length (keys m))"
proof (cases "find m k")
  case None
  with assms have "dom (find (insert k v m)) = Set.insert k (dom (find m))"
    by (simp add: find_insert)
  moreover from None have "k \<notin> dom (find m)" by (simp add: domIff)
  ultimately show ?thesis using assms None
    by (simp add: length_keys wf_insert finite_dom)
next
  case (Some a)
  with assms show ?thesis by (simp add: length_keys wf_insert find_insert)
qed

lemma size_erase_le:
  assumes "wf m" shows "length (keys (erase k m)) \<le> length (keys m)"
proof -
  have "dom (find (erase k m)) \<subseteq> dom (find m)" using assms by (auto simp: find_erase)
  then show ?thesis using assms by (simp add: length_keys wf_erase finite_dom card_mono)
qed

end

subsection \<open>The sorted association list is an ordered map\<close>

lemma fst_set_map_put [simp]: "fst ` set (map_put k v m) = insert k (fst ` set m)"
  by (induction m) auto

lemma map_wf_Nil [simp, intro]: "map_wf []"
  by (simp add: map_wf_def)

lemma map_wf_Cons: "map_wf (e # m) \<longleftrightarrow> (\<forall>x \<in> set m. fst e < fst x) \<and> map_wf m"
  by (simp add: map_wf_def)

lemma map_wf_distinct: "map_wf m \<Longrightarrow> distinct (map fst m)"
  by (simp add: map_wf_def strict_sorted_iff)

lemma map_of_map_put [simp]: "map_of (map_put k v m) = (map_of m)(k \<mapsto> v)"
  by (induction m) (auto simp: fun_eq_iff)

lemma map_wf_map_put [simp, intro]: "map_wf m \<Longrightarrow> map_wf (map_put k v m)"
proof (induction m)
  case (Cons e m)
  then have "\<forall>x \<in> set m. fst e < fst x" and "map_wf m" by (auto simp: map_wf_Cons)
  moreover have "\<forall>x \<in> set (map_put k v m). fst x = k \<or> fst x \<in> fst ` set m"
    using fst_set_map_put [of k v m] by blast
  ultimately show ?case using Cons.IH by (fastforce simp: map_wf_Cons)
qed (simp add: map_wf_def)

lemma map_of_map_insert:
  "map_of (map_insert k v m) = (case map_of m k of None \<Rightarrow> (map_of m)(k \<mapsto> v) | Some _ \<Rightarrow> map_of m)"
  by (simp add: map_insert_def split: option.split)

lemma map_wf_map_insert [simp, intro]: "map_wf m \<Longrightarrow> map_wf (map_insert k v m)"
  by (simp add: map_insert_def split: option.split)

lemma map_of_map_erase [simp]: "map_of (map_erase k m) = (map_of m)(k := None)"
  by (induction m) (auto simp: map_erase_def fun_eq_iff)

lemma map_wf_filter [simp, intro]: "map_wf m \<Longrightarrow> map_wf (filter P m)"
  by (induction m) (auto simp: map_wf_Cons)

lemma map_wf_map_erase [simp, intro]: "map_wf m \<Longrightarrow> map_wf (map_erase k m)"
  by (simp add: map_erase_def)

lemma map_fst_map_modify [simp]: "map fst (map_modify k f m) = map fst m"
  by (induction m) (auto simp: map_modify_def)

lemma map_wf_map_modify [simp]: "map_wf (map_modify k f m) = map_wf m"
  by (simp add: map_wf_def)

lemma length_map_modify [simp]: "length (map_modify k f m) = length m"
  by (simp add: map_modify_def)

lemma map_of_map_modify [simp]: "map_of (map_modify k f m) x = (if x = k then map_option f (map_of m k) else map_of m x)"
  by (induction m) (auto simp: map_modify_def)

lemma map_of_Some_iff: "map_wf m \<Longrightarrow> map_of m k = Some v \<longleftrightarrow> (k, v) \<in> set m"
  by (simp add: map_wf_distinct)

lemma map_of_filter:
  "map_wf m \<Longrightarrow>
   map_of (filter P m) k = (case map_of m k of None \<Rightarrow> None | Some v \<Rightarrow> if P (k, v) then Some v else None)"
proof (induction m)
  case (Cons e m)
  then have "\<forall>x \<in> set m. fst e < fst x" by (simp add: map_wf_Cons)
  then have "map_of m (fst e) = None" by (auto simp: map_of_eq_None_iff)
  with Cons show ?case by (cases e) (auto simp: map_wf_Cons)
qed simp

interpretation smap: ordered_map "[]" "map_of" map_insert map_put map_erase map_keys map_wf
proof unfold_locales
  fix m :: "('a::linorder, 'b) smap"
  show "set (map_keys m) = dom (map_of m)"
    by (simp add: map_keys_def dom_map_of_conv_image_fst)
  assume "map_wf m" then show "sorted_wrt (<) (map_keys m)"
    by (simp add: map_keys_def map_wf_def)
qed (simp_all add: map_of_map_insert)

lemma length_map_keys [simp]: "length (map_keys m) = length m"
  by (simp add: map_keys_def)

lemmas length_map_insert = smap.size_insert [simplified]
lemmas length_map_erase_le = smap.size_erase_le [simplified]

section \<open>Statuses and field values of \<open>rdc.h\<close>\<close>

datatype rdc_status =
    RDC_ST_OK | RDC_ST_NOT_SUPPORTED | RDC_ST_MSI_ERROR | RDC_ST_FAIL_LOAD_MODULE
  | RDC_ST_INVALID_HANDLER | RDC_ST_BAD_PARAMETER | RDC_ST_NOT_FOUND | RDC_ST_CONFLICT
  | RDC_ST_CLIENT_ERROR | RDC_ST_ALREADY_EXIST | RDC_ST_MAX_LIMIT | RDC_ST_INSUFF_RESOURCES
  | RDC_ST_FILE_ERROR | RDC_ST_NO_DATA | RDC_ST_PERM_ERROR | RDC_ST_DISABLED_MODULE
  | RDC_ST_UNKNOWN_ERROR

text \<open>
  The statuses of the AMD SMI library that the sources name; every other code of that
  library is \<open>AMDSMI_STATUS_OTHER\<close>.
\<close>

datatype amdsmi_status =
    AMDSMI_STATUS_SUCCESS | AMDSMI_STATUS_INVAL | AMDSMI_STATUS_NOT_SUPPORTED
  | AMDSMI_STATUS_NOT_FOUND | AMDSMI_STATUS_OUT_OF_RESOURCES | AMDSMI_STATUS_FILE_ERROR
  | AMDSMI_STATUS_NO_DATA | AMDSMI_STATUS_NO_PERM | AMDSMI_STATUS_BUSY
  | AMDSMI_STATUS_UNKNOWN_ERROR | AMDSMI_STATUS_INTERNAL_EXCEPTION
  | AMDSMI_STATUS_INPUT_OUT_OF_BOUNDS | AMDSMI_STATUS_INIT_ERROR
  | AMDSMI_STATUS_NOT_YET_IMPLEMENTED | AMDSMI_STATUS_INSUFFICIENT_SIZE
  | AMDSMI_STATUS_INTERRUPT | AMDSMI_STATUS_UNEXPECTED_SIZE | AMDSMI_STATUS_UNEXPECTED_DATA
  | AMDSMI_STATUS_REFCOUNT_OVERFLOW | AMDSMI_STATUS_OTHER nat

text \<open>
  \<^verbatim>\<open>rdc_field_value::status\<close> is an \<^verbatim>\<open>int\<close> that receives codes of both
  enumerations; the sources only compare it with the two success codes, which are both 0.
\<close>

datatype value_status = St_rdc rdc_status | St_smi amdsmi_status

fun value_status_ok :: "value_status \<Rightarrow> bool" where
  "value_status_ok (St_rdc s) \<longleftrightarrow> s = RDC_ST_OK"
| "value_status_ok (St_smi s) \<longleftrightarrow> s = AMDSMI_STATUS_SUCCESS"

datatype rdc_field_type = INTEGER | DOUBLE | STRING | BLOB

text \<open>
  The union \<^verbatim>\<open>rdc_field_value_data\<close> with its active member. A \<^verbatim>\<open>double\<close> is
  kept as its 64-bit pattern: it shares its eight bytes with \<^verbatim>\<open>l_int\<close>, and the
  library copies it without computing with it. Reading \<^verbatim>\<open>l_int\<close> while the string is
  active reads the first eight bytes of the buffer, least significant first.
\<close>

datatype rdc_field_value_data = L_int i64 | Dbl u64 | Str string

definition str_l_int :: "string \<Rightarrow> i64" where
  "str_l_int s = foldr (\<lambda>c w. word_of_nat (of_char c) + 256 * w) (take 8 s) 0"

fun l_int :: "rdc_field_value_data \<Rightarrow> i64" where
  "l_int (L_int w) = w"
| "l_int (Dbl w) = w"
| "l_int (Str s) = str_l_int s"

text \<open>
  Reading the character array: while a number is active its eight bytes come first, and
  the C string ends at the first zero byte.
\<close>

definition word_bytes :: "u64 \<Rightarrow> string" where
  "word_bytes w = map (\<lambda>i. char_of (unat (take_bit 8 (drop_bit (8 * i) w)))) [0..<8]"

fun c_str :: "rdc_field_value_data \<Rightarrow> string" where
  "c_str (Str s) = s"
| "c_str (L_int w) = takeWhile (\<lambda>c. c \<noteq> CHR 0x00) (word_bytes w)"
| "c_str (Dbl w) = takeWhile (\<lambda>c. c \<noteq> CHR 0x00) (word_bytes w)"

record rdc_field_value =
  fv_field_id :: u32
  fv_status :: value_status
  fv_ts :: u64
  fv_type :: rdc_field_type
  fv_value :: rdc_field_value_data

section \<open>C strings\<close>

text \<open>
  A C string is the \<^typ>\<open>string\<close> of its bytes before the terminating zero. The result is
  what the destination buffer holds as a C string; it is unchanged for a buffer of size 0.
\<close>

definition RDC_MAX_STR_LENGTH :: nat where
  "RDC_MAX_STR_LENGTH = 256"

definition strncpy_with_null :: "string \<Rightarrow> string \<Rightarrow> nat \<Rightarrow> string" where
  "strncpy_with_null dest src n = (if n = 0 then dest else take (n - 1) src)"

lemma length_strncpy_with_null: "0 < n \<Longrightarrow> length (strncpy_with_null d s n) < n"
  by (simp add: strncpy_with_null_def)

lemma strncpy_with_null_id: "length s < n \<Longrightarrow> strncpy_with_null d s n = s"
  by (simp add: strncpy_with_null_def)

lemma strncpy_with_null_twice:
  "strncpy_with_null d' (strncpy_with_null d s n) n = strncpy_with_null d' s n"
  by (simp add: strncpy_with_null_def)

section \<open>Invariants of transition systems\<close>

text \<open>
  The interface of a component that is driven one call at a time: an initial state, a step
  relation and a predicate that holds initially and that every step keeps.
\<close>

locale invariant_system =
  fixes init :: "'s \<Rightarrow> bool"
    and step :: "'s \<Rightarrow> 's \<Rightarrow> bool"
    and inv :: "'s \<Rightarrow> bool"
  assumes inv_init: "init s \<Longrightarrow> inv s"
    and inv_step: "inv s \<Longrightarrow> step s s' \<Longrightarrow> inv s'"
begin

lemma inv_steps: "step\<^sup>*\<^sup>* s s' \<Longrightarrow> inv s \<Longrightarrow> inv s'"
  by (induction rule: rtranclp_induct) (auto intro: inv_step)

lemma inv_reachable: "init s \<Longrightarrow> step\<^sup>*\<^sup>* s s' \<Longrightarrow> inv s'"
  using inv_steps inv_init by blast

end

end
