(* ===== verification/Rdc_Fields.thy ===== *)
theory Rdc_Fields
  imports Rdc_Prelude
begin

text \<open>
  The telemetry fields: the enumeration \<^verbatim>\<open>rdc_field_t\<close> of
  \<^verbatim>\<open>include/rdc/rdc.h\<close> (its enumerators as 32-bit constants, the form in which
  they travel through the containers), and the lookup functions of
  \<^verbatim>\<open>common/rdc_fields_supported.cc\<close> over the table that the preprocessor builds
  from \<^verbatim>\<open>common/rdc_field.data\<close>. Of a table row the enumerator name is kept; the
  description, label and display flag only feed the command line tool's output.
\<close>

section \<open>The enumerators\<close>

abbreviation (input) RDC_FI_INVALID :: u32 where "RDC_FI_INVALID \<equiv> 0"
abbreviation (input) RDC_FI_GPU_COUNT :: u32 where "RDC_FI_GPU_COUNT \<equiv> 1"
abbreviation (input) RDC_FI_DEV_NAME :: u32 where "RDC_FI_DEV_NAME \<equiv> 2"
abbreviation (input) RDC_FI_OAM_ID :: u32 where "RDC_FI_OAM_ID \<equiv> 3"
abbreviation (input) RDC_FI_GPU_CLOCK :: u32 where "RDC_FI_GPU_CLOCK \<equiv> 100"
abbreviation (input) RDC_FI_MEM_CLOCK :: u32 where "RDC_FI_MEM_CLOCK \<equiv> 101"
abbreviation (input) RDC_FI_MEMORY_TEMP :: u32 where "RDC_FI_MEMORY_TEMP \<equiv> 200"
abbreviation (input) RDC_FI_GPU_TEMP :: u32 where "RDC_FI_GPU_TEMP \<equiv> 201"
abbreviation (input) RDC_FI_POWER_USAGE :: u32 where "RDC_FI_POWER_USAGE \<equiv> 300"
abbreviation (input) RDC_FI_PCIE_TX :: u32 where "RDC_FI_PCIE_TX \<equiv> 400"
abbreviation (input) RDC_FI_PCIE_RX :: u32 where "RDC_FI_PCIE_RX \<equiv> 401"
abbreviation (input) RDC_FI_PCIE_BANDWIDTH :: u32 where "RDC_FI_PCIE_BANDWIDTH \<equiv> 402"
abbreviation (input) RDC_FI_GPU_UTIL :: u32 where "RDC_FI_GPU_UTIL \<equiv> 500"
abbreviation (input) RDC_FI_GPU_MEMORY_USAGE :: u32 where "RDC_FI_GPU_MEMORY_USAGE \<equiv> 501"
abbreviation (input) RDC_FI_GPU_MEMORY_TOTAL :: u32 where "RDC_FI_GPU_MEMORY_TOTAL \<equiv> 502"
abbreviation (input) RDC_FI_GPU_MM_ENC_UTIL :: u32 where "RDC_FI_GPU_MM_ENC_UTIL \<equiv> 503"
abbreviation (input) RDC_FI_GPU_MM_DEC_UTIL :: u32 where "RDC_FI_GPU_MM_DEC_UTIL \<equiv> 504"
abbreviation (input) RDC_FI_GPU_MEMORY_ACTIVITY :: u32 where "RDC_FI_GPU_MEMORY_ACTIVITY \<equiv> 505"
abbreviation (input) RDC_FI_ECC_CORRECT_TOTAL :: u32 where "RDC_FI_ECC_CORRECT_TOTAL \<equiv> 600"
abbreviation (input) RDC_FI_ECC_UNCORRECT_TOTAL :: u32 where "RDC_FI_ECC_UNCORRECT_TOTAL \<equiv> 601"
abbreviation (input) RDC_FI_ECC_FIRST :: u32 where "RDC_FI_ECC_FIRST \<equiv> 602"
abbreviation (input) RDC_FI_ECC_SDMA_CE :: u32 where "RDC_FI_ECC_SDMA_CE \<equiv> 602"
abbreviation (input) RDC_FI_ECC_SDMA_UE :: u32 where "RDC_FI_ECC_SDMA_UE \<equiv> 603"
abbreviation (input) RDC_FI_ECC_GFX_CE :: u32 where "RDC_FI_ECC_GFX_CE \<equiv> 604"
abbreviation (input) RDC_FI_ECC_GFX_UE :: u32 where "RDC_FI_ECC_GFX_UE \<equiv> 605"
abbreviation (input) RDC_FI_ECC_MMHUB_CE :: u32 where "RDC_FI_ECC_MMHUB_CE \<equiv> 606"
abbreviation (input) RDC_FI_ECC_MMHUB_UE :: u32 where "RDC_FI_ECC_MMHUB_UE \<equiv> 607"
abbreviation (input) RDC_FI_ECC_ATHUB_CE :: u32 where "RDC_FI_ECC_ATHUB_CE \<equiv> 608"
abbreviation (input) RDC_FI_ECC_ATHUB_UE :: u32 where "RDC_FI_ECC_ATHUB_UE \<equiv> 609"
abbreviation (input) RDC_FI_ECC_PCIE_BIF_CE :: u32 where "RDC_FI_ECC_PCIE_BIF_CE \<equiv> 610"
abbreviation (input) RDC_FI_ECC_PCIE_BIF_UE :: u32 where "RDC_FI_ECC_PCIE_BIF_UE \<equiv> 611"
abbreviation (input) RDC_FI_ECC_HDP_CE :: u32 where "RDC_FI_ECC_HDP_CE \<equiv> 612"
abbreviation (input) RDC_FI_ECC_HDP_UE :: u32 where "RDC_FI_ECC_HDP_UE \<equiv> 613"
abbreviation (input) RDC_FI_ECC_XGMI_WAFL_CE :: u32 where "RDC_FI_ECC_XGMI_WAFL_CE \<equiv> 614"
abbreviation (input) RDC_FI_ECC_XGMI_WAFL_UE :: u32 where "RDC_FI_ECC_XGMI_WAFL_UE \<equiv> 615"
abbreviation (input) RDC_FI_ECC_DF_CE :: u32 where "RDC_FI_ECC_DF_CE \<equiv> 616"
abbreviation (input) RDC_FI_ECC_DF_UE :: u32 where "RDC_FI_ECC_DF_UE \<equiv> 617"
abbreviation (input) RDC_FI_ECC_SMN_CE :: u32 where "RDC_FI_ECC_SMN_CE \<equiv> 618"
abbreviation (input) RDC_FI_ECC_SMN_UE :: u32 where "RDC_FI_ECC_SMN_UE \<equiv> 619"
abbreviation (input) RDC_FI_ECC_SEM_CE :: u32 where "RDC_FI_ECC_SEM_CE \<equiv> 620"
abbreviation (input) RDC_FI_ECC_SEM_UE :: u32 where "RDC_FI_ECC_SEM_UE \<equiv> 621"
abbreviation (input) RDC_FI_ECC_MP0_CE :: u32 where "RDC_FI_ECC_MP0_CE \<equiv> 622"
abbreviation (input) RDC_FI_ECC_MP0_UE :: u32 where "RDC_FI_ECC_MP0_UE \<equiv> 623"
abbreviation (input) RDC_FI_ECC_MP1_CE :: u32 where "RDC_FI_ECC_MP1_CE \<equiv> 624"
abbreviation (input) RDC_FI_ECC_MP1_UE :: u32 where "RDC_FI_ECC_MP1_UE \<equiv> 625"
abbreviation (input) RDC_FI_ECC_FUSE_CE :: u32 where "RDC_FI_ECC_FUSE_CE \<equiv> 626"
abbreviation (input) RDC_FI_ECC_FUSE_UE :: u32 where "RDC_FI_ECC_FUSE_UE \<equiv> 627"
abbreviation (input) RDC_FI_ECC_UMC_CE :: u32 where "RDC_FI_ECC_UMC_CE \<equiv> 628"
abbreviation (input) RDC_FI_ECC_UMC_UE :: u32 where "RDC_FI_ECC_UMC_UE \<equiv> 629"
abbreviation (input) RDC_FI_ECC_MCA_CE :: u32 where "RDC_FI_ECC_MCA_CE \<equiv> 630"
abbreviation (input) RDC_FI_ECC_MCA_UE :: u32 where "RDC_FI_ECC_MCA_UE \<equiv> 631"
abbreviation (input) RDC_FI_ECC_VCN_CE :: u32 where "RDC_FI_ECC_VCN_CE \<equiv> 632"
abbreviation (input) RDC_FI_ECC_VCN_UE :: u32 where "RDC_FI_ECC_VCN_UE \<equiv> 633"
abbreviation (input) RDC_FI_ECC_JPEG_CE :: u32 where "RDC_FI_ECC_JPEG_CE \<equiv> 634"
abbreviation (input) RDC_FI_ECC_JPEG_UE :: u32 where "RDC_FI_ECC_JPEG_UE \<equiv> 635"
abbreviation (input) RDC_FI_ECC_IH_CE :: u32 where "RDC_FI_ECC_IH_CE \<equiv> 636"
abbreviation (input) RDC_FI_ECC_IH_UE :: u32 where "RDC_FI_ECC_IH_UE \<equiv> 637"
abbreviation (input) RDC_FI_ECC_MPIO_CE :: u32 where "RDC_FI_ECC_MPIO_CE \<equiv> 638"
abbreviation (input) RDC_FI_ECC_MPIO_UE :: u32 where "RDC_FI_ECC_MPIO_UE \<equiv> 639"
abbreviation (input) RDC_FI_ECC_LAST :: u32 where "RDC_FI_ECC_LAST \<equiv> 639"
abbreviation (input) RDC_FI_XGMI_0_READ_KB :: u32 where "RDC_FI_XGMI_0_READ_KB \<equiv> 700"
abbreviation (input) RDC_FI_XGMI_1_READ_KB :: u32 where "RDC_FI_XGMI_1_READ_KB \<equiv> 701"
abbreviation (input) RDC_FI_XGMI_2_READ_KB :: u32 where "RDC_FI_XGMI_2_READ_KB \<equiv> 702"
abbreviation (input) RDC_FI_XGMI_3_READ_KB :: u32 where "RDC_FI_XGMI_3_READ_KB \<equiv> 703"
abbreviation (input) RDC_FI_XGMI_4_READ_KB :: u32 where "RDC_FI_XGMI_4_READ_KB \<equiv> 704"
abbreviation (input) RDC_FI_XGMI_5_READ_KB :: u32 where "RDC_FI_XGMI_5_READ_KB \<equiv> 705"
abbreviation (input) RDC_FI_XGMI_6_READ_KB :: u32 where "RDC_FI_XGMI_6_READ_KB \<equiv> 706"
abbreviation (input) RDC_FI_XGMI_7_READ_KB :: u32 where "RDC_FI_XGMI_7_READ_KB \<equiv> 707"
abbreviation (input) RDC_FI_XGMI_0_WRITE_KB :: u32 where "RDC_FI_XGMI_0_WRITE_KB \<equiv> 708"
abbreviation (input) RDC_FI_XGMI_1_WRITE_KB :: u32 where "RDC_FI_XGMI_1_WRITE_KB \<equiv> 709"
abbreviation (input) RDC_FI_XGMI_2_WRITE_KB :: u32 where "RDC_FI_XGMI_2_WRITE_KB \<equiv> 710"
abbreviation (input) RDC_FI_XGMI_3_WRITE_KB :: u32 where "RDC_FI_XGMI_3_WRITE_KB \<equiv> 711"
abbreviation (input) RDC_FI_XGMI_4_WRITE_KB :: u32 where "RDC_FI_XGMI_4_WRITE_KB \<equiv> 712"
abbreviation (input) RDC_FI_XGMI_5_WRITE_KB :: u32 where "RDC_FI_XGMI_5_WRITE_KB \<equiv> 713"
abbreviation (input) RDC_FI_XGMI_6_WRITE_KB :: u32 where "RDC_FI_XGMI_6_WRITE_KB \<equiv> 714"
abbreviation (input) RDC_FI_XGMI_7_WRITE_KB :: u32 where "RDC_FI_XGMI_7_WRITE_KB \<equiv> 715"
abbreviation (input) RDC_FI_XGMI_TOTAL_READ_KB :: u32 where "RDC_FI_XGMI_TOTAL_READ_KB \<equiv> 716"
abbreviation (input) RDC_FI_XGMI_TOTAL_WRITE_KB :: u32 where "RDC_FI_XGMI_TOTAL_WRITE_KB \<equiv> 717"
abbreviation (input) RDC_FI_PROF_OCCUPANCY_PERCENT :: u32 where "RDC_FI_PROF_OCCUPANCY_PERCENT \<equiv> 800"
abbreviation (input) RDC_FI_PROF_ACTIVE_CYCLES :: u32 where "RDC_FI_PROF_ACTIVE_CYCLES \<equiv> 801"
abbreviation (input) RDC_FI_PROF_ACTIVE_WAVES :: u32 where "RDC_FI_PROF_ACTIVE_WAVES \<equiv> 802"
abbreviation (input) RDC_FI_PROF_ELAPSED_CYCLES :: u32 where "RDC_FI_PROF_ELAPSED_CYCLES \<equiv> 803"
abbreviation (input) RDC_FI_PROF_TENSOR_ACTIVE_PERCENT :: u32 where "RDC_FI_PROF_TENSOR_ACTIVE_PERCENT \<equiv> 804"
abbreviation (input) RDC_FI_PROF_GPU_UTIL_PERCENT :: u32 where "RDC_FI_PROF_GPU_UTIL_PERCENT \<equiv> 805"
abbreviation (input) RDC_FI_PROF_EVAL_MEM_R_BW :: u32 where "RDC_FI_PROF_EVAL_MEM_R_BW \<equiv> 806"
abbreviation (input) RDC_FI_PROF_EVAL_MEM_W_BW :: u32 where "RDC_FI_PROF_EVAL_MEM_W_BW \<equiv> 807"
abbreviation (input) RDC_FI_PROF_EVAL_FLOPS_16 :: u32 where "RDC_FI_PROF_EVAL_FLOPS_16 \<equiv> 808"
abbreviation (input) RDC_FI_PROF_EVAL_FLOPS_32 :: u32 where "RDC_FI_PROF_EVAL_FLOPS_32 \<equiv> 809"
abbreviation (input) RDC_FI_PROF_EVAL_FLOPS_64 :: u32 where "RDC_FI_PROF_EVAL_FLOPS_64 \<equiv> 810"
abbreviation (input) RDC_EVNT_XGMI_0_NOP_TX :: u32 where "RDC_EVNT_XGMI_0_NOP_TX \<equiv> 1000"
abbreviation (input) RDC_EVNT_XGMI_0_REQ_TX :: u32 where "RDC_EVNT_XGMI_0_REQ_TX \<equiv> 1001"
abbreviation (input) RDC_EVNT_XGMI_0_RESP_TX :: u32 where "RDC_EVNT_XGMI_0_RESP_TX \<equiv> 1002"
abbreviation (input) RDC_EVNT_XGMI_0_BEATS_TX :: u32 where "RDC_EVNT_XGMI_0_BEATS_TX \<equiv> 1003"
abbreviation (input) RDC_EVNT_XGMI_1_NOP_TX :: u32 where "RDC_EVNT_XGMI_1_NOP_TX \<equiv> 1004"
abbreviation (input) RDC_EVNT_XGMI_1_REQ_TX :: u32 where "RDC_EVNT_XGMI_1_REQ_TX \<equiv> 1005"
abbreviation (input) RDC_EVNT_XGMI_1_RESP_TX :: u32 where "RDC_EVNT_XGMI_1_RESP_TX \<equiv> 1006"
abbreviation (input) RDC_EVNT_XGMI_1_BEATS_TX :: u32 where "RDC_EVNT_XGMI_1_BEATS_TX \<equiv> 1007"
abbreviation (input) RDC_EVNT_XGMI_0_THRPUT :: u32 where "RDC_EVNT_XGMI_0_THRPUT \<equiv> 1500"
abbreviation (input) RDC_EVNT_XGMI_1_THRPUT :: u32 where "RDC_EVNT_XGMI_1_THRPUT \<equiv> 1501"
abbreviation (input) RDC_EVNT_XGMI_2_THRPUT :: u32 where "RDC_EVNT_XGMI_2_THRPUT \<equiv> 1502"
abbreviation (input) RDC_EVNT_XGMI_3_THRPUT :: u32 where "RDC_EVNT_XGMI_3_THRPUT \<equiv> 1503"
abbreviation (input) RDC_EVNT_XGMI_4_THRPUT :: u32 where "RDC_EVNT_XGMI_4_THRPUT \<equiv> 1504"
abbreviation (input) RDC_EVNT_XGMI_5_THRPUT :: u32 where "RDC_EVNT_XGMI_5_THRPUT \<equiv> 1505"
abbreviation (input) RDC_EVNT_NOTIF_VMFAULT :: u32 where "RDC_EVNT_NOTIF_VMFAULT \<equiv> 2000"
abbreviation (input) RDC_EVNT_NOTIF_FIRST :: u32 where "RDC_EVNT_NOTIF_FIRST \<equiv> 2000"
abbreviation (input) RDC_EVNT_NOTIF_THERMAL_THROTTLE :: u32 where "RDC_EVNT_NOTIF_THERMAL_THROTTLE \<equiv> 2001"
abbreviation (input) RDC_EVNT_NOTIF_PRE_RESET :: u32 where "RDC_EVNT_NOTIF_PRE_RESET \<equiv> 2002"
abbreviation (input) RDC_EVNT_NOTIF_POST_RESET :: u32 where "RDC_EVNT_NOTIF_POST_RESET \<equiv> 2003"
abbreviation (input) RDC_EVNT_NOTIF_RING_HANG :: u32 where "RDC_EVNT_NOTIF_RING_HANG \<equiv> 2004"
abbreviation (input) RDC_EVNT_NOTIF_LAST :: u32 where "RDC_EVNT_NOTIF_LAST \<equiv> 2004"

section \<open>The field table and its lookups\<close>

definition field_id_to_descript :: "(u32, string) smap" where
  "field_id_to_descript =
    [(RDC_FI_INVALID, ''RDC_FI_INVALID''),
     (RDC_FI_GPU_COUNT, ''RDC_FI_GPU_COUNT''),
     (RDC_FI_DEV_NAME, ''RDC_FI_DEV_NAME''),
     (RDC_FI_OAM_ID, ''RDC_FI_OAM_ID''),
     (RDC_FI_GPU_CLOCK, ''RDC_FI_GPU_CLOCK''),
     (RDC_FI_MEM_CLOCK, ''RDC_FI_MEM_CLOCK''),
     (RDC_FI_MEMORY_TEMP, ''RDC_FI_MEMORY_TEMP''),
     (RDC_FI_GPU_TEMP, ''RDC_FI_GPU_TEMP''),
     (RDC_FI_POWER_USAGE, ''RDC_FI_POWER_USAGE''),
     (RDC_FI_PCIE_TX, ''RDC_FI_PCIE_TX''),
     (RDC_FI_PCIE_RX, ''RDC_FI_PCIE_RX''),
     (RDC_FI_PCIE_BANDWIDTH, ''RDC_FI_PCIE_BANDWIDTH''),
     (RDC_FI_GPU_UTIL, ''RDC_FI_GPU_UTIL''),
     (RDC_FI_GPU_MEMORY_USAGE, ''RDC_FI_GPU_MEMORY_USAGE''),
     (RDC_FI_GPU_MEMORY_TOTAL, ''RDC_FI_GPU_MEMORY_TOTAL''),
     (RDC_FI_GPU_MM_ENC_UTIL, ''RDC_FI_GPU_MM_ENC_UTIL''),
     (RDC_FI_GPU_MM_DEC_UTIL, ''RDC_FI_GPU_MM_DEC_UTIL''),
     (RDC_FI_GPU_MEMORY_ACTIVITY, ''RDC_FI_GPU_MEMORY_ACTIVITY''),
     (RDC_FI_ECC_CORRECT_TOTAL, ''RDC_FI_ECC_CORRECT_TOTAL''),
     (RDC_FI_ECC_UNCORRECT_TOTAL, ''RDC_FI_ECC_UNCORRECT_TOTAL''),
     (RDC_FI_ECC_SDMA_CE, ''RDC_FI_ECC_SDMA_CE''),
     (RDC_FI_ECC_SDMA_UE, ''RDC_FI_ECC_SDMA_UE''),
     (RDC_FI_ECC_GFX_CE, ''RDC_FI_ECC_GFX_CE''),
     (RDC_FI_ECC_GFX_UE, ''RDC_FI_ECC_GFX_UE''),
     (RDC_FI_ECC_MMHUB_CE, ''RDC_FI_ECC_MMHUB_CE''),
     (RDC_FI_ECC_MMHUB_UE, ''RDC_FI_ECC_MMHUB_UE''),
     (RDC_FI_ECC_ATHUB_CE, ''RDC_FI_ECC_ATHUB_CE''),
     (RDC_FI_ECC_ATHUB_UE, ''RDC_FI_ECC_ATHUB_UE''),
     (RDC_FI_ECC_PCIE_BIF_CE, ''RDC_FI_ECC_PCIE_BIF_CE''),
     (RDC_FI_ECC_PCIE_BIF_UE, ''RDC_FI_ECC_PCIE_BIF_UE''),
     (RDC_FI_ECC_HDP_CE, ''RDC_FI_ECC_HDP_CE''),
     (RDC_FI_ECC_HDP_UE, ''RDC_FI_ECC_HDP_UE''),
     (RDC_FI_ECC_XGMI_WAFL_CE, ''RDC_FI_ECC_XGMI_WAFL_CE''),
     (RDC_FI_ECC_XGMI_WAFL_UE, ''RDC_FI_ECC_XGMI_WAFL_UE''),
     (RDC_FI_ECC_DF_CE, ''RDC_FI_ECC_DF_CE''),
     (RDC_FI_ECC_DF_UE, ''RDC_FI_ECC_DF_UE''),
     (RDC_FI_ECC_SMN_CE, ''RDC_FI_ECC_SMN_CE''),
     (RDC_FI_ECC_SMN_UE, ''RDC_FI_ECC_SMN_UE''),
     (RDC_FI_ECC_SEM_CE, ''RDC_FI_ECC_SEM_CE''),
     (RDC_FI_ECC_SEM_UE, ''RDC_FI_ECC_SEM_UE''),
     (RDC_FI_ECC_MP0_CE, ''RDC_FI_ECC_MP0_CE''),
     (RDC_FI_ECC_MP0_UE, ''RDC_FI_ECC_MP0_UE''),
     (RDC_FI_ECC_MP1_CE, ''RDC_FI_ECC_MP1_CE''),
     (RDC_FI_ECC_MP1_UE, ''RDC_FI_ECC_MP1_UE''),
     (RDC_FI_ECC_FUSE_CE, ''RDC_FI_ECC_FUSE_CE''),
     (RDC_FI_ECC_FUSE_UE, ''RDC_FI_ECC_FUSE_UE''),
     (RDC_FI_ECC_UMC_CE, ''RDC_FI_ECC_UMC_CE''),
     (RDC_FI_ECC_UMC_UE, ''RDC_FI_ECC_UMC_UE''),
     (RDC_FI_ECC_MCA_CE, ''RDC_FI_ECC_MCA_CE''),
     (RDC_FI_ECC_MCA_UE, ''RDC_FI_ECC_MCA_UE''),
     (RDC_FI_ECC_VCN_CE, ''RDC_FI_ECC_VCN_CE''),
     (RDC_FI_ECC_VCN_UE, ''RDC_FI_ECC_VCN_UE''),
     (RDC_FI_ECC_JPEG_CE, ''RDC_FI_ECC_JPEG_CE''),
     (RDC_FI_ECC_JPEG_UE, ''RDC_FI_ECC_JPEG_UE''),
     (RDC_FI_ECC_IH_CE, ''RDC_FI_ECC_IH_CE''),
     (RDC_FI_ECC_IH_UE, ''RDC_FI_ECC_IH_UE''),
     (RDC_FI_ECC_MPIO_CE, ''RDC_FI_ECC_MPIO_CE''),
     (RDC_FI_ECC_MPIO_UE, ''RDC_FI_ECC_MPIO_UE''),
     (RDC_FI_XGMI_0_READ_KB, ''RDC_FI_XGMI_0_READ_KB''),
     (RDC_FI_XGMI_1_READ_KB, ''RDC_FI_XGMI_1_READ_KB''),
     (RDC_FI_XGMI_2_READ_KB, ''RDC_FI_XGMI_2_READ_KB''),
     (RDC_FI_XGMI_3_READ_KB, ''RDC_FI_XGMI_3_READ_KB''),
     (RDC_FI_XGMI_4_READ_KB, ''RDC_FI_XGMI_4_READ_KB''),
     (RDC_FI_XGMI_5_READ_KB, ''RDC_FI_XGMI_5_READ_KB''),
     (RDC_FI_XGMI_6_READ_KB, ''RDC_FI_XGMI_6_READ_KB''),
     (RDC_FI_XGMI_7_READ_KB, ''RDC_FI_XGMI_7_READ_KB''),
     (RDC_FI_XGMI_0_WRITE_KB, ''RDC_FI_XGMI_0_WRITE_KB''),
     (RDC_FI_XGMI_1_WRITE_KB, ''RDC_FI_XGMI_1_WRITE_KB''),
     (RDC_FI_XGMI_2_WRITE_KB, ''RDC_FI_XGMI_2_WRITE_KB''),
     (RDC_FI_XGMI_3_WRITE_KB, ''RDC_FI_XGMI_3_WRITE_KB''),
     (RDC_FI_XGMI_4_WRITE_KB, ''RDC_FI_XGMI_4_WRITE_KB''),
     (RDC_FI_XGMI_5_WRITE_KB, ''RDC_FI_XGMI_5_WRITE_KB''),
     (RDC_FI_XGMI_6_WRITE_KB, ''RDC_FI_XGMI_6_WRITE_KB''),
     (RDC_FI_XGMI_7_WRITE_KB, ''RDC_FI_XGMI_7_WRITE_KB''),
     (RDC_FI_XGMI_TOTAL_READ_KB, ''RDC_FI_XGMI_TOTAL_READ_KB''),
     (RDC_FI_XGMI_TOTAL_WRITE_KB, ''RDC_FI_XGMI_TOTAL_WRITE_KB''),
     (RDC_FI_PROF_OCCUPANCY_PERCENT, ''RDC_FI_PROF_OCCUPANCY_PERCENT''),
     (RDC_FI_PROF_ACTIVE_CYCLES, ''RDC_FI_PROF_ACTIVE_CYCLES''),
     (RDC_FI_PROF_ACTIVE_WAVES, ''RDC_FI_PROF_ACTIVE_WAVES''),
     (RDC_FI_PROF_ELAPSED_CYCLES, ''RDC_FI_PROF_ELAPSED_CYCLES''),
     (RDC_FI_PROF_TENSOR_ACTIVE_PERCENT, ''RDC_FI_PROF_TENSOR_ACTIVE_PERCENT''),
     (RDC_FI_PROF_GPU_UTIL_PERCENT, ''RDC_FI_PROF_GPU_UTIL_PERCENT''),
     (RDC_FI_PROF_EVAL_MEM_R_BW, ''RDC_FI_PROF_EVAL_MEM_R_BW''),
     (RDC_FI_PROF_EVAL_MEM_W_BW, ''RDC_FI_PROF_EVAL_MEM_W_BW''),
     (RDC_FI_PROF_EVAL_FLOPS_16, ''RDC_FI_PROF_EVAL_FLOPS_16''),
     (RDC_FI_PROF_EVAL_FLOPS_32, ''RDC_FI_PROF_EVAL_FLOPS_32''),
     (RDC_FI_PROF_EVAL_FLOPS_64, ''RDC_FI_PROF_EVAL_FLOPS_64''),
     (RDC_EVNT_XGMI_0_NOP_TX, ''RDC_EVNT_XGMI_0_NOP_TX''),
     (RDC_EVNT_XGMI_0_REQ_TX, ''RDC_EVNT_XGMI_0_REQ_TX''),
     (RDC_EVNT_XGMI_0_RESP_TX, ''RDC_EVNT_XGMI_0_RESP_TX''),
     (RDC_EVNT_XGMI_0_BEATS_TX, ''RDC_EVNT_XGMI_0_BEATS_TX''),
     (RDC_EVNT_XGMI_1_NOP_TX, ''RDC_EVNT_XGMI_1_NOP_TX''),
     (RDC_EVNT_XGMI_1_REQ_TX, ''RDC_EVNT_XGMI_1_REQ_TX''),
     (RDC_EVNT_XGMI_1_RESP_TX, ''RDC_EVNT_XGMI_1_RESP_TX''),
     (RDC_EVNT_XGMI_1_BEATS_TX, ''RDC_EVNT_XGMI_1_BEATS_TX''),
     (RDC_EVNT_XGMI_0_THRPUT, ''RDC_EVNT_XGMI_0_THRPUT''),
     (RDC_EVNT_XGMI_1_THRPUT, ''RDC_EVNT_XGMI_1_THRPUT''),
     (RDC_EVNT_XGMI_2_THRPUT, ''RDC_EVNT_XGMI_2_THRPUT''),
     (RDC_EVNT_XGMI_3_THRPUT, ''RDC_EVNT_XGMI_3_THRPUT''),
     (RDC_EVNT_XGMI_4_THRPUT, ''RDC_EVNT_XGMI_4_THRPUT''),
     (RDC_EVNT_XGMI_5_THRPUT, ''RDC_EVNT_XGMI_5_THRPUT''),
     (RDC_EVNT_NOTIF_VMFAULT, ''RDC_EVNT_NOTIF_VMFAULT''),
     (RDC_EVNT_NOTIF_THERMAL_THROTTLE, ''RDC_EVNT_NOTIF_THERMAL_THROTTLE''),
     (RDC_EVNT_NOTIF_PRE_RESET, ''RDC_EVNT_NOTIF_PRE_RESET''),
     (RDC_EVNT_NOTIF_POST_RESET, ''RDC_EVNT_NOTIF_POST_RESET''),
     (RDC_EVNT_NOTIF_RING_HANG, ''RDC_EVNT_NOTIF_RING_HANG'')]"

definition field_name_to_id :: "(string \<times> u32) list" where
  "field_name_to_id = map (\<lambda>(i, n). (n, i)) field_id_to_descript"

definition is_field_valid :: "u32 \<Rightarrow> bool" where
  "is_field_valid fid =
     (if fid = RDC_FI_INVALID then False else map_of field_id_to_descript fid \<noteq> None)"

text \<open>
  \<^verbatim>\<open>amd::rdc::get_field_id_from_name\<close> writes its out parameter only on success; the
  public function of the same name in \<^verbatim>\<open>RdcBootStrap.cc\<close> maps the failure to
  \<open>RDC_FI_INVALID\<close>.
\<close>

definition find_field_id_from_name :: "string \<Rightarrow> u32 option" where
  "find_field_id_from_name nm = map_of field_name_to_id nm"

definition get_field_id_from_name :: "string \<Rightarrow> u32" where
  "get_field_id_from_name nm =
     (case find_field_id_from_name nm of Some i \<Rightarrow> i | None \<Rightarrow> RDC_FI_INVALID)"

section \<open>Properties\<close>

lemma field_table_sorted: "map_wf field_id_to_descript"
  unfolding map_wf_def field_id_to_descript_def
  by (simp add: sorted_wrt2_simps del: sorted_wrt.simps)

lemma field_ids_distinct: "distinct (map fst field_id_to_descript)"
  using field_table_sorted by (rule map_wf_distinct)

lemma field_names_distinct: "distinct (map snd field_id_to_descript)"
  unfolding field_id_to_descript_def by code_simp

lemma is_field_valid_iff:
  "is_field_valid fid \<longleftrightarrow> fid \<noteq> 0 \<and> fid \<in> fst ` set field_id_to_descript"
  by (auto simp: is_field_valid_def map_of_eq_None_iff)

lemma get_field_id_from_name_of_row:
  assumes "(i, n) \<in> set field_id_to_descript"
  shows "get_field_id_from_name n = i"
proof -
  have "distinct (map fst field_name_to_id)"
    using field_names_distinct by (simp add: field_name_to_id_def comp_def case_prod_beta)
  moreover have "(n, i) \<in> set field_name_to_id"
    using assms by (force simp: field_name_to_id_def)
  ultimately have "map_of field_name_to_id n = Some i" by (rule map_of_is_SomeI)
  then show ?thesis by (simp add: get_field_id_from_name_def find_field_id_from_name_def)
qed

end
