(* ===== verification/Rdc_Group_Settings.thy ===== *)
theory Rdc_Group_Settings
  imports Rdc_Fields
begin

text \<open>
  \<^verbatim>\<open>RdcGroupSettingsImpl\<close>: the GPU groups and field groups of a session. Both tables
  hand out identifiers from a counter, hold at most 64 entries and are looked up by
  identifier, so their common contract is the locale \<open>id_registry\<close>, interpreted once
  for each table.
\<close>

section \<open>State\<close>

definition RDC_GROUP_MAX_ENTITIES :: nat where "RDC_GROUP_MAX_ENTITIES = 64"
definition RDC_MAX_FIELD_IDS_PER_FIELD_GROUP :: nat where "RDC_MAX_FIELD_IDS_PER_FIELD_GROUP = 128"
definition RDC_MAX_NUM_GROUPS :: nat where "RDC_MAX_NUM_GROUPS = 64"
definition RDC_MAX_NUM_FIELD_GROUPS :: nat where "RDC_MAX_NUM_FIELD_GROUPS = 64"
definition JOB_FIELD_ID :: u32 where "JOB_FIELD_ID = 0"

lemmas limit_defs [rdc_defs] = RDC_GROUP_MAX_ENTITIES_def RDC_MAX_FIELD_IDS_PER_FIELD_GROUP_def
  RDC_MAX_NUM_GROUPS_def RDC_MAX_NUM_FIELD_GROUPS_def JOB_FIELD_ID_def RDC_MAX_STR_LENGTH_def

text \<open>An array with its element counter is the list of the elements in use.\<close>

record rdc_group_info =
  group_name :: string
  entity_ids :: "u32 list"

record rdc_field_group_info =
  fgroup_name :: string
  field_ids :: "u32 list"

record group_settings =
  gpu_group :: "(u32, rdc_group_info) smap"
  field_group :: "(u32, rdc_field_group_info) smap"
  cur_group_id :: u32
  cur_field_group_id :: u32

section \<open>Operations\<close>

text \<open>
  An operation returns its status, the value written to its out parameter (\<^const>\<open>None\<close>
  when nothing is written) and the new state.
\<close>

definition new_group_info :: "string \<Rightarrow> rdc_group_info" where
  "new_group_info nm =
     \<lparr>group_name = strncpy_with_null [] nm RDC_MAX_STR_LENGTH, entity_ids = []\<rparr>"

definition rdc_group_gpu_create ::
    "string \<Rightarrow> group_settings \<Rightarrow> rdc_status \<times> u32 option \<times> group_settings" where
  "rdc_group_gpu_create nm s =
     (if RDC_MAX_NUM_GROUPS \<le> length (gpu_group s) then (RDC_ST_MAX_LIMIT, None, s)
      else (RDC_ST_OK, Some (cur_group_id s),
            s\<lparr>gpu_group := map_insert (cur_group_id s) (new_group_info nm) (gpu_group s),
              cur_group_id := cur_group_id s + 1\<rparr>))"

definition rdc_group_gpu_destroy :: "u32 \<Rightarrow> group_settings \<Rightarrow> rdc_status \<times> group_settings" where
  "rdc_group_gpu_destroy gid s =
     (case map_of (gpu_group s) gid of
        None \<Rightarrow> (RDC_ST_NOT_FOUND, s)
      | Some _ \<Rightarrow> (RDC_ST_OK, s\<lparr>gpu_group := map_erase gid (gpu_group s)\<rparr>))"

definition rdc_group_gpu_add :: "u32 \<Rightarrow> u32 \<Rightarrow> group_settings \<Rightarrow> rdc_status \<times> group_settings" where
  "rdc_group_gpu_add gid gpu_index s =
     (case map_of (gpu_group s) gid of
        None \<Rightarrow> (RDC_ST_NOT_FOUND, s)
      | Some info \<Rightarrow>
          if gpu_index \<in> set (entity_ids info) then (RDC_ST_BAD_PARAMETER, s)
          else if length (entity_ids info) < RDC_GROUP_MAX_ENTITIES
          then (RDC_ST_OK,
                s\<lparr>gpu_group := map_modify gid
                    (\<lambda>i. i\<lparr>entity_ids := entity_ids i @ [gpu_index]\<rparr>) (gpu_group s)\<rparr>)
          else (RDC_ST_MAX_LIMIT, s))"

definition rdc_group_gpu_get_info ::
    "u32 \<Rightarrow> group_settings \<Rightarrow> rdc_status \<times> rdc_group_info option" where
  "rdc_group_gpu_get_info gid s =
     (case map_of (gpu_group s) gid of
        None \<Rightarrow> (RDC_ST_NOT_FOUND, None)
      | Some info \<Rightarrow>
          (RDC_ST_OK, Some \<lparr>group_name = strncpy_with_null [] (group_name info) RDC_MAX_STR_LENGTH,
                            entity_ids = entity_ids info\<rparr>))"

text \<open>
  The loop shared by the two listing functions: the array filled so far is \<open>out\<close>, its
  length is the counter that the bound check reads.
\<close>

fun collect_ids :: "nat \<Rightarrow> (u32 \<Rightarrow> bool) \<Rightarrow> u32 list \<Rightarrow> u32 list \<Rightarrow> rdc_status \<times> u32 list" where
  "collect_ids bnd skip [] out = (RDC_ST_OK, out)"
| "collect_ids bnd skip (k # ks) out =
     (if bnd \<le> length out then (RDC_ST_MAX_LIMIT, out)
      else if skip k then collect_ids bnd skip ks out
      else collect_ids bnd skip ks (out @ [k]))"

definition rdc_group_get_all_ids :: "group_settings \<Rightarrow> rdc_status \<times> u32 list" where
  "rdc_group_get_all_ids s =
     collect_ids RDC_MAX_NUM_GROUPS (\<lambda>_. False) (map_keys (gpu_group s)) []"

definition new_field_group_info :: "u32 list \<times> string \<Rightarrow> rdc_field_group_info" where
  "new_field_group_info a =
     \<lparr>fgroup_name = strncpy_with_null [] (snd a) RDC_MAX_STR_LENGTH, field_ids = fst a\<rparr>"

definition rdc_group_field_create ::
    "u32 list \<times> string \<Rightarrow> group_settings \<Rightarrow> rdc_status \<times> u32 option \<times> group_settings" where
  "rdc_group_field_create a s =
     (if \<not> length (fst a) \<le> RDC_MAX_FIELD_IDS_PER_FIELD_GROUP then (RDC_ST_MAX_LIMIT, None, s)
      else if RDC_MAX_NUM_FIELD_GROUPS \<le> length (field_group s) then (RDC_ST_MAX_LIMIT, None, s)
      else (RDC_ST_OK, Some (cur_field_group_id s),
            s\<lparr>field_group := map_insert (cur_field_group_id s) (new_field_group_info a) (field_group s),
              cur_field_group_id := cur_field_group_id s + 1\<rparr>))"

definition rdc_group_field_destroy :: "u32 \<Rightarrow> group_settings \<Rightarrow> rdc_status \<times> group_settings" where
  "rdc_group_field_destroy fgid s =
     (if fgid = JOB_FIELD_ID then (RDC_ST_BAD_PARAMETER, s)
      else case map_of (field_group s) fgid of
             None \<Rightarrow> (RDC_ST_NOT_FOUND, s)
           | Some _ \<Rightarrow> (RDC_ST_OK, s\<lparr>field_group := map_erase fgid (field_group s)\<rparr>))"

definition rdc_group_field_get_info ::
    "u32 \<Rightarrow> group_settings \<Rightarrow> rdc_status \<times> rdc_field_group_info option" where
  "rdc_group_field_get_info fgid s =
     (case map_of (field_group s) fgid of
        None \<Rightarrow> (RDC_ST_NOT_FOUND, None)
      | Some info \<Rightarrow>
          (RDC_ST_OK, Some \<lparr>fgroup_name = strncpy_with_null [] (fgroup_name info) RDC_MAX_STR_LENGTH,
                            field_ids = field_ids info\<rparr>))"

definition rdc_group_field_get_all_ids :: "group_settings \<Rightarrow> rdc_status \<times> u32 list" where
  "rdc_group_field_get_all_ids s =
     collect_ids RDC_MAX_NUM_FIELD_GROUPS (\<lambda>k. k = JOB_FIELD_ID) (map_keys (field_group s)) []"

text \<open>The constructor: two empty tables, then the predefined field group of job statistics.\<close>

definition job_fields :: "u32 list" where
  "job_fields =
     [RDC_FI_GPU_MEMORY_USAGE, RDC_FI_POWER_USAGE, RDC_FI_GPU_CLOCK, RDC_FI_GPU_UTIL,
      RDC_FI_PCIE_TX, RDC_FI_PCIE_RX, RDC_FI_MEM_CLOCK, RDC_FI_GPU_TEMP]"

definition group_settings_init :: group_settings where
  "group_settings_init =
     snd (snd (rdc_group_field_create (job_fields, ''JobStatsFields'')
       \<lparr>gpu_group = [], field_group = [], cur_group_id = 1, cur_field_group_id = 0\<rparr>))"

lemmas group_defs [rdc_defs] = rdc_group_gpu_create_def rdc_group_gpu_destroy_def
  rdc_group_gpu_add_def rdc_group_gpu_get_info_def rdc_group_field_create_def
  rdc_group_field_destroy_def rdc_group_field_get_info_def

section \<open>The registry contract\<close>

definition registry_ok :: "nat \<Rightarrow> (u32, 'i) smap \<Rightarrow> u32 \<Rightarrow> bool" where
  "registry_ok cap m n \<longleftrightarrow> map_wf m \<and> length m \<le> cap \<and> (\<forall>i \<in> dom (map_of m). i < n)"

locale id_registry =
  fixes entries :: "'s \<Rightarrow> (u32, 'i) smap"
    and next_id :: "'s \<Rightarrow> u32"
    and create :: "'a \<Rightarrow> 's \<Rightarrow> rdc_status \<times> u32 option \<times> 's"
    and destroy :: "u32 \<Rightarrow> 's \<Rightarrow> rdc_status \<times> 's"
    and admissible :: "'a \<Rightarrow> bool"
    and info_of :: "'a \<Rightarrow> 'i"
    and capacity :: nat
    and protected :: "u32 \<Rightarrow> bool"
  assumes create_refused:
      "\<not> admissible a \<or> capacity \<le> length (entries s) \<Longrightarrow> create a s = (RDC_ST_MAX_LIMIT, None, s)"
    and create_granted:
      "admissible a \<Longrightarrow> length (entries s) < capacity \<Longrightarrow>
       \<exists>s'. create a s = (RDC_ST_OK, Some (next_id s), s')
          \<and> entries s' = map_insert (next_id s) (info_of a) (entries s)
          \<and> next_id s' = next_id s + 1"
    and destroy_protected: "protected i \<Longrightarrow> destroy i s = (RDC_ST_BAD_PARAMETER, s)"
    and destroy_missing:
      "\<not> protected i \<Longrightarrow> map_of (entries s) i = None \<Longrightarrow> destroy i s = (RDC_ST_NOT_FOUND, s)"
    and destroy_present:
      "\<not> protected i \<Longrightarrow> map_of (entries s) i \<noteq> None \<Longrightarrow>
       \<exists>s'. destroy i s = (RDC_ST_OK, s') \<and> entries s' = map_erase i (entries s)
          \<and> next_id s' = next_id s"
begin

lemma create_OK_D:
  assumes "create a s = (RDC_ST_OK, r, s')"
  shows "r = Some (next_id s)" and "entries s' = map_insert (next_id s) (info_of a) (entries s)"
    and "next_id s' = next_id s + 1" and "admissible a" and "length (entries s) < capacity"
proof -
  have room: "admissible a \<and> length (entries s) < capacity"
    using assms create_refused [of a s] by (metis Pair_inject not_le rdc_status.distinct(19))
  with create_granted [of a s] assms
  show "r = Some (next_id s)" "entries s' = map_insert (next_id s) (info_of a) (entries s)"
    "next_id s' = next_id s + 1" by auto
  from room show "admissible a" "length (entries s) < capacity" by auto
qed

lemma fresh: "registry_ok c (entries s) (next_id s) \<Longrightarrow> map_of (entries s) (next_id s) = None"
  by (force simp: registry_ok_def domIff)

lemma lookup_created:
  assumes "registry_ok c (entries s) (next_id s)" and "create a s = (RDC_ST_OK, Some i, s')"
  shows "map_of (entries s) i = None \<and> map_of (entries s') = (map_of (entries s))(i \<mapsto> info_of a)"
  using create_OK_D [OF assms(2)] fresh [OF assms(1)] by (simp add: map_of_map_insert)

lemma create_status: "fst (create a s) = RDC_ST_OK \<longleftrightarrow> admissible a \<and> length (entries s) < capacity"
  using create_refused [of a s] create_granted [of a s]
  by (metis fst_conv not_le rdc_status.distinct(19))

lemma create_keeps_ok:
  assumes ok: "registry_ok capacity (entries s) (next_id s)"
    and nowrap: "next_id s \<noteq> - 1" and c: "create a s = (st, r, s')"
  shows "registry_ok capacity (entries s') (next_id s')"
proof (cases "admissible a \<and> length (entries s) < capacity")
  case True
  with create_granted [of a s] c have e: "entries s' = map_insert (next_id s) (info_of a) (entries s)"
    and n: "next_id s' = next_id s + 1" by auto
  have lt: "i \<le> next_id s \<Longrightarrow> i < next_id s + 1" for i
    using nowrap by (rule word_le_less_plus_one)
  with ok e n True fresh [OF ok] show ?thesis
    by (auto simp: registry_ok_def map_of_map_insert length_map_insert intro: lt less_imp_le)
next
  case False
  with create_refused [of a s] c ok show ?thesis by auto
qed

lemma destroy_keeps_ok:
  assumes "registry_ok c (entries s) (next_id s)" and "destroy i s = (st, s')"
  shows "registry_ok c (entries s') (next_id s')"
proof (cases "protected i \<or> map_of (entries s) i = None")
  case True
  with destroy_protected [of i s] destroy_missing [of i s] assms show ?thesis by auto
next
  case False
  with destroy_present [of i s] assms(2) have "entries s' = map_erase i (entries s)"
    "next_id s' = next_id s" by auto
  with assms(1) show ?thesis
    using length_map_erase_le [of "entries s" i] by (auto simp: registry_ok_def)
qed

lemma destroyed_gone:
  "destroy i s = (RDC_ST_OK, s') \<Longrightarrow>
   map_of (entries s') = (map_of (entries s))(i := None) \<and> \<not> protected i \<and> map_of (entries s) i \<noteq> None"
  using destroy_protected [of i s] destroy_missing [of i s] destroy_present [of i s] by force

text \<open>An identifier that was handed out is not handed out again by the next creation.\<close>

lemma no_reuse:
  assumes "create a s = (RDC_ST_OK, Some i, s1)" and "destroy i s1 = (RDC_ST_OK, s2)"
    and "create b s2 = (RDC_ST_OK, Some j, s3)"
  shows "j = i + 1"
  using create_OK_D [OF assms(1)] create_OK_D [OF assms(3)] destroyed_gone [OF assms(2)]
    destroy_present [of i s1] assms(2) by auto

end

interpretation gpu_reg: id_registry gpu_group cur_group_id rdc_group_gpu_create
  rdc_group_gpu_destroy "\<lambda>_. True" new_group_info RDC_MAX_NUM_GROUPS "\<lambda>_. False"
  by unfold_locales
    (auto simp: rdc_group_gpu_create_def rdc_group_gpu_destroy_def split: option.split)

interpretation field_reg: id_registry field_group cur_field_group_id rdc_group_field_create
  rdc_group_field_destroy "\<lambda>a. length (fst a) \<le> RDC_MAX_FIELD_IDS_PER_FIELD_GROUP"
  new_field_group_info RDC_MAX_NUM_FIELD_GROUPS "\<lambda>i. i = JOB_FIELD_ID"
  by unfold_locales
    (auto simp: rdc_group_field_create_def rdc_group_field_destroy_def split: option.split)

section \<open>Invariant\<close>

definition group_info_ok :: "rdc_group_info \<Rightarrow> bool" where
  "group_info_ok g \<longleftrightarrow> distinct (entity_ids g) \<and> length (entity_ids g) \<le> RDC_GROUP_MAX_ENTITIES
     \<and> length (group_name g) < RDC_MAX_STR_LENGTH"

definition field_group_info_ok :: "rdc_field_group_info \<Rightarrow> bool" where
  "field_group_info_ok f \<longleftrightarrow> length (field_ids f) \<le> RDC_MAX_FIELD_IDS_PER_FIELD_GROUP
     \<and> length (fgroup_name f) < RDC_MAX_STR_LENGTH"

text \<open>
  What holds of the tables in every state, also after the 32-bit counters have wrapped around, and what holds in
  addition until then: the identifiers in use are below the counter, so that the next one is new.
\<close>

definition table_ok :: "nat \<Rightarrow> (u32, 'i) smap \<Rightarrow> bool" where
  "table_ok cap m \<longleftrightarrow> map_wf m \<and> length m \<le> cap"

definition group_tables_inv :: "group_settings \<Rightarrow> bool" where
  "group_tables_inv s \<longleftrightarrow>
     table_ok RDC_MAX_NUM_GROUPS (gpu_group s) \<and> table_ok RDC_MAX_NUM_FIELD_GROUPS (field_group s)
   \<and> (\<forall>i g. map_of (gpu_group s) i = Some g \<longrightarrow> group_info_ok g)
   \<and> (\<forall>i f. map_of (field_group s) i = Some f \<longrightarrow> field_group_info_ok f)
   \<and> map_option field_ids (map_of (field_group s) JOB_FIELD_ID) = Some job_fields"

definition group_settings_inv :: "group_settings \<Rightarrow> bool" where
  "group_settings_inv s \<longleftrightarrow>
     registry_ok RDC_MAX_NUM_GROUPS (gpu_group s) (cur_group_id s)
   \<and> registry_ok RDC_MAX_NUM_FIELD_GROUPS (field_group s) (cur_field_group_id s)
   \<and> (\<forall>i g. map_of (gpu_group s) i = Some g \<longrightarrow> group_info_ok g)
   \<and> (\<forall>i f. map_of (field_group s) i = Some f \<longrightarrow> field_group_info_ok f)
   \<and> map_option field_ids (map_of (field_group s) JOB_FIELD_ID) = Some job_fields"

lemma group_settings_invD:
  assumes "group_settings_inv s"
  shows "registry_ok RDC_MAX_NUM_GROUPS (gpu_group s) (cur_group_id s)"
    and "registry_ok RDC_MAX_NUM_FIELD_GROUPS (field_group s) (cur_field_group_id s)"
    and "map_of (gpu_group s) i = Some g \<Longrightarrow> group_info_ok g"
    and "map_of (field_group s) i = Some f \<Longrightarrow> field_group_info_ok f"
    and "map_option field_ids (map_of (field_group s) JOB_FIELD_ID) = Some job_fields"
  using assms by (auto simp: group_settings_inv_def)

lemma registry_table: "registry_ok cap m n \<longleftrightarrow> table_ok cap m \<and> (\<forall>i \<in> dom (map_of m). i < n)"
  by (simp add: registry_ok_def table_ok_def)

lemma group_settings_inv_iff:
  "group_settings_inv s \<longleftrightarrow> group_tables_inv s
     \<and> (\<forall>i \<in> dom (map_of (gpu_group s)). i < cur_group_id s) \<and> (\<forall>i \<in> dom (map_of (field_group s)). i < cur_field_group_id s)"
  by (auto simp: group_settings_inv_def group_tables_inv_def registry_table)

lemma new_infos_ok [simp]:
  "group_info_ok (new_group_info nm)"
  "length (fst a) \<le> RDC_MAX_FIELD_IDS_PER_FIELD_GROUP \<Longrightarrow> field_group_info_ok (new_field_group_info a)"
  by (simp_all add: group_info_ok_def field_group_info_ok_def new_group_info_def
      new_field_group_info_def length_strncpy_with_null RDC_MAX_STR_LENGTH_def)

lemma group_settings_inv_init: "group_settings_inv group_settings_init"
  by (simp add: group_settings_inv_def group_settings_init_def rdc_group_field_create_def
      job_fields_def new_field_group_info_def limit_defs registry_ok_def map_wf_def
      map_insert_def field_group_info_ok_def strncpy_with_null_def)

lemma gpu_create_frame:
  "rdc_group_gpu_create nm s = (st, r, s') \<Longrightarrow>
   field_group s' = field_group s \<and> cur_field_group_id s' = cur_field_group_id s"
  by (auto simp: rdc_group_gpu_create_def split: if_splits)

lemma gpu_destroy_frame:
  "rdc_group_gpu_destroy g s = (st, s') \<Longrightarrow>
   field_group s' = field_group s \<and> cur_field_group_id s' = cur_field_group_id s"
  by (auto simp: rdc_group_gpu_destroy_def split: option.splits)

lemma field_create_frame:
  "rdc_group_field_create a s = (st, r, s') \<Longrightarrow>
   gpu_group s' = gpu_group s \<and> cur_group_id s' = cur_group_id s"
  by (auto simp: rdc_group_field_create_def split: if_splits)

lemma field_destroy_frame:
  "rdc_group_field_destroy i s = (st, s') \<Longrightarrow>
   gpu_group s' = gpu_group s \<and> cur_group_id s' = cur_group_id s"
  by (auto simp: rdc_group_field_destroy_def split: if_splits option.splits)

lemma inv_gpu_create:
  assumes inv: "group_settings_inv s" and nw: "cur_group_id s \<noteq> - 1"
    and c: "rdc_group_gpu_create nm s = (st, r, s')"
  shows "group_settings_inv s'"
proof (cases "st = RDC_ST_OK")
  case True
  then have m: "map_of (gpu_group s') = (map_of (gpu_group s))(cur_group_id s \<mapsto> new_group_info nm)"
    using gpu_reg.create_OK_D [of nm s r s'] c
      gpu_reg.fresh [OF group_settings_invD(1) [OF inv]]
    by (simp add: map_of_map_insert)
  show ?thesis unfolding group_settings_inv_def
    using gpu_reg.create_keeps_ok [OF group_settings_invD(1) [OF inv] nw c] gpu_create_frame [OF c]
      group_settings_invD [OF inv] m by (auto split: if_splits)
next
  case False
  with c have "s' = s" by (auto simp: rdc_group_gpu_create_def split: if_splits)
  with inv show ?thesis by simp
qed

lemma inv_field_create:
  assumes inv: "group_settings_inv s" and nw: "cur_field_group_id s \<noteq> - 1"
    and c: "rdc_group_field_create a s = (st, r, s')"
  shows "group_settings_inv s'"
proof (cases "st = RDC_ST_OK")
  case True
  note D = field_reg.create_OK_D [of a s r s', OF c [unfolded True]]
  have fr: "map_of (field_group s) (cur_field_group_id s) = None"
    by (rule field_reg.fresh [OF group_settings_invD(2) [OF inv]])
  with D have m: "map_of (field_group s') =
      (map_of (field_group s))(cur_field_group_id s \<mapsto> new_field_group_info a)"
    by (simp add: map_of_map_insert)
  have "cur_field_group_id s \<noteq> JOB_FIELD_ID"
    using fr group_settings_invD(5) [OF inv] by auto
  then show ?thesis unfolding group_settings_inv_def
    using field_reg.create_keeps_ok [OF group_settings_invD(2) [OF inv] nw c]
      field_create_frame [OF c] group_settings_invD [OF inv] m D(4) by (auto split: if_splits)
next
  case False
  with c have "s' = s" by (auto simp: rdc_group_field_create_def split: if_splits)
  with inv show ?thesis by simp
qed

lemma inv_gpu_destroy:
  assumes inv: "group_settings_inv s" and d: "rdc_group_gpu_destroy i s = (st, s')"
  shows "group_settings_inv s'"
proof -
  have "map_of (gpu_group s') k = Some g \<Longrightarrow> map_of (gpu_group s) k = Some g" for k g
    using d by (auto simp: rdc_group_gpu_destroy_def split: option.splits if_splits)
  then show ?thesis unfolding group_settings_inv_def
    using gpu_reg.destroy_keeps_ok [OF group_settings_invD(1) [OF inv] d] gpu_destroy_frame [OF d]
      group_settings_invD [OF inv] by metis
qed

lemma inv_field_destroy:
  assumes inv: "group_settings_inv s" and d: "rdc_group_field_destroy i s = (st, s')"
  shows "group_settings_inv s'"
proof -
  have "map_of (field_group s') k = Some g \<Longrightarrow> map_of (field_group s) k = Some g"
    and "map_of (field_group s') JOB_FIELD_ID = map_of (field_group s) JOB_FIELD_ID" for k g
    using d by (auto simp: rdc_group_field_destroy_def split: option.splits if_splits)
  then show ?thesis unfolding group_settings_inv_def
    using field_reg.destroy_keeps_ok [OF group_settings_invD(2) [OF inv] d] field_destroy_frame [OF d]
      group_settings_invD [OF inv] by metis
qed

lemma inv_gpu_add:
  assumes inv: "group_settings_inv s" and a: "rdc_group_gpu_add g x s = (st, s')"
  shows "group_settings_inv s'"
proof -
  have "dom (map_of (gpu_group s')) = dom (map_of (gpu_group s))"
    and "length (gpu_group s') = length (gpu_group s)" and "map_wf (gpu_group s') = map_wf (gpu_group s)"
    and "cur_group_id s' = cur_group_id s" and "field_group s' = field_group s"
    and "cur_field_group_id s' = cur_field_group_id s"
    using a by (auto simp: rdc_group_gpu_add_def dom_def split: option.splits if_splits)
  moreover have "map_of (gpu_group s') k = Some i \<Longrightarrow> group_info_ok i" for k i
    using a group_settings_invD(3) [OF inv]
    by (fastforce simp: rdc_group_gpu_add_def group_info_ok_def split: option.splits if_splits)
  ultimately show ?thesis
    using inv by (simp add: group_settings_inv_def registry_ok_def)
qed

text \<open>The tables, whatever the counters are: \<^verbatim>\<open>emplace\<close> keeps an entry that has the identifier already.\<close>

lemma tables_gpu_create:
  "group_tables_inv s \<Longrightarrow> rdc_group_gpu_create nm s = (st, r, s') \<Longrightarrow> group_tables_inv s'"
  by (auto simp: group_tables_inv_def table_ok_def rdc_group_gpu_create_def map_of_map_insert length_map_insert split: if_splits option.splits)

lemma tables_field_create:
  assumes "group_tables_inv s" and "rdc_group_field_create a s = (st, r, s')"
  shows "group_tables_inv s'"
proof -
  have "map_of (field_group s) JOB_FIELD_ID \<noteq> None" using assms(1) by (auto simp: group_tables_inv_def)
  with assms show ?thesis
    by (auto simp: group_tables_inv_def table_ok_def rdc_group_field_create_def map_of_map_insert length_map_insert split: if_splits option.splits)
qed

lemma tables_destroy:
  "group_tables_inv s \<Longrightarrow> rdc_group_gpu_destroy g s = (st, s') \<Longrightarrow> group_tables_inv s'"
  "group_tables_inv s \<Longrightarrow> rdc_group_field_destroy i s = (st, s') \<Longrightarrow> group_tables_inv s'"
  by (auto simp: group_tables_inv_def table_ok_def rdc_group_gpu_destroy_def rdc_group_field_destroy_def
      intro: order_trans [OF length_map_erase_le] split: if_splits option.splits)

lemma tables_gpu_add:
  assumes "group_tables_inv s" and "rdc_group_gpu_add g x s = (st, s')"
  shows "group_tables_inv s'"
  using assms by (fastforce simp: group_tables_inv_def table_ok_def rdc_group_gpu_add_def group_info_ok_def split: if_splits option.splits)

lemmas tables_steps = tables_gpu_create tables_gpu_add tables_field_create tables_destroy

text \<open>The state-changing calls as a transition relation, with counters that wrap around.\<close>

inductive group_step :: "group_settings \<Rightarrow> group_settings \<Rightarrow> bool" where
  gpu_create: "rdc_group_gpu_create nm s = (st, r, s') \<Longrightarrow> group_step s s'"
| gpu_destroy: "rdc_group_gpu_destroy g s = (st, s') \<Longrightarrow> group_step s s'"
| gpu_add: "rdc_group_gpu_add g x s = (st, s') \<Longrightarrow> group_step s s'"
| field_create: "rdc_group_field_create a s = (st, r, s') \<Longrightarrow> group_step s s'"
| field_destroy: "rdc_group_field_destroy i s = (st, s') \<Longrightarrow> group_step s s'"

lemma group_step_inv:
  assumes "group_step s s'" and "group_settings_inv s" and "cur_group_id s \<noteq> - 1" and "cur_field_group_id s \<noteq> - 1"
  shows "group_settings_inv s'"
  using assms by cases (auto intro: inv_gpu_create inv_gpu_destroy inv_gpu_add inv_field_create inv_field_destroy)

lemma group_step_counters:
  "group_step s s' \<Longrightarrow> cur_group_id s' \<in> {cur_group_id s, cur_group_id s + 1} \<and> cur_field_group_id s' \<in> {cur_field_group_id s, cur_field_group_id s + 1}"
  by (auto simp: group_defs elim!: group_step.cases split: if_splits option.splits)

interpretation group_sys: invariant_system "\<lambda>s. s = group_settings_init" group_step group_tables_inv
proof unfold_locales
  fix s s' assume "group_tables_inv s" "group_step s s'"
  then show "group_tables_inv s'" by (auto elim!: group_step.cases intro: tables_steps)
qed (use group_settings_inv_init in \<open>simp add: group_settings_inv_iff\<close>)

lemma counter_step: "unat (c :: u32) \<le> m \<Longrightarrow> Suc m < 2 ^ 32 \<Longrightarrow> c' \<in> {c, c + 1} \<Longrightarrow> c \<noteq> - 1 \<and> unat c' \<le> Suc m"
proof -
  assume "unat c \<le> m" "Suc m < 2 ^ 32" "c' \<in> {c, c + 1}"
  moreover have "unat (- 1 :: u32) = 2 ^ 32 - 1" by (simp add: unsigned_minus_1_eq_mask mask_eq_exp_minus_1)
  ultimately have "c \<noteq> - 1" by auto
  moreover have "unat (c + 1) \<le> Suc (unat c)" by (auto simp: unat_plus_if')
  ultimately show ?thesis using \<open>unat c \<le> m\<close> \<open>c' \<in> {c, c + 1}\<close> by auto
qed

lemma group_steps_inv:
  "(group_step ^^ n) group_settings_init s \<Longrightarrow> n + 1 < 2 ^ 32 \<Longrightarrow>
   group_settings_inv s \<and> unat (cur_group_id s) \<le> n + 1 \<and> unat (cur_field_group_id s) \<le> n + 1"
proof (induction n arbitrary: s)
  case 0
  then show ?case using group_settings_inv_init
    by (auto simp: group_settings_init_def rdc_group_field_create_def limit_defs job_fields_def)
next
  case (Suc n)
  then obtain s1 where n: "(group_step ^^ n) group_settings_init s1" and st: "group_step s1 s" by auto
  with Suc have i: "group_settings_inv s1" "unat (cur_group_id s1) \<le> n + 1" "unat (cur_field_group_id s1) \<le> n + 1" by simp_all
  from counter_step [OF i(2)] counter_step [OF i(3)] group_step_counters [OF st] Suc.prems(2)
  have c: "cur_group_id s1 \<noteq> - 1" "cur_field_group_id s1 \<noteq> - 1" "unat (cur_group_id s) \<le> n + 2" "unat (cur_field_group_id s) \<le> n + 2" by auto
  from group_step_inv [OF st i(1) c(1,2)] c(3,4) show ?case by simp
qed

section \<open>Listing\<close>

lemma collect_ids_OK:
  "length out + length ks \<le> bnd \<Longrightarrow>
   collect_ids bnd skip ks out = (RDC_ST_OK, out @ filter (\<lambda>k. \<not> skip k) ks)"
  by (induction ks arbitrary: out) auto

section \<open>Correctness of the group operations\<close>

text \<open>
  (C22) Every state that group calls can lead to, also after the 32-bit identifier counters have wrapped around, has
  well-formed tables: both hold at most 64 entries under pairwise different identifiers, no GPU group
  holds a GPU twice or more than 64 GPUs, no field group more than 128 fields, and the
  predefined job field group is there with its eight fields. As long as fewer than \<^verbatim>\<open>2^32 - 1\<close> calls have been made,
  all identifiers in use are moreover below their counters, so that a new group never gets an identifier in use.
\<close>
theorem group_settings_reachable:
  assumes "(group_step ^^ n) group_settings_init s"
  shows "group_tables_inv s \<and> (n < 2 ^ 32 - 1 \<longrightarrow> group_settings_inv s)"
proof -
  have "group_tables_inv s" by (rule group_sys.inv_reachable [OF refl relpowp_imp_rtranclp [OF assms]])
  moreover have "group_settings_inv s" if "n < 2 ^ 32 - 1" using group_steps_inv [OF assms] that by simp
  ultimately show ?thesis by blast
qed

theorem group_settings_reachable_witness:
  "group_settings_inv (snd (snd (rdc_group_gpu_create ''g'' group_settings_init)))"
proof -
  have "group_step group_settings_init (snd (snd (rdc_group_gpu_create ''g'' group_settings_init)))"
    by (rule group_step.gpu_create [where nm = "''g''" and st = RDC_ST_OK and r = "Some 1"])
      (simp_all add: rdc_group_gpu_create_def group_settings_init_def rdc_group_field_create_def job_fields_def limit_defs)
  then have "(group_step ^^ 1) group_settings_init (snd (snd (rdc_group_gpu_create ''g'' group_settings_init)))" by (simp add: OO_def)
  from group_settings_reachable [OF this] show ?thesis by simp
qed

text \<open>
  Creating a GPU group hands out an identifier that was not in use; looking it up gives
  an empty group with the name cut to 255 characters, and every other group is as before.
\<close>
theorem gpu_group_create_roundtrip:
  assumes "group_settings_inv s" and "rdc_group_gpu_create nm s = (RDC_ST_OK, Some i, s')"
  shows "rdc_group_gpu_get_info i s = (RDC_ST_NOT_FOUND, None)
    \<and> rdc_group_gpu_get_info i s' = (RDC_ST_OK, Some \<lparr>group_name = take 255 nm, entity_ids = []\<rparr>)
    \<and> (\<forall>j. j \<noteq> i \<longrightarrow> rdc_group_gpu_get_info j s' = rdc_group_gpu_get_info j s)"
  using gpu_reg.lookup_created [OF group_settings_invD(1) [OF assms(1)] assms(2)]
  by (simp add: rdc_group_gpu_get_info_def new_group_info_def strncpy_with_null_def limit_defs)

theorem gpu_group_create_roundtrip_witness:
  "rdc_group_gpu_get_info 1 (snd (snd (rdc_group_gpu_create ''g'' group_settings_init)))
     = (RDC_ST_OK, Some \<lparr>group_name = ''g'', entity_ids = []\<rparr>)"
proof -
  have "rdc_group_gpu_create ''g'' group_settings_init
      = (RDC_ST_OK, Some 1, snd (snd (rdc_group_gpu_create ''g'' group_settings_init)))"
    by (simp add: rdc_group_gpu_create_def group_settings_init_def rdc_group_field_create_def
        job_fields_def limit_defs)
  from gpu_group_create_roundtrip [OF group_settings_inv_init this] show ?thesis by simp
qed

text \<open>
  A creation succeeds exactly when the table has room (and, for a field group, the
  request has at most 128 fields); otherwise it reports the limit and changes nothing.
\<close>
theorem group_create_capacity:
  "fst (rdc_group_gpu_create nm s) = (if length (gpu_group s) < 64 then RDC_ST_OK else RDC_ST_MAX_LIMIT)
   \<and> fst (rdc_group_field_create a s) =
       (if length (field_group s) < 64 \<and> length (fst a) \<le> 128 then RDC_ST_OK else RDC_ST_MAX_LIMIT)
   \<and> (fst (rdc_group_gpu_create nm s) \<noteq> RDC_ST_OK \<longrightarrow> snd (rdc_group_gpu_create nm s) = (None, s))
   \<and> (fst (rdc_group_field_create a s) \<noteq> RDC_ST_OK \<longrightarrow> snd (rdc_group_field_create a s) = (None, s))"
  by (auto simp: rdc_group_gpu_create_def rdc_group_field_create_def limit_defs)

theorem group_create_capacity_witness:
  "snd (rdc_group_field_create (replicate 129 0, []) group_settings_init) = (None, group_settings_init)"
  using group_create_capacity [of "[]" group_settings_init "(replicate 129 0, [])"] by simp

text \<open>
  Destroying a group removes exactly that group, and the identifier is not given to the
  next group that is created.
\<close>
theorem gpu_group_destroy_no_reuse:
  assumes "rdc_group_gpu_create a s = (RDC_ST_OK, Some i, s1)"
    and "rdc_group_gpu_destroy i s1 = (RDC_ST_OK, s2)"
    and "rdc_group_gpu_create b s2 = (RDC_ST_OK, Some j, s3)"
  shows "j = i + 1 \<and> j \<noteq> i \<and> rdc_group_gpu_get_info i s2 = (RDC_ST_NOT_FOUND, None)
    \<and> (\<forall>k. k \<noteq> i \<longrightarrow> rdc_group_gpu_get_info k s2 = rdc_group_gpu_get_info k s1)"
  using gpu_reg.no_reuse [OF assms] gpu_reg.destroyed_gone [OF assms(2)]
  by (simp add: rdc_group_gpu_get_info_def)

theorem gpu_group_destroy_no_reuse_witness:
  "\<exists>s3. rdc_group_gpu_create ''b'' (snd (rdc_group_gpu_destroy 1 (snd (snd
      (rdc_group_gpu_create ''a'' group_settings_init))))) = (RDC_ST_OK, Some 2, s3)"
proof -
  let ?s1 = "snd (snd (rdc_group_gpu_create ''a'' group_settings_init))"
  let ?s2 = "snd (rdc_group_gpu_destroy 1 ?s1)"
  have 1: "rdc_group_gpu_create ''a'' group_settings_init = (RDC_ST_OK, Some 1, ?s1)"
    and 2: "rdc_group_gpu_destroy 1 ?s1 = (RDC_ST_OK, ?s2)"
    and 3: "\<exists>j s3. rdc_group_gpu_create ''b'' ?s2 = (RDC_ST_OK, Some j, s3)"
    by (simp_all add: group_defs group_settings_init_def job_fields_def limit_defs map_insert_def
        map_erase_def)
  from 3 obtain j s3 where 4: "rdc_group_gpu_create ''b'' ?s2 = (RDC_ST_OK, Some j, s3)" by blast
  from gpu_group_destroy_no_reuse [OF 1 2 4] 4 show ?thesis by simp
qed

text \<open>
  Adding a GPU appends it to the group unless the group is unknown, already holds it or
  is full; each refusal has its own status and leaves the groups unchanged.
\<close>
theorem gpu_group_add_cases:
  "rdc_group_gpu_add g x s =
     (case rdc_group_gpu_get_info g s of
        (_, None) \<Rightarrow> (RDC_ST_NOT_FOUND, s)
      | (_, Some info) \<Rightarrow>
          if x \<in> set (entity_ids info) then (RDC_ST_BAD_PARAMETER, s)
          else if 64 \<le> length (entity_ids info) then (RDC_ST_MAX_LIMIT, s)
          else (RDC_ST_OK, snd (rdc_group_gpu_add g x s)))
   \<and> (fst (rdc_group_gpu_add g x s) = RDC_ST_OK \<longrightarrow>
      map_option entity_ids (snd (rdc_group_gpu_get_info g (snd (rdc_group_gpu_add g x s))))
        = map_option (\<lambda>i. entity_ids i @ [x]) (snd (rdc_group_gpu_get_info g s))
      \<and> (\<forall>h. h \<noteq> g \<longrightarrow> rdc_group_gpu_get_info h (snd (rdc_group_gpu_add g x s))
            = rdc_group_gpu_get_info h s))"
  by (auto simp: rdc_group_gpu_add_def rdc_group_gpu_get_info_def limit_defs split: option.splits)

theorem gpu_group_add_cases_witness:
  "map_option entity_ids (snd (rdc_group_gpu_get_info 1 (snd (rdc_group_gpu_add 1 5
     (snd (snd (rdc_group_gpu_create ''a'' group_settings_init))))))) = Some [5]"
proof -
  let ?s = "snd (snd (rdc_group_gpu_create ''a'' group_settings_init))"
  have "fst (rdc_group_gpu_add 1 5 ?s) = RDC_ST_OK"
    and "map_option entity_ids (snd (rdc_group_gpu_get_info 1 ?s)) = Some []"
    by (simp_all add: group_defs group_settings_init_def job_fields_def limit_defs map_insert_def
        new_group_info_def)
  with gpu_group_add_cases [of 1 5 ?s] show ?thesis by (auto simp: map_option_eq_Some)
qed

text \<open>
  The listing calls succeed and report every group in ascending identifier order,
  without the predefined job field group.
\<close>
theorem group_listing_complete:
  assumes "group_settings_inv s"
  shows "fst (rdc_group_get_all_ids s) = RDC_ST_OK
    \<and> set (snd (rdc_group_get_all_ids s)) = dom (map_of (gpu_group s))
    \<and> sorted_wrt (<) (snd (rdc_group_get_all_ids s))
    \<and> fst (rdc_group_field_get_all_ids s) = RDC_ST_OK
    \<and> set (snd (rdc_group_field_get_all_ids s)) = dom (map_of (field_group s)) - {JOB_FIELD_ID}
    \<and> sorted_wrt (<) (snd (rdc_group_field_get_all_ids s))"
proof -
  from assms have wf: "map_wf (gpu_group s)" "map_wf (field_group s)"
    and len: "length (map_keys (gpu_group s)) \<le> RDC_MAX_NUM_GROUPS"
      "length (map_keys (field_group s)) \<le> RDC_MAX_NUM_FIELD_GROUPS"
    by (simp_all add: group_settings_inv_def registry_ok_def)
  have "rdc_group_get_all_ids s = (RDC_ST_OK, map_keys (gpu_group s))"
    using len(1) by (simp add: rdc_group_get_all_ids_def collect_ids_OK)
  moreover have "rdc_group_field_get_all_ids s =
      (RDC_ST_OK, filter (\<lambda>k. k \<noteq> JOB_FIELD_ID) (map_keys (field_group s)))"
    using len(2) by (simp add: rdc_group_field_get_all_ids_def collect_ids_OK)
  ultimately show ?thesis
    using smap.keys_find [OF wf(1)] smap.keys_find [OF wf(2)] smap.keys_sorted [OF wf(1)]
      smap.keys_sorted [OF wf(2)] by (auto intro: sorted_wrt_filter)
qed

theorem group_listing_complete_witness:
  "rdc_group_field_get_all_ids group_settings_init = (RDC_ST_OK, [])"
  using group_listing_complete [OF group_settings_inv_init]
  by (simp add: group_settings_init_def rdc_group_field_create_def job_fields_def limit_defs
      map_insert_def prod_eq_iff)

end
