(* ===== verification/Rdc_Cache_Manager.thy ===== *)
theory Rdc_Cache_Manager
  imports Rdc_Group_Settings
begin

text \<open>
  \<^verbatim>\<open>RdcCacheManagerImpl\<close>: the sample cache (a vector of samples per GPU and field) and
  the job statistics (per job, GPU and field: extrema, total, Welford's running mean and
  sum of squares, energy and ECC counters). Every method holds the cache mutex for its
  whole body, so a call is one atomic transition. Undefined behaviour of C++ (an
  out-of-range iterator or array index, an integer division by zero) is the result
  \<^const>\<open>None\<close>; a \<^verbatim>\<open>double\<close> is a real number; clock readings are arguments.
\<close>

section \<open>State\<close>

record cache_entry =
  ce_last_time :: u64
  ce_type :: rdc_field_type
  ce_value :: rdc_field_value_data

record field_summary_stats =
  fs_max_value :: i64
  fs_min_value :: i64
  fs_total_value :: i64
  fs_old_m :: real
  fs_old_s :: real
  fs_new_m :: real
  fs_new_s :: real
  fs_last_time :: u64
  fs_count :: u64

record gpu_summary_stats =
  gs_energy_consumed :: u64
  gs_energy_last_time :: u64
  gs_ecc_correct_init :: u64
  gs_ecc_uncorrect_init :: u64
  gs_field_summaries :: "(u32, field_summary_stats) smap"

record job_stats_entry =
  je_start_time :: u64
  je_end_time :: u64
  je_gpu_stats :: "(u32, gpu_summary_stats) smap"

type_synonym field_key = "u32 \<times> u32"
type_synonym gauges = "(field_key, u64) smap"

record cache_manager =
  cache_samples :: "(field_key, cache_entry list) smap"
  cache_jobs :: "(string, job_stats_entry) smap"

definition cache_manager_init :: cache_manager where
  "cache_manager_init = \<lparr>cache_samples = [], cache_jobs = []\<rparr>"

section \<open>Samples\<close>

text \<open>
  The search loop of \<^verbatim>\<open>rdc_field_get_value_since\<close>: the first sample that is not older
  than the cursor, together with the cursor of the next call.
\<close>

fun scan_since :: "u64 \<Rightarrow> cache_entry list \<Rightarrow> (cache_entry \<times> u64) option" where
  "scan_since since [] = None"
| "scan_since since (e # es) =
     (if since \<le> ce_last_time e
      then Some (e, case es of [] \<Rightarrow> ce_last_time e + 1 | e' # _ \<Rightarrow> ce_last_time e')
      else scan_since since es)"

text \<open>Pointer arguments are options: \<^const>\<open>None\<close> is the null pointer, \<open>Some m\<close> the memory.\<close>

definition rdc_field_get_value_since ::
    "u32 \<Rightarrow> u32 \<Rightarrow> u64 \<Rightarrow> u64 option \<Rightarrow> rdc_field_value option \<Rightarrow> cache_manager
     \<Rightarrow> rdc_status \<times> u64 option \<times> rdc_field_value option" where
  "rdc_field_get_value_since gpu_index fid since next_ts val c =
     (case (next_ts, val) of
        (Some _, Some v) \<Rightarrow>
          (case map_of (cache_samples c) (gpu_index, fid) of
             None \<Rightarrow> (RDC_ST_NOT_FOUND, next_ts, val)
           | Some es \<Rightarrow>
               if es = [] then (RDC_ST_NOT_FOUND, next_ts, val)
               else case scan_since since es of
                      Some (e, n) \<Rightarrow>
                        (RDC_ST_OK, Some n,
                         Some (v\<lparr>fv_ts := ce_last_time e, fv_type := ce_type e,
                                 fv_value := (if ce_type e = STRING
                                   then Str (strncpy_with_null [] (c_str (ce_value e)) RDC_MAX_STR_LENGTH)
                                   else L_int (l_int (ce_value e))),
                                 fv_field_id := fid\<rparr>))
                    | None \<Rightarrow> (RDC_ST_NOT_FOUND, Some since, val))
      | _ \<Rightarrow> (RDC_ST_BAD_PARAMETER, next_ts, val))"

text \<open>
  \<^verbatim>\<open>evict_cache\<close>: the number of surplus samples is computed in 64 bits and stored in an
  \<^verbatim>\<open>int\<close>; erasing more samples than there are is undefined.
\<close>

definition items_to_remove :: "nat \<Rightarrow> u64 \<Rightarrow> int" where
  "items_to_remove n max_keep_samples =
     sint (ucast (word_of_nat n - max_keep_samples :: u64) :: 32 word)"

fun age_out :: "real \<Rightarrow> u64 \<Rightarrow> cache_entry list \<Rightarrow> cache_entry list" where
  "age_out max_keep_age now [] = []"
| "age_out max_keep_age now (e # es) =
     (if real (unat (ce_last_time e)) + max_keep_age * 1000 \<ge> real (unat now) then e # es
      else age_out max_keep_age now es)"

definition evict_cache ::
    "u32 \<Rightarrow> u32 \<Rightarrow> u64 \<Rightarrow> real \<Rightarrow> u64 \<Rightarrow> cache_manager \<Rightarrow> (rdc_status \<times> cache_manager) option" where
  "evict_cache gpu_index fid max_keep_samples max_keep_age now c =
     (case map_of (cache_samples c) (gpu_index, fid) of
        None \<Rightarrow> Some (RDC_ST_NOT_FOUND, c)
      | Some es \<Rightarrow>
          if es = [] then Some (RDC_ST_NOT_FOUND, c)
          else let item_remove = items_to_remove (length es) max_keep_samples in
               if item_remove > int (length es) then None
               else let es' = (if item_remove > 0 then drop (nat item_remove) es else es) in
                    Some (RDC_ST_OK,
                          c\<lparr>cache_samples := map_put (gpu_index, fid)
                              (age_out max_keep_age now es') (cache_samples c)\<rparr>))"

definition rdc_field_get_latest_value ::
    "u32 \<Rightarrow> u32 \<Rightarrow> rdc_field_value option \<Rightarrow> cache_manager \<Rightarrow> rdc_status \<times> rdc_field_value option" where
  "rdc_field_get_latest_value gpu_index fid val c =
     (case val of
        None \<Rightarrow> (RDC_ST_BAD_PARAMETER, None)
      | Some v \<Rightarrow>
          (case map_of (cache_samples c) (gpu_index, fid) of
             None \<Rightarrow> (RDC_ST_NOT_FOUND, val)
           | Some es \<Rightarrow>
               if es = [] then (RDC_ST_NOT_FOUND, val)
               else let e = last es in
                    (RDC_ST_OK, Some (v\<lparr>fv_ts := ce_last_time e, fv_type := ce_type e,
                                        fv_value := ce_value e, fv_field_id := fid\<rparr>))))"

definition cache_entry_of :: "rdc_field_value \<Rightarrow> cache_entry" where
  "cache_entry_of v = \<lparr>ce_last_time = fv_ts v, ce_type = fv_type v, ce_value = fv_value v\<rparr>"

definition rdc_update_cache :: "u32 \<Rightarrow> rdc_field_value \<Rightarrow> cache_manager \<Rightarrow> rdc_status \<times> cache_manager" where
  "rdc_update_cache gpu_index v c =
     (let k = (gpu_index, fv_field_id v) in
      case map_of (cache_samples c) k of
        None \<Rightarrow> (RDC_ST_OK, c\<lparr>cache_samples := map_insert k [cache_entry_of v] (cache_samples c)\<rparr>)
      | Some _ \<Rightarrow>
          (RDC_ST_OK, c\<lparr>cache_samples := map_modify k (\<lambda>es. es @ [cache_entry_of v]) (cache_samples c)\<rparr>))"

section \<open>Job statistics: collection\<close>

definition rdc_job_remove :: "string \<Rightarrow> cache_manager \<Rightarrow> rdc_status \<times> cache_manager" where
  "rdc_job_remove job_id c = (RDC_ST_OK, c\<lparr>cache_jobs := map_erase job_id (cache_jobs c)\<rparr>)"

definition rdc_job_remove_all :: "cache_manager \<Rightarrow> rdc_status \<times> cache_manager" where
  "rdc_job_remove_all c = (RDC_ST_OK, c\<lparr>cache_jobs := []\<rparr>)"

definition smax :: "i64 \<Rightarrow> i64 \<Rightarrow> i64" where "smax a b = (if sint a < sint b then b else a)"
definition smin :: "i64 \<Rightarrow> i64 \<Rightarrow> i64" where "smin a b = (if sint b < sint a then b else a)"

text \<open>
  The update of one field summary in \<^verbatim>\<open>rdc_update_job_stats\<close>: the first sample
  initialises it (\<^verbatim>\<open>new_s\<close> keeps its old content), a later one runs Welford's step. The total is a
  signed word whose overflow the language leaves undefined; it wraps here, as it does on the machines the
  program is built for.
\<close>

definition field_summary_add :: "u64 \<Rightarrow> i64 \<Rightarrow> field_summary_stats \<Rightarrow> field_summary_stats" where
  "field_summary_add tstamp x fs =
     (if fs_count fs = 0
      then fs\<lparr>fs_count := 1, fs_max_value := x, fs_min_value := x, fs_total_value := x,
              fs_last_time := tstamp, fs_old_s := 0, fs_old_m := real_of_int (sint x),
              fs_new_m := real_of_int (sint x)\<rparr>
      else let cnt = fs_count fs + 1;
               x_r = real_of_int (sint x);
               new_m = fs_old_m fs + (x_r - fs_old_m fs) / real (unat cnt);
               new_s = fs_old_s fs + (x_r - fs_old_m fs) * (x_r - new_m)
           in fs\<lparr>fs_max_value := smax (fs_max_value fs) x, fs_min_value := smin (fs_min_value fs) x,
                 fs_total_value := fs_total_value fs + x, fs_last_time := tstamp, fs_count := cnt,
                 fs_new_m := new_m, fs_new_s := new_s, fs_old_m := new_m, fs_old_s := new_s\<rparr>)"

text \<open>The conversion of a non-negative \<^verbatim>\<open>double\<close> to \<^verbatim>\<open>uint64_t\<close> truncates.\<close>

definition u64_of_double :: "real \<Rightarrow> u64" where
  "u64_of_double r = word_of_int \<lfloor>r\<rfloor>"

definition gpu_energy_add :: "u64 \<Rightarrow> i64 \<Rightarrow> gpu_summary_stats \<Rightarrow> gpu_summary_stats" where
  "gpu_energy_add tstamp x gs =
     (let time_elapsed = tstamp - gs_energy_last_time gs in
      gs\<lparr>gs_energy_consumed := u64_of_double
           (real (unat (gs_energy_consumed gs)) + real (unat (time_elapsed * x)) / (1000 * 1000000))\<rparr>)"

definition gpu_stats_add :: "rdc_field_value \<Rightarrow> gpu_summary_stats \<Rightarrow> gpu_summary_stats" where
  "gpu_stats_add v gs =
     (case map_of (gs_field_summaries gs) (fv_field_id v) of
        None \<Rightarrow> gs
      | Some fs \<Rightarrow>
          let x = l_int (fv_value v);
              gs1 = (if fv_field_id v = RDC_FI_POWER_USAGE
                     then (if fs_count fs = 0 then gs\<lparr>gs_energy_last_time := fv_ts v\<rparr>
                           else gpu_energy_add (fv_ts v) x gs)
                     else gs)
          in gs1\<lparr>gs_field_summaries := map_modify (fv_field_id v)
                   (field_summary_add (fv_ts v) x) (gs_field_summaries gs)\<rparr>)"

definition rdc_update_job_stats ::
    "u32 \<Rightarrow> string \<Rightarrow> rdc_field_value \<Rightarrow> cache_manager \<Rightarrow> rdc_status \<times> cache_manager" where
  "rdc_update_job_stats gpu_index job_id v c =
     (case map_of (cache_jobs c) job_id of
        None \<Rightarrow> (RDC_ST_NOT_FOUND, c)
      | Some job \<Rightarrow>
          (case map_of (je_gpu_stats job) gpu_index of
             None \<Rightarrow> (RDC_ST_NOT_FOUND, c)
           | Some gs \<Rightarrow>
               (case map_of (gs_field_summaries gs) (fv_field_id v) of
                  None \<Rightarrow> (RDC_ST_NOT_FOUND, c)
                | Some _ \<Rightarrow>
                    (RDC_ST_OK, c\<lparr>cache_jobs := map_modify job_id
                       (\<lambda>j. j\<lparr>je_gpu_stats := map_modify gpu_index (gpu_stats_add v) (je_gpu_stats j)\<rparr>)
                       (cache_jobs c)\<rparr>))))"

definition empty_field_summary :: field_summary_stats where
  "empty_field_summary =
     \<lparr>fs_max_value = 0, fs_min_value = 0, fs_total_value = 0, fs_old_m = 0, fs_old_s = 0,
      fs_new_m = 0, fs_new_s = 0, fs_last_time = 0, fs_count = 0\<rparr>"

text \<open>
  A new field summary sets the extrema, the total and the count; its other members are
  uninitialised in C++ and written before they are read, here they are 0.
\<close>

definition gauge_or_zero :: "gauges \<Rightarrow> field_key \<Rightarrow> u64" where
  "gauge_or_zero g k = (case map_of g k of None \<Rightarrow> 0 | Some v \<Rightarrow> v)"

definition new_gpu_stats :: "gauges \<Rightarrow> u32 list \<Rightarrow> u32 \<Rightarrow> gpu_summary_stats" where
  "new_gpu_stats gpu_gauges fids gpu =
     \<lparr>gs_energy_consumed = 0, gs_energy_last_time = 0,
      gs_ecc_correct_init = gauge_or_zero gpu_gauges (gpu, RDC_FI_ECC_CORRECT_TOTAL),
      gs_ecc_uncorrect_init = gauge_or_zero gpu_gauges (gpu, RDC_FI_ECC_UNCORRECT_TOTAL),
      gs_field_summaries = fold (\<lambda>f m. map_insert f empty_field_summary m) fids []\<rparr>"

definition rdc_job_start_stats ::
    "string \<Rightarrow> rdc_group_info \<Rightarrow> rdc_field_group_info \<Rightarrow> gauges \<Rightarrow> u64 \<Rightarrow> cache_manager
     \<Rightarrow> rdc_status \<times> cache_manager" where
  "rdc_job_start_stats job_id ginfo finfo gpu_gauges now_s c =
     (let entry = \<lparr>je_start_time = now_s, je_end_time = 0,
                   je_gpu_stats = fold (\<lambda>g m. map_insert g (new_gpu_stats gpu_gauges (field_ids finfo) g) m)
                     (entity_ids ginfo) []\<rparr>
      in (RDC_ST_OK, c\<lparr>cache_jobs := map_insert job_id entry (map_erase job_id (cache_jobs c))\<rparr>))"

text \<open>At the end of a job the ECC members change from the counter at the start to the difference.\<close>

definition gpu_stats_stop :: "gauges \<Rightarrow> u32 \<Rightarrow> gpu_summary_stats \<Rightarrow> gpu_summary_stats" where
  "gpu_stats_stop gpu_gauges gpu gs =
     (let gs1 = (case map_of gpu_gauges (gpu, RDC_FI_ECC_CORRECT_TOTAL) of
                   None \<Rightarrow> gs
                 | Some v \<Rightarrow> gs\<lparr>gs_ecc_correct_init := v - gs_ecc_correct_init gs\<rparr>)
      in (case map_of gpu_gauges (gpu, RDC_FI_ECC_UNCORRECT_TOTAL) of
            None \<Rightarrow> gs1
          | Some v \<Rightarrow> gs1\<lparr>gs_ecc_uncorrect_init := v - gs_ecc_uncorrect_init gs1\<rparr>))"

definition rdc_job_stop_stats ::
    "string \<Rightarrow> gauges \<Rightarrow> u64 \<Rightarrow> cache_manager \<Rightarrow> rdc_status \<times> cache_manager" where
  "rdc_job_stop_stats job_id gpu_gauges now_s c =
     (case map_of (cache_jobs c) job_id of
        None \<Rightarrow> (RDC_ST_NOT_FOUND, c)
      | Some _ \<Rightarrow>
          (RDC_ST_OK, c\<lparr>cache_jobs := map_modify job_id
             (\<lambda>j. j\<lparr>je_end_time := now_s,
                    je_gpu_stats := map (\<lambda>(g, gs). (g, gpu_stats_stop gpu_gauges g gs)) (je_gpu_stats j)\<rparr>)
             (cache_jobs c)\<rparr>))"

section \<open>Job statistics: report\<close>

record rdc_stats_summary =
  ss_max_value :: u64
  ss_min_value :: u64
  ss_average :: u64
  ss_standard_deviation :: real

record rdc_gpu_usage_info =
  gu_gpu_id :: u32
  gu_start_time :: u64
  gu_end_time :: u64
  gu_energy_consumed :: u64
  gu_ecc_correct :: u64
  gu_ecc_uncorrect :: u64
  gu_pcie_tx :: rdc_stats_summary
  gu_pcie_rx :: rdc_stats_summary
  gu_power_usage :: rdc_stats_summary
  gu_gpu_clock :: rdc_stats_summary
  gu_memory_clock :: rdc_stats_summary
  gu_gpu_utilization :: rdc_stats_summary
  gu_gpu_temperature :: rdc_stats_summary
  gu_max_gpu_memory_used :: u64
  gu_memory_utilization :: rdc_stats_summary

record rdc_job_info =
  ji_num_gpus :: u32
  ji_summary :: rdc_gpu_usage_info
  ji_gpus :: "rdc_gpu_usage_info list"

text \<open>
  \<^verbatim>\<open>set_summary\<close>: extrema divide as signed numbers (the adjuster converts to
  \<^verbatim>\<open>int64_t\<close>), the average divides as unsigned numbers (the count is unsigned).
\<close>

definition sdiv_adjust :: "i64 \<Rightarrow> u32 \<Rightarrow> u64" where
  "sdiv_adjust x adjuster = word_of_int (sint x sdiv int (unat adjuster))"

definition set_summary ::
    "field_summary_stats \<Rightarrow> rdc_stats_summary \<Rightarrow> rdc_stats_summary \<Rightarrow> u32
     \<Rightarrow> (rdc_stats_summary \<times> rdc_stats_summary) option" where
  "set_summary st gpu summ adjuster =
     (if fs_count st = 0
      then Some (gpu\<lparr>ss_min_value := - 1, ss_max_value := 0, ss_average := 0\<rparr>, summ)
      else if adjuster = 0 then None
      else let mx = sdiv_adjust (fs_max_value st) adjuster;
               mn = sdiv_adjust (fs_min_value st) adjuster;
               av = fs_total_value st div fs_count st div ucast adjuster;
               sd = sqrt (if fs_count st > 1 then fs_new_s st / real (unat (fs_count st - 1)) else 0)
                      / real (unat adjuster)
           in Some (gpu\<lparr>ss_max_value := mx, ss_min_value := mn, ss_average := av,
                        ss_standard_deviation := sd\<rparr>,
                    summ\<lparr>ss_max_value := max (ss_max_value summ) mx,
                         ss_min_value := min (ss_min_value summ) mn,
                         ss_average := ss_average summ + av,
                         ss_standard_deviation := ss_standard_deviation summ + sd\<rparr>))"

text \<open>One member of the GPU record and the same member of the summary record.\<close>

definition set_member ::
    "(rdc_gpu_usage_info \<Rightarrow> rdc_stats_summary)
     \<Rightarrow> ((rdc_stats_summary \<Rightarrow> rdc_stats_summary) \<Rightarrow> rdc_gpu_usage_info \<Rightarrow> rdc_gpu_usage_info)
     \<Rightarrow> field_summary_stats \<Rightarrow> u32 \<Rightarrow> rdc_gpu_usage_info \<times> rdc_gpu_usage_info
     \<Rightarrow> (rdc_gpu_usage_info \<times> rdc_gpu_usage_info) option" where
  "set_member get upd st adjuster gs =
     (case set_summary st (get (fst gs)) (get (snd gs)) adjuster of
        None \<Rightarrow> None
      | Some (a, b) \<Rightarrow> Some (upd (\<lambda>_. a) (fst gs), upd (\<lambda>_. b) (snd gs)))"

definition set_memory_used ::
    "field_summary_stats \<Rightarrow> rdc_gpu_usage_info \<times> rdc_gpu_usage_info
     \<Rightarrow> rdc_gpu_usage_info \<times> rdc_gpu_usage_info" where
  "set_memory_used st gs =
     ((fst gs)\<lparr>gu_max_gpu_memory_used := fs_max_value st\<rparr>,
      (snd gs)\<lparr>gu_max_gpu_memory_used := max (gu_max_gpu_memory_used (snd gs)) (fs_max_value st)\<rparr>)"

definition set_field_summary ::
    "u64 \<Rightarrow> u32 \<times> field_summary_stats \<Rightarrow> rdc_gpu_usage_info \<times> rdc_gpu_usage_info
     \<Rightarrow> (rdc_gpu_usage_info \<times> rdc_gpu_usage_info) option" where
  "set_field_summary tmemory f gs =
     (let fid = fst f; st = snd f in
      if fid = RDC_FI_POWER_USAGE then set_member gu_power_usage gu_power_usage_update st 1000000 gs
      else if fid = RDC_FI_GPU_MEMORY_USAGE
      then map_option (set_memory_used st)
             (set_member gu_memory_utilization gu_memory_utilization_update st (ucast (tmemory div 100)) gs)
      else if fid = RDC_FI_GPU_CLOCK then set_member gu_gpu_clock gu_gpu_clock_update st 1000000 gs
      else if fid = RDC_FI_GPU_UTIL then set_member gu_gpu_utilization gu_gpu_utilization_update st 1 gs
      else if fid = RDC_FI_GPU_TEMP then set_member gu_gpu_temperature gu_gpu_temperature_update st 1000 gs
      else if fid = RDC_FI_MEM_CLOCK then set_member gu_memory_clock gu_memory_clock_update st 1000000 gs
      else if fid = RDC_FI_PCIE_TX then set_member gu_pcie_tx gu_pcie_tx_update st (1024 * 1024) gs
      else if fid = RDC_FI_PCIE_RX then set_member gu_pcie_rx gu_pcie_rx_update st (1024 * 1024) gs
      else Some gs)"

fun set_field_summaries ::
    "u64 \<Rightarrow> (u32, field_summary_stats) smap \<Rightarrow> rdc_gpu_usage_info \<times> rdc_gpu_usage_info
     \<Rightarrow> (rdc_gpu_usage_info \<times> rdc_gpu_usage_info) option" where
  "set_field_summaries tmemory [] gs = Some gs"
| "set_field_summaries tmemory (f # fs) gs =
     Option.bind (set_field_summary tmemory f gs) (set_field_summaries tmemory fs)"

text \<open>
  ECC counters of one GPU: the stored difference after the job has stopped, the difference
  to the current gauge while it runs, 0 without a gauge (and then nothing is added).
\<close>

definition ecc_report :: "bool \<Rightarrow> gauges \<Rightarrow> field_key \<Rightarrow> u64 \<Rightarrow> u64" where
  "ecc_report is_job_stopped gpu_gauges k init =
     (if is_job_stopped then init
      else case map_of gpu_gauges k of Some v \<Rightarrow> v - init | None \<Rightarrow> 0)"

definition report_gpu_head ::
    "bool \<Rightarrow> gauges \<Rightarrow> u32 \<Rightarrow> gpu_summary_stats \<Rightarrow> rdc_gpu_usage_info \<times> rdc_gpu_usage_info
     \<Rightarrow> rdc_gpu_usage_info \<times> rdc_gpu_usage_info" where
  "report_gpu_head is_job_stopped gpu_gauges gpu gs us =
     (let g = fst us; s = snd us;
          ec = ecc_report is_job_stopped gpu_gauges (gpu, RDC_FI_ECC_CORRECT_TOTAL) (gs_ecc_correct_init gs);
          eu = ecc_report is_job_stopped gpu_gauges (gpu, RDC_FI_ECC_UNCORRECT_TOTAL) (gs_ecc_uncorrect_init gs)
      in (g\<lparr>gu_start_time := gu_start_time s, gu_end_time := gu_end_time s,
            gu_energy_consumed := gs_energy_consumed gs, gu_ecc_correct := ec, gu_ecc_uncorrect := eu\<rparr>,
          s\<lparr>gu_energy_consumed := gu_energy_consumed s + gs_energy_consumed gs,
            gu_ecc_correct := gu_ecc_correct s + ec, gu_ecc_uncorrect := gu_ecc_uncorrect s + eu\<rparr>))"

text \<open>
  The loop over the GPUs of the job. \<open>gpus\<close> is the caller's array of 16 records, indexed
  by GPU number; a larger number is an access outside the array. A missing memory gauge
  ends the loop with an error, after the GPU's head has been written.
\<close>

fun report_gpus ::
    "bool \<Rightarrow> gauges \<Rightarrow> (u32, gpu_summary_stats) smap \<Rightarrow> rdc_job_info
     \<Rightarrow> (rdc_status \<times> rdc_job_info) option" where
  "report_gpus is_job_stopped gpu_gauges [] info = Some (RDC_ST_OK, info)"
| "report_gpus is_job_stopped gpu_gauges ((gpu, gs) # rest) info =
     (if length (ji_gpus info) \<le> unat gpu then None
      else let us = report_gpu_head is_job_stopped gpu_gauges gpu gs (ji_gpus info ! unat gpu, ji_summary info)
           in (case map_of gpu_gauges (gpu, RDC_FI_GPU_MEMORY_TOTAL) of
                 None \<Rightarrow>
                   Some (RDC_ST_BAD_PARAMETER,
                         info\<lparr>ji_gpus := (ji_gpus info)[unat gpu := fst us], ji_summary := snd us\<rparr>)
               | Some tmemory \<Rightarrow>
                   Option.bind (set_field_summaries tmemory (gs_field_summaries gs) us)
                     (\<lambda>us'. report_gpus is_job_stopped gpu_gauges rest
                        (info\<lparr>ji_gpus := (ji_gpus info)[unat gpu := fst us'], ji_summary := snd us'\<rparr>))))"

definition set_average_summary :: "u32 \<Rightarrow> rdc_stats_summary \<Rightarrow> rdc_stats_summary" where
  "set_average_summary num_gpus summ =
     summ\<lparr>ss_average := ss_average summ div ucast num_gpus,
          ss_standard_deviation := ss_standard_deviation summ / real (unat num_gpus)\<rparr>"

definition set_averages :: "u32 \<Rightarrow> rdc_gpu_usage_info \<Rightarrow> rdc_gpu_usage_info" where
  "set_averages n u =
     u\<lparr>gu_power_usage := set_average_summary n (gu_power_usage u),
       gu_gpu_clock := set_average_summary n (gu_gpu_clock u),
       gu_gpu_utilization := set_average_summary n (gu_gpu_utilization u),
       gu_memory_utilization := set_average_summary n (gu_memory_utilization u),
       gu_pcie_tx := set_average_summary n (gu_pcie_tx u),
       gu_pcie_rx := set_average_summary n (gu_pcie_rx u),
       gu_gpu_temperature := set_average_summary n (gu_gpu_temperature u),
       gu_memory_clock := set_average_summary n (gu_memory_clock u)\<rparr>"

definition init_stats_summary :: rdc_stats_summary where
  "init_stats_summary =
     \<lparr>ss_max_value = 0, ss_min_value = - 1, ss_average = 0, ss_standard_deviation = 0\<rparr>"

text \<open>The number of the GPU, \<open>gu_gpu_id\<close>, is not among the members that the report sets.\<close>

definition init_job_summary :: "job_stats_entry \<Rightarrow> u64 \<Rightarrow> rdc_gpu_usage_info \<Rightarrow> rdc_gpu_usage_info" where
  "init_job_summary job now_s s =
     s\<lparr>gu_start_time := je_start_time job,
       gu_end_time := (if je_end_time job = 0 then now_s else je_end_time job),
       gu_energy_consumed := 0, gu_ecc_correct := 0, gu_ecc_uncorrect := 0,
       gu_pcie_tx := init_stats_summary, gu_pcie_rx := init_stats_summary,
       gu_power_usage := init_stats_summary, gu_gpu_clock := init_stats_summary,
       gu_memory_clock := init_stats_summary, gu_gpu_utilization := init_stats_summary,
       gu_gpu_temperature := init_stats_summary, gu_max_gpu_memory_used := 0,
       gu_memory_utilization := init_stats_summary\<rparr>"

definition rdc_job_get_stats ::
    "string \<Rightarrow> gauges \<Rightarrow> u64 \<Rightarrow> rdc_job_info \<Rightarrow> cache_manager \<Rightarrow> (rdc_status \<times> rdc_job_info) option" where
  "rdc_job_get_stats job_id gpu_gauges now_s info c =
     (case map_of (cache_jobs c) job_id of
        None \<Rightarrow> Some (RDC_ST_NOT_FOUND, info)
      | Some job \<Rightarrow>
          let n = (word_of_nat (length (je_gpu_stats job)) :: u32) in
          (case report_gpus (je_end_time job \<noteq> 0) gpu_gauges (je_gpu_stats job)
                  (info\<lparr>ji_summary := init_job_summary job now_s (ji_summary info), ji_num_gpus := n\<rparr>) of
             None \<Rightarrow> None
           | Some (st, info') \<Rightarrow>
               if st \<noteq> RDC_ST_OK then Some (st, info')
               else if n = 0 then None
               else Some (RDC_ST_OK, info'\<lparr>ji_summary := set_averages n (ji_summary info')\<rparr>)))"

section \<open>The sample store as an interface\<close>

definition samples :: "cache_manager \<Rightarrow> field_key \<Rightarrow> cache_entry list" where
  "samples c k = (case map_of (cache_samples c) k of None \<Rightarrow> [] | Some es \<Rightarrow> es)"

text \<open>
  What the watch table and the handler rely on: the cache is a family of sample lists, one
  for each GPU and field; an update appends to one of them, the latest value is its last
  element, and an eviction drops a prefix of one of them.
\<close>

locale sample_store =
  fixes samples_of :: "'c \<Rightarrow> field_key \<Rightarrow> cache_entry list"
    and update :: "u32 \<Rightarrow> rdc_field_value \<Rightarrow> 'c \<Rightarrow> rdc_status \<times> 'c"
    and latest :: "u32 \<Rightarrow> u32 \<Rightarrow> rdc_field_value option \<Rightarrow> 'c \<Rightarrow> rdc_status \<times> rdc_field_value option"
    and evict :: "u32 \<Rightarrow> u32 \<Rightarrow> u64 \<Rightarrow> real \<Rightarrow> u64 \<Rightarrow> 'c \<Rightarrow> (rdc_status \<times> 'c) option"
  assumes update_appends: "samples_of (snd (update g v c)) =
      (samples_of c)((g, fv_field_id v) := samples_of c (g, fv_field_id v) @ [cache_entry_of v])"
    and latest_null: "latest g f None c = (RDC_ST_BAD_PARAMETER, None)"
    and latest_empty: "samples_of c (g, f) = [] \<Longrightarrow> latest g f (Some m) c = (RDC_ST_NOT_FOUND, Some m)"
    and latest_last: "samples_of c (g, f) = es @ [e] \<Longrightarrow> latest g f (Some m) c =
      (RDC_ST_OK, Some (m\<lparr>fv_ts := ce_last_time e, fv_type := ce_type e, fv_value := ce_value e,
                          fv_field_id := f\<rparr>))"
    and evict_drops: "evict g f n age now c = Some (st, c') \<Longrightarrow>
      \<exists>k. samples_of c' = (samples_of c)((g, f) := drop k (samples_of c (g, f)))"
begin

lemma latest_after_update:
  "latest g (fv_field_id v) (Some m) (snd (update g v c)) =
     (RDC_ST_OK, Some (m\<lparr>fv_ts := fv_ts v, fv_type := fv_type v, fv_value := fv_value v,
                         fv_field_id := fv_field_id v\<rparr>))"
  by (subst latest_last [where es = "samples_of c (g, fv_field_id v)" and e = "cache_entry_of v"])
    (simp_all add: update_appends cache_entry_of_def)

lemma update_other: "k \<noteq> (g, fv_field_id v) \<Longrightarrow> samples_of (snd (update g v c)) k = samples_of c k"
  by (simp add: update_appends)

lemma evict_other: "evict g f n age now c = Some (st, c') \<Longrightarrow> k \<noteq> (g, f) \<Longrightarrow>
    samples_of c' k = samples_of c k"
  using evict_drops [of g f n age now c st c'] by auto

lemma updates_append:
  "samples_of (fold (\<lambda>(g, v) c. snd (update g v c)) vs c) k =
     samples_of c k @ map (\<lambda>gv. cache_entry_of (snd gv)) (filter (\<lambda>gv. (fst gv, fv_field_id (snd gv)) = k) vs)"
  by (induction vs arbitrary: c) (auto simp: update_appends)

end

lemma age_out_dropWhile:
  "age_out age now es = dropWhile (\<lambda>e. real (unat (ce_last_time e)) + age * 1000 < real (unat now)) es"
  by (induction es) auto

lemma dropWhile_is_drop: "\<exists>k. dropWhile P xs = drop k xs"
  by (induction xs) (auto intro: exI [of _ 0] exI [of _ "Suc _"])

lemma samples_put: "samples (c\<lparr>cache_samples := map_put k es (cache_samples c)\<rparr>) = (samples c)(k := es)"
  by (auto simp: samples_def fun_eq_iff)

lemma evict_cache_eq:
  "evict_cache g f n age now c =
     (let es = samples c (g, f); r = items_to_remove (length es) n in
      if es = [] then Some (RDC_ST_NOT_FOUND, c)
      else if r > int (length es) then None
      else Some (RDC_ST_OK, c\<lparr>cache_samples :=
             map_put (g, f) (age_out age now (drop (nat r) es)) (cache_samples c)\<rparr>))"
  by (auto simp: evict_cache_def samples_def Let_def split: option.splits)

lemma evict_cache_jobs: "evict_cache g f n age now c = Some (st, c') \<Longrightarrow> cache_jobs c' = cache_jobs c"
  by (auto simp: evict_cache_eq Let_def split: if_splits)

lemma evict_cache_drops:
  assumes "evict_cache g f n age now c = Some (st, c')"
  shows "\<exists>k. samples c' = (samples c)((g, f) := drop k (samples c (g, f)))"
proof (cases "samples c (g, f) = []")
  case True
  with assms show ?thesis by (auto simp: evict_cache_eq fun_eq_iff)
next
  case False
  let ?r = "nat (items_to_remove (length (samples c (g, f))) n)"
  from False assms have c': "samples c' = (samples c)((g, f) := age_out age now (drop ?r (samples c (g, f))))"
    by (auto simp: evict_cache_eq Let_def samples_put split: if_splits)
  obtain k where "age_out age now (drop ?r (samples c (g, f))) = drop k (drop ?r (samples c (g, f)))"
    using dropWhile_is_drop by (metis age_out_dropWhile)
  with c' show ?thesis by (auto intro: exI [of _ "k + ?r"])
qed

interpretation cache_store: sample_store samples rdc_update_cache rdc_field_get_latest_value evict_cache
proof unfold_locales
  show "samples (snd (rdc_update_cache g v c)) =
      (samples c)((g, fv_field_id v) := samples c (g, fv_field_id v) @ [cache_entry_of v])" for g v c
    by (auto simp: rdc_update_cache_def samples_def Let_def fun_eq_iff map_of_map_insert
        split: option.splits)
  show "samples c (g, f) = [] \<Longrightarrow>
      rdc_field_get_latest_value g f (Some m) c = (RDC_ST_NOT_FOUND, Some m)" for g f m c
    by (auto simp: rdc_field_get_latest_value_def samples_def split: option.splits)
  show "samples c (g, f) = es @ [e] \<Longrightarrow> rdc_field_get_latest_value g f (Some m) c =
      (RDC_ST_OK, Some (m\<lparr>fv_ts := ce_last_time e, fv_type := ce_type e, fv_value := ce_value e,
                          fv_field_id := f\<rparr>))" for g f m c es e
    by (auto simp: rdc_field_get_latest_value_def samples_def Let_def split: option.splits)
qed (auto simp: rdc_field_get_latest_value_def intro: evict_cache_drops)

section \<open>The cursor\<close>

lemma get_value_since_null [simp]:
  "rdc_field_get_value_since g f t None val c = (RDC_ST_BAD_PARAMETER, None, val)"
  "rdc_field_get_value_since g f t n None c = (RDC_ST_BAD_PARAMETER, n, None)"
  by (simp_all add: rdc_field_get_value_since_def split: option.split)

lemma get_value_since_scan:
  "rdc_field_get_value_since g f t (Some n) (Some v) c =
     (case scan_since t (samples c (g, f)) of
        Some (e, n') \<Rightarrow> (RDC_ST_OK, Some n',
           Some (v\<lparr>fv_ts := ce_last_time e, fv_type := ce_type e,
                   fv_value := (if ce_type e = STRING
                     then Str (strncpy_with_null [] (c_str (ce_value e)) RDC_MAX_STR_LENGTH)
                     else L_int (l_int (ce_value e))), fv_field_id := f\<rparr>))
      | None \<Rightarrow> (RDC_ST_NOT_FOUND, Some (if samples c (g, f) = [] then n else t), Some v))"
  by (auto simp: rdc_field_get_value_since_def samples_def split: option.splits)

lemma scan_since_None: "scan_since t es = None \<longleftrightarrow> (\<forall>e \<in> set es. ce_last_time e < t)"
  by (induction es) auto

lemma scan_since_SomeD:
  "scan_since t es = Some (e, n) \<Longrightarrow>
     \<exists>pre post. es = pre @ e # post \<and> (\<forall>x \<in> set pre. ce_last_time x < t) \<and> t \<le> ce_last_time e
        \<and> n = (case post of [] \<Rightarrow> ce_last_time e + 1 | e' # _ \<Rightarrow> ce_last_time e')"
proof (induction es)
  case (Cons a es)
  show ?case
  proof (cases "t \<le> ce_last_time a")
    case True
    with Cons.prems show ?thesis by (intro exI [of _ "[]"] exI [of _ es]) auto
  next
    case False
    with Cons obtain pre post where "es = pre @ e # post" "\<forall>x \<in> set pre. ce_last_time x < t"
      "t \<le> ce_last_time e" "n = (case post of [] \<Rightarrow> ce_last_time e + 1 | e' # _ \<Rightarrow> ce_last_time e')"
      by auto
    with False show ?thesis by (intro exI [of _ "a # pre"] exI [of _ post]) auto
  qed
qed simp

definition times_increasing :: "cache_entry list \<Rightarrow> bool" where
  "times_increasing es \<longleftrightarrow> sorted_wrt (<) (map ce_last_time es) \<and> (\<forall>e \<in> set es. ce_last_time e \<noteq> - 1)"

lemma scan_since_filter:
  assumes "times_increasing es" and "scan_since t es = Some (e, n)"
  shows "filter (\<lambda>x. t \<le> ce_last_time x) es = e # filter (\<lambda>x. n \<le> ce_last_time x) es"
proof -
  from assms(2) obtain pre post where es: "es = pre @ e # post" and pre: "\<forall>x \<in> set pre. ce_last_time x < t"
    and t: "t \<le> ce_last_time e" and n: "n = (case post of [] \<Rightarrow> ce_last_time e + 1 | e' # _ \<Rightarrow> ce_last_time e')"
    by (blast dest: scan_since_SomeD)
  have e_post: "\<forall>x \<in> set post. ce_last_time e < ce_last_time x"
    and post: "sorted_wrt (<) (map ce_last_time post)" and e_max: "ce_last_time e \<noteq> - 1"
    using assms(1) es by (auto simp: times_increasing_def sorted_wrt_append)
  have e_n: "ce_last_time e < n"
    using n e_post e_max word_le_less_plus_one [of "ce_last_time e" "ce_last_time e"]
    by (auto split: list.splits)
  have n_post: "\<forall>x \<in> set post. n \<le> ce_last_time x"
    using n post by (auto split: list.splits)
  have "filter (\<lambda>x. t \<le> ce_last_time x) pre = []" "filter (\<lambda>x. n \<le> ce_last_time x) pre = []"
    using pre t e_n by (auto simp: filter_empty_conv not_le)
  moreover have "filter (\<lambda>x. t \<le> ce_last_time x) post = post" "filter (\<lambda>x. n \<le> ce_last_time x) post = post"
    using t e_post n_post by (auto simp: filter_id_conv)
  ultimately show ?thesis using es t e_n by simp
qed

text \<open>A client that reads a field to the end, as the command line tool and the bindings do.\<close>

fun drain :: "nat \<Rightarrow> u32 \<Rightarrow> u32 \<Rightarrow> rdc_field_value \<Rightarrow> u64 \<Rightarrow> cache_manager \<Rightarrow> u64 list option" where
  "drain 0 g f m t c = None"
| "drain (Suc fuel) g f m t c =
     (case rdc_field_get_value_since g f t (Some t) (Some m) c of
        (RDC_ST_OK, Some t', Some v) \<Rightarrow> map_option (Cons (fv_ts v)) (drain fuel g f m t' c)
      | _ \<Rightarrow> Some [])"

lemma drain_filter:
  assumes "times_increasing (samples c (g, f))"
    and "length (filter (\<lambda>e. t \<le> ce_last_time e) (samples c (g, f))) < fuel"
  shows "drain fuel g f m t c = Some (map ce_last_time (filter (\<lambda>e. t \<le> ce_last_time e) (samples c (g, f))))"
  using assms(2)
proof (induction fuel arbitrary: t)
  case (Suc fuel)
  show ?case
  proof (cases "scan_since t (samples c (g, f))")
    case None
    then have "filter (\<lambda>e. t \<le> ce_last_time e) (samples c (g, f)) = []"
      by (auto simp: scan_since_None filter_empty_conv)
    with None show ?thesis by (simp add: get_value_since_scan)
  next
    case (Some en)
    obtain e n where en: "en = (e, n)" by (cases en)
    note fl = scan_since_filter [OF assms(1) Some [unfolded en]]
    with Suc.prems have "length (filter (\<lambda>x. n \<le> ce_last_time x) (samples c (g, f))) < fuel" by simp
    from Suc.IH [OF this] fl show ?thesis by (simp add: get_value_since_scan Some en)
  qed
qed simp

section \<open>Eviction\<close>

lemma items_to_remove_bits: "items_to_remove n m = signed_take_bit 31 (int n - uint m)"
proof -
  have "uint (word_of_nat n - m :: u64) mod 2 ^ 32 = (int n - uint m) mod 2 ^ 32"
    by (simp add: uint_word_ariths unsigned_of_nat take_bit_eq_mod mod_mod_cancel)
      (rule mod_diff_cong, simp_all add: zmod_int mod_mod_cancel)
  then have "take_bit 32 (uint (ucast (word_of_nat n - m :: u64) :: 32 word)) = take_bit 32 (int n - uint m)"
    by (simp add: unsigned_ucast_eq take_bit_eq_mod)
  then show ?thesis
    by (simp add: items_to_remove_def sint_uint signed_take_bit_eq_iff_take_bit_eq)
qed

lemma items_to_remove_small:
  assumes "n < 2 ^ 31" and "unat m < 2 ^ 31"
  shows "items_to_remove n m = int n - int (unat m)"
proof -
  define k where "k = unat m"
  then have "uint m = int k" by (simp only: uint_nat)
  moreover have "signed_take_bit 31 (int n - int k) = int n - int k"
    using assms by (intro signed_take_bit_int_eq_self) (auto simp: k_def [symmetric])
  ultimately show ?thesis unfolding items_to_remove_bits k_def [symmetric] by simp
qed

lemma items_to_remove_max32:
  assumes "n < 2 ^ 31 - 1"
  shows "items_to_remove n (2 ^ 32 - 1) = int n + 1"
proof -
  have "(int n + 1 - 2 ^ 32) mod 2 ^ 32 = (int n + 1) mod (2 ^ 32)"
    by (metis minus_mod_self2)
  then have "signed_take_bit 31 (int n + 1 - 2 ^ 32) = signed_take_bit 31 (int n + 1)"
    by (simp add: signed_take_bit_eq_iff_take_bit_eq take_bit_eq_mod)
  also have "\<dots> = int n + 1" using assms by (intro signed_take_bit_int_eq_self) auto
  finally have "signed_take_bit 31 (int n - 4294967295) = int n + 1" by simp
  then show ?thesis by (simp add: items_to_remove_bits)
qed

text \<open>Caches for concrete instances: GPU 0 after a list of temperature samples.\<close>

definition sample_at :: "u64 \<Rightarrow> i64 \<Rightarrow> rdc_field_value" where
  "sample_at t x = \<lparr>fv_field_id = RDC_FI_GPU_TEMP, fv_status = St_rdc RDC_ST_OK, fv_ts = t,
     fv_type = INTEGER, fv_value = L_int x\<rparr>"

lemma ce_last_time_sample_at: "ce_last_time (cache_entry_of (sample_at t x)) = t"
  by (simp add: cache_entry_of_def sample_at_def)

definition temp_cache :: "rdc_field_value list \<Rightarrow> cache_manager" where
  "temp_cache vs = fold (\<lambda>v c. snd (rdc_update_cache 0 v c)) vs cache_manager_init"

lemma samples_fold_update:
  "samples (fold (\<lambda>v c. snd (rdc_update_cache g v c)) vs c) (g, f) =
     samples c (g, f) @ map cache_entry_of (filter (\<lambda>v. fv_field_id v = f) vs)"
  by (induction vs arbitrary: c) (simp_all add: cache_store.update_appends)

lemma samples_temp_cache:
  "samples (temp_cache vs) (0, f) = map cache_entry_of (filter (\<lambda>v. fv_field_id v = f) vs)"
  by (simp add: temp_cache_def samples_fold_update) (simp add: samples_def cache_manager_init_def)

section \<open>Correctness of the sample cache\<close>

text \<open>
  (C25) The latest value of a field is the value of its most recent update, whatever was in
  the cache before, and an update leaves the samples of every other GPU or field alone.
\<close>
theorem cache_latest_roundtrip:
  "fst (rdc_update_cache g v c) = RDC_ST_OK
   \<and> rdc_field_get_latest_value g (fv_field_id v) (Some m) (snd (rdc_update_cache g v c)) =
       (RDC_ST_OK, Some (m\<lparr>fv_ts := fv_ts v, fv_type := fv_type v, fv_value := fv_value v,
                           fv_field_id := fv_field_id v\<rparr>))
   \<and> (\<forall>h f n. (h, f) \<noteq> (g, fv_field_id v) \<longrightarrow>
        samples (snd (rdc_update_cache g v c)) (h, f) = samples c (h, f)
      \<and> rdc_field_get_latest_value h f n (snd (rdc_update_cache g v c)) =
          rdc_field_get_latest_value h f n c)"
proof (intro conjI allI impI)
  fix h f n assume ne: "(h, f) \<noteq> (g, fv_field_id v)"
  then have "samples (snd (rdc_update_cache g v c)) (h, f) = samples c (h, f)"
    by (rule cache_store.update_other)
  moreover have "map_of (cache_samples (snd (rdc_update_cache g v c))) (h, f) = map_of (cache_samples c) (h, f)"
    using ne by (auto simp: rdc_update_cache_def Let_def map_of_map_insert split: option.splits)
  ultimately show "samples (snd (rdc_update_cache g v c)) (h, f) = samples c (h, f)"
    "rdc_field_get_latest_value h f n (snd (rdc_update_cache g v c)) = rdc_field_get_latest_value h f n c"
    by (auto simp: rdc_field_get_latest_value_def split: option.split)
next
  show "fst (rdc_update_cache g v c) = RDC_ST_OK"
    by (simp add: rdc_update_cache_def Let_def split: option.split)
qed (rule cache_store.latest_after_update)

theorem cache_latest_roundtrip_witness:
  "samples (snd (rdc_update_cache 0 \<lparr>fv_field_id = 100, fv_status = St_rdc RDC_ST_OK, fv_ts = 7,
     fv_type = INTEGER, fv_value = L_int 5\<rparr> cache_manager_init)) (1, 100) = []"
  using cache_latest_roundtrip [of 0 "\<lparr>fv_field_id = 100, fv_status = St_rdc RDC_ST_OK, fv_ts = 7,
     fv_type = INTEGER, fv_value = L_int 5\<rparr>" cache_manager_init]
  by (simp add: samples_def cache_manager_init_def)

text \<open>
  Reading since a time stamp returns the oldest cached sample that is not older than the
  time stamp and reports it as the field's value with that sample's time; it reports
  \<open>RDC_ST_NOT_FOUND\<close> exactly when there is no such sample, and then does not touch the value.
\<close>
theorem cache_since_first_match:
  "(\<exists>e pre post. samples c (g, f) = pre @ e # post \<and> (\<forall>x \<in> set pre. ce_last_time x < t)
      \<and> t \<le> ce_last_time e
      \<and> (\<exists>n' v'. rdc_field_get_value_since g f t (Some n) (Some v) c = (RDC_ST_OK, Some n', Some v')
           \<and> fv_ts v' = ce_last_time e \<and> fv_type v' = ce_type e \<and> fv_field_id v' = f
           \<and> n' = (case post of [] \<Rightarrow> ce_last_time e + 1 | e' # _ \<Rightarrow> ce_last_time e')))
   \<or> ((\<forall>x \<in> set (samples c (g, f)). ce_last_time x < t)
      \<and> (\<exists>n'. rdc_field_get_value_since g f t (Some n) (Some v) c = (RDC_ST_NOT_FOUND, Some n', Some v)))"
proof (cases "scan_since t (samples c (g, f))")
  case None
  then have "\<forall>x \<in> set (samples c (g, f)). ce_last_time x < t" by (simp add: scan_since_None)
  then show ?thesis by (intro disjI2 conjI) (simp_all add: get_value_since_scan None)
next
  case (Some en)
  obtain e n' where en: "en = (e, n')" by (cases en)
  let ?v' = "v\<lparr>fv_ts := ce_last_time e, fv_type := ce_type e,
      fv_value := (if ce_type e = STRING
        then Str (strncpy_with_null [] (c_str (ce_value e)) RDC_MAX_STR_LENGTH)
        else L_int (l_int (ce_value e))), fv_field_id := f\<rparr>"
  have "rdc_field_get_value_since g f t (Some n) (Some v) c = (RDC_ST_OK, Some n', Some ?v')"
    by (simp add: get_value_since_scan Some en)
  moreover have "fv_ts ?v' = ce_last_time e \<and> fv_type ?v' = ce_type e \<and> fv_field_id ?v' = f" by simp
  ultimately show ?thesis using scan_since_SomeD [OF Some [unfolded en]] by blast
qed

theorem cache_since_first_match_witness:
  "\<exists>n'. rdc_field_get_value_since 0 100 3 (Some 0) (Some (undefined :: rdc_field_value)) cache_manager_init
     = (RDC_ST_NOT_FOUND, Some n', Some undefined)"
  using cache_since_first_match [of cache_manager_init 0 100 3 0 undefined]
  by (simp add: samples_def cache_manager_init_def)

text \<open>
  (C23) When the cached time stamps of a field are strictly increasing, a client that follows
  the cursor from any starting time reads every sample from that time on exactly once, in
  order, and stops: the number of samples plus one calls is enough.
\<close>
theorem cache_cursor_complete:
  assumes "times_increasing (samples c (g, f))" and "length (samples c (g, f)) < fuel"
  shows "drain fuel g f m t c =
    Some (map ce_last_time (filter (\<lambda>e. t \<le> ce_last_time e) (samples c (g, f))))"
  using assms(2) le_less_trans [OF length_filter_le] by (intro drain_filter [OF assms(1)]) blast

theorem cache_cursor_complete_witness:
  "drain 4 0 RDC_FI_GPU_TEMP (sample_at 0 0) 15 (temp_cache [sample_at 10 1, sample_at 20 2, sample_at 30 3])
   = Some [20, 30]"
proof -
  let ?c = "temp_cache [sample_at 10 1, sample_at 20 2, sample_at 30 3]"
  have "times_increasing (samples ?c (0, RDC_FI_GPU_TEMP))"
    by (simp add: samples_temp_cache times_increasing_def cache_entry_of_def sample_at_def)
  from cache_cursor_complete [OF this, of 4 "sample_at 0 0" 15] show ?thesis
    by (simp add: samples_temp_cache cache_entry_of_def sample_at_def)
qed

text \<open>
  Two neighbouring samples with the same time stamp stop the cursor: the call that
  returns the first of them hands back its own time stamp as the next cursor, so the second
  one and everything after it is never reached.
\<close>
theorem cache_cursor_stuck:
  assumes "samples c (g, f) = pre @ e # e' # post" and "\<forall>x \<in> set pre. ce_last_time x < ce_last_time e"
    and "ce_last_time e' = ce_last_time e"
  shows "\<exists>v'. rdc_field_get_value_since g f (ce_last_time e) (Some n) (Some v) c =
      (RDC_ST_OK, Some (ce_last_time e), Some v')
    \<and> drain fuel g f v (ce_last_time e) c = None"
proof -
  have sc: "scan_since (ce_last_time e) (samples c (g, f)) = Some (e, ce_last_time e)"
    unfolding assms(1) using assms(2,3) by (induction pre) auto
  then have "drain fuel g f v (ce_last_time e) c = None"
    by (induction fuel) (simp_all add: get_value_since_scan)
  with sc show ?thesis by (simp add: get_value_since_scan)
qed

theorem cache_cursor_stuck_witness:
  "drain 1000 0 RDC_FI_GPU_TEMP (sample_at 0 0) 10 (temp_cache [sample_at 10 1, sample_at 10 2]) = None"
proof -
  have "samples (temp_cache [sample_at 10 1, sample_at 10 2]) (0, RDC_FI_GPU_TEMP)
      = [] @ cache_entry_of (sample_at 10 1) # cache_entry_of (sample_at 10 2) # []"
    by (simp add: samples_temp_cache sample_at_def)
  from cache_cursor_stuck [OF this, of 0 "sample_at 0 0" 1000] show ?thesis
    by (simp add: cache_entry_of_def sample_at_def)
qed

text \<open>
  (C24) Eviction keeps the newest samples: with fewer than \<open>2 ^ 31\<close> samples and a limit below
  \<open>2 ^ 31\<close> the result is the list without its surplus oldest samples and without the then
  oldest samples that are past the maximal age; the limit holds afterwards and no other
  field is touched.
\<close>
theorem evict_cache_keeps_newest:
  assumes "length (samples c (g, f)) < 2 ^ 31" and "unat n < 2 ^ 31" and "samples c (g, f) \<noteq> []"
  shows "\<exists>c'. evict_cache g f n age now c = Some (RDC_ST_OK, c')
    \<and> samples c' = (samples c)((g, f) :=
        dropWhile (\<lambda>e. real (unat (ce_last_time e)) + age * 1000 < real (unat now))
          (drop (length (samples c (g, f)) - unat n) (samples c (g, f))))
    \<and> length (samples c' (g, f)) \<le> unat n \<and> cache_jobs c' = cache_jobs c"
proof -
  let ?es = "samples c (g, f)"
  let ?r = "items_to_remove (length ?es) n"
  have r: "?r = int (length ?es) - int (unat n)" by (rule items_to_remove_small [OF assms(1,2)])
  then have d: "drop (nat ?r) ?es = drop (length ?es - unat n) ?es" by (simp add: nat_diff_distrib')
  let ?c = "c\<lparr>cache_samples := map_put (g, f) (age_out age now (drop (nat ?r) ?es)) (cache_samples c)\<rparr>"
  have "evict_cache g f n age now c = Some (RDC_ST_OK, ?c)"
    using r assms(3) by (simp add: evict_cache_eq Let_def)
  moreover have "length (dropWhile P (drop (length ?es - unat n) ?es)) \<le> unat n" for P
    by (rule order.trans [OF length_dropWhile_le]) simp
  ultimately show ?thesis by (simp add: samples_put d age_out_dropWhile)
qed

theorem evict_cache_keeps_newest_witness:
  "\<exists>c'. evict_cache 0 RDC_FI_GPU_TEMP 1 100 50 (temp_cache [sample_at 10 1, sample_at 20 2])
      = Some (RDC_ST_OK, c') \<and> samples c' (0, RDC_FI_GPU_TEMP) = [cache_entry_of (sample_at 20 2)]"
proof -
  let ?c = "temp_cache [sample_at 10 1, sample_at 20 2]"
  have s: "samples ?c (0, RDC_FI_GPU_TEMP) = map cache_entry_of [sample_at 10 1, sample_at 20 2]"
    by (simp add: samples_temp_cache sample_at_def)
  obtain c' where c': "evict_cache 0 RDC_FI_GPU_TEMP 1 100 50 ?c = Some (RDC_ST_OK, c')"
    and "samples c' = (samples ?c)((0, RDC_FI_GPU_TEMP) :=
        dropWhile (\<lambda>e. real (unat (ce_last_time e)) + 100 * 1000 < real (unat (50 :: u64)))
          (drop (length (samples ?c (0, RDC_FI_GPU_TEMP)) - unat (1 :: u64)) (samples ?c (0, RDC_FI_GPU_TEMP))))"
    using evict_cache_keeps_newest [of ?c 0 RDC_FI_GPU_TEMP 1 100 50] s by auto
  then have "samples c' (0, RDC_FI_GPU_TEMP) = [cache_entry_of (sample_at 20 2)]"
    unfolding s by (simp add: ce_last_time_sample_at)
  with c' show ?thesis by blast
qed

text \<open>
  With the largest 32-bit limit the surplus does not fit the \<^verbatim>\<open>int\<close> it is stored
  in: for every non-empty cache line the code asks the vector to erase one sample more than
  it has, which is undefined behaviour.
\<close>
theorem evict_cache_limit_overflow:
  assumes "samples c (g, f) \<noteq> []" and "length (samples c (g, f)) < 2 ^ 31 - 1"
  shows "evict_cache g f (2 ^ 32 - 1) age now c = None"
  using assms items_to_remove_max32 [OF assms(2)] by (simp add: evict_cache_eq Let_def)

theorem evict_cache_limit_overflow_witness:
  "evict_cache 0 RDC_FI_GPU_TEMP (2 ^ 32 - 1) 100 50 (temp_cache [sample_at 10 1]) = None"
  by (rule evict_cache_limit_overflow) (simp_all add: samples_temp_cache sample_at_def)

end
