(* ===== verification/Rdc_Job_Statistics.thy ===== *)
theory Rdc_Job_Statistics
  imports Rdc_Cache_Manager
begin

text \<open>
  What the job statistics of \<^verbatim>\<open>RdcCacheManagerImpl\<close> mean: the running summary of every
  job, GPU and field equals the statistics of the samples sent to it (count, extrema,
  total, mean and sum of squared deviations), the report divides them into the user's
  units, and the ECC members are the growth of the counters over the job.
\<close>

section \<open>Reference statistics\<close>

definition mean :: "real list \<Rightarrow> real" where
  "mean xs = sum_list xs / real (length xs)"

definition sq_dev :: "real list \<Rightarrow> real" where
  "sq_dev xs = (\<Sum>x\<leftarrow>xs. (x - mean xs)\<^sup>2)"

lemma sum_list_sq_diff:
  "(\<Sum>x\<leftarrow>xs. (x - m)\<^sup>2) = (\<Sum>x\<leftarrow>xs. x\<^sup>2) - 2 * m * sum_list xs + real (length xs) * m\<^sup>2" for m :: real
  by (induction xs) (simp_all add: power2_eq_square algebra_simps)

lemma sum_list_mean: "xs \<noteq> [] \<Longrightarrow> sum_list xs = real (length xs) * mean xs"
  by (simp add: mean_def)

lemma sq_dev_moments: "xs \<noteq> [] \<Longrightarrow> sq_dev xs = (\<Sum>x\<leftarrow>xs. x\<^sup>2) - real (length xs) * (mean xs)\<^sup>2"
  unfolding sq_dev_def sum_list_sq_diff using sum_list_mean [of xs] by (simp add: power2_eq_square)

lemma mean_snoc:
  assumes "xs \<noteq> []"
  shows "mean (xs @ [x]) = mean xs + (x - mean xs) / real (Suc (length xs))"
proof -
  have "real (length xs) + 1 \<noteq> 0" by linarith
  then show ?thesis by (simp add: mean_def [of "xs @ [x]"] sum_list_mean [OF assms] field_simps)
qed

lemma sq_dev_snoc:
  assumes "xs \<noteq> []"
  shows "sq_dev (xs @ [x]) = sq_dev xs + (x - mean xs) * (x - mean (xs @ [x]))"
proof -
  let ?n = "real (length xs)" and ?m = "mean xs" and ?m' = "mean (xs @ [x])"
  have m': "(?n + 1) * ?m' = ?n * ?m + x"
    using sum_list_mean [of "xs @ [x]"] sum_list_mean [OF assms] by (simp add: add.commute)
  then have "(?n + 1) * ?m'\<^sup>2 = (?n * ?m + x) * ?m'" by (simp add: power2_eq_square flip: mult.assoc)
  moreover have "?n * ?m\<^sup>2 + x * ?m = (?n + 1) * ?m' * ?m"
    unfolding m' by (simp add: power2_eq_square algebra_simps)
  ultimately show ?thesis
    by (simp add: sq_dev_moments [OF assms] sq_dev_moments [of "xs @ [x]"] power2_eq_square algebra_simps)
qed

lemma mean_single [simp]: "mean [x] = x" and sq_dev_single [simp]: "sq_dev [x] = 0"
  by (simp_all add: mean_def sq_dev_def)

section \<open>The running summary\<close>

abbreviation real_of_i64 :: "i64 \<Rightarrow> real" where
  "real_of_i64 x \<equiv> real_of_int (sint x)"

definition summarises :: "field_summary_stats \<Rightarrow> i64 list \<Rightarrow> bool" where
  "summarises fs xs \<longleftrightarrow>
     unat (fs_count fs) = length xs \<and>
     (xs \<noteq> [] \<longrightarrow>
       sint (fs_max_value fs) = Max (sint ` set xs) \<and> sint (fs_min_value fs) = Min (sint ` set xs) \<and>
       fs_total_value fs = sum_list xs \<and>
       fs_new_m fs = mean (map real_of_i64 xs) \<and> fs_old_m fs = fs_new_m fs \<and>
       fs_old_s fs = sq_dev (map real_of_i64 xs) \<and>
       (length xs > 1 \<longrightarrow> fs_new_s fs = fs_old_s fs))"

lemma summarises_empty [simp]: "summarises empty_field_summary []"
  by (simp add: summarises_def empty_field_summary_def)

lemma sint_smax: "sint (smax a b) = max (sint a) (sint b)" and
  sint_smin: "sint (smin a b) = min (sint a) (sint b)"
  by (simp_all add: smax_def smin_def)

lemma summarises_add:
  assumes "summarises fs xs" and "length xs < 2 ^ 64 - 1"
  shows "summarises (field_summary_add t x fs) (xs @ [x])"
proof (cases "xs = []")
  case True
  with assms(1) have "fs_count fs = 0" by (simp add: summarises_def unat_eq_0)
  with True show ?thesis by (simp add: summarises_def field_summary_add_def)
next
  case False
  with assms(1) have c: "fs_count fs \<noteq> 0" and n: "unat (fs_count fs) = length xs"
    by (auto simp: summarises_def)
  from n assms(2) have "unat (fs_count fs + 1) = Suc (length xs)"
    by (simp add: unat_word_ariths)
  with assms(1) False c show ?thesis
    by (simp add: summarises_def field_summary_add_def Let_def sint_smax sint_smin max.commute
        min.commute mean_snoc sq_dev_snoc add.commute del: of_nat_unat)
qed

section \<open>Samples sent to several jobs\<close>

definition job_gpu :: "cache_manager \<Rightarrow> string \<times> u32 \<Rightarrow> gpu_summary_stats option" where
  "job_gpu c k = Option.bind (map_of (cache_jobs c) (fst k)) (\<lambda>e. map_of (je_gpu_stats e) (snd k))"

definition job_field :: "cache_manager \<Rightarrow> string \<times> u32 \<times> u32 \<Rightarrow> field_summary_stats option" where
  "job_field c k =
     Option.bind (job_gpu c (fst k, fst (snd k))) (\<lambda>s. map_of (gs_field_summaries s) (snd (snd k)))"

type_synonym job_sample = "string \<times> u32 \<times> rdc_field_value"

definition sample_key :: "job_sample \<Rightarrow> string \<times> u32 \<times> u32" where
  "sample_key s = (fst s, fst (snd s), fv_field_id (snd (snd s)))"

definition sample_value :: "job_sample \<Rightarrow> i64" where
  "sample_value s = l_int (fv_value (snd (snd s)))"

definition send_samples :: "job_sample list \<Rightarrow> cache_manager \<Rightarrow> cache_manager" where
  "send_samples ss c = fold (\<lambda>(j, g, v) c. snd (rdc_update_job_stats g j v c)) ss c"

text \<open>
  The contract of the collector: the summary a key has, and how one sample changes it.
  Everything about sequences of samples follows from these two laws.
\<close>

locale keyed_collector =
  fixes look :: "'c \<Rightarrow> 'k \<Rightarrow> 'v option"
    and send :: "'s \<Rightarrow> 'c \<Rightarrow> 'c"
    and key :: "'s \<Rightarrow> 'k"
    and add :: "'s \<Rightarrow> 'v \<Rightarrow> 'v"
  assumes look_send: "look (send s c) k = (if k = key s then map_option (add s) (look c k) else look c k)"
begin

lemma look_sends:
  "look (fold send ss c) k = map_option (fold add (filter (\<lambda>s. key s = k) ss)) (look c k)"
  by (induction ss arbitrary: c) (auto simp: look_send option.map_comp comp_def option.map_id0)

lemma sends_other: "k \<notin> key ` set ss \<Longrightarrow> look (fold send ss c) k = look c k"
proof -
  assume "k \<notin> key ` set ss"
  then have "filter (\<lambda>s. key s = k) ss = []" by (auto simp: filter_empty_conv)
  then show ?thesis by (simp add: look_sends option.map_id)
qed

end

definition sample_add :: "job_sample \<Rightarrow> field_summary_stats \<Rightarrow> field_summary_stats" where
  "sample_add s = field_summary_add (fv_ts (snd (snd s))) (sample_value s)"

lemma fields_of_gpu_stats_add:
  "map_of (gs_field_summaries (gpu_stats_add v gs)) f =
     (if f = fv_field_id v
      then map_option (field_summary_add (fv_ts v) (l_int (fv_value v))) (map_of (gs_field_summaries gs) f)
      else map_of (gs_field_summaries gs) f)"
  by (auto simp: gpu_stats_add_def Let_def gpu_energy_add_def split: option.splits)

lemma job_gpu_update:
  "job_gpu (snd (rdc_update_job_stats g j v c)) k =
     (if k = (j, g) then map_option (gpu_stats_add v) (job_gpu c k) else job_gpu c k)"
  by (auto simp: rdc_update_job_stats_def job_gpu_def gpu_stats_add_def split: option.splits)

lemma job_field_update:
  "job_field (snd (rdc_update_job_stats g j v c)) k =
     (if k = (j, g, fv_field_id v)
      then map_option (field_summary_add (fv_ts v) (l_int (fv_value v))) (job_field c k)
      else job_field c k)"
  by (cases k; cases "job_gpu c (fst k, fst (snd k))")
    (auto simp: job_field_def job_gpu_update fields_of_gpu_stats_add)

lemma update_job_stats_status:
  "fst (rdc_update_job_stats g j v c) =
     (if job_field c (j, g, fv_field_id v) = None then RDC_ST_NOT_FOUND else RDC_ST_OK)"
  by (auto simp: rdc_update_job_stats_def job_field_def job_gpu_def split: option.splits)

interpretation collector: keyed_collector job_field "\<lambda>(j, g, v) c. snd (rdc_update_job_stats g j v c)"
  sample_key sample_add
  by unfold_locales (auto simp: job_field_update sample_key_def sample_add_def sample_value_def split: if_splits)

lemma summarises_fold:
  "summarises fs xs \<Longrightarrow> length xs + length ss < 2 ^ 64 \<Longrightarrow>
   summarises (fold sample_add ss fs) (xs @ map sample_value ss)"
proof (induction ss arbitrary: fs xs)
  case (Cons s ss)
  have "summarises (sample_add s fs) (xs @ [sample_value s])"
    unfolding sample_add_def using Cons.prems by (intro summarises_add) simp_all
  from Cons.IH [OF this] Cons.prems show ?case by simp
qed simp

subsection \<open>Starting a job\<close>

lemma map_of_fold_insert:
  "map_of (fold (\<lambda>k m. map_insert k (h k) m) ks m) x =
     (case map_of m x of Some v \<Rightarrow> Some v | None \<Rightarrow> if x \<in> set ks then Some (h x) else None)"
  by (induction ks arbitrary: m) (auto simp: map_of_map_insert split: option.splits)

lemma map_wf_fold_insert: "map_wf m \<Longrightarrow> map_wf (fold (\<lambda>k m. map_insert k (h k) m) ks m)"
  by (induction ks arbitrary: m) auto

lemma job_gpu_start:
  "job_gpu (snd (rdc_job_start_stats j gi fi gg now c)) k =
     (if fst k = j then if snd k \<in> set (entity_ids gi)
        then Some (new_gpu_stats gg (field_ids fi) (snd k)) else None
      else job_gpu c k)"
  by (auto simp: rdc_job_start_stats_def job_gpu_def Let_def map_of_map_insert map_of_fold_insert)

lemma job_field_start:
  "job_field (snd (rdc_job_start_stats j gi fi gg now c)) k =
     (if fst k = j then if fst (snd k) \<in> set (entity_ids gi) \<and> snd (snd k) \<in> set (field_ids fi)
        then Some empty_field_summary else None
      else job_field c k)"
  by (simp add: job_field_def job_gpu_start new_gpu_stats_def map_of_fold_insert)

text \<open>
  (C5) The statistics of a job are those of its samples. After a job has been started, let
  any sequence of samples arrive, of any jobs, GPUs and fields in any order: for every GPU and
  field of the job the stored summary has the number of the samples of that job, GPU and
  field, their maximum, minimum and total, their mean, and the sum of the squared deviations
  from it, which the code computes incrementally.
\<close>
theorem job_stats_of_samples:
  assumes "g \<in> set (entity_ids gi)" and "f \<in> set (field_ids fi)"
    and "length ss < 2 ^ 64"
  shows "\<exists>fs. job_field (send_samples ss (snd (rdc_job_start_stats j gi fi gg now c))) (j, g, f) = Some fs
    \<and> summarises fs (map sample_value (filter (\<lambda>s. sample_key s = (j, g, f)) ss))"
proof -
  let ?ss = "filter (\<lambda>s. sample_key s = (j, g, f)) ss"
  have "job_field (send_samples ss (snd (rdc_job_start_stats j gi fi gg now c))) (j, g, f)
      = Some (fold sample_add ?ss empty_field_summary)"
    unfolding send_samples_def collector.look_sends using assms(1,2) by (simp add: job_field_start)
  moreover have "length ?ss < 2 ^ 64" using assms(3) length_filter_le le_less_trans by blast
  then have "summarises (fold sample_add ?ss empty_field_summary) ([] @ map sample_value ?ss)"
    by (intro summarises_fold) simp_all
  ultimately show ?thesis by simp
qed

theorem job_stats_of_samples_witness:
  "\<exists>fs. job_field (send_samples [(''job'', 0, sample_at 10 3), (''other'', 0, sample_at 10 9),
       (''job'', 0, sample_at 20 5)]
      (snd (rdc_job_start_stats ''job'' \<lparr>group_name = ''g'', entity_ids = [0]\<rparr>
        \<lparr>fgroup_name = ''f'', field_ids = [RDC_FI_GPU_TEMP]\<rparr> [] 7 cache_manager_init)))
      (''job'', 0, RDC_FI_GPU_TEMP) = Some fs \<and> summarises fs [3, 5]"
  using job_stats_of_samples [of 0 "\<lparr>group_name = ''g'', entity_ids = [0]\<rparr>" RDC_FI_GPU_TEMP
      "\<lparr>fgroup_name = ''f'', field_ids = [RDC_FI_GPU_TEMP]\<rparr>"
      "[(''job'', 0, sample_at 10 3), (''other'', 0, sample_at 10 9), (''job'', 0, sample_at 20 5)]"
      "''job''" "[]" 7 cache_manager_init]
  by (simp add: sample_key_def sample_value_def sample_at_def)

section \<open>The report of one summary\<close>

lemma uint_sdiv_adjust:
  assumes "0 \<le> sint x" and "adj \<noteq> 0"
  shows "uint (sdiv_adjust x adj) = sint x div uint adj"
proof -
  have a: "0 < uint adj" using assms(2) by (simp add: less_le uint_0_iff)
  have "sint x < 2 ^ 63" using sint_lt [of x] by simp
  moreover have "sint x div uint adj \<le> sint x"
    using zdiv_mono2 [of "sint x" 1 "uint adj"] a assms(1) by simp
  ultimately have "0 \<le> sint x div uint adj" and "sint x div uint adj < 2 ^ 64"
    using a assms(1) by (auto simp: pos_imp_zdiv_nonneg_iff)
  then show ?thesis using a assms(1) by (simp add: sdiv_adjust_def signed_divide_int_def
    uint_word_of_int take_bit_int_eq_self sgn_if)
qed

lemma uint_ucast_u32: "uint (ucast (w :: u32) :: u64) = uint w"
proof -
  have "uint w < 2 ^ 64" using uint_lt2p [of w] by simp
  then show ?thesis by (simp add: unsigned_ucast_eq take_bit_int_eq_self)
qed

lemma uint_sum_list:
  fixes xs :: "i64 list"
  assumes "\<forall>x\<in>set xs. 0 \<le> sint x" and "(\<Sum>x\<leftarrow>xs. sint x) < 2 ^ 63"
  shows "uint (sum_list xs) = (\<Sum>x\<leftarrow>xs. sint x)"
  using assms
proof (induction xs)
  case (Cons x xs)
  have nn: "0 \<le> (\<Sum>x\<leftarrow>xs. sint x)" by (rule sum_list_nonneg) (use Cons.prems(1) in auto)
  then have ih: "uint (sum_list xs) = (\<Sum>x\<leftarrow>xs. sint x)" using Cons by simp
  have "uint x = sint x"
    using Cons.prems(1) sint_lt [of x] by (simp add: uint_sint take_bit_int_eq_self)
  with ih nn Cons.prems show ?case by (simp add: uint_word_ariths)
qed simp

text \<open>
  The report of one field on one GPU. For non-negative samples whose total fits the
  64-bit accumulator and a non-zero unit, the reported maximum and minimum are those of the
  samples in that unit, the average is the truncated mean in that unit, and the reported
  standard deviation is the sample standard deviation (0 for a single sample); the summary
  over the GPUs accumulates the extrema and adds the average and the deviation.
\<close>
theorem set_summary_report:
  assumes "summarises fs xs" and "xs \<noteq> []" and "adj \<noteq> 0"
    and "\<forall>x\<in>set xs. 0 \<le> sint x" and "(\<Sum>x\<leftarrow>xs. sint x) < 2 ^ 63"
  shows "\<exists>gpu' summ'. set_summary fs gpu summ adj = Some (gpu', summ')
    \<and> uint (ss_max_value gpu') = Max (sint ` set xs) div uint adj
    \<and> uint (ss_min_value gpu') = Min (sint ` set xs) div uint adj
    \<and> uint (ss_average gpu') = (\<Sum>x\<leftarrow>xs. sint x) div int (length xs) div uint adj
    \<and> ss_standard_deviation gpu' =
        sqrt (if length xs > 1 then sq_dev (map real_of_i64 xs) / (real (length xs) - 1) else 0) / real (unat adj)
    \<and> ss_max_value summ' = max (ss_max_value summ) (ss_max_value gpu')
    \<and> ss_min_value summ' = min (ss_min_value summ) (ss_min_value gpu')
    \<and> ss_average summ' = ss_average summ + ss_average gpu'
    \<and> ss_standard_deviation summ' = ss_standard_deviation summ + ss_standard_deviation gpu'"
proof -
  have n: "unat (fs_count fs) = length xs" and c: "fs_count fs \<noteq> 0"
    using assms(1,2) by (auto simp: summarises_def)
  have mx: "sint (fs_max_value fs) = Max (sint ` set xs)" and mn: "sint (fs_min_value fs) = Min (sint ` set xs)"
    and tot: "fs_total_value fs = sum_list xs"
    using assms(1,2) by (simp_all add: summarises_def)
  have "0 \<le> sint (fs_max_value fs)" "0 \<le> sint (fs_min_value fs)"
    unfolding mx mn using assms(2,4) by (auto simp: Max_ge_iff ex_in_conv)
  note ext = this [THEN uint_sdiv_adjust [OF _ assms(3)]]
  have n1: "unat (fs_count fs - 1) = length xs - 1" using c n by (simp add: unat_minus_one)
  have "1 < fs_count fs \<longleftrightarrow> length xs > 1" using n by (simp add: word_less_nat_alt)
  moreover have "length xs > 1 \<Longrightarrow> fs_new_s fs = sq_dev (map real_of_i64 xs)"
    using assms(1,2) by (simp add: summarises_def)
  moreover have "uint (fs_total_value fs div fs_count fs div ucast adj)
      = (\<Sum>x\<leftarrow>xs. sint x) div int (length xs) div uint adj"
    using uint_sum_list [OF assms(4,5)] tot by (simp add: uint_div uint_ucast_u32 flip: n)
  ultimately show ?thesis using c assms(2,3) ext mx mn n1
    by (auto simp: set_summary_def Let_def of_nat_diff Suc_le_eq simp del: of_nat_unat)
qed

theorem set_summary_report_witness:
  "\<exists>gpu' summ'. set_summary (field_summary_add 20 7000 (field_summary_add 10 3000 empty_field_summary))
      init_stats_summary init_stats_summary 1000 = Some (gpu', summ')
    \<and> uint (ss_max_value gpu') = 7 \<and> uint (ss_average gpu') = 5"
proof -
  have "summarises (field_summary_add 20 7000 (field_summary_add 10 3000 empty_field_summary)) ([] @ [3000] @ [7000])"
    using summarises_add [OF summarises_add [OF summarises_empty]] by simp
  from set_summary_report [OF this, of 1000 init_stats_summary init_stats_summary] show ?thesis
    by auto
qed

section \<open>The report of a job\<close>

definition blank_usage :: rdc_gpu_usage_info where
  "blank_usage = \<lparr>gu_gpu_id = 0, gu_start_time = 0, gu_end_time = 0, gu_energy_consumed = 0, gu_ecc_correct = 0,
     gu_ecc_uncorrect = 0, gu_pcie_tx = init_stats_summary, gu_pcie_rx = init_stats_summary, gu_power_usage = init_stats_summary,
     gu_gpu_clock = init_stats_summary, gu_memory_clock = init_stats_summary, gu_gpu_utilization = init_stats_summary,
     gu_gpu_temperature = init_stats_summary, gu_max_gpu_memory_used = 0, gu_memory_utilization = init_stats_summary\<rparr>"

definition usage_head :: "rdc_gpu_usage_info \<Rightarrow> u64 \<times> u64 \<times> u64 \<times> u64 \<times> u64" where
  "usage_head u = (gu_start_time u, gu_end_time u, gu_energy_consumed u, gu_ecc_correct u, gu_ecc_uncorrect u)"

lemma set_summary_defined: "adj \<noteq> 0 \<Longrightarrow> \<exists>r. set_summary st gpu summ adj = Some r"
  by (simp add: set_summary_def Let_def)

lemma set_member_defined: "adj \<noteq> 0 \<Longrightarrow> set_member get upd st adj us \<noteq> None"
  using set_summary_defined [of adj st "get (fst us)" "get (snd us)"] by (auto simp: set_member_def)

lemma set_field_summary_defined:
  assumes "ucast (tmem div 100) \<noteq> (0 :: u32)"
  shows "set_field_summary tmem f us \<noteq> None"
  using assms by (simp add: set_field_summary_def Let_def set_member_defined del: not_None_eq)

lemma set_field_summaries_defined:
  assumes "ucast (tmem div 100) \<noteq> (0 :: u32)"
  shows "\<exists>us'. set_field_summaries tmem fs us = Some us'"
proof (induction fs arbitrary: us)
  case (Cons f fs)
  obtain us1 where "set_field_summary tmem f us = Some us1"
    using set_field_summary_defined [OF assms, of f us] by blast
  with Cons.IH [of us1] show ?case by simp
qed simp

lemma set_field_summary_head:
  "set_field_summary tmem f us = Some us' \<Longrightarrow>
   usage_head (fst us') = usage_head (fst us) \<and> usage_head (snd us') = usage_head (snd us)"
  by (auto simp: set_field_summary_def set_member_def set_memory_used_def Let_def usage_head_def
      split: if_splits option.splits)

lemma set_field_summaries_head:
  "set_field_summaries tmem fs us = Some us' \<Longrightarrow>
   usage_head (fst us') = usage_head (fst us) \<and> usage_head (snd us') = usage_head (snd us)"
  by (induction fs arbitrary: us) (auto simp: bind_eq_Some_conv dest!: set_field_summary_head)

definition gpu_reportable :: "gauges \<Rightarrow> nat \<Rightarrow> u32 \<Rightarrow> bool" where
  "gpu_reportable gg n g \<longleftrightarrow> unat g < n \<and>
     (case map_of gg (g, RDC_FI_GPU_MEMORY_TOTAL) of None \<Rightarrow> False
      | Some tmem \<Rightarrow> ucast (tmem div 100) \<noteq> (0 :: u32))"

text \<open>The head of the record of one GPU, from the head of the summary record.\<close>

definition gpu_head :: "bool \<Rightarrow> gauges \<Rightarrow> rdc_gpu_usage_info \<Rightarrow> u32 \<times> gpu_summary_stats \<Rightarrow> u64 \<times> u64 \<times> u64 \<times> u64 \<times> u64" where
  "gpu_head stopped gg summ e =
     (gu_start_time summ, gu_end_time summ, gs_energy_consumed (snd e),
      ecc_report stopped gg (fst e, RDC_FI_ECC_CORRECT_TOTAL) (gs_ecc_correct_init (snd e)),
      ecc_report stopped gg (fst e, RDC_FI_ECC_UNCORRECT_TOTAL) (gs_ecc_uncorrect_init (snd e)))"

lemma report_gpus_step:
  assumes "gpu_reportable gg (length (ji_gpus info)) g"
  obtains u s where "report_gpus stopped gg ((g, gs) # m) info =
      report_gpus stopped gg m (info\<lparr>ji_gpus := (ji_gpus info)[unat g := u], ji_summary := s\<rparr>)"
    and "usage_head u = gpu_head stopped gg (ji_summary info) (g, gs)"
    and "gu_start_time s = gu_start_time (ji_summary info)" "gu_end_time s = gu_end_time (ji_summary info)"
proof -
  let ?us = "report_gpu_head stopped gg g gs (ji_gpus info ! unat g, ji_summary info)"
  from assms obtain tmem where n: "unat g < length (ji_gpus info)"
    and t: "map_of gg (g, RDC_FI_GPU_MEMORY_TOTAL) = Some tmem" and a: "ucast (tmem div 100) \<noteq> (0 :: u32)"
    by (auto simp: gpu_reportable_def split: option.splits)
  obtain us where us: "set_field_summaries tmem (gs_field_summaries gs) ?us = Some us"
    using set_field_summaries_defined [OF a] by blast
  note h = set_field_summaries_head [OF us]
  show thesis
  proof
    show "report_gpus stopped gg ((g, gs) # m) info =
        report_gpus stopped gg m (info\<lparr>ji_gpus := (ji_gpus info)[unat g := fst us], ji_summary := snd us\<rparr>)"
      using n t us by (simp add: Let_def not_le)
    show "usage_head (fst us) = gpu_head stopped gg (ji_summary info) (g, gs)"
      using h by (simp add: report_gpu_head_def usage_head_def gpu_head_def Let_def)
  qed (use h in \<open>simp_all add: report_gpu_head_def usage_head_def Let_def\<close>)
qed

lemma gpu_head_cong:
  "gu_start_time s = gu_start_time s' \<Longrightarrow> gu_end_time s = gu_end_time s' \<Longrightarrow>
   gpu_head stopped gg s = gpu_head stopped gg s'"
  by (simp add: gpu_head_def fun_eq_iff)

lemma report_gpus_complete:
  assumes "distinct (map fst m)" and "\<forall>e\<in>set m. gpu_reportable gg (length (ji_gpus info)) (fst e)"
  shows "\<exists>info'. report_gpus stopped gg m info = Some (RDC_ST_OK, info')
    \<and> ji_num_gpus info' = ji_num_gpus info \<and> length (ji_gpus info') = length (ji_gpus info)
    \<and> (\<forall>i. i \<notin> (\<lambda>e. unat (fst e)) ` set m \<longrightarrow> ji_gpus info' ! i = ji_gpus info ! i)
    \<and> (\<forall>e\<in>set m. usage_head (ji_gpus info' ! unat (fst e)) = gpu_head stopped gg (ji_summary info) e)
    \<and> gu_start_time (ji_summary info') = gu_start_time (ji_summary info)
    \<and> gu_end_time (ji_summary info') = gu_end_time (ji_summary info)"
  using assms
proof (induction m arbitrary: info)
  case (Cons e m)
  obtain g gs where e: "e = (g, gs)" by (cases e)
  have r: "gpu_reportable gg (length (ji_gpus info)) g" using Cons.prems(2) e by simp
  then have n: "unat g < length (ji_gpus info)" by (simp add: gpu_reportable_def)
  from report_gpus_step [OF r] obtain u s where
    step: "report_gpus stopped gg (e # m) info =
      report_gpus stopped gg m (info\<lparr>ji_gpus := (ji_gpus info)[unat g := u], ji_summary := s\<rparr>)"
    and u: "usage_head u = gpu_head stopped gg (ji_summary info) e"
    and s: "gu_start_time s = gu_start_time (ji_summary info)" "gu_end_time s = gu_end_time (ji_summary info)"
    unfolding e by metis
  let ?i = "info\<lparr>ji_gpus := (ji_gpus info)[unat g := u], ji_summary := s\<rparr>"
  have "distinct (map fst m)" "\<forall>e\<in>set m. gpu_reportable gg (length (ji_gpus ?i)) (fst e)"
    using Cons.prems by simp_all
  from Cons.IH [OF this] obtain info' where
    i': "report_gpus stopped gg m ?i = Some (RDC_ST_OK, info')" "ji_num_gpus info' = ji_num_gpus info"
      "length (ji_gpus info') = length (ji_gpus info)"
    and keep: "\<forall>i. i \<notin> (\<lambda>e. unat (fst e)) ` set m \<longrightarrow> ji_gpus info' ! i = (ji_gpus info)[unat g := u] ! i"
    and hd: "\<forall>e\<in>set m. usage_head (ji_gpus info' ! unat (fst e)) = gpu_head stopped gg s e"
    and s': "gu_start_time (ji_summary info') = gu_start_time s" "gu_end_time (ji_summary info') = gu_end_time s"
    by auto
  have "unat g \<notin> (\<lambda>e. unat (fst e)) ` set m"
    using Cons.prems(1) e by (auto simp: image_iff simp flip: word_unat_eq_iff)
  with keep n u have "usage_head (ji_gpus info' ! unat g) = gpu_head stopped gg (ji_summary info) e" by simp
  with i' keep hd s s' step e show ?case by (auto simp: gpu_head_cong [OF s])
qed simp

lemma job_report_lemma:
  assumes "map_of (cache_jobs c) j = Some job" and "map_wf (je_gpu_stats job)"
    and "je_gpu_stats job \<noteq> []" and "length (je_gpu_stats job) < 2 ^ 32"
    and "\<forall>e\<in>set (je_gpu_stats job). gpu_reportable gg (length (ji_gpus info)) (fst e)"
  shows "\<exists>info'. rdc_job_get_stats j gg now info c = Some (RDC_ST_OK, info')
    \<and> unat (ji_num_gpus info') = length (je_gpu_stats job)
    \<and> (\<forall>e\<in>set (je_gpu_stats job). usage_head (ji_gpus info' ! unat (fst e))
         = gpu_head (je_end_time job \<noteq> 0) gg (init_job_summary job now (ji_summary info)) e)
    \<and> (\<forall>i. i \<notin> (\<lambda>e. unat (fst e)) ` set (je_gpu_stats job) \<longrightarrow> ji_gpus info' ! i = ji_gpus info ! i)"
proof -
  let ?n = "word_of_nat (length (je_gpu_stats job)) :: u32"
  let ?i = "info\<lparr>ji_summary := init_job_summary job now (ji_summary info), ji_num_gpus := ?n\<rparr>"
  have un: "unat ?n = length (je_gpu_stats job)" using assms(4) by (simp add: unat_of_nat)
  then have n0: "?n \<noteq> 0" using assms(3) by (metis length_0_conv unat_eq_zero)
  have "\<forall>e\<in>set (je_gpu_stats job). gpu_reportable gg (length (ji_gpus ?i)) (fst e)" using assms(5) by simp
  from report_gpus_complete [OF map_wf_distinct [OF assms(2)] this, of "je_end_time job \<noteq> 0"]
  show ?thesis using assms(1) un n0 by (auto simp: rdc_job_get_stats_def Let_def)
qed

text \<open>
  (C29) Reporting a job succeeds and is complete. If every GPU of the job has a record in the
  caller's array and a usable total-memory gauge, the report returns OK without undefined
  behaviour, counts the GPUs, and every GPU's record carries the job's start and end time
  (the current time while it runs), its energy and its ECC counts; the records of other
  GPUs are left alone.
\<close>
theorem job_report_complete:
  assumes "map_of (cache_jobs c) j = Some job" and "map_wf (je_gpu_stats job)"
    and "je_gpu_stats job \<noteq> []" and "length (je_gpu_stats job) < 2 ^ 32"
    and "\<forall>e\<in>set (je_gpu_stats job). gpu_reportable gg (length (ji_gpus info)) (fst e)"
  shows "\<exists>info'. rdc_job_get_stats j gg now info c = Some (RDC_ST_OK, info')
    \<and> unat (ji_num_gpus info') = length (je_gpu_stats job)
    \<and> (\<forall>e\<in>set (je_gpu_stats job). usage_head (ji_gpus info' ! unat (fst e))
         = gpu_head (je_end_time job \<noteq> 0) gg (init_job_summary job now (ji_summary info)) e)
    \<and> (\<forall>i. i \<notin> (\<lambda>e. unat (fst e)) ` set (je_gpu_stats job) \<longrightarrow> ji_gpus info' ! i = ji_gpus info ! i)"
  using assms by (rule job_report_lemma)

theorem job_report_complete_witness:
  "\<exists>info'. rdc_job_get_stats ''job'' [((1, RDC_FI_GPU_MEMORY_TOTAL), 1000)] 50
      \<lparr>ji_num_gpus = 0, ji_summary = blank_usage,
       ji_gpus = replicate 16 blank_usage\<rparr>
      (snd (rdc_job_start_stats ''job'' \<lparr>group_name = ''g'', entity_ids = [1]\<rparr>
        \<lparr>fgroup_name = ''f'', field_ids = [RDC_FI_GPU_TEMP]\<rparr> [] 7 cache_manager_init)) = Some (RDC_ST_OK, info')
    \<and> gu_start_time (ji_gpus info' ! 1) = 7 \<and> gu_end_time (ji_gpus info' ! 1) = 50"
proof -
  let ?z = "blank_usage"
  let ?gs = "new_gpu_stats [] [RDC_FI_GPU_TEMP] 1"
  let ?job = "\<lparr>je_start_time = 7, je_end_time = 0, je_gpu_stats = [(1, ?gs)]\<rparr>"
  let ?c = "snd (rdc_job_start_stats ''job'' \<lparr>group_name = ''g'', entity_ids = [1]\<rparr>
        \<lparr>fgroup_name = ''f'', field_ids = [RDC_FI_GPU_TEMP]\<rparr> [] 7 cache_manager_init)"
  have "map_of (cache_jobs ?c) ''job'' = Some ?job"
    by (simp add: rdc_job_start_stats_def cache_manager_init_def map_insert_def map_erase_def)
  from job_report_complete [OF this, of "[((1, RDC_FI_GPU_MEMORY_TOTAL), 1000)]"
      "\<lparr>ji_num_gpus = 0, ji_summary = ?z, ji_gpus = replicate 16 ?z\<rparr>" 50]
  show ?thesis by (auto simp: map_wf_def gpu_reportable_def usage_head_def gpu_head_def init_job_summary_def)
qed

section \<open>ECC counters over a job\<close>

definition job_shape :: "cache_manager \<Rightarrow> string \<Rightarrow> (u64 \<times> u64 \<times> u32 list) option" where
  "job_shape c j =
     map_option (\<lambda>e. (je_start_time e, je_end_time e, map fst (je_gpu_stats e))) (map_of (cache_jobs c) j)"

definition gpu_ecc :: "gpu_summary_stats \<Rightarrow> u64 \<times> u64" where
  "gpu_ecc gs = (gs_ecc_correct_init gs, gs_ecc_uncorrect_init gs)"

lemma job_shape_update: "job_shape (snd (rdc_update_job_stats g j v c)) = job_shape c"
  by (auto simp: job_shape_def rdc_update_job_stats_def fun_eq_iff split: option.splits)

lemma gpu_ecc_add: "gpu_ecc (gpu_stats_add v gs) = gpu_ecc gs"
  by (simp add: gpu_stats_add_def gpu_ecc_def gpu_energy_add_def Let_def split: option.splits)

lemma send_samples_frame:
  "job_shape (send_samples ss c) = job_shape c
   \<and> map_option gpu_ecc (job_gpu (send_samples ss c) k) = map_option gpu_ecc (job_gpu c k)"
proof (induction ss arbitrary: c)
  case (Cons s ss)
  obtain j g v where s: "s = (j, g, v)" by (cases s)
  show ?case using Cons [of "snd (rdc_update_job_stats g j v c)"]
    by (simp add: s send_samples_def job_shape_update job_gpu_update option.map_comp comp_def gpu_ecc_add)
qed (simp add: send_samples_def)

lemma job_shape_start:
  "job_shape (snd (rdc_job_start_stats j gi fi gg now c)) j =
     Some (now, 0, map fst (fold (\<lambda>g m. map_insert g (new_gpu_stats gg (field_ids fi) g) m) (entity_ids gi) []))"
  by (simp add: job_shape_def rdc_job_start_stats_def Let_def map_of_map_insert)

lemma job_gpu_mem:
  "job_shape c j = Some (s, e, ks) \<Longrightarrow> sorted_wrt (<) ks \<Longrightarrow> \<exists>job. map_of (cache_jobs c) j = Some job
     \<and> je_start_time job = s \<and> je_end_time job = e \<and> map fst (je_gpu_stats job) = ks
     \<and> map_wf (je_gpu_stats job) \<and> (\<forall>g gs. job_gpu c (j, g) = Some gs \<longrightarrow> (g, gs) \<in> set (je_gpu_stats job))"
  by (auto simp: job_shape_def job_gpu_def map_wf_def map_of_SomeD)

text \<open>Reports of a job whose shape and ECC members are known.\<close>

lemma job_report_ecc:
  assumes "job_shape c j = Some (s, e, ks)" and "sorted_wrt (<) ks" and "g \<in> set ks" and "length ks < 2 ^ 32"
    and "\<forall>h\<in>set ks. gpu_reportable gg (length (ji_gpus info)) h"
    and "map_option gpu_ecc (job_gpu c (j, g)) = Some (a, b)"
  shows "\<exists>info'. rdc_job_get_stats j gg now info c = Some (RDC_ST_OK, info')
    \<and> gu_ecc_correct (ji_gpus info' ! unat g) = ecc_report (e \<noteq> 0) gg (g, RDC_FI_ECC_CORRECT_TOTAL) a
    \<and> gu_ecc_uncorrect (ji_gpus info' ! unat g) = ecc_report (e \<noteq> 0) gg (g, RDC_FI_ECC_UNCORRECT_TOTAL) b"
proof -
  from job_gpu_mem [OF assms(1,2)] obtain job where job: "map_of (cache_jobs c) j = Some job"
    "je_end_time job = e" "map fst (je_gpu_stats job) = ks" "map_wf (je_gpu_stats job)"
    and mem: "\<And>g gs. job_gpu c (j, g) = Some gs \<Longrightarrow> (g, gs) \<in> set (je_gpu_stats job)" by blast
  from assms(6) obtain gs where "job_gpu c (j, g) = Some gs" and ab: "gpu_ecc gs = (a, b)" by auto
  then have gs: "(g, gs) \<in> set (je_gpu_stats job)" using mem by blast
  have "length (je_gpu_stats job) < 2 ^ 32" "je_gpu_stats job \<noteq> []"
    and "\<forall>e\<in>set (je_gpu_stats job). gpu_reportable gg (length (ji_gpus info)) (fst e)"
    using assms(3,4,5) unfolding job(3) [symmetric] by auto
  from job_report_lemma [OF job(1,4) this(2,1,3)] obtain info' where
    "rdc_job_get_stats j gg now info c = Some (RDC_ST_OK, info')"
    and "\<forall>e\<in>set (je_gpu_stats job). usage_head (ji_gpus info' ! unat (fst e))
         = gpu_head (je_end_time job \<noteq> 0) gg (init_job_summary job now (ji_summary info)) e" by blast
  with bspec [OF this(2) gs] job(2) ab show ?thesis
    by (auto simp: usage_head_def gpu_head_def gpu_ecc_def simp del: split_paired_Ex)
qed

lemma map_of_map_snd: "map_of (map (\<lambda>(k, v). (k, h k v)) m) k = map_option (h k) (map_of m k)"
  by (induction m) auto

lemma job_gpu_stop:
  "job_gpu (snd (rdc_job_stop_stats j gg now c)) k =
     (if fst k = j then map_option (gpu_stats_stop gg (snd k)) (job_gpu c k) else job_gpu c k)"
  by (auto simp: rdc_job_stop_stats_def job_gpu_def map_of_map_snd split: option.splits)

lemma job_shape_stop:
  "job_shape c j = Some (s, e, ks) \<Longrightarrow> job_shape (snd (rdc_job_stop_stats j gg now c)) j = Some (s, now, ks)"
  by (auto simp: rdc_job_stop_stats_def job_shape_def comp_def case_prod_unfold split: option.splits)

lemma gpu_ecc_stop:
  assumes "map_of gg (g, RDC_FI_ECC_CORRECT_TOTAL) = Some b" and "map_of gg (g, RDC_FI_ECC_UNCORRECT_TOTAL) = Some b'"
  shows "gpu_ecc (gpu_stats_stop gg g gs) = (b - fst (gpu_ecc gs), b' - snd (gpu_ecc gs))"
  using assms by (simp add: gpu_ecc_def gpu_stats_stop_def Let_def)

lemma job_started:
  assumes "g \<in> set (entity_ids gi)" and "length (entity_ids gi) < 2 ^ 32"
    and "map_of gg (g, RDC_FI_ECC_CORRECT_TOTAL) = Some a" and "map_of gg (g, RDC_FI_ECC_UNCORRECT_TOTAL) = Some a'"
    and c'_def: "c' = send_samples ss (snd (rdc_job_start_stats j gi fi gg now c))"
  shows "\<exists>ks. job_shape c' j = Some (now, 0, ks) \<and> sorted_wrt (<) ks \<and> set ks = set (entity_ids gi)
    \<and> length ks < 2 ^ 32 \<and> map_option gpu_ecc (job_gpu c' (j, g)) = Some (a, a')"
proof -
  let ?m = "fold (\<lambda>g m. map_insert g (new_gpu_stats gg (field_ids fi) g) m) (entity_ids gi) []"
  have wf: "map_wf ?m" by (intro map_wf_fold_insert) simp
  have k: "set (map fst ?m) = set (entity_ids gi)"
    unfolding list.set_map dom_map_of_conv_image_fst [symmetric]
    by (simp add: dom_def map_of_fold_insert)
  have "length ?m = card (set (map fst ?m))" using distinct_card [OF map_wf_distinct [OF wf]] by (simp only: length_map)
  also have "\<dots> \<le> length (entity_ids gi)" unfolding k by (rule card_length)
  finally have "length ?m < 2 ^ 32" using assms(2) by (rule le_less_trans)
  moreover have "map_option gpu_ecc (job_gpu c' (j, g)) = Some (a, a')"
    unfolding c'_def using send_samples_frame assms(1,3,4)
    by (simp add: job_gpu_start new_gpu_stats_def gpu_ecc_def gauge_or_zero_def)
  ultimately show ?thesis using wf k
    by (auto simp: c'_def send_samples_frame job_shape_start map_wf_def)
qed

text \<open>
  ECC counts are the growth of the counters over the job. Start a job with the counters
  at \<open>a\<close> and \<open>a'\<close>, send it any samples, stop it when they are at \<open>b\<close> and \<open>b'\<close>: a later
  report gives \<open>b - a\<close> and \<open>b' - a'\<close> for the GPU whatever the counters are by then, and a
  report of the running job gives the same differences to the counters of the moment.
\<close>
theorem job_ecc_growth:
  assumes "g \<in> set (entity_ids gi)" and "length (entity_ids gi) < 2 ^ 32"
    and "map_of gg0 (g, RDC_FI_ECC_CORRECT_TOTAL) = Some a" "map_of gg0 (g, RDC_FI_ECC_UNCORRECT_TOTAL) = Some a'"
    and "map_of gg1 (g, RDC_FI_ECC_CORRECT_TOTAL) = Some b" "map_of gg1 (g, RDC_FI_ECC_UNCORRECT_TOTAL) = Some b'"
    and "now1 \<noteq> 0"
    and "\<forall>h\<in>set (entity_ids gi). gpu_reportable gg1 (length (ji_gpus info)) h"
    and "\<forall>h\<in>set (entity_ids gi). gpu_reportable gg2 (length (ji_gpus info)) h"
  shows "\<exists>i1 i2. rdc_job_get_stats j gg1 now1 info (send_samples ss (snd (rdc_job_start_stats j gi fi gg0 now0 c)))
        = Some (RDC_ST_OK, i1)
    \<and> rdc_job_get_stats j gg2 now2 info (snd (rdc_job_stop_stats j gg1 now1
          (send_samples ss (snd (rdc_job_start_stats j gi fi gg0 now0 c))))) = Some (RDC_ST_OK, i2)
    \<and> gu_ecc_correct (ji_gpus i1 ! unat g) = b - a \<and> gu_ecc_uncorrect (ji_gpus i1 ! unat g) = b' - a'
    \<and> gu_ecc_correct (ji_gpus i2 ! unat g) = b - a \<and> gu_ecc_uncorrect (ji_gpus i2 ! unat g) = b' - a'"
proof -
  let ?c = "send_samples ss (snd (rdc_job_start_stats j gi fi gg0 now0 c))"
  let ?c' = "snd (rdc_job_stop_stats j gg1 now1 ?c)"
  from job_started [OF assms(1-4)] obtain ks where sh: "job_shape ?c j = Some (now0, 0, ks)"
    and ks: "sorted_wrt (<) ks" "set ks = set (entity_ids gi)" "length ks < 2 ^ 32"
    and ecc: "map_option gpu_ecc (job_gpu ?c (j, g)) = Some (a, a')" by blast
  have g: "g \<in> set ks" and r: "\<forall>h\<in>set ks. gpu_reportable gg1 (length (ji_gpus info)) h"
    "\<forall>h\<in>set ks. gpu_reportable gg2 (length (ji_gpus info)) h" using assms(1,8,9) ks(2) by auto
  have "map_option gpu_ecc (job_gpu ?c' (j, g)) = Some (b - a, b' - a')"
    using ecc by (auto simp: job_gpu_stop gpu_ecc_stop [OF assms(5,6)])
  from job_report_ecc [OF job_shape_stop [OF sh] ks(1) g ks(3) r(2) this]
    job_report_ecc [OF sh ks(1) g ks(3) r(1) ecc, of now1] assms(5,6,7)
  show ?thesis by (auto simp: ecc_report_def)
qed

definition ecc_gauges :: "u64 \<Rightarrow> u64 \<Rightarrow> gauges" where
  "ecc_gauges a b = [((1, RDC_FI_GPU_MEMORY_TOTAL), 1000), ((1, RDC_FI_ECC_CORRECT_TOTAL), a),
     ((1, RDC_FI_ECC_UNCORRECT_TOTAL), b)]"

definition blank_job_info :: rdc_job_info where
  "blank_job_info =
     (let z = blank_usage
      in \<lparr>ji_num_gpus = 0, ji_summary = z, ji_gpus = replicate 16 z\<rparr>)"

theorem job_ecc_growth_witness:
  "\<exists>i1 i2. rdc_job_get_stats ''job'' (ecc_gauges 9 4) 60 blank_job_info
      (send_samples [(''job'', 1, sample_at 10 3)]
        (snd (rdc_job_start_stats ''job'' \<lparr>group_name = ''g'', entity_ids = [1]\<rparr>
          \<lparr>fgroup_name = ''f'', field_ids = [RDC_FI_GPU_TEMP]\<rparr> (ecc_gauges 5 4) 50 cache_manager_init))) = Some (RDC_ST_OK, i1)
    \<and> rdc_job_get_stats ''job'' (ecc_gauges 90 40) 70 blank_job_info
      (snd (rdc_job_stop_stats ''job'' (ecc_gauges 9 4) 60 (send_samples [(''job'', 1, sample_at 10 3)]
        (snd (rdc_job_start_stats ''job'' \<lparr>group_name = ''g'', entity_ids = [1]\<rparr>
          \<lparr>fgroup_name = ''f'', field_ids = [RDC_FI_GPU_TEMP]\<rparr> (ecc_gauges 5 4) 50 cache_manager_init))))) = Some (RDC_ST_OK, i2)
    \<and> gu_ecc_correct (ji_gpus i1 ! 1) = 4 \<and> gu_ecc_correct (ji_gpus i2 ! 1) = 4"
  using job_ecc_growth [of 1 "\<lparr>group_name = ''g'', entity_ids = [1]\<rparr>" "ecc_gauges 5 4" 5 4 "ecc_gauges 9 4" 9 4 60
      blank_job_info "ecc_gauges 90 40" "''job''" "[(''job'', 1, sample_at 10 3)]"
      "\<lparr>fgroup_name = ''f'', field_ids = [RDC_FI_GPU_TEMP]\<rparr>" 50 cache_manager_init 70]
  by (auto simp: ecc_gauges_def blank_job_info_def gpu_reportable_def Let_def)

section \<open>Limits of the report\<close>

text \<open>
  The report of a job is undefined when a GPU of the job has a number outside the
  caller's array: \<^verbatim>\<open>p_job_info->gpus\<close> has 16 entries and is indexed by GPU number, while
  a group accepts any GPU number.
\<close>
theorem job_report_gpu_out_of_range:
  assumes "map_of (cache_jobs c) j = Some job" and "je_gpu_stats job = (g, gs) # m"
    and "length (ji_gpus info) \<le> unat g"
  shows "rdc_job_get_stats j gg now info c = None"
  using assms by (simp add: rdc_job_get_stats_def)

theorem job_report_gpu_out_of_range_witness:
  "rdc_job_get_stats ''job'' (ecc_gauges 0 0) 60 blank_job_info
     (snd (rdc_job_start_stats ''job'' \<lparr>group_name = ''g'', entity_ids = [16]\<rparr>
       \<lparr>fgroup_name = ''f'', field_ids = [RDC_FI_GPU_TEMP]\<rparr> (ecc_gauges 5 4) 50 cache_manager_init)) = None"
  by (rule job_report_gpu_out_of_range [of _ _
      "\<lparr>je_start_time = 50, je_end_time = 0, je_gpu_stats = [(16, new_gpu_stats (ecc_gauges 5 4) [RDC_FI_GPU_TEMP] 16)]\<rparr>"
      16 "new_gpu_stats (ecc_gauges 5 4) [RDC_FI_GPU_TEMP] 16" "[]"])
    (simp_all add: rdc_job_start_stats_def cache_manager_init_def map_insert_def map_erase_def blank_job_info_def Let_def)

text \<open>The reference time of the energy integral is set by the first power sample only.\<close>

lemma energy_last_time_later:
  assumes "map_of (gs_field_summaries gs) RDC_FI_POWER_USAGE = Some fs" and "fs_count fs \<noteq> 0"
  shows "gs_energy_last_time (gpu_stats_add v gs) = gs_energy_last_time gs"
  using assms by (auto simp: gpu_stats_add_def gpu_energy_add_def Let_def split: option.splits)

definition power_sample :: "u64 \<Rightarrow> i64 \<Rightarrow> rdc_field_value" where
  "power_sample t x = \<lparr>fv_field_id = RDC_FI_POWER_USAGE, fv_status = St_rdc RDC_ST_OK, fv_ts = t,
     fv_type = INTEGER, fv_value = L_int x\<rparr>"

text \<open>
  Every power sample after the first one adds the energy since the \<^emph>\<open>first\<close> sample, not
  since the previous one, because the reference time never moves: with samples at
  \<open>t\<close>, \<open>t + 1000\<close> and \<open>t + 2000\<close> milliseconds of a constant power of 1000 W the code accumulates
  3000 joules for two seconds in which 2000 are consumed.
\<close>
theorem job_energy_overcounted:
  "map_option gs_energy_consumed
     (job_gpu (send_samples [(''job'', 1, power_sample 5000 1000000000), (''job'', 1, power_sample 6000 1000000000),
          (''job'', 1, power_sample 7000 1000000000)]
        (snd (rdc_job_start_stats ''job'' \<lparr>group_name = ''g'', entity_ids = [1]\<rparr>
          \<lparr>fgroup_name = ''f'', field_ids = [RDC_FI_POWER_USAGE]\<rparr> [] 50 cache_manager_init))) (''job'', 1))
   = Some 3000"
  by (simp add: send_samples_def job_gpu_update job_gpu_start power_sample_def gpu_stats_add_def
      new_gpu_stats_def map_insert_def Let_def gpu_energy_add_def map_modify_def field_summary_add_def
      empty_field_summary_def u64_of_double_def)

end
