(* ===== verification/Rdc_Platform.thy ===== *)
theory Rdc_Platform
  imports Rdc_Fields
begin

text \<open>
  The platform below the daemon. The AMD SMI library and libcap are not part of the
  repository: their answers are the records \<open>amdsmi\<close> and \<open>libcap\<close>, parameters of every
  definition that calls them (a record holds the answers during one call of an operation).
  On top of them this theory has the helpers of \<^verbatim>\<open>SmiUtils.cc\<close> (status translation, from a
  GPU number to a processor handle, counting processors) and of \<^verbatim>\<open>common/rdc_capabilities\<close>
  (raising a capability and dropping it again).
\<close>

section \<open>The AMD SMI library\<close>

type_synonym socket_handle = nat
type_synonym processor_handle = nat
type_synonym event_handle = nat

datatype processor_type = AMDSMI_PROCESSOR_TYPE_AMD_GPU | AMDSMI_PROCESSOR_TYPE_OTHER nat
datatype clk_type = AMDSMI_CLK_TYPE_SYS | AMDSMI_CLK_TYPE_MEM
datatype temperature_type =
  AMDSMI_TEMPERATURE_TYPE_EDGE | AMDSMI_TEMPERATURE_TYPE_VRAM | AMDSMI_TEMPERATURE_TYPE_JUNCTION
datatype event_group = AMDSMI_EVNT_GRP_XGMI | AMDSMI_EVNT_GRP_XGMI_DATA_OUT
datatype event_type =
    AMDSMI_EVNT_XGMI_0_NOP_TX | AMDSMI_EVNT_XGMI_0_REQUEST_TX | AMDSMI_EVNT_XGMI_0_RESPONSE_TX
  | AMDSMI_EVNT_XGMI_0_BEATS_TX | AMDSMI_EVNT_XGMI_1_NOP_TX | AMDSMI_EVNT_XGMI_1_REQUEST_TX
  | AMDSMI_EVNT_XGMI_1_RESPONSE_TX | AMDSMI_EVNT_XGMI_1_BEATS_TX | AMDSMI_EVNT_XGMI_DATA_OUT nat
datatype counter_command = AMDSMI_CNTR_CMD_START | AMDSMI_CNTR_CMD_STOP
datatype gpu_block =
    AMDSMI_GPU_BLOCK_INVALID | AMDSMI_GPU_BLOCK_UMC | AMDSMI_GPU_BLOCK_SDMA | AMDSMI_GPU_BLOCK_GFX
  | AMDSMI_GPU_BLOCK_MMHUB | AMDSMI_GPU_BLOCK_ATHUB | AMDSMI_GPU_BLOCK_PCIE_BIF | AMDSMI_GPU_BLOCK_HDP
  | AMDSMI_GPU_BLOCK_XGMI_WAFL | AMDSMI_GPU_BLOCK_DF | AMDSMI_GPU_BLOCK_SMN | AMDSMI_GPU_BLOCK_SEM
  | AMDSMI_GPU_BLOCK_MP0 | AMDSMI_GPU_BLOCK_MP1 | AMDSMI_GPU_BLOCK_FUSE | AMDSMI_GPU_BLOCK_MCA
  | AMDSMI_GPU_BLOCK_VCN | AMDSMI_GPU_BLOCK_JPEG | AMDSMI_GPU_BLOCK_IH | AMDSMI_GPU_BLOCK_MPIO
datatype evt_notification_type =
    AMDSMI_EVT_NOTIF_VMFAULT | AMDSMI_EVT_NOTIF_FIRST | AMDSMI_EVT_NOTIF_THERMAL_THROTTLE
  | AMDSMI_EVT_NOTIF_GPU_PRE_RESET | AMDSMI_EVT_NOTIF_GPU_POST_RESET | AMDSMI_EVT_NOTIF_RING_HANG
  | AMDSMI_EVT_NOTIF_OTHER nat

record engine_usage =
  eu_gfx_activity :: u32
  eu_umc_activity :: u32

record power_info =
  pi_average_socket_power :: u32
  pi_current_socket_power :: u32

record frequencies =
  fr_current :: u32
  fr_frequency :: "u64 list"

record asic_info =
  ai_market_name :: string
  ai_oam_id :: u32

record gpu_metrics =
  gm_current_gfxclk :: "16 word"
  gm_temperature_mem :: "16 word"
  gm_temperature_edge :: "16 word"
  gm_average_socket_power :: "16 word"
  gm_current_socket_power :: "16 word"
  gm_average_gfx_activity :: "16 word"
  gm_pcie_bandwidth_inst :: u64
  gm_xgmi_read_data_acc :: "u64 list"
  gm_xgmi_write_data_acc :: "u64 list"

record counter_value =
  cv_value :: u64
  cv_time_running :: u64

text \<open>
  A function with an out parameter returns its status and the value written there. The
  blocks are named; \<open>smi_block_code\<close> is their bit pattern, the bounds of the loop over all
  blocks are \<open>smi_block_first\<close> and \<open>smi_block_last\<close>, and ECC queries take the pattern.
\<close>

record amdsmi =
  smi_socket_handles :: "amdsmi_status \<times> socket_handle list"
  smi_processor_handles :: "socket_handle \<Rightarrow> amdsmi_status \<times> processor_handle list"
  smi_processor_type :: "processor_handle \<Rightarrow> processor_type"
  smi_memory_usage :: "processor_handle \<Rightarrow> amdsmi_status \<times> u64"
  smi_memory_total :: "processor_handle \<Rightarrow> amdsmi_status \<times> u64"
  smi_gpu_activity :: "processor_handle \<Rightarrow> amdsmi_status \<times> engine_usage"
  smi_power_info :: "processor_handle \<Rightarrow> amdsmi_status \<times> power_info"
  smi_clk_freq :: "processor_handle \<Rightarrow> clk_type \<Rightarrow> amdsmi_status \<times> frequencies"
  smi_asic_info :: "processor_handle \<Rightarrow> amdsmi_status \<times> asic_info"
  smi_temp_metric :: "processor_handle \<Rightarrow> temperature_type \<Rightarrow> amdsmi_status \<times> i64"
  smi_decoder_activity :: "processor_handle \<Rightarrow> amdsmi_status \<times> u64"
  smi_block_code :: "gpu_block \<Rightarrow> u32"
  smi_block_first :: u32
  smi_block_last :: u32
  smi_ecc_status :: "processor_handle \<Rightarrow> u32 \<Rightarrow> amdsmi_status"
  smi_ecc_count :: "processor_handle \<Rightarrow> u32 \<Rightarrow> amdsmi_status \<times> u64 \<times> u64"
  smi_gpu_metrics :: "processor_handle \<Rightarrow> amdsmi_status \<times> gpu_metrics"
  smi_pci_throughput :: "processor_handle \<Rightarrow> amdsmi_status \<times> u64 \<times> u64"
  smi_counter_group_supported :: "processor_handle \<Rightarrow> event_group \<Rightarrow> amdsmi_status"
  smi_available_counters :: "processor_handle \<Rightarrow> event_group \<Rightarrow> amdsmi_status \<times> u32"
  smi_create_counter :: "processor_handle \<Rightarrow> event_type \<Rightarrow> amdsmi_status \<times> event_handle"
  smi_control_counter :: "event_handle \<Rightarrow> counter_command \<Rightarrow> amdsmi_status"
  smi_destroy_counter :: "event_handle \<Rightarrow> amdsmi_status"
  smi_read_counter :: "event_handle \<Rightarrow> amdsmi_status \<times> counter_value"
  smi_event_mask_from_index :: "evt_notification_type \<Rightarrow> u64"
  smi_init_event_notification :: "processor_handle \<Rightarrow> amdsmi_status"
  smi_set_event_mask :: "processor_handle \<Rightarrow> u64 \<Rightarrow> amdsmi_status"
  smi_stop_event_notification :: "processor_handle \<Rightarrow> amdsmi_status"
  smi_get_event_notification :: "u32 \<Rightarrow> u32 \<Rightarrow> amdsmi_status \<times> (processor_handle \<times> evt_notification_type \<times> string) list"
  smi_bdf_id :: "processor_handle \<Rightarrow> u64"

section \<open>\<open>SmiUtils.cc\<close>\<close>

fun Smi2RdcError :: "amdsmi_status \<Rightarrow> rdc_status" where
  "Smi2RdcError AMDSMI_STATUS_SUCCESS = RDC_ST_OK"
| "Smi2RdcError AMDSMI_STATUS_INVAL = RDC_ST_BAD_PARAMETER"
| "Smi2RdcError AMDSMI_STATUS_NOT_SUPPORTED = RDC_ST_NOT_SUPPORTED"
| "Smi2RdcError AMDSMI_STATUS_NOT_FOUND = RDC_ST_NOT_FOUND"
| "Smi2RdcError AMDSMI_STATUS_OUT_OF_RESOURCES = RDC_ST_INSUFF_RESOURCES"
| "Smi2RdcError AMDSMI_STATUS_FILE_ERROR = RDC_ST_FILE_ERROR"
| "Smi2RdcError AMDSMI_STATUS_NO_DATA = RDC_ST_NO_DATA"
| "Smi2RdcError AMDSMI_STATUS_NO_PERM = RDC_ST_PERM_ERROR"
| "Smi2RdcError _ = RDC_ST_UNKNOWN_ERROR"

text \<open>The processors of one socket are accepted while they are GPUs.\<close>

fun socket_gpus :: "amdsmi \<Rightarrow> processor_handle list \<Rightarrow> processor_handle list \<Rightarrow> amdsmi_status + processor_handle list" where
  "socket_gpus smi [] acc = Inr acc"
| "socket_gpus smi (p # ps) acc =
     (if smi_processor_type smi p \<noteq> AMDSMI_PROCESSOR_TYPE_AMD_GPU then Inl AMDSMI_STATUS_NOT_SUPPORTED
      else socket_gpus smi ps (acc @ [p]))"

fun all_gpus :: "amdsmi \<Rightarrow> socket_handle list \<Rightarrow> processor_handle list \<Rightarrow> amdsmi_status + processor_handle list" where
  "all_gpus smi [] acc = Inr acc"
| "all_gpus smi (s # ss) acc =
     (case smi_processor_handles smi s of (ret, ps) \<Rightarrow>
        if ret \<noteq> AMDSMI_STATUS_SUCCESS then Inl ret
        else case socket_gpus smi ps acc of Inl e \<Rightarrow> Inl e | Inr acc' \<Rightarrow> all_gpus smi ss acc')"

definition get_processor_handle_from_id :: "amdsmi \<Rightarrow> u32 \<Rightarrow> amdsmi_status + processor_handle" where
  "get_processor_handle_from_id smi gpu_id =
     (case smi_socket_handles smi of (ret, sockets) \<Rightarrow>
        if ret \<noteq> AMDSMI_STATUS_SUCCESS then Inl ret
        else case all_gpus smi sockets [] of
               Inl e \<Rightarrow> Inl e
             | Inr ps \<Rightarrow> if unat gpu_id < length ps then Inr (ps ! unat gpu_id)
                         else Inl AMDSMI_STATUS_INPUT_OUT_OF_BOUNDS)"

fun count_processors :: "amdsmi \<Rightarrow> socket_handle list \<Rightarrow> u32 \<Rightarrow> amdsmi_status + u32" where
  "count_processors smi [] tot = Inr tot"
| "count_processors smi (s # ss) tot =
     (case smi_processor_handles smi s of (ret, ps) \<Rightarrow>
        if ret \<noteq> AMDSMI_STATUS_SUCCESS then Inl ret
        else count_processors smi ss (tot + word_of_nat (length ps)))"

definition get_processor_count :: "amdsmi \<Rightarrow> amdsmi_status + u32" where
  "get_processor_count smi =
     (case smi_socket_handles smi of (ret, sockets) \<Rightarrow>
        if ret \<noteq> AMDSMI_STATUS_SUCCESS then Inl ret else count_processors smi sockets 0)"

section \<open>Capabilities\<close>

text \<open>
  libcap: the error number of each of its calls (0 is success), separately for raising and
  for dropping; the capability set of the process is the state.
\<close>

datatype cap_value = CAP_DAC_OVERRIDE | CAP_OTHER nat
datatype cap_flag = CAP_EFFECTIVE | CAP_PERMITTED | CAP_INHERITABLE

type_synonym cap_state = "(cap_value \<times> cap_flag) set"

record libcap =
  lc_get_proc :: "bool \<Rightarrow> nat"
  lc_set_flag :: "bool \<Rightarrow> nat"
  lc_set_proc :: "bool \<Rightarrow> nat"
  lc_free :: "bool \<Rightarrow> nat"
  lc_get_flag :: nat

definition GetCapability :: "libcap \<Rightarrow> cap_value \<Rightarrow> cap_flag \<Rightarrow> cap_state \<Rightarrow> nat \<times> bool option" where
  "GetCapability lc c t caps =
     (if lc_get_proc lc True \<noteq> 0 then (lc_get_proc lc True, None)
      else if lc_get_flag lc \<noteq> 0 then (lc_get_flag lc, None)
      else if lc_free lc True \<noteq> 0 then (lc_free lc True, None)
      else (0, Some ((c, t) \<in> caps)))"

definition ModifyCapability :: "libcap \<Rightarrow> cap_value \<Rightarrow> cap_flag \<Rightarrow> bool \<Rightarrow> cap_state \<Rightarrow> nat \<times> cap_state" where
  "ModifyCapability lc c t enable caps =
     (if lc_get_proc lc enable \<noteq> 0 then (lc_get_proc lc enable, caps)
      else if lc_set_flag lc enable \<noteq> 0 then (lc_set_flag lc enable, caps)
      else if lc_set_proc lc enable \<noteq> 0 then (lc_set_proc lc enable, caps)
      else (lc_free lc enable, if enable then insert (c, t) caps else caps - {(c, t)}))"

text \<open>
  \<^verbatim>\<open>ScopedCapability\<close>: the constructor raises the capability, \<^verbatim>\<open>Relinquish\<close> and the
  destructor drop it; the destructor runs on every exit of the scope.
\<close>

definition cap_acquire :: "libcap \<Rightarrow> cap_state \<Rightarrow> nat \<times> cap_state" where
  "cap_acquire lc = ModifyCapability lc CAP_DAC_OVERRIDE CAP_EFFECTIVE True"

definition cap_release :: "libcap \<Rightarrow> cap_state \<Rightarrow> nat \<times> cap_state" where
  "cap_release lc = ModifyCapability lc CAP_DAC_OVERRIDE CAP_EFFECTIVE False"

text \<open>A capability in effect; it may be permitted without being in effect, and then it can be raised again.\<close>

definition has_dac :: "cap_state \<Rightarrow> bool" where
  "has_dac caps \<longleftrightarrow> (CAP_DAC_OVERRIDE, CAP_EFFECTIVE) \<in> caps"

definition can_drop :: "libcap \<Rightarrow> bool" where
  "can_drop lc \<longleftrightarrow> lc_get_proc lc False = 0 \<and> lc_set_flag lc False = 0 \<and> lc_set_proc lc False = 0"

lemma release_drops: "can_drop lc \<Longrightarrow> \<not> has_dac (snd (cap_release lc caps))"
  by (simp add: can_drop_def has_dac_def cap_release_def ModifyCapability_def)

lemma release_no_dac: "\<not> has_dac caps \<Longrightarrow> \<not> has_dac (snd (cap_release lc caps))"
  by (simp add: has_dac_def cap_release_def ModifyCapability_def)

section \<open>GPU numbers and processor handles\<close>

lemma socket_gpus_append:
  "socket_gpus smi ps acc =
     (if \<forall>p\<in>set ps. smi_processor_type smi p = AMDSMI_PROCESSOR_TYPE_AMD_GPU then Inr (acc @ ps)
      else Inl AMDSMI_STATUS_NOT_SUPPORTED)"
  by (induction ps arbitrary: acc) auto

lemma all_gpus_InrD:
  "all_gpus smi ss acc = Inr r \<Longrightarrow>
   r = acc @ concat (map (\<lambda>s. snd (smi_processor_handles smi s)) ss)
   \<and> (\<forall>s\<in>set ss. fst (smi_processor_handles smi s) = AMDSMI_STATUS_SUCCESS)"
  by (induction ss arbitrary: acc)
    (fastforce simp: socket_gpus_append split: prod.splits if_splits sum.splits)+

lemma count_processors_eq:
  "\<forall>s\<in>set ss. fst (smi_processor_handles smi s) = AMDSMI_STATUS_SUCCESS \<Longrightarrow>
   count_processors smi ss t = Inr (t + word_of_nat (length (concat (map (\<lambda>s. snd (smi_processor_handles smi s)) ss))))"
  by (induction ss arbitrary: t) (auto split: prod.splits)

lemma Smi2RdcError_OK [simp]: "Smi2RdcError e = RDC_ST_OK \<longleftrightarrow> e = AMDSMI_STATUS_SUCCESS"
  by (cases e) simp_all

lemma all_gpus_InlD: "all_gpus smi ss acc = Inl e \<Longrightarrow> e \<noteq> AMDSMI_STATUS_SUCCESS"
  by (induction ss arbitrary: acc)
    (auto simp: socket_gpus_append split: prod.splits if_splits sum.splits)

lemma processor_handle_error: "get_processor_handle_from_id smi g \<noteq> Inl AMDSMI_STATUS_SUCCESS"
  by (auto simp: get_processor_handle_from_id_def dest!: all_gpus_InlD split: prod.splits sum.splits)

text \<open>
  GPU numbers are exactly 0 to count - 1. When the handle of some GPU number can be
  found and there are fewer than \<open>2 ^ 32\<close> processors, the reported processor count \<open>n\<close> bounds
  the numbers that have a handle: every smaller number has one, every other one is out of
  bounds.
\<close>
theorem processor_handle_iff_counted:
  assumes "get_processor_handle_from_id smi g = Inr h"
    and "length (concat (map (\<lambda>s. snd (smi_processor_handles smi s)) (snd (smi_socket_handles smi)))) < 2 ^ 32"
  shows "\<exists>n. get_processor_count smi = Inr n \<and> g < n
    \<and> (\<forall>i. (\<exists>h'. get_processor_handle_from_id smi i = Inr h') \<longleftrightarrow> i < n)
    \<and> (\<forall>i. n \<le> i \<longrightarrow> get_processor_handle_from_id smi i = Inl AMDSMI_STATUS_INPUT_OUT_OF_BOUNDS)"
proof -
  obtain ret ss where ss: "smi_socket_handles smi = (ret, ss)" by (cases "smi_socket_handles smi")
  from assms(1) obtain ps where ok: "ret = AMDSMI_STATUS_SUCCESS" and ps: "all_gpus smi ss [] = Inr ps"
    and g: "unat g < length ps"
    by (auto simp: get_processor_handle_from_id_def ss split: if_splits sum.splits)
  note d = all_gpus_InrD [OF ps]
  have n: "get_processor_count smi = Inr (word_of_nat (length ps))"
    using d count_processors_eq [of ss smi 0] by (simp add: get_processor_count_def ss ok)
  have "length ps < 2 ^ 32" using assms(2) d ss by simp
  then have lt: "i < word_of_nat (length ps) \<longleftrightarrow> unat i < length ps" for i :: u32
    by (simp add: word_less_nat_alt unat_of_nat)
  show ?thesis using n g
    by (auto simp: lt not_less [symmetric] get_processor_handle_from_id_def ss ok ps)
qed

text \<open>A platform with two GPUs on two sockets, and a libcap without errors, for the examples.\<close>

definition two_gpu_smi :: amdsmi where
  "two_gpu_smi =
     \<lparr>smi_socket_handles = (AMDSMI_STATUS_SUCCESS, [0, 1]),
      smi_processor_handles = (\<lambda>s. (AMDSMI_STATUS_SUCCESS, [100 + s])),
      smi_processor_type = (\<lambda>_. AMDSMI_PROCESSOR_TYPE_AMD_GPU),
      smi_memory_usage = (\<lambda>_. (AMDSMI_STATUS_SUCCESS, 4096)),
      smi_memory_total = (\<lambda>_. (AMDSMI_STATUS_SUCCESS, 65536)),
      smi_gpu_activity = (\<lambda>_. (AMDSMI_STATUS_SUCCESS, \<lparr>eu_gfx_activity = 50, eu_umc_activity = 20\<rparr>)),
      smi_power_info = (\<lambda>_. (AMDSMI_STATUS_SUCCESS, \<lparr>pi_average_socket_power = 300, pi_current_socket_power = 310\<rparr>)),
      smi_clk_freq = (\<lambda>_ _. (AMDSMI_STATUS_SUCCESS, \<lparr>fr_current = 1, fr_frequency = [500, 1000]\<rparr>)),
      smi_asic_info = (\<lambda>_. (AMDSMI_STATUS_SUCCESS, \<lparr>ai_market_name = ''MI300'', ai_oam_id = 0\<rparr>)),
      smi_temp_metric = (\<lambda>_ _. (AMDSMI_STATUS_SUCCESS, 45)),
      smi_decoder_activity = (\<lambda>_. (AMDSMI_STATUS_SUCCESS, 3)),
      smi_block_code = (\<lambda>b. if b = AMDSMI_GPU_BLOCK_UMC then 1 else if b = AMDSMI_GPU_BLOCK_SDMA then 2
        else if b = AMDSMI_GPU_BLOCK_GFX then 4 else 0),
      smi_block_first = 1, smi_block_last = 4,
      smi_ecc_status = (\<lambda>_ _. AMDSMI_STATUS_SUCCESS),
      smi_ecc_count = (\<lambda>_ b. (AMDSMI_STATUS_SUCCESS, ucast b, 10 * ucast b)),
      smi_gpu_metrics = (\<lambda>_. (AMDSMI_STATUS_NOT_SUPPORTED,
        \<lparr>gm_current_gfxclk = 0, gm_temperature_mem = 0, gm_temperature_edge = 0, gm_average_socket_power = 0,
         gm_current_socket_power = 0, gm_average_gfx_activity = 0, gm_pcie_bandwidth_inst = 0,
         gm_xgmi_read_data_acc = replicate 8 0, gm_xgmi_write_data_acc = replicate 8 0\<rparr>)),
      smi_pci_throughput = (\<lambda>_. (AMDSMI_STATUS_SUCCESS, 7, 9)),
      smi_counter_group_supported = (\<lambda>_ _. AMDSMI_STATUS_SUCCESS),
      smi_available_counters = (\<lambda>_ _. (AMDSMI_STATUS_SUCCESS, 4)),
      smi_create_counter = (\<lambda>_ _. (AMDSMI_STATUS_SUCCESS, 55)),
      smi_control_counter = (\<lambda>_ _. AMDSMI_STATUS_SUCCESS),
      smi_destroy_counter = (\<lambda>_. AMDSMI_STATUS_SUCCESS),
      smi_read_counter = (\<lambda>_. (AMDSMI_STATUS_SUCCESS, \<lparr>cv_value = 8, cv_time_running = 1000000000\<rparr>)),
      smi_event_mask_from_index = (\<lambda>e. if e = AMDSMI_EVT_NOTIF_VMFAULT then 1 else 2),
      smi_init_event_notification = (\<lambda>_. AMDSMI_STATUS_SUCCESS),
      smi_set_event_mask = (\<lambda>_ _. AMDSMI_STATUS_SUCCESS),
      smi_stop_event_notification = (\<lambda>_. AMDSMI_STATUS_SUCCESS),
      smi_get_event_notification = (\<lambda>_ _. (AMDSMI_STATUS_SUCCESS, [(100, AMDSMI_EVT_NOTIF_VMFAULT, ''fault'')])),
      smi_bdf_id = (\<lambda>h. word_of_nat (256 * h))\<rparr>"

definition quiet_libcap :: libcap where
  "quiet_libcap = \<lparr>lc_get_proc = (\<lambda>_. 0), lc_set_flag = (\<lambda>_. 0), lc_set_proc = (\<lambda>_. 0), lc_free = (\<lambda>_. 0), lc_get_flag = 0\<rparr>"

lemma can_drop_quiet [simp]: "can_drop quiet_libcap"
  by (simp add: can_drop_def quiet_libcap_def)

lemma two_gpu_handle: "get_processor_handle_from_id two_gpu_smi g =
    (if unat g < 2 then Inr (100 + unat g) else Inl AMDSMI_STATUS_INPUT_OUT_OF_BOUNDS)"
  by (auto simp: get_processor_handle_from_id_def two_gpu_smi_def less_2_cases_iff)

theorem processor_handle_iff_counted_witness:
  "\<exists>n. get_processor_count two_gpu_smi = Inr n \<and> 1 < n
    \<and> (\<forall>i. n \<le> i \<longrightarrow> get_processor_handle_from_id two_gpu_smi i = Inl AMDSMI_STATUS_INPUT_OUT_OF_BOUNDS)"
proof -
  have "get_processor_handle_from_id two_gpu_smi 1 = Inr 101" by (simp add: two_gpu_handle)
  moreover have "length (concat (map (\<lambda>s. snd (smi_processor_handles two_gpu_smi s))
      (snd (smi_socket_handles two_gpu_smi)))) < 2 ^ 32" by (simp add: two_gpu_smi_def)
  ultimately show ?thesis using processor_handle_iff_counted [of two_gpu_smi 1 101] by blast
qed

end
