(* ===== verification/Rdc_Notification.thy ===== *)
theory Rdc_Notification
  imports Rdc_Platform
begin

text \<open>
  \<^verbatim>\<open>RdcNotificationImpl\<close>: the event notification masks of the GPUs. Listening sets the mask of
  every GPU of a watch with the file capability raised around the driver call, events are
  translated to field values, and unwatching clears the mask of a GPU.
\<close>

section \<open>Event fields\<close>

definition rdc_2_smi_event_notif_map :: "u32 \<Rightarrow> evt_notification_type option" where
  "rdc_2_smi_event_notif_map f =
     map_of [(RDC_EVNT_NOTIF_VMFAULT, AMDSMI_EVT_NOTIF_VMFAULT),
             (RDC_EVNT_NOTIF_FIRST, AMDSMI_EVT_NOTIF_FIRST),
             (RDC_EVNT_NOTIF_THERMAL_THROTTLE, AMDSMI_EVT_NOTIF_THERMAL_THROTTLE),
             (RDC_EVNT_NOTIF_PRE_RESET, AMDSMI_EVT_NOTIF_GPU_PRE_RESET),
             (RDC_EVNT_NOTIF_POST_RESET, AMDSMI_EVT_NOTIF_GPU_POST_RESET),
             (RDC_EVNT_NOTIF_RING_HANG, AMDSMI_EVT_NOTIF_RING_HANG)] f"

fun smi_event_notif_2_rdc_map :: "evt_notification_type \<Rightarrow> u32 option" where
  "smi_event_notif_2_rdc_map AMDSMI_EVT_NOTIF_VMFAULT = Some RDC_EVNT_NOTIF_VMFAULT"
| "smi_event_notif_2_rdc_map AMDSMI_EVT_NOTIF_FIRST = Some RDC_EVNT_NOTIF_FIRST"
| "smi_event_notif_2_rdc_map AMDSMI_EVT_NOTIF_THERMAL_THROTTLE = Some RDC_EVNT_NOTIF_THERMAL_THROTTLE"
| "smi_event_notif_2_rdc_map AMDSMI_EVT_NOTIF_GPU_PRE_RESET = Some RDC_EVNT_NOTIF_PRE_RESET"
| "smi_event_notif_2_rdc_map AMDSMI_EVT_NOTIF_GPU_POST_RESET = Some RDC_EVNT_NOTIF_POST_RESET"
| "smi_event_notif_2_rdc_map AMDSMI_EVT_NOTIF_RING_HANG = Some RDC_EVNT_NOTIF_RING_HANG"
| "smi_event_notif_2_rdc_map (AMDSMI_EVT_NOTIF_OTHER _) = None"

definition kMaxRSMIEvents :: u32 where "kMaxRSMIEvents = 64"

definition is_notification_event :: "u32 \<Rightarrow> bool" where
  "is_notification_event f \<longleftrightarrow> rdc_2_smi_event_notif_map f \<noteq> None"

section \<open>Operations\<close>

text \<open>\<^verbatim>\<open>gpu_evnt_notif_masks_\<close>; the subscript operator creates a missing entry with mask 0.\<close>

type_synonym notif_masks = "(u32, u64) smap"

definition mask_at :: "u32 \<Rightarrow> notif_masks \<Rightarrow> u64" where
  "mask_at g m = (case map_of m g of None \<Rightarrow> 0 | Some w \<Rightarrow> w)"

unbundle bit_operations_syntax

fun new_masks :: "amdsmi \<Rightarrow> (u32 \<times> u32) list \<Rightarrow> notif_masks \<Rightarrow> notif_masks" where
  "new_masks smi [] m = m"
| "new_masks smi (fk # fks) m =
     (case rdc_2_smi_event_notif_map (snd fk) of
        None \<Rightarrow> new_masks smi fks m
      | Some e \<Rightarrow>
          new_masks smi fks (map_put (fst fk) (mask_at (fst fk) m OR smi_event_mask_from_index smi e) m))"

fun set_masks :: "amdsmi \<Rightarrow> libcap \<Rightarrow> notif_masks \<Rightarrow> notif_masks \<times> cap_state \<Rightarrow> rdc_status \<times> notif_masks \<times> cap_state" where
  "set_masks smi lc [] s = (RDC_ST_OK, s)"
| "set_masks smi lc ((g, w) # rest) (m, caps) =
     (let m1 = map_insert g 0 m in
      if w = mask_at g m1 then set_masks smi lc rest (m1, caps)
      else case get_processor_handle_from_id smi g of
             Inl e \<Rightarrow> (Smi2RdcError e, m1, caps)
           | Inr h \<Rightarrow>
               (case cap_acquire lc caps of (err, caps1) \<Rightarrow>
                  if err \<noteq> 0 then (RDC_ST_PERM_ERROR, m1, snd (cap_release lc caps1))
                  else if smi_init_event_notification smi h \<noteq> AMDSMI_STATUS_SUCCESS
                  then set_masks smi lc rest (m1, snd (cap_release lc caps1))
                  else let ret = smi_set_event_mask smi h w;
                           (err2, caps2) = cap_release lc caps1;
                           caps3 = snd (cap_release lc caps2)
                       in if err2 \<noteq> 0 then (RDC_ST_PERM_ERROR, m1, caps3)
                          else if ret = AMDSMI_STATUS_SUCCESS
                          then set_masks smi lc rest (map_put g w m1, caps3)
                          else (Smi2RdcError ret, m1, caps3)))"

definition set_listen_events ::
    "amdsmi \<Rightarrow> libcap \<Rightarrow> (u32 \<times> u32) list \<Rightarrow> notif_masks \<times> cap_state \<Rightarrow> rdc_status \<times> notif_masks \<times> cap_state" where
  "set_listen_events smi lc fk_arr s = set_masks smi lc (new_masks smi fk_arr []) s"

record rdc_evnt_notification =
  en_gpu_id :: u32
  en_field :: rdc_field_value

text \<open>An event of an unknown kind fails the assertion of the loop: the result is \<^const>\<open>None\<close>.\<close>

fun translate_events ::
    "amdsmi \<Rightarrow> u64 \<Rightarrow> (processor_handle \<times> evt_notification_type \<times> string) list
     \<Rightarrow> rdc_evnt_notification list option" where
  "translate_events smi now [] = Some []"
| "translate_events smi now ((h, e, msg) # es) =
     (case smi_event_notif_2_rdc_map e of
        None \<Rightarrow> None
      | Some f \<Rightarrow>
          map_option (\<lambda>r. \<lparr>en_gpu_id = ucast (smi_bdf_id smi h),
                     en_field = \<lparr>fv_field_id = f, fv_status = St_rdc RDC_ST_OK, fv_ts = now, fv_type = STRING,
                       fv_value = Str (strncpy_with_null [] msg RDC_MAX_STR_LENGTH)\<rparr>\<rparr> # r)
            (translate_events smi now es))"

definition listen ::
    "amdsmi \<Rightarrow> u64 \<Rightarrow> u32 \<Rightarrow> u32 \<Rightarrow> (rdc_status \<times> rdc_evnt_notification list) option" where
  "listen smi now num_events timeout_ms =
     (if num_events = 0 then Some (RDC_ST_BAD_PARAMETER, [])
      else case smi_get_event_notification smi timeout_ms (min num_events kMaxRSMIEvents) of (ret, es) \<Rightarrow>
             if ret \<noteq> AMDSMI_STATUS_SUCCESS then Some (Smi2RdcError ret, [])
             else map_option (Pair RDC_ST_OK) (translate_events smi now es))"

text \<open>A mask that cannot be cleared in the driver is only logged.\<close>

definition stop_listening :: "amdsmi \<Rightarrow> u32 \<Rightarrow> notif_masks \<Rightarrow> rdc_status \<times> notif_masks" where
  "stop_listening smi g m =
     (case get_processor_handle_from_id smi g of
        Inl e \<Rightarrow> (Smi2RdcError e, m)
      | Inr h \<Rightarrow>
          (RDC_ST_OK, if smi_stop_event_notification smi h = AMDSMI_STATUS_SUCCESS then map_put g 0 m else m))"

section \<open>Properties\<close>

lemma mask_at_put [simp]: "mask_at g (map_put h w m) = (if g = h then w else mask_at g m)"
  by (simp add: mask_at_def)

lemma mask_at_insert0 [simp]: "mask_at g (map_insert h 0 m) = mask_at g m"
  by (simp add: mask_at_def map_of_map_insert split: option.split)

text \<open>
  The capability to override file permissions is never kept: if dropping a capability
  works, then whatever the driver answers and on every exit path, including early returns
  and a failure to raise it, \<open>set_listen_events\<close> ends without the capability if it began
  without it.
\<close>
theorem set_listen_events_drops_capability:
  assumes "can_drop lc" and "\<not> has_dac caps"
  shows "\<not> has_dac (snd (snd (set_listen_events smi lc fks (m, caps))))"
proof -
  have "\<not> has_dac c \<Longrightarrow> \<not> has_dac (snd (snd (set_masks smi lc ws (m, c))))" for ws m c
    by (induction ws arbitrary: m c)
      (auto simp: Let_def case_prod_unfold release_drops [OF assms(1)] split: sum.splits if_splits)
  then show ?thesis using assms(2) by (simp add: set_listen_events_def)
qed

theorem set_listen_events_drops_capability_witness:
  "\<not> has_dac (snd (snd (set_listen_events two_gpu_smi quiet_libcap [(0, RDC_EVNT_NOTIF_VMFAULT)] ([], {}))))"
  by (rule set_listen_events_drops_capability) (simp_all add: has_dac_def)

text \<open>The mask a watch asks for: the events of its fields on one GPU, joined.\<close>

definition wanted_mask :: "amdsmi \<Rightarrow> (u32 \<times> u32) list \<Rightarrow> u32 \<Rightarrow> u64" where
  "wanted_mask smi fks g =
     foldr (\<lambda>fk w. case rdc_2_smi_event_notif_map (snd fk) of
        Some e \<Rightarrow> if fst fk = g then smi_event_mask_from_index smi e OR w else w | None \<Rightarrow> w) fks 0"

lemma mask_at_new_masks: "mask_at g (new_masks smi fks m) = mask_at g m OR wanted_mask smi fks g"
  by (induction fks arbitrary: m)
    (auto simp: wanted_mask_def ac_simps split: option.split)

lemma dom_new_masks:
  "dom (map_of (new_masks smi fks m)) =
     dom (map_of m) \<union> {g. \<exists>f. (g, f) \<in> set fks \<and> is_notification_event f}"
  by (induction fks arbitrary: m) (force simp: is_notification_event_def split: option.split)+

lemma map_wf_new_masks: "map_wf m \<Longrightarrow> map_wf (new_masks smi fks m)"
  by (induction fks arbitrary: m) (auto split: option.split)

lemma set_masks_other: "g \<notin> fst ` set ws \<Longrightarrow> mask_at g (fst (snd (set_masks smi lc ws (m, c)))) = mask_at g m"
proof (induction ws arbitrary: m c)
  case (Cons w ws)
  obtain h x where w: "w = (h, x)" by (cases w)
  with Cons.prems have g: "g \<noteq> h" "g \<notin> fst ` set ws" by auto
  show ?case using Cons.IH [OF g(2)] g(1) by (auto simp: w Let_def case_prod_unfold split: sum.split)
qed simp

lemma set_masks_sets:
  assumes "\<And>h. smi_init_event_notification smi h = AMDSMI_STATUS_SUCCESS"
    and "distinct (map fst ws)" and "fst (set_masks smi lc ws (m, c)) = RDC_ST_OK" and "(g, w) \<in> set ws"
  shows "mask_at g (fst (snd (set_masks smi lc ws (m, c)))) = w"
  using assms(2-4)
proof (induction ws arbitrary: m c)
  case (Cons v ws)
  obtain h x where v: "v = (h, x)" by (cases v)
  show ?case
  proof (cases "(g, w) \<in> set ws")
    case True
    with Cons.IH Cons.prems show ?thesis
      by (auto simp: v Let_def case_prod_unfold assms(1) processor_handle_error split: sum.splits if_splits)
  next
    case False
    with Cons.prems v have g: "h = g" "x = w" "g \<notin> fst ` set ws" by auto
    with Cons.prems set_masks_other [OF g(3)] show ?thesis
      by (auto simp: v Let_def case_prod_unfold assms(1) processor_handle_error split: sum.splits if_splits)
  qed
qed simp

text \<open>
  A successful \<open>set_listen_events\<close> on devices whose event source opens leaves, for every GPU
  with an event field in the watch, exactly the mask of that watch's events, and does not
  touch the masks of other GPUs.
\<close>
theorem set_listen_events_mask:
  assumes "\<And>h. smi_init_event_notification smi h = AMDSMI_STATUS_SUCCESS"
    and "set_listen_events smi lc fks (m, c) = (RDC_ST_OK, m', c')"
  shows "mask_at g m' = (if \<exists>f. (g, f) \<in> set fks \<and> is_notification_event f
                         then wanted_mask smi fks g else mask_at g m)"
proof (cases "\<exists>f. (g, f) \<in> set fks \<and> is_notification_event f")
  case True
  let ?ws = "new_masks smi fks []"
  from True obtain w where w: "map_of ?ws g = Some w" using dom_new_masks [of smi fks "[]"] by blast
  then have "w = wanted_mask smi fks g" using mask_at_new_masks [of g smi fks "[]"] by (simp add: mask_at_def)
  moreover have "distinct (map fst ?ws)" by (intro map_wf_distinct map_wf_new_masks) simp
  moreover have "set_masks smi lc ?ws (m, c) = (RDC_ST_OK, m', c')"
    using assms(2) by (simp add: set_listen_events_def)
  ultimately show ?thesis
    using True set_masks_sets [OF assms(1), of ?ws lc m c g w] map_of_SomeD [OF w] by simp
next
  case False
  then have "g \<notin> fst ` set (new_masks smi fks [])"
    using dom_new_masks [of smi fks "[]"] by (simp add: dom_map_of_conv_image_fst)
  with False set_masks_other [of g "new_masks smi fks []" smi lc m c] assms(2) show ?thesis
    by (auto simp: set_listen_events_def)
qed

theorem set_listen_events_mask_witness:
  "mask_at 0 (fst (snd (set_listen_events two_gpu_smi quiet_libcap
     [(0, RDC_EVNT_NOTIF_VMFAULT), (0, RDC_EVNT_NOTIF_RING_HANG), (1, RDC_FI_GPU_TEMP)] ([], {})))) = 3"
proof -
  let ?fks = "[(0, RDC_EVNT_NOTIF_VMFAULT), (0, RDC_EVNT_NOTIF_RING_HANG), (1, RDC_FI_GPU_TEMP)]"
  have init: "smi_init_event_notification two_gpu_smi h = AMDSMI_STATUS_SUCCESS" for h
    by (simp add: two_gpu_smi_def)
  have "fst (set_listen_events two_gpu_smi quiet_libcap ?fks ([], {})) = RDC_ST_OK"
    by (simp add: set_listen_events_def rdc_2_smi_event_notif_map_def mask_at_def two_gpu_handle init
        cap_acquire_def cap_release_def ModifyCapability_def quiet_libcap_def map_insert_def Let_def)
      (simp add: two_gpu_smi_def)
  then obtain m' c' where r: "set_listen_events two_gpu_smi quiet_libcap ?fks ([], {}) = (RDC_ST_OK, m', c')"
    by (cases "set_listen_events two_gpu_smi quiet_libcap ?fks ([], {})") auto
  have "is_notification_event RDC_EVNT_NOTIF_VMFAULT"
    by (simp add: is_notification_event_def rdc_2_smi_event_notif_map_def)
  then have "mask_at 0 m' = wanted_mask two_gpu_smi ?fks 0"
    using set_listen_events_mask [OF init r, of 0] by auto
  also have "\<dots> = 3" by (simp add: wanted_mask_def rdc_2_smi_event_notif_map_def two_gpu_smi_def)
  finally show ?thesis unfolding r by simp
qed

text \<open>
  A second watch replaces the mask of the first. On a GPU whose VM faults are being
  listened to, watching the ring-hang event leaves the mask of the ring-hang event alone:
  VM faults, still in the watch table, are no longer delivered.
\<close>
theorem set_listen_events_forgets:
  "mask_at 0 (fst (snd (set_listen_events two_gpu_smi quiet_libcap [(0, RDC_EVNT_NOTIF_RING_HANG)]
     (snd (set_listen_events two_gpu_smi quiet_libcap [(0, RDC_EVNT_NOTIF_VMFAULT)] ([], {}))))))
   = smi_event_mask_from_index two_gpu_smi AMDSMI_EVT_NOTIF_RING_HANG"
  by (simp add: set_listen_events_def rdc_2_smi_event_notif_map_def mask_at_def two_gpu_handle
      cap_acquire_def cap_release_def ModifyCapability_def quiet_libcap_def map_insert_def Let_def)
    (simp add: two_gpu_smi_def)

lemma translate_events_SomeD:
  "translate_events smi now evs = Some es \<Longrightarrow>
   map en_gpu_id es = map (\<lambda>ev. ucast (smi_bdf_id smi (fst ev))) evs
   \<and> map (\<lambda>e. Some (fv_field_id (en_field e))) es = map (\<lambda>ev. smi_event_notif_2_rdc_map (fst (snd ev))) evs
   \<and> (\<forall>e\<in>set es. value_status_ok (fv_status (en_field e)) \<and> fv_ts (en_field e) = now
        \<and> fv_type (en_field e) = STRING \<and> length (c_str (fv_value (en_field e))) < RDC_MAX_STR_LENGTH)"
proof (induction evs arbitrary: es)
  case (Cons ev evs)
  obtain h e msg where ev: "ev = (h, e, msg)" by (cases ev)
  have "length (strncpy_with_null [] msg RDC_MAX_STR_LENGTH) < RDC_MAX_STR_LENGTH"
    by (rule length_strncpy_with_null) (simp add: RDC_MAX_STR_LENGTH_def)
  with Cons show ?case by (auto simp: ev split: option.splits)
qed simp

text \<open>
  Events become valid string samples of the right field, in order, stamped with the time
  of the call and cut to the size of the buffer. The GPU they carry is the low half of the
  PCI bus address of the device, not the GPU number that watches and cache look-ups use.
\<close>
theorem listen_events:
  assumes "listen smi now n timeout = Some (RDC_ST_OK, es)"
  shows "\<exists>evs. smi_get_event_notification smi timeout (min n kMaxRSMIEvents) = (AMDSMI_STATUS_SUCCESS, evs)
    \<and> map en_gpu_id es = map (\<lambda>ev. ucast (smi_bdf_id smi (fst ev))) evs
    \<and> map (\<lambda>e. Some (fv_field_id (en_field e))) es = map (\<lambda>ev. smi_event_notif_2_rdc_map (fst (snd ev))) evs
    \<and> (\<forall>e\<in>set es. value_status_ok (fv_status (en_field e)) \<and> fv_ts (en_field e) = now
        \<and> fv_type (en_field e) = STRING \<and> length (c_str (fv_value (en_field e))) < RDC_MAX_STR_LENGTH)"
proof -
  obtain ret evs where evs: "smi_get_event_notification smi timeout (min n kMaxRSMIEvents) = (ret, evs)"
    by (meson surj_pair)
  with assms have "ret = AMDSMI_STATUS_SUCCESS" "translate_events smi now evs = Some es"
    by (auto simp: listen_def split: if_splits)
  with translate_events_SomeD evs show ?thesis by blast
qed

theorem listen_events_witness:
  "\<exists>es. listen two_gpu_smi 5 64 10000 = Some (RDC_ST_OK, es) \<and> map en_gpu_id es = [25600]"
proof -
  have g: "smi_get_event_notification two_gpu_smi t k = (AMDSMI_STATUS_SUCCESS, [(100, AMDSMI_EVT_NOTIF_VMFAULT, ''fault'')])"
    for t k by (simp add: two_gpu_smi_def)
  obtain es where "listen two_gpu_smi 5 64 10000 = Some (RDC_ST_OK, es)" by (simp add: listen_def g)
  with listen_events [OF this] show ?thesis by (auto simp: g) (simp add: two_gpu_smi_def)
qed

end
