(* ===== verification/Rdc_Metric_Fetcher.thy ===== *)
theory Rdc_Metric_Fetcher
  imports Rdc_Platform
begin

text \<open>
  \<^verbatim>\<open>RdcMetricFetcherImpl\<close>: reading one field of one GPU through the SMI library, the bulk
  read of the fields in the GPU metrics table, the asynchronous PCIe throughput with its
  cache and task queue, and the handles of the XGMI event counters. An indeterminate
  processor handle that is used, an array index out of range, an exception and a loop that
  does not end give \<^const>\<open>None\<close>.
\<close>

section \<open>State\<close>

record metric_value =
  mv_cache_ttl :: u64
  mv_last_time :: u64
  mv_value :: rdc_field_value

record field_smi_data =
  sd_evt_handle :: event_handle
  sd_counter_val :: counter_value

record metric_fetcher =
  async_metrics :: "(u32 \<times> u32, metric_value) smap"
  smi_data :: "(u32 \<times> u32, field_smi_data) smap"
  updated_tasks :: "(u32 \<times> u32) list"
  bulk_status :: amdsmi_status

definition metric_fetcher_init :: metric_fetcher where
  "metric_fetcher_init =
     \<lparr>async_metrics = [], smi_data = [], updated_tasks = [], bulk_status = AMDSMI_STATUS_SUCCESS\<rparr>"

section \<open>ECC counters\<close>

definition ecc_fields :: "(u32 \<times> u32 \<times> gpu_block) list" where
  "ecc_fields =
     [(RDC_FI_ECC_SDMA_CE, RDC_FI_ECC_SDMA_UE, AMDSMI_GPU_BLOCK_SDMA),
      (RDC_FI_ECC_GFX_CE, RDC_FI_ECC_GFX_UE, AMDSMI_GPU_BLOCK_GFX),
      (RDC_FI_ECC_MMHUB_CE, RDC_FI_ECC_MMHUB_UE, AMDSMI_GPU_BLOCK_MMHUB),
      (RDC_FI_ECC_ATHUB_CE, RDC_FI_ECC_ATHUB_UE, AMDSMI_GPU_BLOCK_ATHUB),
      (RDC_FI_ECC_PCIE_BIF_CE, RDC_FI_ECC_PCIE_BIF_UE, AMDSMI_GPU_BLOCK_PCIE_BIF),
      (RDC_FI_ECC_HDP_CE, RDC_FI_ECC_HDP_UE, AMDSMI_GPU_BLOCK_HDP),
      (RDC_FI_ECC_XGMI_WAFL_CE, RDC_FI_ECC_XGMI_WAFL_UE, AMDSMI_GPU_BLOCK_XGMI_WAFL),
      (RDC_FI_ECC_DF_CE, RDC_FI_ECC_DF_UE, AMDSMI_GPU_BLOCK_DF),
      (RDC_FI_ECC_SMN_CE, RDC_FI_ECC_SMN_UE, AMDSMI_GPU_BLOCK_SMN),
      (RDC_FI_ECC_SEM_CE, RDC_FI_ECC_SEM_UE, AMDSMI_GPU_BLOCK_SEM),
      (RDC_FI_ECC_MP0_CE, RDC_FI_ECC_MP0_UE, AMDSMI_GPU_BLOCK_MP0),
      (RDC_FI_ECC_MP1_CE, RDC_FI_ECC_MP1_UE, AMDSMI_GPU_BLOCK_MP1),
      (RDC_FI_ECC_FUSE_CE, RDC_FI_ECC_FUSE_UE, AMDSMI_GPU_BLOCK_FUSE),
      (RDC_FI_ECC_UMC_CE, RDC_FI_ECC_UMC_UE, AMDSMI_GPU_BLOCK_UMC),
      (RDC_FI_ECC_MCA_CE, RDC_FI_ECC_MCA_UE, AMDSMI_GPU_BLOCK_MCA),
      (RDC_FI_ECC_VCN_CE, RDC_FI_ECC_VCN_UE, AMDSMI_GPU_BLOCK_VCN),
      (RDC_FI_ECC_JPEG_CE, RDC_FI_ECC_JPEG_UE, AMDSMI_GPU_BLOCK_JPEG),
      (RDC_FI_ECC_IH_CE, RDC_FI_ECC_IH_UE, AMDSMI_GPU_BLOCK_IH),
      (RDC_FI_ECC_MPIO_CE, RDC_FI_ECC_MPIO_UE, AMDSMI_GPU_BLOCK_MPIO)]"

text \<open>The switch of \<^verbatim>\<open>field_to_block_\<close>: the two labels of each block are one row of the table.\<close>

definition field_to_block :: "u32 \<Rightarrow> gpu_block" where
  "field_to_block f =
     (case filter (\<lambda>(ce, ue, b). f = ce \<or> f = ue) ecc_fields of
        (_, _, b) # _ \<Rightarrow> b | [] \<Rightarrow> AMDSMI_GPU_BLOCK_INVALID)"

definition get_ecc :: "amdsmi \<Rightarrow> u32 \<Rightarrow> u32 \<Rightarrow> rdc_field_value \<Rightarrow> rdc_field_value option" where
  "get_ecc smi gpu_index f v =
     (case get_processor_handle_from_id smi gpu_index of
        Inl _ \<Rightarrow> None
      | Inr h \<Rightarrow>
          let gpu_block = field_to_block f;
              blk = smi_block_code smi gpu_block;
              v1 = (if gpu_block = AMDSMI_GPU_BLOCK_INVALID
                    then v\<lparr>fv_status := St_smi AMDSMI_STATUS_INPUT_OUT_OF_BOUNDS\<rparr> else v);
              err = smi_ecc_status smi h blk
          in if err \<noteq> AMDSMI_STATUS_SUCCESS then Some (v1\<lparr>fv_status := St_smi err\<rparr>)
             else case smi_ecc_count smi h blk of (err', ce, ue) \<Rightarrow>
                    if err' \<noteq> AMDSMI_STATUS_SUCCESS then Some (v1\<lparr>fv_status := St_smi err'\<rparr>)
                    else Some (v1\<lparr>fv_status := St_smi AMDSMI_STATUS_SUCCESS, fv_type := INTEGER,
                                  fv_value := L_int (if f mod 2 = 0 then ce else ue)\<rparr>))"

text \<open>
  The loop over all blocks doubles a 32-bit pattern. After 32 doublings the pattern is 0 and
  stays 0, so a loop that has not ended after 33 tests of its condition never ends.
\<close>

definition ecc_block_add :: "amdsmi \<Rightarrow> processor_handle \<Rightarrow> u32 \<Rightarrow> u64 \<times> u64 \<Rightarrow> u64 \<times> u64" where
  "ecc_block_add smi h b acc =
     (if smi_ecc_status smi h b \<noteq> AMDSMI_STATUS_SUCCESS then acc
      else case smi_ecc_count smi h b of (err, ce, ue) \<Rightarrow>
             if err = AMDSMI_STATUS_SUCCESS then (fst acc + ce, snd acc + ue) else acc)"

fun ecc_total_loop :: "amdsmi \<Rightarrow> processor_handle \<Rightarrow> nat \<Rightarrow> u32 \<Rightarrow> u64 \<times> u64 \<Rightarrow> (u64 \<times> u64) option" where
  "ecc_total_loop smi h 0 b acc = None"
| "ecc_total_loop smi h (Suc n) b acc =
     (if b \<le> smi_block_last smi then ecc_total_loop smi h n (b * 2) (ecc_block_add smi h b acc)
      else Some acc)"

definition get_ecc_total :: "amdsmi \<Rightarrow> u32 \<Rightarrow> u32 \<Rightarrow> rdc_field_value \<Rightarrow> rdc_field_value option" where
  "get_ecc_total smi gpu_index f v =
     (case get_processor_handle_from_id smi gpu_index of
        Inl _ \<Rightarrow> None
      | Inr h \<Rightarrow>
          map_option (\<lambda>(ce, ue).
              let v1 = v\<lparr>fv_status := St_smi AMDSMI_STATUS_SUCCESS, fv_type := INTEGER\<rparr>;
                  v2 = (if f = RDC_FI_ECC_CORRECT_TOTAL then v1\<lparr>fv_value := L_int ce\<rparr> else v1)
              in if f = RDC_FI_ECC_UNCORRECT_TOTAL then v2\<lparr>fv_value := L_int ue\<rparr> else v2)
            (ecc_total_loop smi h 33 (smi_block_first smi) (0, 0)))"

section \<open>PCIe throughput\<close>

definition metric_fresh :: "u64 \<Rightarrow> metric_value \<Rightarrow> bool" where
  "metric_fresh now m \<longleftrightarrow> now < mv_last_time m + mv_cache_ttl m"

definition async_get_pcie_throughput ::
    "u64 \<Rightarrow> u32 \<Rightarrow> u32 \<Rightarrow> rdc_field_value \<Rightarrow> metric_fetcher \<Rightarrow> bool \<times> rdc_field_value \<times> metric_fetcher" where
  "async_get_pcie_throughput now gpu_index f v s =
     (case map_of (async_metrics s) (gpu_index, f) of
        Some m \<Rightarrow>
          if metric_fresh now m
          then (False, v\<lparr>fv_status := fv_status (mv_value m), fv_type := fv_type (mv_value m),
                         fv_value := fv_value (mv_value m)\<rparr>, s)
          else (True, v, s\<lparr>updated_tasks := updated_tasks s @ [(gpu_index, f)]\<rparr>)
      | None \<Rightarrow> (True, v, s\<lparr>updated_tasks := updated_tasks s @ [(gpu_index, f)]\<rparr>))"

text \<open>A new cache entry; the members of its value that are not set are indeterminate, here 0.\<close>

definition new_metric :: "u32 \<Rightarrow> metric_value" where
  "new_metric f =
     \<lparr>mv_cache_ttl = 30 * 1000, mv_last_time = 0,
      mv_value = \<lparr>fv_field_id = f, fv_status = St_smi AMDSMI_STATUS_SUCCESS, fv_ts = 0,
                  fv_type = INTEGER, fv_value = L_int 0\<rparr>\<rparr>"

definition metric_result :: "u64 \<Rightarrow> amdsmi_status \<Rightarrow> u64 \<Rightarrow> metric_value \<Rightarrow> metric_value" where
  "metric_result cur_time ret x m =
     m\<lparr>mv_last_time := cur_time,
       mv_value := (mv_value m)\<lparr>fv_status := St_smi ret, fv_ts := cur_time,
         fv_value := (if ret = AMDSMI_STATUS_SUCCESS then L_int x else fv_value (mv_value m))\<rparr>\<rparr>"

definition get_pcie_throughput ::
    "amdsmi \<Rightarrow> u64 \<Rightarrow> u64 \<Rightarrow> u32 \<times> u32 \<Rightarrow> metric_fetcher \<Rightarrow> metric_fetcher option" where
  "get_pcie_throughput smi now cur_time key s =
     (let gpu_index = fst key in
      if (case map_of (async_metrics s) key of Some m \<Rightarrow> metric_fresh now m | None \<Rightarrow> False) then Some s
      else case get_processor_handle_from_id smi gpu_index of
             Inl _ \<Rightarrow> None
           | Inr h \<Rightarrow>
               (case smi_pci_throughput smi h of (ret, sent, received) \<Rightarrow>
                  let a1 = map_insert (gpu_index, RDC_FI_PCIE_TX) (new_metric RDC_FI_PCIE_TX) (async_metrics s);
                      a2 = map_insert (gpu_index, RDC_FI_PCIE_RX) (new_metric RDC_FI_PCIE_RX) a1;
                      a3 = map_modify (gpu_index, RDC_FI_PCIE_TX) (metric_result cur_time ret sent) a2;
                      a4 = map_modify (gpu_index, RDC_FI_PCIE_RX) (metric_result cur_time ret received) a3
                  in Some (s\<lparr>async_metrics := a4\<rparr>)))"

text \<open>One round of the updater thread: it takes the oldest task, if there is one, and runs it.\<close>

definition run_task :: "amdsmi \<Rightarrow> u64 \<Rightarrow> u64 \<Rightarrow> metric_fetcher \<Rightarrow> metric_fetcher option" where
  "run_task smi now cur_time s =
     (case updated_tasks s of
        [] \<Rightarrow> Some s
      | key # rest \<Rightarrow> get_pcie_throughput smi now cur_time key (s\<lparr>updated_tasks := rest\<rparr>))"

section \<open>Bulk fetch\<close>

record rdc_gpu_field_value =
  gv_gpu_index :: u32
  gv_field_value :: rdc_field_value

definition rdc_bulk_fields :: "u32 list" where
  "rdc_bulk_fields = [RDC_FI_GPU_CLOCK, RDC_FI_MEMORY_TEMP, RDC_FI_GPU_TEMP, RDC_FI_POWER_USAGE, RDC_FI_GPU_UTIL]"

fun bulk_fields_of :: "(u32 \<times> u32) list \<Rightarrow> (u32, u32 list) smap \<Rightarrow> (u32, u32 list) smap" where
  "bulk_fields_of [] m = m"
| "bulk_fields_of (fk # fks) m =
     (if snd fk \<in> set rdc_bulk_fields
      then bulk_fields_of fks (map_modify (fst fk) (\<lambda>fs. fs @ [snd fk]) (map_insert (fst fk) [] m))
      else bulk_fields_of fks m)"

text \<open>The value of one field in the metrics table; \<^const>\<open>None\<close> leaves it to the single fetch.\<close>

definition bulk_value :: "gpu_metrics \<Rightarrow> u32 \<Rightarrow> i64 option" where
  "bulk_value m f =
     (if f = RDC_FI_GPU_CLOCK then Some (ucast (gm_current_gfxclk m) * 1000000)
      else if f = RDC_FI_MEMORY_TEMP then Some (ucast (gm_temperature_mem m) * 1000)
      else if f = RDC_FI_GPU_TEMP then Some (ucast (gm_temperature_edge m) * 1000)
      else if f = RDC_FI_POWER_USAGE
      then let avg = ucast (gm_average_socket_power m) :: i64;
               p = (if avg = 65535 then ucast (gm_current_socket_power m) else avg)
           in if p = 0 then None else Some (p * 1000000)
      else if f = RDC_FI_GPU_UTIL then Some (ucast (gm_average_gfx_activity m))
      else None)"

definition bulk_results :: "u64 \<Rightarrow> u32 \<Rightarrow> gpu_metrics \<Rightarrow> u32 list \<Rightarrow> rdc_gpu_field_value list" where
  "bulk_results cur_time g m fs =
     List.map_filter (\<lambda>f. map_option (\<lambda>x. \<lparr>gv_gpu_index = g,
         gv_field_value = \<lparr>fv_field_id = f, fv_status = St_smi AMDSMI_STATUS_SUCCESS, fv_ts = cur_time,
           fv_type = INTEGER, fv_value = L_int x\<rparr>\<rparr>) (bulk_value m f)) fs"

fun bulk_gpus ::
    "amdsmi \<Rightarrow> u64 \<Rightarrow> (u32, u32 list) smap \<Rightarrow> rdc_gpu_field_value list \<Rightarrow> metric_fetcher
     \<Rightarrow> (rdc_status \<times> rdc_gpu_field_value list \<times> metric_fetcher) option" where
  "bulk_gpus smi cur_time [] results s = Some (RDC_ST_OK, results, s)"
| "bulk_gpus smi cur_time ((g, fs) # rest) results s =
     (case get_processor_handle_from_id smi g of
        Inl _ \<Rightarrow> None
      | Inr h \<Rightarrow>
          (case smi_gpu_metrics smi h of (rs, m) \<Rightarrow>
             if rs \<noteq> AMDSMI_STATUS_SUCCESS then Some (RDC_ST_NOT_SUPPORTED, [], s\<lparr>bulk_status := rs\<rparr>)
             else bulk_gpus smi cur_time rest (results @ bulk_results cur_time g m fs) (s\<lparr>bulk_status := rs\<rparr>)))"

definition bulk_fetch_smi_fields ::
    "amdsmi \<Rightarrow> u64 \<Rightarrow> (u32 \<times> u32) list \<Rightarrow> rdc_gpu_field_value list \<Rightarrow> metric_fetcher
     \<Rightarrow> (rdc_status \<times> rdc_gpu_field_value list \<times> metric_fetcher) option" where
  "bulk_fetch_smi_fields smi cur_time fks results s =
     (if bulk_status s \<noteq> AMDSMI_STATUS_SUCCESS then Some (RDC_ST_NOT_SUPPORTED, [], s)
      else bulk_gpus smi cur_time (bulk_fields_of fks []) results s)"

section \<open>Fetching one field\<close>

definition sum_xgmi :: "u64 list \<Rightarrow> u64" where
  "sum_xgmi accs = (let tot = sum_list (filter (\<lambda>x. x \<noteq> - 1) accs) in if tot = 0 then - 1 else tot)"

definition gpu_metrics_table :: "gpu_metrics \<Rightarrow> (u32 \<times> u64) list" where
  "gpu_metrics_table m =
     zip [RDC_FI_XGMI_0_READ_KB, RDC_FI_XGMI_1_READ_KB, RDC_FI_XGMI_2_READ_KB, RDC_FI_XGMI_3_READ_KB,
          RDC_FI_XGMI_4_READ_KB, RDC_FI_XGMI_5_READ_KB, RDC_FI_XGMI_6_READ_KB, RDC_FI_XGMI_7_READ_KB]
         (gm_xgmi_read_data_acc m)
     @ zip [RDC_FI_XGMI_0_WRITE_KB, RDC_FI_XGMI_1_WRITE_KB, RDC_FI_XGMI_2_WRITE_KB, RDC_FI_XGMI_3_WRITE_KB,
            RDC_FI_XGMI_4_WRITE_KB, RDC_FI_XGMI_5_WRITE_KB, RDC_FI_XGMI_6_WRITE_KB, RDC_FI_XGMI_7_WRITE_KB]
         (gm_xgmi_write_data_acc m)
     @ [(RDC_FI_XGMI_TOTAL_READ_KB, sum_xgmi (gm_xgmi_read_data_acc m)),
        (RDC_FI_XGMI_TOTAL_WRITE_KB, sum_xgmi (gm_xgmi_write_data_acc m)),
        (RDC_FI_PCIE_BANDWIDTH, gm_pcie_bandwidth_inst m)]"

definition read_gpu_metrics_uint64_t :: "amdsmi \<Rightarrow> processor_handle \<Rightarrow> u32 \<Rightarrow> rdc_field_value \<Rightarrow> rdc_field_value" where
  "read_gpu_metrics_uint64_t smi h f v =
     (case smi_gpu_metrics smi h of (ret, m) \<Rightarrow>
        if ret \<noteq> AMDSMI_STATUS_SUCCESS then v\<lparr>fv_status := St_smi ret\<rparr>
        else case map_of (gpu_metrics_table m) f of
               Some x \<Rightarrow> if x \<noteq> - 1
                         then v\<lparr>fv_status := St_smi ret, fv_value := L_int x, fv_type := INTEGER\<rparr>
                         else v\<lparr>fv_status := St_smi AMDSMI_STATUS_NOT_SUPPORTED\<rparr>
             | None \<Rightarrow> v\<lparr>fv_status := St_smi AMDSMI_STATUS_NOT_SUPPORTED\<rparr>)"

definition get_smi_data :: "u32 \<times> u32 \<Rightarrow> metric_fetcher \<Rightarrow> field_smi_data option" where
  "get_smi_data key s = map_of (smi_data s) key"

definition read_smi_counter ::
    "amdsmi \<Rightarrow> u32 \<times> u32 \<Rightarrow> rdc_field_value \<Rightarrow> metric_fetcher \<Rightarrow> rdc_field_value \<times> metric_fetcher" where
  "read_smi_counter smi key v s =
     (case get_smi_data key s of
        None \<Rightarrow> (v\<lparr>fv_status := St_smi AMDSMI_STATUS_NOT_SUPPORTED\<rparr>, s)
      | Some d \<Rightarrow>
          (case smi_read_counter smi (sd_evt_handle d) of (ret, c) \<Rightarrow>
             (v\<lparr>fv_status := St_smi ret, fv_value := L_int (cv_value c), fv_type := INTEGER\<rparr>,
              s\<lparr>smi_data := map_modify key (\<lambda>d. d\<lparr>sd_counter_val := c\<rparr>) (smi_data s)\<rparr>)))"

text \<open>Conversion of a \<^verbatim>\<open>double\<close> to \<^verbatim>\<open>int64_t\<close> truncates towards zero.\<close>

definition i64_of_double :: "real \<Rightarrow> i64" where
  "i64_of_double r = word_of_int (if 0 \<le> r then \<lfloor>r\<rfloor> else \<lceil>r\<rceil>)"

definition read_throughput ::
    "amdsmi \<Rightarrow> u32 \<times> u32 \<Rightarrow> rdc_field_value \<Rightarrow> metric_fetcher \<Rightarrow> rdc_field_value \<times> metric_fetcher" where
  "read_throughput smi key v s =
     (case read_smi_counter smi key v s of (v1, s1) \<Rightarrow>
        case get_smi_data key s1 of
          None \<Rightarrow> (v1, s1)
        | Some d \<Rightarrow>
            if value_status_ok (fv_status v1)
            then let t = cv_time_running (sd_counter_val d) in
                 if t > 0
                 then (v1\<lparr>fv_value := L_int (i64_of_double (real_of_int (sint (l_int (fv_value v1) * 32))
                                              / (real (unat t) / 1000000000)))\<rparr>, s1)
                 else (v1\<lparr>fv_value := L_int 0\<rparr>, s1)
            else (v1, s1))"

text \<open>The pattern of most cases: status and type are set, the value only on success.\<close>

definition put_integer :: "amdsmi_status \<Rightarrow> i64 \<Rightarrow> rdc_field_value \<Rightarrow> rdc_field_value" where
  "put_integer ret x v =
     (let v1 = v\<lparr>fv_status := St_smi ret, fv_type := INTEGER\<rparr> in
      if ret = AMDSMI_STATUS_SUCCESS then v1\<lparr>fv_value := L_int x\<rparr> else v1)"

definition fetch_power :: "amdsmi \<Rightarrow> processor_handle \<Rightarrow> rdc_field_value \<Rightarrow> rdc_status option \<times> rdc_field_value" where
  "fetch_power smi h v =
     (case smi_power_info smi h of (ret, p) \<Rightarrow>
        let v1 = v\<lparr>fv_status := St_smi ret, fv_type := INTEGER\<rparr> in
        if ret \<noteq> AMDSMI_STATUS_SUCCESS then (None, v1)
        else if pi_average_socket_power p \<noteq> 65535
        then (None, v1\<lparr>fv_value := L_int (ucast (pi_average_socket_power p) * 1000 * 1000)\<rparr>)
        else if pi_current_socket_power p \<noteq> 65535
        then (None, v1\<lparr>fv_value := L_int (ucast (pi_current_socket_power p) * 1000 * 1000)\<rparr>)
        else (Some RDC_ST_NO_DATA, v1\<lparr>fv_status := St_smi AMDSMI_STATUS_NOT_SUPPORTED\<rparr>))"

definition fetch_clock :: "amdsmi \<Rightarrow> processor_handle \<Rightarrow> u32 \<Rightarrow> rdc_field_value \<Rightarrow> rdc_field_value option" where
  "fetch_clock smi h f v =
     (case smi_clk_freq smi h (if f = RDC_FI_MEM_CLOCK then AMDSMI_CLK_TYPE_MEM else AMDSMI_CLK_TYPE_SYS) of
        (ret, fr) \<Rightarrow>
          if ret \<noteq> AMDSMI_STATUS_SUCCESS then Some (put_integer ret 0 v)
          else if unat (fr_current fr) < length (fr_frequency fr)
          then Some (put_integer ret (fr_frequency fr ! unat (fr_current fr)) v)
          else None)"

definition fetch_temp :: "amdsmi \<Rightarrow> processor_handle \<Rightarrow> u32 \<Rightarrow> rdc_field_value \<Rightarrow> rdc_field_value" where
  "fetch_temp smi h f v =
     (let sensor_type = (if f = RDC_FI_MEMORY_TEMP then AMDSMI_TEMPERATURE_TYPE_VRAM else AMDSMI_TEMPERATURE_TYPE_EDGE);
          r = smi_temp_metric smi h sensor_type;
          r' = (if sensor_type = AMDSMI_TEMPERATURE_TYPE_EDGE \<and> fst r = AMDSMI_STATUS_NOT_SUPPORTED
                then smi_temp_metric smi h AMDSMI_TEMPERATURE_TYPE_JUNCTION else r)
      in put_integer (fst r') (snd r' * 1000) v)"

definition fetch_oam_id :: "amdsmi \<Rightarrow> processor_handle \<Rightarrow> rdc_field_value \<Rightarrow> rdc_field_value" where
  "fetch_oam_id smi h v =
     (case smi_asic_info smi h of (ret, a) \<Rightarrow>
        let v1 = v\<lparr>fv_status := St_smi ret, fv_type := INTEGER\<rparr> in
        if ret \<noteq> AMDSMI_STATUS_SUCCESS then v1
        else if ai_oam_id a = 0xFFFF then v1\<lparr>fv_status := St_smi AMDSMI_STATUS_NOT_SUPPORTED\<rparr>
        else v1\<lparr>fv_value := L_int (ucast (ai_oam_id a))\<rparr>)"

definition fetch_dev_name :: "amdsmi \<Rightarrow> processor_handle \<Rightarrow> rdc_field_value \<Rightarrow> rdc_field_value" where
  "fetch_dev_name smi h v =
     (case smi_asic_info smi h of (ret, a) \<Rightarrow>
        let v1 = v\<lparr>fv_status := St_smi ret, fv_type := STRING\<rparr> in
        if ret = AMDSMI_STATUS_SUCCESS then v1\<lparr>fv_value := Str (ai_market_name a)\<rparr> else v1)"

definition fetch_gpu_count :: "amdsmi \<Rightarrow> rdc_field_value \<Rightarrow> rdc_field_value" where
  "fetch_gpu_count smi v =
     (case get_processor_count smi of
        Inl ret \<Rightarrow> put_integer ret 0 v
      | Inr n \<Rightarrow> put_integer AMDSMI_STATUS_SUCCESS (ucast n) v)"

definition xgmi_counter_fields :: "u32 list" where
  "xgmi_counter_fields =
     [RDC_EVNT_XGMI_0_NOP_TX, RDC_EVNT_XGMI_0_REQ_TX, RDC_EVNT_XGMI_0_RESP_TX, RDC_EVNT_XGMI_0_BEATS_TX,
      RDC_EVNT_XGMI_1_NOP_TX, RDC_EVNT_XGMI_1_REQ_TX, RDC_EVNT_XGMI_1_RESP_TX, RDC_EVNT_XGMI_1_BEATS_TX]"

definition xgmi_throughput_fields :: "u32 list" where
  "xgmi_throughput_fields =
     [RDC_EVNT_XGMI_0_THRPUT, RDC_EVNT_XGMI_1_THRPUT, RDC_EVNT_XGMI_2_THRPUT, RDC_EVNT_XGMI_3_THRPUT,
      RDC_EVNT_XGMI_4_THRPUT, RDC_EVNT_XGMI_5_THRPUT]"

definition xgmi_metric_fields :: "u32 list" where
  "xgmi_metric_fields =
     [RDC_FI_XGMI_0_READ_KB, RDC_FI_XGMI_1_READ_KB, RDC_FI_XGMI_2_READ_KB, RDC_FI_XGMI_3_READ_KB,
      RDC_FI_XGMI_4_READ_KB, RDC_FI_XGMI_5_READ_KB, RDC_FI_XGMI_6_READ_KB, RDC_FI_XGMI_7_READ_KB,
      RDC_FI_XGMI_TOTAL_READ_KB, RDC_FI_XGMI_0_WRITE_KB, RDC_FI_XGMI_1_WRITE_KB, RDC_FI_XGMI_2_WRITE_KB,
      RDC_FI_XGMI_3_WRITE_KB, RDC_FI_XGMI_4_WRITE_KB, RDC_FI_XGMI_5_WRITE_KB, RDC_FI_XGMI_6_WRITE_KB,
      RDC_FI_XGMI_7_WRITE_KB, RDC_FI_XGMI_TOTAL_WRITE_KB, RDC_FI_PCIE_BANDWIDTH]"

text \<open>
  The switch of \<^verbatim>\<open>fetch_smi_field\<close>. The first component of the result is the status of a case
  that returns at once.
\<close>

definition fetch_switch ::
    "amdsmi \<Rightarrow> u64 \<Rightarrow> u32 \<Rightarrow> u32 \<Rightarrow> processor_handle \<Rightarrow> rdc_field_value \<Rightarrow> metric_fetcher
     \<Rightarrow> (rdc_status option \<times> rdc_field_value \<times> metric_fetcher) option" where
  "fetch_switch smi now g f h v s =
     (if f = RDC_FI_GPU_MEMORY_USAGE
      then (case smi_memory_usage smi h of (ret, x) \<Rightarrow> Some (None, put_integer ret x v, s))
      else if f = RDC_FI_GPU_MEMORY_TOTAL
      then (case smi_memory_total smi h of (ret, x) \<Rightarrow> Some (None, put_integer ret x v, s))
      else if f = RDC_FI_GPU_MEMORY_ACTIVITY
      then (case smi_gpu_activity smi h of (ret, u) \<Rightarrow> Some (None, put_integer ret (ucast (eu_umc_activity u)) v, s))
      else if f = RDC_FI_GPU_COUNT then Some (None, fetch_gpu_count smi v, s)
      else if f = RDC_FI_POWER_USAGE
      then (case fetch_power smi h v of (early, v') \<Rightarrow> Some (early, v', s))
      else if f = RDC_FI_GPU_CLOCK \<or> f = RDC_FI_MEM_CLOCK
      then map_option (\<lambda>v'. (None, v', s)) (fetch_clock smi h f v)
      else if f = RDC_FI_GPU_UTIL
      then (case smi_gpu_activity smi h of (ret, u) \<Rightarrow> Some (None, put_integer ret (ucast (eu_gfx_activity u)) v, s))
      else if f = RDC_FI_DEV_NAME then Some (None, fetch_dev_name smi h v, s)
      else if f = RDC_FI_GPU_TEMP \<or> f = RDC_FI_MEMORY_TEMP then Some (None, fetch_temp smi h f v, s)
      else if f = RDC_FI_OAM_ID then Some (None, fetch_oam_id smi h v, s)
      else if f = RDC_FI_GPU_MM_ENC_UTIL
      then Some (Some RDC_ST_NO_DATA, v\<lparr>fv_status := St_smi AMDSMI_STATUS_NOT_SUPPORTED\<rparr>, s)
      else if f = RDC_FI_GPU_MM_DEC_UTIL
      then (case smi_decoder_activity smi h of (ret, x) \<Rightarrow> Some (None, put_integer ret x v, s))
      else if f = RDC_FI_ECC_CORRECT_TOTAL \<or> f = RDC_FI_ECC_UNCORRECT_TOTAL
      then map_option (\<lambda>v'. (None, v', s)) (get_ecc_total smi g f v)
      else if field_to_block f \<noteq> AMDSMI_GPU_BLOCK_INVALID
      then map_option (\<lambda>v'. (None, v', s)) (get_ecc smi g f v)
      else if f = RDC_FI_PCIE_TX \<or> f = RDC_FI_PCIE_RX
      then (case async_get_pcie_throughput now g f v s of (_, v', s') \<Rightarrow> Some (None, v', s'))
      else if f \<in> set xgmi_counter_fields
      then (case read_smi_counter smi (g, f) v s of (v', s') \<Rightarrow> Some (None, v', s'))
      else if f \<in> set xgmi_throughput_fields
      then (case read_throughput smi (g, f) v s of (v', s') \<Rightarrow> Some (None, v', s'))
      else if f \<in> set xgmi_metric_fields then Some (None, read_gpu_metrics_uint64_t smi h f v, s)
      else Some (None, v, s))"

definition fetch_smi_field ::
    "amdsmi \<Rightarrow> u64 \<Rightarrow> u64 \<Rightarrow> u32 \<Rightarrow> u32 \<Rightarrow> rdc_field_value \<Rightarrow> metric_fetcher
     \<Rightarrow> (rdc_status \<times> rdc_field_value \<times> metric_fetcher) option" where
  "fetch_smi_field smi now now' g f v s =
     (case get_processor_handle_from_id smi g of
        Inl e \<Rightarrow> Some (Smi2RdcError e, v, s)
      | Inr h \<Rightarrow>
          if \<not> is_field_valid f then Some (RDC_ST_NOT_SUPPORTED, v, s)
          else map_option
                 (\<lambda>(early, v', s').
                    ((case early of Some st \<Rightarrow> st
                      | None \<Rightarrow> if value_status_ok (fv_status v') then RDC_ST_OK else RDC_ST_MSI_ERROR), v', s'))
                 (fetch_switch smi now' g f h
                    (v\<lparr>fv_ts := now, fv_field_id := f, fv_status := St_smi AMDSMI_STATUS_NOT_SUPPORTED\<rparr>) s))"

section \<open>Event counter handles\<close>

definition rdc_evnt_2_smi_field :: "u32 \<Rightarrow> event_type option" where
  "rdc_evnt_2_smi_field f =
     map_of [(RDC_EVNT_XGMI_0_NOP_TX, AMDSMI_EVNT_XGMI_0_NOP_TX),
             (RDC_EVNT_XGMI_0_REQ_TX, AMDSMI_EVNT_XGMI_0_REQUEST_TX),
             (RDC_EVNT_XGMI_0_RESP_TX, AMDSMI_EVNT_XGMI_0_RESPONSE_TX),
             (RDC_EVNT_XGMI_0_BEATS_TX, AMDSMI_EVNT_XGMI_0_BEATS_TX),
             (RDC_EVNT_XGMI_1_NOP_TX, AMDSMI_EVNT_XGMI_1_NOP_TX),
             (RDC_EVNT_XGMI_1_REQ_TX, AMDSMI_EVNT_XGMI_1_REQUEST_TX),
             (RDC_EVNT_XGMI_1_RESP_TX, AMDSMI_EVNT_XGMI_1_RESPONSE_TX),
             (RDC_EVNT_XGMI_1_BEATS_TX, AMDSMI_EVNT_XGMI_1_BEATS_TX),
             (RDC_EVNT_XGMI_0_THRPUT, AMDSMI_EVNT_XGMI_DATA_OUT 0),
             (RDC_EVNT_XGMI_1_THRPUT, AMDSMI_EVNT_XGMI_DATA_OUT 1),
             (RDC_EVNT_XGMI_2_THRPUT, AMDSMI_EVNT_XGMI_DATA_OUT 2),
             (RDC_EVNT_XGMI_3_THRPUT, AMDSMI_EVNT_XGMI_DATA_OUT 3),
             (RDC_EVNT_XGMI_4_THRPUT, AMDSMI_EVNT_XGMI_DATA_OUT 4),
             (RDC_EVNT_XGMI_5_THRPUT, AMDSMI_EVNT_XGMI_DATA_OUT 5)] f"

definition init_smi_counter ::
    "amdsmi \<Rightarrow> libcap \<Rightarrow> u32 \<times> u32 \<Rightarrow> event_group \<Rightarrow> cap_state \<Rightarrow> (rdc_status \<times> event_handle \<times> cap_state) option" where
  "init_smi_counter smi lc fk grp caps =
     (case get_processor_handle_from_id smi (fst fk) of
        Inl _ \<Rightarrow> None
      | Inr h \<Rightarrow>
          let ret = smi_counter_group_supported smi h grp in
          if ret \<noteq> AMDSMI_STATUS_SUCCESS then Some (Smi2RdcError ret, 0, caps)
          else (case smi_available_counters smi h grp of (ret, n) \<Rightarrow>
            if ret \<noteq> AMDSMI_STATUS_SUCCESS then Some (Smi2RdcError ret, 0, caps)
            else if n = 0 then Some (RDC_ST_INSUFF_RESOURCES, 0, caps)
            else case rdc_evnt_2_smi_field (snd fk) of
                   None \<Rightarrow> None
                 | Some evt \<Rightarrow>
                     (case cap_acquire lc caps of (err, caps1) \<Rightarrow>
                        if err \<noteq> 0 then Some (RDC_ST_PERM_ERROR, 0, snd (cap_release lc caps1))
                        else case smi_create_counter smi h evt of (ret, handle) \<Rightarrow>
                               if ret \<noteq> AMDSMI_STATUS_SUCCESS
                               then Some (Smi2RdcError ret, handle, snd (cap_release lc caps1))
                               else let ret = smi_control_counter smi handle AMDSMI_CNTR_CMD_START;
                                        (err2, caps2) = cap_release lc caps1;
                                        caps3 = snd (cap_release lc caps2)
                                    in if err2 \<noteq> 0 then Some (RDC_ST_PERM_ERROR, handle, caps3)
                                       else Some (Smi2RdcError ret, handle, caps3))))"

definition delete_smi_handle :: "amdsmi \<Rightarrow> u32 \<times> u32 \<Rightarrow> metric_fetcher \<Rightarrow> rdc_status \<times> metric_fetcher" where
  "delete_smi_handle smi fk s =
     (if snd fk \<in> set xgmi_counter_fields \<or> snd fk \<in> set xgmi_throughput_fields
      then (case map_of (smi_data s) fk of
              None \<Rightarrow> (RDC_ST_NOT_SUPPORTED, s)
            | Some d \<Rightarrow>
                let h = sd_evt_handle d;
                    ret = smi_control_counter smi h AMDSMI_CNTR_CMD_STOP;
                    s' = s\<lparr>smi_data := map_erase fk (smi_data s)\<rparr>
                in if ret \<noteq> AMDSMI_STATUS_SUCCESS then (Smi2RdcError ret, s')
                   else (Smi2RdcError (smi_destroy_counter smi h), s'))
      else (RDC_ST_NOT_SUPPORTED, s))"

definition get_evnt_handle ::
    "amdsmi \<Rightarrow> libcap \<Rightarrow> u32 \<times> u32 \<Rightarrow> event_group \<Rightarrow> metric_fetcher \<times> cap_state
     \<Rightarrow> (rdc_status \<times> metric_fetcher \<times> cap_state) option" where
  "get_evnt_handle smi lc fk grp sc =
     (case get_smi_data fk (fst sc) of
        Some _ \<Rightarrow> Some (RDC_ST_ALREADY_EXIST, sc)
      | None \<Rightarrow>
          map_option (\<lambda>(result, handle, caps).
              if result \<noteq> RDC_ST_OK then (result, fst sc, caps)
              else (RDC_ST_OK,
                    (fst sc)\<lparr>smi_data := map_put fk \<lparr>sd_evt_handle = handle,
                       sd_counter_val = \<lparr>cv_value = 0, cv_time_running = 0\<rparr>\<rparr> (smi_data (fst sc))\<rparr>, caps))
            (init_smi_counter smi lc fk grp (snd sc)))"

definition acquire_smi_handle ::
    "amdsmi \<Rightarrow> libcap \<Rightarrow> u32 \<times> u32 \<Rightarrow> metric_fetcher \<times> cap_state
     \<Rightarrow> (rdc_status \<times> metric_fetcher \<times> cap_state) option" where
  "acquire_smi_handle smi lc fk sc =
     (if snd fk \<in> set xgmi_counter_fields then get_evnt_handle smi lc fk AMDSMI_EVNT_GRP_XGMI sc
      else if snd fk \<in> set xgmi_throughput_fields then get_evnt_handle smi lc fk AMDSMI_EVNT_GRP_XGMI_DATA_OUT sc
      else Some (RDC_ST_OK, sc))"

section \<open>Properties\<close>

subsection \<open>What a fetch writes\<close>

lemma put_integer_frame [simp]:
  "fv_ts (put_integer r x v) = fv_ts v" "fv_field_id (put_integer r x v) = fv_field_id v"
  by (simp_all add: put_integer_def Let_def)

text \<open>
  A result that keeps the stamp of the value: same time and field, and a case that returns
  at once reports missing data together with an unsuccessful status.
\<close>

definition keeps_stamp :: "rdc_field_value \<Rightarrow> (rdc_status option \<times> rdc_field_value \<times> metric_fetcher) option \<Rightarrow> bool" where
  "keeps_stamp v r \<longleftrightarrow> (case r of None \<Rightarrow> True | Some (early, v', _) \<Rightarrow>
     fv_ts v' = fv_ts v \<and> fv_field_id v' = fv_field_id v
     \<and> (\<forall>st. early = Some st \<longrightarrow> st = RDC_ST_NO_DATA \<and> \<not> value_status_ok (fv_status v')))"

lemma keeps_stamp_if: "keeps_stamp v a \<Longrightarrow> keeps_stamp v b \<Longrightarrow> keeps_stamp v (if c then a else b)"
  by simp

lemma keeps_stamp_Some:
  "fv_ts v' = fv_ts v \<Longrightarrow> fv_field_id v' = fv_field_id v \<Longrightarrow> keeps_stamp v (Some (None, v', s))"
  by (simp add: keeps_stamp_def)

lemma keeps_stamp_map:
  "(\<And>v'. r = Some v' \<Longrightarrow> fv_ts v' = fv_ts v \<and> fv_field_id v' = fv_field_id v) \<Longrightarrow>
   keeps_stamp v (map_option (\<lambda>v'. (None, v', s)) r)"
  by (cases r) (auto simp: keeps_stamp_def)

lemma keeps_stamp_put: "keeps_stamp v (case r of (ret, x) \<Rightarrow> Some (None, put_integer ret (k x) v, s))"
  by (cases r) (simp add: keeps_stamp_def)

lemma keeps_stamp_no_data:
  "keeps_stamp v (Some (Some RDC_ST_NO_DATA, v\<lparr>fv_status := St_smi AMDSMI_STATUS_NOT_SUPPORTED\<rparr>, s))"
  by (simp add: keeps_stamp_def)

lemma keeps_stamp_power: "keeps_stamp v (case fetch_power smi h v of (early, v') \<Rightarrow> Some (early, v', s))"
  by (auto simp: fetch_power_def keeps_stamp_def Let_def split: prod.splits)

lemma fetch_clock_stamp: "fetch_clock smi h f v = Some v' \<Longrightarrow> fv_ts v' = fv_ts v \<and> fv_field_id v' = fv_field_id v"
  by (auto simp: fetch_clock_def split: prod.splits if_splits)

lemma get_ecc_stamp: "get_ecc smi g f v = Some v' \<Longrightarrow> fv_ts v' = fv_ts v \<and> fv_field_id v' = fv_field_id v"
  by (auto simp: get_ecc_def Let_def split: sum.splits prod.splits if_splits)

lemma get_ecc_total_stamp:
  "get_ecc_total smi g f v = Some v' \<Longrightarrow> fv_ts v' = fv_ts v \<and> fv_field_id v' = fv_field_id v"
  by (auto simp: get_ecc_total_def Let_def split: sum.splits prod.splits if_splits)

lemma keeps_stamp_async:
  "keeps_stamp v (case async_get_pcie_throughput now g f v s of (_, v', s') \<Rightarrow> Some (None, v', s'))"
  by (simp add: async_get_pcie_throughput_def keeps_stamp_def split: option.split)

lemma read_counter_stamp:
  "read_smi_counter smi k v s = (v', s') \<Longrightarrow> fv_ts v' = fv_ts v \<and> fv_field_id v' = fv_field_id v"
  by (auto simp: read_smi_counter_def split: option.splits prod.splits)

lemma keeps_stamp_counter:
  "keeps_stamp v (case read_smi_counter smi k v s of (v', s') \<Rightarrow> Some (None, v', s'))"
  by (auto simp: keeps_stamp_def dest: read_counter_stamp split: prod.split)

lemma read_throughput_stamp:
  "read_throughput smi k v s = (v', s') \<Longrightarrow> fv_ts v' = fv_ts v \<and> fv_field_id v' = fv_field_id v"
  by (auto simp: read_throughput_def Let_def dest!: read_counter_stamp split: option.splits prod.splits if_splits)

lemma keeps_stamp_throughput:
  "keeps_stamp v (case read_throughput smi k v s of (v', s') \<Rightarrow> Some (None, v', s'))"
  by (auto simp: keeps_stamp_def dest: read_throughput_stamp split: prod.split)

lemma fetch_total_stamps:
  "fv_ts (fetch_gpu_count smi v) = fv_ts v" "fv_field_id (fetch_gpu_count smi v) = fv_field_id v"
  "fv_ts (fetch_dev_name smi h v) = fv_ts v" "fv_field_id (fetch_dev_name smi h v) = fv_field_id v"
  "fv_ts (fetch_temp smi h f v) = fv_ts v" "fv_field_id (fetch_temp smi h f v) = fv_field_id v"
  "fv_ts (fetch_oam_id smi h v) = fv_ts v" "fv_field_id (fetch_oam_id smi h v) = fv_field_id v"
  "fv_ts (read_gpu_metrics_uint64_t smi h f v) = fv_ts v"
  "fv_field_id (read_gpu_metrics_uint64_t smi h f v) = fv_field_id v"
  by (auto simp: fetch_gpu_count_def fetch_dev_name_def fetch_temp_def fetch_oam_id_def
      read_gpu_metrics_uint64_t_def Let_def split: sum.split prod.split option.split)

lemma fetch_switch_keeps_stamp: "keeps_stamp v (fetch_switch smi now g f h v s)"
  unfolding fetch_switch_def
  by (intro keeps_stamp_if keeps_stamp_put keeps_stamp_no_data keeps_stamp_power keeps_stamp_async
      keeps_stamp_counter keeps_stamp_throughput
      keeps_stamp_map [OF fetch_clock_stamp] keeps_stamp_map [OF get_ecc_stamp] keeps_stamp_map [OF get_ecc_total_stamp]
      keeps_stamp_Some fetch_total_stamps refl)

lemma fetch_switch_frame:
  assumes "fetch_switch smi now g f h v s = Some (early, v', s')"
  shows "fv_ts v' = fv_ts v \<and> fv_field_id v' = fv_field_id v
    \<and> (\<forall>st. early = Some st \<longrightarrow> st = RDC_ST_NO_DATA \<and> \<not> value_status_ok (fv_status v'))"
  using fetch_switch_keeps_stamp [of v smi now g f h s] assms by (simp add: keeps_stamp_def)

lemma fetch_status_lemma:
  assumes "fetch_smi_field smi now now' g f v s = Some (st, v', s')"
  shows "if (\<exists>h. get_processor_handle_from_id smi g = Inr h) \<and> is_field_valid f
    then fv_ts v' = now \<and> fv_field_id v' = f \<and> (st = RDC_ST_OK \<longleftrightarrow> value_status_ok (fv_status v'))
    else st \<noteq> RDC_ST_OK \<and> v' = v \<and> s' = s"
proof (cases "(\<exists>h. get_processor_handle_from_id smi g = Inr h) \<and> is_field_valid f")
  case True
  then obtain h where h: "get_processor_handle_from_id smi g = Inr h" "is_field_valid f" by blast
  let ?v = "v\<lparr>fv_ts := now, fv_field_id := f, fv_status := St_smi AMDSMI_STATUS_NOT_SUPPORTED\<rparr>"
  from assms h obtain early where sw: "fetch_switch smi now' g f h ?v s = Some (early, v', s')"
    and st: "st = (case early of Some st \<Rightarrow> st
      | None \<Rightarrow> if value_status_ok (fv_status v') then RDC_ST_OK else RDC_ST_MSI_ERROR)"
    by (auto simp: fetch_smi_field_def)
  from fetch_switch_frame [OF sw] st True show ?thesis by (auto split: option.splits)
next
  case False
  with assms show ?thesis
    by (auto simp: fetch_smi_field_def processor_handle_error split: sum.splits if_splits)
qed

text \<open>
  (C32) The status of a fetch agrees with the value it writes. For a GPU with a handle and a known
  field, a fetch that has a result stamps the value with the time and the field, and it
  returns OK exactly when the status in the value is a success; for any other GPU or field it returns an
  error and leaves the caller's value as it was.
\<close>
theorem fetch_status_agrees:
  assumes "fetch_smi_field smi now now' g f v s = Some (st, v', s')"
  shows "if (\<exists>h. get_processor_handle_from_id smi g = Inr h) \<and> is_field_valid f
    then fv_ts v' = now \<and> fv_field_id v' = f \<and> (st = RDC_ST_OK \<longleftrightarrow> value_status_ok (fv_status v'))
    else st \<noteq> RDC_ST_OK \<and> v' = v \<and> s' = s"
  by (rule fetch_status_lemma [OF assms])

definition blank_value :: rdc_field_value where
  "blank_value = \<lparr>fv_field_id = 0, fv_status = St_rdc RDC_ST_OK, fv_ts = 0, fv_type = INTEGER, fv_value = L_int 0\<rparr>"

lemma two_gpu_temp: "smi_temp_metric two_gpu_smi h t = (AMDSMI_STATUS_SUCCESS, 45)"
  by (simp add: two_gpu_smi_def)

theorem fetch_status_agrees_witness:
  "\<exists>v' s'. fetch_smi_field two_gpu_smi 10 10 1 RDC_FI_GPU_TEMP blank_value metric_fetcher_init = Some (RDC_ST_OK, v', s')
    \<and> fv_ts v' = 10 \<and> fv_field_id v' = RDC_FI_GPU_TEMP"
proof -
  have v: "is_field_valid RDC_FI_GPU_TEMP" by code_simp
  then obtain v' s' where
    r: "fetch_smi_field two_gpu_smi 10 10 1 RDC_FI_GPU_TEMP blank_value metric_fetcher_init = Some (RDC_ST_OK, v', s')"
    by (simp add: fetch_smi_field_def two_gpu_handle fetch_switch_def fetch_temp_def Let_def put_integer_def two_gpu_temp)
  from fetch_status_agrees [OF r] r v show ?thesis by (auto simp: two_gpu_handle)
qed

subsection \<open>ECC counters\<close>

lemma ecc_fields_table:
  "\<forall>(ce, ue, b)\<in>set ecc_fields. field_to_block ce = b \<and> field_to_block ue = b
     \<and> ce mod 2 = 0 \<and> ue mod 2 \<noteq> 0 \<and> b \<noteq> AMDSMI_GPU_BLOCK_INVALID"
  by (simp add: field_to_block_def ecc_fields_def)

text \<open>
  Every ECC field reads the right counter: the correctable field of a block gives the
  block's correctable count and the uncorrectable field its uncorrectable count, although
  the code tells the two apart only by the parity of the field number.
\<close>
theorem get_ecc_counter:
  assumes "(ce, ue, b) \<in> set ecc_fields" and "get_processor_handle_from_id smi g = Inr h"
    and "smi_ecc_status smi h (smi_block_code smi b) = AMDSMI_STATUS_SUCCESS"
    and "smi_ecc_count smi h (smi_block_code smi b) = (AMDSMI_STATUS_SUCCESS, n, m)"
  shows "map_option fv_value (get_ecc smi g ce v) = Some (L_int n)
    \<and> map_option fv_value (get_ecc smi g ue v) = Some (L_int m)"
proof -
  have "field_to_block ce = b" "field_to_block ue = b" "ce mod 2 = 0" "ue mod 2 \<noteq> 0" "b \<noteq> AMDSMI_GPU_BLOCK_INVALID"
    using bspec [OF ecc_fields_table assms(1)] by simp_all
  with assms(2-4) show ?thesis by (simp add: get_ecc_def Let_def)
qed

theorem get_ecc_counter_witness:
  "map_option fv_value (get_ecc two_gpu_smi 1 RDC_FI_ECC_GFX_CE blank_value) = Some (L_int 4)
   \<and> map_option fv_value (get_ecc two_gpu_smi 1 RDC_FI_ECC_GFX_UE blank_value) = Some (L_int 40)"
  by (rule get_ecc_counter [of _ _ AMDSMI_GPU_BLOCK_GFX _ _ 101])
    (simp_all add: ecc_fields_def two_gpu_handle, simp_all add: two_gpu_smi_def)

lemma less_mult_power2: "x < y \<Longrightarrow> x < y * 2 ^ i" for x y :: nat
  by (erule less_le_trans) simp

lemma ecc_total_loop_blocks:
  assumes "smi_block_last smi < 2 ^ 31" and "b \<noteq> 0" and "unat (smi_block_last smi) < unat b * 2 ^ n"
  shows "\<exists>k. ecc_total_loop smi h (Suc n) b acc = Some (fold (ecc_block_add smi h) (map (\<lambda>i. b * 2 ^ i) [0..<k]) acc)
    \<and> (\<forall>i. unat b * 2 ^ i \<le> unat (smi_block_last smi) \<longleftrightarrow> i < k)"
  using assms(2,3)
proof (induction n arbitrary: b acc)
  case 0
  then have "\<not> b \<le> smi_block_last smi" by (simp add: word_le_nat_alt)
  moreover have "unat (smi_block_last smi) < unat b * 2 ^ i" for i
    using 0 by (intro less_mult_power2) simp
  ultimately show ?case by (intro exI [of _ 0]) (simp add: not_le)
next
  case (Suc n)
  show ?case
  proof (cases "b \<le> smi_block_last smi")
    case False
    then have "unat (smi_block_last smi) < unat b" by (simp add: word_le_nat_alt)
    then have "unat (smi_block_last smi) < unat b * 2 ^ i" for i
      by (rule less_mult_power2)
    then show ?thesis by (intro exI [of _ 0]) (simp add: False not_le [symmetric])
  next
    case True
    then have "unat b < 2 ^ 31"
      using assms(1) by (simp add: word_le_nat_alt word_less_nat_alt)
    then have u: "unat (b * 2) = unat b * 2" by (simp add: unat_word_ariths)
    then have "b * 2 \<noteq> 0" "unat (smi_block_last smi) < unat (b * 2) * 2 ^ n"
      using Suc.prems by (auto simp: unat_eq_0 [symmetric])
    from Suc.IH [OF this, of "ecc_block_add smi h b acc"] obtain k where
      k: "ecc_total_loop smi h (Suc n) (b * 2) (ecc_block_add smi h b acc)
          = Some (fold (ecc_block_add smi h) (map (\<lambda>i. b * 2 * 2 ^ i) [0..<k]) (ecc_block_add smi h b acc))"
      "\<forall>i. unat (b * 2) * 2 ^ i \<le> unat (smi_block_last smi) \<longleftrightarrow> i < k" by blast
    have "map (\<lambda>i. b * 2 ^ i) [0..<Suc k] = b # map (\<lambda>i. b * 2 * 2 ^ i) [0..<k]"
      by (simp add: upt_conv_Cons map_Suc_upt [symmetric] comp_def mult.assoc del: upt_Suc)
    moreover have "unat b * 2 ^ i \<le> unat (smi_block_last smi) \<longleftrightarrow> i < Suc k" for i
      using k(2) u True by (cases i) (auto simp: word_le_nat_alt mult.assoc)
    ultimately show ?thesis using k(1) True
      by (intro exI [of _ "Suc k"]) (simp del: upt_Suc)
  qed
qed

text \<open>
  (C40) The loop over all ECC blocks ends, and totals every block once. If the last block is
  below \<open>2 ^ 31\<close> and the first is not 0, the total of a GPU adds the counters of the blocks
  \<open>first\<close>, \<open>2 * first\<close>, \<open>4 * first\<close> and so on up to the last, in order, leaving out those whose status
  or counter cannot be read.
\<close>
theorem ecc_total_terminates:
  assumes "smi_block_last smi < 2 ^ 31" and "smi_block_first smi \<noteq> 0"
  shows "\<exists>k. ecc_total_loop smi h 33 (smi_block_first smi) (0, 0)
        = Some (fold (ecc_block_add smi h) (map (\<lambda>i. smi_block_first smi * 2 ^ i) [0..<k]) (0, 0))
    \<and> (\<forall>i. unat (smi_block_first smi) * 2 ^ i \<le> unat (smi_block_last smi) \<longleftrightarrow> i < k)"
proof -
  have "unat (smi_block_last smi) < 2 ^ 32" by (rule order_less_le_trans [OF unsigned_less]) simp
  also have "\<dots> \<le> unat (smi_block_first smi) * 2 ^ 32"
    using assms(2) by (simp add: Suc_le_eq unat_gt_0)
  finally have "unat (smi_block_last smi) < unat (smi_block_first smi) * 2 ^ 32" .
  moreover have "(33 :: nat) = Suc 32" by simp
  ultimately show ?thesis using ecc_total_loop_blocks [OF assms, of 32 h "(0, 0)"] by (simp only:)
qed

theorem ecc_total_terminates_witness:
  "\<exists>k. ecc_total_loop two_gpu_smi 100 33 1 (0, 0) = Some (fold (ecc_block_add two_gpu_smi 100) (map (\<lambda>i. 2 ^ i) [0..<k]) (0, 0))"
proof -
  have "smi_block_last two_gpu_smi < 2 ^ 31" "smi_block_first two_gpu_smi = 1" by (simp_all add: two_gpu_smi_def)
  with ecc_total_terminates [of two_gpu_smi 100] show ?thesis by auto
qed

subsection \<open>PCIe throughput\<close>

lemma fresh_metric_result:
  assumes "unat cur + 30000 < 2 ^ 64" and "unat now < unat cur + 30000" and "mv_cache_ttl m = 30 * 1000"
  shows "metric_fresh now (metric_result cur ret x m)"
proof -
  have "unat (cur + 30000) = unat cur + 30000" using assms(1) by (simp add: unat_word_ariths)
  with assms show ?thesis by (simp add: metric_fresh_def metric_result_def word_less_nat_alt)
qed

text \<open>
  (C33) The asynchronous PCIe throughput. The first fetch of either direction for a GPU without a
  cached value queues one task and leaves the value alone; once the updater thread has run
  the task, both directions are served from the cache for 30 seconds, the sent bytes under
  the transmit field and the received bytes under the receive field, without queueing
  another task.
\<close>
theorem pcie_async_roundtrip:
  assumes "map_of (async_metrics s) (g, RDC_FI_PCIE_TX) = None" "map_of (async_metrics s) (g, RDC_FI_PCIE_RX) = None"
    and "updated_tasks s = []" and "f = RDC_FI_PCIE_TX \<or> f = RDC_FI_PCIE_RX"
    and "get_processor_handle_from_id smi g = Inr h"
    and "smi_pci_throughput smi h = (AMDSMI_STATUS_SUCCESS, sent, received)"
    and "unat cur + 30000 < 2 ^ 64" and "unat now'' < unat cur + 30000"
  shows "\<exists>s1 s2. async_get_pcie_throughput now g f v s = (True, v, s1) \<and> updated_tasks s1 = [(g, f)]
    \<and> run_task smi now' cur s1 = Some s2 \<and> updated_tasks s2 = []
    \<and> async_get_pcie_throughput now'' g RDC_FI_PCIE_TX w s2
        = (False, w\<lparr>fv_status := St_smi AMDSMI_STATUS_SUCCESS, fv_type := INTEGER, fv_value := L_int sent\<rparr>, s2)
    \<and> async_get_pcie_throughput now'' g RDC_FI_PCIE_RX w s2
        = (False, w\<lparr>fv_status := St_smi AMDSMI_STATUS_SUCCESS, fv_type := INTEGER, fv_value := L_int received\<rparr>, s2)"
proof -
  let ?s1 = "s\<lparr>updated_tasks := [(g, f)]\<rparr>"
  have miss: "map_of (async_metrics s) (g, f) = None" using assms(1,2,4) by auto
  obtain s2 where s2: "run_task smi now' cur ?s1 = Some s2" and t: "updated_tasks s2 = []"
    and tx: "map_of (async_metrics s2) (g, RDC_FI_PCIE_TX)
      = Some (metric_result cur AMDSMI_STATUS_SUCCESS sent (new_metric RDC_FI_PCIE_TX))"
    and rx: "map_of (async_metrics s2) (g, RDC_FI_PCIE_RX)
      = Some (metric_result cur AMDSMI_STATUS_SUCCESS received (new_metric RDC_FI_PCIE_RX))"
    using assms(1,2,5,6) miss by (auto simp: run_task_def get_pcie_throughput_def Let_def map_of_map_insert)
  note fr = fresh_metric_result [OF assms(7,8)]
  have "async_get_pcie_throughput now g f v s = (True, v, ?s1)"
    using miss assms(3) by (simp add: async_get_pcie_throughput_def)
  with s2 t show ?thesis
    by (intro exI [of _ ?s1] exI [of _ s2])
      (simp add: async_get_pcie_throughput_def tx rx fr new_metric_def, simp add: metric_result_def)
qed

theorem pcie_async_roundtrip_witness:
  "\<exists>s1 s2. async_get_pcie_throughput 0 1 RDC_FI_PCIE_RX blank_value metric_fetcher_init = (True, blank_value, s1)
    \<and> run_task two_gpu_smi 5 1000 s1 = Some s2
    \<and> fv_value (fst (snd (async_get_pcie_throughput 2000 1 RDC_FI_PCIE_RX blank_value s2))) = L_int 9"
proof -
  have "map_of (async_metrics metric_fetcher_init) k = None" "updated_tasks metric_fetcher_init = []" for k
    by (simp_all add: metric_fetcher_init_def)
  moreover have "get_processor_handle_from_id two_gpu_smi 1 = Inr 101" by (simp add: two_gpu_handle)
  moreover have "smi_pci_throughput two_gpu_smi 101 = (AMDSMI_STATUS_SUCCESS, 7, 9)" by (simp add: two_gpu_smi_def)
  ultimately show ?thesis
    using pcie_async_roundtrip [of metric_fetcher_init 1 RDC_FI_PCIE_RX two_gpu_smi 101 7 9 1000 2000 0 blank_value 5 blank_value]
    by auto
qed

subsection \<open>Event counter handles\<close>

lemma init_smi_counter_drops:
  assumes "can_drop lc" and "\<not> has_dac caps" and "init_smi_counter smi lc fk grp caps = Some (st, h, caps')"
  shows "\<not> has_dac caps'"
  using assms by (auto simp: init_smi_counter_def Let_def case_prod_unfold release_drops [OF assms(1)]
      split: sum.splits if_splits option.splits)

text \<open>
  (C34) The life cycle of an event counter handle. After a successful acquire of a counter field
  its data is present; a further acquire reports that it exists and changes nothing; a
  delete removes it whether or not the driver can stop and destroy the counter; a failed acquire leaves the data as it was. A process
  that did not have the capability \<^verbatim>\<open>CAP_DAC_OVERRIDE\<close> in effect does not have it in effect after an acquire, whatever its result, provided that
  the calls of libcap that lower it succeed, which the code does not test.
\<close>
theorem smi_handle_life_cycle:
  assumes "snd fk \<in> set xgmi_counter_fields \<or> snd fk \<in> set xgmi_throughput_fields"
    and "acquire_smi_handle smi lc fk (s, caps) = Some (st, s', caps')"
  shows "(can_drop lc \<and> \<not> has_dac caps \<longrightarrow> \<not> has_dac caps')
    \<and> (st = RDC_ST_OK \<longrightarrow> (\<exists>d. get_smi_data fk s' = Some d)
        \<and> acquire_smi_handle smi' lc' fk (s', c) = Some (RDC_ST_ALREADY_EXIST, s', c)
        \<and> get_smi_data fk (snd (delete_smi_handle smi'' fk s')) = None)
    \<and> (st \<noteq> RDC_ST_OK \<longrightarrow> s' = s)"
proof -
  define grp where "grp = (if snd fk \<in> set xgmi_counter_fields then AMDSMI_EVNT_GRP_XGMI else AMDSMI_EVNT_GRP_XGMI_DATA_OUT)"
  have acq: "acquire_smi_handle smi lc fk x = get_evnt_handle smi lc fk grp x" for smi lc x
    using assms(1) by (auto simp: acquire_smi_handle_def grp_def)
  have del: "get_smi_data fk (snd (delete_smi_handle smi'' fk s')) = None"
    using assms(1) by (auto simp: delete_smi_handle_def get_smi_data_def Let_def split: option.split)
  show ?thesis
  proof (cases "get_smi_data fk s")
    case None
    with assms(2) obtain h where i: "init_smi_counter smi lc fk grp caps = Some (st, h, caps')"
      and s': "s' = (if st \<noteq> RDC_ST_OK then s else s\<lparr>smi_data := map_put fk \<lparr>sd_evt_handle = h,
                     sd_counter_val = \<lparr>cv_value = 0, cv_time_running = 0\<rparr>\<rparr> (smi_data s)\<rparr>)"
      by (auto simp: acq get_evnt_handle_def split: if_splits)
    with init_smi_counter_drops [OF _ _ i] del show ?thesis
      by (auto simp: acq get_evnt_handle_def get_smi_data_def)
  next
    case (Some d)
    with assms(2) show ?thesis by (auto simp: acq get_evnt_handle_def)
  qed
qed

lemma two_gpu_counters:
  "smi_counter_group_supported two_gpu_smi h grp = AMDSMI_STATUS_SUCCESS"
  "smi_available_counters two_gpu_smi h grp = (AMDSMI_STATUS_SUCCESS, 4)"
  "smi_create_counter two_gpu_smi h evt = (AMDSMI_STATUS_SUCCESS, 55)"
  "smi_control_counter two_gpu_smi e cmd = AMDSMI_STATUS_SUCCESS"
  by (simp_all add: two_gpu_smi_def)

lemma quiet_cap: "fst (cap_acquire quiet_libcap c) = 0" "fst (cap_release quiet_libcap c) = 0"
  by (simp_all add: cap_acquire_def cap_release_def ModifyCapability_def quiet_libcap_def)

theorem smi_handle_life_cycle_witness:
  "\<exists>s' caps'. acquire_smi_handle two_gpu_smi quiet_libcap (1, RDC_EVNT_XGMI_0_THRPUT) (metric_fetcher_init, {})
      = Some (RDC_ST_OK, s', caps') \<and> \<not> has_dac caps'
    \<and> get_smi_data (1, RDC_EVNT_XGMI_0_THRPUT) (snd (delete_smi_handle two_gpu_smi (1, RDC_EVNT_XGMI_0_THRPUT) s')) = None"
proof -
  have x: "snd (1 :: u32, RDC_EVNT_XGMI_0_THRPUT) \<in> set xgmi_counter_fields
      \<or> snd (1 :: u32, RDC_EVNT_XGMI_0_THRPUT) \<in> set xgmi_throughput_fields"
    by (simp add: xgmi_throughput_fields_def)
  obtain s' caps' where r: "acquire_smi_handle two_gpu_smi quiet_libcap (1, RDC_EVNT_XGMI_0_THRPUT) (metric_fetcher_init, {})
      = Some (RDC_ST_OK, s', caps')"
    using x by (auto simp: acquire_smi_handle_def get_evnt_handle_def get_smi_data_def metric_fetcher_init_def
        init_smi_counter_def two_gpu_handle two_gpu_counters quiet_cap case_prod_unfold rdc_evnt_2_smi_field_def)
  from smi_handle_life_cycle [OF x r] r show ?thesis by (auto simp: has_dac_def)
qed

end
