(* ===== verification/Rdc_Telemetry.thy ===== *)
theory Rdc_Telemetry
  imports Rdc_Metric_Fetcher "HOL-Library.Multiset"
begin

text \<open>
  Telemetry: the virtual interface \<^verbatim>\<open>RdcTelemetry\<close> as a record of functions, its
  implementation \<^verbatim>\<open>RdcSmiLib\<close> on the metric fetcher, and \<^verbatim>\<open>RdcTelemetryModule\<close>, which
  dispatches fields to the libraries that support them and hands the values to the
  caller's callback in batches. Watching, unwatching and fetching go through the same
  interface in the watch table.
\<close>

section \<open>The interface\<close>

definition MAX_NUM_FIELDS :: nat where "MAX_NUM_FIELDS = 8192"

text \<open>
  A pointer to the first element of a vector: of an empty vector it is the null pointer.
\<close>

definition vec_ptr :: "'a list \<Rightarrow> 'a list option" where
  "vec_ptr xs = (if xs = [] then None else Some xs)"

type_synonym 'u field_value_f = "rdc_gpu_field_value list option \<Rightarrow> 'u \<Rightarrow> rdc_status \<times> 'u"

text \<open>
  \<open>'s\<close> is the state behind the libraries, \<open>'u\<close> the user data that the callback changes.
\<close>

record ('s, 'u) rdc_telemetry =
  rdc_telemetry_fields_query :: "'s \<Rightarrow> rdc_status \<times> u32 list"
  rdc_telemetry_fields_watch :: "(u32 \<times> u32) list option \<Rightarrow> 's \<Rightarrow> (rdc_status \<times> 's) option"
  rdc_telemetry_fields_unwatch :: "(u32 \<times> u32) list option \<Rightarrow> 's \<Rightarrow> (rdc_status \<times> 's) option"
  rdc_telemetry_fields_value_get ::
    "(u32 \<times> u32) list option \<Rightarrow> 'u field_value_f \<Rightarrow> 's \<times> 'u \<Rightarrow> (rdc_status \<times> 's \<times> 'u) option"

section \<open>\<open>RdcSmiLib\<close>\<close>

type_synonym smi_state = "metric_fetcher \<times> cap_state"

text \<open>
  What the library depends on besides its state: the driver, libcap, one clock reading for the
  call, the environment variable of the constructor, and the indeterminate content of the
  array of values on the stack.
\<close>

record smi_env =
  se_smi :: amdsmi
  se_libcap :: libcap
  se_now :: u64
  se_bulk_env :: "string option"
  se_stack :: "rdc_gpu_field_value list"

definition lower :: "char \<Rightarrow> char" where
  "lower c = (if CHR ''A'' \<le> c \<and> c \<le> CHR ''Z'' then char_of (of_char c + (32 :: nat)) else c)"

definition bulk_fetch_enabled :: "smi_env \<Rightarrow> bool" where
  "bulk_fetch_enabled e =
     (case se_bulk_env e of None \<Rightarrow> False | Some s \<Rightarrow> map lower s = map lower ''true'')"

definition BULK_FIELDS_MAX :: nat where "BULK_FIELDS_MAX = 16"

definition is_fetched :: "rdc_gpu_field_value list \<Rightarrow> u32 \<times> u32 \<Rightarrow> bool" where
  "is_fetched bulk fk \<longleftrightarrow>
     (\<exists>r\<in>set bulk. gv_gpu_index r = fst fk \<and> fv_field_id (gv_field_value r) = snd fk)"

text \<open>The array after the value of one field has been fetched into a slot.\<close>

definition fetch_slot ::
    "smi_env \<Rightarrow> nat \<Rightarrow> u32 \<times> u32 \<Rightarrow> rdc_gpu_field_value list \<Rightarrow> metric_fetcher
     \<Rightarrow> (rdc_gpu_field_value list \<times> metric_fetcher) option" where
  "fetch_slot e n fk vals s =
     map_option (\<lambda>(_, v, s'). (vals[n := \<lparr>gv_gpu_index = fst fk, gv_field_value = v\<rparr>], s'))
       (fetch_smi_field (se_smi e) (se_now e) (se_now e) (fst fk) (snd fk) (gv_field_value (vals ! n)) s)"

fun smi_fetch_loop ::
    "smi_env \<Rightarrow> rdc_gpu_field_value list \<Rightarrow> 'u field_value_f \<Rightarrow> (u32 \<times> u32) list
     \<Rightarrow> rdc_gpu_field_value list \<Rightarrow> nat \<Rightarrow> smi_state \<times> 'u \<Rightarrow> (rdc_status \<times> smi_state \<times> 'u) option" where
  "smi_fetch_loop e bulk cb [] vals n (s, u) =
     (if n \<noteq> 0
      then case cb (Some (take n vals)) u of (st, u') \<Rightarrow>
             Some (if st \<noteq> RDC_ST_OK then st else RDC_ST_OK, s, u')
      else Some (RDC_ST_OK, s, u))"
| "smi_fetch_loop e bulk cb (fk # fks) vals n (s, u) =
     (if is_fetched bulk fk then smi_fetch_loop e bulk cb fks vals n (s, u)
      else if n \<ge> BULK_FIELDS_MAX
      then case cb (Some (take n vals)) u of (st, u') \<Rightarrow>
             if st \<noteq> RDC_ST_OK then Some (st, s, u')
             else (case fetch_slot e 0 fk vals (fst s) of
                     None \<Rightarrow> None
                   | Some (vals', mf) \<Rightarrow> smi_fetch_loop e bulk cb fks vals' 1 ((mf, snd s), u'))
      else (case fetch_slot e n fk vals (fst s) of
              None \<Rightarrow> None
            | Some (vals', mf) \<Rightarrow> smi_fetch_loop e bulk cb fks vals' (n + 1) ((mf, snd s), u)))"

definition smi_fields_value_get ::
    "smi_env \<Rightarrow> (u32 \<times> u32) list option \<Rightarrow> 'u field_value_f \<Rightarrow> smi_state \<times> 'u
     \<Rightarrow> (rdc_status \<times> smi_state \<times> 'u) option" where
  "smi_fields_value_get e fks cb su =
     (case fks of
        None \<Rightarrow> Some (RDC_ST_BAD_PARAMETER, su)
      | Some flds \<Rightarrow>
          if \<not> bulk_fetch_enabled e then smi_fetch_loop e [] cb flds (se_stack e) 0 su
          else (case bulk_fetch_smi_fields (se_smi e) (se_now e) flds [] (fst (fst su)) of
                  None \<Rightarrow> None
                | Some (_, bulk, mf) \<Rightarrow>
                    let s = (mf, snd (fst su)) in
                    if bulk = [] then smi_fetch_loop e bulk cb flds (se_stack e) 0 (s, snd su)
                    else (case cb (Some bulk) (snd su) of (st, u') \<Rightarrow>
                            if st \<noteq> RDC_ST_OK then Some (st, s, u')
                            else smi_fetch_loop e bulk cb flds (se_stack e) 0 (s, u'))))"

fun acquire_all :: "smi_env \<Rightarrow> (u32 \<times> u32) list \<Rightarrow> smi_state \<Rightarrow> smi_state option" where
  "acquire_all e [] s = Some s"
| "acquire_all e (fk # fks) s =
     (case acquire_smi_handle (se_smi e) (se_libcap e) fk s of
        None \<Rightarrow> None | Some (_, s') \<Rightarrow> acquire_all e fks s')"

definition smi_fields_watch :: "smi_env \<Rightarrow> (u32 \<times> u32) list option \<Rightarrow> smi_state \<Rightarrow> (rdc_status \<times> smi_state) option" where
  "smi_fields_watch e fks s =
     (case fks of None \<Rightarrow> Some (RDC_ST_BAD_PARAMETER, s)
      | Some flds \<Rightarrow> map_option (Pair RDC_ST_OK) (acquire_all e flds s))"

definition smi_fields_unwatch :: "smi_env \<Rightarrow> (u32 \<times> u32) list option \<Rightarrow> smi_state \<Rightarrow> (rdc_status \<times> smi_state) option" where
  "smi_fields_unwatch e fks s =
     (case fks of None \<Rightarrow> Some (RDC_ST_BAD_PARAMETER, s)
      | Some flds \<Rightarrow>
          Some (RDC_ST_OK, fold (\<lambda>fk mf. snd (delete_smi_handle (se_smi e) fk mf)) flds (fst s), snd s))"

definition smi_supported_fields :: "u32 list" where
  "smi_supported_fields =
     [RDC_FI_GPU_COUNT, RDC_FI_DEV_NAME, RDC_FI_GPU_CLOCK, RDC_FI_MEM_CLOCK, RDC_FI_MEMORY_TEMP, RDC_FI_GPU_TEMP,
      RDC_FI_POWER_USAGE, RDC_FI_PCIE_TX, RDC_FI_PCIE_RX, RDC_FI_PCIE_BANDWIDTH, RDC_FI_GPU_UTIL, RDC_FI_GPU_MEMORY_USAGE,
      RDC_FI_GPU_MEMORY_TOTAL, RDC_FI_ECC_CORRECT_TOTAL, RDC_FI_ECC_UNCORRECT_TOTAL,
      RDC_FI_ECC_SDMA_CE, RDC_FI_ECC_SDMA_UE, RDC_FI_ECC_GFX_CE, RDC_FI_ECC_GFX_UE, RDC_FI_ECC_MMHUB_CE,
      RDC_FI_ECC_MMHUB_UE, RDC_FI_ECC_ATHUB_CE, RDC_FI_ECC_ATHUB_UE, RDC_FI_ECC_PCIE_BIF_CE, RDC_FI_ECC_PCIE_BIF_UE,
      RDC_FI_ECC_HDP_CE, RDC_FI_ECC_HDP_UE, RDC_FI_ECC_XGMI_WAFL_CE, RDC_FI_ECC_XGMI_WAFL_UE, RDC_FI_ECC_DF_CE,
      RDC_FI_ECC_DF_UE, RDC_FI_ECC_SMN_CE, RDC_FI_ECC_SMN_UE, RDC_FI_ECC_SEM_CE, RDC_FI_ECC_SEM_UE, RDC_FI_ECC_MP0_CE,
      RDC_FI_ECC_MP0_UE, RDC_FI_ECC_MP1_CE, RDC_FI_ECC_MP1_UE, RDC_FI_ECC_FUSE_CE, RDC_FI_ECC_FUSE_UE, RDC_FI_ECC_UMC_CE,
      RDC_FI_ECC_UMC_UE, RDC_FI_ECC_MCA_CE, RDC_FI_ECC_MCA_UE, RDC_FI_ECC_VCN_CE, RDC_FI_ECC_VCN_UE, RDC_FI_ECC_JPEG_CE,
      RDC_FI_ECC_JPEG_UE, RDC_FI_ECC_IH_CE, RDC_FI_ECC_IH_UE, RDC_FI_ECC_MPIO_CE, RDC_FI_ECC_MPIO_UE,
      RDC_FI_XGMI_0_READ_KB, RDC_FI_XGMI_1_READ_KB, RDC_FI_XGMI_2_READ_KB, RDC_FI_XGMI_3_READ_KB, RDC_FI_XGMI_4_READ_KB,
      RDC_FI_XGMI_5_READ_KB, RDC_FI_XGMI_6_READ_KB, RDC_FI_XGMI_7_READ_KB, RDC_FI_XGMI_TOTAL_READ_KB,
      RDC_FI_XGMI_0_WRITE_KB, RDC_FI_XGMI_1_WRITE_KB, RDC_FI_XGMI_2_WRITE_KB, RDC_FI_XGMI_3_WRITE_KB,
      RDC_FI_XGMI_4_WRITE_KB, RDC_FI_XGMI_5_WRITE_KB, RDC_FI_XGMI_6_WRITE_KB, RDC_FI_XGMI_7_WRITE_KB,
      RDC_FI_XGMI_TOTAL_WRITE_KB, RDC_EVNT_XGMI_0_NOP_TX, RDC_EVNT_XGMI_0_REQ_TX, RDC_EVNT_XGMI_0_RESP_TX,
      RDC_EVNT_XGMI_0_BEATS_TX, RDC_EVNT_XGMI_1_NOP_TX, RDC_EVNT_XGMI_1_REQ_TX, RDC_EVNT_XGMI_1_RESP_TX,
      RDC_EVNT_XGMI_1_BEATS_TX, RDC_EVNT_XGMI_0_THRPUT, RDC_EVNT_XGMI_1_THRPUT, RDC_EVNT_XGMI_2_THRPUT,
      RDC_EVNT_XGMI_3_THRPUT, RDC_EVNT_XGMI_4_THRPUT, RDC_EVNT_XGMI_5_THRPUT, RDC_FI_OAM_ID, RDC_FI_GPU_MM_ENC_UTIL,
      RDC_FI_GPU_MM_DEC_UTIL, RDC_FI_GPU_MEMORY_ACTIVITY]"

definition smi_lib :: "smi_env \<Rightarrow> (smi_state, 'u) rdc_telemetry" where
  "smi_lib e =
     \<lparr>rdc_telemetry_fields_query = (\<lambda>_. (RDC_ST_OK, smi_supported_fields)),
      rdc_telemetry_fields_watch = smi_fields_watch e,
      rdc_telemetry_fields_unwatch = smi_fields_unwatch e,
      rdc_telemetry_fields_value_get = smi_fields_value_get e\<rparr>"

section \<open>\<open>RdcTelemetryModule\<close>\<close>

text \<open>
  A library is known by its address, which also orders the map of the dispatch; \<open>libs\<close> gives
  the library at an address. The field table is filled by the constructor, the first library that
  supports a field keeps it, and looking up an unknown field leaves a null entry.
\<close>

type_synonym module_table = "(u32, nat option) smap"

record telemetry_module =
  tm_modules :: "nat list"
  tm_fields_id_module :: module_table

definition register_module :: "(nat \<Rightarrow> ('s, 'u) rdc_telemetry) \<Rightarrow> 's \<Rightarrow> nat \<Rightarrow> module_table \<Rightarrow> module_table" where
  "register_module libs s a t =
     (case rdc_telemetry_fields_query (libs a) s of (st, ids) \<Rightarrow>
        if st = RDC_ST_OK then fold (\<lambda>f. map_insert f (Some a)) ids t else t)"

definition new_telemetry_module :: "(nat \<Rightarrow> ('s, 'u) rdc_telemetry) \<Rightarrow> 's \<Rightarrow> nat list \<Rightarrow> telemetry_module" where
  "new_telemetry_module libs s as =
     \<lparr>tm_modules = as, tm_fields_id_module = fold (register_module libs s) as []\<rparr>"

fun query_modules :: "(nat \<Rightarrow> ('s, 'u) rdc_telemetry) \<Rightarrow> 's \<Rightarrow> nat list \<Rightarrow> u32 list \<Rightarrow> u32 list" where
  "query_modules libs s [] out = out"
| "query_modules libs s (a # as) out =
     (case rdc_telemetry_fields_query (libs a) s of (st, ids) \<Rightarrow>
        query_modules libs s as (if st = RDC_ST_OK then out @ ids else out))"

definition module_fields_query ::
    "(nat \<Rightarrow> ('s, 'u) rdc_telemetry) \<Rightarrow> telemetry_module \<Rightarrow> 's \<Rightarrow> rdc_status \<times> u32 list" where
  "module_fields_query libs tm s = (RDC_ST_OK, query_modules libs s (tm_modules tm) [])"

text \<open>The members of an unsupported value that are not set are indeterminate, here 0.\<close>

definition unsupported_value :: "u32 \<times> u32 \<Rightarrow> rdc_gpu_field_value" where
  "unsupported_value fk =
     \<lparr>gv_gpu_index = fst fk,
      gv_field_value = \<lparr>fv_field_id = snd fk, fv_status = St_rdc RDC_ST_NOT_SUPPORTED, fv_ts = 0,
                        fv_type = INTEGER, fv_value = L_int 0\<rparr>\<rparr>"

fun get_fields_for_module ::
    "(u32 \<times> u32) list \<Rightarrow> (nat, (u32 \<times> u32) list) smap \<Rightarrow> rdc_gpu_field_value list \<Rightarrow> module_table
     \<Rightarrow> (nat, (u32 \<times> u32) list) smap \<times> rdc_gpu_field_value list \<times> module_table" where
  "get_fields_for_module [] m un t = (m, un, t)"
| "get_fields_for_module (fk # fks) m un t =
     (let t' = map_insert (snd fk) None t in
      case map_of t' (snd fk) of
        Some (Some a) \<Rightarrow> get_fields_for_module fks (map_modify a (\<lambda>l. l @ [fk]) (map_insert a [] m)) un t'
      | _ \<Rightarrow> get_fields_for_module fks m (un @ [unsupported_value fk]) t')"

text \<open>The results of the libraries are ignored by the loops over them.\<close>

fun watch_modules ::
    "(nat \<Rightarrow> (u32 \<times> u32) list option \<Rightarrow> 's \<Rightarrow> (rdc_status \<times> 's) option)
     \<Rightarrow> (nat, (u32 \<times> u32) list) smap \<Rightarrow> 's \<Rightarrow> 's option" where
  "watch_modules f [] s = Some s"
| "watch_modules f ((a, fks) # m) s =
     (if fks = [] then watch_modules f m s
      else case f a (Some fks) s of None \<Rightarrow> None | Some (_, s') \<Rightarrow> watch_modules f m s')"

definition module_dispatch ::
    "(nat \<Rightarrow> (u32 \<times> u32) list option \<Rightarrow> 's \<Rightarrow> (rdc_status \<times> 's) option) \<Rightarrow> (u32 \<times> u32) list option
     \<Rightarrow> telemetry_module \<times> 's \<Rightarrow> (rdc_status \<times> telemetry_module \<times> 's) option" where
  "module_dispatch f fks ts =
     (case fks of
        None \<Rightarrow> Some (RDC_ST_BAD_PARAMETER, ts)
      | Some l \<Rightarrow>
          (case get_fields_for_module l [] [] (tm_fields_id_module (fst ts)) of (m, _, t) \<Rightarrow>
             map_option (\<lambda>s'. (RDC_ST_OK, (fst ts)\<lparr>tm_fields_id_module := t\<rparr>, s')) (watch_modules f m (snd ts))))"

definition module_fields_watch ::
    "(nat \<Rightarrow> ('s, 'u) rdc_telemetry) \<Rightarrow> (u32 \<times> u32) list option \<Rightarrow> telemetry_module \<times> 's
     \<Rightarrow> (rdc_status \<times> telemetry_module \<times> 's) option" where
  "module_fields_watch libs = module_dispatch (\<lambda>a. rdc_telemetry_fields_watch (libs a))"

definition module_fields_unwatch ::
    "(nat \<Rightarrow> ('s, 'u) rdc_telemetry) \<Rightarrow> (u32 \<times> u32) list option \<Rightarrow> telemetry_module \<times> 's
     \<Rightarrow> (rdc_status \<times> telemetry_module \<times> 's) option" where
  "module_fields_unwatch libs = module_dispatch (\<lambda>a. rdc_telemetry_fields_unwatch (libs a))"

text \<open>
  Fetching copies the fields of one library to an array of \<^const>\<open>MAX_NUM_FIELDS\<close> elements; more
  of them overrun it.
\<close>

fun fetch_modules ::
    "(nat \<Rightarrow> ('s, 'u) rdc_telemetry) \<Rightarrow> 'u field_value_f \<Rightarrow> (nat, (u32 \<times> u32) list) smap \<Rightarrow> 's \<times> 'u \<Rightarrow> ('s \<times> 'u) option" where
  "fetch_modules libs cb [] su = Some su"
| "fetch_modules libs cb ((a, fks) # m) su =
     (if MAX_NUM_FIELDS < length fks then None
      else case rdc_telemetry_fields_value_get (libs a) (Some fks) cb su of
             None \<Rightarrow> None
           | Some (_, su') \<Rightarrow> fetch_modules libs cb m su')"

definition module_fields_value_get ::
    "(nat \<Rightarrow> ('s, 'u) rdc_telemetry) \<Rightarrow> (u32 \<times> u32) list option \<Rightarrow> 'u field_value_f
     \<Rightarrow> telemetry_module \<times> 's \<times> 'u \<Rightarrow> (rdc_status \<times> telemetry_module \<times> 's \<times> 'u) option" where
  "module_fields_value_get libs fks cb ts =
     (case fks of
        None \<Rightarrow> Some (RDC_ST_BAD_PARAMETER, ts)
      | Some l \<Rightarrow>
          (case get_fields_for_module l [] [] (tm_fields_id_module (fst ts)) of (m, un, t) \<Rightarrow>
             map_option (\<lambda>(s', u'). (RDC_ST_OK, (fst ts)\<lparr>tm_fields_id_module := t\<rparr>, s', snd (cb (vec_ptr un) u')))
               (fetch_modules libs cb m (snd ts))))"

section \<open>The contract of a telemetry library\<close>

definition value_key :: "rdc_gpu_field_value \<Rightarrow> u32 \<times> u32" where
  "value_key v = (gv_gpu_index v, fv_field_id (gv_field_value v))"

definition deliver :: "'u field_value_f \<Rightarrow> rdc_gpu_field_value list list \<Rightarrow> 'u \<Rightarrow> 'u" where
  "deliver cb bs u = fold (\<lambda>b u. snd (cb (Some b) u)) bs u"

lemma deliver_Nil [simp]: "deliver cb [] u = u"
  and deliver_Cons [simp]: "deliver cb (b # bs) u = deliver cb bs (snd (cb (Some b) u))"
  and deliver_append: "deliver cb (bs @ bs') u = deliver cb bs' (deliver cb bs u)"
  by (simp_all add: deliver_def)

definition accepts :: "'u field_value_f \<Rightarrow> bool" where
  "accepts cb \<longleftrightarrow> (\<forall>b u. fst (cb (Some b) u) = RDC_ST_OK)"

text \<open>
  The first half of the contract of a library: it touches the user data only by calling the
  callback, so what every call of the callback keeps is kept by a fetch.
\<close>

locale callback_only =
  fixes value_get :: "(u32 \<times> u32) list option \<Rightarrow> 'u field_value_f \<Rightarrow> 's \<times> 'u \<Rightarrow> (rdc_status \<times> 's \<times> 'u) option"
  assumes user_data: "value_get fks cb (s, u) = Some (st, s', u') \<Longrightarrow> \<exists>bs. u' = fold (\<lambda>b u. snd (cb b u)) bs u"
begin

lemma fetch_keeps:
  assumes "value_get fks cb (s, u) = Some (st, s', u')" and "P u" and "\<And>b u. P u \<Longrightarrow> P (snd (cb b u))"
  shows "P u'"
proof -
  have "P u \<Longrightarrow> P (fold (\<lambda>b u. snd (cb b u)) bs u)" for bs by (induction bs arbitrary: u) (auto intro: assms(3))
  with user_data [OF assms(1)] assms(2) show ?thesis by blast
qed

end

text \<open>
  The second half: asked for fields it can serve, with a callback that accepts every
  batch, it hands over exactly one value for each requested field, and succeeds unless nothing was asked for.
\<close>

lemma count_mset_map: "count (mset (map h xs)) k = length (filter (\<lambda>x. h x = k) xs)"
  by (induction xs) auto

locale telemetry_source = callback_only value_get
  for value_get :: "(u32 \<times> u32) list option \<Rightarrow> 'u field_value_f \<Rightarrow> 's \<times> 'u \<Rightarrow> (rdc_status \<times> 's \<times> 'u) option" +
  fixes servable :: "u32 \<times> u32 \<Rightarrow> bool"
  assumes delivers: "\<forall>fk\<in>set fks. servable fk \<Longrightarrow> accepts cb \<Longrightarrow>
    \<exists>bs st s'. value_get (Some fks) cb (s, u) = Some (st, s', deliver cb bs u)
      \<and> (fks \<noteq> [] \<longrightarrow> st = RDC_ST_OK) \<and> mset (map value_key (concat bs)) = mset fks"
begin

lemma delivers_each:
  assumes "\<forall>fk\<in>set fks. servable fk" and "accepts cb" and "distinct fks" and "k \<in> set fks"
  shows "\<exists>bs s'. value_get (Some fks) cb (s, u) = Some (RDC_ST_OK, s', deliver cb bs u)
    \<and> length (filter (\<lambda>v. value_key v = k) (concat bs)) = 1"
proof -
  from assms(4) have "fks \<noteq> []" by auto
  with delivers [OF assms(1,2)] obtain bs s' where
    r: "value_get (Some fks) cb (s, u) = Some (RDC_ST_OK, s', deliver cb bs u)"
    and m: "mset (map value_key (concat bs)) = mset fks" by blast
  have "count (mset (map value_key (concat bs))) k = 1"
    unfolding m using assms(3,4) by (simp add: distinct_count_atmost_1 del: split_paired_All)
  then have "length (filter (\<lambda>v. value_key v = k) (concat bs)) = 1"
    by (simp only: count_mset_map)
  with r show ?thesis by blast
qed

end

text \<open>
  In addition: a value of a field that is read without an error carries the status OK.
\<close>

definition read_ok :: "(u32 \<times> u32 \<Rightarrow> bool) \<Rightarrow> rdc_gpu_field_value \<Rightarrow> bool" where
  "read_ok readable v \<longleftrightarrow> (readable (value_key v) \<longrightarrow> value_status_ok (fv_status (gv_field_value v)))"

locale telemetry_reader = callback_only value_get
  for value_get :: "(u32 \<times> u32) list option \<Rightarrow> 'u field_value_f \<Rightarrow> 's \<times> 'u \<Rightarrow> (rdc_status \<times> 's \<times> 'u) option" +
  fixes servable :: "u32 \<times> u32 \<Rightarrow> bool" and readable :: "u32 \<times> u32 \<Rightarrow> bool"
  assumes reads: "\<forall>fk\<in>set fks. servable fk \<Longrightarrow> accepts cb \<Longrightarrow>
    \<exists>bs st s'. value_get (Some fks) cb (s, u) = Some (st, s', deliver cb bs u)
      \<and> (fks \<noteq> [] \<longrightarrow> st = RDC_ST_OK) \<and> mset (map value_key (concat bs)) = mset fks \<and> list_all (read_ok readable) (concat bs)"

sublocale telemetry_reader \<subseteq> telemetry_source
proof (unfold_locales, goal_cases)
  case (1 fks cb s u)
  from reads [OF 1, of s u] show ?case by blast
qed

lemma source_reader: "telemetry_source get sv \<Longrightarrow> telemetry_reader get sv (\<lambda>_. False)"
proof -
  assume t: "telemetry_source get sv"
  have "list_all (read_ok (\<lambda>_. False)) vs" for vs by (simp add: read_ok_def list_all_iff)
  with t show ?thesis
    by (auto simp: telemetry_source_def telemetry_source_axioms_def telemetry_reader_def telemetry_reader_axioms_def)
qed

subsection \<open>The SMI library keeps it\<close>

definition smi_servable :: "smi_env \<Rightarrow> u32 \<times> u32 \<Rightarrow> bool" where
  "smi_servable e fk \<longleftrightarrow> (\<exists>h. get_processor_handle_from_id (se_smi e) (fst fk) = Inr h) \<and> is_field_valid (snd fk)
     \<and> (\<forall>v s. fetch_smi_field (se_smi e) (se_now e) (se_now e) (fst fk) (snd fk) v s \<noteq> None)"

text \<open>A field whose read succeeds, whatever the state of the fetcher and the memory of the slot.\<close>

definition smi_readable :: "smi_env \<Rightarrow> u32 \<times> u32 \<Rightarrow> bool" where
  "smi_readable e fk \<longleftrightarrow>
     (\<forall>v s. map_option fst (fetch_smi_field (se_smi e) (se_now e) (se_now e) (fst fk) (snd fk) v s) = Some RDC_ST_OK)"

lemma fetch_slot_servable:
  assumes "smi_servable e fk" and "n < length vals"
  shows "\<exists>v mf. fetch_slot e n fk vals s = Some (vals[n := v], mf) \<and> value_key v = fk \<and> read_ok (smi_readable e) v"
proof -
  from assms(1) obtain st v s' where
    r: "fetch_smi_field (se_smi e) (se_now e) (se_now e) (fst fk) (snd fk) (gv_field_value (vals ! n)) s = Some (st, v, s')"
    by (force simp: smi_servable_def)
  have "st = RDC_ST_OK" if "smi_readable e fk"
    using that [unfolded smi_readable_def, rule_format, of "gv_field_value (vals ! n)" s] r by simp
  with r fetch_status_lemma [OF r] assms(1) show ?thesis
    by (auto simp: fetch_slot_def smi_servable_def value_key_def read_ok_def split: if_splits)
qed

lemma is_fetched_Nil [simp]: "\<not> is_fetched [] fk"
  by (simp add: is_fetched_def)

lemma smi_fetch_loop_delivers:
  assumes "\<forall>fk\<in>set fks. smi_servable e fk" and "accepts cb"
    and "length vals = BULK_FIELDS_MAX" and "n \<le> BULK_FIELDS_MAX" and "list_all (read_ok (smi_readable e)) (take n vals)"
  shows "\<exists>bs s'. smi_fetch_loop e [] cb fks vals n (s, u) = Some (RDC_ST_OK, s', deliver cb bs u)
    \<and> map value_key (concat bs) = map value_key (take n vals) @ fks \<and> list_all (read_ok (smi_readable e)) (concat bs)
    \<and> (\<forall>b\<in>set bs. b \<noteq> [] \<and> length b \<le> BULK_FIELDS_MAX)"
  using assms
proof (induction fks arbitrary: vals n s u)
  case Nil
  show ?case
  proof (cases "n = 0")
    case False
    with Nil.prems show ?thesis
      by (intro exI [of _ "[take n vals]"] exI [of _ s])
        (auto simp: accepts_def BULK_FIELDS_MAX_def case_prod_unfold)
  qed (auto intro: exI [of _ "[]"])
next
  case (Cons fk fks)
  have sv: "\<forall>fk\<in>set fks. smi_servable e fk" and ok: "\<And>b u. fst (cb (Some b) u) = RDC_ST_OK"
    using Cons.prems(1,2) by (simp_all add: accepts_def)
  show ?case
  proof (cases "n = BULK_FIELDS_MAX")
    case True
    have "0 < length vals" using Cons.prems(3) by (simp add: BULK_FIELDS_MAX_def)
    then obtain v mf where f: "fetch_slot e 0 fk vals (fst s) = Some (vals[0 := v], mf)" "value_key v = fk" "read_ok (smi_readable e) v"
      using fetch_slot_servable [of e fk 0 vals "fst s"] Cons.prems(1) by auto
    let ?u = "snd (cb (Some (take n vals)) u)"
    have one: "take 1 (vals[0 := v]) = [v]" using \<open>0 < length vals\<close> by (cases vals) simp_all
    from Cons.IH [OF sv Cons.prems(2), of "vals[0 := v]" 1 "(mf, snd s)" ?u] Cons.prems(3) f(3) one
    obtain bs s' where i: "smi_fetch_loop e [] cb fks (vals[0 := v]) 1 ((mf, snd s), ?u) = Some (RDC_ST_OK, s', deliver cb bs ?u)"
      "map value_key (concat bs) = map value_key (take 1 (vals[0 := v])) @ fks" "list_all (read_ok (smi_readable e)) (concat bs)"
      "\<forall>b\<in>set bs. b \<noteq> [] \<and> length b \<le> BULK_FIELDS_MAX" by (auto simp: BULK_FIELDS_MAX_def)
    with one f ok Cons.prems(3,5) True show ?thesis
      by (intro exI [of _ "take n vals # bs"] exI [of _ s'])
        (auto simp: case_prod_unfold BULK_FIELDS_MAX_def)
  next
    case False
    then have n: "n < length vals" "n < BULK_FIELDS_MAX" using Cons.prems(3,4) by auto
    then obtain v mf where f: "fetch_slot e n fk vals (fst s) = Some (vals[n := v], mf)" "value_key v = fk" "read_ok (smi_readable e) v"
      using fetch_slot_servable [of e fk n vals "fst s"] Cons.prems(1) by auto
    have more: "take (n + 1) (vals[n := v]) = take n vals @ [v]" using n by (simp add: take_Suc_conv_app_nth)
    from Cons.IH [OF sv Cons.prems(2), of "vals[n := v]" "n + 1" "(mf, snd s)" u] n Cons.prems(3,5) f(3) more
    obtain bs s' where "smi_fetch_loop e [] cb fks (vals[n := v]) (n + 1) ((mf, snd s), u) = Some (RDC_ST_OK, s', deliver cb bs u)"
      "map value_key (concat bs) = map value_key (take (n + 1) (vals[n := v])) @ fks" "list_all (read_ok (smi_readable e)) (concat bs)"
      "\<forall>b\<in>set bs. b \<noteq> [] \<and> length b \<le> BULK_FIELDS_MAX" by auto
    then show ?thesis using f n more
      by (intro exI [of _ bs] exI [of _ s']) (simp add: not_le [symmetric])
  qed
qed

definition smi_ready :: "smi_env \<Rightarrow> u32 \<times> u32 \<Rightarrow> bool" where
  "smi_ready e fk \<longleftrightarrow> \<not> bulk_fetch_enabled e \<and> length (se_stack e) = BULK_FIELDS_MAX \<and> smi_servable e fk"

lemma smi_value_get_Nil: "\<exists>s'. smi_fields_value_get e (Some []) cb (s, u) = Some (RDC_ST_OK, s', u)"
  by (cases s) (simp add: smi_fields_value_get_def bulk_fetch_smi_fields_def)

definition called :: "'u field_value_f \<Rightarrow> 'u \<Rightarrow> 'u \<Rightarrow> bool" where
  "called cb u u' \<longleftrightarrow> (\<exists>bs. u' = fold (\<lambda>b u. snd (cb b u)) bs u)"

lemma called_refl: "called cb u u"
  unfolding called_def by (rule exI [of _ "[]"]) simp

lemma called_step: "called cb (snd (cb b u)) u' \<Longrightarrow> called cb u u'"
proof -
  assume "called cb (snd (cb b u)) u'"
  then obtain bs where "u' = fold (\<lambda>b u. snd (cb b u)) (b # bs) u" by (auto simp: called_def)
  then show ?thesis unfolding called_def by (rule exI)
qed

lemmas called_one = called_step [OF called_refl]

lemma smi_fetch_loop_user_data:
  "smi_fetch_loop e bulk cb fks vals n (s, u) = Some (st, s', u') \<Longrightarrow> called cb u u'"
proof (induction fks arbitrary: vals n s u)
  case Nil
  then have "u' = (if n \<noteq> 0 then snd (cb (Some (take n vals)) u) else u)"
    by (auto simp: case_prod_unfold split: if_splits)
  then show ?case by (simp add: called_refl called_one)
next
  case (Cons fk fks)
  let ?u = "snd (cb (Some (take n vals)) u)"
  from Cons.prems consider (stop) "u' = ?u"
    | (same) vals' n' s1 where "smi_fetch_loop e bulk cb fks vals' n' (s1, u) = Some (st, s', u')"
    | (flush) vals' n' s1 where "smi_fetch_loop e bulk cb fks vals' n' (s1, ?u) = Some (st, s', u')"
    by (auto simp: case_prod_unfold split: if_splits option.splits)
  then show ?case
  proof cases
    case stop
    then show ?thesis by (simp add: called_one)
  next
    case same
    then show ?thesis by (rule Cons.IH)
  next
    case flush
    then show ?thesis by (intro called_step [OF Cons.IH])
  qed
qed

lemma smi_value_get_user_data:
  assumes "smi_fields_value_get e fks cb (s, u) = Some (st, s', u')"
  shows "called cb u u'"
proof -
  from assms consider (same) "u' = u" | (stop) b where "u' = snd (cb b u)"
    | (loop) bulk fks' s1 where "smi_fetch_loop e bulk cb fks' (se_stack e) 0 (s1, u) = Some (st, s', u')"
    | (bulk) b bulk fks' s1 where "smi_fetch_loop e bulk cb fks' (se_stack e) 0 (s1, snd (cb b u)) = Some (st, s', u')"
    by (auto simp: smi_fields_value_get_def Let_def case_prod_unfold split: option.splits if_splits)
  then show ?thesis
  proof cases
    case stop
    then show ?thesis by (simp add: called_one)
  next
    case bulk
    then show ?thesis by (intro called_step [OF smi_fetch_loop_user_data])
  qed (auto intro: called_refl smi_fetch_loop_user_data)
qed

interpretation smi_source: telemetry_reader "smi_fields_value_get e" "smi_ready e" "smi_readable e" for e
proof
  fix fks s u st s' u' and cb :: "'u field_value_f"
  show "smi_fields_value_get e fks cb (s, u) = Some (st, s', u') \<Longrightarrow> \<exists>bs. u' = fold (\<lambda>b u. snd (cb b u)) bs u"
    using smi_value_get_user_data [of e fks cb s u st s' u'] by (simp only: called_def)
next
  fix fks s u and cb :: "'u field_value_f"
  assume sv: "\<forall>fk\<in>set fks. smi_ready e fk" and cb: "accepts cb"
  show "\<exists>bs st s'. smi_fields_value_get e (Some fks) cb (s, u) = Some (st, s', deliver cb bs u)
      \<and> (fks \<noteq> [] \<longrightarrow> st = RDC_ST_OK) \<and> mset (map value_key (concat bs)) = mset fks \<and> list_all (read_ok (smi_readable e)) (concat bs)"
  proof (cases "fks = []")
    case True
    with smi_value_get_Nil [of e cb s u] show ?thesis by (auto intro!: exI [of _ "[]"])
  next
    case False
    with sv have "\<not> bulk_fetch_enabled e" "length (se_stack e) = BULK_FIELDS_MAX" "\<forall>fk\<in>set fks. smi_servable e fk"
      by (auto simp: smi_ready_def neq_Nil_conv)
    moreover from smi_fetch_loop_delivers [OF this(3) cb this(2), of 0 s u] obtain bs s' where
      "smi_fetch_loop e [] cb fks (se_stack e) 0 (s, u) = Some (RDC_ST_OK, s', deliver cb bs u)"
      and k: "map value_key (concat bs) = fks" "list_all (read_ok (smi_readable e)) (concat bs)" by auto
    ultimately have "smi_fields_value_get e (Some fks) cb (s, u) = Some (RDC_ST_OK, s', deliver cb bs u)"
      by (simp add: smi_fields_value_get_def)
    with k show ?thesis by blast
  qed
qed

definition two_gpu_env :: smi_env where
  "two_gpu_env = \<lparr>se_smi = two_gpu_smi, se_libcap = quiet_libcap, se_now = 10, se_bulk_env = None,
     se_stack = replicate 16 \<lparr>gv_gpu_index = 0, gv_field_value = blank_value\<rparr>\<rparr>"

text \<open>
  (C21) Fetching through the SMI library delivers. With bulk fetch off, for fields of existing GPUs that
  can be read and a callback that accepts every batch, the library returns OK and hands the
  callback non-empty batches of at most 16 values whose GPU and field numbers are the requested
  ones, in the requested order, each exactly once.
\<close>
theorem smi_value_get_delivers:
  assumes "\<not> bulk_fetch_enabled e" and "length (se_stack e) = BULK_FIELDS_MAX"
    and "\<forall>fk\<in>set fks. smi_servable e fk" and "accepts cb"
  shows "\<exists>bs s'. smi_fields_value_get e (Some fks) cb (s, u) = Some (RDC_ST_OK, s', deliver cb bs u)
    \<and> map value_key (concat bs) = fks \<and> (\<forall>b\<in>set bs. b \<noteq> [] \<and> length b \<le> BULK_FIELDS_MAX)"
  using smi_fetch_loop_delivers [OF assms(3,4,2), of 0 s u] assms(1)
  by (simp add: smi_fields_value_get_def) blast

lemma smi_servable_temp: "unat g < 2 \<Longrightarrow> smi_servable two_gpu_env (g, RDC_FI_GPU_TEMP)"
proof -
  assume g: "unat g < 2"
  have "is_field_valid RDC_FI_GPU_TEMP" by code_simp
  with g show ?thesis
    by (simp add: smi_servable_def two_gpu_env_def two_gpu_handle fetch_smi_field_def fetch_switch_def)
qed

theorem smi_value_get_delivers_witness:
  "\<exists>bs s'. smi_fields_value_get two_gpu_env (Some [(1, RDC_FI_GPU_TEMP), (0, RDC_FI_GPU_TEMP)])
      (\<lambda>vs n. (RDC_ST_OK, n + (1 :: nat))) ((metric_fetcher_init, {}), 0)
    = Some (RDC_ST_OK, s', deliver (\<lambda>vs n. (RDC_ST_OK, n + 1)) bs 0)
    \<and> map value_key (concat bs) = [(1, RDC_FI_GPU_TEMP), (0, RDC_FI_GPU_TEMP)]"
proof -
  have "\<not> bulk_fetch_enabled two_gpu_env" "length (se_stack two_gpu_env) = BULK_FIELDS_MAX"
    by (simp_all add: two_gpu_env_def bulk_fetch_enabled_def BULK_FIELDS_MAX_def)
  moreover have "\<forall>fk\<in>set [(1, RDC_FI_GPU_TEMP), (0, RDC_FI_GPU_TEMP)]. smi_servable two_gpu_env fk"
    by (simp add: smi_servable_temp)
  moreover have "accepts (\<lambda>vs n. (RDC_ST_OK, n + (1 :: nat)))" by (simp add: accepts_def)
  ultimately obtain bs s' where
    "smi_fields_value_get two_gpu_env (Some [(1, RDC_FI_GPU_TEMP), (0, RDC_FI_GPU_TEMP)])
      (\<lambda>vs n. (RDC_ST_OK, n + (1 :: nat))) ((metric_fetcher_init, {}), 0)
      = Some (RDC_ST_OK, s', deliver (\<lambda>vs n. (RDC_ST_OK, n + 1)) bs 0)"
    and "map value_key (concat bs) = [(1, RDC_FI_GPU_TEMP), (0, RDC_FI_GPU_TEMP)]"
    using smi_value_get_delivers by metis
  then show ?thesis by (intro exI conjI)
qed

text \<open>
  A GPU without a handle gets the content of the array slot. When the GPU of the only requested field
  does not exist, the fetch fails before it writes anything, its error is ignored, and the
  callback receives whatever the slot held, with the requested GPU number: indeterminate
  memory, or the successful value of a field fetched earlier through that slot.
\<close>
theorem smi_value_get_stale_slot:
  assumes "\<not> bulk_fetch_enabled e" and "se_stack e = slot # rest" and "accepts cb"
    and "\<And>h. get_processor_handle_from_id (se_smi e) g \<noteq> Inr h"
  shows "\<exists>s'. smi_fields_value_get e (Some [(g, f)]) cb (s, u)
    = Some (RDC_ST_OK, s', deliver cb [[slot\<lparr>gv_gpu_index := g\<rparr>]] u)"
proof -
  from assms(4) obtain err where "get_processor_handle_from_id (se_smi e) g = Inl err"
    by (cases "get_processor_handle_from_id (se_smi e) g") auto
  then have "fetch_slot e 0 (g, f) (se_stack e) (fst s) = Some (slot\<lparr>gv_gpu_index := g\<rparr> # rest, fst s)"
    by (cases slot) (simp add: fetch_slot_def fetch_smi_field_def assms(2))
  moreover have "fst (cb (Some [slot\<lparr>gv_gpu_index := g\<rparr>]) u) = RDC_ST_OK" using assms(3) by (simp add: accepts_def)
  ultimately show ?thesis using assms(1) by (simp add: smi_fields_value_get_def BULK_FIELDS_MAX_def case_prod_unfold)
qed

theorem smi_value_get_stale_slot_witness:
  "\<exists>s'. smi_fields_value_get two_gpu_env (Some [(9, RDC_FI_GPU_TEMP)]) (\<lambda>vs l. (RDC_ST_OK, vs # l)) ((metric_fetcher_init, {}), [])
    = Some (RDC_ST_OK, s', [Some [\<lparr>gv_gpu_index = 9, gv_field_value = blank_value\<rparr>]])"
proof -
  have h: "get_processor_handle_from_id (se_smi two_gpu_env) 9 \<noteq> Inr h" for h
    by (simp add: two_gpu_env_def two_gpu_handle)
  have "\<not> bulk_fetch_enabled two_gpu_env" "accepts (\<lambda>vs l. (RDC_ST_OK, vs # l))"
    by (simp_all add: two_gpu_env_def bulk_fetch_enabled_def accepts_def)
  moreover have "se_stack two_gpu_env = \<lparr>gv_gpu_index = 0, gv_field_value = blank_value\<rparr>
      # replicate 15 \<lparr>gv_gpu_index = 0, gv_field_value = blank_value\<rparr>"
    by (simp add: two_gpu_env_def numeral_eq_Suc)
  ultimately have "\<exists>s'. smi_fields_value_get two_gpu_env (Some [(9, RDC_FI_GPU_TEMP)]) (\<lambda>vs l. (RDC_ST_OK, vs # l))
      ((metric_fetcher_init, {}), []) = Some (RDC_ST_OK, s', deliver (\<lambda>vs l. (RDC_ST_OK, vs # l))
      [[\<lparr>gv_gpu_index = 0, gv_field_value = blank_value\<rparr>\<lparr>gv_gpu_index := 9\<rparr>]] [])"
    using h by (intro smi_value_get_stale_slot)
  then show ?thesis by simp
qed

subsection \<open>The dispatching module keeps it\<close>

definition field_owner :: "module_table \<Rightarrow> u32 \<Rightarrow> nat option" where
  "field_owner t f = (case map_of t f of Some r \<Rightarrow> r | None \<Rightarrow> None)"

lemma field_owner_lookup [simp]: "field_owner (map_insert f None t) = field_owner t"
  by (auto simp: field_owner_def map_of_map_insert fun_eq_iff split: option.splits)

lemma lookup_inserted: "map_of (map_insert f None t) f = Some (field_owner t f)"
  by (simp add: field_owner_def map_of_map_insert split: option.split)

lemma map_modify_absent: "a \<notin> fst ` set m \<Longrightarrow> map_modify a f m = m"
  by (induction m) (auto simp: map_modify_def)

lemma mset_put_Nil: "map_of m a = None \<Longrightarrow> mset (concat (map snd (map_put a [] m))) = mset (concat (map snd m))"
  by (induction m) (auto split: if_splits)

lemma mset_modify_append:
  "distinct (map fst m) \<Longrightarrow> a \<in> fst ` set m \<Longrightarrow>
   mset (concat (map snd (map_modify a (\<lambda>l. l @ [x]) m))) = add_mset x (mset (concat (map snd m)))"
proof (induction m)
  case (Cons e m)
  show ?case
  proof (cases "fst e = a")
    case True
    with Cons.prems have "map_modify a (\<lambda>l. l @ [x]) m = m" by (intro map_modify_absent) auto
    with True show ?thesis by (simp add: map_modify_def)
  next
    case False
    with Cons show ?thesis by (simp add: map_modify_def)
  qed
qed simp

lemma mset_dispatch_step:
  assumes "map_wf m"
  shows "mset (concat (map snd (map_modify a (\<lambda>l. l @ [fk]) (map_insert a [] m)))) = add_mset fk (mset (concat (map snd m)))"
proof -
  have "a \<in> dom (map_of (map_insert a [] m))" by (auto simp: map_of_map_insert split: option.split)
  then have "a \<in> fst ` set (map_insert a [] m)" by (simp add: dom_map_of_conv_image_fst)
  then show ?thesis using assms
    by (simp add: mset_modify_append map_wf_distinct) (simp add: map_insert_def mset_put_Nil split: option.split)
qed

lemma get_fields_for_module_Cons:
  "get_fields_for_module (fk # fks) m un t =
     (case field_owner t (snd fk) of
        Some a \<Rightarrow> get_fields_for_module fks (map_modify a (\<lambda>l. l @ [fk]) (map_insert a [] m)) un (map_insert (snd fk) None t)
      | None \<Rightarrow> get_fields_for_module fks m (un @ [unsupported_value fk]) (map_insert (snd fk) None t))"
  by (simp add: Let_def lookup_inserted split: option.split)

lemma set_dispatch_step:
  assumes "map_wf m" and "(a, l) \<in> set (map_modify b (\<lambda>l. l @ [x]) (map_insert b [] m))" and "fk \<in> set l"
  shows "(\<exists>l1. (a, l1) \<in> set m \<and> fk \<in> set l1) \<or> (fk = x \<and> a = b)"
proof -
  have "map_of (map_modify b (\<lambda>l. l @ [x]) (map_insert b [] m)) a = Some l"
    using assms(1,2) by (intro map_of_Some_iff [THEN iffD2]) simp_all
  then show ?thesis using assms(1,3)
    by (auto simp: map_of_map_insert map_of_Some_iff split: if_splits option.splits)
qed

lemma dispatch_spec:
  assumes "get_fields_for_module fks m un t = (m', un', t')" and "map_wf m"
  shows "un' = un @ map unsupported_value (filter (\<lambda>fk. field_owner t (snd fk) = None) fks)
    \<and> mset (concat (map snd m')) = mset (concat (map snd m)) + mset (filter (\<lambda>fk. field_owner t (snd fk) \<noteq> None) fks)
    \<and> map_wf m' \<and> field_owner t' = field_owner t
    \<and> (\<forall>a l fk. (a, l) \<in> set m' \<longrightarrow> fk \<in> set l \<longrightarrow>
         (\<exists>l0. (a, l0) \<in> set m \<and> fk \<in> set l0) \<or> (fk \<in> set fks \<and> field_owner t (snd fk) = Some a))"
  using assms
proof (induction fks arbitrary: m un t)
  case (Cons x fks)
  show ?case
  proof (cases "field_owner t (snd x)")
    case None
    from Cons.IH [of m "un @ [unsupported_value x]" "map_insert (snd x) None t"] Cons.prems None show ?thesis
      by (auto simp: get_fields_for_module_Cons simp del: get_fields_for_module.simps)
  next
    case (Some b)
    let ?m = "map_modify b (\<lambda>l. l @ [x]) (map_insert b [] m)"
    have g: "get_fields_for_module fks ?m un (map_insert (snd x) None t) = (m', un', t')" and wf: "map_wf ?m"
      using Cons.prems Some by (simp_all add: get_fields_for_module_Cons del: get_fields_for_module.simps)
    note ih = Cons.IH [OF g wf]
    have "(\<exists>l0. (a, l0) \<in> set m \<and> fk \<in> set l0) \<or> (fk \<in> set (x # fks) \<and> field_owner t (snd fk) = Some a)"
      if "(a, l) \<in> set m'" "fk \<in> set l" for a l fk
    proof -
      from ih that consider (old) l0 where "(a, l0) \<in> set ?m" "fk \<in> set l0"
        | (new) "fk \<in> set fks" "field_owner t (snd fk) = Some a"
        unfolding field_owner_lookup by blast
      then show ?thesis
        by cases (use set_dispatch_step [OF Cons.prems(2)] Some in fastforce)+
    qed
    with ih Some Cons.prems(2) show ?thesis by (simp add: mset_dispatch_step)
  qed
qed auto

lemma fetch_modules_reads:
  assumes "\<And>a. telemetry_reader (rdc_telemetry_fields_value_get (libs a)) (servable a) (readable a)" and "accepts cb"
    and "\<forall>(a, l)\<in>set m. length l \<le> MAX_NUM_FIELDS \<and> (\<forall>fk\<in>set l. servable a fk \<and> (good fk \<longrightarrow> readable a fk))"
  shows "\<exists>bs s'. fetch_modules libs cb m (s, u) = Some (s', deliver cb bs u)
    \<and> mset (map value_key (concat bs)) = mset (concat (map snd m)) \<and> list_all (read_ok good) (concat bs)"
  using assms(3)
proof (induction m arbitrary: s u)
  case (Cons e m)
  obtain a l where e: "e = (a, l)" by (cases e)
  with Cons.prems have l: "length l \<le> MAX_NUM_FIELDS" "\<forall>fk\<in>set l. servable a fk" "\<forall>fk\<in>set l. good fk \<longrightarrow> readable a fk" by auto
  from telemetry_reader.reads [OF assms(1) l(2) assms(2)] obtain bs st s' where
    b: "rdc_telemetry_fields_value_get (libs a) (Some l) cb (s, u) = Some (st, s', deliver cb bs u)"
    "mset (map value_key (concat bs)) = mset l" "list_all (read_ok (readable a)) (concat bs)" by metis
  have "value_key ` set (concat bs) = set l" using b(2) by (metis set_map mset_eq_setD)
  with b(3) l(3) have ok: "list_all (read_ok good) (concat bs)" by (fastforce simp: list_all_iff read_ok_def)
  have "\<forall>(a, l)\<in>set m. length l \<le> MAX_NUM_FIELDS \<and> (\<forall>fk\<in>set l. servable a fk \<and> (good fk \<longrightarrow> readable a fk))" using Cons.prems by simp
  from Cons.IH [OF this, of s' "deliver cb bs u"] obtain bs' s'' where
    c: "fetch_modules libs cb m (s', deliver cb bs u) = Some (s'', deliver cb bs' (deliver cb bs u))"
    "mset (map value_key (concat bs')) = mset (concat (map snd m))" "list_all (read_ok good) (concat bs')" by blast
  have "fetch_modules libs cb (e # m) (s, u) = Some (s'', deliver cb (bs @ bs') u)"
    using b(1) c(1) l(1) by (simp add: e deliver_append)
  moreover have "mset (map value_key (concat (bs @ bs'))) = mset (concat (map snd (e # m)))"
    using b(2) c(2) by (simp add: e)
  ultimately show ?case using ok c(3) by (intro exI [of _ "bs @ bs'"] exI [of _ s'']) simp
qed (auto intro: exI [of _ "[]"])

lemma module_value_get_reads:
  assumes "\<And>a. telemetry_reader (rdc_telemetry_fields_value_get (libs a)) (servable a) (readable a)"
    and "accepts cb" and "length fks \<le> MAX_NUM_FIELDS"
    and "\<And>fk a. fk \<in> set fks \<Longrightarrow> field_owner (tm_fields_id_module tm) (snd fk) = Some a \<Longrightarrow> servable a fk"
  shows "\<exists>bs un tm' s'. module_fields_value_get libs (Some fks) cb (tm, s, u)
        = Some (RDC_ST_OK, tm', s', snd (cb (vec_ptr un) (deliver cb bs u)))
    \<and> mset (map value_key (concat bs @ un)) = mset fks
    \<and> un = map unsupported_value (filter (\<lambda>fk. field_owner (tm_fields_id_module tm) (snd fk) = None) fks)
    \<and> list_all (read_ok (\<lambda>fk. \<exists>a. field_owner (tm_fields_id_module tm) (snd fk) = Some a \<and> readable a fk)) (concat bs)"
proof -
  let ?t = "tm_fields_id_module tm" and ?good = "\<lambda>fk. \<exists>a. field_owner (tm_fields_id_module tm) (snd fk) = Some a \<and> readable a fk"
  obtain m un t where g: "get_fields_for_module fks [] [] ?t = (m, un, t)" by (metis prod_cases3)
  note sp = dispatch_spec [OF g map_wf_Nil]
  then have un: "un = map unsupported_value (filter (\<lambda>fk. field_owner ?t (snd fk) = None) fks)"
    and m: "mset (concat (map snd m)) = mset (filter (\<lambda>fk. field_owner ?t (snd fk) \<noteq> None) fks)"
    and own: "\<And>a l fk. (a, l) \<in> set m \<Longrightarrow> fk \<in> set l \<Longrightarrow> fk \<in> set fks \<and> field_owner ?t (snd fk) = Some a" by auto
  have "length l \<le> MAX_NUM_FIELDS" if "(a, l) \<in> set m" for a l
  proof -
    have "length l \<le> length (concat (map snd m))" using that by (induction m) auto
    also have "\<dots> \<le> length fks" using m by (metis size_mset length_filter_le)
    finally show ?thesis using assms(3) by simp
  qed
  then have "\<forall>(a, l)\<in>set m. length l \<le> MAX_NUM_FIELDS \<and> (\<forall>fk\<in>set l. servable a fk \<and> (?good fk \<longrightarrow> readable a fk))"
    using own assms(4) by fastforce
  from fetch_modules_reads [OF assms(1,2) this, of s u] obtain bs s' where
    f: "fetch_modules libs cb m (s, u) = Some (s', deliver cb bs u)" "list_all (read_ok ?good) (concat bs)"
    and k: "mset (map value_key (concat bs)) = mset (concat (map snd m))" by blast
  have "map value_key un = filter (\<lambda>fk. field_owner ?t (snd fk) = None) fks"
    unfolding un by (simp add: comp_def value_key_def unsupported_value_def)
  then have "mset (map value_key (concat bs @ un)) = mset fks"
    using k m by (simp del: map_concat mset_map add: map_append mset_append)
  moreover have "module_fields_value_get libs (Some fks) cb (tm, s, u)
      = Some (RDC_ST_OK, tm\<lparr>tm_fields_id_module := t\<rparr>, s', snd (cb (vec_ptr un) (deliver cb bs u)))"
    using f(1) g by (simp add: module_fields_value_get_def)
  ultimately show ?thesis using un f(2) by blast
qed

lemma module_value_get_lemma:
  assumes "\<And>a. telemetry_source (rdc_telemetry_fields_value_get (libs a)) (servable a)"
    and "accepts cb" and "length fks \<le> MAX_NUM_FIELDS"
    and "\<And>fk a. fk \<in> set fks \<Longrightarrow> field_owner (tm_fields_id_module tm) (snd fk) = Some a \<Longrightarrow> servable a fk"
  shows "\<exists>bs un tm' s'. module_fields_value_get libs (Some fks) cb (tm, s, u)
        = Some (RDC_ST_OK, tm', s', snd (cb (vec_ptr un) (deliver cb bs u)))
    \<and> mset (map value_key (concat bs @ un)) = mset fks
    \<and> un = map unsupported_value (filter (\<lambda>fk. field_owner (tm_fields_id_module tm) (snd fk) = None) fks)"
  using module_value_get_reads [where libs = libs and servable = servable and readable = "\<lambda>_ _. False" and tm = tm and s = s and u = u,
      OF source_reader [OF assms(1)] assms(2-4)] by blast

text \<open>
  (C7) The telemetry module answers every requested field once. If the libraries keep the contract
  of \<open>telemetry_source\<close> on the fields they own, at most 8192 fields are requested and the
  callback accepts every batch, the module returns OK and the callback sees, over all its calls, exactly
  one value for each requested field: a fetched one from the library that owns the field, or a value
  with status not-supported, in the last call, for a field that no library owns.
\<close>
theorem module_value_get_delivers:
  assumes "\<And>a. telemetry_source (rdc_telemetry_fields_value_get (libs a)) (servable a)"
    and "accepts cb" and "length fks \<le> MAX_NUM_FIELDS"
    and "\<And>fk a. fk \<in> set fks \<Longrightarrow> field_owner (tm_fields_id_module tm) (snd fk) = Some a \<Longrightarrow> servable a fk"
  shows "\<exists>bs un tm' s'. module_fields_value_get libs (Some fks) cb (tm, s, u)
        = Some (RDC_ST_OK, tm', s', snd (cb (vec_ptr un) (deliver cb bs u)))
    \<and> mset (map value_key (concat bs @ un)) = mset fks
    \<and> un = map unsupported_value (filter (\<lambda>fk. field_owner (tm_fields_id_module tm) (snd fk) = None) fks)"
  by (rule module_value_get_lemma [OF assms])

theorem module_value_get_delivers_witness:
  "\<exists>bs un tm' s'. module_fields_value_get (\<lambda>_. smi_lib two_gpu_env) (Some [(1, RDC_FI_GPU_TEMP), (0, RDC_EVNT_NOTIF_VMFAULT)])
      (\<lambda>vs n. (RDC_ST_OK, n + (1 :: nat)))
      (\<lparr>tm_modules = [7], tm_fields_id_module = [(RDC_FI_GPU_TEMP, Some 7)]\<rparr>, (metric_fetcher_init, {}), 0)
    = Some (RDC_ST_OK, tm', s', snd ((\<lambda>vs n. (RDC_ST_OK, n + 1)) (vec_ptr un) (deliver (\<lambda>vs n. (RDC_ST_OK, n + 1)) bs 0)))
    \<and> un = [unsupported_value (0, RDC_EVNT_NOTIF_VMFAULT)]"
proof -
  let ?cb = "\<lambda>vs n. (RDC_ST_OK, n + (1 :: nat))"
  let ?tm = "\<lparr>tm_modules = [7], tm_fields_id_module = [(RDC_FI_GPU_TEMP, Some 7)]\<rparr> :: telemetry_module"
  let ?fks = "[(1, RDC_FI_GPU_TEMP), (0, RDC_EVNT_NOTIF_VMFAULT)] :: (u32 \<times> u32) list"
  have src: "telemetry_source (rdc_telemetry_fields_value_get (smi_lib two_gpu_env)) (smi_ready two_gpu_env)"
    unfolding smi_lib_def by simp (rule smi_source.telemetry_source_axioms)
  have own: "smi_ready two_gpu_env fk" if "fk \<in> set ?fks" "field_owner (tm_fields_id_module ?tm) (snd fk) = Some a" for fk a
  proof -
    have "fk = (1, RDC_FI_GPU_TEMP)" using that by (auto simp: field_owner_def split: if_splits)
    moreover have "smi_servable two_gpu_env (1, RDC_FI_GPU_TEMP)" by (rule smi_servable_temp) simp
    ultimately show ?thesis by (simp add: smi_ready_def) (simp add: two_gpu_env_def bulk_fetch_enabled_def BULK_FIELDS_MAX_def)
  qed
  have acc: "accepts ?cb" and len: "length ?fks \<le> MAX_NUM_FIELDS" by (simp_all add: accepts_def MAX_NUM_FIELDS_def)
  have "\<exists>bs un tm' s'. module_fields_value_get (\<lambda>_. smi_lib two_gpu_env) (Some ?fks) ?cb (?tm, (metric_fetcher_init, {}), 0)
        = Some (RDC_ST_OK, tm', s', snd (?cb (vec_ptr un) (deliver ?cb bs 0)))
    \<and> mset (map value_key (concat bs @ un)) = mset ?fks
    \<and> un = map unsupported_value (filter (\<lambda>fk. field_owner (tm_fields_id_module ?tm) (snd fk) = None) ?fks)"
    by (rule module_value_get_delivers [where servable = "\<lambda>_. smi_ready two_gpu_env"])
      (rule src, rule acc, rule len, erule own)
  then obtain bs un tm' s' where
    "module_fields_value_get (\<lambda>_. smi_lib two_gpu_env) (Some ?fks) ?cb (?tm, (metric_fetcher_init, {}), 0)
      = Some (RDC_ST_OK, tm', s', snd (?cb (vec_ptr un) (deliver ?cb bs 0)))"
    and "un = map unsupported_value (filter (\<lambda>fk. field_owner (tm_fields_id_module ?tm) (snd fk) = None) ?fks)"
    by blast
  moreover from this(2) have "un = [unsupported_value (0, RDC_EVNT_NOTIF_VMFAULT)]" by (simp add: field_owner_def)
  ultimately show ?thesis by (intro exI conjI)
qed

subsection \<open>Watching and fetching leave the list of libraries alone\<close>

lemma fetch_modules_keeps:
  assumes "\<And>a. callback_only (rdc_telemetry_fields_value_get (libs a))" and "\<And>b u. P u \<Longrightarrow> P (snd (cb b u))"
  shows "fetch_modules libs cb m (s, u) = Some (s', u') \<Longrightarrow> P u \<Longrightarrow> P u'"
proof (induction m arbitrary: s u)
  case (Cons e m)
  obtain a l where e: "e = (a, l)" by (cases e)
  from Cons.prems(1) obtain st s1 u1 where
    g: "rdc_telemetry_fields_value_get (libs a) (Some l) cb (s, u) = Some (st, s1, u1)"
    and r: "fetch_modules libs cb m (s1, u1) = Some (s', u')"
    by (auto simp: e split: if_splits option.splits)
  have "P u1" by (rule callback_only.fetch_keeps [OF assms(1) g Cons.prems(2) assms(2)])
  then show ?case by (rule Cons.IH [OF r])
qed simp

lemma module_value_get_keeps:
  assumes "\<And>a. callback_only (rdc_telemetry_fields_value_get (libs a))" and "\<And>b u. P u \<Longrightarrow> P (snd (cb b u))"
    and "module_fields_value_get libs fks cb (tm, s, u) = Some (st, tm', s', u')" and "P u"
  shows "P u' \<and> tm_modules tm' = tm_modules tm"
  using assms(3,4) fetch_modules_keeps [of libs P cb, OF assms(1,2)]
  by (auto simp: module_fields_value_get_def split: option.splits prod.splits intro!: assms(2))

lemma module_dispatch_modules:
  "module_dispatch f fks (tm, s) = Some (st, tm', s') \<Longrightarrow> tm_modules tm' = tm_modules tm"
  by (auto simp: module_dispatch_def split: option.splits prod.splits)

end
