(* ===== verification/Rdc_Watch_Table.thy ===== *)
theory Rdc_Watch_Table
  imports Rdc_Job_Statistics Rdc_Notification Rdc_Telemetry
begin

text \<open>
  \<^verbatim>\<open>RdcWatchTableImpl\<close>: which groups are watched, the settings of every watched field derived
  from them, the running jobs, and the periodic update that fetches the fields that are due,
  stores the values in the cache and the job statistics, and evicts old data. Also
  \<^verbatim>\<open>RdcModuleMgrImpl::get_telemetry_module\<close>. A method runs under the watch mutex, so it is one
  transition; the methods of jobs release the mutex between their parts and are composed of
  those transitions.
\<close>

section \<open>State\<close>

record field_settings =
  st_update_freq :: u64
  st_max_keep_samples :: u32
  st_max_keep_age :: real
  st_is_watching :: bool
  st_last_update_time :: u64

record job_watch_entry =
  jw_group_id :: u32
  jw_fields :: "field_key list"

text \<open>The part of the state that the fetch callback reads and writes.\<close>

record watch_core =
  wt_cache :: cache_manager
  wt_watch_table :: "(u32 \<times> u32, field_settings) smap"
  wt_job_table :: "(string, job_watch_entry) smap"
  wt_fields :: "(field_key, field_settings) smap"
  wt_last_cleanup :: u64

text \<open>
  The objects the watch table shares with the handler: groups, notification masks, telemetry
  module (created on first use) with the state behind its libraries, and the capabilities of
  the process.
\<close>

record 's watch_state =
  ww_core :: watch_core
  ww_groups :: group_settings
  ww_masks :: notif_masks
  ww_modules :: "nat list"
  ww_module :: "telemetry_module option"
  ww_tel :: 's
  ww_caps :: cap_state

text \<open>What a call depends on: the platform, the libraries, the clock in milliseconds and in seconds.\<close>

record 's watch_env =
  we_smi :: amdsmi
  we_libcap :: libcap
  we_libs :: "nat \<Rightarrow> ('s \<times> cap_state, watch_core) rdc_telemetry"
  we_now :: u64
  we_now_s :: u64

definition watch_core_init :: watch_core where
  "watch_core_init =
     \<lparr>wt_cache = cache_manager_init, wt_watch_table = [], wt_job_table = [], wt_fields = [], wt_last_cleanup = 0\<rparr>"

definition get_telemetry_module :: "'s watch_env \<Rightarrow> 's watch_state \<Rightarrow> telemetry_module \<times> 's watch_state" where
  "get_telemetry_module e w =
     (case ww_module w of
        Some tm \<Rightarrow> (tm, w)
      | None \<Rightarrow> let tm = new_telemetry_module (we_libs e) (ww_tel w, ww_caps w) (ww_modules w)
                in (tm, w\<lparr>ww_module := Some tm\<rparr>))"

section \<open>Watching\<close>

definition get_fields_from_group :: "u32 \<Rightarrow> u32 \<Rightarrow> group_settings \<Rightarrow> rdc_status \<times> field_key list" where
  "get_fields_from_group gid fgid gs =
     (case rdc_group_gpu_get_info gid gs of
        (st, Some ginfo) \<Rightarrow>
          (case rdc_group_field_get_info fgid gs of
             (st', Some finfo) \<Rightarrow>
               (RDC_ST_OK, concat (map (\<lambda>g. map (Pair g) (field_ids finfo)) (entity_ids ginfo)))
           | (st', None) \<Rightarrow> (st', []))
      | (st, None) \<Rightarrow> (st, []))"

definition merge_settings :: "u64 \<Rightarrow> real \<Rightarrow> u32 \<Rightarrow> field_settings \<Rightarrow> field_settings" where
  "merge_settings freq age n t =
     (let t1 = t\<lparr>st_max_keep_age := max (st_max_keep_age t) age,
                 st_max_keep_samples := max (st_max_keep_samples t) n\<rparr>
      in if st_is_watching t1 then t1\<lparr>st_update_freq := min (st_update_freq t1) freq\<rparr>
         else t1\<lparr>st_is_watching := True, st_update_freq := freq\<rparr>)"

definition watch_field ::
    "field_settings \<Rightarrow> field_key \<Rightarrow> (field_key, field_settings) smap \<Rightarrow> (field_key, field_settings) smap" where
  "watch_field f k m =
     (case map_of m k of
        None \<Rightarrow> map_insert k f m
      | Some _ \<Rightarrow> map_modify k (merge_settings (st_update_freq f) (st_max_keep_age f) (st_max_keep_samples f)) m)"

definition watched_keys :: "(field_key, field_settings) smap \<Rightarrow> field_key list" where
  "watched_keys m = map fst (filter (\<lambda>e. st_is_watching (snd e)) m)"

text \<open>
  \<^verbatim>\<open>rdc_field_watch\<close>: an entry that is not watching is dropped first; then the fields of the
  group are found, event fields are set up, fields no library supports are left out, the settings are
  merged into the field table, and the telemetry module is told all watched fields. The array for
  the supported fields has \<^const>\<open>MAX_NUM_FIELDS\<close> elements.
\<close>

definition rdc_field_watch ::
    "'s watch_env \<Rightarrow> u32 \<Rightarrow> u32 \<Rightarrow> u64 \<Rightarrow> real \<Rightarrow> u32 \<Rightarrow> 's watch_state \<Rightarrow> (rdc_status \<times> 's watch_state) option" where
  "rdc_field_watch e gid fgid freq age n w =
     (let gkey = (gid, fgid); c = ww_core w in
      if (case map_of (wt_watch_table c) gkey of Some s \<Rightarrow> st_is_watching s | None \<Rightarrow> False)
      then Some (RDC_ST_CONFLICT, w)
      else let wt = map_erase gkey (wt_watch_table c);
               w1 = w\<lparr>ww_core := c\<lparr>wt_watch_table := wt\<rparr>\<rparr>;
               f = \<lparr>st_update_freq = freq, st_max_keep_samples = n, st_max_keep_age = age,
                    st_is_watching = True, st_last_update_time = 0\<rparr>
           in (case get_fields_from_group gid fgid (ww_groups w) of (st, fks) \<Rightarrow>
                 if st \<noteq> RDC_ST_OK then Some (st, w1)
                 else (case set_listen_events (we_smi e) (we_libcap e) fks (ww_masks w1, ww_caps w1) of (_, masks, caps) \<Rightarrow>
                   (case get_telemetry_module e (w1\<lparr>ww_masks := masks, ww_caps := caps\<rparr>) of (tm, w2) \<Rightarrow>
                      let ids = snd (module_fields_query (we_libs e) tm (ww_tel w2, ww_caps w2)) in
                      if MAX_NUM_FIELDS < length ids then None
                      else let fks' = filter (\<lambda>fk. snd fk \<in> set ids) fks;
                               flds = fold (watch_field f) fks' (wt_fields c);
                               c' = c\<lparr>wt_watch_table := map_insert gkey f wt, wt_fields := flds\<rparr>
                           in map_option (\<lambda>(_, tm', tel, caps').
                                  (RDC_ST_OK, w2\<lparr>ww_core := c', ww_module := Some tm', ww_tel := tel, ww_caps := caps'\<rparr>))
                                (module_fields_watch (we_libs e) (vec_ptr (watched_keys flds)) (tm, ww_tel w2, ww_caps w2))))))"

section \<open>Unwatching\<close>

definition add_frequency :: "u64 \<Rightarrow> field_key \<Rightarrow> (field_key, u64) smap \<Rightarrow> (field_key, u64) smap" where
  "add_frequency freq k m =
     (case map_of m k of None \<Rightarrow> map_insert k freq m | Some _ \<Rightarrow> map_modify k (\<lambda>x. min x freq) m)"

fun update_frequencies ::
    "group_settings \<Rightarrow> (u32 \<times> u32, field_settings) smap \<Rightarrow> (field_key, u64) smap \<Rightarrow> rdc_status \<times> (field_key, u64) smap" where
  "update_frequencies gs [] m = (RDC_ST_OK, m)"
| "update_frequencies gs ((k, s) # wt) m =
     (if \<not> st_is_watching s then update_frequencies gs wt m
      else case get_fields_from_group (fst k) (snd k) gs of (st, fks) \<Rightarrow>
             if st \<noteq> RDC_ST_OK then (st, m)
             else update_frequencies gs wt (fold (add_frequency (st_update_freq s)) fks m))"

text \<open>The loop over the fields of the unwatched group: notification masks, field table, fields to report.\<close>

fun unwatch_loop ::
    "amdsmi \<Rightarrow> (field_key, u64) smap \<Rightarrow> field_key list \<Rightarrow> notif_masks \<times> (field_key, field_settings) smap \<times> field_key list
     \<Rightarrow> notif_masks \<times> (field_key, field_settings) smap \<times> field_key list" where
  "unwatch_loop smi freqs [] r = r"
| "unwatch_loop smi freqs (k # ks) (masks, m, un) =
     (if is_notification_event (snd k)
      then unwatch_loop smi freqs ks (snd (stop_listening smi (fst k) masks), m, un)
      else case map_of m k of
             None \<Rightarrow> unwatch_loop smi freqs ks (masks, m, un @ [k])
           | Some _ \<Rightarrow>
               (case map_of freqs k of
                  None \<Rightarrow> unwatch_loop smi freqs ks (masks, map_modify k (\<lambda>s. s\<lparr>st_is_watching := False\<rparr>) m, un @ [k])
                | Some x \<Rightarrow> unwatch_loop smi freqs ks (masks, map_modify k (\<lambda>s. s\<lparr>st_update_freq := x\<rparr>) m, un)))"

definition update_field_in_table_when_unwatch ::
    "'s watch_env \<Rightarrow> u32 \<times> u32 \<Rightarrow> 's watch_state \<Rightarrow> (rdc_status \<times> 's watch_state) option" where
  "update_field_in_table_when_unwatch e gkey w =
     (let c = ww_core w in
      case get_fields_from_group (fst gkey) (snd gkey) (ww_groups w) of (st, fks) \<Rightarrow>
        if st \<noteq> RDC_ST_OK then Some (st, w)
        else (case update_frequencies (ww_groups w) (wt_watch_table c) [] of (st', freqs) \<Rightarrow>
          if st' \<noteq> RDC_ST_OK then Some (st', w)
          else (case unwatch_loop (we_smi e) freqs fks (ww_masks w, wt_fields c, []) of (masks, flds, un) \<Rightarrow>
            (case get_telemetry_module e (w\<lparr>ww_core := c\<lparr>wt_fields := flds\<rparr>, ww_masks := masks\<rparr>) of (tm, w2) \<Rightarrow>
               map_option (\<lambda>(_, tm', tel, caps'). (RDC_ST_OK, w2\<lparr>ww_module := Some tm', ww_tel := tel, ww_caps := caps'\<rparr>))
                 (module_fields_unwatch (we_libs e) (vec_ptr un) (tm, ww_tel w2, ww_caps w2))))))"

definition rdc_field_unwatch ::
    "'s watch_env \<Rightarrow> u32 \<Rightarrow> u32 \<Rightarrow> 's watch_state \<Rightarrow> (rdc_status \<times> 's watch_state) option" where
  "rdc_field_unwatch e gid fgid w =
     (let gkey = (gid, fgid); c = ww_core w in
      case map_of (wt_watch_table c) gkey of
        None \<Rightarrow> Some (RDC_ST_NOT_FOUND, w)
      | Some _ \<Rightarrow>
          update_field_in_table_when_unwatch e gkey
            (w\<lparr>ww_core := c\<lparr>wt_watch_table := map_modify gkey
                 (\<lambda>s. s\<lparr>st_is_watching := False, st_last_update_time := we_now e\<rparr>) (wt_watch_table c)\<rparr>\<rparr>))"

section \<open>Values arriving\<close>

definition is_job_watch_field :: "u32 \<Rightarrow> u32 \<Rightarrow> watch_core \<Rightarrow> string option" where
  "is_job_watch_field g f c =
     (case filter (\<lambda>e. (g, f) \<in> set (jw_fields (snd e))) (wt_job_table c) of [] \<Rightarrow> None | e # _ \<Rightarrow> Some (fst e))"

text \<open>
  One value: the time stamp of the field is always refreshed; a valid value goes to the cache
  and to the statistics of the first job that watches the field.
\<close>

definition store_value :: "u64 \<Rightarrow> u32 \<Rightarrow> rdc_field_value \<Rightarrow> watch_core \<Rightarrow> watch_core" where
  "store_value ts g v c =
     (let c1 = c\<lparr>wt_fields := map_modify (g, fv_field_id v) (\<lambda>s. s\<lparr>st_last_update_time := ts\<rparr>) (wt_fields c)\<rparr> in
      if \<not> value_status_ok (fv_status v) then c1
      else let cache1 = snd (rdc_update_cache g v (wt_cache c1));
               cache2 = (case is_job_watch_field g (fv_field_id v) c1 of
                           None \<Rightarrow> cache1
                         | Some j \<Rightarrow> snd (rdc_update_job_stats g j v cache1))
           in c1\<lparr>wt_cache := cache2\<rparr>)"

definition handle_fields :: "u64 \<Rightarrow> watch_core field_value_f" where
  "handle_fields now vals c =
     (case vals of
        None \<Rightarrow> (RDC_ST_BAD_PARAMETER, c)
      | Some vs \<Rightarrow> (RDC_ST_OK, fold (\<lambda>gv. store_value now (gv_gpu_index gv) (gv_field_value gv)) vs c))"

definition rdc_notif_update_cache :: "rdc_evnt_notification list option \<Rightarrow> watch_core \<Rightarrow> rdc_status \<times> watch_core" where
  "rdc_notif_update_cache events c =
     (case events of
        None \<Rightarrow> (RDC_ST_BAD_PARAMETER, c)
      | Some es \<Rightarrow>
          if es = [] then (RDC_ST_BAD_PARAMETER, c)
          else (RDC_ST_OK, fold (\<lambda>ev. store_value (fv_ts (en_field ev)) (en_gpu_id ev) (en_field ev)) es c))"

definition rdc_field_listen_notif :: "'s watch_env \<Rightarrow> u32 \<Rightarrow> 's watch_state \<Rightarrow> (rdc_status \<times> 's watch_state) option" where
  "rdc_field_listen_notif e timeout_ms w =
     map_option (\<lambda>(st, es).
         if st = RDC_ST_OK \<and> es \<noteq> []
         then (case rdc_notif_update_cache (Some es) (ww_core w) of (st', c') \<Rightarrow> (st', w\<lparr>ww_core := c'\<rparr>))
         else (st, w))
       (listen (we_smi e) (we_now e) kMaxRSMIEvents timeout_ms)"

section \<open>The periodic update\<close>

definition is_due :: "u64 \<Rightarrow> field_settings \<Rightarrow> bool" where
  "is_due now s \<longleftrightarrow> st_is_watching s \<and> \<not> st_last_update_time s + st_update_freq s div 1000 > now"

definition is_expired :: "u64 \<Rightarrow> field_settings \<Rightarrow> bool" where
  "is_expired now s \<longleftrightarrow> \<not> st_is_watching s
     \<and> real (unat (st_last_update_time s)) + st_max_keep_age s * 1000 < real (unat now)"

fun evict_fields :: "u64 \<Rightarrow> (field_key, field_settings) smap \<Rightarrow> cache_manager \<Rightarrow> cache_manager option" where
  "evict_fields now [] cache = Some cache"
| "evict_fields now ((k, s) # m) cache =
     (case evict_cache (fst k) (snd k) (ucast (st_max_keep_samples s)) (st_max_keep_age s) now cache of
        None \<Rightarrow> None | Some (_, cache') \<Rightarrow> evict_fields now m cache')"

definition clean_up :: "u64 \<Rightarrow> watch_core \<Rightarrow> watch_core option" where
  "clean_up now c =
     map_option (\<lambda>cache. c\<lparr>wt_cache := cache,
                           wt_fields := filter (\<lambda>e. \<not> is_expired now (snd e)) (wt_fields c),
                           wt_watch_table := filter (\<lambda>e. \<not> is_expired now (snd e)) (wt_watch_table c)\<rparr>)
       (evict_fields now (wt_fields c) (wt_cache c))"

definition fetch_due :: "'s watch_env \<Rightarrow> 's watch_state \<Rightarrow> 's watch_state option" where
  "fetch_due e w =
     (let due = map fst (filter (\<lambda>en. is_due (we_now e) (snd en)) (wt_fields (ww_core w))) in
      if due = [] then Some w
      else case get_telemetry_module e w of (tm, w1) \<Rightarrow>
             map_option (\<lambda>(_, tm', tel, c'). w1\<lparr>ww_core := c', ww_module := Some tm', ww_tel := fst tel, ww_caps := snd tel\<rparr>)
               (module_fields_value_get (we_libs e) (Some due) (handle_fields (we_now e))
                  (tm, (ww_tel w1, ww_caps w1), ww_core w1)))"

definition rdc_field_update_all :: "'s watch_env \<Rightarrow> 's watch_state \<Rightarrow> (rdc_status \<times> 's watch_state) option" where
  "rdc_field_update_all e w =
     Option.bind (fetch_due e w) (\<lambda>w1.
       if we_now e - wt_last_cleanup (ww_core w1) > 1000
       then map_option (\<lambda>c. (RDC_ST_OK, w1\<lparr>ww_core := c\<lparr>wt_last_cleanup := we_now e\<rparr>\<rparr>)) (clean_up (we_now e) (ww_core w1))
       else Some (RDC_ST_OK, w1))"

section \<open>Jobs\<close>

definition rdc_watch_job_start ::
    "'s watch_env \<Rightarrow> u32 \<Rightarrow> string \<Rightarrow> u64 \<Rightarrow> gauges \<Rightarrow> 's watch_state \<Rightarrow> (rdc_status \<times> 's watch_state) option" where
  "rdc_watch_job_start e gid job_id freq gpu_gauges w =
     (let c = ww_core w in
      if map_of (wt_job_table c) job_id \<noteq> None then Some (RDC_ST_ALREADY_EXIST, w)
      else case get_fields_from_group gid JOB_FIELD_ID (ww_groups w) of (st, fks) \<Rightarrow>
        if st \<noteq> RDC_ST_OK then Some (st, w)
        else if fks = [] then Some (RDC_ST_NOT_FOUND, w)
        else let c1 = c\<lparr>wt_job_table := map_insert job_id \<lparr>jw_group_id = gid, jw_fields = fks\<rparr> (wt_job_table c)\<rparr>;
                 w1 = w\<lparr>ww_core := c1\<rparr>
             in (case rdc_group_gpu_get_info gid (ww_groups w) of
                   (st1, None) \<Rightarrow> Some (st1, w1)
                 | (_, Some ginfo) \<Rightarrow>
                     (case rdc_group_field_get_info JOB_FIELD_ID (ww_groups w) of
                        (st2, None) \<Rightarrow> Some (st2, w1)
                      | (_, Some finfo) \<Rightarrow>
                          (case rdc_job_start_stats job_id ginfo finfo gpu_gauges (we_now_s e) (wt_cache c1) of (st3, cache') \<Rightarrow>
                             let w2 = w\<lparr>ww_core := c1\<lparr>wt_cache := cache'\<rparr>\<rparr> in
                             if st3 \<noteq> RDC_ST_OK then Some (st3, w2)
                             else rdc_field_watch e gid JOB_FIELD_ID freq 0 0 w2))))"

definition rdc_watch_job_stop ::
    "'s watch_env \<Rightarrow> string \<Rightarrow> gauges \<Rightarrow> 's watch_state \<Rightarrow> (rdc_status \<times> 's watch_state) option" where
  "rdc_watch_job_stop e job_id gpu_gauges w =
     (case map_of (wt_job_table (ww_core w)) job_id of
        None \<Rightarrow> Some (RDC_ST_NOT_FOUND, w)
      | Some job \<Rightarrow>
          (case rdc_field_unwatch e (jw_group_id job) JOB_FIELD_ID w of
             None \<Rightarrow> None
           | Some (st, w1) \<Rightarrow>
               if st \<noteq> RDC_ST_OK then Some (st, w1)
               else let c1 = (ww_core w1)\<lparr>wt_job_table := map_erase job_id (wt_job_table (ww_core w1))\<rparr>
                    in (case rdc_job_stop_stats job_id gpu_gauges (we_now_s e) (wt_cache c1) of (st', cache') \<Rightarrow>
                          Some (st', w1\<lparr>ww_core := c1\<lparr>wt_cache := cache'\<rparr>\<rparr>))))"

definition rdc_watch_job_remove :: "'s watch_env \<Rightarrow> string \<Rightarrow> 's watch_state \<Rightarrow> (rdc_status \<times> 's watch_state) option" where
  "rdc_watch_job_remove e job_id w =
     (case rdc_watch_job_stop e job_id [] w of
        None \<Rightarrow> None
      | Some (_, w1) \<Rightarrow>
          (case rdc_job_remove job_id (wt_cache (ww_core w1)) of (st, cache') \<Rightarrow>
             Some (st, w1\<lparr>ww_core := (ww_core w1)\<lparr>wt_cache := cache'\<rparr>\<rparr>)))"

fun stop_jobs :: "'s watch_env \<Rightarrow> string list \<Rightarrow> 's watch_state \<Rightarrow> 's watch_state option" where
  "stop_jobs e [] w = Some w"
| "stop_jobs e (j # js) w =
     (case rdc_watch_job_stop e j [] w of None \<Rightarrow> None | Some (_, w1) \<Rightarrow> stop_jobs e js w1)"

definition rdc_watch_job_remove_all :: "'s watch_env \<Rightarrow> 's watch_state \<Rightarrow> (rdc_status \<times> 's watch_state) option" where
  "rdc_watch_job_remove_all e w =
     map_option (\<lambda>w1. case rdc_job_remove_all (wt_cache (ww_core w1)) of (st, cache') \<Rightarrow>
                    (st, w1\<lparr>ww_core := (ww_core w1)\<lparr>wt_cache := cache'\<rparr>\<rparr>))
       (stop_jobs e (map_keys (wt_job_table (ww_core w))) w)"

section \<open>The field table tracks the watch table\<close>

text \<open>
  The specification: a field is watched when a watching entry of the watch table contains it, at
  the smallest of their update periods. The field table is the cached form of it.
\<close>

abbreviation group_fields :: "group_settings \<Rightarrow> u32 \<times> u32 \<Rightarrow> field_key list" where
  "group_fields gs k \<equiv> snd (get_fields_from_group (fst k) (snd k) gs)"

definition watch_freqs :: "group_settings \<Rightarrow> (u32 \<times> u32, field_settings) smap \<Rightarrow> field_key \<Rightarrow> u64 set" where
  "watch_freqs gs wt fk =
     (\<lambda>e. st_update_freq (snd e)) ` {e \<in> set wt. st_is_watching (snd e) \<and> fk \<in> set (group_fields gs (fst e))}"

definition field_freq :: "(field_key, field_settings) smap \<Rightarrow> field_key \<Rightarrow> u64 option" where
  "field_freq m fk =
     (case map_of m fk of Some t \<Rightarrow> if st_is_watching t then Some (st_update_freq t) else None | None \<Rightarrow> None)"

definition spec_freq :: "u64 set \<Rightarrow> u64 option" where
  "spec_freq A = (if A = {} then None else Some (Min A))"

definition tracks :: "u32 list \<Rightarrow> group_settings \<Rightarrow> watch_core \<Rightarrow> bool" where
  "tracks ids gs c \<longleftrightarrow>
     (\<forall>fk. snd fk \<in> set ids \<longrightarrow> field_freq (wt_fields c) fk = spec_freq (watch_freqs gs (wt_watch_table c) fk))"

definition groups_known :: "group_settings \<Rightarrow> (u32 \<times> u32, field_settings) smap \<Rightarrow> bool" where
  "groups_known gs wt \<longleftrightarrow>
     (\<forall>e\<in>set wt. st_is_watching (snd e) \<longrightarrow> fst (get_fields_from_group (fst (fst e)) (snd (fst e)) gs) = RDC_ST_OK)"

definition watch_inv :: "u32 list \<Rightarrow> group_settings \<Rightarrow> watch_core \<Rightarrow> bool" where
  "watch_inv ids gs c \<longleftrightarrow> map_wf (wt_watch_table c) \<and> map_wf (wt_fields c)
     \<and> groups_known gs (wt_watch_table c) \<and> tracks ids gs c"

lemma finite_watch_freqs [simp]: "finite (watch_freqs gs wt fk)"
  by (simp add: watch_freqs_def)

lemma spec_freq_insert: "finite A \<Longrightarrow>
    spec_freq (insert x A) = (case spec_freq A of None \<Rightarrow> Some x | Some y \<Rightarrow> Some (min y x))"
  by (simp add: spec_freq_def min.commute)

subsection \<open>Watching keeps it\<close>

lemma set_map_insert: "map_wf m \<Longrightarrow> map_of m k = None \<Longrightarrow> set (map_insert k v m) = insert (k, v) (set m)"
proof -
  assume wf: "map_wf m" and k: "map_of m k = None"
  have "x \<in> set (map_insert k v m) \<longleftrightarrow> x \<in> insert (k, v) (set m)" for x
    using k map_of_Some_iff [OF wf, of "fst x" "snd x"]
      map_of_Some_iff [OF map_wf_map_insert [OF wf], of k v "fst x" "snd x"]
    by (cases x) (auto simp: map_of_map_insert split: if_splits)
  then show ?thesis by blast
qed

lemma field_freq_watch:
  "st_is_watching f \<Longrightarrow> field_freq (watch_field f k m) fk =
     (if fk = k then (case field_freq m k of None \<Rightarrow> Some (st_update_freq f) | Some y \<Rightarrow> Some (min y (st_update_freq f)))
      else field_freq m fk)"
  by (auto simp: field_freq_def watch_field_def merge_settings_def map_of_map_insert Let_def split: option.splits)

lemma map_wf_watch_field [simp]: "map_wf m \<Longrightarrow> map_wf (watch_field f k m)"
  by (simp add: watch_field_def split: option.split)

lemma fold_watch_field:
  assumes "st_is_watching f"
  shows "field_freq (fold (watch_field f) fks m) fk =
     (if fk \<in> set fks then (case field_freq m fk of None \<Rightarrow> Some (st_update_freq f) | Some y \<Rightarrow> Some (min y (st_update_freq f)))
      else field_freq m fk)"
  by (induction fks arbitrary: m) (auto simp: field_freq_watch [OF assms] split: option.splits)

lemma map_wf_fold_watch: "map_wf m \<Longrightarrow> map_wf (fold (watch_field f) fks m)"
  by (induction fks arbitrary: m) auto

lemma watch_freqs_erase:
  assumes "\<And>s. (k, s) \<in> set wt \<Longrightarrow> \<not> st_is_watching s"
  shows "watch_freqs gs (map_erase k wt) = watch_freqs gs wt"
  using assms by (fastforce simp: watch_freqs_def map_erase_def fun_eq_iff image_iff)

lemma watch_inv_erase:
  assumes "watch_inv ids gs c" and "\<And>s. (k, s) \<in> set (wt_watch_table c) \<Longrightarrow> \<not> st_is_watching s"
  shows "watch_inv ids gs (c\<lparr>wt_watch_table := map_erase k (wt_watch_table c)\<rparr>)"
  using assms watch_freqs_erase [of k "wt_watch_table c" gs]
  by (auto simp: watch_inv_def groups_known_def tracks_def) (auto simp: map_erase_def)

lemma watch_inv_insert:
  assumes inv: "watch_inv ids gs c" and k: "map_of (wt_watch_table c) k = None" and f: "st_is_watching f"
    and g: "get_fields_from_group (fst k) (snd k) gs = (RDC_ST_OK, fks)"
  shows "watch_inv ids gs (c\<lparr>wt_watch_table := map_insert k f (wt_watch_table c),
    wt_fields := fold (watch_field f) (filter (\<lambda>fk. snd fk \<in> set ids) fks) (wt_fields c)\<rparr>)"
proof -
  let ?wt = "wt_watch_table c"
  have wf: "map_wf ?wt" using inv by (simp add: watch_inv_def)
  have s: "set (map_insert k f ?wt) = insert (k, f) (set ?wt)" by (rule set_map_insert [OF wf k])
  have w: "watch_freqs gs (map_insert k f ?wt) fk =
      (if fk \<in> set fks then insert (st_update_freq f) (watch_freqs gs ?wt fk) else watch_freqs gs ?wt fk)" for fk
  proof -
    have "{e \<in> set (map_insert k f ?wt). st_is_watching (snd e) \<and> fk \<in> set (group_fields gs (fst e))}
        = (if fk \<in> set fks then insert (k, f) else id) {e \<in> set ?wt. st_is_watching (snd e) \<and> fk \<in> set (group_fields gs (fst e))}"
      using f g by (auto simp: s)
    then show ?thesis by (simp add: watch_freqs_def)
  qed
  have "tracks ids gs (c\<lparr>wt_watch_table := map_insert k f ?wt,
      wt_fields := fold (watch_field f) (filter (\<lambda>fk. snd fk \<in> set ids) fks) (wt_fields c)\<rparr>)"
    using inv by (simp add: tracks_def watch_inv_def fold_watch_field [OF f] w spec_freq_insert split: option.split)
  with inv f g s show ?thesis by (auto simp: watch_inv_def map_wf_fold_watch groups_known_def)
qed

subsection \<open>Unwatching keeps it\<close>

lemma fold_add_frequency:
  "map_of (fold (add_frequency x) fks m) fk =
     (if fk \<in> set fks then (case map_of m fk of None \<Rightarrow> Some x | Some y \<Rightarrow> Some (min y x)) else map_of m fk)"
  by (induction fks arbitrary: m)
    (auto simp: add_frequency_def map_of_map_insert min.assoc split: option.splits)

text \<open>Joining the frequencies found so far with those of the rest of the table.\<close>

definition join_freq :: "u64 option \<Rightarrow> u64 set \<Rightarrow> u64 option" where
  "join_freq r A = (case r of None \<Rightarrow> spec_freq A | Some y \<Rightarrow> Some (Min (insert y A)))"

lemma join_freq_step: "finite A \<Longrightarrow>
    join_freq (case r of None \<Rightarrow> Some x | Some y \<Rightarrow> Some (min y x)) A = join_freq r (insert x A)"
  by (cases r; cases "A = {}") (simp_all add: join_freq_def spec_freq_def ac_simps)

lemma update_frequencies_spec:
  assumes "groups_known gs wt"
  shows "\<exists>m'. update_frequencies gs wt m = (RDC_ST_OK, m') \<and> (\<forall>fk. map_of m' fk = join_freq (map_of m fk) (watch_freqs gs wt fk))"
  using assms
proof (induction wt arbitrary: m)
  case Nil
  then show ?case by (simp add: join_freq_def watch_freqs_def spec_freq_def split: option.split)
next
  case (Cons e wt)
  obtain k s where e: "e = (k, s)" by (cases e)
  from Cons.prems have k: "groups_known gs wt" by (simp add: groups_known_def)
  show ?case
  proof (cases "st_is_watching s")
    case False
    moreover from False have "watch_freqs gs (e # wt) = watch_freqs gs wt" by (auto simp: watch_freqs_def e fun_eq_iff)
    ultimately show ?thesis using Cons.IH [OF k] by (simp add: e)
  next
    case True
    with Cons.prems e obtain fks where g: "get_fields_from_group (fst k) (snd k) gs = (RDC_ST_OK, fks)"
      by (cases "get_fields_from_group (fst k) (snd k) gs") (auto simp: groups_known_def)
    have w: "watch_freqs gs (e # wt) fk =
        (if fk \<in> set fks then insert (st_update_freq s) (watch_freqs gs wt fk) else watch_freqs gs wt fk)" for fk
    proof -
      have "{x \<in> set (e # wt). st_is_watching (snd x) \<and> fk \<in> set (group_fields gs (fst x))}
          = (if fk \<in> set fks then insert e else id) {x \<in> set wt. st_is_watching (snd x) \<and> fk \<in> set (group_fields gs (fst x))}"
        using True g by (auto simp: e)
      then show ?thesis by (simp add: watch_freqs_def e)
    qed
    from Cons.IH [OF k, of "fold (add_frequency (st_update_freq s)) fks m"] True g w show ?thesis
      by (auto simp: e fold_add_frequency join_freq_step)
  qed
qed

text \<open>The effect of one round of the loop on the field table.\<close>

definition unwatch_field :: "(field_key, u64) smap \<Rightarrow> field_key \<Rightarrow> (field_key, field_settings) smap \<Rightarrow> (field_key, field_settings) smap" where
  "unwatch_field freqs k m =
     (if is_notification_event (snd k) then m
      else map_modify k (\<lambda>s. case map_of freqs k of None \<Rightarrow> s\<lparr>st_is_watching := False\<rparr> | Some x \<Rightarrow> s\<lparr>st_update_freq := x\<rparr>) m)"

lemma map_modify_missing: "map_of m k = None \<Longrightarrow> map_modify k f m = m"
  by (induction m) (auto simp: map_modify_def split: if_splits)

lemma unwatch_loop_Cons:
  "\<exists>masks' un'. unwatch_loop smi freqs (k # ks) (masks, m, un) = unwatch_loop smi freqs ks (masks', unwatch_field freqs k m, un')"
  by (auto simp: unwatch_field_def map_modify_missing split: option.split)

lemma unwatch_loop_fields:
  "\<exists>masks' un'. unwatch_loop smi freqs ks (masks, m, un) = (masks', fold (unwatch_field freqs) ks m, un')"
proof (induction ks arbitrary: masks m un)
  case (Cons k ks)
  from unwatch_loop_Cons obtain masks' un' where
    "unwatch_loop smi freqs (k # ks) (masks, m, un) = unwatch_loop smi freqs ks (masks', unwatch_field freqs k m, un')" by blast
  with Cons.IH [of masks' "unwatch_field freqs k m" un'] show ?case by simp
qed simp

lemma map_wf_unwatch_field [simp]: "map_wf (unwatch_field freqs k m) = map_wf m"
  by (simp add: unwatch_field_def)

lemma map_wf_fold_unwatch: "map_wf (fold (unwatch_field freqs) ks m) = map_wf m"
  by (induction ks arbitrary: m) simp_all

lemma field_freq_unwatch:
  "\<not> is_notification_event (snd fk) \<Longrightarrow> field_freq (unwatch_field freqs k m) fk =
     (if fk = k \<and> field_freq m fk \<noteq> None then map_of freqs fk else field_freq m fk)"
  by (auto simp: field_freq_def unwatch_field_def split: option.splits)

lemma fold_unwatch_freq:
  "\<not> is_notification_event (snd fk) \<Longrightarrow> field_freq (fold (unwatch_field freqs) ks m) fk =
     (if fk \<in> set ks \<and> field_freq m fk \<noteq> None then map_of freqs fk else field_freq m fk)"
  by (induction ks arbitrary: m) (auto simp: field_freq_unwatch)

text \<open>Turning one entry off and recomputing its fields.\<close>

lemma set_map_modify: "map_wf m \<Longrightarrow> set (map_modify k f m) = (\<lambda>e. if fst e = k then (k, f (snd e)) else e) ` set m"
  by (auto simp: map_modify_def)

lemma watch_freqs_off:
  assumes "map_wf wt" and "\<And>s. \<not> st_is_watching (f s)"
  shows "watch_freqs gs (map_modify k f wt) fk = watch_freqs gs (map_erase k wt) fk"
proof -
  have "{e \<in> set (map_modify k f wt). st_is_watching (snd e) \<and> fk \<in> set (group_fields gs (fst e))}
      = {e \<in> set (map_erase k wt). st_is_watching (snd e) \<and> fk \<in> set (group_fields gs (fst e))}"
    using assms by (auto simp: set_map_modify map_erase_def split: if_splits)
  then show ?thesis by (simp add: watch_freqs_def)
qed

lemma watch_freqs_other:
  "fk \<notin> set (group_fields gs k) \<Longrightarrow> watch_freqs gs (map_erase k wt) fk = watch_freqs gs wt fk"
  by (auto simp: watch_freqs_def map_erase_def intro!: image_cong)

lemma watch_inv_unwatch:
  assumes inv: "watch_inv ids gs c" and no: "\<forall>f\<in>set ids. \<not> is_notification_event f"
    and off: "\<And>s. \<not> st_is_watching (f s)"
    and fr: "\<And>fk. map_of freqs fk = spec_freq (watch_freqs gs (map_modify k f (wt_watch_table c)) fk)"
    and fks: "fks = group_fields gs k"
  shows "watch_inv ids gs (c\<lparr>wt_watch_table := map_modify k f (wt_watch_table c),
    wt_fields := fold (unwatch_field freqs) fks (wt_fields c)\<rparr>)"
proof -
  let ?wt = "wt_watch_table c"
  have wf: "map_wf ?wt" using inv by (simp add: watch_inv_def)
  have w: "watch_freqs gs (map_modify k f ?wt) fk = watch_freqs gs (map_erase k ?wt) fk" for fk
    by (rule watch_freqs_off [OF wf off])
  have sub: "watch_freqs gs (map_erase k ?wt) fk \<subseteq> watch_freqs gs ?wt fk" for fk
    by (auto simp: watch_freqs_def map_erase_def)
  have "field_freq (fold (unwatch_field freqs) fks (wt_fields c)) fk = spec_freq (watch_freqs gs (map_modify k f ?wt) fk)"
    if "snd fk \<in> set ids" for fk
  proof -
    have old: "field_freq (wt_fields c) fk = spec_freq (watch_freqs gs ?wt fk)" using inv that by (simp add: watch_inv_def tracks_def del: split_paired_All)
    show ?thesis
    proof (cases "fk \<in> set fks")
      case True
      then show ?thesis using fr no that old sub [of fk] by (auto simp: fold_unwatch_freq w spec_freq_def)
    next
      case False
      then have "watch_freqs gs (map_erase k ?wt) fk = watch_freqs gs ?wt fk" using fks by (intro watch_freqs_other) simp
      with False no that old show ?thesis by (simp add: fold_unwatch_freq w)
    qed
  qed
  with inv off wf show ?thesis
    by (auto simp: watch_inv_def tracks_def map_wf_fold_unwatch groups_known_def set_map_modify split: if_splits)
qed

subsection \<open>Values and the clean-up keep it\<close>

lemma watch_inv_frame:
  assumes "watch_inv ids gs c" and "wt_watch_table c' = wt_watch_table c"
    and "field_freq (wt_fields c') = field_freq (wt_fields c)" and "map_wf (wt_fields c')"
  shows "watch_inv ids gs c'"
  using assms by (simp add: watch_inv_def tracks_def)

lemma field_freq_touch: "field_freq (map_modify k (\<lambda>s. s\<lparr>st_last_update_time := ts\<rparr>) m) = field_freq m"
  by (auto simp: field_freq_def fun_eq_iff split: option.split)

lemma store_value_simps [simp]:
  "wt_watch_table (store_value ts g v c) = wt_watch_table c"
  "wt_job_table (store_value ts g v c) = wt_job_table c"
  "wt_last_cleanup (store_value ts g v c) = wt_last_cleanup c"
  "wt_fields (store_value ts g v c) =
     map_modify (g, fv_field_id v) (\<lambda>s. s\<lparr>st_last_update_time := ts\<rparr>) (wt_fields c)"
  by (simp_all add: store_value_def Let_def)

lemma watch_inv_store: "watch_inv ids gs c \<Longrightarrow> watch_inv ids gs (store_value ts g v c)"
  by (rule watch_inv_frame) (simp_all add: field_freq_touch, simp add: watch_inv_def)

lemma fold_keeps: "(\<And>x c. P c \<Longrightarrow> P (f x c)) \<Longrightarrow> P c \<Longrightarrow> P (fold f xs c)"
  by (induction xs arbitrary: c) auto

lemma watch_inv_handle_fields: "watch_inv ids gs c \<Longrightarrow> watch_inv ids gs (snd (handle_fields now vs c))"
  by (simp add: handle_fields_def watch_inv_store fold_keeps [where P = "watch_inv ids gs"] split: option.split)

lemma watch_inv_notif: "watch_inv ids gs c \<Longrightarrow> watch_inv ids gs (snd (rdc_notif_update_cache es c))"
  by (simp add: rdc_notif_update_cache_def watch_inv_store fold_keeps [where P = "watch_inv ids gs"] split: option.split)

lemma field_freq_clean: "map_wf m \<Longrightarrow> field_freq (filter (\<lambda>e. \<not> is_expired now (snd e)) m) = field_freq m"
  by (auto simp: field_freq_def map_of_filter is_expired_def fun_eq_iff split: option.splits)

lemma watch_freqs_clean: "watch_freqs gs (filter (\<lambda>e. \<not> is_expired now (snd e)) wt) = watch_freqs gs wt"
  by (auto simp: watch_freqs_def is_expired_def fun_eq_iff intro!: image_cong)

lemma watch_inv_clean_up: "watch_inv ids gs c \<Longrightarrow> clean_up now c = Some c' \<Longrightarrow> watch_inv ids gs c'"
  by (auto simp: clean_up_def watch_inv_def tracks_def field_freq_clean watch_freqs_clean groups_known_def)

lemma watch_inv_set [simp]:
  "watch_inv ids gs (c\<lparr>wt_last_cleanup := t\<rparr>) = watch_inv ids gs c"
  "watch_inv ids gs (c\<lparr>wt_cache := x\<rparr>) = watch_inv ids gs c"
  "watch_inv ids gs (c\<lparr>wt_job_table := y\<rparr>) = watch_inv ids gs c"
  by (simp_all add: watch_inv_def tracks_def)

subsection \<open>Every operation keeps it\<close>

definition module_ok :: "'s watch_state \<Rightarrow> bool" where
  "module_ok w \<longleftrightarrow> (\<forall>tm. ww_module w = Some tm \<longrightarrow> tm_modules tm = ww_modules w)"

definition watch_state_inv :: "u32 list \<Rightarrow> group_settings \<Rightarrow> nat list \<Rightarrow> 's watch_state \<Rightarrow> bool" where
  "watch_state_inv ids gs mods w \<longleftrightarrow>
     watch_inv ids gs (ww_core w) \<and> ww_groups w = gs \<and> ww_modules w = mods \<and> module_ok w"

text \<open>The libraries of a call: they support the fields \<open>ids\<close> and keep their contract.\<close>

definition libs_ok :: "u32 list \<Rightarrow> nat list \<Rightarrow> 's watch_env \<Rightarrow> bool" where
  "libs_ok ids mods e \<longleftrightarrow> (\<forall>s. query_modules (we_libs e) s mods [] = ids)
     \<and> (\<forall>a. callback_only (rdc_telemetry_fields_value_get (we_libs e a)))"

lemma get_telemetry_module_ok:
  assumes "module_ok w" and "get_telemetry_module e w = (tm, w')"
  shows "tm_modules tm = ww_modules w \<and> w' = w\<lparr>ww_module := Some tm\<rparr>"
  using assms by (auto simp: get_telemetry_module_def module_ok_def new_telemetry_module_def Let_def split: option.splits)

lemma rdc_field_watch_inv:
  assumes inv: "watch_state_inv ids gs mods w" and e: "libs_ok ids mods e"
    and r: "rdc_field_watch e gid fgid freq age n w = Some (st, w')"
  shows "watch_state_inv ids gs mods w'"
proof -
  let ?k = "(gid, fgid)" and ?c = "ww_core w"
  show ?thesis
  proof (cases "case map_of (wt_watch_table ?c) ?k of Some s \<Rightarrow> st_is_watching s | None \<Rightarrow> False")
    case True
    with r inv show ?thesis by (simp add: rdc_field_watch_def Let_def)
  next
    case off: False
    let ?c1 = "?c\<lparr>wt_watch_table := map_erase ?k (wt_watch_table ?c)\<rparr>"
    let ?f = "\<lparr>st_update_freq = freq, st_max_keep_samples = n, st_max_keep_age = age, st_is_watching = True, st_last_update_time = 0\<rparr>"
    have wi: "watch_inv ids gs ?c" and gs: "ww_groups w = gs" and md: "ww_modules w = mods" and mo: "module_ok w"
      using inv by (simp_all add: watch_state_inv_def)
    have c1: "watch_inv ids gs ?c1"
      using off wi by (intro watch_inv_erase) (auto simp: watch_inv_def map_of_Some_iff [symmetric])
    obtain st1 fks where g: "get_fields_from_group gid fgid gs = (st1, fks)" by (cases "get_fields_from_group gid fgid gs")
    show ?thesis
    proof (cases "st1 = RDC_ST_OK")
      case False
      with r off g gs md mo c1 show ?thesis
        by (auto simp: rdc_field_watch_def Let_def watch_state_inv_def module_ok_def)
    next
      case True
      obtain x masks caps where sl: "set_listen_events (we_smi e) (we_libcap e) fks (ww_masks w, ww_caps w) = (x, masks, caps)"
        by (metis prod_cases3)
      let ?w1 = "w\<lparr>ww_core := ?c1, ww_masks := masks, ww_caps := caps\<rparr>"
      obtain tm w2 where tm: "get_telemetry_module e ?w1 = (tm, w2)" by (cases "get_telemetry_module e ?w1")
      have "module_ok ?w1" using mo by (simp add: module_ok_def)
      from get_telemetry_module_ok [OF this tm] have m: "tm_modules tm = mods" and w2: "w2 = ?w1\<lparr>ww_module := Some tm\<rparr>"
        using md by simp_all
      have q: "snd (module_fields_query (we_libs e) tm (ww_tel w2, ww_caps w2)) = ids"
        using e m by (simp add: module_fields_query_def libs_ok_def)
      let ?flds = "fold (watch_field ?f) (filter (\<lambda>fk. snd fk \<in> set ids) fks) (wt_fields ?c)"
      let ?c2 = "?c\<lparr>wt_watch_table := map_insert ?k ?f (map_erase ?k (wt_watch_table ?c)), wt_fields := ?flds\<rparr>"
      from r off g gs True sl tm q obtain tm' tel caps' st2 where
        mw: "module_fields_watch (we_libs e) (vec_ptr (watched_keys ?flds)) (tm, ww_tel w2, ww_caps w2) = Some (st2, tm', tel, caps')"
        and w': "w' = w2\<lparr>ww_core := ?c2, ww_module := Some tm', ww_tel := tel, ww_caps := caps'\<rparr>"
        by (auto simp: rdc_field_watch_def Let_def split: if_splits)
      have "watch_inv ids gs ?c2" using watch_inv_insert [OF c1, of ?k ?f fks] g True by simp
      moreover have "tm_modules tm' = mods" using module_dispatch_modules mw m by (metis module_fields_watch_def)
      ultimately show ?thesis using w' w2 gs md by (simp add: watch_state_inv_def module_ok_def)
    qed
  qed
qed

lemma rdc_field_unwatch_inv:
  assumes inv: "watch_state_inv ids gs mods w" and no: "\<forall>f\<in>set ids. \<not> is_notification_event f"
    and r: "rdc_field_unwatch e gid fgid w = Some (st, w')"
  shows "watch_state_inv ids gs mods w'"
proof (cases "map_of (wt_watch_table (ww_core w)) (gid, fgid)")
  case None
  with r inv show ?thesis by (simp add: rdc_field_unwatch_def Let_def)
next
  case (Some s)
  let ?k = "(gid, fgid)" and ?c = "ww_core w"
  let ?off = "\<lambda>s. s\<lparr>st_is_watching := False, st_last_update_time := we_now e\<rparr>"
  let ?wt = "map_modify ?k ?off (wt_watch_table ?c)"
  have wi: "watch_inv ids gs ?c" and gs: "ww_groups w = gs" and md: "ww_modules w = mods" and mo: "module_ok w"
    using inv by (simp_all add: watch_state_inv_def)
  have known: "groups_known gs ?wt" using wi by (auto simp: watch_inv_def groups_known_def set_map_modify split: if_splits)
  from update_frequencies_spec [OF known, of "[]"] obtain freqs where
    uf: "update_frequencies gs ?wt [] = (RDC_ST_OK, freqs)"
    and fr: "\<And>fk. map_of freqs fk = spec_freq (watch_freqs gs ?wt fk)"
    by (auto simp: join_freq_def simp del: split_paired_All)
  have keep: "watch_inv ids gs (?c\<lparr>wt_watch_table := ?wt, wt_fields := fold (unwatch_field freqs) (group_fields gs ?k) (wt_fields ?c)\<rparr>)"
    by (rule watch_inv_unwatch [OF wi no _ fr refl]) simp
  have keep0: "fks = [] \<Longrightarrow> watch_inv ids gs (?c\<lparr>wt_watch_table := ?wt\<rparr>)" if "group_fields gs ?k = fks" for fks
    using keep that by (cases ?c) simp
  obtain st1 fks where g: "get_fields_from_group gid fgid gs = (st1, fks)" by (cases "get_fields_from_group gid fgid gs")
  show ?thesis
  proof (cases "st1 = RDC_ST_OK")
    case False
    then have "fks = []" using g by (auto simp: get_fields_from_group_def rdc_group_gpu_get_info_def
        rdc_group_field_get_info_def split: option.splits)
    with keep0 g have "watch_inv ids gs (?c\<lparr>wt_watch_table := ?wt\<rparr>)" by simp
    with r Some False g gs md mo show ?thesis
      by (auto simp: rdc_field_unwatch_def update_field_in_table_when_unwatch_def Let_def watch_state_inv_def module_ok_def)
  next
    case True
    obtain masks un where ul: "unwatch_loop (we_smi e) freqs fks (ww_masks w, wt_fields ?c, [])
        = (masks, fold (unwatch_field freqs) fks (wt_fields ?c), un)"
      using unwatch_loop_fields by blast
    let ?c2 = "?c\<lparr>wt_watch_table := ?wt, wt_fields := fold (unwatch_field freqs) fks (wt_fields ?c)\<rparr>"
    let ?w1 = "w\<lparr>ww_core := ?c2, ww_masks := masks\<rparr>"
    obtain tm w2 where tm: "get_telemetry_module e ?w1 = (tm, w2)" by (cases "get_telemetry_module e ?w1")
    have "module_ok ?w1" using mo by (simp add: module_ok_def)
    from get_telemetry_module_ok [OF this tm] have m: "tm_modules tm = mods" and w2: "w2 = ?w1\<lparr>ww_module := Some tm\<rparr>"
      using md by simp_all
    from r Some g gs True uf ul tm obtain tm' tel caps' st2 where
      mw: "module_fields_unwatch (we_libs e) (vec_ptr un) (tm, ww_tel w2, ww_caps w2) = Some (st2, tm', tel, caps')"
      and w': "w' = w2\<lparr>ww_module := Some tm', ww_tel := tel, ww_caps := caps'\<rparr>"
      by (auto simp: rdc_field_unwatch_def update_field_in_table_when_unwatch_def Let_def)
    have "tm_modules tm' = mods" using module_dispatch_modules mw m by (metis module_fields_unwatch_def)
    with keep g True w' w2 gs md show ?thesis by (simp add: watch_state_inv_def module_ok_def)
  qed
qed

lemma fetch_due_inv:
  assumes inv: "watch_state_inv ids gs mods w" and e: "libs_ok ids mods e" and r: "fetch_due e w = Some w'"
  shows "watch_state_inv ids gs mods w'"
proof -
  let ?due = "map fst (filter (\<lambda>en. is_due (we_now e) (snd en)) (wt_fields (ww_core w)))"
  show ?thesis
  proof (cases "?due = []")
    case True
    with r inv show ?thesis by (simp add: fetch_due_def)
  next
    case False
    obtain tm w1 where tm: "get_telemetry_module e w = (tm, w1)" by (cases "get_telemetry_module e w")
    have "module_ok w" using inv by (simp add: watch_state_inv_def)
    from get_telemetry_module_ok [OF this tm] have m: "tm_modules tm = ww_modules w" and w1: "w1 = w\<lparr>ww_module := Some tm\<rparr>" by auto
    from r False tm obtain tm' tel c' st where
      v: "module_fields_value_get (we_libs e) (Some ?due) (handle_fields (we_now e)) (tm, (ww_tel w1, ww_caps w1), ww_core w1)
          = Some (st, tm', tel, c')"
      and w': "w' = w1\<lparr>ww_core := c', ww_module := Some tm', ww_tel := fst tel, ww_caps := snd tel\<rparr>"
      by (auto simp: fetch_due_def Let_def)
    have cbo: "callback_only (rdc_telemetry_fields_value_get (we_libs e a))" for a using e by (simp add: libs_ok_def)
    have "watch_inv ids gs (ww_core w1)" using inv w1 by (simp add: watch_state_inv_def)
    from module_value_get_keeps [where P = "watch_inv ids gs", OF cbo watch_inv_handle_fields v this]
    have "watch_inv ids gs c'" "tm_modules tm' = tm_modules tm" by auto
    with inv w' w1 m show ?thesis by (simp add: watch_state_inv_def module_ok_def)
  qed
qed

lemma rdc_field_update_all_inv:
  assumes inv: "watch_state_inv ids gs mods w" and e: "libs_ok ids mods e"
    and r: "rdc_field_update_all e w = Some (st, w')"
  shows "watch_state_inv ids gs mods w'"
proof -
  from r obtain w1 where f: "fetch_due e w = Some w1" by (auto simp: rdc_field_update_all_def bind_eq_Some_conv)
  note i1 = fetch_due_inv [OF inv e f]
  with r f show ?thesis
    by (auto simp: rdc_field_update_all_def watch_state_inv_def module_ok_def watch_inv_clean_up split: if_splits)
qed

lemma rdc_field_listen_notif_inv:
  assumes inv: "watch_state_inv ids gs mods w" and r: "rdc_field_listen_notif e t w = Some (st, w')"
  shows "watch_state_inv ids gs mods w'"
proof -
  from r consider "w' = w" | es where "w' = w\<lparr>ww_core := snd (rdc_notif_update_cache (Some es) (ww_core w))\<rparr>"
    by (auto simp: rdc_field_listen_notif_def case_prod_unfold split: if_splits)
  then show ?thesis
    by cases (use inv watch_inv_notif in \<open>auto simp: watch_state_inv_def module_ok_def\<close>)
qed

lemma watch_state_inv_core:
  "watch_state_inv ids gs mods (w\<lparr>ww_core := c\<rparr>) \<longleftrightarrow>
     watch_inv ids gs c \<and> ww_groups w = gs \<and> ww_modules w = mods \<and> module_ok w"
  by (simp add: watch_state_inv_def module_ok_def)

lemma get_fields_OK_iff:
  "get_fields_from_group gid fgid gs = (RDC_ST_OK, fks) \<longleftrightarrow>
     (\<exists>gi fi. rdc_group_gpu_get_info gid gs = (RDC_ST_OK, Some gi) \<and> rdc_group_field_get_info fgid gs = (RDC_ST_OK, Some fi)
        \<and> fks = concat (map (\<lambda>g. map (Pair g) (field_ids fi)) (entity_ids gi)))"
  by (auto simp: get_fields_from_group_def rdc_group_gpu_get_info_def rdc_group_field_get_info_def split: option.split)

lemma job_start_fst [simp]: "fst (rdc_job_start_stats j gi fi gg t c) = RDC_ST_OK"
  by (simp add: rdc_job_start_stats_def Let_def)

text \<open>The state in which a new job asks for its watch.\<close>

definition job_started_core :: "'s watch_env \<Rightarrow> u32 \<Rightarrow> string \<Rightarrow> gauges \<Rightarrow> field_key list \<Rightarrow> rdc_group_info \<Rightarrow> rdc_field_group_info \<Rightarrow> watch_core \<Rightarrow> watch_core" where
  "job_started_core e gid j gg fks gi fi c =
     c\<lparr>wt_job_table := map_insert j \<lparr>jw_group_id = gid, jw_fields = fks\<rparr> (wt_job_table c),
       wt_cache := snd (rdc_job_start_stats j gi fi gg (we_now_s e) (wt_cache c))\<rparr>"

lemma rdc_watch_job_start_new:
  assumes "map_of (wt_job_table (ww_core w)) j = None"
    and "rdc_group_gpu_get_info gid (ww_groups w) = (RDC_ST_OK, Some gi)"
    and "rdc_group_field_get_info JOB_FIELD_ID (ww_groups w) = (RDC_ST_OK, Some fi)"
    and "fks = concat (map (\<lambda>g. map (Pair g) (field_ids fi)) (entity_ids gi))" and "fks \<noteq> []"
  shows "rdc_watch_job_start e gid j freq gg w =
    rdc_field_watch e gid JOB_FIELD_ID freq 0 0 (w\<lparr>ww_core := job_started_core e gid j gg fks gi fi (ww_core w)\<rparr>)"
proof -
  have "get_fields_from_group gid JOB_FIELD_ID (ww_groups w) = (RDC_ST_OK, fks)" using assms by (auto simp: get_fields_OK_iff)
  with assms(1-3,5) show ?thesis
    by (simp add: rdc_watch_job_start_def Let_def case_prod_unfold job_started_core_def)
qed

lemma rdc_watch_job_start_inv:
  assumes inv: "watch_state_inv ids gs mods w" and e: "libs_ok ids mods e"
    and r: "rdc_watch_job_start e gid j freq gg w = Some (st, w')"
  shows "watch_state_inv ids gs mods w'"
proof (cases "map_of (wt_job_table (ww_core w)) j = None \<and> fst (get_fields_from_group gid JOB_FIELD_ID (ww_groups w)) = RDC_ST_OK
    \<and> group_fields (ww_groups w) (gid, JOB_FIELD_ID) \<noteq> []")
  case False
  then have "w' = w" using r
    by (cases "get_fields_from_group gid JOB_FIELD_ID (ww_groups w)") (auto simp: rdc_watch_job_start_def Let_def split: if_splits)
  with inv show ?thesis by simp
next
  case True
  then obtain fks where "get_fields_from_group gid JOB_FIELD_ID (ww_groups w) = (RDC_ST_OK, fks)" and ne: "fks \<noteq> []"
    by (cases "get_fields_from_group gid JOB_FIELD_ID (ww_groups w)") simp
  then obtain gi fi where i: "rdc_group_gpu_get_info gid (ww_groups w) = (RDC_ST_OK, Some gi)"
    "rdc_group_field_get_info JOB_FIELD_ID (ww_groups w) = (RDC_ST_OK, Some fi)"
    "fks = concat (map (\<lambda>g. map (Pair g) (field_ids fi)) (entity_ids gi))"
    unfolding get_fields_OK_iff by blast
  let ?w = "w\<lparr>ww_core := job_started_core e gid j gg fks gi fi (ww_core w)\<rparr>"
  have iw: "watch_state_inv ids gs mods ?w" using inv by (simp add: watch_state_inv_core job_started_core_def) (simp add: watch_state_inv_def)
  have "rdc_watch_job_start e gid j freq gg w = rdc_field_watch e gid JOB_FIELD_ID freq 0 0 ?w"
    by (rule rdc_watch_job_start_new [OF _ i ne]) (use True in simp)
  with r have "rdc_field_watch e gid JOB_FIELD_ID freq 0 0 ?w = Some (st, w')" by simp
  then show ?thesis by (rule rdc_field_watch_inv [OF iw e])
qed

lemma rdc_watch_job_stop_inv:
  assumes inv: "watch_state_inv ids gs mods w" and no: "\<forall>f\<in>set ids. \<not> is_notification_event f"
    and r: "rdc_watch_job_stop e j gg w = Some (st, w')"
  shows "watch_state_inv ids gs mods w'"
proof (cases "map_of (wt_job_table (ww_core w)) j")
  case None
  with r inv show ?thesis by (simp add: rdc_watch_job_stop_def)
next
  case (Some job)
  with r obtain st1 w1 where u: "rdc_field_unwatch e (jw_group_id job) JOB_FIELD_ID w = Some (st1, w1)"
    by (auto simp: rdc_watch_job_stop_def split: option.splits)
  from rdc_field_unwatch_inv [OF inv no u] r Some u show ?thesis
    by (auto simp: rdc_watch_job_stop_def Let_def watch_state_inv_def module_ok_def split: if_splits prod.splits)
qed

lemma rdc_watch_job_remove_inv:
  assumes "watch_state_inv ids gs mods w" and "\<forall>f\<in>set ids. \<not> is_notification_event f"
    and "rdc_watch_job_remove e j w = Some (st, w')"
  shows "watch_state_inv ids gs mods w'"
proof -
  from assms(3) obtain st1 w1 cache where "rdc_watch_job_stop e j [] w = Some (st1, w1)"
    and w': "w' = w1\<lparr>ww_core := (ww_core w1)\<lparr>wt_cache := cache\<rparr>\<rparr>"
    by (auto simp: rdc_watch_job_remove_def split: option.splits prod.splits)
  from rdc_watch_job_stop_inv [OF assms(1,2) this(1)] w' show ?thesis by (auto simp: watch_state_inv_def module_ok_def)
qed

lemma stop_jobs_inv:
  "watch_state_inv ids gs mods w \<Longrightarrow> \<forall>f\<in>set ids. \<not> is_notification_event f \<Longrightarrow>
   stop_jobs e js w = Some w' \<Longrightarrow> watch_state_inv ids gs mods w'"
  by (induction js arbitrary: w) (auto split: option.splits dest: rdc_watch_job_stop_inv)

lemma rdc_watch_job_remove_all_inv:
  assumes "watch_state_inv ids gs mods w" and "\<forall>f\<in>set ids. \<not> is_notification_event f"
    and "rdc_watch_job_remove_all e w = Some (st, w')"
  shows "watch_state_inv ids gs mods w'"
proof -
  from assms(3) obtain w1 where "stop_jobs e (map_keys (wt_job_table (ww_core w))) w = Some w1"
    and w': "w' = w1\<lparr>ww_core := (ww_core w1)\<lparr>wt_cache := snd (rdc_job_remove_all (wt_cache (ww_core w1)))\<rparr>\<rparr>"
    by (auto simp: rdc_watch_job_remove_all_def case_prod_unfold)
  from stop_jobs_inv [OF assms(1,2) this(1)] w' show ?thesis by (simp add: watch_state_inv_def module_ok_def)
qed

text \<open>
  One call of the watch table, with any arguments, any answers of the platform and any clock; the
  libraries support the fields \<open>ids\<close> and keep their contract.
\<close>

inductive watch_step :: "u32 list \<Rightarrow> 's watch_state \<Rightarrow> 's watch_state \<Rightarrow> bool" for ids where
  watch: "libs_ok ids (ww_modules w) e \<Longrightarrow> rdc_field_watch e gid fgid freq age n w = Some (st, w') \<Longrightarrow> watch_step ids w w'"
| unwatch: "libs_ok ids (ww_modules w) e \<Longrightarrow> rdc_field_unwatch e gid fgid w = Some (st, w') \<Longrightarrow> watch_step ids w w'"
| update: "libs_ok ids (ww_modules w) e \<Longrightarrow> rdc_field_update_all e w = Some (st, w') \<Longrightarrow> watch_step ids w w'"
| notif: "rdc_field_listen_notif e t w = Some (st, w') \<Longrightarrow> watch_step ids w w'"
| job_start: "libs_ok ids (ww_modules w) e \<Longrightarrow> rdc_watch_job_start e gid j freq gg w = Some (st, w') \<Longrightarrow> watch_step ids w w'"
| job_stop: "libs_ok ids (ww_modules w) e \<Longrightarrow> rdc_watch_job_stop e j gg w = Some (st, w') \<Longrightarrow> watch_step ids w w'"
| job_remove: "libs_ok ids (ww_modules w) e \<Longrightarrow> rdc_watch_job_remove e j w = Some (st, w') \<Longrightarrow> watch_step ids w w'"
| job_remove_all: "libs_ok ids (ww_modules w) e \<Longrightarrow> rdc_watch_job_remove_all e w = Some (st, w') \<Longrightarrow> watch_step ids w w'"

inductive_cases watch_stepE: "watch_step ids w w'"

definition watch_init :: "u32 list \<Rightarrow> group_settings \<Rightarrow> 's watch_state \<Rightarrow> bool" where
  "watch_init ids gs w \<longleftrightarrow> ww_core w = watch_core_init \<and> ww_groups w = gs \<and> ww_module w = None
     \<and> (\<forall>f\<in>set ids. \<not> is_notification_event f)"

definition watch_reach_inv :: "u32 list \<Rightarrow> group_settings \<Rightarrow> 's watch_state \<Rightarrow> bool" where
  "watch_reach_inv ids gs w \<longleftrightarrow> watch_state_inv ids gs (ww_modules w) w \<and> (\<forall>f\<in>set ids. \<not> is_notification_event f)"

lemma watch_core_init_inv: "watch_inv ids gs watch_core_init"
  by (simp add: watch_inv_def watch_core_init_def tracks_def groups_known_def field_freq_def spec_freq_def watch_freqs_def)

lemma watch_step_keeps:
  assumes i: "watch_state_inv ids gs mods w" and no: "\<forall>f\<in>set ids. \<not> is_notification_event f" and s: "watch_step ids w w'"
  shows "watch_state_inv ids gs mods w'"
proof -
  have m: "ww_modules w = mods" using i by (simp add: watch_state_inv_def)
  from s show ?thesis
    by (cases rule: watch_stepE)
      (use i no m in \<open>auto intro: rdc_field_watch_inv rdc_field_unwatch_inv rdc_field_update_all_inv rdc_field_listen_notif_inv
        rdc_watch_job_start_inv rdc_watch_job_stop_inv rdc_watch_job_remove_inv rdc_watch_job_remove_all_inv\<close>)
qed

interpretation watch_sys: invariant_system "watch_init ids gs" "watch_step ids" "watch_reach_inv ids gs" for ids gs
proof
  fix w :: "'s watch_state" assume "watch_init ids gs w"
  then show "watch_reach_inv ids gs w"
    by (simp add: watch_init_def watch_reach_inv_def watch_state_inv_def watch_core_init_inv module_ok_def)
next
  fix w w' :: "'s watch_state" assume "watch_reach_inv ids gs w" and "watch_step ids w w'"
  then have "watch_state_inv ids gs (ww_modules w) w'" by (auto simp: watch_reach_inv_def intro: watch_step_keeps)
  moreover from this have "ww_modules w' = ww_modules w" by (simp add: watch_state_inv_def)
  ultimately show "watch_reach_inv ids gs w'" using \<open>watch_reach_inv ids gs w\<close> by (simp add: watch_reach_inv_def)
qed

text \<open>
  (C3) The field table always tracks the watch table. In every state that any sequence of
  watch, unwatch, update, notification and job calls reaches while the groups stay as they
  are, a field that the libraries support is being watched exactly when some watching
  entry of the watch table contains it, and its update period is then the smallest of those
  entries' periods.
\<close>
theorem field_table_tracks_watch_table:
  assumes "watch_init ids gs w0" and "(watch_step ids)\<^sup>*\<^sup>* w0 w" and "snd fk \<in> set ids"
  shows "field_freq (wt_fields (ww_core w)) fk = spec_freq (watch_freqs gs (wt_watch_table (ww_core w)) fk)"
  using watch_sys.inv_reachable [OF assms(1,2)] assms(3)
  by (simp add: watch_reach_inv_def watch_state_inv_def watch_inv_def tracks_def del: split_paired_All)

subsection \<open>A small system\<close>

text \<open>
  Two GPUs in group 1, a field group 1 with the temperature besides the predefined one, and one
  library that serves the temperature through the SMI library.
\<close>

definition demo_lib :: "(smi_state, watch_core) rdc_telemetry" where
  "demo_lib = \<lparr>rdc_telemetry_fields_query = (\<lambda>_. (RDC_ST_OK, [RDC_FI_GPU_TEMP])),
     rdc_telemetry_fields_watch = smi_fields_watch two_gpu_env, rdc_telemetry_fields_unwatch = smi_fields_unwatch two_gpu_env,
     rdc_telemetry_fields_value_get = smi_fields_value_get two_gpu_env\<rparr>"

definition demo_env :: "u64 \<Rightarrow> metric_fetcher watch_env" where
  "demo_env now = \<lparr>we_smi = two_gpu_smi, we_libcap = quiet_libcap, we_libs = (\<lambda>_. demo_lib), we_now = now, we_now_s = now div 1000\<rparr>"

definition demo_groups :: group_settings where
  "demo_groups = \<lparr>gpu_group = [(1, \<lparr>group_name = ''g'', entity_ids = [0, 1]\<rparr>)],
     field_group = [(0, \<lparr>fgroup_name = ''jobs'', field_ids = [RDC_FI_POWER_USAGE, RDC_FI_GPU_TEMP]\<rparr>),
                    (1, \<lparr>fgroup_name = ''f'', field_ids = [RDC_FI_GPU_TEMP]\<rparr>)],
     cur_group_id = 2, cur_field_group_id = 2\<rparr>"

definition demo_state :: "metric_fetcher watch_state" where
  "demo_state = \<lparr>ww_core = watch_core_init, ww_groups = demo_groups, ww_masks = [], ww_modules = [7], ww_module = None,
     ww_tel = metric_fetcher_init, ww_caps = {}\<rparr>"

lemma demo_libs_ok: "libs_ok [RDC_FI_GPU_TEMP] [7] (demo_env now)"
proof -
  have "callback_only (smi_fields_value_get two_gpu_env)" by (rule smi_source.callback_only_axioms)
  then show ?thesis by (simp add: libs_ok_def demo_env_def demo_lib_def)
qed

lemma demo_not_notif: "\<not> is_notification_event RDC_FI_GPU_TEMP"
  by (simp add: is_notification_event_def rdc_2_smi_event_notif_map_def)

lemma demo_fields: "get_fields_from_group 1 1 demo_groups = (RDC_ST_OK, [(0, RDC_FI_GPU_TEMP), (1, RDC_FI_GPU_TEMP)])"
  by (simp add: get_fields_from_group_def demo_groups_def rdc_group_gpu_get_info_def rdc_group_field_get_info_def)

definition demo_settings :: field_settings where
  "demo_settings = \<lparr>st_update_freq = 1000000, st_max_keep_samples = 5, st_max_keep_age = 60,
     st_is_watching = True, st_last_update_time = 0\<rparr>"

definition demo_watched :: "metric_fetcher watch_state" where
  "demo_watched = demo_state\<lparr>ww_core := watch_core_init\<lparr>wt_watch_table := [((1, 1), demo_settings)],
       wt_fields := [((0, RDC_FI_GPU_TEMP), demo_settings), ((1, RDC_FI_GPU_TEMP), demo_settings)]\<rparr>,
     ww_module := Some \<lparr>tm_modules = [7], tm_fields_id_module = [(RDC_FI_GPU_TEMP, Some 7)]\<rparr>\<rparr>"

lemma demo_watch: "rdc_field_watch (demo_env 10) 1 1 1000000 60 5 demo_state = Some (RDC_ST_OK, demo_watched)"
  by (simp add: rdc_field_watch_def demo_state_def watch_core_init_def demo_fields Let_def set_listen_events_def
      rdc_2_smi_event_notif_map_def get_telemetry_module_def new_telemetry_module_def register_module_def demo_env_def demo_lib_def
      module_fields_query_def MAX_NUM_FIELDS_def watch_field_def map_insert_def map_erase_def watched_keys_def vec_ptr_def
      module_fields_watch_def module_dispatch_def smi_fields_watch_def acquire_smi_handle_def xgmi_counter_fields_def
      xgmi_throughput_fields_def map_modify_def demo_watched_def demo_settings_def)

theorem field_table_tracks_watch_table_witness:
  "field_freq (wt_fields (ww_core demo_watched)) (1, RDC_FI_GPU_TEMP)
     = spec_freq (watch_freqs demo_groups (wt_watch_table (ww_core demo_watched)) (1, RDC_FI_GPU_TEMP))
   \<and> field_freq (wt_fields (ww_core demo_watched)) (1, RDC_FI_GPU_TEMP) = Some 1000000"
proof -
  have "watch_step [RDC_FI_GPU_TEMP] demo_state demo_watched"
    by (rule watch_step.watch [OF _ demo_watch]) (simp add: demo_libs_ok demo_state_def)
  moreover have "watch_init [RDC_FI_GPU_TEMP] demo_groups demo_state"
    using demo_not_notif by (simp add: watch_init_def demo_state_def)
  ultimately have "field_freq (wt_fields (ww_core demo_watched)) (1, RDC_FI_GPU_TEMP)
     = spec_freq (watch_freqs demo_groups (wt_watch_table (ww_core demo_watched)) (1, RDC_FI_GPU_TEMP))"
    by (intro field_table_tracks_watch_table [of "[RDC_FI_GPU_TEMP]"]) auto
  moreover have "field_freq (wt_fields (ww_core demo_watched)) (1, RDC_FI_GPU_TEMP) = Some 1000000"
    by (simp add: field_freq_def demo_watched_def demo_settings_def)
  ultimately show ?thesis by blast
qed

end
