(* ===== verification/Rdc_Watch_Properties.thy ===== *)
theory Rdc_Watch_Properties
  imports Rdc_Watch_Table
begin

text \<open>
  What the watch table does with values and time: the periodic update fetches exactly the
  fields that are due, valid values reach the cache and the job statistics, the clean-up
  bounds the cache, and the error paths of jobs and of destroyed groups.
\<close>

section \<open>Values\<close>

definition store_all :: "u64 \<Rightarrow> rdc_gpu_field_value list \<Rightarrow> watch_core \<Rightarrow> watch_core" where
  "store_all now vs c = fold (\<lambda>gv. store_value now (gv_gpu_index gv) (gv_field_value gv)) vs c"

lemma handle_fields_accepts: "accepts (handle_fields now)"
  by (simp add: accepts_def handle_fields_def)

lemma deliver_handle_fields: "deliver (handle_fields now) bs c = store_all now (concat bs) c"
  by (induction bs arbitrary: c) (simp_all add: handle_fields_def store_all_def)

lemma handle_fields_last: "snd (handle_fields now (vec_ptr un) c) = store_all now un c"
  by (simp add: handle_fields_def vec_ptr_def store_all_def)

lemma store_all_append: "store_all now vs' (store_all now vs c) = store_all now (vs @ vs') c"
  by (simp add: store_all_def)

lemma store_all_job_table [simp]: "wt_job_table (store_all now vs c) = wt_job_table c"
  by (induction vs arbitrary: c) (simp_all add: store_all_def)

lemma store_all_fields:
  "map_of (wt_fields (store_all now vs c)) k =
     map_option (\<lambda>s. if k \<in> value_key ` set vs then s\<lparr>st_last_update_time := now\<rparr> else s) (map_of (wt_fields c) k)"
proof (induction vs arbitrary: c)
  case (Cons v vs)
  have "map_of (wt_fields (store_all now (v # vs) c)) k =
      map_of (wt_fields (store_all now vs (store_value now (gv_gpu_index v) (gv_field_value v) c))) k"
    by (simp add: store_all_def)
  then show ?case by (cases "map_of (wt_fields c) k") (auto simp: Cons.IH value_key_def)
qed (simp add: store_all_def option.map_ident)

definition valid_values :: "field_key \<Rightarrow> rdc_gpu_field_value list \<Rightarrow> rdc_field_value list" where
  "valid_values k vs = map gv_field_value (filter (\<lambda>v. value_key v = k \<and> value_status_ok (fv_status (gv_field_value v))) vs)"

lemma samples_job_update: "samples (snd (rdc_update_job_stats g j v c)) = samples c"
  by (auto simp: samples_def rdc_update_job_stats_def fun_eq_iff split: option.splits)

lemma job_field_cache_update: "job_field (snd (rdc_update_cache g v c)) = job_field c"
  by (auto simp: job_field_def job_gpu_def rdc_update_cache_def Let_def fun_eq_iff split: option.splits)

lemma samples_store_value:
  "samples (wt_cache (store_value ts g v c)) k =
     samples (wt_cache c) k @ (if k = (g, fv_field_id v) \<and> value_status_ok (fv_status v) then [cache_entry_of v] else [])"
  by (auto simp: store_value_def Let_def samples_job_update cache_store.update_appends split: option.split)

lemma samples_store_all:
  "samples (wt_cache (store_all now vs c)) k = samples (wt_cache c) k @ map cache_entry_of (valid_values k vs)"
proof (induction vs arbitrary: c)
  case (Cons v vs)
  have "samples (wt_cache (store_all now (v # vs) c)) k =
      samples (wt_cache (store_all now vs (store_value now (gv_gpu_index v) (gv_field_value v) c))) k"
    by (simp add: store_all_def)
  then show ?case by (auto simp: Cons.IH samples_store_value valid_values_def value_key_def)
qed (simp add: store_all_def valid_values_def)

section \<open>The update fetches what is due\<close>

lemma store_all_cleanup [simp]: "wt_last_cleanup (store_all now vs c) = wt_last_cleanup c"
  by (induction vs arbitrary: c) (simp_all add: store_all_def store_value_def Let_def)

lemma store_all_wf [simp]: "map_wf (wt_fields (store_all now vs c)) = map_wf (wt_fields c)"
  by (induction vs arbitrary: c) (simp_all add: store_all_def store_value_def Let_def)

abbreviation due_fields :: "u64 \<Rightarrow> watch_core \<Rightarrow> field_key list" where
  "due_fields now c \<equiv> map fst (filter (\<lambda>en. is_due now (snd en)) (wt_fields c))"

lemma due_fields_iff: "map_wf (wt_fields c) \<Longrightarrow> k \<in> set (due_fields now c) \<longleftrightarrow> (\<exists>s. map_of (wt_fields c) k = Some s \<and> is_due now s)"
  using map_of_Some_iff [of "wt_fields c" k] by force

lemma valid_values_bounds:
  assumes "list_all (read_ok good) vs"
  shows "length (valid_values k vs) \<le> length (filter (\<lambda>v. value_key v = k) vs)
    \<and> (good k \<longrightarrow> length (valid_values k vs) = length (filter (\<lambda>v. value_key v = k) vs))"
  using assms by (induction vs) (auto simp: valid_values_def read_ok_def)

text \<open>The fetch stores one value per due field, and a value of a readable field is a valid one.\<close>

lemma fetch_due_stores:
  assumes src: "\<And>a. telemetry_reader (rdc_telemetry_fields_value_get (we_libs e a)) (servable a) (readable a)"
    and len: "length (wt_fields (ww_core w)) \<le> MAX_NUM_FIELDS" and tm: "get_telemetry_module e w = (tm, w1)"
    and sv: "\<And>k a. k \<in> set (due_fields (we_now e) (ww_core w)) \<Longrightarrow> field_owner (tm_fields_id_module tm) (snd k) = Some a \<Longrightarrow> servable a k"
  shows "\<exists>w' vs. fetch_due e w = Some w' \<and> ww_core w' = store_all (we_now e) vs (ww_core w)
    \<and> mset (map value_key vs) = mset (due_fields (we_now e) (ww_core w))
    \<and> list_all (read_ok (\<lambda>k. \<exists>a. field_owner (tm_fields_id_module tm) (snd k) = Some a \<and> readable a k)) vs"
proof -
  let ?c = "ww_core w" and ?good = "\<lambda>k. \<exists>a. field_owner (tm_fields_id_module tm) (snd k) = Some a \<and> readable a k"
  let ?due = "due_fields (we_now e) ?c"
  have w1: "ww_core w1 = ?c" using tm by (auto simp: get_telemetry_module_def Let_def split: option.splits)
  have "length ?due \<le> MAX_NUM_FIELDS" using len by (metis length_filter_le length_map order_trans)
  from module_value_get_reads [where libs = "we_libs e" and servable = servable and readable = readable and tm = tm
      and s = "(ww_tel w1, ww_caps w1)" and u = ?c, OF src handle_fields_accepts this sv, of "we_now e"]
  obtain bs un tm' s' where
    v: "module_fields_value_get (we_libs e) (Some ?due) (handle_fields (we_now e)) (tm, (ww_tel w1, ww_caps w1), ?c)
        = Some (RDC_ST_OK, tm', s', snd (handle_fields (we_now e) (vec_ptr un) (deliver (handle_fields (we_now e)) bs ?c)))"
    and m: "mset (map value_key (concat bs @ un)) = mset ?due" and ok: "list_all (read_ok ?good) (concat bs)"
    and un: "un = map unsupported_value (filter (\<lambda>k. field_owner (tm_fields_id_module tm) (snd k) = None) ?due)" by blast
  let ?vs = "concat bs @ un"
  have "list_all (read_ok ?good) un" by (auto simp: un list_all_iff read_ok_def value_key_def unsupported_value_def)
  moreover have "snd (handle_fields (we_now e) (vec_ptr un) (deliver (handle_fields (we_now e)) bs ?c)) = store_all (we_now e) ?vs ?c"
    by (simp add: deliver_handle_fields handle_fields_last store_all_append)
  moreover have "length ?vs = length ?due" using arg_cong [OF m, of size] by (simp only: size_mset length_map)
  then have "?due = [] \<Longrightarrow> ?vs = []" by (metis length_0_conv)
  then have "?due = [] \<Longrightarrow> store_all (we_now e) ?vs ?c = ?c" by (simp only: store_all_def fold_simps id_apply)
  ultimately have "\<exists>w'. fetch_due e w = Some w' \<and> ww_core w' = store_all (we_now e) ?vs ?c"
    using v tm w1 by (cases "?due = []") (auto simp: fetch_due_def Let_def)
  then obtain w' where "fetch_due e w = Some w'" "ww_core w' = store_all (we_now e) ?vs ?c" by blast
  moreover have "list_all (read_ok ?good) ?vs" unfolding list_all_append using ok \<open>list_all (read_ok ?good) un\<close> by (rule conjI)
  ultimately show ?thesis using m by (intro exI [of _ w'] exI [of _ ?vs] conjI)
qed

text \<open>What the clean-up keeps of the samples of a field: the newest ones within the limits of the field.\<close>

definition kept_samples :: "u64 \<Rightarrow> field_settings \<Rightarrow> cache_entry list \<Rightarrow> cache_entry list" where
  "kept_samples now s es =
     dropWhile (\<lambda>x. real (unat (ce_last_time x)) + st_max_keep_age s * 1000 < real (unat now))
       (drop (length es - unat (st_max_keep_samples s)) es)"

lemma evict_cache_kept:
  assumes "length (samples c (g, f)) < 2 ^ 31" and "unat (st_max_keep_samples s) < 2 ^ 31"
  shows "\<exists>st c'. evict_cache g f (ucast (st_max_keep_samples s)) (st_max_keep_age s) now c = Some (st, c')
    \<and> samples c' = (samples c)((g, f) := kept_samples now s (samples c (g, f)))"
proof (cases "samples c (g, f) = []")
  case True
  then show ?thesis by (simp add: evict_cache_eq kept_samples_def fun_eq_iff)
next
  case False
  have "unat (ucast (st_max_keep_samples s) :: u64) = unat (st_max_keep_samples s)" by (simp add: unsigned_ucast_eq take_bit_nat_eq_self unsigned_less [THEN less_le_trans])
  with items_to_remove_small [OF assms(1), of "ucast (st_max_keep_samples s)"] assms(2) False show ?thesis
    by (simp add: evict_cache_eq Let_def samples_put age_out_dropWhile kept_samples_def nat_diff_distrib')
qed

lemma evict_fields_kept:
  assumes "distinct (map fst m)" and "\<forall>x\<in>set m. unat (st_max_keep_samples (snd x)) < 2 ^ 31" and "\<forall>k. length (samples c k) < 2 ^ 31"
  shows "\<exists>c'. evict_fields now m c = Some c'
    \<and> samples c' = (\<lambda>k. case map_of m k of None \<Rightarrow> samples c k | Some s \<Rightarrow> kept_samples now s (samples c k))"
  using assms
proof (induction m arbitrary: c)
  case (Cons x m)
  obtain g f s where x: "x = ((g, f), s)" by (metis prod.exhaust)
  from evict_cache_kept [of c g f s now] Cons.prems x obtain st c1 where
    c1: "evict_cache g f (ucast (st_max_keep_samples s)) (st_max_keep_age s) now c = Some (st, c1)"
    "samples c1 = (samples c)((g, f) := kept_samples now s (samples c (g, f)))" by auto
  have "length (kept_samples now s es) \<le> length es" for es
    unfolding kept_samples_def by (rule order.trans [OF length_dropWhile_le]) simp
  then have "\<forall>k. length (samples c1 k) < 2 ^ 31" using Cons.prems(3) by (auto simp: c1(2) intro: le_less_trans)
  with Cons.IH [of c1] Cons.prems obtain c2 where c2: "evict_fields now m c1 = Some c2"
    "samples c2 = (\<lambda>k. case map_of m k of None \<Rightarrow> samples c1 k | Some s \<Rightarrow> kept_samples now s (samples c1 k))" by auto
  have "map_of m (g, f) = None" using Cons.prems(1) x by (simp add: map_of_eq_None_iff)
  with c1 c2 show ?case by (auto simp: x fun_eq_iff split: option.splits)
qed simp

text \<open>Whether an update cleans up, and what it does to the settings of a field.\<close>

definition cleans_up :: "'s watch_env \<Rightarrow> 's watch_state \<Rightarrow> bool" where
  "cleans_up e w \<longleftrightarrow> we_now e - wt_last_cleanup (ww_core w) > 1000"

definition refreshed :: "u64 \<Rightarrow> field_settings \<Rightarrow> field_settings" where
  "refreshed now s = (if is_due now s then s\<lparr>st_last_update_time := now\<rparr> else s)"

lemma refreshed_simps [simp]:
  "st_max_keep_samples (refreshed now s) = st_max_keep_samples s" "is_expired now (refreshed now s) = is_expired now s"
  "kept_samples now (refreshed now s) = kept_samples now s"
  by (auto simp: refreshed_def is_due_def is_expired_def kept_samples_def fun_eq_iff)

lemma clean_up_kept:
  assumes wf: "map_wf (wt_fields c)" and "\<forall>x\<in>set (wt_fields c). unat (st_max_keep_samples (snd x)) < 2 ^ 31" and "\<forall>k. length (samples (wt_cache c) k) < 2 ^ 31"
  shows "\<exists>c'. clean_up now c = Some c'
    \<and> (\<forall>k. map_of (wt_fields c') k = (case map_of (wt_fields c) k of None \<Rightarrow> None | Some s \<Rightarrow> if is_expired now s then None else Some s))
    \<and> samples (wt_cache c') = (\<lambda>k. case map_of (wt_fields c) k of None \<Rightarrow> samples (wt_cache c) k | Some s \<Rightarrow> kept_samples now s (samples (wt_cache c) k))"
  using evict_fields_kept [OF map_wf_distinct [OF wf] assms(2,3), of now]
  by (auto simp: clean_up_def map_of_filter [OF wf] split: option.split)

lemma update_all_after_fetch:
  assumes fd: "fetch_due e w = Some w2" and lc: "wt_last_cleanup (ww_core w2) = wt_last_cleanup (ww_core w)" and wf: "map_wf (wt_fields (ww_core w2))"
    and lim: "\<And>k s. map_of (wt_fields (ww_core w2)) k = Some s \<Longrightarrow> unat (st_max_keep_samples s) < 2 ^ 31"
    and short: "\<And>k. length (samples (wt_cache (ww_core w2)) k) < 2 ^ 31"
  shows "\<exists>w'. rdc_field_update_all e w = Some (RDC_ST_OK, w')
    \<and> (\<forall>k. map_of (wt_fields (ww_core w')) k =
         (case map_of (wt_fields (ww_core w2)) k of None \<Rightarrow> None | Some s \<Rightarrow> if cleans_up e w \<and> is_expired (we_now e) s then None else Some s))
    \<and> (\<forall>k. samples (wt_cache (ww_core w')) k =
         (case map_of (wt_fields (ww_core w2)) k of Some s \<Rightarrow> if cleans_up e w then kept_samples (we_now e) s else (\<lambda>es. es) | None \<Rightarrow> (\<lambda>es. es))
           (samples (wt_cache (ww_core w2)) k))"
proof (cases "cleans_up e w")
  case False
  then have "rdc_field_update_all e w = Some (RDC_ST_OK, w2)" using fd lc by (simp add: rdc_field_update_all_def cleans_up_def)
  with False show ?thesis by (simp split: option.split)
next
  case True
  have "\<forall>x\<in>set (wt_fields (ww_core w2)). unat (st_max_keep_samples (snd x)) < 2 ^ 31" using lim map_of_Some_iff [OF wf] by auto
  then obtain c3 where c3: "clean_up (we_now e) (ww_core w2) = Some c3"
      "\<forall>k. map_of (wt_fields c3) k = (case map_of (wt_fields (ww_core w2)) k of None \<Rightarrow> None | Some s \<Rightarrow> if is_expired (we_now e) s then None else Some s)"
      "samples (wt_cache c3) = (\<lambda>k. case map_of (wt_fields (ww_core w2)) k of None \<Rightarrow> samples (wt_cache (ww_core w2)) k
         | Some s \<Rightarrow> kept_samples (we_now e) s (samples (wt_cache (ww_core w2)) k))"
    using clean_up_kept [OF wf] short by blast
  then have "rdc_field_update_all e w = Some (RDC_ST_OK, w2\<lparr>ww_core := c3\<lparr>wt_last_cleanup := we_now e\<rparr>\<rparr>)"
    using fd lc True by (simp add: rdc_field_update_all_def cleans_up_def)
  with c3(2,3) True show ?thesis by (simp split: option.split)
qed

text \<open>Of the delivered values of a field the valid ones: none when the field is not due, one when it is due and can be read.\<close>

lemma valid_values_of_due:
  assumes wf: "map_wf (wt_fields c)" and m: "mset (map value_key vs) = mset (due_fields now c)" and ok: "list_all (read_ok good) vs"
  shows "case map_of (wt_fields c) k of
      Some s \<Rightarrow> if \<not> is_due now s then valid_values k vs = []
        else length (valid_values k vs) \<le> 1 \<and> (good k \<longrightarrow> length (valid_values k vs) = 1)
    | None \<Rightarrow> valid_values k vs = []"
proof -
  have "distinct (due_fields now c)" using map_wf_distinct [OF wf] by (metis distinct_map_filter)
  then have "count (mset (due_fields now c)) k = (if k \<in> set (due_fields now c) then 1 else 0)" by (metis distinct_count_atmost_1)
  with m have "length (filter (\<lambda>v. value_key v = k) vs) = (if k \<in> set (due_fields now c) then 1 else 0)"
    using count_mset_map [of value_key vs k] by simp
  then show ?thesis using valid_values_bounds [OF ok, of k] due_fields_iff [OF wf, of k now] by (auto split: option.split if_splits)
qed

text \<open>
  (C6) One update, with the clean-up that it makes once a second, refreshes exactly the fields that are due. It returns OK. Afterwards the time stamp of
  every field that was due is the time of the update; the settings of the other fields are as before, except that the clean-up removes the fields
  that have expired. Every due field that its library can read has got exactly one new sample, a due field that could not be read at most one,
  no other field any, and new samples are valid values of the field. They are appended to the samples that were there; the clean-up then keeps of the whole line the newest
  ones within the number and the age that the field allows. This holds when the libraries keep their contract on the due fields they own, at most 8192 fields are
  watched, and the cached lines and the limits of the fields are shorter than \<^verbatim>\<open>2^31\<close>, since the surplus is computed in an \<^verbatim>\<open>int\<close>.
\<close>
theorem update_refreshes_due:
  assumes src: "\<And>a. telemetry_reader (rdc_telemetry_fields_value_get (we_libs e a)) (servable a) (readable a)"
    and wf: "map_wf (wt_fields (ww_core w))" and len: "length (wt_fields (ww_core w)) \<le> MAX_NUM_FIELDS"
    and tm: "get_telemetry_module e w = (tm, w1)"
    and sv: "\<forall>k s a. map_of (wt_fields (ww_core w)) k = Some s \<longrightarrow> is_due (we_now e) s \<longrightarrow>
        field_owner (tm_fields_id_module tm) (snd k) = Some a \<longrightarrow> servable a k"
    and lim: "\<forall>k s. map_of (wt_fields (ww_core w)) k = Some s \<longrightarrow> unat (st_max_keep_samples s) < 2 ^ 31"
    and short: "\<forall>k. length (samples (wt_cache (ww_core w)) k) + 1 < 2 ^ 31"
  shows "\<exists>w'. rdc_field_update_all e w = Some (RDC_ST_OK, w')
    \<and> (\<forall>k. map_of (wt_fields (ww_core w')) k =
         (case map_of (wt_fields (ww_core w)) k of
            None \<Rightarrow> None
          | Some s \<Rightarrow> if cleans_up e w \<and> is_expired (we_now e) s then None else Some (refreshed (we_now e) s)))
    \<and> (\<forall>k. \<exists>vs. samples (wt_cache (ww_core w')) k =
           (case map_of (wt_fields (ww_core w)) k of
              Some s \<Rightarrow> if cleans_up e w then kept_samples (we_now e) s else (\<lambda>es. es)
            | None \<Rightarrow> (\<lambda>es. es)) (samples (wt_cache (ww_core w)) k @ map cache_entry_of vs)
         \<and> (case map_of (wt_fields (ww_core w)) k of
              Some s \<Rightarrow> if \<not> is_due (we_now e) s then vs = []
                else length vs \<le> 1 \<and> ((\<exists>a. field_owner (tm_fields_id_module tm) (snd k) = Some a \<and> readable a k) \<longrightarrow> length vs = 1)
            | None \<Rightarrow> vs = [])
         \<and> (\<forall>v\<in>set vs. fv_field_id v = snd k \<and> value_status_ok (fv_status v)))"
proof -
  let ?c = "ww_core w" and ?now = "we_now e" and ?good = "\<lambda>k. \<exists>a. field_owner (tm_fields_id_module tm) (snd k) = Some a \<and> readable a k"
  have "servable a k" if "k \<in> set (due_fields ?now ?c)" "field_owner (tm_fields_id_module tm) (snd k) = Some a" for k a
    using that sv due_fields_iff [OF wf] by blast
  from fetch_due_stores [where servable = servable, OF src len tm this] obtain w2 vs where
    fd: "fetch_due e w = Some w2" and c2: "ww_core w2 = store_all ?now vs ?c"
    and m: "mset (map value_key vs) = mset (due_fields ?now ?c)" and ok: "list_all (read_ok ?good) vs" by blast
  note valid = valid_values_of_due [OF wf m ok]
  have flds: "map_of (wt_fields (ww_core w2)) k = map_option (refreshed ?now) (map_of (wt_fields ?c) k)" for k
    using mset_eq_setD [OF m] due_fields_iff [OF wf, of k] by (cases "map_of (wt_fields ?c) k") (auto simp: c2 store_all_fields refreshed_def)
  have smp: "samples (wt_cache (ww_core w2)) k = samples (wt_cache ?c) k @ map cache_entry_of (valid_values k vs)" for k
    by (simp add: c2 samples_store_all)
  have wf2: "map_wf (wt_fields (ww_core w2))" and lc: "wt_last_cleanup (ww_core w2) = wt_last_cleanup ?c" using wf by (simp_all add: c2)
  have "unat (st_max_keep_samples s) < 2 ^ 31" if "map_of (wt_fields (ww_core w2)) k = Some s" for k s
    using that lim [rule_format, of k] by (auto simp: flds)
  moreover have "length (samples (wt_cache (ww_core w2)) k) < 2 ^ 31" for k
  proof -
    have "length (valid_values k vs) \<le> 1" using valid [of k] by (auto split: option.splits if_splits)
    with short [rule_format, of k] smp [of k] show ?thesis by simp
  qed
  ultimately obtain w' where u: "rdc_field_update_all e w = Some (RDC_ST_OK, w')"
    and f: "\<And>k. map_of (wt_fields (ww_core w')) k = (case map_of (wt_fields (ww_core w2)) k of None \<Rightarrow> None
        | Some s \<Rightarrow> if cleans_up e w \<and> is_expired ?now s then None else Some s)"
    and l: "\<And>k. samples (wt_cache (ww_core w')) k = (case map_of (wt_fields (ww_core w2)) k of
          Some s \<Rightarrow> if cleans_up e w then kept_samples ?now s else (\<lambda>es. es) | None \<Rightarrow> (\<lambda>es. es)) (samples (wt_cache (ww_core w2)) k)"
    using update_all_after_fetch [OF fd lc wf2] by blast
  have line: "samples (wt_cache (ww_core w')) k = (case map_of (wt_fields ?c) k of
       Some s \<Rightarrow> if cleans_up e w then kept_samples ?now s else (\<lambda>es. es) | None \<Rightarrow> (\<lambda>es. es)) (samples (wt_cache ?c) k @ map cache_entry_of (valid_values k vs))" for k
    unfolding l flds smp by (simp split: option.split)
  have same: "\<forall>v\<in>set (valid_values k vs). fv_field_id v = snd k \<and> value_status_ok (fv_status v)" for k
    by (auto simp: valid_values_def value_key_def)
  have left: "map_of (wt_fields (ww_core w')) k = (case map_of (wt_fields ?c) k of None \<Rightarrow> None
      | Some s \<Rightarrow> if cleans_up e w \<and> is_expired ?now s then None else Some (refreshed ?now s))" for k by (simp add: f flds split: option.split)
  show ?thesis
    by (rule exI [of _ w'], intro conjI allI, rule u, rule left, rule exI, intro conjI, rule line, rule valid, rule same)
qed

lemma demo_source: "telemetry_reader (rdc_telemetry_fields_value_get (we_libs (demo_env now) a)) (smi_ready two_gpu_env) (smi_readable two_gpu_env)"
  by (simp add: demo_env_def demo_lib_def) (rule smi_source.telemetry_reader_axioms)

lemma smi_readable_temp: "unat g < 2 \<Longrightarrow> smi_readable two_gpu_env (g, RDC_FI_GPU_TEMP)"
proof -
  assume g: "unat g < 2"
  have "is_field_valid RDC_FI_GPU_TEMP" by code_simp
  with g show ?thesis
    by (simp add: smi_readable_def two_gpu_env_def two_gpu_handle fetch_smi_field_def fetch_switch_def
      fetch_temp_def two_gpu_temp put_integer_def Let_def)
qed

theorem update_refreshes_due_witness:
  "\<exists>w' v. rdc_field_update_all (demo_env 2000) demo_watched = Some (RDC_ST_OK, w')
    \<and> map_of (wt_fields (ww_core w')) (1, RDC_FI_GPU_TEMP) = Some (demo_settings\<lparr>st_last_update_time := 2000\<rparr>)
    \<and> samples (wt_cache (ww_core w')) (1, RDC_FI_GPU_TEMP) = kept_samples 2000 demo_settings [cache_entry_of v] \<and> fv_field_id v = RDC_FI_GPU_TEMP"
proof -
  let ?e = "demo_env 2000" and ?k = "(1, RDC_FI_GPU_TEMP)"
  let ?tm = "\<lparr>tm_modules = [7], tm_fields_id_module = [(RDC_FI_GPU_TEMP, Some 7)]\<rparr> :: telemetry_module"
  have wf: "map_wf (wt_fields (ww_core demo_watched))" by (simp add: demo_watched_def map_wf_def)
  have len: "length (wt_fields (ww_core demo_watched)) \<le> MAX_NUM_FIELDS" by (simp add: demo_watched_def MAX_NUM_FIELDS_def)
  have tm: "get_telemetry_module ?e demo_watched = (?tm, demo_watched)" by (simp add: get_telemetry_module_def demo_watched_def)
  have fields: "s = demo_settings \<and> unat (fst k) < 2 \<and> snd k = RDC_FI_GPU_TEMP" if "map_of (wt_fields (ww_core demo_watched)) k = Some s" for k s
    using that by (auto simp: demo_watched_def split: if_splits)
  have sv: "smi_ready two_gpu_env k" if "map_of (wt_fields (ww_core demo_watched)) k = Some s" for k s
    using fields [OF that] smi_servable_temp [of "fst k"]
    by (cases k) (simp add: smi_ready_def two_gpu_env_def bulk_fetch_enabled_def BULK_FIELDS_MAX_def)
  have lim: "unat (st_max_keep_samples s) < 2 ^ 31" if "map_of (wt_fields (ww_core demo_watched)) k = Some s" for k s
    using fields [OF that] by (simp add: demo_settings_def)
  have none: "samples (wt_cache (ww_core demo_watched)) k = []" for k by (simp add: demo_watched_def watch_core_init_def cache_manager_init_def samples_def)
  have n: "we_now ?e = 2000" "cleans_up ?e demo_watched" by (simp_all add: demo_env_def cleans_up_def demo_watched_def watch_core_init_def)
  have m: "map_of (wt_fields (ww_core demo_watched)) ?k = Some demo_settings" and d: "is_due 2000 demo_settings" "\<not> is_expired 2000 demo_settings"
    by (simp_all add: demo_watched_def demo_settings_def is_due_def is_expired_def)
  have r: "\<exists>a. field_owner (tm_fields_id_module ?tm) (snd ?k) = Some a \<and> smi_readable two_gpu_env ?k"
    using smi_readable_temp [of 1] by (simp add: field_owner_def)
  have short: "length (samples (wt_cache (ww_core demo_watched)) k) + 1 < 2 ^ 31" for k by (simp add: none)
  have all: "\<forall>k s a. map_of (wt_fields (ww_core demo_watched)) k = Some s \<longrightarrow> is_due (we_now ?e) s \<longrightarrow>
      field_owner (tm_fields_id_module ?tm) (snd k) = Some a \<longrightarrow> smi_ready two_gpu_env k"
    "\<forall>k s. map_of (wt_fields (ww_core demo_watched)) k = Some s \<longrightarrow> unat (st_max_keep_samples s) < 2 ^ 31"
    "\<forall>k. length (samples (wt_cache (ww_core demo_watched)) k) + 1 < 2 ^ 31"
    using sv lim short by blast+
  from update_refreshes_due [where servable = "\<lambda>_. smi_ready two_gpu_env" and readable = "\<lambda>_. smi_readable two_gpu_env", OF demo_source wf len tm all]
  obtain w' where w': "rdc_field_update_all ?e demo_watched = Some (RDC_ST_OK, w')"
    "map_of (wt_fields (ww_core w')) ?k = Some (refreshed 2000 demo_settings)"
    and l: "\<exists>vs. samples (wt_cache (ww_core w')) ?k = kept_samples 2000 demo_settings (map cache_entry_of vs)
      \<and> length vs = 1 \<and> (\<forall>v\<in>set vs. fv_field_id v = RDC_FI_GPU_TEMP)"
  proof (elim exE conjE, goal_cases)
    case (1 w')
    from 1(3) [THEN spec, of ?k] have f: "map_of (wt_fields (ww_core w')) ?k = Some (refreshed 2000 demo_settings)" by (simp add: m d n)
    from 1(4) [THEN spec, of ?k] r have "\<exists>vs. samples (wt_cache (ww_core w')) ?k = kept_samples 2000 demo_settings (map cache_entry_of vs)
      \<and> length vs = 1 \<and> (\<forall>v\<in>set vs. fv_field_id v = RDC_FI_GPU_TEMP)" unfolding n(1) m by (auto simp: d n(2) none)
    with 1(1,2) f show ?case by blast
  qed
  from l obtain vs where "samples (wt_cache (ww_core w')) ?k = kept_samples 2000 demo_settings (map cache_entry_of vs)" "length vs = 1"
    "\<forall>v\<in>set vs. fv_field_id v = RDC_FI_GPU_TEMP" by blast
  with w' show ?thesis using d by (auto simp: refreshed_def length_Suc_conv)
qed

section \<open>Values and job statistics\<close>

lemma is_job_watch_field_cong: "wt_job_table c' = wt_job_table c \<Longrightarrow> is_job_watch_field g f c' = is_job_watch_field g f c"
  by (simp add: is_job_watch_field_def)

lemma job_field_store_value:
  assumes "is_job_watch_field g f c = Some j"
  shows "job_field (wt_cache (store_value ts h v c)) (j, g, f) =
    (if (h, fv_field_id v) = (g, f) \<and> value_status_ok (fv_status v)
     then map_option (field_summary_add (fv_ts v) (l_int (fv_value v))) (job_field (wt_cache c) (j, g, f))
     else job_field (wt_cache c) (j, g, f))"
proof -
  have "is_job_watch_field h (fv_field_id v)
      (c\<lparr>wt_fields := map_modify (h, fv_field_id v) (st_last_update_time_update (\<lambda>_. ts)) (wt_fields c)\<rparr>)
      = is_job_watch_field h (fv_field_id v) c" by (rule is_job_watch_field_cong) simp
  then show ?thesis using assms
    by (auto simp: store_value_def Let_def job_field_cache_update job_field_update split: option.split)
qed

lemma store_all_job_statistics:
  assumes "is_job_watch_field g f c = Some j"
    and "job_field (wt_cache c) (j, g, f) = Some fs" and "summarises fs xs" and "length xs + length vs < 2 ^ 64"
  shows "\<exists>fs'. job_field (wt_cache (store_all now vs c)) (j, g, f) = Some fs'
    \<and> summarises fs' (xs @ map (\<lambda>v. l_int (fv_value v)) (valid_values (g, f) vs))"
  using assms
proof (induction vs arbitrary: c fs xs)
  case Nil
  then show ?case by (simp add: store_all_def valid_values_def)
next
  case (Cons v vs)
  let ?c = "store_value now (gv_gpu_index v) (gv_field_value v) c"
  let ?x = "l_int (fv_value (gv_field_value v))"
  have j: "is_job_watch_field g f ?c = Some j" using Cons.prems(1) is_job_watch_field_cong [of ?c c] by simp
  have step: "store_all now (v # vs) c = store_all now vs ?c" by (simp add: store_all_def)
  show ?case
  proof (cases "value_key v = (g, f) \<and> value_status_ok (fv_status (gv_field_value v))")
    case True
    then have "job_field (wt_cache ?c) (j, g, f) = Some (field_summary_add (fv_ts (gv_field_value v)) ?x fs)"
      using job_field_store_value [OF Cons.prems(1)] Cons.prems(2) by (simp add: value_key_def)
    moreover have "summarises (field_summary_add (fv_ts (gv_field_value v)) ?x fs) (xs @ [?x])"
      using Cons.prems(3,4) by (intro summarises_add) simp_all
    ultimately show ?thesis using Cons.IH [OF j, of _ "xs @ [?x]"] Cons.prems(4) True
      unfolding step by (simp add: valid_values_def)
  next
    case False
    then have "job_field (wt_cache ?c) (j, g, f) = Some fs"
      using job_field_store_value [OF Cons.prems(1)] Cons.prems(2) by (auto simp: value_key_def)
    moreover have "valid_values (g, f) (v # vs) = valid_values (g, f) vs" using False by (auto simp: valid_values_def)
    ultimately show ?thesis using Cons.IH [OF j, of fs xs] Cons.prems(3,4) unfolding step by simp
  qed
qed

text \<open>
  (C15) Fetched values become the statistics of the running job. While a job is the first one that
  watches a field of a GPU, its summary of that field always describes the valid values
  that have arrived for that GPU and field since the job started, whatever else
  arrives in between: their number, extrema, total, mean and squared deviations.
\<close>
theorem handle_fields_job_statistics:
  assumes "is_job_watch_field g f c = Some j"
    and "job_field (wt_cache c) (j, g, f) = Some fs" and "summarises fs xs"
    and "length xs + length (concat bs) < 2 ^ 64"
  shows "\<exists>fs'. job_field (wt_cache (deliver (handle_fields now) bs c)) (j, g, f) = Some fs'
    \<and> summarises fs' (xs @ map (\<lambda>v. l_int (fv_value v)) (valid_values (g, f) (concat bs)))"
  unfolding deliver_handle_fields by (rule store_all_job_statistics [OF assms])

definition demo_job_core :: watch_core where
  "demo_job_core = job_started_core (demo_env 5000) 1 ''job'' [] [(0, RDC_FI_GPU_TEMP)]
     \<lparr>group_name = ''g'', entity_ids = [0]\<rparr> \<lparr>fgroup_name = ''f'', field_ids = [RDC_FI_GPU_TEMP]\<rparr> watch_core_init"

theorem handle_fields_job_statistics_witness:
  "\<exists>fs'. job_field (wt_cache (deliver (handle_fields 6000) [[\<lparr>gv_gpu_index = 0, gv_field_value = sample_at 10 40\<rparr>],
       [\<lparr>gv_gpu_index = 1, gv_field_value = sample_at 10 99\<rparr>, \<lparr>gv_gpu_index = 0, gv_field_value = sample_at 20 50\<rparr>]] demo_job_core))
      (''job'', 0, RDC_FI_GPU_TEMP) = Some fs' \<and> summarises fs' [40, 50]"
proof -
  have j: "is_job_watch_field 0 RDC_FI_GPU_TEMP demo_job_core = Some ''job''"
    by (simp add: is_job_watch_field_def demo_job_core_def job_started_core_def watch_core_init_def map_insert_def)
  have f: "job_field (wt_cache demo_job_core) (''job'', 0, RDC_FI_GPU_TEMP) = Some empty_field_summary"
    by (simp add: demo_job_core_def job_started_core_def job_field_start)
  from handle_fields_job_statistics [OF j f summarises_empty,
      of "[[\<lparr>gv_gpu_index = 0, gv_field_value = sample_at 10 40\<rparr>],
       [\<lparr>gv_gpu_index = 1, gv_field_value = sample_at 10 99\<rparr>, \<lparr>gv_gpu_index = 0, gv_field_value = sample_at 20 50\<rparr>]]" 6000]
  show ?thesis by (simp add: valid_values_def value_key_def sample_at_def)
qed

end
