(* ===== verification/Rdc_Diagnostics.thy ===== *)
theory Rdc_Diagnostics
  imports Rdc_Group_Settings Rdc_Platform
begin

text \<open>
  Diagnostics: the checks that \<^verbatim>\<open>RdcSmiDiagnosticImpl\<close> runs on the AMD SMI library (compute
  processes, topology, temperatures and voltages), the diagnostic side of \<^verbatim>\<open>RdcSmiLib\<close>, and
  \<^verbatim>\<open>RdcDiagnosticModule\<close>, which sends every test case to the library that offers it and runs
  the test cases of a level.
\<close>

section \<open>Results of \<open>rdc.h\<close>\<close>

datatype rdc_diag_result = RDC_DIAG_RESULT_PASS | RDC_DIAG_RESULT_SKIP | RDC_DIAG_RESULT_WARN | RDC_DIAG_RESULT_FAIL

datatype rdc_diag_level = RDC_DIAG_LVL_INVALID | RDC_DIAG_LVL_SHORT | RDC_DIAG_LVL_MED | RDC_DIAG_LVL_LONG

datatype rdc_diag_test_cases =
    RDC_DIAG_COMPUTE_PROCESS | RDC_DIAG_COMPUTE_QUEUE | RDC_DIAG_SYS_MEM_CHECK
  | RDC_DIAG_NODE_TOPOLOGY | RDC_DIAG_RVS_TEST | RDC_DIAG_GPU_PARAMETERS

text \<open>The enumerations are compared and used as keys by their numbers.\<close>

primrec result_number :: "rdc_diag_result \<Rightarrow> nat" where
  "result_number RDC_DIAG_RESULT_PASS = 0"
| "result_number RDC_DIAG_RESULT_SKIP = 1"
| "result_number RDC_DIAG_RESULT_WARN = 2"
| "result_number RDC_DIAG_RESULT_FAIL = 3"

primrec level_number :: "rdc_diag_level \<Rightarrow> nat" where
  "level_number RDC_DIAG_LVL_INVALID = 0"
| "level_number RDC_DIAG_LVL_SHORT = 1"
| "level_number RDC_DIAG_LVL_MED = 2"
| "level_number RDC_DIAG_LVL_LONG = 3"

primrec test_number :: "rdc_diag_test_cases \<Rightarrow> nat" where
  "test_number RDC_DIAG_COMPUTE_PROCESS = 0"
| "test_number RDC_DIAG_COMPUTE_QUEUE = 1"
| "test_number RDC_DIAG_SYS_MEM_CHECK = 2"
| "test_number RDC_DIAG_NODE_TOPOLOGY = 3"
| "test_number RDC_DIAG_RVS_TEST = 4"
| "test_number RDC_DIAG_GPU_PARAMETERS = 5"

instantiation rdc_diag_result :: linorder
begin

definition less_eq_rdc_diag_result :: "rdc_diag_result \<Rightarrow> rdc_diag_result \<Rightarrow> bool" where
  "less_eq_rdc_diag_result a b \<longleftrightarrow> result_number a \<le> result_number b"

definition less_rdc_diag_result :: "rdc_diag_result \<Rightarrow> rdc_diag_result \<Rightarrow> bool" where
  "less_rdc_diag_result a b \<longleftrightarrow> result_number a < result_number b"

instance
proof
  fix a b :: rdc_diag_result
  show "a \<le> b \<Longrightarrow> b \<le> a \<Longrightarrow> a = b" by (cases a; cases b) (simp_all add: less_eq_rdc_diag_result_def)
qed (auto simp: less_eq_rdc_diag_result_def less_rdc_diag_result_def)

end

instantiation rdc_diag_level :: linorder
begin

definition less_eq_rdc_diag_level :: "rdc_diag_level \<Rightarrow> rdc_diag_level \<Rightarrow> bool" where
  "less_eq_rdc_diag_level a b \<longleftrightarrow> level_number a \<le> level_number b"

definition less_rdc_diag_level :: "rdc_diag_level \<Rightarrow> rdc_diag_level \<Rightarrow> bool" where
  "less_rdc_diag_level a b \<longleftrightarrow> level_number a < level_number b"

instance
proof
  fix a b :: rdc_diag_level
  show "a \<le> b \<Longrightarrow> b \<le> a \<Longrightarrow> a = b" by (cases a; cases b) (simp_all add: less_eq_rdc_diag_level_def)
qed (auto simp: less_eq_rdc_diag_level_def less_rdc_diag_level_def)

end

instantiation rdc_diag_test_cases :: linorder
begin

definition less_eq_rdc_diag_test_cases :: "rdc_diag_test_cases \<Rightarrow> rdc_diag_test_cases \<Rightarrow> bool" where
  "less_eq_rdc_diag_test_cases a b \<longleftrightarrow> test_number a \<le> test_number b"

definition less_rdc_diag_test_cases :: "rdc_diag_test_cases \<Rightarrow> rdc_diag_test_cases \<Rightarrow> bool" where
  "less_rdc_diag_test_cases a b \<longleftrightarrow> test_number a < test_number b"

instance
proof
  fix a b :: rdc_diag_test_cases
  show "a \<le> b \<Longrightarrow> b \<le> a \<Longrightarrow> a = b" by (cases a; cases b) (simp_all add: less_eq_rdc_diag_test_cases_def)
qed (auto simp: less_eq_rdc_diag_test_cases_def less_rdc_diag_test_cases_def)

end

lemmas diag_order_defs = less_eq_rdc_diag_result_def less_rdc_diag_result_def
  less_eq_rdc_diag_level_def less_rdc_diag_level_def less_eq_rdc_diag_test_cases_def less_rdc_diag_test_cases_def

lemma PASS_least [simp]: "RDC_DIAG_RESULT_PASS \<le> r"
  by (simp add: less_eq_rdc_diag_result_def)

definition RDC_MAX_NUM_DEVICES :: nat where "RDC_MAX_NUM_DEVICES = 128"
definition MAX_TEST_CASES :: nat where "MAX_TEST_CASES = 6"
definition MAX_DIAG_MSG_LENGTH :: nat where "MAX_DIAG_MSG_LENGTH = 4096"

record rdc_diag_detail =
  dd_msg :: string
  dd_code :: u32

record rdc_diag_per_gpu_result =
  pg_gpu_index :: u32
  pg_gpu_result :: rdc_diag_detail

record rdc_diag_test_result =
  tr_status :: rdc_diag_result
  tr_details :: rdc_diag_detail
  tr_test_case :: rdc_diag_test_cases
  tr_per_gpu_result_count :: u32
  tr_gpu_results :: "rdc_diag_per_gpu_result list"
  tr_info :: string

record rdc_diag_response =
  rp_results_count :: u32
  rp_diag_info :: "rdc_diag_test_result list"

definition empty_detail :: rdc_diag_detail where
  "empty_detail = \<lparr>dd_msg = [], dd_code = 0\<rparr>"

text \<open>The value \<^verbatim>\<open>{}\<close> of a test result: every number and every string is zero.\<close>

definition empty_result :: rdc_diag_test_result where
  "empty_result = \<lparr>tr_status = RDC_DIAG_RESULT_PASS, tr_details = empty_detail, tr_test_case = RDC_DIAG_COMPUTE_PROCESS,
     tr_per_gpu_result_count = 0,
     tr_gpu_results = replicate RDC_MAX_NUM_DEVICES \<lparr>pg_gpu_index = 0, pg_gpu_result = empty_detail\<rparr>, tr_info = []\<rparr>"

definition put_info :: "string \<Rightarrow> rdc_diag_test_result \<Rightarrow> rdc_diag_test_result" where
  "put_info s r = r\<lparr>tr_info := strncpy_with_null (tr_info r) s MAX_DIAG_MSG_LENGTH\<rparr>"

text \<open>\<^verbatim>\<open>std::to_string\<close> of unsigned and signed integers.\<close>

fun nat_string :: "nat \<Rightarrow> string" where
  "nat_string n = (if n < 10 then [char_of (48 + n)] else nat_string (n div 10) @ [char_of (48 + n mod 10)])"

declare nat_string.simps [simp del]

definition u32_string :: "u32 \<Rightarrow> string" where "u32_string x = nat_string (unat x)"
definition u64_string :: "u64 \<Rightarrow> string" where "u64_string x = nat_string (unat x)"

definition i64_string :: "i64 \<Rightarrow> string" where
  "i64_string x = (if sint x < 0 then ''-'' @ nat_string (nat (- sint x)) else nat_string (nat (sint x)))"

section \<open>What the checks ask the SMI library\<close>

datatype temp_metric = AMDSMI_TEMP_CURRENT | AMDSMI_TEMP_MAX | AMDSMI_TEMP_MIN | AMDSMI_TEMP_CRITICAL
  | AMDSMI_TEMP_EMERGENCY | AMDSMI_TEMP_CRIT_MIN
datatype volt_metric = AMDSMI_VOLT_CURRENT | AMDSMI_VOLT_MAX | AMDSMI_VOLT_MIN | AMDSMI_VOLT_MAX_CRIT | AMDSMI_VOLT_MIN_CRIT

record process_info =
  pr_process_id :: u32
  pr_pasid :: u32
  pr_vram_usage :: u64
  pr_sdma_usage :: u64
  pr_cu_occupancy :: u32

text \<open>
  A query that is made twice, first for the number of items and then for the items, has two
  components; the second gets the number asked for. Sensor types are numbers: those of a loop
  and those the strings name are given by the library. A null handle is \<^const>\<open>None\<close>.
\<close>

record smi_diag =
  dg_smi :: amdsmi
  dg_status_code :: "amdsmi_status \<Rightarrow> u32"
  dg_process_count :: "amdsmi_status \<times> u32"
  dg_process_info :: "u32 \<Rightarrow> amdsmi_status \<times> process_info list"
  dg_process_gpu_count :: "u32 \<Rightarrow> amdsmi_status \<times> u32"
  dg_process_gpus :: "u32 \<Rightarrow> u32 \<Rightarrow> amdsmi_status \<times> u32 list"
  dg_link_weight :: "processor_handle \<Rightarrow> processor_handle \<Rightarrow> amdsmi_status \<times> u64"
  dg_temp :: "processor_handle \<Rightarrow> nat \<Rightarrow> temp_metric \<Rightarrow> amdsmi_status \<times> i64"
  dg_volt :: "processor_handle option \<Rightarrow> nat \<Rightarrow> volt_metric \<Rightarrow> amdsmi_status \<times> i64"
  dg_temp_first :: nat
  dg_temp_max :: nat
  dg_temp_edge :: nat
  dg_temp_junction :: nat
  dg_temp_vram :: nat
  dg_volt_first :: nat
  dg_volt_last :: nat
  dg_volt_vddgfx :: nat

text \<open>The result pointer of a check: null is refused, otherwise the check writes there.\<close>

definition on_result ::
    "rdc_diag_test_result option \<Rightarrow> (rdc_diag_test_result \<Rightarrow> (rdc_status \<times> rdc_diag_test_result) option)
     \<Rightarrow> (rdc_status \<times> rdc_diag_test_result option) option" where
  "on_result res f =
     (case res of None \<Rightarrow> Some (RDC_ST_BAD_PARAMETER, None) | Some r \<Rightarrow> map_option (\<lambda>(st, r'). (st, Some r')) (f r))"

section \<open>Compute processes\<close>

definition process_text :: "process_info \<Rightarrow> string" where
  "process_text p = '' Process: '' @ u32_string (pr_process_id p) @ '', pasid: '' @ u32_string (pr_pasid p)
     @ '', vram_usage: '' @ u64_string (pr_vram_usage p) @ '', sdma_usage: '' @ u64_string (pr_sdma_usage p)
     @ '', cu_occupancy: '' @ u32_string (pr_cu_occupancy p) @ ''.''"

definition add_pid :: "u32 \<Rightarrow> u32 \<Rightarrow> (u32, u32 list) smap \<Rightarrow> (u32, u32 list) smap" where
  "add_pid pid g m = map_modify g (\<lambda>l. l @ [pid]) (map_insert g [] m)"

text \<open>A library that reports more items than the buffer has room for is undefined behaviour.\<close>

fun process_loop ::
    "smi_diag \<Rightarrow> process_info list \<Rightarrow> string \<times> (u32, u32 list) smap \<Rightarrow> (string \<times> (u32, u32 list) smap) option" where
  "process_loop d [] r = Some r"
| "process_loop d (p # ps) (info, m) =
     (if pr_cu_occupancy p = 0 then process_loop d ps (info, m)
      else let info' = info @ process_text p in
           case dg_process_gpu_count d (pr_process_id p) of (err, n) \<Rightarrow>
             if err \<noteq> AMDSMI_STATUS_SUCCESS \<or> n = 0 then process_loop d ps (info', m)
             else case dg_process_gpus d (pr_process_id p) n of (err', gs) \<Rightarrow>
                    if err' \<noteq> AMDSMI_STATUS_SUCCESS then process_loop d ps (info', m)
                    else if unat n < length gs then None
                    else process_loop d ps (info', fold (add_pid (pr_process_id p)) gs m))"

fun process_results :: "(u32 \<times> u32 list) list \<Rightarrow> rdc_diag_test_result \<Rightarrow> rdc_diag_test_result option" where
  "process_results [] r = Some r"
| "process_results ((g, pids) # m) r =
     (let k = unat (tr_per_gpu_result_count r) in
      if length (tr_gpu_results r) \<le> k then None
      else let msg = ''Running process:'' @ concat (map (\<lambda>p. '' '' @ u32_string p) pids);
               old = dd_msg (pg_gpu_result (tr_gpu_results r ! k));
               r' = r\<lparr>tr_gpu_results := (tr_gpu_results r)[k := \<lparr>pg_gpu_index = g,
                        pg_gpu_result = \<lparr>dd_msg = strncpy_with_null old msg MAX_DIAG_MSG_LENGTH, dd_code = 0\<rparr>\<rparr>],
                      tr_per_gpu_result_count := tr_per_gpu_result_count r + 1\<rparr>
           in if RDC_MAX_NUM_DEVICES \<le> unat (tr_per_gpu_result_count r') then Some r' else process_results m r')"

definition no_processes :: string where
  "no_processes = ''No processes running on any devices.''"

definition check_smi_process_info ::
    "smi_diag \<Rightarrow> u32 list \<Rightarrow> rdc_diag_test_result option \<Rightarrow> (rdc_status \<times> rdc_diag_test_result option) option" where
  "check_smi_process_info d gpus res = on_result res (\<lambda>_.
     let r = empty_result\<lparr>tr_test_case := RDC_DIAG_COMPUTE_PROCESS, tr_status := RDC_DIAG_RESULT_SKIP\<rparr> in
     case dg_process_count d of (err, n) \<Rightarrow>
       if err \<noteq> AMDSMI_STATUS_SUCCESS
       then Some (Smi2RdcError err, put_info ''Fail to retreive process information from amd_smi_lib'' r)
       else if n = 0 then Some (RDC_ST_OK, put_info no_processes (r\<lparr>tr_status := RDC_DIAG_RESULT_PASS\<rparr>))
       else case dg_process_info d n of (err', procs) \<Rightarrow>
              if err' \<noteq> AMDSMI_STATUS_SUCCESS then Some (Smi2RdcError err', put_info [] r)
              else if unat n < length procs then None
              else (case process_loop d procs ([], []) of
                      None \<Rightarrow> None
                    | Some (info, pids_per_gpu) \<Rightarrow>
                        let r1 = r\<lparr>tr_status := RDC_DIAG_RESULT_PASS\<rparr> in
                        if pids_per_gpu = [] then Some (RDC_ST_OK, put_info no_processes r1)
                        else let r2 = (if \<exists>g\<in>set gpus. map_of pids_per_gpu g \<noteq> None
                                       then r1\<lparr>tr_status := RDC_DIAG_RESULT_FAIL\<rparr> else r1)
                             in map_option (Pair RDC_ST_OK) (process_results pids_per_gpu (put_info info r2))))"

section \<open>Topology\<close>

text \<open>
  The double loop over the GPUs as the list of its index pairs. Both handles of a pair are those
  of the first GPU, as in the source. The pair is value-initialised and the result of the two lookups is overwritten,
  so for a GPU that is not found the library is called with null handles.
\<close>

definition null_handle :: processor_handle where "null_handle = 0"

definition handle_or_null :: "smi_diag \<Rightarrow> u32 \<Rightarrow> processor_handle" where
  "handle_or_null d g = (case get_processor_handle_from_id (dg_smi d) g of Inl _ \<Rightarrow> null_handle | Inr h \<Rightarrow> h)"

fun topo_loop ::
    "smi_diag \<Rightarrow> u32 list \<Rightarrow> (nat \<times> nat) list \<Rightarrow> string \<Rightarrow> (nat \<times> nat \<times> amdsmi_status) + string" where
  "topo_loop d gpus [] info = Inr info"
| "topo_loop d gpus ((i, j) # ps) info =
     (if gpus ! i = gpus ! j then topo_loop d gpus ps info
      else case dg_link_weight d (handle_or_null d (gpus ! i)) (handle_or_null d (gpus ! i)) of (err, weight) \<Rightarrow>
             if err \<noteq> AMDSMI_STATUS_SUCCESS then Inl (i, j, err)
             else topo_loop d gpus ps
                    (info @ nat_string i @ ''=>'' @ nat_string j @ '' weight:'' @ u64_string weight @ '' ''))"

definition index_pairs :: "nat \<Rightarrow> (nat \<times> nat) list" where
  "index_pairs n = concat (map (\<lambda>i. map (Pair i) [0..<n]) [0..<n])"

definition check_smi_topo_info ::
    "smi_diag \<Rightarrow> u32 list \<Rightarrow> rdc_diag_test_result option \<Rightarrow> (rdc_status \<times> rdc_diag_test_result option) option" where
  "check_smi_topo_info d gpus res = on_result res (\<lambda>_.
     let r = empty_result\<lparr>tr_test_case := RDC_DIAG_NODE_TOPOLOGY, tr_status := RDC_DIAG_RESULT_SKIP\<rparr> in
     case topo_loop d gpus (index_pairs (length gpus)) [] of
       Inl (i, j, err) \<Rightarrow>
         let msg = ''rsmi_topo_get_link_weight('' @ nat_string i @ '','' @ nat_string j @ '', &weight)'' @ '' fail'' in
         Some (RDC_ST_MSI_ERROR, put_info msg (r\<lparr>tr_status := RDC_DIAG_RESULT_FAIL,
           tr_details := \<lparr>dd_msg = strncpy_with_null [] msg MAX_DIAG_MSG_LENGTH, dd_code = dg_status_code d err\<rparr>\<rparr>))
     | Inr info \<Rightarrow>
         Some (RDC_ST_OK, (put_info (if info \<noteq> [] then info else ''No link detected.'') r)\<lparr>tr_status := RDC_DIAG_RESULT_PASS\<rparr>))"

section \<open>Temperatures and voltages\<close>

definition get_temperature_string :: "smi_diag \<Rightarrow> nat \<Rightarrow> string" where
  "get_temperature_string d t =
     (if t = dg_temp_edge d then ''Edge'' else if t = dg_temp_junction d then ''Junction''
      else if t = dg_temp_vram d then ''Memory'' else ''Unknown'')"

definition get_voltage_string :: "smi_diag \<Rightarrow> nat \<Rightarrow> string" where
  "get_voltage_string d t = (if t = dg_volt_vddgfx d then ''Vddgfx voltage'' else ''Unknown'')"

text \<open>
  One limit: a verdict when it is violated, and the texts added to the message and to the
  message of the GPU. A limit that cannot be read is skipped.
\<close>

definition check_limit ::
    "amdsmi_status \<Rightarrow> bool \<Rightarrow> rdc_diag_result \<Rightarrow> string \<Rightarrow> string \<Rightarrow> string
     \<Rightarrow> rdc_diag_result \<times> string \<times> string \<Rightarrow> rdc_diag_result \<times> string \<times> string" where
  "check_limit err violated verdict exceeds in_range gpu_text s =
     (case s of (result, info, per_gpu) \<Rightarrow>
        if err \<noteq> AMDSMI_STATUS_SUCCESS then (result, info, per_gpu)
        else if violated then (verdict, info @ exceeds, per_gpu @ gpu_text)
        else (result, info @ in_range, per_gpu))"

definition info_text :: "u32 \<Rightarrow> string \<Rightarrow> string \<Rightarrow> string \<Rightarrow> string \<Rightarrow> string" where
  "info_text g label sensor kind outcome = ''GPU '' @ u32_string g @ label @ sensor @ '' '' @ kind @ outcome"

definition limit_text :: "string \<Rightarrow> string \<Rightarrow> string \<Rightarrow> i64 \<Rightarrow> string \<Rightarrow> i64 \<Rightarrow> string" where
  "limit_text label sensor kind x cmp cur =
     label @ sensor @ '' '' @ kind @ '' '' @ i64_string x @ '' '' @ cmp @ '' than current '' @ kind @ '' '' @ i64_string cur @ ''. ''"

definition check_temperature_level ::
    "smi_diag \<Rightarrow> u32 \<Rightarrow> nat \<Rightarrow> string \<Rightarrow> string \<Rightarrow> (rdc_diag_result \<times> string \<times> string) option" where
  "check_temperature_level d g t msg per_gpu_msg =
     (case get_processor_handle_from_id (dg_smi d) g of
        Inl _ \<Rightarrow> None
      | Inr h \<Rightarrow>
          (case dg_temp d h t AMDSMI_TEMP_CURRENT of (err, cur) \<Rightarrow>
             if err \<noteq> AMDSMI_STATUS_SUCCESS then Some (RDC_DIAG_RESULT_PASS, msg, per_gpu_msg)
             else let T = get_temperature_string d t; kind = ''temperature'';
                      text = (\<lambda>label outcome. info_text g label T kind outcome);
                      (e1, max_temp) = dg_temp d h t AMDSMI_TEMP_MAX;
                      s1 = check_limit e1 (sint max_temp \<le> sint cur) RDC_DIAG_RESULT_WARN
                             (T @ '': '' @ text '' max '' '' exceeds. '') (text '' max '' '' in range. '')
                             (limit_text ''Max '' T kind max_temp ''greater'' cur) (RDC_DIAG_RESULT_PASS, msg, per_gpu_msg);
                      (e2, min_temp) = dg_temp d h t AMDSMI_TEMP_MIN;
                      s2 = check_limit e2 (sint cur \<le> sint min_temp) RDC_DIAG_RESULT_WARN
                             (text '' min '' '' exceeds. '') (text '' min '' '' in range. '')
                             (limit_text ''Min '' T kind min_temp ''less'' cur) s1;
                      (e3, critical_temp) = dg_temp d h t AMDSMI_TEMP_CRITICAL;
                      s3 = check_limit e3 (sint critical_temp \<le> sint cur) RDC_DIAG_RESULT_FAIL
                             (text '' Critical '' '' exceeds. '') (text '' Critical '' '' in range. '')
                             (limit_text ''Critical '' T kind critical_temp ''greater'' cur) s2;
                      (e4, emergency_temp) = dg_temp d h t AMDSMI_TEMP_EMERGENCY;
                      s4 = check_limit e4 (sint critical_temp \<le> sint cur) RDC_DIAG_RESULT_FAIL
                             (text '' Emergency '' '' exceeds. '') (text '' Emergency '' '' in range. '')
                             (limit_text ''Emergency '' T kind emergency_temp ''greater'' cur) s3;
                      (e5, critical_min_temp) = dg_temp d h t AMDSMI_TEMP_CRIT_MIN;
                      (result, info, per_gpu) = check_limit e5 (sint cur \<le> sint critical_min_temp) RDC_DIAG_RESULT_FAIL
                             (text '' Critical Min '' '' exceeds. '') (text '' Critical Min '' '' in range. '')
                             (limit_text ''Critical Min '' T kind critical_min_temp ''less'' cur) s4
                  in Some (result, strncpy_with_null msg info MAX_DIAG_MSG_LENGTH,
                           strncpy_with_null per_gpu_msg per_gpu MAX_DIAG_MSG_LENGTH)))"

definition check_voltage_level ::
    "smi_diag \<Rightarrow> u32 \<Rightarrow> nat \<Rightarrow> string \<Rightarrow> string \<Rightarrow> (rdc_diag_result \<times> string \<times> string) option" where
  "check_voltage_level d g t msg per_gpu_msg =
     (case get_processor_handle_from_id (dg_smi d) g of
        Inl _ \<Rightarrow> None
      | Inr h \<Rightarrow>
          (case dg_volt d (Some h) t AMDSMI_VOLT_CURRENT of (err, cur) \<Rightarrow>
             if err \<noteq> AMDSMI_STATUS_SUCCESS then Some (RDC_DIAG_RESULT_PASS, msg, per_gpu_msg)
             else let V = get_voltage_string d t; kind = ''voltage'';
                      text = (\<lambda>label outcome. info_text g label V kind outcome);
                      (e1, max_volt) = dg_volt d (Some h) t AMDSMI_VOLT_MAX;
                      s1 = check_limit e1 (sint max_volt \<le> sint cur) RDC_DIAG_RESULT_WARN
                             (V @ '': '' @ text '' max '' '' exceeds. '') (text '' max '' '' in range. '')
                             (limit_text ''Max '' V kind max_volt ''greater'' cur) (RDC_DIAG_RESULT_PASS, msg, per_gpu_msg);
                      (e2, min_volt) = dg_volt d (Some h) t AMDSMI_VOLT_MIN;
                      s2 = check_limit e2 (sint cur \<le> sint min_volt) RDC_DIAG_RESULT_WARN
                             (V @ '': '' @ text '' min '' '' exceeds. '') (text '' min '' '' in range. '')
                             (limit_text ''Min '' V kind min_volt ''less'' cur) s1;
                      (e3, critical_max_volt) = dg_volt d None t AMDSMI_VOLT_MAX_CRIT;
                      s3 = check_limit e3 (sint critical_max_volt \<le> sint cur) RDC_DIAG_RESULT_FAIL
                             (V @ '': '' @ text '' Critical  max '' '' exceeds. '') (text '' Critical  max '' '' in range. '')
                             (limit_text ''Critical Max '' V kind critical_max_volt ''greater'' cur) s2;
                      (e4, critical_min_volt) = dg_volt d None t AMDSMI_VOLT_MIN_CRIT;
                      (result, info, per_gpu) = check_limit e4 (sint cur \<le> sint critical_min_volt) RDC_DIAG_RESULT_FAIL
                             (V @ '': '' @ text '' Critical min '' '' exceeds. '') (text '' Critical min '' '' in range. '')
                             (limit_text ''Critical Min '' V kind critical_min_volt ''less'' cur) s3
                  in Some (result, strncpy_with_null msg info MAX_DIAG_MSG_LENGTH,
                           strncpy_with_null per_gpu_msg per_gpu MAX_DIAG_MSG_LENGTH)))"

text \<open>The loop over the sensors of GPU number \<open>i\<close> of the request; the status only rises.\<close>

fun sensor_loop ::
    "(nat \<Rightarrow> string \<Rightarrow> string \<Rightarrow> (rdc_diag_result \<times> string \<times> string) option) \<Rightarrow> nat \<Rightarrow> nat list
     \<Rightarrow> rdc_diag_test_result \<Rightarrow> rdc_diag_test_result option" where
  "sensor_loop check i [] r = Some r"
| "sensor_loop check i (t # ts) r =
     (if length (tr_gpu_results r) \<le> i then None
      else let pg = tr_gpu_results r ! i in
           case check t (tr_info r) (dd_msg (pg_gpu_result pg)) of
             None \<Rightarrow> None
           | Some (status, info, per_gpu) \<Rightarrow>
               sensor_loop check i ts
                 (r\<lparr>tr_status := (if tr_status r < status then status else tr_status r), tr_info := info,
                    tr_gpu_results := (tr_gpu_results r)[i := pg\<lparr>pg_gpu_result := (pg_gpu_result pg)\<lparr>dd_msg := per_gpu\<rparr>\<rparr>]\<rparr>))"

text \<open>After its sensors the number of the GPU goes to the first per-GPU result, as in the source.\<close>

definition count_gpu :: "u32 \<Rightarrow> rdc_diag_test_result \<Rightarrow> rdc_diag_test_result" where
  "count_gpu g r = r\<lparr>tr_gpu_results := (tr_gpu_results r)[0 := (tr_gpu_results r ! 0)\<lparr>pg_gpu_index := g\<rparr>],
     tr_per_gpu_result_count := tr_per_gpu_result_count r + 1\<rparr>"

fun param_loop :: "smi_diag \<Rightarrow> u32 list \<Rightarrow> nat \<Rightarrow> rdc_diag_test_result \<Rightarrow> rdc_diag_test_result option" where
  "param_loop d [] i r = Some r"
| "param_loop d (g # gs) i r =
     Option.bind (sensor_loop (check_temperature_level d g) i [dg_temp_first d..<dg_temp_max d] r) (\<lambda>r1.
       Option.bind (sensor_loop (check_voltage_level d g) i [dg_volt_first d..<dg_volt_last d] r1) (\<lambda>r2.
         param_loop d gs (Suc i) (count_gpu g r2)))"

definition check_smi_param_info ::
    "smi_diag \<Rightarrow> u32 list \<Rightarrow> rdc_diag_test_result option \<Rightarrow> (rdc_status \<times> rdc_diag_test_result option) option" where
  "check_smi_param_info d gpus res = on_result res (\<lambda>_.
     map_option (Pair RDC_ST_OK)
       (param_loop d gpus 0 (empty_result\<lparr>tr_test_case := RDC_DIAG_GPU_PARAMETERS, tr_status := RDC_DIAG_RESULT_PASS\<rparr>)))"

section \<open>Libraries that offer test cases\<close>

text \<open>
  The interface \<^verbatim>\<open>RdcDiagnostic\<close> over the state \<open>'s\<close> behind the libraries; a configuration is
  a string or null.
\<close>

record 's rdc_diagnostic =
  rdc_diag_test_cases_query :: "'s \<Rightarrow> rdc_status \<times> rdc_diag_test_cases list"
  rdc_diag_test_case_run :: "rdc_diag_test_cases \<Rightarrow> u32 list \<Rightarrow> string option \<Rightarrow> rdc_diag_test_result option \<Rightarrow> 's
     \<Rightarrow> (rdc_status \<times> rdc_diag_test_result option \<times> 's) option"
  rdc_diag_init :: "'s \<Rightarrow> rdc_status \<times> 's"
  rdc_diag_destroy :: "'s \<Rightarrow> rdc_status \<times> 's"

definition smi_test_case_run ::
    "smi_diag \<Rightarrow> rdc_diag_test_cases \<Rightarrow> u32 list \<Rightarrow> rdc_diag_test_result option \<Rightarrow> (rdc_status \<times> rdc_diag_test_result option) option" where
  "smi_test_case_run d tc gpus res =
     (if res = None then Some (RDC_ST_BAD_PARAMETER, None)
      else case tc of
             RDC_DIAG_COMPUTE_PROCESS \<Rightarrow> check_smi_process_info d gpus res
           | RDC_DIAG_NODE_TOPOLOGY \<Rightarrow> check_smi_topo_info d gpus res
           | RDC_DIAG_GPU_PARAMETERS \<Rightarrow> check_smi_param_info d gpus res
           | _ \<Rightarrow> Some (RDC_ST_NOT_SUPPORTED, res))"

definition smi_test_cases :: "rdc_diag_test_cases list" where
  "smi_test_cases = [RDC_DIAG_COMPUTE_PROCESS, RDC_DIAG_NODE_TOPOLOGY, RDC_DIAG_GPU_PARAMETERS]"

definition smi_diag_lib :: "smi_diag \<Rightarrow> 's rdc_diagnostic" where
  "smi_diag_lib d = \<lparr>rdc_diag_test_cases_query = (\<lambda>_. (RDC_ST_OK, smi_test_cases)),
     rdc_diag_test_case_run = (\<lambda>tc gpus _ res s. map_option (\<lambda>(st, r). (st, r, s)) (smi_test_case_run d tc gpus res)),
     rdc_diag_init = Pair RDC_ST_OK, rdc_diag_destroy = Pair RDC_ST_OK\<rparr>"

section \<open>The diagnostic module\<close>

record diagnostic_module =
  dm_modules :: "nat list"
  dm_testcases_to_module :: "(rdc_diag_test_cases, nat) smap"

definition register_tests ::
    "(nat \<Rightarrow> 's rdc_diagnostic) \<Rightarrow> 's \<Rightarrow> nat \<Rightarrow> (rdc_diag_test_cases, nat) smap \<Rightarrow> (rdc_diag_test_cases, nat) smap" where
  "register_tests libs s a m =
     (case rdc_diag_test_cases_query (libs a) s of (st, tcs) \<Rightarrow>
        if st = RDC_ST_OK then fold (\<lambda>tc. map_insert tc a) tcs m else m)"

definition new_diagnostic_module :: "(nat \<Rightarrow> 's rdc_diagnostic) \<Rightarrow> 's \<Rightarrow> nat list \<Rightarrow> diagnostic_module" where
  "new_diagnostic_module libs s mods = \<lparr>dm_modules = mods, dm_testcases_to_module = fold (register_tests libs s) mods []\<rparr>"

text \<open>The arrays of the callers have \<^const>\<open>MAX_TEST_CASES\<close> elements; the libraries write behind one another.\<close>

definition diag_test_cases_query :: "(nat \<Rightarrow> 's rdc_diagnostic) \<Rightarrow> diagnostic_module \<Rightarrow> 's \<Rightarrow> (rdc_status \<times> rdc_diag_test_cases list) option" where
  "diag_test_cases_query libs dm s =
     (let tcs = concat (map (\<lambda>a. case rdc_diag_test_cases_query (libs a) s of (st, l) \<Rightarrow> if st = RDC_ST_OK then l else []) (dm_modules dm))
      in if MAX_TEST_CASES < length tcs then None else Some (RDC_ST_OK, tcs))"

definition module_test_case_run ::
    "(nat \<Rightarrow> 's rdc_diagnostic) \<Rightarrow> diagnostic_module \<Rightarrow> rdc_diag_test_cases \<Rightarrow> u32 list \<Rightarrow> string option \<Rightarrow> rdc_diag_test_result option \<Rightarrow> 's
     \<Rightarrow> (rdc_status \<times> rdc_diag_test_result option \<times> 's) option" where
  "module_test_case_run libs dm tc gpus config res s =
     (case res of
        None \<Rightarrow> Some (RDC_ST_BAD_PARAMETER, None, s)
      | Some r \<Rightarrow>
          (case map_of (dm_testcases_to_module dm) tc of
             None \<Rightarrow> Some (RDC_ST_NOT_SUPPORTED, Some (put_info ''Not implemented'' (r\<lparr>tr_status := RDC_DIAG_RESULT_SKIP\<rparr>)), s)
           | Some a \<Rightarrow> rdc_diag_test_case_run (libs a) tc gpus config res s))"

definition level_tests :: "rdc_diag_level \<Rightarrow> rdc_diag_test_cases list" where
  "level_tests level =
     (if RDC_DIAG_LVL_SHORT \<le> level
      then [RDC_DIAG_COMPUTE_PROCESS, RDC_DIAG_NODE_TOPOLOGY, RDC_DIAG_GPU_PARAMETERS, RDC_DIAG_COMPUTE_QUEUE, RDC_DIAG_SYS_MEM_CHECK]
      else [])
     @ (if RDC_DIAG_LVL_MED \<le> level then [RDC_DIAG_RVS_TEST] else [])"

text \<open>The pointer a library gets is not null and stays so; the null case below does not arise.\<close>

fun run_tests ::
    "(nat \<Rightarrow> 's rdc_diagnostic) \<Rightarrow> diagnostic_module \<Rightarrow> u32 list \<Rightarrow> string option \<Rightarrow> nat \<Rightarrow> rdc_diag_test_cases list
     \<Rightarrow> rdc_diag_response \<times> 's \<Rightarrow> (rdc_diag_response \<times> 's) option" where
  "run_tests libs dm gpus config i [] r = Some r"
| "run_tests libs dm gpus config i (tc # tcs) (resp, s) =
     (if length (rp_diag_info resp) \<le> i then None
      else case module_test_case_run libs dm tc gpus config (Some ((rp_diag_info resp ! i)\<lparr>tr_test_case := tc\<rparr>)) s of
             None \<Rightarrow> None
           | Some (_, None, s') \<Rightarrow> None
           | Some (_, Some r, s') \<Rightarrow>
               run_tests libs dm gpus config (Suc i) tcs
                 (resp\<lparr>rp_diag_info := (rp_diag_info resp)[i := r], rp_results_count := rp_results_count resp + 1\<rparr>, s'))"

definition module_diagnostic_run ::
    "(nat \<Rightarrow> 's rdc_diagnostic) \<Rightarrow> diagnostic_module \<Rightarrow> rdc_group_info \<Rightarrow> rdc_diag_level \<Rightarrow> string option \<Rightarrow> rdc_diag_response option \<Rightarrow> 's
     \<Rightarrow> (rdc_status \<times> rdc_diag_response option \<times> 's) option" where
  "module_diagnostic_run libs dm gpus level config response s =
     (case response of
        None \<Rightarrow> Some (RDC_ST_BAD_PARAMETER, None, s)
      | Some resp \<Rightarrow>
          map_option (\<lambda>(resp', s'). (RDC_ST_OK, Some resp', s'))
            (run_tests libs dm (entity_ids gpus) config 0 (level_tests level) (resp\<lparr>rp_results_count := 0\<rparr>, s)))"

definition module_diag_init :: "(nat \<Rightarrow> 's rdc_diagnostic) \<Rightarrow> diagnostic_module \<Rightarrow> 's \<Rightarrow> rdc_status \<times> 's" where
  "module_diag_init libs dm s = (RDC_ST_OK, fold (\<lambda>a s. snd (rdc_diag_init (libs a) s)) (dm_modules dm) s)"

definition module_diag_destroy :: "(nat \<Rightarrow> 's rdc_diagnostic) \<Rightarrow> diagnostic_module \<Rightarrow> 's \<Rightarrow> rdc_status \<times> 's" where
  "module_diag_destroy libs dm s = (RDC_ST_OK, fold (\<lambda>a s. snd (rdc_diag_destroy (libs a) s)) (dm_modules dm) s)"

section \<open>Verdicts\<close>

text \<open>The verdict that the limits ask for, read off the answers of the library.\<close>

definition temp_fails :: "smi_diag \<Rightarrow> processor_handle \<Rightarrow> nat \<Rightarrow> bool" where
  "temp_fails d h t \<longleftrightarrow> (let cur = sint (snd (dg_temp d h t AMDSMI_TEMP_CURRENT));
       ok = (\<lambda>m. fst (dg_temp d h t m) = AMDSMI_STATUS_SUCCESS); x = (\<lambda>m. sint (snd (dg_temp d h t m))) in
     (ok AMDSMI_TEMP_CRITICAL \<or> ok AMDSMI_TEMP_EMERGENCY) \<and> x AMDSMI_TEMP_CRITICAL \<le> cur
     \<or> ok AMDSMI_TEMP_CRIT_MIN \<and> cur \<le> x AMDSMI_TEMP_CRIT_MIN)"

definition temp_warns :: "smi_diag \<Rightarrow> processor_handle \<Rightarrow> nat \<Rightarrow> bool" where
  "temp_warns d h t \<longleftrightarrow> (let cur = sint (snd (dg_temp d h t AMDSMI_TEMP_CURRENT));
       ok = (\<lambda>m. fst (dg_temp d h t m) = AMDSMI_STATUS_SUCCESS); x = (\<lambda>m. sint (snd (dg_temp d h t m))) in
     ok AMDSMI_TEMP_MAX \<and> x AMDSMI_TEMP_MAX \<le> cur \<or> ok AMDSMI_TEMP_MIN \<and> cur \<le> x AMDSMI_TEMP_MIN)"

definition temp_verdict :: "smi_diag \<Rightarrow> processor_handle \<Rightarrow> nat \<Rightarrow> rdc_diag_result" where
  "temp_verdict d h t =
     (if fst (dg_temp d h t AMDSMI_TEMP_CURRENT) \<noteq> AMDSMI_STATUS_SUCCESS then RDC_DIAG_RESULT_PASS
      else if temp_fails d h t then RDC_DIAG_RESULT_FAIL
      else if temp_warns d h t then RDC_DIAG_RESULT_WARN else RDC_DIAG_RESULT_PASS)"

lemma fst_check_limit:
  "fst (check_limit err b v a c g s) = (if err = AMDSMI_STATUS_SUCCESS \<and> b then v else fst s)"
  by (simp add: check_limit_def split: prod.split)

lemma check_temperature_level_verdict:
  assumes "get_processor_handle_from_id (dg_smi d) g = Inr h"
  shows "\<exists>info per. check_temperature_level d g t msg pmsg = Some (temp_verdict d h t, info, per)"
  using assms
  by (simp add: check_temperature_level_def temp_verdict_def temp_fails_def temp_warns_def Let_def case_prod_unfold fst_check_limit)

definition volt_fails :: "smi_diag \<Rightarrow> processor_handle \<Rightarrow> nat \<Rightarrow> bool" where
  "volt_fails d h t \<longleftrightarrow> (let cur = sint (snd (dg_volt d (Some h) t AMDSMI_VOLT_CURRENT));
       ok = (\<lambda>m. fst (dg_volt d None t m) = AMDSMI_STATUS_SUCCESS); x = (\<lambda>m. sint (snd (dg_volt d None t m))) in
     ok AMDSMI_VOLT_MAX_CRIT \<and> x AMDSMI_VOLT_MAX_CRIT \<le> cur \<or> ok AMDSMI_VOLT_MIN_CRIT \<and> cur \<le> x AMDSMI_VOLT_MIN_CRIT)"

definition volt_warns :: "smi_diag \<Rightarrow> processor_handle \<Rightarrow> nat \<Rightarrow> bool" where
  "volt_warns d h t \<longleftrightarrow> (let cur = sint (snd (dg_volt d (Some h) t AMDSMI_VOLT_CURRENT));
       ok = (\<lambda>m. fst (dg_volt d (Some h) t m) = AMDSMI_STATUS_SUCCESS); x = (\<lambda>m. sint (snd (dg_volt d (Some h) t m))) in
     ok AMDSMI_VOLT_MAX \<and> x AMDSMI_VOLT_MAX \<le> cur \<or> ok AMDSMI_VOLT_MIN \<and> cur \<le> x AMDSMI_VOLT_MIN)"

definition volt_verdict :: "smi_diag \<Rightarrow> processor_handle \<Rightarrow> nat \<Rightarrow> rdc_diag_result" where
  "volt_verdict d h t =
     (if fst (dg_volt d (Some h) t AMDSMI_VOLT_CURRENT) \<noteq> AMDSMI_STATUS_SUCCESS then RDC_DIAG_RESULT_PASS
      else if volt_fails d h t then RDC_DIAG_RESULT_FAIL
      else if volt_warns d h t then RDC_DIAG_RESULT_WARN else RDC_DIAG_RESULT_PASS)"

lemma check_voltage_level_verdict:
  assumes "get_processor_handle_from_id (dg_smi d) g = Inr h"
  shows "\<exists>info per. check_voltage_level d g t msg pmsg = Some (volt_verdict d h t, info, per)"
  using assms
  by (simp add: check_voltage_level_def volt_verdict_def volt_fails_def volt_warns_def Let_def case_prod_unfold fst_check_limit)

text \<open>What a loop over sensors keeps of a result.\<close>

definition same_gpus :: "rdc_diag_test_result \<Rightarrow> rdc_diag_test_result \<Rightarrow> bool" where
  "same_gpus r r' \<longleftrightarrow> map pg_gpu_index (tr_gpu_results r') = map pg_gpu_index (tr_gpu_results r)
     \<and> tr_per_gpu_result_count r' = tr_per_gpu_result_count r \<and> tr_test_case r' = tr_test_case r"

lemma same_gpus_length: "same_gpus r r' \<Longrightarrow> length (tr_gpu_results r') = length (tr_gpu_results r)"
  unfolding same_gpus_def by (metis length_map)

lemma sensor_loop_worst:
  assumes "\<And>t msg p. \<exists>info per. check t msg p = Some (v t, info, per)" and "i < length (tr_gpu_results r)"
  shows "\<exists>r'. sensor_loop check i ts r = Some r' \<and> same_gpus r r' \<and> tr_status r' = fold max (map v ts) (tr_status r)"
  using assms(2)
proof (induction ts arbitrary: r)
  case Nil
  then show ?case by (simp add: same_gpus_def)
next
  case (Cons t ts)
  let ?pg = "tr_gpu_results r ! i"
  obtain info per where c: "check t (tr_info r) (dd_msg (pg_gpu_result ?pg)) = Some (v t, info, per)"
    using assms(1) by blast
  let ?r = "r\<lparr>tr_status := max (v t) (tr_status r), tr_info := info,
    tr_gpu_results := (tr_gpu_results r)[i := ?pg\<lparr>pg_gpu_result := (pg_gpu_result ?pg)\<lparr>dd_msg := per\<rparr>\<rparr>]\<rparr>"
  have "same_gpus r ?r" using Cons.prems by (auto simp: same_gpus_def map_update nth_list_update intro!: nth_equalityI)
  moreover have "(if tr_status r < v t then v t else tr_status r) = max (v t) (tr_status r)" by (auto simp: max_def)
  then have "sensor_loop check i (t # ts) r = sensor_loop check i ts ?r"
    using c Cons.prems by (simp add: Let_def)
  moreover have "i < length (tr_gpu_results ?r)" using Cons.prems by simp
  ultimately show ?case using Cons.IH [of ?r] by (auto simp: same_gpus_def)
qed

definition gpu_verdicts :: "smi_diag \<Rightarrow> u32 \<Rightarrow> rdc_diag_result list" where
  "gpu_verdicts d g =
     (case get_processor_handle_from_id (dg_smi d) g of
        Inl _ \<Rightarrow> []
      | Inr h \<Rightarrow> map (temp_verdict d h) [dg_temp_first d..<dg_temp_max d] @ map (volt_verdict d h) [dg_volt_first d..<dg_volt_last d])"

lemma param_step:
  assumes h: "get_processor_handle_from_id (dg_smi d) g = Inr h" and i: "i < length (tr_gpu_results r)"
  shows "\<exists>r'. param_loop d (g # gs) i r = param_loop d gs (Suc i) (count_gpu g r') \<and> same_gpus r r'
    \<and> tr_status r' = fold max (gpu_verdicts d g) (tr_status r)"
proof -
  obtain r1 where r1: "sensor_loop (check_temperature_level d g) i [dg_temp_first d..<dg_temp_max d] r = Some r1"
    "same_gpus r r1" "tr_status r1 = fold max (map (temp_verdict d h) [dg_temp_first d..<dg_temp_max d]) (tr_status r)"
    using sensor_loop_worst [of "check_temperature_level d g" "temp_verdict d h", OF check_temperature_level_verdict [OF h] i] by blast
  then have i1: "i < length (tr_gpu_results r1)" using i same_gpus_length by simp
  obtain r2 where r2: "sensor_loop (check_voltage_level d g) i [dg_volt_first d..<dg_volt_last d] r1 = Some r2"
    "same_gpus r1 r2" "tr_status r2 = fold max (map (volt_verdict d h) [dg_volt_first d..<dg_volt_last d]) (tr_status r1)"
    using sensor_loop_worst [of "check_voltage_level d g" "volt_verdict d h", OF check_voltage_level_verdict [OF h] i1] by blast
  show ?thesis using r1 r2 h by (intro exI [of _ r2]) (simp add: same_gpus_def gpu_verdicts_def)
qed

lemma count_gpu_simps [simp]:
  "tr_status (count_gpu g r) = tr_status r" "tr_test_case (count_gpu g r) = tr_test_case r"
  "length (tr_gpu_results (count_gpu g r)) = length (tr_gpu_results r)"
  "tr_per_gpu_result_count (count_gpu g r) = tr_per_gpu_result_count r + 1"
  "map pg_gpu_index (tr_gpu_results (count_gpu g r)) = (map pg_gpu_index (tr_gpu_results r))[0 := g]"
  by (simp_all add: count_gpu_def map_update)

lemma param_loop_worst:
  assumes "\<forall>g\<in>set gs. \<exists>h. get_processor_handle_from_id (dg_smi d) g = Inr h"
    and "i + length gs \<le> length (tr_gpu_results r)"
  shows "\<exists>r'. param_loop d gs i r = Some r' \<and> tr_test_case r' = tr_test_case r
    \<and> tr_status r' = fold max (concat (map (gpu_verdicts d) gs)) (tr_status r)
    \<and> tr_per_gpu_result_count r' = tr_per_gpu_result_count r + of_nat (length gs)
    \<and> map pg_gpu_index (tr_gpu_results r') =
        (if gs = [] then map pg_gpu_index (tr_gpu_results r) else (map pg_gpu_index (tr_gpu_results r))[0 := last gs])"
  using assms
proof (induction gs arbitrary: i r)
  case Nil
  then show ?case by simp
next
  case (Cons g gs)
  from Cons.prems obtain h where "get_processor_handle_from_id (dg_smi d) g = Inr h" by auto
  moreover have "i < length (tr_gpu_results r)" using Cons.prems by simp
  ultimately obtain r1 where r1: "param_loop d (g # gs) i r = param_loop d gs (Suc i) (count_gpu g r1)" "same_gpus r r1"
    "tr_status r1 = fold max (gpu_verdicts d g) (tr_status r)" using param_step by blast
  then have "Suc i + length gs \<le> length (tr_gpu_results (count_gpu g r1))" using Cons.prems same_gpus_length by simp
  with Cons.IH [of "Suc i" "count_gpu g r1"] Cons.prems(1) r1 show ?case
    by (auto simp: same_gpus_def)
qed

lemma fold_max_PASS: "fold max vs RDC_DIAG_RESULT_PASS = Max (insert RDC_DIAG_RESULT_PASS (set vs))"
  using Max.set_eq_fold [of RDC_DIAG_RESULT_PASS vs] by simp

lemma length_empty_result [simp]: "length (tr_gpu_results empty_result) = RDC_MAX_NUM_DEVICES"
  by (simp add: empty_result_def)

lemma param_info_lemma:
  assumes "\<forall>g\<in>set gpus. \<exists>h. get_processor_handle_from_id (dg_smi d) g = Inr h" and "length gpus \<le> RDC_MAX_NUM_DEVICES"
  shows "\<exists>r'. check_smi_param_info d gpus (Some r) = Some (RDC_ST_OK, Some r')
    \<and> tr_test_case r' = RDC_DIAG_GPU_PARAMETERS
    \<and> tr_status r' = Max (insert RDC_DIAG_RESULT_PASS (set (concat (map (gpu_verdicts d) gpus))))
    \<and> tr_per_gpu_result_count r' = of_nat (length gpus)
    \<and> map pg_gpu_index (tr_gpu_results r') =
        (if gpus = [] then replicate RDC_MAX_NUM_DEVICES 0 else (replicate RDC_MAX_NUM_DEVICES 0)[0 := last gpus])"
proof -
  let ?r = "empty_result\<lparr>tr_test_case := RDC_DIAG_GPU_PARAMETERS, tr_status := RDC_DIAG_RESULT_PASS\<rparr>"
  have "0 + length gpus \<le> length (tr_gpu_results ?r)" using assms(2) by simp
  from param_loop_worst [OF assms(1) this] obtain r' where "param_loop d gpus 0 ?r = Some r'"
    "tr_test_case r' = tr_test_case ?r" "tr_status r' = fold max (concat (map (gpu_verdicts d) gpus)) (tr_status ?r)"
    "tr_per_gpu_result_count r' = tr_per_gpu_result_count ?r + of_nat (length gpus)"
    "map pg_gpu_index (tr_gpu_results r') = (if gpus = [] then map pg_gpu_index (tr_gpu_results ?r)
       else (map pg_gpu_index (tr_gpu_results ?r))[0 := last gpus])" by blast
  then show ?thesis
    by (intro exI [of _ r']) (simp add: check_smi_param_info_def on_result_def fold_max_PASS, simp add: empty_result_def)
qed

subsection \<open>Processes\<close>

definition occupied :: "smi_diag \<Rightarrow> process_info list \<Rightarrow> u32 \<Rightarrow> bool" where
  "occupied d ps g \<longleftrightarrow> (\<exists>p\<in>set ps. pr_cu_occupancy p \<noteq> 0
     \<and> (case dg_process_gpu_count d (pr_process_id p) of (err, n) \<Rightarrow> err = AMDSMI_STATUS_SUCCESS \<and> n \<noteq> 0
        \<and> fst (dg_process_gpus d (pr_process_id p) n) = AMDSMI_STATUS_SUCCESS \<and> g \<in> set (snd (dg_process_gpus d (pr_process_id p) n))))"

definition lists_fit :: "smi_diag \<Rightarrow> process_info list \<Rightarrow> bool" where
  "lists_fit d ps \<longleftrightarrow> (\<forall>p\<in>set ps. length (snd (dg_process_gpus d (pr_process_id p) (snd (dg_process_gpu_count d (pr_process_id p)))))
     \<le> unat (snd (dg_process_gpu_count d (pr_process_id p))))"

lemma map_of_add_pids: "map_of (fold (add_pid pid) gs m) g \<noteq> None \<longleftrightarrow> map_of m g \<noteq> None \<or> g \<in> set gs"
  by (induction gs arbitrary: m) (auto simp: add_pid_def map_of_map_insert split: if_splits option.splits)

lemma process_loop_occupied:
  assumes "lists_fit d ps"
  shows "\<exists>info m'. process_loop d ps (i, m) = Some (info, m') \<and> (\<forall>g. map_of m' g \<noteq> None \<longleftrightarrow> map_of m g \<noteq> None \<or> occupied d ps g)"
  using assms
proof (induction ps arbitrary: i m)
  case Nil
  then show ?case by (simp add: occupied_def)
next
  case (Cons p ps)
  then have "lists_fit d ps" by (simp add: lists_fit_def)
  note IH = Cons.IH [OF this]
  obtain e1 n where c: "dg_process_gpu_count d (pr_process_id p) = (e1, n)" by fastforce
  obtain e2 gs where q: "dg_process_gpus d (pr_process_id p) n = (e2, gs)" by fastforce
  have fit: "\<not> unat n < length gs" using Cons.prems c q by (simp add: lists_fit_def)
  let ?busy = "pr_cu_occupancy p \<noteq> 0 \<and> e1 = AMDSMI_STATUS_SUCCESS \<and> n \<noteq> 0 \<and> e2 = AMDSMI_STATUS_SUCCESS"
  have occ: "occupied d (p # ps) g \<longleftrightarrow> ?busy \<and> g \<in> set gs \<or> occupied d ps g" for g
    using c q by (auto simp: occupied_def)
  show ?case
  proof (cases ?busy)
    case True
    with fit c q have "process_loop d (p # ps) (i, m) = process_loop d ps (i @ process_text p, fold (add_pid (pr_process_id p)) gs m)"
      by simp
    with IH [of "i @ process_text p" "fold (add_pid (pr_process_id p)) gs m"] True show ?thesis
      by (auto simp: occ map_of_add_pids simp del: not_None_eq)
  next
    case False
    let ?i = "if pr_cu_occupancy p = 0 then i else i @ process_text p"
    have "process_loop d (p # ps) (i, m) = process_loop d ps (?i, m)"
      using False c q by (cases "pr_cu_occupancy p = 0") (auto simp: Let_def)
    with IH [of ?i m] False show ?thesis by (auto simp: occ)
  qed
qed

lemma process_results_total:
  assumes "length (tr_gpu_results r) = RDC_MAX_NUM_DEVICES" and "unat (tr_per_gpu_result_count r) < RDC_MAX_NUM_DEVICES"
  shows "\<exists>r'. process_results m r = Some r' \<and> tr_status r' = tr_status r"
  using assms
proof (induction m r rule: process_results.induct)
  case (2 g pids m r)
  have "unat (tr_per_gpu_result_count r + 1) = Suc (unat (tr_per_gpu_result_count r))"
    using "2.prems"(2) by (simp add: unat_word_ariths RDC_MAX_NUM_DEVICES_def)
  with 2 show ?case by (auto simp: Let_def)
qed simp

lemma process_info_lemma:
  assumes "dg_process_count d = (AMDSMI_STATUS_SUCCESS, n)" and "n \<noteq> 0"
    and "dg_process_info d n = (AMDSMI_STATUS_SUCCESS, procs)" and "length procs \<le> unat n" and "lists_fit d procs"
  shows "\<exists>r'. check_smi_process_info d gpus (Some r) = Some (RDC_ST_OK, Some r')
    \<and> tr_status r' = (if \<exists>g\<in>set gpus. occupied d procs g then RDC_DIAG_RESULT_FAIL else RDC_DIAG_RESULT_PASS)"
proof -
  from process_loop_occupied [OF assms(5), of "[]" "[]"] obtain info m where
    l: "process_loop d procs ([], []) = Some (info, m)" and o: "\<And>g. map_of m g \<noteq> None \<longleftrightarrow> occupied d procs g" by auto
  let ?r1 = "empty_result\<lparr>tr_test_case := RDC_DIAG_COMPUTE_PROCESS, tr_status := RDC_DIAG_RESULT_PASS\<rparr>"
  let ?r2 = "put_info info (if \<exists>g\<in>set gpus. map_of m g \<noteq> None then ?r1\<lparr>tr_status := RDC_DIAG_RESULT_FAIL\<rparr> else ?r1)"
  have "length (tr_gpu_results ?r2) = RDC_MAX_NUM_DEVICES" "unat (tr_per_gpu_result_count ?r2) < RDC_MAX_NUM_DEVICES"
    by (simp_all add: put_info_def empty_result_def RDC_MAX_NUM_DEVICES_def)
  from process_results_total [OF this] obtain r' where
    r': "process_results m ?r2 = Some r'" "tr_status r' = tr_status ?r2" by blast
  have st: "tr_status ?r2 = (if \<exists>g\<in>set gpus. occupied d procs g then RDC_DIAG_RESULT_FAIL else RDC_DIAG_RESULT_PASS)"
    by (simp add: put_info_def flip: o)
  show ?thesis
  proof (cases "m = []")
    case True
    then have "\<not> occupied d procs g" for g using o [of g] by simp
    with True assms l show ?thesis
      by (simp add: check_smi_process_info_def on_result_def put_info_def)
  next
    case False
    with assms l r' st show ?thesis
      by (intro exI [of _ r']) (simp add: check_smi_process_info_def on_result_def)
  qed
qed

subsection \<open>Test cases\<close>

text \<open>
  The contract of a library that runs test cases: on a request it is ready for, a run with a
  result pointer ends without undefined behaviour and leaves a result there.
\<close>

locale test_runner =
  fixes run :: "rdc_diag_test_cases \<Rightarrow> u32 list \<Rightarrow> string option \<Rightarrow> rdc_diag_test_result option \<Rightarrow> 's
      \<Rightarrow> (rdc_status \<times> rdc_diag_test_result option \<times> 's) option"
    and ready :: "rdc_diag_test_cases \<Rightarrow> u32 list \<Rightarrow> bool"
  assumes run_result: "ready tc gpus \<Longrightarrow> \<exists>st r' s'. run tc gpus config (Some r) s = Some (st, Some r', s')"

text \<open>What the checks of the SMI library need: known GPUs, at most 128, and process lists that fit.\<close>

definition smi_diag_ready :: "smi_diag \<Rightarrow> rdc_diag_test_cases \<Rightarrow> u32 list \<Rightarrow> bool" where
  "smi_diag_ready d tc gpus \<longleftrightarrow> (\<forall>g\<in>set gpus. \<exists>h. get_processor_handle_from_id (dg_smi d) g = Inr h)
     \<and> length gpus \<le> RDC_MAX_NUM_DEVICES
     \<and> (case dg_process_info d (snd (dg_process_count d)) of (_, procs) \<Rightarrow>
          length procs \<le> unat (snd (dg_process_count d)) \<and> lists_fit d procs)"

lemma process_info_total:
  assumes "smi_diag_ready d tc gpus"
  shows "\<exists>st r'. check_smi_process_info d gpus (Some r) = Some (st, Some r')"
proof -
  obtain e n where c: "dg_process_count d = (e, n)" by fastforce
  obtain e' procs where q: "dg_process_info d n = (e', procs)" by fastforce
  show ?thesis
  proof (cases "e = AMDSMI_STATUS_SUCCESS \<and> n \<noteq> 0 \<and> e' = AMDSMI_STATUS_SUCCESS")
    case True
    with assms c q have "length procs \<le> unat n" "lists_fit d procs" by (simp_all add: smi_diag_ready_def)
    with True c q process_info_lemma [of d n procs gpus r] show ?thesis by auto
  next
    case False
    with c q show ?thesis by (auto simp: check_smi_process_info_def on_result_def Let_def)
  qed
qed

lemma topo_info_total: "\<exists>st r'. check_smi_topo_info d gpus (Some r) = Some (st, Some r')"
  by (auto simp: check_smi_topo_info_def on_result_def Let_def split: sum.split)

interpretation smi_tests: test_runner "rdc_diag_test_case_run (smi_diag_lib d)" "smi_diag_ready d" for d
proof
  fix tc gpus config r and s :: 's
  assume ready: "smi_diag_ready d tc gpus"
  have "\<exists>st r'. smi_test_case_run d tc gpus (Some r) = Some (st, Some r')"
    using process_info_total [OF ready] topo_info_total param_info_lemma [of gpus d r] ready
    by (auto simp: smi_test_case_run_def smi_diag_ready_def split: rdc_diag_test_cases.split)
  then show "\<exists>st r' s'. rdc_diag_test_case_run (smi_diag_lib d) tc gpus config (Some r) s = Some (st, Some r', s')"
    by (auto simp: smi_diag_lib_def)
qed

text \<open>The result a test case gets from the module.\<close>

definition answered ::
    "(nat \<Rightarrow> 's rdc_diagnostic) \<Rightarrow> diagnostic_module \<Rightarrow> u32 list \<Rightarrow> string option \<Rightarrow> rdc_diag_test_cases
     \<Rightarrow> rdc_diag_test_result \<Rightarrow> rdc_diag_test_result \<Rightarrow> bool" where
  "answered libs dm gpus config tc r r' \<longleftrightarrow>
     (case map_of (dm_testcases_to_module dm) tc of
        None \<Rightarrow> r' = r\<lparr>tr_test_case := tc, tr_status := RDC_DIAG_RESULT_SKIP, tr_info := ''Not implemented''\<rparr>
      | Some a \<Rightarrow> \<exists>st s s'. rdc_diag_test_case_run (libs a) tc gpus config (Some (r\<lparr>tr_test_case := tc\<rparr>)) s = Some (st, Some r', s'))"

lemma module_test_case_run_answered:
  assumes "\<And>a. test_runner (rdc_diag_test_case_run (libs a)) (ready a)"
    and "\<And>a. map_of (dm_testcases_to_module dm) tc = Some a \<Longrightarrow> ready a tc gpus"
  shows "\<exists>st r' s'. module_test_case_run libs dm tc gpus config (Some (r\<lparr>tr_test_case := tc\<rparr>)) s = Some (st, Some r', s')
    \<and> answered libs dm gpus config tc r r'"
proof (cases "map_of (dm_testcases_to_module dm) tc")
  case None
  then show ?thesis
    by (simp add: module_test_case_run_def answered_def put_info_def strncpy_with_null_def MAX_DIAG_MSG_LENGTH_def)
next
  case (Some a)
  from test_runner.run_result [OF assms(1) assms(2) [OF Some], of config "r\<lparr>tr_test_case := tc\<rparr>" s]
  obtain st r' s' where run: "rdc_diag_test_case_run (libs a) tc gpus config (Some (r\<lparr>tr_test_case := tc\<rparr>)) s = Some (st, Some r', s')"
    by blast
  with Some have "answered libs dm gpus config tc r r'" unfolding answered_def by auto
  with run Some show ?thesis by (simp add: module_test_case_run_def)
qed

lemma run_tests_answers:
  assumes "\<And>a. test_runner (rdc_diag_test_case_run (libs a)) (ready a)"
    and "\<And>a tc. tc \<in> set tcs \<Longrightarrow> map_of (dm_testcases_to_module dm) tc = Some a \<Longrightarrow> ready a tc gpus"
    and "i + length tcs \<le> length (rp_diag_info resp)"
  shows "\<exists>resp' s'. run_tests libs dm gpus config i tcs (resp, s) = Some (resp', s')
    \<and> rp_results_count resp' = rp_results_count resp + of_nat (length tcs)
    \<and> length (rp_diag_info resp') = length (rp_diag_info resp)
    \<and> (\<forall>k<length (rp_diag_info resp). if i \<le> k \<and> k < i + length tcs
         then answered libs dm gpus config (tcs ! (k - i)) (rp_diag_info resp ! k) (rp_diag_info resp' ! k)
         else rp_diag_info resp' ! k = rp_diag_info resp ! k)"
  using assms(2,3)
proof (induction tcs arbitrary: i resp s)
  case Nil
  then show ?case by auto
next
  case (Cons tc tcs)
  from module_test_case_run_answered [where libs = libs and dm = dm and ready = ready and tc = tc and config = config and r = "rp_diag_info resp ! i" and s = s, OF assms(1) Cons.prems(1)]
  obtain st r s1 where run: "module_test_case_run libs dm tc gpus config (Some ((rp_diag_info resp ! i)\<lparr>tr_test_case := tc\<rparr>)) s = Some (st, Some r, s1)"
    and ans: "answered libs dm gpus config tc (rp_diag_info resp ! i) r" by auto
  let ?resp = "resp\<lparr>rp_diag_info := (rp_diag_info resp)[i := r], rp_results_count := rp_results_count resp + 1\<rparr>"
  have step: "run_tests libs dm gpus config i (tc # tcs) (resp, s) = run_tests libs dm gpus config (Suc i) tcs (?resp, s1)"
    using run Cons.prems(2) by simp
  from Cons.IH [of "Suc i" ?resp s1] Cons.prems obtain resp' s' where
    rest: "run_tests libs dm gpus config (Suc i) tcs (?resp, s1) = Some (resp', s')"
    and cnt: "rp_results_count resp' = rp_results_count ?resp + of_nat (length tcs)"
    and len: "length (rp_diag_info resp') = length (rp_diag_info ?resp)"
    and all: "\<forall>k<length (rp_diag_info ?resp). if Suc i \<le> k \<and> k < Suc i + length tcs
         then answered libs dm gpus config (tcs ! (k - Suc i)) (rp_diag_info ?resp ! k) (rp_diag_info resp' ! k)
         else rp_diag_info resp' ! k = rp_diag_info ?resp ! k" by auto
  have "if i \<le> k \<and> k < i + length (tc # tcs)
      then answered libs dm gpus config ((tc # tcs) ! (k - i)) (rp_diag_info resp ! k) (rp_diag_info resp' ! k)
      else rp_diag_info resp' ! k = rp_diag_info resp ! k" if k: "k < length (rp_diag_info resp)" for k
    using all [rule_format, of k] k ans by (cases "k = i") (auto simp: nth_Cons' split: if_splits)
  with step rest cnt len show ?case by auto
qed

section \<open>Properties\<close>

text \<open>A node with two GPUs, one busy process on GPU 0, and an edge sensor without a critical limit.\<close>

definition demo_temp :: "temp_metric \<Rightarrow> amdsmi_status \<times> i64" where
  "demo_temp m = (case m of AMDSMI_TEMP_CURRENT \<Rightarrow> (AMDSMI_STATUS_SUCCESS, 40) | AMDSMI_TEMP_MAX \<Rightarrow> (AMDSMI_STATUS_SUCCESS, 90)
     | AMDSMI_TEMP_EMERGENCY \<Rightarrow> (AMDSMI_STATUS_SUCCESS, 105) | _ \<Rightarrow> (AMDSMI_STATUS_NOT_SUPPORTED, 0))"

definition demo_diag :: smi_diag where
  "demo_diag = \<lparr>dg_smi = two_gpu_smi, dg_status_code = (\<lambda>_. 1), dg_process_count = (AMDSMI_STATUS_SUCCESS, 1),
     dg_process_info = (\<lambda>_. (AMDSMI_STATUS_SUCCESS,
        [\<lparr>pr_process_id = 42, pr_pasid = 7, pr_vram_usage = 0, pr_sdma_usage = 0, pr_cu_occupancy = 3\<rparr>])),
     dg_process_gpu_count = (\<lambda>_. (AMDSMI_STATUS_SUCCESS, 1)), dg_process_gpus = (\<lambda>_ _. (AMDSMI_STATUS_SUCCESS, [0])),
     dg_link_weight = (\<lambda>_ _. (AMDSMI_STATUS_SUCCESS, 15)), dg_temp = (\<lambda>_ _. demo_temp),
     dg_volt = (\<lambda>_ _ _. (AMDSMI_STATUS_NOT_SUPPORTED, 0)), dg_temp_first = 0, dg_temp_max = 1, dg_temp_edge = 0,
     dg_temp_junction = 1, dg_temp_vram = 2, dg_volt_first = 0, dg_volt_last = 0, dg_volt_vddgfx = 0\<rparr>"

lemma demo_handles: "get_processor_handle_from_id two_gpu_smi 0 = Inr 100" "get_processor_handle_from_id two_gpu_smi 1 = Inr 101"
  by (simp_all add: two_gpu_handle)

text \<open>
  (C26) The parameter check reports the worst verdict. For at most 128 known GPUs it succeeds, counts
  them, and its status is the maximum, in the order pass, skip, warn, fail, of the verdicts of all
  temperature and voltage sensors of all GPUs. The numbers of the GPUs are lost on the way: the
  first per-GPU entry carries the number of the last GPU, every other entry 0.
\<close>
theorem param_info_worst:
  assumes "\<forall>g\<in>set gpus. \<exists>h. get_processor_handle_from_id (dg_smi d) g = Inr h" and "length gpus \<le> RDC_MAX_NUM_DEVICES"
  shows "\<exists>r'. check_smi_param_info d gpus (Some r) = Some (RDC_ST_OK, Some r')
    \<and> tr_test_case r' = RDC_DIAG_GPU_PARAMETERS
    \<and> tr_status r' = Max (insert RDC_DIAG_RESULT_PASS (set (concat (map (gpu_verdicts d) gpus))))
    \<and> tr_per_gpu_result_count r' = of_nat (length gpus)
    \<and> map pg_gpu_index (tr_gpu_results r') =
        (if gpus = [] then replicate RDC_MAX_NUM_DEVICES 0 else (replicate RDC_MAX_NUM_DEVICES 0)[0 := last gpus])"
  by (rule param_info_lemma [OF assms])

theorem param_info_worst_witness:
  "\<exists>r'. check_smi_param_info demo_diag [0, 1] (Some empty_result) = Some (RDC_ST_OK, Some r')
     \<and> tr_status r' = RDC_DIAG_RESULT_FAIL \<and> tr_per_gpu_result_count r' = 2"
proof -
  have g: "\<forall>g\<in>set [0, 1]. \<exists>h. get_processor_handle_from_id (dg_smi demo_diag) g = Inr h" "length [0::u32, 1] \<le> RDC_MAX_NUM_DEVICES"
    by (simp_all add: demo_diag_def demo_handles RDC_MAX_NUM_DEVICES_def)
  have "set (concat (map (gpu_verdicts demo_diag) [0, 1])) = {RDC_DIAG_RESULT_FAIL}"
    by (simp add: gpu_verdicts_def demo_diag_def demo_handles temp_verdict_def temp_fails_def demo_temp_def)
  moreover have "Max {RDC_DIAG_RESULT_PASS, RDC_DIAG_RESULT_FAIL} = RDC_DIAG_RESULT_FAIL"
    by (simp add: max_def diag_order_defs)
  ultimately show ?thesis using param_info_worst [OF g, of empty_result] by auto
qed

text \<open>
  The emergency limit is not looked at. When the critical limit cannot be read, so that its variable
  keeps the value 0, but the emergency limit can, every sensor at or above 0 degrees fails, however far it is
  below the emergency limit: the code compares the current value with the critical limit again.
\<close>
theorem emergency_uses_critical:
  assumes "get_processor_handle_from_id (dg_smi d) g = Inr h"
    and "dg_temp d h t AMDSMI_TEMP_CURRENT = (AMDSMI_STATUS_SUCCESS, cur)" and "0 \<le> sint cur"
    and "snd (dg_temp d h t AMDSMI_TEMP_CRITICAL) = 0" and "fst (dg_temp d h t AMDSMI_TEMP_EMERGENCY) = AMDSMI_STATUS_SUCCESS"
  shows "\<exists>info per. check_temperature_level d g t msg pmsg = Some (RDC_DIAG_RESULT_FAIL, info, per)"
  using check_temperature_level_verdict [OF assms(1), of t msg pmsg] assms(2-)
  by (simp add: temp_verdict_def temp_fails_def)

theorem emergency_uses_critical_witness:
  "\<exists>info per. check_temperature_level demo_diag 0 0 [] [] = Some (RDC_DIAG_RESULT_FAIL, info, per)"
  by (rule emergency_uses_critical [where h = 100 and cur = 40]) (simp_all add: demo_diag_def demo_handles demo_temp_def)

text \<open>
  (C27) The process check fails exactly for busy GPUs. If the library lists its processes and the lists fit their
  buffers, the check succeeds, and its status is fail when a process that occupies compute units runs on one
  of the given GPUs, and pass otherwise.
\<close>
theorem process_check_verdict:
  assumes "dg_process_count d = (AMDSMI_STATUS_SUCCESS, n)" and "n \<noteq> 0"
    and "dg_process_info d n = (AMDSMI_STATUS_SUCCESS, procs)" and "length procs \<le> unat n" and "lists_fit d procs"
  shows "\<exists>r'. check_smi_process_info d gpus (Some r) = Some (RDC_ST_OK, Some r')
    \<and> tr_status r' = (if \<exists>g\<in>set gpus. occupied d procs g then RDC_DIAG_RESULT_FAIL else RDC_DIAG_RESULT_PASS)"
  by (rule process_info_lemma [OF assms])

theorem process_check_verdict_witness:
  "\<exists>r'. check_smi_process_info demo_diag [0] (Some empty_result) = Some (RDC_ST_OK, Some r') \<and> tr_status r' = RDC_DIAG_RESULT_FAIL"
proof -
  let ?p = "\<lparr>pr_process_id = 42, pr_pasid = 7, pr_vram_usage = 0, pr_sdma_usage = 0, pr_cu_occupancy = 3\<rparr> :: process_info"
  have "\<exists>g\<in>set [0]. occupied demo_diag [?p] g" by (simp add: occupied_def demo_diag_def)
  moreover have "lists_fit demo_diag [?p]" by (simp add: lists_fit_def demo_diag_def)
  ultimately show ?thesis
    using process_check_verdict [of demo_diag 1 "[?p]" "[0]" empty_result] by (simp add: demo_diag_def)
qed

text \<open>
  The topology check never looks at a link between two GPUs: changing the weights of all links
  between different processors, and even whether they can be read, does not change its result. Both
  ends of every link it asks about are the same processor.
\<close>
theorem topology_self_links:
  assumes "\<And>h. w h h = dg_link_weight d h h"
  shows "check_smi_topo_info (d\<lparr>dg_link_weight := w\<rparr>) gpus res = check_smi_topo_info d gpus res"
proof -
  have "topo_loop (d\<lparr>dg_link_weight := w\<rparr>) gpus ps info = topo_loop d gpus ps info" for ps info
  proof (induction ps arbitrary: info)
    case (Cons p ps)
    then show ?case by (cases p) (simp add: assms handle_or_null_def split: prod.split)
  qed simp
  then show ?thesis
    by (cases res; cases "topo_loop d gpus (index_pairs (length gpus)) []")
      (simp_all add: check_smi_topo_info_def on_result_def Let_def split: sum.split)
qed

theorem topology_self_links_witness:
  "check_smi_topo_info (demo_diag\<lparr>dg_link_weight := \<lambda>a b. if a = b then (AMDSMI_STATUS_SUCCESS, 15) else (AMDSMI_STATUS_NOT_SUPPORTED, 0)\<rparr>)
     [0, 1] (Some empty_result) = check_smi_topo_info demo_diag [0, 1] (Some empty_result)"
  by (rule topology_self_links) (simp add: demo_diag_def)

text \<open>Whatever the libraries do, a run that has a result has the same shape.\<close>

lemma module_test_case_run_result:
  assumes "module_test_case_run libs dm tc gpus config (Some (r\<lparr>tr_test_case := tc\<rparr>)) s = Some (st, Some r', s')"
  shows "answered libs dm gpus config tc r r'"
  using assms
  by (auto simp: module_test_case_run_def answered_def put_info_def strncpy_with_null_def MAX_DIAG_MSG_LENGTH_def split: option.splits)

lemma run_tests_result:
  assumes "run_tests libs dm gpus config i tcs (resp, s) = Some (resp', s')"
  shows "rp_results_count resp' = rp_results_count resp + of_nat (length tcs)
    \<and> (\<forall>k. if i \<le> k \<and> k < i + length tcs
         then answered libs dm gpus config (tcs ! (k - i)) (rp_diag_info resp ! k) (rp_diag_info resp' ! k)
         else rp_diag_info resp' ! k = rp_diag_info resp ! k)"
  using assms
proof (induction tcs arbitrary: i resp s)
  case (Cons tc tcs)
  from Cons.prems obtain st r s1 where i: "i < length (rp_diag_info resp)"
    and run: "module_test_case_run libs dm tc gpus config (Some ((rp_diag_info resp ! i)\<lparr>tr_test_case := tc\<rparr>)) s = Some (st, Some r, s1)"
    and rest: "run_tests libs dm gpus config (Suc i) tcs (resp\<lparr>rp_diag_info := (rp_diag_info resp)[i := r], rp_results_count := rp_results_count resp + 1\<rparr>, s1)
      = Some (resp', s')"
    by (auto split: if_splits option.splits prod.splits)
  note IH = Cons.IH [OF rest, simplified]
  have "if i \<le> k \<and> k < i + length (tc # tcs)
         then answered libs dm gpus config ((tc # tcs) ! (k - i)) (rp_diag_info resp ! k) (rp_diag_info resp' ! k)
         else rp_diag_info resp' ! k = rp_diag_info resp ! k" for k
    using conjunct2 [OF IH, rule_format, of k] module_test_case_run_result [OF run] i
    by (cases "k = i") (auto simp: Suc_le_eq Suc_diff_Suc [symmetric] split: if_splits)
  moreover have "rp_results_count resp' = rp_results_count resp + of_nat (length (tc # tcs))" using conjunct1 [OF IH] by simp
  ultimately show ?case by blast
qed auto

lemma module_diagnostic_run_answers:
  assumes "\<And>a. test_runner (rdc_diag_test_case_run (libs a)) (ready a)"
    and "\<And>a tc. tc \<in> set (level_tests level) \<Longrightarrow> map_of (dm_testcases_to_module dm) tc = Some a \<Longrightarrow> ready a tc (entity_ids gpus)"
    and "length (rp_diag_info resp) = MAX_TEST_CASES"
  shows "\<exists>resp' s'. module_diagnostic_run libs dm gpus level config (Some resp) s = Some (RDC_ST_OK, Some resp', s')
    \<and> rp_results_count resp' = (case level of RDC_DIAG_LVL_INVALID \<Rightarrow> 0 | RDC_DIAG_LVL_SHORT \<Rightarrow> 5 | _ \<Rightarrow> 6)
    \<and> (\<forall>k<MAX_TEST_CASES. if k < length (level_tests level)
         then answered libs dm (entity_ids gpus) config (level_tests level ! k) (rp_diag_info resp ! k) (rp_diag_info resp' ! k)
         else rp_diag_info resp' ! k = rp_diag_info resp ! k)"
proof -
  have "0 + length (level_tests level) \<le> length (rp_diag_info (resp\<lparr>rp_results_count := 0\<rparr>))"
    using assms(3) by (simp add: level_tests_def MAX_TEST_CASES_def)
  from run_tests_answers [where libs = libs and dm = dm and ready = ready and config = config and s = s, OF assms(1,2) this] obtain resp' s' where
    "run_tests libs dm (entity_ids gpus) config 0 (level_tests level) (resp\<lparr>rp_results_count := 0\<rparr>, s) = Some (resp', s')"
    "rp_results_count resp' = rp_results_count (resp\<lparr>rp_results_count := 0\<rparr>) + of_nat (length (level_tests level))"
    and all: "\<forall>k<length (rp_diag_info (resp\<lparr>rp_results_count := 0\<rparr>)). if 0 \<le> k \<and> k < 0 + length (level_tests level)
       then answered libs dm (entity_ids gpus) config (level_tests level ! (k - 0)) (rp_diag_info (resp\<lparr>rp_results_count := 0\<rparr>) ! k) (rp_diag_info resp' ! k)
       else rp_diag_info resp' ! k = rp_diag_info (resp\<lparr>rp_results_count := 0\<rparr>) ! k" by blast
  moreover have "if k < length (level_tests level)
       then answered libs dm (entity_ids gpus) config (level_tests level ! k) (rp_diag_info resp ! k) (rp_diag_info resp' ! k)
       else rp_diag_info resp' ! k = rp_diag_info resp ! k" if "k < MAX_TEST_CASES" for k
    using all [rule_format, of k] assms(3) that by (simp split: if_splits)
  moreover have "(of_nat (length (level_tests level)) :: u32) = (case level of RDC_DIAG_LVL_INVALID \<Rightarrow> 0 | RDC_DIAG_LVL_SHORT \<Rightarrow> 5 | _ \<Rightarrow> 6)"
    by (cases level) (simp_all add: level_tests_def diag_order_defs)
  ultimately show ?thesis by (intro exI [of _ resp'] exI [of _ s']) (simp add: module_diagnostic_run_def)
qed

text \<open>
  (C28) A diagnostic run answers every test case of its level. If the libraries keep their contract on the test cases they
  own and the response has its six entries, the run succeeds and counts no case for an invalid level, five for a
  short run and six for a longer one; the entry of each of them, in order, is what the library that owns the
  test case leaves there, or, for a case without a library, a skipped result that says so; the entries after them
  are untouched.
\<close>
theorem diagnostic_run_answers:
  assumes "\<And>a. test_runner (rdc_diag_test_case_run (libs a)) (ready a)"
    and "\<And>a tc. tc \<in> set (level_tests level) \<Longrightarrow> map_of (dm_testcases_to_module dm) tc = Some a \<Longrightarrow> ready a tc (entity_ids gpus)"
    and "length (rp_diag_info resp) = MAX_TEST_CASES"
  shows "\<exists>resp' s'. module_diagnostic_run libs dm gpus level config (Some resp) s = Some (RDC_ST_OK, Some resp', s')
    \<and> rp_results_count resp' = (case level of RDC_DIAG_LVL_INVALID \<Rightarrow> 0 | RDC_DIAG_LVL_SHORT \<Rightarrow> 5 | _ \<Rightarrow> 6)
    \<and> (\<forall>k<MAX_TEST_CASES. if k < length (level_tests level)
         then answered libs dm (entity_ids gpus) config (level_tests level ! k) (rp_diag_info resp ! k) (rp_diag_info resp' ! k)
         else rp_diag_info resp' ! k = rp_diag_info resp ! k)"
  by (rule module_diagnostic_run_answers [where ready = ready]) (use assms in auto)

theorem diagnostic_run_answers_witness:
  "\<exists>resp' s'. module_diagnostic_run (\<lambda>_. smi_diag_lib demo_diag) (new_diagnostic_module (\<lambda>_. smi_diag_lib demo_diag) () [3])
       \<lparr>group_name = ''g'', entity_ids = [0, 1]\<rparr> RDC_DIAG_LVL_MED None (Some \<lparr>rp_results_count = 0, rp_diag_info = replicate 6 empty_result\<rparr>) ()
     = Some (RDC_ST_OK, Some resp', s') \<and> rp_results_count resp' = 6 \<and> tr_status (rp_diag_info resp' ! 5) = RDC_DIAG_RESULT_SKIP"
proof -
  let ?libs = "\<lambda>_::nat. smi_diag_lib demo_diag :: unit rdc_diagnostic" and ?dm = "new_diagnostic_module (\<lambda>_. smi_diag_lib demo_diag) () [3]"
  let ?gi = "\<lparr>group_name = ''g'', entity_ids = [0, 1]\<rparr>" and ?rp = "\<lparr>rp_results_count = 0, rp_diag_info = replicate 6 empty_result\<rparr>"
  have ready: "smi_diag_ready demo_diag tc (entity_ids ?gi)" for tc
    by (simp add: smi_diag_ready_def demo_diag_def demo_handles RDC_MAX_NUM_DEVICES_def lists_fit_def)
  have own: "map_of (dm_testcases_to_module ?dm) RDC_DIAG_RVS_TEST = None"
    by (simp add: new_diagnostic_module_def register_tests_def smi_diag_lib_def smi_test_cases_def map_of_map_insert)
  have run: "test_runner (rdc_diag_test_case_run (?libs a)) (smi_diag_ready demo_diag)" for a
    by (rule smi_tests.test_runner_axioms)
  have len: "length (rp_diag_info ?rp) = MAX_TEST_CASES" by (simp add: MAX_TEST_CASES_def)
  from diagnostic_run_answers [where ready = "\<lambda>_. smi_diag_ready demo_diag" and level = RDC_DIAG_LVL_MED and dm = ?dm and config = None
      and s = "()", OF run ready len]
  obtain resp' s' where "module_diagnostic_run ?libs ?dm ?gi RDC_DIAG_LVL_MED None (Some ?rp) () = Some (RDC_ST_OK, Some resp', s')"
    and "rp_results_count resp' = (case RDC_DIAG_LVL_MED of RDC_DIAG_LVL_INVALID \<Rightarrow> 0 | RDC_DIAG_LVL_SHORT \<Rightarrow> 5 | _ \<Rightarrow> 6)"
    and all: "\<forall>k<MAX_TEST_CASES. if k < length (level_tests RDC_DIAG_LVL_MED)
         then answered ?libs ?dm (entity_ids ?gi) None (level_tests RDC_DIAG_LVL_MED ! k) (rp_diag_info ?rp ! k) (rp_diag_info resp' ! k)
         else rp_diag_info resp' ! k = rp_diag_info ?rp ! k" by blast
  moreover have "answered ?libs ?dm [0, 1] None RDC_DIAG_RVS_TEST empty_result (rp_diag_info resp' ! 5)"
    using all [rule_format, of 5] by (simp add: MAX_TEST_CASES_def level_tests_def diag_order_defs)
  then have "tr_status (rp_diag_info resp' ! 5) = RDC_DIAG_RESULT_SKIP" by (simp add: answered_def own)
  ultimately show ?thesis by auto
qed

end
