(* ===== verification/Rdc_Embedded_Handler.thy ===== *)
theory Rdc_Embedded_Handler
  imports Rdc_Watch_Properties Rdc_Diagnostics
begin

text \<open>
  \<^verbatim>\<open>RdcEmbeddedHandler\<close>, the object behind an embedded session: it owns the groups, the cache,
  the metric fetcher, the modules, the notifications and the watch table, checks the arguments
  of every API function and passes the call on. Also \<^verbatim>\<open>RdcModuleMgrImpl\<close>, which collects the
  libraries, and \<^verbatim>\<open>RdcMetricsUpdaterImpl\<close>, whose two threads drive the watch table.
\<close>

section \<open>The module manager\<close>

record module_lists =
  ml_diagnostic :: "nat list"
  ml_telemetry :: "nat list"

text \<open>
  A module is a diagnostic one, a telemetry one or both; constructing it gives its address or the status
  of the exception it throws.
\<close>

definition insert_module :: "bool \<times> bool \<Rightarrow> nat \<Rightarrow> module_lists \<Rightarrow> rdc_status \<times> module_lists" where
  "insert_module kind a l =
     (let l1 = (if fst kind then l\<lparr>ml_diagnostic := ml_diagnostic l @ [a]\<rparr> else l);
          l2 = (if snd kind then l1\<lparr>ml_telemetry := ml_telemetry l1 @ [a]\<rparr> else l1)
      in (RDC_ST_OK, l2))"

definition insert_constructed :: "(bool \<times> bool) \<times> (rdc_status + nat) \<Rightarrow> module_lists \<Rightarrow> rdc_status \<times> module_lists" where
  "insert_constructed m l = (case snd m of Inl e \<Rightarrow> (e, l) | Inr a \<Rightarrow> insert_module (fst m) a l)"

fun insert_modules :: "((bool \<times> bool) \<times> (rdc_status + nat)) list \<Rightarrow> module_lists \<Rightarrow> rdc_status \<times> module_lists" where
  "insert_modules [] l = (RDC_ST_OK, l)"
| "insert_modules [m] l = insert_constructed m l"
| "insert_modules (m # m' # ms) l =
     (case insert_constructed m l of (st, l1) \<Rightarrow>
        case insert_modules (m' # ms) l1 of (st', l2) \<Rightarrow> (if st = RDC_ST_OK then st' else st, l2))"

text \<open>The SMI library serves both, \<^verbatim>\<open>RdcRocrLib\<close> diagnostics, \<^verbatim>\<open>RdcRocpLib\<close> telemetry.\<close>

definition new_module_mgr :: "rdc_status + nat \<Rightarrow> rdc_status + nat \<Rightarrow> rdc_status + nat \<Rightarrow> module_lists" where
  "new_module_mgr smi rocr rocp =
     (let l0 = \<lparr>ml_diagnostic = [], ml_telemetry = []\<rparr>;
          l1 = snd (insert_constructed ((True, True), smi) l0)
      in snd (insert_modules [((True, False), rocr), ((False, True), rocp)] l1))"

section \<open>State\<close>

text \<open>
  The state behind the libraries is the metric fetcher, which the SMI library shares with the
  handler, and the state of the other libraries. \<open>eh_updating\<close> says that an asynchronous
  update has been started and has not run yet.
\<close>

record 'r handler =
  eh_watch :: "(metric_fetcher \<times> 'r) watch_state"
  eh_diag_modules :: "nat list"
  eh_diag_module :: "diagnostic_module option"
  eh_started :: bool
  eh_updating :: bool

text \<open>
  What a call depends on besides the watch table's environment: the diagnostic libraries, a second
  reading of the clock, the indeterminate content of a local \<^verbatim>\<open>rdc_field_value\<close>, and the version that
  the SMI library reports.
\<close>

record 'r handler_env =
  ee_watch :: "(metric_fetcher \<times> 'r) watch_env"
  ee_diag :: "nat \<Rightarrow> (metric_fetcher \<times> 'r) rdc_diagnostic"
  ee_clock :: u64
  ee_stack :: rdc_field_value
  ee_lib_version :: "amdsmi_status \<times> string"

datatype rdc_operation_mode = RDC_OPERATION_MODE_AUTO | RDC_OPERATION_MODE_MANUAL
datatype rdc_group_type = RDC_GROUP_DEFAULT | RDC_GROUP_EMPTY

definition RDC_MAX_VERSION_STR_LENGTH :: nat where "RDC_MAX_VERSION_STR_LENGTH = 60"

section \<open>The updater threads\<close>

definition updater_start :: "'r handler \<Rightarrow> 'r handler" where
  "updater_start h = (if eh_started h then h else h\<lparr>eh_started := True\<rparr>)"

definition updater_stop :: "'r handler \<Rightarrow> 'r handler" where
  "updater_stop h = h\<lparr>eh_started := False\<rparr>"

definition on_watch ::
    "((metric_fetcher \<times> 'r) watch_state \<Rightarrow> (rdc_status \<times> (metric_fetcher \<times> 'r) watch_state) option)
     \<Rightarrow> 'r handler \<Rightarrow> (rdc_status \<times> 'r handler) option" where
  "on_watch f h = map_option (\<lambda>(st, w). (st, h\<lparr>eh_watch := w\<rparr>)) (f (eh_watch h))"

text \<open>One round of either thread; the loop condition is \<open>started_\<close>.\<close>

definition kRdcFieldListenNotifTime_mS :: u32 where "kRdcFieldListenNotifTime_mS = 10000"

definition notif_round :: "'r handler_env \<Rightarrow> 'r handler \<Rightarrow> 'r handler option" where
  "notif_round e h =
     (if eh_started h
      then map_option snd (on_watch (rdc_field_listen_notif (ee_watch e) kRdcFieldListenNotifTime_mS) h) else Some h)"

definition update_round :: "'r handler_env \<Rightarrow> 'r handler \<Rightarrow> 'r handler option" where
  "update_round e h =
     (if eh_started h then map_option snd (on_watch (rdc_field_update_all (ee_watch e)) h) else Some h)"

definition new_handler :: "rdc_operation_mode \<Rightarrow> module_lists \<Rightarrow> 'r \<Rightarrow> cap_state \<Rightarrow> 'r handler" where
  "new_handler mode l r caps =
     (let h = \<lparr>eh_watch = \<lparr>ww_core = watch_core_init, ww_groups = group_settings_init, ww_masks = [],
                 ww_modules = ml_telemetry l, ww_module = None, ww_tel = (metric_fetcher_init, r), ww_caps = caps\<rparr>,
               eh_diag_modules = ml_diagnostic l, eh_diag_module = None, eh_started = False, eh_updating = False\<rparr>
      in if mode = RDC_OPERATION_MODE_AUTO then updater_start h else h)"

section \<open>Discovery\<close>

definition handler_fetch ::
    "'r handler_env \<Rightarrow> u32 \<Rightarrow> u32 \<Rightarrow> rdc_field_value \<Rightarrow> 'r handler \<Rightarrow> (rdc_status \<times> rdc_field_value \<times> 'r handler) option" where
  "handler_fetch e g f v h =
     (let w = eh_watch h in
      map_option (\<lambda>(st, v', mf). (st, v', h\<lparr>eh_watch := w\<lparr>ww_tel := (mf, snd (ww_tel w))\<rparr>\<rparr>))
        (fetch_smi_field (we_smi (ee_watch e)) (we_now (ee_watch e)) (ee_clock e) g f v (fst (ww_tel w))))"

text \<open>
  The list of the caller has \<^const>\<open>RDC_MAX_NUM_DEVICES\<close> elements. Out parameters are \<^const>\<open>None\<close> when they
  are not written.
\<close>

definition emb_device_get_all :: "'r handler_env \<Rightarrow> bool \<Rightarrow> 'r handler \<Rightarrow> (rdc_status \<times> u32 list option \<times> 'r handler) option" where
  "emb_device_get_all e has_count h =
     (if \<not> has_count then Some (RDC_ST_BAD_PARAMETER, None, h)
      else case handler_fetch e 0 RDC_FI_GPU_COUNT (ee_stack e) h of
             None \<Rightarrow> None
           | Some (st, v, h') \<Rightarrow>
               if st \<noteq> RDC_ST_OK then Some (st, None, h')
               else let count = (ucast (l_int (fv_value v)) :: u32) in
                    if RDC_MAX_NUM_DEVICES < unat count then None
                    else Some (RDC_ST_OK, Some (map word_of_nat [0..<unat count]), h'))"

definition emb_device_get_attributes :: "'r handler_env \<Rightarrow> u32 \<Rightarrow> string option \<Rightarrow> 'r handler \<Rightarrow> (rdc_status \<times> string option \<times> 'r handler) option" where
  "emb_device_get_attributes e g attr h =
     (case attr of
        None \<Rightarrow> Some (RDC_ST_BAD_PARAMETER, None, h)
      | Some old \<Rightarrow>
          map_option (\<lambda>(st, v, h'). (st, Some (strncpy_with_null old (c_str (fv_value v)) RDC_MAX_STR_LENGTH), h'))
            (handler_fetch e g RDC_FI_DEV_NAME (ee_stack e) h))"

text \<open>The only component is the SMI library; every other number is refused.\<close>

definition emb_device_get_component_version :: "'r handler_env \<Rightarrow> u32 \<Rightarrow> string option \<Rightarrow> rdc_status \<times> string option" where
  "emb_device_get_component_version e component compv =
     (case compv of
        None \<Rightarrow> (RDC_ST_BAD_PARAMETER, None)
      | Some old \<Rightarrow>
          if component \<noteq> 0 then (RDC_ST_BAD_PARAMETER, None)
          else case ee_lib_version e of (ret, build) \<Rightarrow>
                 if ret \<noteq> AMDSMI_STATUS_SUCCESS then (RDC_ST_MSI_ERROR, None)
                 else (RDC_ST_OK, Some (strncpy_with_null old build RDC_MAX_VERSION_STR_LENGTH)))"

section \<open>Groups\<close>

definition on_groups :: "(group_settings \<Rightarrow> group_settings) \<Rightarrow> 'r handler \<Rightarrow> 'r handler" where
  "on_groups f h = h\<lparr>eh_watch := (eh_watch h)\<lparr>ww_groups := f (ww_groups (eh_watch h))\<rparr>\<rparr>"

definition emb_group_gpu_add :: "'r handler_env \<Rightarrow> u32 \<Rightarrow> u32 \<Rightarrow> 'r handler \<Rightarrow> (rdc_status \<times> 'r handler) option" where
  "emb_group_gpu_add e gid gpu_index h =
     (case emb_device_get_all e True h of
        None \<Rightarrow> None
      | Some (st, gpus, h1) \<Rightarrow>
          if st \<noteq> RDC_ST_OK then Some (st, h1)
          else if gpu_index \<notin> set (case gpus of Some l \<Rightarrow> l | None \<Rightarrow> []) then Some (RDC_ST_NOT_FOUND, h1)
          else (case rdc_group_gpu_add gid gpu_index (ww_groups (eh_watch h1)) of (st', gs) \<Rightarrow>
                  Some (st', on_groups (\<lambda>_. gs) h1)))"

fun add_all_gpus :: "'r handler_env \<Rightarrow> u32 \<Rightarrow> u32 list \<Rightarrow> rdc_status \<Rightarrow> 'r handler \<Rightarrow> (rdc_status \<times> 'r handler) option" where
  "add_all_gpus e gid [] st h = Some (st, h)"
| "add_all_gpus e gid (g # gs) st h =
     (case emb_group_gpu_add e gid g h of None \<Rightarrow> None | Some (st', h') \<Rightarrow> add_all_gpus e gid gs st' h')"

definition emb_group_gpu_create ::
    "'r handler_env \<Rightarrow> rdc_group_type \<Rightarrow> string option \<Rightarrow> bool \<Rightarrow> 'r handler \<Rightarrow> (rdc_status \<times> u32 option \<times> 'r handler) option" where
  "emb_group_gpu_create e type name has_id h =
     (case name of
        None \<Rightarrow> Some (RDC_ST_BAD_PARAMETER, None, h)
      | Some nm \<Rightarrow>
          if \<not> has_id then Some (RDC_ST_BAD_PARAMETER, None, h)
          else (case rdc_group_gpu_create nm (ww_groups (eh_watch h)) of (st, gid, gs) \<Rightarrow>
            let h1 = on_groups (\<lambda>_. gs) h in
            if st \<noteq> RDC_ST_OK \<or> type = RDC_GROUP_EMPTY then Some (st, gid, h1)
            else (case emb_device_get_all e True h1 of
                    None \<Rightarrow> None
                  | Some (st1, gpus, h2) \<Rightarrow>
                      if st1 \<noteq> RDC_ST_OK then Some (st1, gid, h2)
                      else map_option (\<lambda>(st2, h3). (st2, gid, h3))
                             (add_all_gpus e (case gid of Some i \<Rightarrow> i | None \<Rightarrow> 0) (case gpus of Some l \<Rightarrow> l | None \<Rightarrow> []) st1 h2))))"


text \<open>The array has \<^verbatim>\<open>num_field_ids\<close> elements.\<close>

definition emb_group_field_create ::
    "u32 list option \<Rightarrow> string option \<Rightarrow> bool \<Rightarrow> 'r handler \<Rightarrow> rdc_status \<times> u32 option \<times> 'r handler" where
  "emb_group_field_create fids name has_id h =
     (case (name, fids) of
        (Some nm, Some fs) \<Rightarrow>
          if \<not> has_id then (RDC_ST_BAD_PARAMETER, None, h)
          else if \<not> length fs \<le> RDC_MAX_FIELD_IDS_PER_FIELD_GROUP then (RDC_ST_MAX_LIMIT, None, h)
          else if \<not> list_all is_field_valid fs then (RDC_ST_NOT_SUPPORTED, None, h)
          else (case rdc_group_field_create (fs, nm) (ww_groups (eh_watch h)) of (st, fgid, gs) \<Rightarrow>
                  (st, fgid, on_groups (\<lambda>_. gs) h))
      | _ \<Rightarrow> (RDC_ST_BAD_PARAMETER, None, h))"

definition emb_group_field_get_info :: "u32 \<Rightarrow> bool \<Rightarrow> 'r handler \<Rightarrow> rdc_status \<times> rdc_field_group_info option" where
  "emb_group_field_get_info fgid has_info h =
     (if \<not> has_info then (RDC_ST_BAD_PARAMETER, None) else rdc_group_field_get_info fgid (ww_groups (eh_watch h)))"

definition emb_group_gpu_get_info :: "u32 \<Rightarrow> bool \<Rightarrow> 'r handler \<Rightarrow> rdc_status \<times> rdc_group_info option" where
  "emb_group_gpu_get_info gid has_info h =
     (if \<not> has_info then (RDC_ST_BAD_PARAMETER, None) else rdc_group_gpu_get_info gid (ww_groups (eh_watch h)))"

definition emb_group_get_all_ids :: "bool \<Rightarrow> 'r handler \<Rightarrow> rdc_status \<times> u32 list option" where
  "emb_group_get_all_ids has_count h =
     (if \<not> has_count then (RDC_ST_BAD_PARAMETER, None)
      else case rdc_group_get_all_ids (ww_groups (eh_watch h)) of (st, ids) \<Rightarrow> (st, Some ids))"

definition emb_group_field_get_all_ids :: "bool \<Rightarrow> 'r handler \<Rightarrow> rdc_status \<times> u32 list option" where
  "emb_group_field_get_all_ids has_count h =
     (if \<not> has_count then (RDC_ST_BAD_PARAMETER, None)
      else case rdc_group_field_get_all_ids (ww_groups (eh_watch h)) of (st, ids) \<Rightarrow> (st, Some ids))"

definition emb_group_gpu_destroy :: "u32 \<Rightarrow> 'r handler \<Rightarrow> rdc_status \<times> 'r handler" where
  "emb_group_gpu_destroy gid h =
     (case rdc_group_gpu_destroy gid (ww_groups (eh_watch h)) of (st, gs) \<Rightarrow> (st, on_groups (\<lambda>_. gs) h))"

definition emb_group_field_destroy :: "u32 \<Rightarrow> 'r handler \<Rightarrow> rdc_status \<times> 'r handler" where
  "emb_group_field_destroy fgid h =
     (case rdc_group_field_destroy fgid (ww_groups (eh_watch h)) of (st, gs) \<Rightarrow> (st, on_groups (\<lambda>_. gs) h))"

section \<open>Jobs\<close>

text \<open>
  \<^verbatim>\<open>get_gpu_gauges\<close>: the total memory of every GPU must be known; an ECC counter that cannot be read
  is left out. The three reads of a GPU share one local value.
\<close>

definition insert_ecc_gauge ::
    "'r handler_env \<Rightarrow> u32 \<Rightarrow> u32 \<Rightarrow> rdc_field_value \<times> gauges \<times> 'r handler \<Rightarrow> (rdc_field_value \<times> gauges \<times> 'r handler) option" where
  "insert_ecc_gauge e g f x =
     (case x of (v, gg, h) \<Rightarrow>
        map_option (\<lambda>(st, v', h'). (v', if st = RDC_ST_OK then map_insert (g, f) (l_int (fv_value v')) gg else gg, h'))
          (handler_fetch e g f v h))"

fun gauges_loop :: "'r handler_env \<Rightarrow> u32 list \<Rightarrow> gauges \<Rightarrow> 'r handler \<Rightarrow> (rdc_status \<times> gauges \<times> 'r handler) option" where
  "gauges_loop e [] gg h = Some (RDC_ST_OK, gg, h)"
| "gauges_loop e (g # gs) gg h =
     (case handler_fetch e g RDC_FI_GPU_MEMORY_TOTAL (ee_stack e) h of
        None \<Rightarrow> None
      | Some (st, v, h1) \<Rightarrow>
          if st \<noteq> RDC_ST_OK then Some (st, gg, h1)
          else case Option.bind
                      (insert_ecc_gauge e g RDC_FI_ECC_CORRECT_TOTAL
                        (v, map_insert (g, RDC_FI_GPU_MEMORY_TOTAL) (l_int (fv_value v)) gg, h1))
                      (insert_ecc_gauge e g RDC_FI_ECC_UNCORRECT_TOTAL) of
                 None \<Rightarrow> None
               | Some (_, gg', h') \<Rightarrow> gauges_loop e gs gg' h')"

definition get_gpu_gauges :: "'r handler_env \<Rightarrow> 'r handler \<Rightarrow> (rdc_status \<times> gauges \<times> 'r handler) option" where
  "get_gpu_gauges e h =
     (case emb_device_get_all e True h of
        None \<Rightarrow> None
      | Some (st, gpus, h1) \<Rightarrow>
          if st \<noteq> RDC_ST_OK then Some (st, [], h1)
          else gauges_loop e (case gpus of Some l \<Rightarrow> l | None \<Rightarrow> []) [] h1)"

text \<open>The callers differ only in what they do with the gauges.\<close>

definition with_gauges ::
    "'r handler_env \<Rightarrow> (gauges \<Rightarrow> 'r handler \<Rightarrow> (rdc_status \<times> 'o \<times> 'r handler) option) \<Rightarrow> 'o \<Rightarrow> 'r handler
     \<Rightarrow> (rdc_status \<times> 'o \<times> 'r handler) option" where
  "with_gauges e f out h =
     (case get_gpu_gauges e h of
        None \<Rightarrow> None
      | Some (st, gg, h1) \<Rightarrow> if st \<noteq> RDC_ST_OK then Some (st, out, h1) else f gg h1)"

definition status_only :: "(rdc_status \<times> 'r handler) option \<Rightarrow> (rdc_status \<times> unit \<times> 'r handler) option" where
  "status_only = map_option (\<lambda>(st, h). (st, (), h))"

definition emb_job_start_stats ::
    "'r handler_env \<Rightarrow> u32 \<Rightarrow> string \<Rightarrow> u64 \<Rightarrow> 'r handler \<Rightarrow> (rdc_status \<times> unit \<times> 'r handler) option" where
  "emb_job_start_stats e gid job_id freq h =
     with_gauges e (\<lambda>gg h1. status_only (on_watch (rdc_watch_job_start (ee_watch e) gid job_id freq gg) h1)) () h"

definition emb_job_get_stats ::
    "'r handler_env \<Rightarrow> string \<Rightarrow> rdc_job_info option \<Rightarrow> 'r handler \<Rightarrow> (rdc_status \<times> rdc_job_info option \<times> 'r handler) option" where
  "emb_job_get_stats e job_id info h =
     (case info of
        None \<Rightarrow> Some (RDC_ST_BAD_PARAMETER, None, h)
      | Some ji \<Rightarrow>
          with_gauges e (\<lambda>gg h1. map_option (\<lambda>(st, ji'). (st, Some ji', h1))
              (rdc_job_get_stats job_id gg (we_now_s (ee_watch e)) ji (wt_cache (ww_core (eh_watch h1))))) info h)"

definition emb_job_stop_stats :: "'r handler_env \<Rightarrow> string \<Rightarrow> 'r handler \<Rightarrow> (rdc_status \<times> unit \<times> 'r handler) option" where
  "emb_job_stop_stats e job_id h =
     with_gauges e (\<lambda>gg h1. status_only (on_watch (rdc_watch_job_stop (ee_watch e) job_id gg) h1)) () h"

definition emb_job_remove :: "'r handler_env \<Rightarrow> string \<Rightarrow> 'r handler \<Rightarrow> (rdc_status \<times> 'r handler) option" where
  "emb_job_remove e job_id = on_watch (rdc_watch_job_remove (ee_watch e) job_id)"

definition emb_job_remove_all :: "'r handler_env \<Rightarrow> 'r handler \<Rightarrow> (rdc_status \<times> 'r handler) option" where
  "emb_job_remove_all e = on_watch (rdc_watch_job_remove_all (ee_watch e))"

section \<open>Fields\<close>

definition emb_field_watch ::
    "'r handler_env \<Rightarrow> u32 \<Rightarrow> u32 \<Rightarrow> u64 \<Rightarrow> real \<Rightarrow> u32 \<Rightarrow> 'r handler \<Rightarrow> (rdc_status \<times> 'r handler) option" where
  "emb_field_watch e gid fgid freq age n = on_watch (rdc_field_watch (ee_watch e) gid fgid freq age n)"

definition emb_field_unwatch :: "'r handler_env \<Rightarrow> u32 \<Rightarrow> u32 \<Rightarrow> 'r handler \<Rightarrow> (rdc_status \<times> 'r handler) option" where
  "emb_field_unwatch e gid fgid = on_watch (rdc_field_unwatch (ee_watch e) gid fgid)"

definition emb_field_get_latest_value ::
    "u32 \<Rightarrow> u32 \<Rightarrow> rdc_field_value option \<Rightarrow> 'r handler \<Rightarrow> rdc_status \<times> rdc_field_value option" where
  "emb_field_get_latest_value g f val h =
     (if val = None then (RDC_ST_BAD_PARAMETER, val)
      else if \<not> is_field_valid f then (RDC_ST_NOT_SUPPORTED, val)
      else rdc_field_get_latest_value g f val (wt_cache (ww_core (eh_watch h))))"

definition emb_field_get_value_since ::
    "u32 \<Rightarrow> u32 \<Rightarrow> u64 \<Rightarrow> u64 option \<Rightarrow> rdc_field_value option \<Rightarrow> 'r handler
     \<Rightarrow> rdc_status \<times> u64 option \<times> rdc_field_value option" where
  "emb_field_get_value_since g f since next_ts val h =
     (if next_ts = None \<or> val = None then (RDC_ST_BAD_PARAMETER, next_ts, val)
      else if \<not> is_field_valid f then (RDC_ST_NOT_SUPPORTED, next_ts, val)
      else rdc_field_get_value_since g f since next_ts val (wt_cache (ww_core (eh_watch h))))"

section \<open>Diagnostics\<close>

definition get_diagnostic_module :: "'r handler_env \<Rightarrow> 'r handler \<Rightarrow> diagnostic_module \<times> 'r handler" where
  "get_diagnostic_module e h =
     (case eh_diag_module h of
        Some dm \<Rightarrow> (dm, h)
      | None \<Rightarrow> let dm = new_diagnostic_module (ee_diag e) (ww_tel (eh_watch h)) (eh_diag_modules h)
                in (dm, h\<lparr>eh_diag_module := Some dm\<rparr>))"

definition put_tel :: "metric_fetcher \<times> 'r \<Rightarrow> 'r handler \<Rightarrow> 'r handler" where
  "put_tel s h = h\<lparr>eh_watch := (eh_watch h)\<lparr>ww_tel := s\<rparr>\<rparr>"

definition emb_diagnostic_run ::
    "'r handler_env \<Rightarrow> u32 \<Rightarrow> rdc_diag_level \<Rightarrow> string option \<Rightarrow> rdc_diag_response option \<Rightarrow> 'r handler
     \<Rightarrow> (rdc_status \<times> rdc_diag_response option \<times> 'r handler) option" where
  "emb_diagnostic_run e gid level config resp h =
     (if resp = None then Some (RDC_ST_BAD_PARAMETER, resp, h)
      else case emb_group_gpu_get_info gid True h of
             (st, None) \<Rightarrow> Some (st, resp, h)
           | (_, Some info) \<Rightarrow>
               (case get_diagnostic_module e h of (dm, h1) \<Rightarrow>
                  map_option (\<lambda>(st', resp', s). (st', resp', put_tel s h1))
                    (module_diagnostic_run (ee_diag e) dm info level config resp (ww_tel (eh_watch h1)))))"

definition emb_test_case_run ::
    "'r handler_env \<Rightarrow> u32 \<Rightarrow> rdc_diag_test_cases \<Rightarrow> string option \<Rightarrow> rdc_diag_test_result option \<Rightarrow> 'r handler
     \<Rightarrow> (rdc_status \<times> rdc_diag_test_result option \<times> 'r handler) option" where
  "emb_test_case_run e gid tc config res h =
     (if res = None then Some (RDC_ST_BAD_PARAMETER, res, h)
      else case emb_group_gpu_get_info gid True h of
             (st, None) \<Rightarrow> Some (st, res, h)
           | (_, Some info) \<Rightarrow>
               (case get_diagnostic_module e h of (dm, h1) \<Rightarrow>
                  map_option (\<lambda>(st', res', s). (st', res', put_tel s h1))
                    (module_test_case_run (ee_diag e) dm tc (entity_ids info) config res (ww_tel (eh_watch h1)))))"

section \<open>Updates on demand\<close>

text \<open>
  Without waiting, the update runs in a thread whose future replaces the previous one. Replacing a
  future waits until its own thread is done, so at most one update is pending afterwards.
\<close>

definition emb_field_update_all :: "'r handler_env \<Rightarrow> u32 \<Rightarrow> 'r handler \<Rightarrow> (rdc_status \<times> 'r handler) option" where
  "emb_field_update_all e wait h =
     (if wait = 1 then on_watch (rdc_field_update_all (ee_watch e)) h
      else map_option (\<lambda>h1. (RDC_ST_OK, h1\<lparr>eh_updating := True\<rparr>))
             (if eh_updating h then map_option snd (on_watch (rdc_field_update_all (ee_watch e)) h) else Some h))"

definition async_update :: "'r handler_env \<Rightarrow> 'r handler \<Rightarrow> 'r handler option" where
  "async_update e h =
     (if eh_updating h
      then map_option (\<lambda>r. (snd r)\<lparr>eh_updating := False\<rparr>) (on_watch (rdc_field_update_all (ee_watch e)) h) else Some h)"

text \<open>The embedded handler's own version query does nothing.\<close>

definition emb_mixed_component_version :: rdc_status where
  "emb_mixed_component_version = RDC_ST_OK"

end
