(* ===== verification/Rdc_Api.thy ===== *)
theory Rdc_Api
  imports Rdc_Embedded_Handler
begin

text \<open>
  The C API of \<^verbatim>\<open>rdc.h\<close> as \<^verbatim>\<open>RdcBootStrap.cc\<close> implements it: a library loader that finds the
  handler to use, and one function per call that rejects a missing handle or pointer and passes the call
  to the handler's virtual method. The virtual methods of \<^verbatim>\<open>RdcHandler\<close> are the constructors of
  \<open>api_call\<close>; a handler is a function that executes one of them.
\<close>

section \<open>The virtual methods\<close>

text \<open>
  Pointers are options that carry the memory they point to; where only the presence of the pointer
  matters they are flags. The number of fields, and the size of a configuration, are the lengths of the
  list and of the string.
\<close>

datatype api_call =
    A_job_start_stats u32 string u64
  | A_job_get_stats string "rdc_job_info option"
  | A_job_stop_stats string
  | A_job_remove string
  | A_job_remove_all
  | A_device_get_all bool
  | A_device_get_attributes u32 "string option"
  | A_device_get_component_version u32 "string option"
  | A_group_gpu_create rdc_group_type "string option" bool
  | A_group_gpu_add u32 u32
  | A_group_field_create "u32 list option" "string option" bool
  | A_group_field_get_info u32 bool
  | A_group_gpu_get_info u32 bool
  | A_group_get_all_ids bool
  | A_group_field_get_all_ids bool
  | A_group_gpu_destroy u32
  | A_group_field_destroy u32
  | A_field_watch u32 u32 u64 real u32
  | A_field_get_latest_value u32 u32 "rdc_field_value option"
  | A_field_get_value_since u32 u32 u64 "u64 option" "rdc_field_value option"
  | A_field_unwatch u32 u32
  | A_diagnostic_run u32 rdc_diag_level "string option" "rdc_diag_response option"
  | A_test_case_run u32 rdc_diag_test_cases "string option" "rdc_diag_test_result option"
  | A_field_update_all u32
  | A_mixed_component_version u32 "string option"

text \<open>What the memory behind the out parameters holds afterwards. A listing that is refused has written its counter only (\<open>O_count\<close>).\<close>

datatype api_out =
    O_none
  | O_job "rdc_job_info option"
  | O_ids "u32 list option"
  | O_count u32
  | O_text "string option"
  | O_id "u32 option"
  | O_group "rdc_group_info option"
  | O_field_group "rdc_field_group_info option"
  | O_value "rdc_field_value option"
  | O_since "u64 option" "rdc_field_value option"
  | O_diag "rdc_diag_response option"
  | O_test "rdc_diag_test_result option"

text \<open>The three shapes of a method's result.\<close>

definition act :: "(rdc_status \<times> 'h) option \<Rightarrow> (rdc_status \<times> api_out \<times> 'h) option" where
  "act r = map_option (\<lambda>(st, h). (st, O_none, h)) r"

definition out_with :: "('o \<Rightarrow> api_out) \<Rightarrow> (rdc_status \<times> 'o \<times> 'h) option \<Rightarrow> (rdc_status \<times> api_out \<times> 'h) option" where
  "out_with f r = map_option (\<lambda>(st, x, h). (st, f x, h)) r"

definition look :: "('o \<Rightarrow> api_out) \<Rightarrow> rdc_status \<times> 'o \<Rightarrow> 'h \<Rightarrow> (rdc_status \<times> api_out \<times> 'h) option" where
  "look f r h = Some (fst r, f (snd r), h)"

fun emb_exec :: "'r handler_env \<Rightarrow> api_call \<Rightarrow> 'r handler \<Rightarrow> (rdc_status \<times> api_out \<times> 'r handler) option" where
  "emb_exec e (A_job_start_stats gid j freq) h = out_with (\<lambda>_. O_none) (emb_job_start_stats e gid j freq h)"
| "emb_exec e (A_job_get_stats j info) h = out_with O_job (emb_job_get_stats e j info h)"
| "emb_exec e (A_job_stop_stats j) h = out_with (\<lambda>_. O_none) (emb_job_stop_stats e j h)"
| "emb_exec e (A_job_remove j) h = act (emb_job_remove e j h)"
| "emb_exec e A_job_remove_all h = act (emb_job_remove_all e h)"
| "emb_exec e (A_device_get_all c) h = out_with O_ids (emb_device_get_all e c h)"
| "emb_exec e (A_device_get_attributes g a) h = out_with O_text (emb_device_get_attributes e g a h)"
| "emb_exec e (A_device_get_component_version c v) h = look O_text (emb_device_get_component_version e c v) h"
| "emb_exec e (A_group_gpu_create t nm i) h = out_with O_id (emb_group_gpu_create e t nm i h)"
| "emb_exec e (A_group_gpu_add gid g) h = act (emb_group_gpu_add e gid g h)"
| "emb_exec e (A_group_field_create fs nm i) h = out_with O_id (Some (emb_group_field_create fs nm i h))"
| "emb_exec e (A_group_field_get_info fgid i) h = look O_field_group (emb_group_field_get_info fgid i h) h"
| "emb_exec e (A_group_gpu_get_info gid i) h = look O_group (emb_group_gpu_get_info gid i h) h"
| "emb_exec e (A_group_get_all_ids c) h = look O_ids (emb_group_get_all_ids c h) h"
| "emb_exec e (A_group_field_get_all_ids c) h = look O_ids (emb_group_field_get_all_ids c h) h"
| "emb_exec e (A_group_gpu_destroy gid) h = act (Some (emb_group_gpu_destroy gid h))"
| "emb_exec e (A_group_field_destroy fgid) h = act (Some (emb_group_field_destroy fgid h))"
| "emb_exec e (A_field_watch gid fgid freq age n) h = act (emb_field_watch e gid fgid freq age n h)"
| "emb_exec e (A_field_get_latest_value g f v) h = look O_value (emb_field_get_latest_value g f v h) h"
| "emb_exec e (A_field_get_value_since g f t n v) h = look (\<lambda>(n, v). O_since n v) (emb_field_get_value_since g f t n v h) h"
| "emb_exec e (A_field_unwatch gid fgid) h = act (emb_field_unwatch e gid fgid h)"
| "emb_exec e (A_diagnostic_run gid l c r) h = out_with O_diag (emb_diagnostic_run e gid l c r h)"
| "emb_exec e (A_test_case_run gid t c r) h = out_with O_test (emb_test_case_run e gid t c r h)"
| "emb_exec e (A_field_update_all w) h = act (emb_field_update_all e w h)"
| "emb_exec e (A_mixed_component_version c v) h = Some (emb_mixed_component_version, O_text v, h)"

section \<open>The API functions\<close>

text \<open>The pointers that the API functions test themselves; the others reach the handler.\<close>

fun missing_pointer :: "api_call \<Rightarrow> bool" where
  "missing_pointer (A_device_get_all c) \<longleftrightarrow> \<not> c"
| "missing_pointer (A_device_get_attributes _ a) \<longleftrightarrow> a = None"
| "missing_pointer (A_device_get_component_version _ v) \<longleftrightarrow> v = None"
| "missing_pointer (A_group_field_create fs nm i) \<longleftrightarrow> fs = None \<or> nm = None \<or> \<not> i"
| "missing_pointer (A_group_gpu_get_info _ i) \<longleftrightarrow> \<not> i"
| "missing_pointer (A_group_get_all_ids c) \<longleftrightarrow> \<not> c"
| "missing_pointer (A_group_field_get_all_ids c) \<longleftrightarrow> \<not> c"
| "missing_pointer (A_field_get_latest_value _ _ v) \<longleftrightarrow> v = None"
| "missing_pointer (A_field_get_value_since _ _ _ n v) \<longleftrightarrow> n = None \<or> v = None"
| "missing_pointer (A_mixed_component_version _ v) \<longleftrightarrow> v = None"
| "missing_pointer _ \<longleftrightarrow> False"

definition api_exec ::
    "(api_call \<Rightarrow> 'h \<Rightarrow> (rdc_status \<times> api_out \<times> 'h) option) \<Rightarrow> api_call \<Rightarrow> 'h option
     \<Rightarrow> (rdc_status \<times> api_out \<times> 'h option) option" where
  "api_exec exec call handle =
     (case handle of
        None \<Rightarrow> Some (RDC_ST_INVALID_HANDLER, O_none, None)
      | Some h \<Rightarrow>
          if missing_pointer call then Some (RDC_ST_INVALID_HANDLER, O_none, Some h)
          else map_option (\<lambda>(st, out, h'). (st, out, Some h')) (exec call h))"

section \<open>Loading and unloading\<close>

text \<open>
  The loader keeps the handle of the open library. \<open>dl_open\<close> and \<open>dl_sym\<close> are the dynamic linker: the
  handle of a file, or the failure, and whether the library has the symbol.
\<close>

record dynamic_linker =
  dl_open :: "string \<Rightarrow> nat option"
  dl_sym :: "nat \<Rightarrow> string \<Rightarrow> bool"

type_synonym lib_loader = "nat option"

definition loader_unload :: "lib_loader \<Rightarrow> rdc_status \<times> lib_loader" where
  "loader_unload l = (RDC_ST_OK, None)"

text \<open>\<^verbatim>\<open>load\<close> throws when the file cannot be opened; \<^const>\<open>Inl\<close> is the exception's status.\<close>

definition loader_open :: "dynamic_linker \<Rightarrow> string option \<Rightarrow> lib_loader \<Rightarrow> (rdc_status + rdc_status) \<times> lib_loader" where
  "loader_open dl filename l =
     (case filename of
        None \<Rightarrow> (Inr RDC_ST_FAIL_LOAD_MODULE, l)
      | Some f \<Rightarrow>
          (case dl_open dl f of
             None \<Rightarrow> (Inl RDC_ST_FAIL_LOAD_MODULE, None)
           | Some a \<Rightarrow> (Inr RDC_ST_OK, Some a)))"

definition loader_symbol :: "dynamic_linker \<Rightarrow> bool \<Rightarrow> string option \<Rightarrow> lib_loader \<Rightarrow> rdc_status" where
  "loader_symbol dl has_handler name l =
     (case l of
        None \<Rightarrow> RDC_ST_FAIL_LOAD_MODULE
      | Some a \<Rightarrow>
          (case name of
             None \<Rightarrow> RDC_ST_FAIL_LOAD_MODULE
           | Some f \<Rightarrow> if \<not> has_handler then RDC_ST_FAIL_LOAD_MODULE
                       else if dl_sym dl a f then RDC_ST_OK else RDC_ST_FAIL_LOAD_MODULE))"

definition loader_load :: "dynamic_linker \<Rightarrow> string option \<Rightarrow> lib_loader \<Rightarrow> rdc_status \<times> lib_loader" where
  "loader_load dl filename l =
     (if filename = None then (RDC_ST_FAIL_LOAD_MODULE, l)
      else case loader_open dl filename l of
             (Inl e, l') \<Rightarrow> (e, l')
           | (Inr st, l') \<Rightarrow>
               if st \<noteq> RDC_ST_OK then (st, l') else (loader_symbol dl True (Some ''make_handler'') l', l'))"

definition rdc_init :: "u64 \<Rightarrow> rdc_status" where
  "rdc_init flags = RDC_ST_OK"

definition rdc_shutdown :: "lib_loader \<Rightarrow> rdc_status \<times> lib_loader" where
  "rdc_shutdown = loader_unload"

text \<open>
  Opening a session. The second component is what is written to the handle variable: nothing, the null
  pointer, or the new handler.
\<close>

definition rdc_open ::
    "dynamic_linker \<Rightarrow> string \<Rightarrow> 'h \<Rightarrow> bool \<Rightarrow> lib_loader \<Rightarrow> rdc_status \<times> 'h option option \<times> lib_loader" where
  "rdc_open dl lib make_handler has_args l =
     (if \<not> has_args then (RDC_ST_FAIL_LOAD_MODULE, None, l)
      else case loader_load dl (Some lib) l of (st, l') \<Rightarrow>
             if st \<noteq> RDC_ST_OK then (st, Some None, l') else (RDC_ST_OK, Some (Some make_handler), l'))"

definition rdc_start_embedded ::
    "dynamic_linker \<Rightarrow> rdc_operation_mode \<Rightarrow> (rdc_operation_mode \<Rightarrow> 'r handler) \<Rightarrow> bool \<Rightarrow> lib_loader
     \<Rightarrow> rdc_status \<times> 'r handler option option \<times> lib_loader" where
  "rdc_start_embedded dl mode mk has_handle l = rdc_open dl ''librdc.so'' (mk mode) has_handle l"

definition rdc_connect ::
    "dynamic_linker \<Rightarrow> string option \<Rightarrow> (string \<Rightarrow> 'h) \<Rightarrow> bool \<Rightarrow> lib_loader \<Rightarrow> rdc_status \<times> 'h option option \<times> lib_loader" where
  "rdc_connect dl ip mk has_handle l =
     (case ip of
        None \<Rightarrow> (RDC_ST_FAIL_LOAD_MODULE, None, l)
      | Some a \<Rightarrow> rdc_open dl ''librdc_client.so'' (mk a) has_handle l)"

text \<open>Closing a session destroys the handler; the caller's handle keeps its value.\<close>

definition rdc_close :: "'h option \<Rightarrow> rdc_status" where
  "rdc_close handle = (if handle = None then RDC_ST_INVALID_HANDLER else RDC_ST_OK)"

section \<open>Texts and names\<close>

fun rdc_status_string :: "rdc_status \<Rightarrow> string" where
  "rdc_status_string RDC_ST_OK = ''Success''"
| "rdc_status_string RDC_ST_NOT_SUPPORTED = ''Not supported''"
| "rdc_status_string RDC_ST_FAIL_LOAD_MODULE = ''Fail to load module''"
| "rdc_status_string RDC_ST_INVALID_HANDLER = ''Invalid handler''"
| "rdc_status_string RDC_ST_NOT_FOUND = ''Cannot find the value''"
| "rdc_status_string RDC_ST_BAD_PARAMETER = ''Invalid parameters''"
| "rdc_status_string RDC_ST_MSI_ERROR = ''SMI error''"
| "rdc_status_string RDC_ST_MAX_LIMIT = ''The max limit reached''"
| "rdc_status_string RDC_ST_CONFLICT = ''Conflict with current state''"
| "rdc_status_string RDC_ST_ALREADY_EXIST = ''The value already exists''"
| "rdc_status_string RDC_ST_CLIENT_ERROR = ''RDC Client error''"
| "rdc_status_string RDC_ST_INSUFF_RESOURCES = ''Not enough resources to complete operation''"
| "rdc_status_string RDC_ST_FILE_ERROR = ''Failed to access a file''"
| "rdc_status_string RDC_ST_NO_DATA = ''Data was requested, but none was found''"
| "rdc_status_string RDC_ST_PERM_ERROR = ''Insufficient permission to complete operation''"
| "rdc_status_string RDC_ST_UNKNOWN_ERROR = ''Unknown error''"
| "rdc_status_string _ = ''Unknown''"

fun rdc_diagnostic_result_string :: "rdc_diag_result \<Rightarrow> string" where
  "rdc_diagnostic_result_string RDC_DIAG_RESULT_PASS = ''Pass''"
| "rdc_diagnostic_result_string RDC_DIAG_RESULT_SKIP = ''Skip''"
| "rdc_diagnostic_result_string RDC_DIAG_RESULT_WARN = ''Warn''"
| "rdc_diagnostic_result_string RDC_DIAG_RESULT_FAIL = ''Fail''"

end
