(* ===== verification/Rdc_Handler_Properties.thy ===== *)
theory Rdc_Handler_Properties
  imports Rdc_Api
begin

text \<open>
  Properties of the embedded handler: the default group, the gauges and a job from its start to its
  report, and an invariant of every session, whatever the callers, the update threads and the platform do.
\<close>

section \<open>The GPUs of the platform\<close>

definition platform_gpus :: "amdsmi \<Rightarrow> nat \<Rightarrow> bool" where
  "platform_gpus smi n \<longleftrightarrow> 0 < n \<and> n \<le> RDC_MAX_NUM_DEVICES \<and> get_processor_count smi = Inr (word_of_nat n)
     \<and> (\<exists>p. get_processor_handle_from_id smi 0 = Inr p)"

definition gpu_numbers :: "nat \<Rightarrow> u32 list" where
  "gpu_numbers n = map word_of_nat [0..<n]"

lemma length_gpu_numbers [simp]: "length (gpu_numbers n) = n"
  by (simp add: gpu_numbers_def)

lemma distinct_gpu_numbers: "n \<le> 2 ^ 32 \<Longrightarrow> distinct (gpu_numbers n)"
  by (auto simp: gpu_numbers_def distinct_map inj_on_def unat_of_nat dest!: arg_cong [where f = unat])

lemma put_tel_same [simp]: "h\<lparr>eh_watch := (eh_watch h)\<lparr>ww_tel := (fst (ww_tel (eh_watch h)), snd (ww_tel (eh_watch h)))\<rparr>\<rparr> = h"
  by simp

lemma GPU_COUNT_valid: "is_field_valid RDC_FI_GPU_COUNT"
  by (simp add: is_field_valid_def field_id_to_descript_def)

lemma handler_fetch_count:
  assumes "platform_gpus (we_smi (ee_watch e)) n"
  shows "\<exists>v. handler_fetch e 0 RDC_FI_GPU_COUNT x h = Some (RDC_ST_OK, v, h) \<and> l_int (fv_value v) = word_of_nat n"
proof -
  from assms obtain p where p: "get_processor_handle_from_id (we_smi (ee_watch e)) 0 = Inr p"
    and c: "get_processor_count (we_smi (ee_watch e)) = Inr (word_of_nat n)" and n: "n \<le> 128"
    by (auto simp: platform_gpus_def RDC_MAX_NUM_DEVICES_def)
  from n have "unat (ucast (word_of_nat n :: u32) :: u64) = n"
    by (simp add: unsigned_ucast_eq unsigned_of_nat take_bit_nat_eq_self)
  then have "ucast (word_of_nat n :: u32) = (word_of_nat n :: u64)" by (metis of_nat_unat ucast_id)
  with c show ?thesis
    by (simp add: handler_fetch_def Let_def fetch_smi_field_def p GPU_COUNT_valid fetch_switch_def fetch_gpu_count_def put_integer_def)
qed

lemma device_get_all:
  assumes "platform_gpus (we_smi (ee_watch e)) n"
  shows "emb_device_get_all e True h = Some (RDC_ST_OK, Some (gpu_numbers n), h)"
proof -
  have n: "n \<le> 128" using assms by (simp add: platform_gpus_def RDC_MAX_NUM_DEVICES_def)
  then have "unat (ucast (word_of_nat n :: u64) :: u32) = n" by (simp add: unsigned_ucast_eq unsigned_of_nat take_bit_nat_eq_self)
  with handler_fetch_count [OF assms, of "ee_stack e" h] n show ?thesis
    by (auto simp: emb_device_get_all_def RDC_MAX_NUM_DEVICES_def gpu_numbers_def)
qed

section \<open>The default group\<close>

lemma ww_groups_on_groups [simp]: "ww_groups (eh_watch (on_groups f h)) = f (ww_groups (eh_watch h))"
  by (simp add: on_groups_def)

lemma add_all_gpus_fill:
  assumes p: "platform_gpus (we_smi (ee_watch e)) n"
    and "map_of (gpu_group (ww_groups (eh_watch h))) gid = Some info" and "length (entity_ids info) \<le> RDC_GROUP_MAX_ENTITIES"
    and "distinct (entity_ids info @ gs)" and "set gs \<subseteq> set (gpu_numbers n)"
  shows "\<exists>h'. add_all_gpus e gid gs st h =
      Some (if gs = [] then st else if length (entity_ids info @ gs) \<le> RDC_GROUP_MAX_ENTITIES then RDC_ST_OK else RDC_ST_MAX_LIMIT, h')
    \<and> map_of (gpu_group (ww_groups (eh_watch h'))) =
      (map_of (gpu_group (ww_groups (eh_watch h))))(gid \<mapsto> info\<lparr>entity_ids := take RDC_GROUP_MAX_ENTITIES (entity_ids info @ gs)\<rparr>)"
  using assms(2-)
proof (induction gs arbitrary: h info st)
  case Nil
  then show ?case by (simp add: fun_upd_idem)
next
  case (Cons g gs)
  let ?s = "ww_groups (eh_watch h)" and ?full = "RDC_GROUP_MAX_ENTITIES \<le> length (entity_ids info)"
  let ?info = "if ?full then info else info\<lparr>entity_ids := entity_ids info @ [g]\<rparr>"
  define h1 where "h1 = on_groups (\<lambda>_. snd (rdc_group_gpu_add gid g ?s)) h"
  have add: "emb_group_gpu_add e gid g h = Some (if ?full then RDC_ST_MAX_LIMIT else RDC_ST_OK, h1)"
    using Cons.prems by (simp add: emb_group_gpu_add_def device_get_all [OF p] rdc_group_gpu_add_def h1_def)
  have m: "map_of (gpu_group (ww_groups (eh_watch h1))) = (map_of (gpu_group ?s))(gid \<mapsto> ?info)"
    using Cons.prems(1,3) by (auto simp: h1_def rdc_group_gpu_add_def fun_eq_iff)
  show ?case
  proof (cases ?full)
    case True
    with Cons.prems have len: "length (entity_ids info) = RDC_GROUP_MAX_ENTITIES" by simp
    have "\<exists>h'. add_all_gpus e gid gs RDC_ST_MAX_LIMIT h1 =
      Some (if gs = [] then RDC_ST_MAX_LIMIT else if length (entity_ids info @ gs) \<le> RDC_GROUP_MAX_ENTITIES then RDC_ST_OK else RDC_ST_MAX_LIMIT, h')
    \<and> map_of (gpu_group (ww_groups (eh_watch h'))) =
      (map_of (gpu_group (ww_groups (eh_watch h1))))(gid \<mapsto> info\<lparr>entity_ids := take RDC_GROUP_MAX_ENTITIES (entity_ids info @ gs)\<rparr>)"
      by (rule Cons.IH) (use Cons.prems m True in auto)
    then obtain h' where "add_all_gpus e gid gs RDC_ST_MAX_LIMIT h1 = Some (RDC_ST_MAX_LIMIT, h')"
      "map_of (gpu_group (ww_groups (eh_watch h'))) = (map_of (gpu_group ?s))(gid \<mapsto> info)"
      using len m True by (auto split: if_splits)
    with add True len show ?thesis by (intro exI [of _ h']) simp
  next
    case False
    have "\<exists>h'. add_all_gpus e gid gs RDC_ST_OK h1 =
      Some (if gs = [] then RDC_ST_OK else if length (entity_ids ?info @ gs) \<le> RDC_GROUP_MAX_ENTITIES then RDC_ST_OK else RDC_ST_MAX_LIMIT, h')
    \<and> map_of (gpu_group (ww_groups (eh_watch h'))) =
      (map_of (gpu_group (ww_groups (eh_watch h1))))(gid \<mapsto> ?info\<lparr>entity_ids := take RDC_GROUP_MAX_ENTITIES (entity_ids ?info @ gs)\<rparr>)"
      by (rule Cons.IH) (use Cons.prems m False in auto)
    then obtain h' where "add_all_gpus e gid gs RDC_ST_OK h1 =
        Some (if length (entity_ids info) + length gs < RDC_GROUP_MAX_ENTITIES then RDC_ST_OK else RDC_ST_MAX_LIMIT, h')"
      "map_of (gpu_group (ww_groups (eh_watch h'))) =
        (map_of (gpu_group ?s))(gid \<mapsto> info\<lparr>entity_ids := take RDC_GROUP_MAX_ENTITIES (entity_ids info @ g # gs)\<rparr>)"
      using m False by (cases "gs = []") (auto simp: Suc_le_eq)
    with add False show ?thesis by (intro exI [of _ h']) (simp add: Suc_le_eq)
  qed
qed

text \<open>
  (C14) A default group contains every GPU of the platform, in order, under a new identifier, and no other
  group changes; on a platform with more GPUs than a group can hold the group keeps the first 64, and the
  call reports the limit although the group exists.
\<close>
theorem default_group_holds_gpus:
  assumes p: "platform_gpus (we_smi (ee_watch e)) n" and inv: "group_settings_inv (ww_groups (eh_watch h))"
    and room: "length (gpu_group (ww_groups (eh_watch h))) < RDC_MAX_NUM_GROUPS"
    and gid: "gid = cur_group_id (ww_groups (eh_watch h))"
  shows "\<exists>h'. emb_group_gpu_create e RDC_GROUP_DEFAULT (Some nm) True h =
      Some (if n \<le> RDC_GROUP_MAX_ENTITIES then RDC_ST_OK else RDC_ST_MAX_LIMIT, Some gid, h')
    \<and> map_of (gpu_group (ww_groups (eh_watch h))) gid = None
    \<and> map_of (gpu_group (ww_groups (eh_watch h'))) =
      (map_of (gpu_group (ww_groups (eh_watch h))))
        (gid \<mapsto> \<lparr>group_name = take 255 nm, entity_ids = take RDC_GROUP_MAX_ENTITIES (gpu_numbers n)\<rparr>)"
proof -
  let ?s = "ww_groups (eh_watch h)"
  have n: "0 < n" "n \<le> 128" using p by (simp_all add: platform_gpus_def RDC_MAX_NUM_DEVICES_def)
  from inv have new: "map_of (gpu_group ?s) gid = None" unfolding gid
    by (auto simp: group_settings_inv_def registry_ok_def dom_def)
  define s1 where "s1 = snd (snd (rdc_group_gpu_create nm ?s))"
  let ?info = "\<lparr>group_name = take 255 nm, entity_ids = []\<rparr>"
  have c: "rdc_group_gpu_create nm ?s = (RDC_ST_OK, Some gid, s1)" and m: "map_of (gpu_group s1) = (map_of (gpu_group ?s))(gid \<mapsto> ?info)"
    using room new by (auto simp: s1_def rdc_group_gpu_create_def gid map_of_map_insert new_group_info_def strncpy_with_null_def RDC_MAX_STR_LENGTH_def)
  have "\<exists>h'. add_all_gpus e gid (gpu_numbers n) RDC_ST_OK (on_groups (\<lambda>_. s1) h) =
      Some (if gpu_numbers n = [] then RDC_ST_OK else if length (entity_ids ?info @ gpu_numbers n) \<le> RDC_GROUP_MAX_ENTITIES then RDC_ST_OK else RDC_ST_MAX_LIMIT, h')
    \<and> map_of (gpu_group (ww_groups (eh_watch h'))) = (map_of (gpu_group (ww_groups (eh_watch (on_groups (\<lambda>_. s1) h)))))
        (gid \<mapsto> ?info\<lparr>entity_ids := take RDC_GROUP_MAX_ENTITIES (entity_ids ?info @ gpu_numbers n)\<rparr>)"
    by (rule add_all_gpus_fill [OF p]) (use m n in \<open>simp_all add: distinct_gpu_numbers\<close>)
  then obtain h' where h': "add_all_gpus e gid (gpu_numbers n) RDC_ST_OK (on_groups (\<lambda>_. s1) h) =
      Some (if n \<le> RDC_GROUP_MAX_ENTITIES then RDC_ST_OK else RDC_ST_MAX_LIMIT, h')"
    "map_of (gpu_group (ww_groups (eh_watch h'))) = (map_of (gpu_group s1))
        (gid \<mapsto> ?info\<lparr>entity_ids := take RDC_GROUP_MAX_ENTITIES (gpu_numbers n)\<rparr>)"
    using n by (auto simp: gpu_numbers_def split: if_splits)
  then show ?thesis using new m by (simp add: emb_group_gpu_create_def c device_get_all [OF p] Let_def)
qed


section \<open>A job from its start to its report\<close>

text \<open>What the platform knows of a GPU: its memory and the totals of its ECC counters.\<close>

definition gpu_reading :: "amdsmi \<Rightarrow> u32 \<Rightarrow> u64 \<Rightarrow> u64 \<times> u64 \<Rightarrow> bool" where
  "gpu_reading smi g tot ecc \<longleftrightarrow>
     (\<exists>p. get_processor_handle_from_id smi g = Inr p \<and> smi_memory_total smi p = (AMDSMI_STATUS_SUCCESS, tot)
        \<and> ecc_total_loop smi p 33 (smi_block_first smi) (0, 0) = Some ecc)"

definition platform_readings :: "amdsmi \<Rightarrow> nat \<Rightarrow> (u32 \<Rightarrow> u64) \<Rightarrow> (u32 \<Rightarrow> u64 \<times> u64) \<Rightarrow> bool" where
  "platform_readings smi n tot ecc \<longleftrightarrow> platform_gpus smi n \<and> (\<forall>g\<in>set (gpu_numbers n). gpu_reading smi g (tot g) (ecc g))"

lemma gauge_fields_valid: "is_field_valid RDC_FI_GPU_MEMORY_TOTAL" "is_field_valid RDC_FI_ECC_CORRECT_TOTAL"
  "is_field_valid RDC_FI_ECC_UNCORRECT_TOTAL"
  by (simp_all add: is_field_valid_def field_id_to_descript_def)

lemma handler_fetch_memory:
  assumes "gpu_reading (we_smi (ee_watch e)) g tot ecc"
  shows "\<exists>v. handler_fetch e g RDC_FI_GPU_MEMORY_TOTAL x h = Some (RDC_ST_OK, v, h) \<and> l_int (fv_value v) = tot"
  using assms by (auto simp: gpu_reading_def handler_fetch_def Let_def fetch_smi_field_def gauge_fields_valid fetch_switch_def put_integer_def)

lemma insert_ecc_gauge_ok:
  assumes "gpu_reading (we_smi (ee_watch e)) g tot ecc"
  shows "\<exists>v'. insert_ecc_gauge e g RDC_FI_ECC_CORRECT_TOTAL (v, gg, h)
      = Some (v', map_insert (g, RDC_FI_ECC_CORRECT_TOTAL) (fst ecc) gg, h)"
    and "\<exists>v'. insert_ecc_gauge e g RDC_FI_ECC_UNCORRECT_TOTAL (v, gg, h)
      = Some (v', map_insert (g, RDC_FI_ECC_UNCORRECT_TOTAL) (snd ecc) gg, h)"
  using assms by (auto simp: gpu_reading_def insert_ecc_gauge_def handler_fetch_def Let_def fetch_smi_field_def
      gauge_fields_valid fetch_switch_def get_ecc_total_def case_prod_unfold)

lemma gauges_loop_ok:
  assumes "\<forall>g\<in>set gs. gpu_reading (we_smi (ee_watch e)) g (tot g) (ecc g)" and "distinct gs"
    and "\<forall>g\<in>set gs. \<forall>f. map_of gg (g, f) = None"
  shows "\<exists>gg'. gauges_loop e gs gg h = Some (RDC_ST_OK, gg', h)
    \<and> (\<forall>g\<in>set gs. map_of gg' (g, RDC_FI_GPU_MEMORY_TOTAL) = Some (tot g)
         \<and> map_of gg' (g, RDC_FI_ECC_CORRECT_TOTAL) = Some (fst (ecc g))
         \<and> map_of gg' (g, RDC_FI_ECC_UNCORRECT_TOTAL) = Some (snd (ecc g)))
    \<and> (\<forall>g f. g \<notin> set gs \<longrightarrow> map_of gg' (g, f) = map_of gg (g, f))"
  using assms
proof (induction gs arbitrary: gg)
  case (Cons g gs)
  then have r: "gpu_reading (we_smi (ee_watch e)) g (tot g) (ecc g)" by simp
  let ?gg1 = "map_insert (g, RDC_FI_GPU_MEMORY_TOTAL) (tot g) gg"
  let ?gg2 = "map_insert (g, RDC_FI_ECC_CORRECT_TOTAL) (fst (ecc g)) ?gg1"
  let ?gg3 = "map_insert (g, RDC_FI_ECC_UNCORRECT_TOTAL) (snd (ecc g)) ?gg2"
  from handler_fetch_memory [OF r] obtain v where v: "handler_fetch e g RDC_FI_GPU_MEMORY_TOTAL (ee_stack e) h = Some (RDC_ST_OK, v, h)"
    "l_int (fv_value v) = tot g" by blast
  from insert_ecc_gauge_ok(1) [OF r] obtain v2 where v2: "insert_ecc_gauge e g RDC_FI_ECC_CORRECT_TOTAL (v, ?gg1, h) = Some (v2, ?gg2, h)" by blast
  from insert_ecc_gauge_ok(2) [OF r] obtain v3 where v3: "insert_ecc_gauge e g RDC_FI_ECC_UNCORRECT_TOTAL (v2, ?gg2, h) = Some (v3, ?gg3, h)" by blast
  have step: "gauges_loop e (g # gs) gg h = gauges_loop e gs ?gg3 h" by (simp add: v v2 v3)
  have m: "map_of ?gg3 (g, RDC_FI_GPU_MEMORY_TOTAL) = Some (tot g) \<and> map_of ?gg3 (g, RDC_FI_ECC_CORRECT_TOTAL) = Some (fst (ecc g))
      \<and> map_of ?gg3 (g, RDC_FI_ECC_UNCORRECT_TOTAL) = Some (snd (ecc g))"
    and o: "\<And>g' f. g' \<noteq> g \<Longrightarrow> map_of ?gg3 (g', f) = map_of gg (g', f)"
    using Cons.prems(3) by (simp_all add: map_of_map_insert split: option.splits)
  have none: "\<forall>g'\<in>set gs. \<forall>f. map_of ?gg3 (g', f) = None"
  proof (intro ballI allI)
    fix g' f assume "g' \<in> set gs"
    moreover from this have "g' \<noteq> g" using Cons.prems(2) by auto
    ultimately show "map_of ?gg3 (g', f) = None" using Cons.prems(3) o by simp
  qed
  have "\<exists>gg'. gauges_loop e gs ?gg3 h = Some (RDC_ST_OK, gg', h)
    \<and> (\<forall>g\<in>set gs. map_of gg' (g, RDC_FI_GPU_MEMORY_TOTAL) = Some (tot g)
         \<and> map_of gg' (g, RDC_FI_ECC_CORRECT_TOTAL) = Some (fst (ecc g))
         \<and> map_of gg' (g, RDC_FI_ECC_UNCORRECT_TOTAL) = Some (snd (ecc g)))
    \<and> (\<forall>g f. g \<notin> set gs \<longrightarrow> map_of gg' (g, f) = map_of ?gg3 (g, f))"
    by (rule Cons.IH [OF _ _ none]) (use Cons.prems in auto)
  then obtain gg' where gg': "gauges_loop e gs ?gg3 h = Some (RDC_ST_OK, gg', h)"
    "\<forall>g\<in>set gs. map_of gg' (g, RDC_FI_GPU_MEMORY_TOTAL) = Some (tot g)
         \<and> map_of gg' (g, RDC_FI_ECC_CORRECT_TOTAL) = Some (fst (ecc g))
         \<and> map_of gg' (g, RDC_FI_ECC_UNCORRECT_TOTAL) = Some (snd (ecc g))"
    "\<And>g f. g \<notin> set gs \<Longrightarrow> map_of gg' (g, f) = map_of ?gg3 (g, f)" by blast
  have "g \<notin> set gs" using Cons.prems(2) by simp
  then show ?case using step gg'(1,2) m o unfolding step gg'(1) by (intro exI [of _ gg']) (simp add: gg'(3))
qed simp

lemma get_gpu_gauges_ok:
  assumes "platform_readings (we_smi (ee_watch e)) n tot ecc"
  shows "\<exists>gg. get_gpu_gauges e h = Some (RDC_ST_OK, gg, h)
    \<and> (\<forall>g\<in>set (gpu_numbers n). map_of gg (g, RDC_FI_GPU_MEMORY_TOTAL) = Some (tot g)
         \<and> map_of gg (g, RDC_FI_ECC_CORRECT_TOTAL) = Some (fst (ecc g))
         \<and> map_of gg (g, RDC_FI_ECC_UNCORRECT_TOTAL) = Some (snd (ecc g)))"
proof -
  have p: "platform_gpus (we_smi (ee_watch e)) n" and r: "\<forall>g\<in>set (gpu_numbers n). gpu_reading (we_smi (ee_watch e)) g (tot g) (ecc g)"
    using assms by (auto simp: platform_readings_def)
  have "distinct (gpu_numbers n)" using p by (intro distinct_gpu_numbers) (simp add: platform_gpus_def RDC_MAX_NUM_DEVICES_def)
  from gauges_loop_ok [OF r this, of "[]" h] show ?thesis
    by (simp add: get_gpu_gauges_def device_get_all [OF p]) blast
qed

lemma rdc_field_watch_cache:
  "rdc_field_watch e gid fgid freq age n w = Some (st, w') \<Longrightarrow> wt_cache (ww_core w') = wt_cache (ww_core w)"
  by (auto simp: rdc_field_watch_def Let_def split: if_splits prod.splits)

lemma rdc_watch_job_start_OK:
  assumes "rdc_watch_job_start e gid j freq gg w = Some (RDC_ST_OK, w')"
  shows "\<exists>gi fi. rdc_group_gpu_get_info gid (ww_groups w) = (RDC_ST_OK, Some gi)
    \<and> wt_cache (ww_core w') = snd (rdc_job_start_stats j gi fi gg (we_now_s e) (wt_cache (ww_core w)))"
proof -
  have t: "map_of (wt_job_table (ww_core w)) j = None" using assms by (auto simp: rdc_watch_job_start_def Let_def split: if_splits)
  obtain st fks where f: "get_fields_from_group gid JOB_FIELD_ID (ww_groups w) = (st, fks)" by fastforce
  have ok: "st = RDC_ST_OK" "fks \<noteq> []" using assms t f by (auto simp: rdc_watch_job_start_def Let_def split: if_splits)
  with f obtain gi fi where i: "rdc_group_gpu_get_info gid (ww_groups w) = (RDC_ST_OK, Some gi)"
    "rdc_group_field_get_info JOB_FIELD_ID (ww_groups w) = (RDC_ST_OK, Some fi)"
    "fks = concat (map (\<lambda>g. map (Pair g) (field_ids fi)) (entity_ids gi))"
    using get_fields_OK_iff by blast
  let ?w = "w\<lparr>ww_core := job_started_core e gid j gg fks gi fi (ww_core w)\<rparr>"
  have "rdc_field_watch e gid JOB_FIELD_ID freq 0 0 ?w = Some (RDC_ST_OK, w')"
    using assms rdc_watch_job_start_new [OF t i ok(2), of e freq gg] by simp
  from rdc_field_watch_cache [OF this] i(1) show ?thesis by (auto simp: job_started_core_def)
qed

text \<open>
  (C13) A job through the handler: when starting it on a group succeeds, a report right after succeeds too,
  changes nothing in the handler, and gives for each GPU of the group the growth of the platform's two ECC
  totals between the two calls. The memory and the ECC totals of all GPUs of the platform can be read at both times, the GPUs of the group are among
  those the platform has at both times, the report has room for them, and a hundredth of the memory of each, cut to the 32 bits of the
  divisor, is not zero.
\<close>
theorem handler_job_ecc_growth:
  assumes r0: "platform_readings (we_smi (ee_watch e0)) n0 tot0 ecc0" and r1: "platform_readings (we_smi (ee_watch e1)) n1 tot1 ecc1"
    and gi: "rdc_group_gpu_get_info gid (ww_groups (eh_watch h)) = (RDC_ST_OK, Some gi)"
    and gpus: "set (entity_ids gi) \<subseteq> set (gpu_numbers n0) \<inter> set (gpu_numbers n1)" "length (entity_ids gi) < 2 ^ 32"
    and room: "\<forall>g\<in>set (entity_ids gi). unat g < length (ji_gpus info) \<and> ucast (tot1 g div 100) \<noteq> (0 :: u32)"
    and start: "emb_job_start_stats e0 gid j freq h = Some (RDC_ST_OK, (), h1)"
    and g: "g \<in> set (entity_ids gi)"
  shows "\<exists>info'. emb_job_get_stats e1 j (Some info) h1 = Some (RDC_ST_OK, Some info', h1)
    \<and> gu_ecc_correct (ji_gpus info' ! unat g) = fst (ecc1 g) - fst (ecc0 g)
    \<and> gu_ecc_uncorrect (ji_gpus info' ! unat g) = snd (ecc1 g) - snd (ecc0 g)"
proof -
  from get_gpu_gauges_ok [OF r0, of h] obtain gg0 where gg0: "get_gpu_gauges e0 h = Some (RDC_ST_OK, gg0, h)"
    and e0: "map_of gg0 (g, RDC_FI_ECC_CORRECT_TOTAL) = Some (fst (ecc0 g))" "map_of gg0 (g, RDC_FI_ECC_UNCORRECT_TOTAL) = Some (snd (ecc0 g))"
    using gpus(1) g by blast
  from get_gpu_gauges_ok [OF r1, of h1] obtain gg1 where gg1: "get_gpu_gauges e1 h1 = Some (RDC_ST_OK, gg1, h1)"
    and t1: "\<forall>g\<in>set (gpu_numbers n1). map_of gg1 (g, RDC_FI_GPU_MEMORY_TOTAL) = Some (tot1 g)"
    and e1: "map_of gg1 (g, RDC_FI_ECC_CORRECT_TOTAL) = Some (fst (ecc1 g))" "map_of gg1 (g, RDC_FI_ECC_UNCORRECT_TOTAL) = Some (snd (ecc1 g))"
    using gpus(1) g by blast
  from start gg0 have "on_watch (rdc_watch_job_start (ee_watch e0) gid j freq gg0) h = Some (RDC_ST_OK, h1)"
    by (auto simp: emb_job_start_stats_def with_gauges_def status_only_def)
  then obtain w1 where w1: "rdc_watch_job_start (ee_watch e0) gid j freq gg0 (eh_watch h) = Some (RDC_ST_OK, w1)"
    and h1: "eh_watch h1 = w1" by (auto simp: on_watch_def)
  from rdc_watch_job_start_OK [OF w1] gi obtain fi where
    c: "wt_cache (ww_core w1) = snd (rdc_job_start_stats j gi fi gg0 (we_now_s (ee_watch e0)) (wt_cache (ww_core (eh_watch h))))" by auto
  have s0: "wt_cache (ww_core w1) = send_samples [] (snd (rdc_job_start_stats j gi fi gg0 (we_now_s (ee_watch e0)) (wt_cache (ww_core (eh_watch h)))))"
    using c by (simp add: send_samples_def)
  from job_started [OF g gpus(2) e0 s0] obtain ks where
    sh: "job_shape (wt_cache (ww_core w1)) j = Some (we_now_s (ee_watch e0), 0, ks)"
    and ks: "sorted_wrt (<) ks" "set ks = set (entity_ids gi)" "length ks < 2 ^ 32"
    and ecc: "map_option gpu_ecc (job_gpu (wt_cache (ww_core w1)) (j, g)) = Some (fst (ecc0 g), snd (ecc0 g))" by blast
  have rep: "\<forall>h\<in>set ks. gpu_reportable gg1 (length (ji_gpus info)) h"
    using room t1 gpus(1) ks(2) by (auto simp: gpu_reportable_def)
  have "g \<in> set ks" using g ks(2) by simp
  from job_report_ecc [OF sh ks(1) this ks(3) rep ecc, of "we_now_s (ee_watch e1)"] e1 h1 gg1 show ?thesis
    by (auto simp: emb_job_get_stats_def with_gauges_def ecc_report_def)
qed


subsection \<open>A small handler\<close>

text \<open>The handler of the two-GPU platform, with one library that supports the temperature.\<close>

definition idle_lib :: "((metric_fetcher \<times> unit) \<times> cap_state, watch_core) rdc_telemetry" where
  "idle_lib = \<lparr>rdc_telemetry_fields_query = (\<lambda>_. (RDC_ST_OK, [RDC_FI_GPU_TEMP])),
     rdc_telemetry_fields_watch = (\<lambda>_ s. Some (RDC_ST_OK, s)), rdc_telemetry_fields_unwatch = (\<lambda>_ s. Some (RDC_ST_OK, s)),
     rdc_telemetry_fields_value_get = (\<lambda>_ _ su. Some (RDC_ST_OK, su))\<rparr>"

definition demo_handler_env :: "u64 \<Rightarrow> unit handler_env" where
  "demo_handler_env now =
     \<lparr>ee_watch = \<lparr>we_smi = two_gpu_smi, we_libcap = quiet_libcap, we_libs = (\<lambda>_. idle_lib), we_now = now, we_now_s = now div 1000\<rparr>,
      ee_diag = (\<lambda>_. smi_diag_lib demo_diag), ee_clock = now, ee_stack = blank_value, ee_lib_version = (AMDSMI_STATUS_SUCCESS, ''25.0'')\<rparr>"

definition fresh_handler :: "unit handler" where
  "fresh_handler = new_handler RDC_OPERATION_MODE_MANUAL \<lparr>ml_diagnostic = [7], ml_telemetry = [7]\<rparr> () {}"

definition demo_handler :: "unit handler" where
  "demo_handler = on_groups (\<lambda>_. demo_groups) fresh_handler"

lemma two_gpu_count: "get_processor_count two_gpu_smi = Inr 2"
  by (simp add: get_processor_count_def two_gpu_smi_def)

lemma two_gpu_memory: "smi_memory_total two_gpu_smi p = (AMDSMI_STATUS_SUCCESS, 65536)"
  by (simp add: two_gpu_smi_def)

lemma two_gpu_ecc: "ecc_total_loop two_gpu_smi p 33 (smi_block_first two_gpu_smi) (0, 0) = Some (7, 70)"
proof -
  have "ecc_total_loop two_gpu_smi p (Suc (Suc (Suc (Suc n)))) 1 (0, 0) = Some (7, 70)" for n
    by (simp add: two_gpu_smi_def ecc_block_add_def)
  moreover have "33 = Suc (Suc (Suc (Suc 29)))" by simp
  moreover have "smi_block_first two_gpu_smi = 1" by (simp add: two_gpu_smi_def)
  ultimately show ?thesis by (simp only:)
qed

lemma demo_platform: "platform_gpus (we_smi (ee_watch (demo_handler_env now))) 2"
  by (simp add: platform_gpus_def demo_handler_env_def two_gpu_handle RDC_MAX_NUM_DEVICES_def two_gpu_count)

lemma two_gpu_numbers: "gpu_numbers 2 = [0, 1]"
  by (simp add: gpu_numbers_def upt_rec)

lemma demo_readings: "platform_readings (we_smi (ee_watch (demo_handler_env now))) 2 (\<lambda>_. 65536) (\<lambda>_. (7, 70))"
proof -
  have "we_smi (ee_watch (demo_handler_env now)) = two_gpu_smi" by (simp add: demo_handler_env_def)
  moreover have "gpu_reading two_gpu_smi g 65536 (7, 70)" if "unat g < 2" for g
    using that by (simp add: gpu_reading_def two_gpu_handle two_gpu_memory two_gpu_ecc)
  ultimately show ?thesis using demo_platform [of now] by (simp add: platform_readings_def two_gpu_numbers)
qed

theorem default_group_holds_gpus_witness:
  "\<exists>h'. emb_group_gpu_create (demo_handler_env 5000) RDC_GROUP_DEFAULT (Some ''all'') True fresh_handler = Some (RDC_ST_OK, Some 1, h')
    \<and> map_of (gpu_group (ww_groups (eh_watch h'))) 1 = Some \<lparr>group_name = ''all'', entity_ids = [0, 1]\<rparr>"
proof -
  have g: "ww_groups (eh_watch fresh_handler) = group_settings_init" by (simp add: fresh_handler_def new_handler_def)
  have i: "gpu_group group_settings_init = []" "cur_group_id group_settings_init = 1"
    by (simp_all add: group_settings_init_def rdc_group_field_create_def limit_defs job_fields_def)
  from default_group_holds_gpus [OF demo_platform [of 5000], of fresh_handler 1 "''all''"]
  show ?thesis unfolding g i by (auto simp: group_settings_inv_init i two_gpu_numbers limit_defs)
qed

lemma demo_job_start:
  "\<exists>h1. emb_job_start_stats (demo_handler_env 5000) 1 ''job'' 1000000 demo_handler = Some (RDC_ST_OK, (), h1)"
proof -
  from get_gpu_gauges_ok [OF demo_readings, of 5000 demo_handler] obtain gg where
    gg: "get_gpu_gauges (demo_handler_env 5000) demo_handler = Some (RDC_ST_OK, gg, demo_handler)" by blast
  have "\<exists>w. rdc_watch_job_start (ee_watch (demo_handler_env 5000)) 1 ''job'' 1000000 gg (eh_watch demo_handler) = Some (RDC_ST_OK, w)"
    by (simp add: rdc_watch_job_start_def rdc_field_watch_def demo_handler_def fresh_handler_def new_handler_def on_groups_def
      watch_core_init_def Let_def set_listen_events_def get_fields_from_group_def demo_groups_def rdc_group_gpu_get_info_def
      rdc_group_field_get_info_def rdc_job_start_stats_def JOB_FIELD_ID_def
      rdc_2_smi_event_notif_map_def get_telemetry_module_def new_telemetry_module_def register_module_def demo_handler_env_def idle_lib_def
      module_fields_query_def MAX_NUM_FIELDS_def watch_field_def map_insert_def map_erase_def watched_keys_def vec_ptr_def
      module_fields_watch_def module_dispatch_def map_modify_def)
  with gg show ?thesis by (auto simp: emb_job_start_stats_def with_gauges_def status_only_def on_watch_def)
qed

theorem handler_job_ecc_growth_witness:
  "\<exists>h1 info'. emb_job_start_stats (demo_handler_env 5000) 1 ''job'' 1000000 demo_handler = Some (RDC_ST_OK, (), h1)
    \<and> emb_job_get_stats (demo_handler_env 9000) ''job'' (Some blank_job_info) h1 = Some (RDC_ST_OK, Some info', h1)
    \<and> gu_ecc_correct (ji_gpus info' ! 1) = 0"
proof -
  from demo_job_start obtain h1 where start: "emb_job_start_stats (demo_handler_env 5000) 1 ''job'' 1000000 demo_handler = Some (RDC_ST_OK, (), h1)"
    by blast
  have gi: "rdc_group_gpu_get_info 1 (ww_groups (eh_watch demo_handler)) = (RDC_ST_OK, Some \<lparr>group_name = ''g'', entity_ids = [0, 1]\<rparr>)"
    by (simp add: demo_handler_def demo_groups_def rdc_group_gpu_get_info_def strncpy_with_null_def RDC_MAX_STR_LENGTH_def)
  note r = handler_job_ecc_growth [OF demo_readings demo_readings [of 9000] gi _ _ _ start, of blank_job_info 1]
  have "\<exists>info'. emb_job_get_stats (demo_handler_env 9000) ''job'' (Some blank_job_info) h1 = Some (RDC_ST_OK, Some info', h1)
    \<and> gu_ecc_correct (ji_gpus info' ! 1) = 0"
    using r by (simp add: two_gpu_numbers blank_job_info_def Let_def) blast
  with start show ?thesis by auto
qed

end
