(* ===== verification/Rdc_Session.thy ===== *)
theory Rdc_Session
  imports Rdc_Handler_Properties
begin

text \<open>
  A session with the embedded handler: any sequence of API calls, of rounds of the two updater threads and
  of asynchronous updates, with any arguments, clock and platform. The group tables stay well-formed, every
  field group and the field table of the watch table hold known fields only, and the two modules
  stay those of the libraries that the module manager collected.
\<close>

section \<open>What the watch table may do to a state\<close>

definition groups_valid :: "group_settings \<Rightarrow> bool" where
  "groups_valid gs \<longleftrightarrow> (\<forall>i f. map_of (field_group gs) i = Some f \<longrightarrow> list_all is_field_valid (field_ids f))"

definition fields_valid :: "watch_core \<Rightarrow> bool" where
  "fields_valid c \<longleftrightarrow> (\<forall>e\<in>set (wt_fields c). is_field_valid (snd (fst e)))"

definition watch_good :: "group_settings \<Rightarrow> nat list \<Rightarrow> 's watch_state \<Rightarrow> bool" where
  "watch_good gs mods w \<longleftrightarrow> ww_groups w = gs \<and> ww_modules w = mods \<and> fields_valid (ww_core w) \<and> module_ok w"

text \<open>The libraries touch the watch table through the callback only.\<close>

definition libs_sound :: "'s watch_env \<Rightarrow> bool" where
  "libs_sound e \<longleftrightarrow> (\<forall>a. callback_only (rdc_telemetry_fields_value_get (we_libs e a)))"

lemma fields_valid_set [simp]:
  "fields_valid (c\<lparr>wt_watch_table := x\<rparr>) = fields_valid c"
  "fields_valid (c\<lparr>wt_cache := y\<rparr>) = fields_valid c"
  "fields_valid (c\<lparr>wt_job_table := z\<rparr>) = fields_valid c"
  "fields_valid (c\<lparr>wt_last_cleanup := t\<rparr>) = fields_valid c"
  by (simp_all add: fields_valid_def)

lemma set_map_put: "set (map_put k v m) \<subseteq> insert (k, v) (set m)"
  by (induction m) auto

lemma valid_modify: "(\<forall>e\<in>set (map_modify k f m). P (fst e)) \<longleftrightarrow> (\<forall>e\<in>set m. P (fst e))"
  by (induction m) (auto simp: map_modify_def)

lemma valid_watch_field:
  "is_field_valid (snd k) \<Longrightarrow> \<forall>e\<in>set m. is_field_valid (snd (fst e)) \<Longrightarrow> \<forall>e\<in>set (watch_field f k m). is_field_valid (snd (fst e))"
  using set_map_put [of k f m]
  by (auto simp: watch_field_def map_insert_def valid_modify [where P = "\<lambda>k. is_field_valid (snd k)"] split: option.splits)

lemma valid_fold_watch:
  "\<forall>k\<in>set fks. is_field_valid (snd k) \<Longrightarrow> \<forall>e\<in>set m. is_field_valid (snd (fst e)) \<Longrightarrow>
   \<forall>e\<in>set (fold (watch_field f) fks m). is_field_valid (snd (fst e))"
proof (induction fks arbitrary: m)
  case (Cons k fks)
  then have "\<forall>e\<in>set (watch_field f k m). is_field_valid (snd (fst e))" by (intro valid_watch_field) auto
  with Cons show ?case by simp
qed simp

lemma valid_fold_unwatch:
  "\<forall>e\<in>set m. is_field_valid (snd (fst e)) \<Longrightarrow> \<forall>e\<in>set (fold (unwatch_field freqs) ks m). is_field_valid (snd (fst e))"
  by (rule fold_keeps) (simp_all add: unwatch_field_def valid_modify [where P = "\<lambda>k. is_field_valid (snd k)"])

lemma fields_valid_store: "fields_valid c \<Longrightarrow> fields_valid (store_value ts g v c)"
  by (simp add: fields_valid_def store_value_def Let_def valid_modify [where P = "\<lambda>k. is_field_valid (snd k)"])

lemma fields_valid_handle: "fields_valid c \<Longrightarrow> fields_valid (snd (handle_fields now vs c))"
  by (simp add: handle_fields_def fields_valid_store fold_keeps [where P = fields_valid] split: option.split)

lemma fields_valid_notif: "fields_valid c \<Longrightarrow> fields_valid (snd (rdc_notif_update_cache es c))"
  by (simp add: rdc_notif_update_cache_def fields_valid_store fold_keeps [where P = fields_valid] split: option.split)

lemma fields_valid_clean_up: "fields_valid c \<Longrightarrow> clean_up now c = Some c' \<Longrightarrow> fields_valid c'"
  by (auto simp: clean_up_def fields_valid_def)

lemma group_fields_valid:
  assumes "groups_valid gs" and "get_fields_from_group gid fgid gs = (RDC_ST_OK, fks)"
  shows "\<forall>k\<in>set fks. is_field_valid (snd k)"
proof -
  from assms(2) obtain gi fi where "rdc_group_gpu_get_info gid gs = (RDC_ST_OK, Some gi)"
    and "rdc_group_field_get_info fgid gs = (RDC_ST_OK, Some fi)" and fks: "fks = concat (map (\<lambda>g. map (Pair g) (field_ids fi)) (entity_ids gi))" unfolding get_fields_OK_iff by blast
  from this(2) obtain f where "map_of (field_group gs) fgid = Some f" "field_ids fi = field_ids f"
    by (auto simp: rdc_group_field_get_info_def split: option.splits)
  with assms(1) have "list_all is_field_valid (field_ids fi)" by (auto simp: groups_valid_def)
  then show ?thesis by (auto simp: fks list_all_iff)
qed

lemma watch_goodD:
  "watch_good gs mods w \<Longrightarrow> ww_groups w = gs" "watch_good gs mods w \<Longrightarrow> ww_modules w = mods"
  "watch_good gs mods w \<Longrightarrow> fields_valid (ww_core w)" "watch_good gs mods w \<Longrightarrow> module_ok w"
  by (simp_all add: watch_good_def)

lemma watch_good_core: "watch_good gs mods w \<Longrightarrow> fields_valid c \<Longrightarrow> watch_good gs mods (w\<lparr>ww_core := c\<rparr>)"
  by (simp add: watch_good_def module_ok_def)

lemma watch_good_dispatched:
  assumes "watch_good gs mods w" and "get_telemetry_module e w = (tm, w2)" and "tm_modules tm' = tm_modules tm" and "fields_valid c"
  shows "watch_good gs mods (w2\<lparr>ww_core := c, ww_module := Some tm', ww_tel := t, ww_caps := p\<rparr>)"
  using get_telemetry_module_ok [OF watch_goodD(4) [OF assms(1)] assms(2)] assms by (simp add: watch_good_def module_ok_def)

section \<open>Every operation of the watch table keeps it\<close>

lemma good_watch:
  assumes g: "watch_good gs mods w" and v: "groups_valid gs" and r: "rdc_field_watch e gid fgid freq age n w = Some (st, w')"
  shows "watch_good gs mods w'"
proof (cases "case map_of (wt_watch_table (ww_core w)) (gid, fgid) of Some s \<Rightarrow> st_is_watching s | None \<Rightarrow> False")
  case True
  with r g show ?thesis by (simp add: rdc_field_watch_def Let_def)
next
  case off: False
  let ?c = "ww_core w" and ?k = "(gid, fgid)"
  let ?w1 = "w\<lparr>ww_core := ?c\<lparr>wt_watch_table := map_erase ?k (wt_watch_table ?c)\<rparr>\<rparr>"
  have w1: "watch_good gs mods ?w1" by (rule watch_good_core [OF g]) (simp add: watch_goodD(3) [OF g])
  obtain st1 fks where f: "get_fields_from_group gid fgid gs = (st1, fks)" by fastforce
  show ?thesis
  proof (cases "st1 = RDC_ST_OK")
    case False
    with r off f w1 show ?thesis by (simp add: rdc_field_watch_def Let_def watch_goodD(1) [OF g])
  next
    case True
    obtain x masks caps where sl: "set_listen_events (we_smi e) (we_libcap e) fks (ww_masks w, ww_caps w) = (x, masks, caps)"
      by (metis prod_cases3)
    let ?w1' = "?w1\<lparr>ww_masks := masks, ww_caps := caps\<rparr>"
    obtain tm w2 where tm: "get_telemetry_module e ?w1' = (tm, w2)" by fastforce
    let ?ids = "snd (module_fields_query (we_libs e) tm (ww_tel w2, ww_caps w2))"
    let ?f = "\<lparr>st_update_freq = freq, st_max_keep_samples = n, st_max_keep_age = age, st_is_watching = True, st_last_update_time = 0\<rparr>"
    let ?flds = "fold (watch_field ?f) (filter (\<lambda>fk. snd fk \<in> set ?ids) fks) (wt_fields ?c)"
    let ?c2 = "?c\<lparr>wt_watch_table := map_insert ?k ?f (map_erase ?k (wt_watch_table ?c)), wt_fields := ?flds\<rparr>"
    from r off f True sl tm watch_goodD(1) [OF g] obtain tm' tel caps' st2 where
      mw: "module_fields_watch (we_libs e) (vec_ptr (watched_keys ?flds)) (tm, ww_tel w2, ww_caps w2) = Some (st2, tm', tel, caps')"
      and w': "w' = w2\<lparr>ww_core := ?c2, ww_module := Some tm', ww_tel := tel, ww_caps := caps'\<rparr>"
      by (auto simp: rdc_field_watch_def Let_def split: if_splits)
    have "\<forall>k\<in>set (filter (\<lambda>fk. snd fk \<in> set ?ids) fks). is_field_valid (snd k)"
      using group_fields_valid [OF v] f True by auto
    moreover have "\<forall>e\<in>set (wt_fields ?c). is_field_valid (snd (fst e))" using watch_goodD(3) [OF g] by (simp add: fields_valid_def)
    ultimately have "\<forall>e\<in>set ?flds. is_field_valid (snd (fst e))" by (rule valid_fold_watch)
    then have "fields_valid ?c2" by (simp add: fields_valid_def)
    moreover have "tm_modules tm' = tm_modules tm" using module_dispatch_modules mw by (metis module_fields_watch_def)
    moreover have "watch_good gs mods ?w1'" using w1 by (simp add: watch_good_def module_ok_def)
    ultimately show ?thesis unfolding w' by (intro watch_good_dispatched [OF _ tm])
  qed
qed

lemma good_unwatch:
  assumes g: "watch_good gs mods w" and r: "rdc_field_unwatch e gid fgid w = Some (st, w')"
  shows "watch_good gs mods w'"
proof (cases "map_of (wt_watch_table (ww_core w)) (gid, fgid)")
  case None
  with r g show ?thesis by (simp add: rdc_field_unwatch_def Let_def)
next
  case (Some s)
  let ?c = "ww_core w" and ?k = "(gid, fgid)"
  let ?wt = "map_modify ?k (\<lambda>s. s\<lparr>st_is_watching := False, st_last_update_time := we_now e\<rparr>) (wt_watch_table ?c)"
  let ?w1 = "w\<lparr>ww_core := ?c\<lparr>wt_watch_table := ?wt\<rparr>\<rparr>"
  have w1: "watch_good gs mods ?w1" by (rule watch_good_core [OF g]) (simp add: watch_goodD(3) [OF g])
  obtain st1 fks where f: "get_fields_from_group gid fgid gs = (st1, fks)" by fastforce
  obtain st2 freqs where u: "update_frequencies gs ?wt [] = (st2, freqs)" by fastforce
  show ?thesis
  proof (cases "st1 = RDC_ST_OK \<and> st2 = RDC_ST_OK")
    case False
    with r Some f u w1 show ?thesis
      by (auto simp: rdc_field_unwatch_def update_field_in_table_when_unwatch_def Let_def watch_goodD(1) [OF g] split: if_splits)
  next
    case True
    obtain masks un where ul: "unwatch_loop (we_smi e) freqs fks (ww_masks w, wt_fields ?c, [])
        = (masks, fold (unwatch_field freqs) fks (wt_fields ?c), un)" using unwatch_loop_fields by blast
    let ?c2 = "?c\<lparr>wt_watch_table := ?wt, wt_fields := fold (unwatch_field freqs) fks (wt_fields ?c)\<rparr>"
    let ?w2 = "w\<lparr>ww_core := ?c2, ww_masks := masks\<rparr>"
    obtain tm w3 where tm: "get_telemetry_module e ?w2 = (tm, w3)" by fastforce
    have c2: "fields_valid ?c2" using valid_fold_unwatch watch_goodD(3) [OF g] by (simp add: fields_valid_def)
    then have w2: "watch_good gs mods ?w2" using g by (simp add: watch_good_def module_ok_def)
    have "w3 = ?w2\<lparr>ww_module := Some tm\<rparr>" using get_telemetry_module_ok [OF watch_goodD(4) [OF w2] tm] by simp
    with r Some f u True ul tm watch_goodD(1) [OF g] obtain tm' tel caps' st3 where
      mw: "module_fields_unwatch (we_libs e) (vec_ptr un) (tm, ww_tel w3, ww_caps w3) = Some (st3, tm', tel, caps')"
      and w': "w' = w3\<lparr>ww_core := ?c2, ww_module := Some tm', ww_tel := tel, ww_caps := caps'\<rparr>"
      by (auto simp: rdc_field_unwatch_def update_field_in_table_when_unwatch_def Let_def)
    have "tm_modules tm' = tm_modules tm" using module_dispatch_modules mw by (metis module_fields_unwatch_def)
    with c2 show ?thesis unfolding w' by (intro watch_good_dispatched [OF w2 tm])
  qed
qed

lemma good_fetch_due:
  assumes g: "watch_good gs mods w" and e: "libs_sound e" and r: "fetch_due e w = Some w'"
  shows "watch_good gs mods w'"
proof -
  let ?due = "map fst (filter (\<lambda>en. is_due (we_now e) (snd en)) (wt_fields (ww_core w)))"
  show ?thesis
  proof (cases "?due = []")
    case True
    with r g show ?thesis by (simp add: fetch_due_def)
  next
    case False
    obtain tm w1 where tm: "get_telemetry_module e w = (tm, w1)" by fastforce
    then have w1: "w1 = w\<lparr>ww_module := Some tm\<rparr>" using get_telemetry_module_ok [OF watch_goodD(4) [OF g]] by blast
    from r False tm obtain tm' tel c' st where
      v: "module_fields_value_get (we_libs e) (Some ?due) (handle_fields (we_now e)) (tm, (ww_tel w1, ww_caps w1), ww_core w1)
          = Some (st, tm', tel, c')"
      and w': "w' = w1\<lparr>ww_core := c', ww_module := Some tm', ww_tel := fst tel, ww_caps := snd tel\<rparr>"
      by (auto simp: fetch_due_def Let_def)
    have "callback_only (rdc_telemetry_fields_value_get (we_libs e a))" for a using e by (simp add: libs_sound_def)
    moreover have "fields_valid (ww_core w1)" using w1 watch_goodD(3) [OF g] by simp
    ultimately have "fields_valid c' \<and> tm_modules tm' = tm_modules tm"
      using module_value_get_keeps [where P = fields_valid, OF _ fields_valid_handle v] by blast
    then show ?thesis unfolding w' using watch_good_dispatched [OF g tm] by blast
  qed
qed

lemma good_update:
  assumes "watch_good gs mods w" and "libs_sound e" and r: "rdc_field_update_all e w = Some (st, w')"
  shows "watch_good gs mods w'"
proof -
  from r obtain w1 where f: "fetch_due e w = Some w1" by (auto simp: rdc_field_update_all_def bind_eq_Some_conv)
  from good_fetch_due [OF assms(1,2) f] r f show ?thesis
    by (auto simp: rdc_field_update_all_def watch_good_def module_ok_def dest: fields_valid_clean_up split: if_splits)
qed

lemma good_notif:
  assumes "watch_good gs mods w" and r: "rdc_field_listen_notif e t w = Some (st, w')"
  shows "watch_good gs mods w'"
proof -
  from r consider "w' = w" | es where "w' = w\<lparr>ww_core := snd (rdc_notif_update_cache (Some es) (ww_core w))\<rparr>"
    by (auto simp: rdc_field_listen_notif_def case_prod_unfold split: if_splits)
  then show ?thesis by cases (use assms(1) in \<open>simp_all add: watch_good_core fields_valid_notif watch_goodD(3)\<close>)
qed

lemma good_job_start:
  assumes g: "watch_good gs mods w" and v: "groups_valid gs" and r: "rdc_watch_job_start e gid j freq gg w = Some (st, w')"
  shows "watch_good gs mods w'"
proof -
  have put: "watch_good gs mods (w\<lparr>ww_core := (ww_core w)\<lparr>wt_job_table := t, wt_cache := x\<rparr>\<rparr>)"
    "watch_good gs mods (w\<lparr>ww_core := (ww_core w)\<lparr>wt_job_table := t\<rparr>\<rparr>)" for t x
    by (simp_all add: watch_good_core [OF g] watch_goodD(3) [OF g])
  from r g show ?thesis
    by (auto simp: rdc_watch_job_start_def Let_def put intro: good_watch [OF put(1) v] split: if_splits prod.splits option.splits)
qed

lemma good_job_stop:
  assumes g: "watch_good gs mods w" and r: "rdc_watch_job_stop e j gg w = Some (st, w')"
  shows "watch_good gs mods w'"
proof (cases "map_of (wt_job_table (ww_core w)) j")
  case None
  with r g show ?thesis by (simp add: rdc_watch_job_stop_def)
next
  case (Some job)
  with r obtain st1 w1 where u: "rdc_field_unwatch e (jw_group_id job) JOB_FIELD_ID w = Some (st1, w1)"
    by (auto simp: rdc_watch_job_stop_def split: option.splits)
  from good_unwatch [OF g u] r Some u show ?thesis
    by (auto simp: rdc_watch_job_stop_def Let_def watch_good_core watch_goodD(3) split: if_splits prod.splits)
qed

lemma good_job_remove:
  assumes "watch_good gs mods w" and "rdc_watch_job_remove e j w = Some (st, w')"
  shows "watch_good gs mods w'"
  using assms good_job_stop [OF assms(1), of e j "[]"]
  by (auto simp: rdc_watch_job_remove_def watch_good_core watch_goodD(3) split: option.splits prod.splits)

lemma good_stop_jobs: "watch_good gs mods w \<Longrightarrow> stop_jobs e js w = Some w' \<Longrightarrow> watch_good gs mods w'"
  by (induction js arbitrary: w) (auto split: option.splits dest: good_job_stop)

lemma good_job_remove_all:
  assumes "watch_good gs mods w" and "rdc_watch_job_remove_all e w = Some (st, w')"
  shows "watch_good gs mods w'"
proof -
  from assms(2) obtain w1 where "stop_jobs e (map_keys (wt_job_table (ww_core w))) w = Some w1"
    and w': "w' = w1\<lparr>ww_core := (ww_core w1)\<lparr>wt_cache := snd (rdc_job_remove_all (wt_cache (ww_core w1)))\<rparr>\<rparr>"
    by (auto simp: rdc_watch_job_remove_all_def case_prod_unfold)
  from good_stop_jobs [OF assms(1) this(1)] show ?thesis by (simp add: w' watch_good_core watch_goodD(3))
qed


section \<open>The invariant of a session\<close>

definition handler_inv :: "'r handler \<Rightarrow> bool" where
  "handler_inv h \<longleftrightarrow>
     group_tables_inv (ww_groups (eh_watch h)) \<and> groups_valid (ww_groups (eh_watch h))
   \<and> fields_valid (ww_core (eh_watch h)) \<and> module_ok (eh_watch h)
   \<and> (\<forall>dm. eh_diag_module h = Some dm \<longrightarrow> dm_modules dm = eh_diag_modules h)"

lemma handler_inv_good: "handler_inv h \<Longrightarrow> watch_good (ww_groups (eh_watch h)) (ww_modules (eh_watch h)) (eh_watch h)"
  by (simp add: handler_inv_def watch_good_def)

lemma handler_inv_flags [simp]:
  "handler_inv (h\<lparr>eh_updating := b\<rparr>) = handler_inv h" "handler_inv (h\<lparr>eh_started := b\<rparr>) = handler_inv h"
  by (simp_all add: handler_inv_def)

lemma handler_inv_put_tel [simp]: "handler_inv (put_tel t h) = handler_inv h"
  by (simp add: handler_inv_def put_tel_def module_ok_def)

lemma handler_inv_on_groups:
  "handler_inv h \<Longrightarrow> group_tables_inv gs \<Longrightarrow> groups_valid gs \<Longrightarrow> handler_inv (on_groups (\<lambda>_. gs) h)"
  by (simp add: handler_inv_def on_groups_def module_ok_def)

lemma inv_on_watch:
  assumes "handler_inv h" and "on_watch f h = Some (st, h')"
    and "\<And>gs mods w w'. watch_good gs mods w \<Longrightarrow> groups_valid gs \<Longrightarrow> f w = Some (st, w') \<Longrightarrow> watch_good gs mods w'"
  shows "handler_inv h'"
proof -
  from assms(2) obtain w' where w': "f (eh_watch h) = Some (st, w')" and h': "h' = h\<lparr>eh_watch := w'\<rparr>" by (auto simp: on_watch_def)
  have "groups_valid (ww_groups (eh_watch h))" using assms(1) by (simp add: handler_inv_def)
  from assms(3) [OF handler_inv_good [OF assms(1)] this w'] assms(1) show ?thesis
    by (auto simp: h' handler_inv_def watch_good_def)
qed

lemma handler_fetch_put: "handler_fetch e g f v h = Some (st, v', h') \<Longrightarrow> \<exists>t. h' = put_tel t h"
  by (auto simp: handler_fetch_def put_tel_def Let_def)

lemma inv_fetch: "handler_inv h \<Longrightarrow> handler_fetch e g f v h = Some (st, v', h') \<Longrightarrow> handler_inv h'"
  using handler_fetch_put by fastforce

lemma inv_get_all: "handler_inv h \<Longrightarrow> emb_device_get_all e c h = Some (st, l, h') \<Longrightarrow> handler_inv h'"
  by (auto simp: emb_device_get_all_def Let_def split: if_splits option.splits dest: inv_fetch)

lemma inv_ecc_gauge: "handler_inv h \<Longrightarrow> insert_ecc_gauge e g f (v, gg, h) = Some (v', gg', h') \<Longrightarrow> handler_inv h'"
  by (auto simp: insert_ecc_gauge_def dest: inv_fetch)

lemma inv_gauges_loop: "handler_inv h \<Longrightarrow> gauges_loop e gs gg h = Some (st, gg', h') \<Longrightarrow> handler_inv h'"
proof (induction gs arbitrary: gg h)
  case (Cons g gs)
  from Cons.prems(2) obtain st1 v h1 where v: "handler_fetch e g RDC_FI_GPU_MEMORY_TOTAL (ee_stack e) h = Some (st1, v, h1)"
    by (auto split: option.splits)
  note h1 = inv_fetch [OF Cons.prems(1) v]
  show ?case
  proof (cases "st1 = RDC_ST_OK")
    case False
    with v h1 Cons.prems(2) show ?thesis by simp
  next
    case True
    with v Cons.prems(2) obtain x gg1 h2 gg2 y h3 where
      "insert_ecc_gauge e g RDC_FI_ECC_CORRECT_TOTAL (v, map_insert (g, RDC_FI_GPU_MEMORY_TOTAL) (l_int (fv_value v)) gg, h1) = Some (x, gg1, h2)"
      "insert_ecc_gauge e g RDC_FI_ECC_UNCORRECT_TOTAL (x, gg1, h2) = Some (y, gg2, h3)" "gauges_loop e gs gg2 h3 = Some (st, gg', h')"
      by (auto simp: bind_eq_Some_conv split: option.splits)
    with inv_ecc_gauge h1 Cons.IH show ?thesis by blast
  qed
qed simp

lemma inv_gauges: "handler_inv h \<Longrightarrow> get_gpu_gauges e h = Some (st, gg, h') \<Longrightarrow> handler_inv h'"
  by (auto simp: get_gpu_gauges_def split: option.splits if_splits prod.splits dest: inv_get_all inv_gauges_loop)

lemma inv_with_gauges:
  assumes "handler_inv h" and "with_gauges e f out h = Some (st, x, h')"
    and "\<And>gg h1. handler_inv h1 \<Longrightarrow> f gg h1 = Some (st, x, h') \<Longrightarrow> handler_inv h'"
  shows "handler_inv h'"
  using assms inv_gauges [OF assms(1), of e] by (auto simp: with_gauges_def split: option.splits if_splits)

lemma groups_valid_gpu:
  "rdc_group_gpu_create nm gs = (st, r, gs') \<Longrightarrow> groups_valid gs' = groups_valid gs"
  "rdc_group_gpu_add gid g gs = (st', gs') \<Longrightarrow> groups_valid gs' = groups_valid gs"
  "rdc_group_gpu_destroy gid gs = (st', gs') \<Longrightarrow> groups_valid gs' = groups_valid gs"
  by (auto simp: groups_valid_def rdc_group_gpu_create_def rdc_group_gpu_add_def rdc_group_gpu_destroy_def split: if_splits option.splits)

lemma groups_valid_field_create:
  "groups_valid gs \<Longrightarrow> list_all is_field_valid (fst a) \<Longrightarrow> rdc_group_field_create a gs = (st, r, gs') \<Longrightarrow> groups_valid gs'"
  by (auto simp: groups_valid_def rdc_group_field_create_def new_field_group_info_def map_of_map_insert split: if_splits option.splits)

lemma groups_valid_field_destroy:
  "groups_valid gs \<Longrightarrow> rdc_group_field_destroy fgid gs = (st, gs') \<Longrightarrow> groups_valid gs'"
  by (auto simp: groups_valid_def rdc_group_field_destroy_def split: if_splits option.splits)

lemma handler_invD: "handler_inv h \<Longrightarrow> group_tables_inv (ww_groups (eh_watch h))" "handler_inv h \<Longrightarrow> groups_valid (ww_groups (eh_watch h))"
  by (simp_all add: handler_inv_def)

lemma inv_gpu_add_call:
  assumes "handler_inv h" and "emb_group_gpu_add e gid g h = Some (st, h')"
  shows "handler_inv h'"
proof -
  from assms(2) obtain st1 l h1 where "emb_device_get_all e True h = Some (st1, l, h1)"
    by (auto simp: emb_group_gpu_add_def split: option.splits)
  with assms inv_get_all [OF assms(1) this] show ?thesis
    by (auto simp: emb_group_gpu_add_def split: if_splits prod.splits
        intro!: handler_inv_on_groups dest: groups_valid_gpu(2) tables_gpu_add handler_invD)
qed

lemma inv_add_all: "handler_inv h \<Longrightarrow> add_all_gpus e gid gs st h = Some (st', h') \<Longrightarrow> handler_inv h'"
  by (induction gs arbitrary: st h) (auto split: option.splits dest: inv_gpu_add_call)

lemma inv_gpu_create_call:
  assumes i: "handler_inv h" and r: "emb_group_gpu_create e t nm b h = Some (st, x, h')"
  shows "handler_inv h'"
proof (cases nm)
  case None
  with r i show ?thesis by (simp add: emb_group_gpu_create_def)
next
  case (Some name)
  obtain st1 gid gs where g: "rdc_group_gpu_create name (ww_groups (eh_watch h)) = (st1, gid, gs)" by (metis prod_cases3)
  let ?h = "on_groups (\<lambda>_. gs) h"
  have h1: "handler_inv ?h"
    using tables_gpu_create [OF handler_invD(1) [OF i] g] groups_valid_gpu(1) [OF g] handler_invD(2) [OF i]
    by (intro handler_inv_on_groups [OF i]) simp_all
  show ?thesis
  proof (cases "\<not> b \<or> st1 \<noteq> RDC_ST_OK \<or> t = RDC_GROUP_EMPTY")
    case True
    with r i h1 Some g show ?thesis by (auto simp: emb_group_gpu_create_def Let_def split: if_splits)
  next
    case False
    with r Some g obtain st2 l h2 where d: "emb_device_get_all e True ?h = Some (st2, l, h2)"
      by (auto simp: emb_group_gpu_create_def Let_def split: option.splits)
    from inv_get_all [OF h1 d] r Some g False d show ?thesis
      by (cases "st2 = RDC_ST_OK") (auto simp: emb_group_gpu_create_def Let_def intro: inv_add_all)
  qed
qed

lemma inv_field_create_call:
  assumes i: "handler_inv h" and r: "emb_group_field_create fs nm b h = (st, x, h')"
  shows "handler_inv h'"
proof (cases "\<exists>name fids. nm = Some name \<and> fs = Some fids \<and> b \<and> length fids \<le> RDC_MAX_FIELD_IDS_PER_FIELD_GROUP \<and> list_all is_field_valid fids")
  case False
  with r i show ?thesis by (auto simp: emb_group_field_create_def split: option.splits if_splits)
next
  case True
  then obtain name fids where nf: "nm = Some name" "fs = Some fids" "list_all is_field_valid fids" by blast
  obtain st1 fgid gs where g: "rdc_group_field_create (fids, name) (ww_groups (eh_watch h)) = (st1, fgid, gs)" by (metis prod_cases3)
  have "handler_inv (on_groups (\<lambda>_. gs) h)"
    using tables_field_create [OF handler_invD(1) [OF i] g] groups_valid_field_create [OF handler_invD(2) [OF i] _ g] nf(3)
    by (intro handler_inv_on_groups [OF i]) simp_all
  with r True nf g show ?thesis by (simp add: emb_group_field_create_def)
qed

lemma inv_diag_module: "handler_inv h \<Longrightarrow> get_diagnostic_module e h = (dm, h') \<Longrightarrow> handler_inv h'"
  by (auto simp: get_diagnostic_module_def handler_inv_def new_diagnostic_module_def Let_def split: option.splits)


lemma inv_update: "handler_inv h \<Longrightarrow> libs_sound (ee_watch e) \<Longrightarrow> on_watch (rdc_field_update_all (ee_watch e)) h = Some (st, h') \<Longrightarrow> handler_inv h'"
  by (erule inv_on_watch) (auto intro: good_update)

lemma inv_job_start:
  assumes "handler_inv h" and "emb_job_start_stats e gid j freq h = Some (st, x, h')"
  shows "handler_inv h'"
  using assms unfolding emb_job_start_stats_def
  by (rule inv_with_gauges) (auto simp: status_only_def elim!: inv_on_watch intro: good_job_start)

lemma inv_job_stop:
  assumes "handler_inv h" and "emb_job_stop_stats e j h = Some (st, x, h')"
  shows "handler_inv h'"
  using assms unfolding emb_job_stop_stats_def
  by (rule inv_with_gauges) (auto simp: status_only_def elim!: inv_on_watch intro: good_job_stop)

lemma inv_job_get:
  assumes "handler_inv h" and "emb_job_get_stats e j i h = Some (st, x, h')"
  shows "handler_inv h'"
proof (cases i)
  case (Some ji)
  with assms(2) have "with_gauges e (\<lambda>gg h1. map_option (\<lambda>(st, ji'). (st, Some ji', h1))
      (rdc_job_get_stats j gg (we_now_s (ee_watch e)) ji (wt_cache (ww_core (eh_watch h1))))) i h = Some (st, x, h')"
    by (simp add: emb_job_get_stats_def)
  then show ?thesis by (rule inv_with_gauges [OF assms(1)]) auto
qed (use assms in \<open>simp add: emb_job_get_stats_def\<close>)

lemma inv_diag_run:
  assumes "handler_inv h" and "emb_diagnostic_run e gid l c r h = Some (st, x, h')"
  shows "handler_inv h'"
  using assms
  by (auto simp: emb_diagnostic_run_def split: if_splits prod.splits option.splits dest: inv_diag_module)

lemma inv_test_run:
  assumes "handler_inv h" and "emb_test_case_run e gid t c r h = Some (st, x, h')"
  shows "handler_inv h'"
  using assms
  by (auto simp: emb_test_case_run_def split: if_splits prod.splits option.splits dest: inv_diag_module)

lemma inv_destroy:
  "handler_inv h \<Longrightarrow> emb_group_gpu_destroy gid h = (st, h') \<Longrightarrow> handler_inv h'"
  "handler_inv h \<Longrightarrow> emb_group_field_destroy gid h = (st, h') \<Longrightarrow> handler_inv h'"
  by (auto simp: emb_group_gpu_destroy_def emb_group_field_destroy_def split: prod.splits intro!: handler_inv_on_groups
      dest: groups_valid_gpu(3) groups_valid_field_destroy tables_destroy handler_invD)

lemma inv_attributes: "handler_inv h \<Longrightarrow> emb_device_get_attributes e g a h = Some (st, x, h') \<Longrightarrow> handler_inv h'"
  by (auto simp: emb_device_get_attributes_def split: option.splits dest: inv_fetch)

lemma inv_update_all:
  assumes "handler_inv h" and "libs_sound (ee_watch e)" and "emb_field_update_all e w h = Some (st, h')"
  shows "handler_inv h'"
  using assms by (auto simp: emb_field_update_all_def split: if_splits dest: inv_update)

lemma inv_watch_calls:
  "handler_inv h \<Longrightarrow> emb_field_watch e gid fgid freq age n h = Some (st, h') \<Longrightarrow> handler_inv h'"
  "handler_inv h \<Longrightarrow> emb_field_unwatch e gid fgid h = Some (st, h') \<Longrightarrow> handler_inv h'"
  "handler_inv h \<Longrightarrow> emb_job_remove e j h = Some (st, h') \<Longrightarrow> handler_inv h'"
  "handler_inv h \<Longrightarrow> emb_job_remove_all e h = Some (st, h') \<Longrightarrow> handler_inv h'"
  unfolding emb_field_watch_def emb_field_unwatch_def emb_job_remove_def emb_job_remove_all_def
  by (auto elim!: inv_on_watch intro: good_watch good_unwatch good_job_remove good_job_remove_all)

lemma inv_emb_exec:
  assumes "handler_inv h" and "libs_sound (ee_watch e)" and "emb_exec e c h = Some (st, out, h')"
  shows "handler_inv h'"
  using assms
  by (cases c) (auto simp: out_with_def act_def look_def split: prod.splits dest: inv_job_start inv_job_get inv_job_stop inv_watch_calls inv_get_all
      inv_attributes inv_gpu_create_call inv_gpu_add_call inv_field_create_call inv_destroy inv_diag_run inv_test_run inv_update_all)

text \<open>
  The steps of a session: a call of the API, under the lock of its component, and a round of a background thread are one
  step each. The libraries of a step are foreign code; \<open>libs_sound\<close> is their contract, to reach the data of the
  session through the callback only.
\<close>

inductive session_step :: "'r handler \<Rightarrow> 'r handler \<Rightarrow> bool" where
  api: "libs_sound (ee_watch e) \<Longrightarrow> emb_exec e c h = Some (st, out, h') \<Longrightarrow> session_step h h'"
| notif_thread: "notif_round e h = Some h' \<Longrightarrow> session_step h h'"
| update_thread: "libs_sound (ee_watch e) \<Longrightarrow> update_round e h = Some h' \<Longrightarrow> session_step h h'"
| async_thread: "libs_sound (ee_watch e) \<Longrightarrow> async_update e h = Some h' \<Longrightarrow> session_step h h'"
| start_updater: "session_step h (updater_start h)"
| stop_updater: "session_step h (updater_stop h)"

inductive_cases session_stepE: "session_step h h'"

lemma job_fields_valid: "list_all is_field_valid job_fields"
  by (simp add: job_fields_def is_field_valid_def field_id_to_descript_def)

lemma groups_valid_init: "groups_valid group_settings_init"
  using job_fields_valid
  by (simp add: groups_valid_def group_settings_init_def rdc_group_field_create_def new_field_group_info_def limit_defs
      map_insert_def job_fields_def)

lemma groups_tables_init: "group_tables_inv group_settings_init"
  using group_settings_inv_init by (simp add: group_settings_inv_iff)

lemma handler_inv_init: "handler_inv (new_handler mode l r caps)"
  by (simp add: handler_inv_def new_handler_def Let_def groups_tables_init groups_valid_init watch_core_init_def
      fields_valid_def module_ok_def updater_start_def)

lemma session_step_keeps:
  assumes "handler_inv h" and "session_step h h'"
  shows "handler_inv h'"
  using assms(2)
proof cases
  case (notif_thread e)
  then show ?thesis using assms(1)
    by (auto simp: notif_round_def split: if_splits elim!: inv_on_watch intro: good_notif)
next
  case (update_thread e)
  then show ?thesis using assms(1) by (auto simp: update_round_def split: if_splits dest: inv_update)
next
  case (async_thread e)
  then show ?thesis using assms(1) by (auto simp: async_update_def split: if_splits dest: inv_update)
qed (use assms(1) in \<open>auto simp: updater_start_def updater_stop_def intro: inv_emb_exec\<close>)

interpretation session: invariant_system "\<lambda>h. \<exists>mode l r caps. h = new_handler mode l r caps" session_step handler_inv
  by unfold_locales (auto intro: handler_inv_init session_step_keeps)

text \<open>
  (C2) In every state that a session can reach by calls of the API and rounds of the update and notification threads, each an
  atomic step, in any order and number, the group tables are well-formed (also after the identifier counters have wrapped around), every field
  of a field group and every watched field is a known one, and the telemetry and diagnostic modules are built from
  the collected libraries. The one assumption is the contract of the telemetry libraries, which are loaded at run time: they change
  the session's data only by calling the callback they are given.
\<close>
theorem session_invariant:
  assumes "session_step\<^sup>*\<^sup>* (new_handler mode l r caps) h"
  shows "group_tables_inv (ww_groups (eh_watch h))
    \<and> (\<forall>i f. map_of (field_group (ww_groups (eh_watch h))) i = Some f \<longrightarrow> list_all is_field_valid (field_ids f))
    \<and> (\<forall>e\<in>set (wt_fields (ww_core (eh_watch h))). is_field_valid (snd (fst e)))
    \<and> (\<forall>tm. ww_module (eh_watch h) = Some tm \<longrightarrow> tm_modules tm = ww_modules (eh_watch h))
    \<and> (\<forall>dm. eh_diag_module h = Some dm \<longrightarrow> dm_modules dm = eh_diag_modules h)"
proof -
  have "handler_inv h" by (rule session.inv_reachable [OF _ assms]) blast
  then show ?thesis by (simp add: handler_inv_def groups_valid_def fields_valid_def module_ok_def)
qed

lemma demo_libs_sound: "libs_sound (ee_watch (demo_handler_env now))"
proof -
  have "callback_only (rdc_telemetry_fields_value_get idle_lib)"
    by unfold_locales (auto simp: idle_lib_def intro: exI [of _ "[]"])
  then show ?thesis by (simp add: libs_sound_def demo_handler_env_def)
qed

theorem session_invariant_witness:
  "\<exists>h. emb_exec (demo_handler_env 1) (A_group_gpu_create RDC_GROUP_EMPTY (Some ''g'') True) fresh_handler
      = Some (RDC_ST_OK, O_id (Some 1), h) \<and> group_tables_inv (ww_groups (eh_watch (updater_start h)))"
proof -
  have i: "gpu_group group_settings_init = []" "cur_group_id group_settings_init = 1" "cur_field_group_id group_settings_init = 1"
    by (simp_all add: group_settings_init_def rdc_group_field_create_def limit_defs job_fields_def)
  have f: "ww_groups (eh_watch fresh_handler) = group_settings_init" by (simp add: fresh_handler_def new_handler_def)
  then have "\<exists>h. emb_exec (demo_handler_env 1) (A_group_gpu_create RDC_GROUP_EMPTY (Some ''g'') True) fresh_handler
      = Some (RDC_ST_OK, O_id (Some 1), h)"
    by (simp add: out_with_def emb_group_gpu_create_def rdc_group_gpu_create_def i limit_defs)
  then obtain h where h: "emb_exec (demo_handler_env 1) (A_group_gpu_create RDC_GROUP_EMPTY (Some ''g'') True) fresh_handler
      = Some (RDC_ST_OK, O_id (Some 1), h)" by blast
  from session_step.api [OF demo_libs_sound h] session_step.start_updater [of h]
  have "session_step\<^sup>*\<^sup>* fresh_handler (updater_start h)" by auto
  from session_invariant [OF this [unfolded fresh_handler_def]] h show ?thesis by blast
qed

end
