(* ===== verification/Rdc_Profiler.thy ===== *)
theory Rdc_Profiler
  imports Rdc_Api
begin

text \<open>
  The profiler library: \<^verbatim>\<open>RdcRocpBase\<close> with its moving averages, the C interface of
  \<^verbatim>\<open>librdc_rocp.so\<close> (\<^verbatim>\<open>rdc_modules/rdc_rocp/RdcTelemetryLib.cc\<close>) and the wrapper \<^verbatim>\<open>RdcRocpLib\<close> that
  loads it. The HSA runtime and rocprofiler are parameters. The library keeps the contract of a telemetry
  library, and with the SMI library it forms the list of libraries of a running session.
\<close>

section \<open>The platform below the library\<close>

text \<open>A \<^verbatim>\<open>double\<close> that is computed with: rounding is ignored, the special values are kept.\<close>

datatype double_val = Finite real | Infinite bool | NaN

definition double_div :: "double_val \<Rightarrow> nat \<Rightarrow> double_val" where
  "double_div x n =
     (case x of
        Finite r \<Rightarrow> if n \<noteq> 0 then Finite (r / real n) else if r = 0 then NaN else Infinite (0 < r)
      | Infinite b \<Rightarrow> Infinite b
      | NaN \<Rightarrow> NaN)"

datatype feature_data = Data_double real | Data_int32 "32 word" | Data_int64 "64 word" | Data_float real | Data_other nat

text \<open>
  HSA and rocprofiler: a status is a number, 0 is success. Agents, queues and contexts are known by
  numbers; a context by its agent. \<open>rp_metrics\<close> are the metrics that rocprofiler lists, with the node they belong
  to; \<open>rp_data\<close> is what the \<open>i\<close>-th measurement of a call finds, \<open>rp_elapsed\<close> the milliseconds it took.
  \<^verbatim>\<open>run_profiler\<close> keeps its contexts in a vector for which it only reserves memory, and indexes it, which the language leaves
  undefined. \<open>rp_reserved_usable\<close> says whether the implementation of the library gives the reserved memory the use the program expects, as those do that
  do not check the index; where it does not, a measurement has no defined result.
\<close>

record rocp_env =
  rp_hsa_init :: nat
  rp_agents :: "nat list"
  rp_device_type :: "nat \<Rightarrow> nat \<times> bool"
  rp_node_id :: "nat \<Rightarrow> nat \<times> u32"
  rp_metrics :: "(u32 \<times> string) list"
  rp_queue_create :: "nat \<Rightarrow> nat option"
  rp_open :: "nat \<Rightarrow> string option \<Rightarrow> nat option \<Rightarrow> nat"
  rp_start :: "nat \<Rightarrow> nat"
  rp_stop :: "nat \<Rightarrow> nat"
  rp_read :: "nat \<Rightarrow> nat"
  rp_get_data :: "nat \<Rightarrow> nat"
  rp_get_metrics :: "nat \<Rightarrow> nat"
  rp_close :: "nat \<Rightarrow> nat"
  rp_data :: "nat \<Rightarrow> nat \<Rightarrow> string option \<Rightarrow> feature_data"
  rp_elapsed :: "nat \<Rightarrow> nat"
  rp_reserved_usable :: bool
  rp_now :: u64
  rp_bits :: "double_val \<Rightarrow> u64"

section \<open>\<open>RdcRocpBase\<close>\<close>

text \<open>
  What the constructor finds and no later call changes, the agents and their queues, and the maps.
  A null \<^verbatim>\<open>const char*\<close> is \<^const>\<open>None\<close>.
\<close>

record rocp_hw =
  rh_agents :: "nat list"
  rh_queues :: "nat option list"

record rdc_average =
  av_buffer :: "real list"
  av_index :: u32

record rocp_base =
  rb_gpuid_to_feature :: "(u32, string option) smap"
  rb_field_to_metric :: "(u32, string option) smap"
  rb_average :: "(u32 \<times> u32, rdc_average) smap"

definition buffer_length_k :: nat where "buffer_length_k = 5"

definition eval_fields :: "u32 list" where
  "eval_fields = [RDC_FI_PROF_EVAL_MEM_R_BW, RDC_FI_PROF_EVAL_MEM_W_BW, RDC_FI_PROF_EVAL_FLOPS_16,
     RDC_FI_PROF_EVAL_FLOPS_32, RDC_FI_PROF_EVAL_FLOPS_64]"

definition temp_field_map_k :: "(u32, string) smap" where
  "temp_field_map_k = fold (\<lambda>(k, v). map_insert k v)
     [(RDC_FI_PROF_OCCUPANCY_PERCENT, ''OccupancyPercent''),
      (RDC_FI_PROF_ACTIVE_CYCLES, ''GRBM_GUI_ACTIVE''),
      (RDC_FI_PROF_ACTIVE_WAVES, ''SQ_WAVES''),
      (RDC_FI_PROF_ELAPSED_CYCLES, ''GRBM_COUNT''),
      (RDC_FI_PROF_TENSOR_ACTIVE_PERCENT, ''MfmaUtil''),
      (RDC_FI_PROF_GPU_UTIL_PERCENT, ''GPU_UTIL''),
      (RDC_FI_PROF_EVAL_MEM_R_BW, ''FETCH_SIZE''),
      (RDC_FI_PROF_EVAL_MEM_W_BW, ''WRITE_SIZE''),
      (RDC_FI_PROF_EVAL_FLOPS_16, ''TOTAL_16_OPS''),
      (RDC_FI_PROF_EVAL_FLOPS_32, ''TOTAL_32_OPS''),
      (RDC_FI_PROF_EVAL_FLOPS_64, ''FP64_ACTIVE'')] []"

subsection \<open>The constructor\<close>

text \<open>\<^verbatim>\<open>hsa_iterate_agents\<close> calls the callback for one agent after the other and stops at the first failure.\<close>

fun get_agents :: "rocp_env \<Rightarrow> nat list \<Rightarrow> nat list \<Rightarrow> nat list option" where
  "get_agents e [] acc = Some acc"
| "get_agents e (a # as) acc =
     (case rp_device_type e a of (st, gpu) \<Rightarrow>
        if st \<noteq> 0 then None else get_agents e as (if gpu then acc @ [a] else acc))"

definition check_metrics_supported :: "rocp_env \<Rightarrow> u32 \<Rightarrow> string list \<Rightarrow> string list \<Rightarrow> string list" where
  "check_metrics_supported e node metrics_all metrics_good =
     metrics_good @ map snd (filter (\<lambda>i. fst i = node \<and> snd i \<in> set metrics_all) (rp_metrics e))"

definition register_metrics :: "u32 \<Rightarrow> string list \<Rightarrow> rocp_base \<Rightarrow> rocp_base" where
  "register_metrics gpu_index checked b =
     fold (\<lambda>(k, v) b. if v \<in> set checked
                       then b\<lparr>rb_field_to_metric := map_insert k (Some v) (rb_field_to_metric b),
                              rb_average := map_insert (gpu_index, k) \<lparr>av_buffer = [], av_index = 0\<rparr> (rb_average b)\<rparr>
                       else b) temp_field_map_k b"

text \<open>The list of checked metrics and the node number live outside the loop.\<close>

fun register_gpus :: "rocp_env \<Rightarrow> nat list \<Rightarrow> u32 \<Rightarrow> u32 \<Rightarrow> string list \<Rightarrow> rocp_base \<Rightarrow> rocp_base" where
  "register_gpus e [] gpu_index node checked b = b"
| "register_gpus e (a # as) gpu_index node checked b =
     (let node' = (case rp_node_id e a of (st, n) \<Rightarrow> if st = 0 then n else node);
          checked' = check_metrics_supported e node' (map snd temp_field_map_k) checked
      in register_gpus e as (gpu_index + 1) node' checked' (register_metrics gpu_index checked' b))"

definition init_features :: "nat \<Rightarrow> rocp_base \<Rightarrow> rocp_base" where
  "init_features n b =
     fold (\<lambda>g b. fold (\<lambda>(_, v) b. b\<lparr>rb_gpuid_to_feature := map_insert (word_of_nat g) v (rb_gpuid_to_feature b)\<rparr>)
                   (rb_field_to_metric b) b) [0..<n] b"

definition empty_base :: rocp_base where
  "empty_base = \<lparr>rb_gpuid_to_feature = [], rb_field_to_metric = [], rb_average = []\<rparr>"

text \<open>A failing \<^verbatim>\<open>hsa_init\<close> throws; failing to list the agents leaves an object without any.\<close>

definition new_rocp_base :: "rocp_env \<Rightarrow> (rocp_hw \<times> rocp_base) option" where
  "new_rocp_base e =
     (if rp_hsa_init e \<noteq> 0 then None
      else case get_agents e (rp_agents e) [] of
             None \<Rightarrow> Some (\<lparr>rh_agents = [], rh_queues = []\<rparr>, empty_base)
           | Some as \<Rightarrow>
               Some (\<lparr>rh_agents = as, rh_queues = map (rp_queue_create e) as\<rparr>,
                     init_features (length as) (register_gpus e as 0 0 [] empty_base)))"

subsection \<open>Reading a metric\<close>

fun feature_value :: "feature_data \<Rightarrow> real" where
  "feature_value (Data_double r) = r"
| "feature_value (Data_int32 w) = real_of_int (sint w)"
| "feature_value (Data_int64 w) = real_of_int (sint w)"
| "feature_value (Data_float r) = r"
| "feature_value (Data_other _) = 0"

text \<open>A failing assertion ends the process: \<^const>\<open>None\<close>, as for an index beyond the agents or into memory that is only reserved and not usable.\<close>

definition read_feature :: "rocp_env \<Rightarrow> nat \<Rightarrow> nat \<Rightarrow> string option \<Rightarrow> real option" where
  "read_feature e i agent name =
     (if rp_read e agent = 0 \<and> rp_get_data e agent = 0 \<and> rp_get_metrics e agent = 0
      then Some (feature_value (rp_data e i agent name)) else None)"

definition run_profiler ::
    "rocp_env \<Rightarrow> rocp_hw \<Rightarrow> nat \<Rightarrow> u32 \<Rightarrow> u32 \<Rightarrow> rocp_base \<Rightarrow> (real \<times> rocp_base) option" where
  "run_profiler e hw i g f b =
     (let metrics = map_insert f None (rb_field_to_metric b);
          name = (case map_of metrics f of Some nm \<Rightarrow> nm | None \<Rightarrow> None);
          b' = b\<lparr>rb_field_to_metric := metrics, rb_gpuid_to_feature := map_put g name (rb_gpuid_to_feature b)\<rparr>
      in if \<not> (unat g < length (rh_agents hw) \<and> unat g < length (rh_queues hw)) \<or> \<not> rp_reserved_usable e then None
         else let agent = rh_agents hw ! unat g in
              if rp_open e agent name (rh_queues hw ! unat g) = 0 \<and> rp_start e agent = 0 \<and> rp_stop e agent = 0
              then case read_feature e i agent name of
                     None \<Rightarrow> None
                   | Some v \<Rightarrow> if rp_close e agent = 0 then Some (v, b') else None
              else None)"

definition average_push :: "real \<Rightarrow> rdc_average \<Rightarrow> rdc_average" where
  "average_push raw_value a =
     (let buf = (if length (av_buffer a) < buffer_length_k then av_buffer a @ [raw_value]
                 else (av_buffer a)[unat (av_index a) := raw_value])
      in a\<lparr>av_buffer := buf, av_index := (av_index a + 1) mod word_of_nat buffer_length_k\<rparr>)"

definition average_value :: "rdc_average \<Rightarrow> double_val" where
  "average_value a = double_div (Finite (foldl (+) 0 (av_buffer a))) (length (av_buffer a))"

definition get_average :: "u32 \<times> u32 \<Rightarrow> real \<Rightarrow> rocp_base \<Rightarrow> double_val \<times> rocp_base" where
  "get_average pair raw_value b =
     (case map_of (rb_average b) pair of
        None \<Rightarrow> (NaN, b)
      | Some a \<Rightarrow> (average_value (average_push raw_value a),
                   b\<lparr>rb_average := map_modify pair (average_push raw_value) (rb_average b)\<rparr>))"

definition reset_average :: "u32 \<times> u32 \<Rightarrow> rocp_base \<Rightarrow> rocp_base" where
  "reset_average pair b =
     b\<lparr>rb_average := map_modify pair (\<lambda>a. a\<lparr>av_buffer := [], av_index := 0\<rparr>) (rb_average b)\<rparr>"

definition rocp_scale :: "rocp_env \<Rightarrow> nat \<Rightarrow> u32 \<Rightarrow> double_val \<Rightarrow> double_val" where
  "rocp_scale e i f v =
     (let v1 = (if f \<in> set eval_fields then double_div v (rp_elapsed e i) else v)
      in if f = RDC_FI_PROF_GPU_UTIL_PERCENT then double_div v1 100 else v1)"

definition rocp_lookup ::
    "rocp_env \<Rightarrow> rocp_hw \<Rightarrow> nat \<Rightarrow> u32 \<times> u32 \<Rightarrow> rocp_base \<Rightarrow> (rdc_status \<times> double_val \<times> rocp_base) option" where
  "rocp_lookup e hw i fk b =
     (case run_profiler e hw i (fst fk) (snd fk) b of
        None \<Rightarrow> None
      | Some (raw_value, b1) \<Rightarrow>
          (case get_average fk raw_value b1 of (v, b2) \<Rightarrow> Some (RDC_ST_OK, rocp_scale e i (snd fk) v, b2)))"

section \<open>The C interface of the library\<close>

definition is_rocp_disabled :: "string option \<Rightarrow> bool" where
  "is_rocp_disabled value =
     (case value of
        None \<Rightarrow> False
      | Some s \<Rightarrow> map lower s \<in> set [''yes'', ''true'', ''1'', ''on'', ''y'', ''t''])"

text \<open>
  \<open>rocp_p\<close> is the object that \<^verbatim>\<open>rdc_module_init\<close> makes; \<^const>\<open>None\<close> as the outcome is the
  exception of the constructor, which is not an \<^verbatim>\<open>RdcException\<close>.
\<close>

definition rdc_module_init :: "rocp_env \<Rightarrow> string option \<Rightarrow> (rdc_status \<times> (rocp_hw \<times> rocp_base) option) option" where
  "rdc_module_init e disable =
     (if is_rocp_disabled disable then Some (RDC_ST_DISABLED_MODULE, None)
      else map_option (\<lambda>x. (RDC_ST_OK, Some x)) (new_rocp_base e))"

definition rocp_value :: "rocp_env \<Rightarrow> u32 \<times> u32 \<Rightarrow> rdc_status \<Rightarrow> double_val \<Rightarrow> rdc_gpu_field_value" where
  "rocp_value e fk st v =
     \<lparr>gv_gpu_index = fst fk,
      gv_field_value = \<lparr>fv_field_id = snd fk, fv_status = St_rdc st, fv_ts = rp_now e, fv_type = DOUBLE,
                        fv_value = Dbl (rp_bits e v)\<rparr>\<rparr>"

fun rocp_fetch_loop ::
    "rocp_env \<Rightarrow> rocp_hw \<Rightarrow> 'u field_value_f \<Rightarrow> (u32 \<times> u32) list \<Rightarrow> nat \<Rightarrow> rdc_gpu_field_value list \<Rightarrow> rdc_status
     \<Rightarrow> rocp_base \<times> 'u \<Rightarrow> (rdc_status \<times> rocp_base \<times> 'u) option" where
  "rocp_fetch_loop e hw cb [] i vals st (b, u) =
     (if vals \<noteq> [] then case cb (Some vals) u of (st', u') \<Rightarrow> Some (st', b, u') else Some (st, b, u))"
| "rocp_fetch_loop e hw cb (fk # fks) i vals st (b, u) =
     (if length vals \<ge> BULK_FIELDS_MAX
      then case cb (Some vals) u of (st', u') \<Rightarrow>
             if st' \<noteq> RDC_ST_OK then Some (st', b, u')
             else (case rocp_lookup e hw i fk b of
                     None \<Rightarrow> None
                   | Some (st1, v, b') \<Rightarrow> rocp_fetch_loop e hw cb fks (i + 1) [rocp_value e fk st1 v] st1 (b', u'))
      else (case rocp_lookup e hw i fk b of
              None \<Rightarrow> None
            | Some (st1, v, b') \<Rightarrow> rocp_fetch_loop e hw cb fks (i + 1) (vals @ [rocp_value e fk st1 v]) st1 (b', u)))"

definition rocp_fields_query :: "rocp_hw option \<Rightarrow> rocp_base \<Rightarrow> rdc_status \<times> u32 list" where
  "rocp_fields_query hw b =
     (if hw = None then (RDC_ST_FAIL_LOAD_MODULE, []) else (RDC_ST_OK, map_keys (rb_field_to_metric b)))"

definition rocp_fields_value_get ::
    "rocp_env \<Rightarrow> rocp_hw option \<Rightarrow> (u32 \<times> u32) list \<Rightarrow> 'u field_value_f \<Rightarrow> rocp_base \<times> 'u
     \<Rightarrow> (rdc_status \<times> rocp_base \<times> 'u) option" where
  "rocp_fields_value_get e hw fks cb bu =
     (case hw of
        None \<Rightarrow> Some (RDC_ST_FAIL_LOAD_MODULE, bu)
      | Some w \<Rightarrow> rocp_fetch_loop e w cb fks 0 [] RDC_ST_UNKNOWN_ERROR bu)"

definition rocp_fields_watch :: "(u32 \<times> u32) list \<Rightarrow> rocp_base \<Rightarrow> (rdc_status \<times> rocp_base) option" where
  "rocp_fields_watch fks b = Some (RDC_ST_OK, b)"

definition rocp_fields_unwatch :: "rocp_hw option \<Rightarrow> (u32 \<times> u32) list \<Rightarrow> rocp_base \<Rightarrow> (rdc_status \<times> rocp_base) option" where
  "rocp_fields_unwatch hw fks b = Some (RDC_ST_OK, if hw = None then b else fold reset_average fks b)"

section \<open>\<open>RdcRocpLib\<close>\<close>

subsection \<open>The path of the metrics file\<close>

definition str_find :: "string \<Rightarrow> string \<Rightarrow> nat option" where
  "str_find needle s = List.find (\<lambda>i. take (length needle) (drop i s) = needle) [0..<Suc (length s)]"

fun walk_back :: "string \<Rightarrow> nat \<Rightarrow> nat" where
  "walk_back s 0 = 0"
| "walk_back s (Suc i) = (if s ! i \<noteq> CHR '' '' then walk_back s i else Suc i)"

fun scan_maps :: "string \<Rightarrow> string list \<Rightarrow> string" where
  "scan_maps rocm_path [] = rocm_path"
| "scan_maps rocm_path (line # lines) =
     (case str_find ''librocprofiler64.so'' line of
        None \<Rightarrow> scan_maps rocm_path lines
      | Some index_end \<Rightarrow>
          let index_start = walk_back line index_end
          in take (index_end - index_start) (drop index_start line) @ ''..'')"

text \<open>The environment variable and the lines of \<^verbatim>\<open>/proc/self/maps\<close>, when it can be opened.\<close>

definition get_rocm_path :: "string option \<Rightarrow> string list option \<Rightarrow> string" where
  "get_rocm_path rocm_path_env maps =
     (let rocm_path = (case rocm_path_env of Some p \<Rightarrow> p | None \<Rightarrow> ''/opt/rocm'')
      in case maps of None \<Rightarrow> rocm_path | Some lines \<Rightarrow> scan_maps rocm_path lines)"

text \<open>
  \<^verbatim>\<open>setenv\<close> without overwriting; the result is the status and the value of \<^verbatim>\<open>ROCP_METRICS\<close> afterwards.
\<close>

definition set_rocprofiler_path ::
    "string option \<Rightarrow> string list option \<Rightarrow> bool \<Rightarrow> (string \<Rightarrow> bool) \<Rightarrow> string option \<Rightarrow> rdc_status \<times> string option" where
  "set_rocprofiler_path rocm_path_env maps setenv_ok file_good metrics_env =
     (let path = get_rocm_path rocm_path_env maps @ ''/libexec/rocprofiler/counters/derived_counters.xml''
      in if \<not> setenv_ok then (RDC_ST_PERM_ERROR, metrics_env)
         else let value = (case metrics_env of Some p \<Rightarrow> p | None \<Rightarrow> path)
              in if \<not> file_good value then (RDC_ST_FILE_ERROR, Some value) else (RDC_ST_OK, Some value))"

subsection \<open>Loading\<close>

text \<open>Which function pointers are set.\<close>

record rocp_lib =
  rl_query :: bool
  rl_value_get :: bool
  rl_watch :: bool
  rl_unwatch :: bool
  rl_init :: bool
  rl_destroy :: bool

definition no_pointers :: rocp_lib where
  "no_pointers = \<lparr>rl_query = False, rl_value_get = False, rl_watch = False, rl_unwatch = False, rl_init = False, rl_destroy = False\<rparr>"

definition has_symbol :: "dynamic_linker \<Rightarrow> lib_loader \<Rightarrow> string \<Rightarrow> bool" where
  "has_symbol dl l name \<longleftrightarrow> loader_symbol dl True (Some name) l = RDC_ST_OK"

text \<open>
  The constructor. \<^const>\<open>None\<close> is an exception that is not an \<^verbatim>\<open>RdcException\<close>, \<^const>\<open>Inl\<close> an
  \<^verbatim>\<open>RdcException\<close>; otherwise the pointers, the loader and the object of the library.
\<close>

definition new_rocp_lib ::
    "dynamic_linker \<Rightarrow> rocp_env \<Rightarrow> string option \<Rightarrow> rdc_status
     \<Rightarrow> (rdc_status + rocp_lib \<times> lib_loader \<times> (rocp_hw \<times> rocp_base) option) option" where
  "new_rocp_lib dl e disable path_status =
     (if path_status \<noteq> RDC_ST_OK then Some (Inl RDC_ST_FAIL_LOAD_MODULE)
      else case loader_open dl (Some ''librdc_rocp.so'') None of
             (Inl err, _) \<Rightarrow> Some (Inl err)
           | (Inr st, l) \<Rightarrow>
               if st \<noteq> RDC_ST_OK then Some (Inr (no_pointers, l, None))
               else if \<not> has_symbol dl l ''rdc_module_init'' then Some (Inr (no_pointers, l, None))
               else (case rdc_module_init e disable of
                       None \<Rightarrow> None
                     | Some (st1, obj) \<Rightarrow>
                         if st1 \<noteq> RDC_ST_OK then Some (Inr (no_pointers\<lparr>rl_init := True\<rparr>, l, obj))
                         else Some (Inr (\<lparr>rl_query = has_symbol dl l ''rdc_telemetry_fields_query'',
                                          rl_value_get = has_symbol dl l ''rdc_telemetry_fields_value_get'',
                                          rl_watch = has_symbol dl l ''rdc_telemetry_fields_watch'',
                                          rl_unwatch = has_symbol dl l ''rdc_telemetry_fields_unwatch'',
                                          rl_init = True, rl_destroy = has_symbol dl l ''rdc_module_destroy''\<rparr>, l, obj))))"

subsection \<open>The calls\<close>

definition rocp_lib_query :: "rocp_lib \<Rightarrow> rocp_hw option \<Rightarrow> rocp_base \<Rightarrow> rdc_status \<times> u32 list" where
  "rocp_lib_query rl hw b = (if \<not> rl_query rl then (RDC_ST_FAIL_LOAD_MODULE, []) else rocp_fields_query hw b)"

definition rocp_lib_value_get ::
    "rocp_env \<Rightarrow> rocp_lib \<Rightarrow> rocp_hw option \<Rightarrow> (u32 \<times> u32) list option \<Rightarrow> 'u field_value_f \<Rightarrow> rocp_base \<times> 'u
     \<Rightarrow> (rdc_status \<times> rocp_base \<times> 'u) option" where
  "rocp_lib_value_get e rl hw fks cb bu =
     (case fks of
        None \<Rightarrow> Some (RDC_ST_BAD_PARAMETER, bu)
      | Some l \<Rightarrow> if \<not> rl_value_get rl then Some (RDC_ST_FAIL_LOAD_MODULE, bu) else rocp_fields_value_get e hw l cb bu)"

definition rocp_lib_watch :: "rocp_lib \<Rightarrow> (u32 \<times> u32) list option \<Rightarrow> rocp_base \<Rightarrow> (rdc_status \<times> rocp_base) option" where
  "rocp_lib_watch rl fks b =
     (case fks of
        None \<Rightarrow> Some (RDC_ST_BAD_PARAMETER, b)
      | Some l \<Rightarrow> if \<not> rl_watch rl then Some (RDC_ST_FAIL_LOAD_MODULE, b) else rocp_fields_watch l b)"

definition rocp_lib_unwatch :: "rocp_lib \<Rightarrow> rocp_hw option \<Rightarrow> (u32 \<times> u32) list option \<Rightarrow> rocp_base \<Rightarrow> (rdc_status \<times> rocp_base) option" where
  "rocp_lib_unwatch rl hw fks b =
     (case fks of
        None \<Rightarrow> Some (RDC_ST_BAD_PARAMETER, b)
      | Some l \<Rightarrow> if \<not> rl_unwatch rl then Some (RDC_ST_FAIL_LOAD_MODULE, b) else rocp_fields_unwatch hw l b)"

definition rocp_telemetry :: "rocp_env \<Rightarrow> rocp_lib \<Rightarrow> rocp_hw option \<Rightarrow> (rocp_base, 'u) rdc_telemetry" where
  "rocp_telemetry e rl hw =
     \<lparr>rdc_telemetry_fields_query = rocp_lib_query rl hw,
      rdc_telemetry_fields_watch = rocp_lib_watch rl,
      rdc_telemetry_fields_unwatch = rocp_lib_unwatch rl hw,
      rdc_telemetry_fields_value_get = rocp_lib_value_get e rl hw\<rparr>"

section \<open>The moving average\<close>

text \<open>
  The ring buffer holds the last five readings, the next one to be replaced first when read from the index.
\<close>

definition ring_holds :: "real list \<Rightarrow> rdc_average \<Rightarrow> bool" where
  "ring_holds rs a \<longleftrightarrow> unat (av_index a) = length rs mod buffer_length_k
     \<and> rotate (unat (av_index a)) (av_buffer a) = drop (length rs - buffer_length_k) rs"

lemma ring_holdsD:
  assumes "ring_holds rs a"
  shows "unat (av_index a) = length rs mod 5" and "rotate (unat (av_index a)) (av_buffer a) = drop (length rs - 5) rs"
  using assms unfolding ring_holds_def buffer_length_k_def by blast+

lemma rotate_update:
  assumes "k < length b"
  shows "rotate (Suc k mod length b) (b[k := r]) = tl (rotate k b) @ [r]"
proof -
  have "b = take k b @ b ! k # drop (Suc k) b" using assms by (rule id_take_nth_drop)
  then have r: "rotate k b = b ! k # drop (Suc k) b @ take k b"
    using assms by (simp add: rotate_drop_take Cons_nth_drop_Suc)
  show ?thesis
  proof (cases "Suc k < length b")
    case True
    then have "rotate (Suc k mod length b) (b[k := r]) = drop (Suc k) b @ take (Suc k) (b[k := r])"
      by (simp add: rotate_drop_take)
    also have "take (Suc k) (b[k := r]) = take k b @ [r]" using assms by (simp add: take_Suc_conv_app_nth)
    finally show ?thesis by (simp add: r)
  next
    case False
    with assms have l: "length b = Suc k" by simp
    then have "b[k := r] = take k b @ [r]" using assms by (simp add: upd_conv_take_nth_drop)
    with l show ?thesis by (simp add: r)
  qed
qed

lemma unat_next_index:
  "unat i < 5 \<Longrightarrow> unat ((i + 1) mod (5 :: u32)) = Suc (unat i) mod 5"
  by (simp add: unat_mod unat_word_ariths)

lemma mset_rotate: "mset (rotate n xs) = mset xs"
  by (simp add: rotate_drop_take) (metis append_take_drop_id mset_append union_commute)

lemma ring_holds_push:
  assumes "ring_holds rs a"
  shows "ring_holds (rs @ [r]) (average_push r a)"
proof -
  let ?k = "unat (av_index a)"
  note k = ring_holdsD(1) [OF assms] and b = ring_holdsD(2) [OF assms]
  have "unat (av_index (average_push r a)) = Suc ?k mod 5"
    using k unat_next_index [of "av_index a"] by (simp add: average_push_def Let_def buffer_length_k_def)
  then have i: "unat (av_index (average_push r a)) = length (rs @ [r]) mod 5" using k by (simp add: mod_Suc_eq)
  have len: "length (av_buffer a) = length rs - (length rs - 5)"
    using arg_cong [OF b, of length] by simp
  have "rotate (unat (av_index (average_push r a))) (av_buffer (average_push r a)) = drop (length (rs @ [r]) - 5) (rs @ [r])"
  proof (cases "length rs < 5")
    case True
    with k len b have "av_buffer a = rs" by (simp add: rotate_drop_take)
    then have ab: "av_buffer (average_push r a) = rs @ [r]" using True by (simp add: average_push_def Let_def buffer_length_k_def)
    moreover have "rotate (length (rs @ [r]) mod 5) (rs @ [r]) = rs @ [r]"
    proof (cases "length rs = 4")
      case False
      with True have "length (rs @ [r]) mod 5 = length (rs @ [r])" by simp
      then show ?thesis by (simp only:) (simp add: rotate_drop_take)
    qed simp
    ultimately show ?thesis using True i by simp
  next
    case False
    then have l5: "length (av_buffer a) = 5" using len by simp
    then have ab: "av_buffer (average_push r a) = (av_buffer a)[?k := r]" by (simp add: average_push_def Let_def buffer_length_k_def)
    have "rotate (Suc ?k mod 5) ((av_buffer a)[?k := r]) = tl (rotate ?k (av_buffer a)) @ [r]"
      using rotate_update [of ?k "av_buffer a" r] l5 k by simp
    also have "tl (rotate ?k (av_buffer a)) = drop (Suc (length rs - 5)) rs" using b by (simp add: drop_Suc tl_drop)
    also have "Suc (length rs - 5) = length rs - 4" using False by simp
    also have "drop (length rs - 4) rs @ [r] = drop (length (rs @ [r]) - 5) (rs @ [r])" by simp
    finally show ?thesis using ab i k by (simp add: mod_Suc_eq)
  qed
  with i show ?thesis by (simp add: ring_holds_def buffer_length_k_def)
qed

lemma foldl_plus: "foldl (+) (c :: real) xs = c + sum_list xs"
  by (induction xs arbitrary: c) simp_all

lemma ring_holds_value:
  assumes "ring_holds rs a" and "rs \<noteq> []"
  shows "average_value a = Finite (sum_list (drop (length rs - 5) rs) / real (min 5 (length rs)))"
proof -
  let ?w = "drop (length rs - 5) rs"
  note r = ring_holdsD(2) [OF assms(1)]
  have "mset (av_buffer a) = mset ?w" by (subst r [symmetric]) (simp only: mset_rotate)
  then have "sum_list (av_buffer a) = sum_list ?w" by (metis sum_mset_sum_list)
  moreover have "length (av_buffer a) = min 5 (length rs)" using arg_cong [OF r, of length] by simp
  moreover have "foldl (+) 0 (av_buffer a) = sum_list (av_buffer a)" by (simp add: foldl_plus)
  ultimately show ?thesis using assms(2) by (simp add: average_value_def double_div_def)
qed

text \<open>
  A sequence of lookups, of this and of other pairs: the readings of rocprofiler for the pair, and the object after them.
\<close>

fun readings :: "rocp_hw \<Rightarrow> u32 \<times> u32 \<Rightarrow> (rocp_env \<times> nat \<times> u32 \<times> u32) list \<Rightarrow> rocp_base \<Rightarrow> (real list \<times> rocp_base) option" where
  "readings hw pair [] b = Some ([], b)"
| "readings hw pair ((e, i, fk) # xs) b =
     (case (run_profiler e hw i (fst fk) (snd fk) b, rocp_lookup e hw i fk b) of
        (Some (r, _), Some (_, _, b')) \<Rightarrow> map_option (\<lambda>(rs, b2). (if fk = pair then r # rs else rs, b2)) (readings hw pair xs b')
      | _ \<Rightarrow> None)"

lemma rocp_lookup_run:
  assumes "run_profiler e hw i (fst fk) (snd fk) b = Some (r, b1)"
  shows "\<exists>b'. rocp_lookup e hw i fk b = Some (RDC_ST_OK, rocp_scale e i (snd fk) (fst (get_average fk r b)), b')
    \<and> map_of (rb_average b') pair = (if fk = pair then map_option (average_push r) (map_of (rb_average b) pair) else map_of (rb_average b) pair)"
proof -
  from assms have "rb_average b1 = rb_average b"
    by (auto simp: run_profiler_def Let_def split: if_splits option.splits)
  with assms show ?thesis
    by (auto simp: rocp_lookup_def get_average_def split: option.splits)
qed

lemma readings_ring:
  assumes "map_of (rb_average b) pair = Some a" and "ring_holds rs0 a" and "readings hw pair xs b = Some (rs, b')"
  shows "\<exists>a'. map_of (rb_average b') pair = Some a' \<and> ring_holds (rs0 @ rs) a'"
  using assms
proof (induction xs arbitrary: b a rs0 rs)
  case (Cons x xs)
  obtain e i fk where x: "x = (e, i, fk)" by (cases x)
  with Cons.prems(3) obtain r b1 st v b2 rs2 where r: "run_profiler e hw i (fst fk) (snd fk) b = Some (r, b1)" "rocp_lookup e hw i fk b = Some (st, v, b2)"
    "readings hw pair xs b2 = Some (rs2, b')" "rs = (if fk = pair then r # rs2 else rs2)"
    by (auto split: option.splits prod.splits)
  from rocp_lookup_run [OF r(1), of pair] r(2) Cons.prems(1) have a: "map_of (rb_average b2) pair = Some (if fk = pair then average_push r a else a)" by auto
  show ?case
  proof (cases "fk = pair")
    case True
    from Cons.IH [OF a _ r(3), of "rs0 @ [r]"] ring_holds_push [OF Cons.prems(2), of r] True r(4) show ?thesis by simp
  next
    case False
    from Cons.IH [OF a _ r(3), of rs0] Cons.prems(2) False r(4) show ?thesis by simp
  qed
qed simp

text \<open>What the mean of a field is divided by: the milliseconds of the measurement for the evaluated fields, 100 for the utilisation.\<close>

definition value_divisor :: "rocp_env \<Rightarrow> nat \<Rightarrow> u32 \<Rightarrow> nat" where
  "value_divisor e i f = (if f \<in> set eval_fields then rp_elapsed e i else 1) * (if f = RDC_FI_PROF_GPU_UTIL_PERCENT then 100 else 1)"

lemma rocp_scale_finite: "value_divisor e i f \<noteq> 0 \<Longrightarrow> rocp_scale e i f (Finite x) = Finite (x / real (value_divisor e i f))"
  by (auto simp: rocp_scale_def value_divisor_def double_div_def)

text \<open>
  (C16) The value that the profiler reports for a pair of GPU and field is the mean of the last five readings, divided by the milliseconds of
  the measurement for the bandwidths and the operation rates, and by 100 for the utilisation. The pair is registered, it has been unwatched, which empties its ring buffer, and any
  number of lookups of this and of other pairs has been made; the next measurement succeeds, with the reading \<open>r\<close>, and takes at least a
  millisecond where the time is the divisor. The mean is the arithmetic mean of that reading and of up to four readings before it.
\<close>
theorem profiler_moving_average:
  assumes "map_of (rb_average b) pair \<noteq> None" and "readings hw pair xs (reset_average pair b) = Some (rs, b1)"
    and "run_profiler e hw i (fst pair) (snd pair) b1 = Some (r, b2)" and "value_divisor e i (snd pair) \<noteq> 0"
  shows "\<exists>b3. rocp_lookup e hw i pair b1
    = Some (RDC_ST_OK, Finite (sum_list (drop (length rs - 4) (rs @ [r])) / real (min 5 (Suc (length rs))) / real (value_divisor e i (snd pair))), b3)"
proof -
  from assms(1) obtain a where "map_of (rb_average b) pair = Some a" by blast
  then have "map_of (rb_average (reset_average pair b)) pair = Some (a\<lparr>av_buffer := [], av_index := 0\<rparr>)"
    by (simp add: reset_average_def)
  moreover have "ring_holds [] (a\<lparr>av_buffer := [], av_index := 0\<rparr>)" by (simp add: ring_holds_def)
  ultimately obtain a' where a': "map_of (rb_average b1) pair = Some a'" "ring_holds rs a'"
    using readings_ring [OF _ _ assms(2)] by fastforce
  then have "fst (get_average pair r b1) = Finite (sum_list (drop (length rs - 4) (rs @ [r])) / real (min 5 (Suc (length rs))))"
    using ring_holds_value [OF ring_holds_push [OF a'(2), of r]] by (simp add: get_average_def)
  with rocp_lookup_run [OF assms(3), of pair] rocp_scale_finite [OF assms(4)] show ?thesis by auto
qed

definition one_average :: rocp_base where
  "one_average = \<lparr>rb_gpuid_to_feature = [], rb_field_to_metric = [(RDC_FI_PROF_ACTIVE_WAVES, Some ''SQ_WAVES'')],
     rb_average = [((0, RDC_FI_PROF_ACTIVE_WAVES), \<lparr>av_buffer = [9], av_index = 1\<rparr>)]\<rparr>"

section \<open>The contract of a telemetry library\<close>

text \<open>
  A field is servable when the pointer is set, the GPU has an agent and a queue, the calls of rocprofiler
  succeed on them, and the reserved memory for the contexts can be used.
\<close>

definition rocp_servable :: "rocp_env \<Rightarrow> rocp_lib \<Rightarrow> rocp_hw option \<Rightarrow> u32 \<times> u32 \<Rightarrow> bool" where
  "rocp_servable e rl hw fk \<longleftrightarrow> rl_value_get rl \<and> rp_reserved_usable e \<and>
     (case hw of
        None \<Rightarrow> False
      | Some w \<Rightarrow> unat (fst fk) < length (rh_agents w) \<and> unat (fst fk) < length (rh_queues w) \<and>
          (let a = rh_agents w ! unat (fst fk) in
             (\<forall>name. rp_open e a name (rh_queues w ! unat (fst fk)) = 0) \<and> rp_start e a = 0 \<and> rp_stop e a = 0
             \<and> rp_read e a = 0 \<and> rp_get_data e a = 0 \<and> rp_get_metrics e a = 0 \<and> rp_close e a = 0))"

lemma rocp_lookup_servable:
  assumes "rocp_servable e rl (Some hw) fk"
  shows "\<exists>v b'. rocp_lookup e hw i fk b = Some (RDC_ST_OK, v, b')"
  using assms by (auto simp: rocp_servable_def rocp_lookup_def run_profiler_def read_feature_def Let_def case_prod_unfold)

lemma value_key_rocp_value [simp]: "value_key (rocp_value e fk st v) = fk"
  by (simp add: value_key_def rocp_value_def)

lemma rocp_fetch_loop_delivers:
  assumes "\<forall>fk\<in>set fks. rocp_servable e rl (Some hw) fk" and "accepts cb"
    and "vals = [] \<longrightarrow> fks = [] \<longrightarrow> st = RDC_ST_OK"
  shows "\<exists>bs b'. rocp_fetch_loop e hw cb fks i vals st (b, u) = Some (RDC_ST_OK, b', deliver cb bs u)
    \<and> map value_key (concat bs) = map value_key vals @ fks"
  using assms(1,3)
proof (induction fks arbitrary: i vals st b u)
  case Nil
  show ?case
  proof (cases "vals = []")
    case False
    with assms(2) show ?thesis
      by (intro exI [of _ "[vals]"] exI [of _ b]) (simp add: accepts_def case_prod_unfold)
  qed (use Nil in \<open>auto intro: exI [of _ "[]"]\<close>)
next
  case (Cons fk fks)
  have ok: "fst (cb (Some vals) u) = RDC_ST_OK" and sv: "\<forall>fk\<in>set fks. rocp_servable e rl (Some hw) fk"
    using assms(2) Cons.prems(1) by (simp_all add: accepts_def)
  obtain v b1 where l: "rocp_lookup e hw i fk b = Some (RDC_ST_OK, v, b1)"
    using rocp_lookup_servable Cons.prems(1) by (metis list.set_intros(1))
  show ?case
  proof (cases "length vals \<ge> BULK_FIELDS_MAX")
    case True
    from Cons.IH [OF sv, of "[rocp_value e fk RDC_ST_OK v]" RDC_ST_OK "i + 1" b1 "snd (cb (Some vals) u)"] obtain bs b' where
      "rocp_fetch_loop e hw cb fks (i + 1) [rocp_value e fk RDC_ST_OK v] RDC_ST_OK (b1, snd (cb (Some vals) u))
        = Some (RDC_ST_OK, b', deliver cb bs (snd (cb (Some vals) u)))"
      "map value_key (concat bs) = fk # fks" by auto
    with True ok l show ?thesis
      by (intro exI [of _ "vals # bs"] exI [of _ b']) (simp add: case_prod_unfold)
  next
    case False
    from Cons.IH [OF sv, of "vals @ [rocp_value e fk RDC_ST_OK v]" RDC_ST_OK "i + 1" b1 u] obtain bs b' where
      "rocp_fetch_loop e hw cb fks (i + 1) (vals @ [rocp_value e fk RDC_ST_OK v]) RDC_ST_OK (b1, u)
        = Some (RDC_ST_OK, b', deliver cb bs u)"
      "map value_key (concat bs) = map value_key vals @ fk # fks" by auto
    with False l show ?thesis by (intro exI [of _ bs] exI [of _ b']) simp
  qed
qed

lemma rocp_fetch_loop_user_data:
  "rocp_fetch_loop e hw cb fks i vals st (b, u) = Some (st', b', u') \<Longrightarrow> called cb u u'"
proof (induction fks arbitrary: i vals st b u)
  case Nil
  then have "u' = (if vals \<noteq> [] then snd (cb (Some vals) u) else u)" by (auto simp: case_prod_unfold split: if_splits)
  then show ?case by (simp add: called_refl called_one)
next
  case (Cons fk fks)
  let ?u = "snd (cb (Some vals) u)"
  from Cons.prems consider (stop) "u' = ?u"
    | (same) vals' i1 st1 b1 where "rocp_fetch_loop e hw cb fks i1 vals' st1 (b1, u) = Some (st', b', u')"
    | (flush) vals' i1 st1 b1 where "rocp_fetch_loop e hw cb fks i1 vals' st1 (b1, ?u) = Some (st', b', u')"
    by (auto simp: case_prod_unfold split: if_splits option.splits)
  then show ?case
  proof cases
    case flush
    then show ?thesis by (intro called_step [OF Cons.IH])
  qed (auto simp: called_one intro: Cons.IH)
qed

lemma rocp_value_get_user_data:
  "rocp_lib_value_get e rl hw fks cb (b, u) = Some (st, b', u') \<Longrightarrow> called cb u u'"
  by (auto simp: rocp_lib_value_get_def rocp_fields_value_get_def called_refl
      split: option.splits if_splits intro: rocp_fetch_loop_user_data)

interpretation rocp_source: telemetry_source "rocp_lib_value_get e rl hw" "rocp_servable e rl hw" for e rl hw
proof
  fix fks b u st b' u' and cb :: "'u field_value_f"
  show "rocp_lib_value_get e rl hw fks cb (b, u) = Some (st, b', u') \<Longrightarrow> \<exists>bs. u' = fold (\<lambda>b u. snd (cb b u)) bs u"
    using rocp_value_get_user_data [of e rl hw fks cb b u st b' u'] by (simp only: called_def)
next
  fix fks b u and cb :: "'u field_value_f"
  assume sv: "\<forall>fk\<in>set fks. rocp_servable e rl hw fk" and cb: "accepts cb"
  show "\<exists>bs st b'. rocp_lib_value_get e rl hw (Some fks) cb (b, u) = Some (st, b', deliver cb bs u)
      \<and> (fks \<noteq> [] \<longrightarrow> st = RDC_ST_OK) \<and> mset (map value_key (concat bs)) = mset fks"
  proof (cases fks)
    case Nil
    then show ?thesis
      by (cases hw) (auto simp: rocp_lib_value_get_def rocp_fields_value_get_def intro!: exI [of _ "[]"])
  next
    case (Cons fk fks')
    with sv obtain w where w: "hw = Some w" and r: "rl_value_get rl" by (auto simp: rocp_servable_def split: option.splits)
    have "\<exists>bs b'. rocp_fetch_loop e w cb fks 0 [] RDC_ST_UNKNOWN_ERROR (b, u) = Some (RDC_ST_OK, b', deliver cb bs u)
        \<and> map value_key (concat bs) = map value_key [] @ fks"
      by (rule rocp_fetch_loop_delivers [OF _ cb]) (use sv w Cons in auto)
    then obtain bs b' where "rocp_fetch_loop e w cb fks 0 [] RDC_ST_UNKNOWN_ERROR (b, u) = Some (RDC_ST_OK, b', deliver cb bs u)"
      and "map value_key (concat bs) = fks" by auto
    with w r show ?thesis by (auto simp: rocp_lib_value_get_def rocp_fields_value_get_def)
  qed
qed

section \<open>The libraries of a session\<close>

text \<open>
  \<^verbatim>\<open>RdcModuleMgrImpl\<close> inserts the SMI library and, when it loads, the profiler library. Their states lie side by side
  behind the telemetry module: a library is lifted to the common state along the functions that read and replace its part.
\<close>

definition lift_telemetry :: "('t \<Rightarrow> 's) \<Rightarrow> ('s \<Rightarrow> 't \<Rightarrow> 't) \<Rightarrow> ('s, 'u) rdc_telemetry \<Rightarrow> ('t, 'u) rdc_telemetry" where
  "lift_telemetry get put lib =
     \<lparr>rdc_telemetry_fields_query = (\<lambda>t. rdc_telemetry_fields_query lib (get t)),
      rdc_telemetry_fields_watch = (\<lambda>fks t. map_option (\<lambda>(st, s). (st, put s t)) (rdc_telemetry_fields_watch lib fks (get t))),
      rdc_telemetry_fields_unwatch = (\<lambda>fks t. map_option (\<lambda>(st, s). (st, put s t)) (rdc_telemetry_fields_unwatch lib fks (get t))),
      rdc_telemetry_fields_value_get = (\<lambda>fks cb (t, u).
        map_option (\<lambda>(st, s, u'). (st, put s t, u')) (rdc_telemetry_fields_value_get lib fks cb (get t, u)))\<rparr>"

lemma lift_telemetry_source:
  fixes lib :: "('s, 'u) rdc_telemetry" and get :: "'t \<Rightarrow> 's"
  assumes "telemetry_source (rdc_telemetry_fields_value_get lib) servable"
  shows "telemetry_source (rdc_telemetry_fields_value_get (lift_telemetry get put lib)) servable"
proof unfold_locales
  fix fks cb s u st s' u'
  assume "rdc_telemetry_fields_value_get (lift_telemetry get put lib) fks cb (s, u) = Some (st, s', u')"
  then show "\<exists>bs. u' = fold (\<lambda>b u. snd (cb b u)) bs u"
    using callback_only.user_data [OF telemetry_source.axioms(1) [OF assms]] by (fastforce simp: lift_telemetry_def)
next
  fix fks and cb :: "'u field_value_f" and s :: 't and u
  assume "\<forall>fk\<in>set fks. servable fk" and "accepts cb"
  from telemetry_source.delivers [OF assms this, of "get s" u]
  show "\<exists>bs st s'. rdc_telemetry_fields_value_get (lift_telemetry get put lib) (Some fks) cb (s, u) = Some (st, s', deliver cb bs u)
      \<and> (fks \<noteq> [] \<longrightarrow> st = RDC_ST_OK) \<and> mset (map value_key (concat bs)) = mset fks"
    by (auto simp: lift_telemetry_def)
qed

type_synonym session_tel = "(metric_fetcher \<times> rocp_base) \<times> cap_state"

definition session_libs ::
    "smi_env \<Rightarrow> rocp_env \<Rightarrow> rocp_lib \<Rightarrow> rocp_hw option \<Rightarrow> nat \<Rightarrow> nat \<Rightarrow> (session_tel, 'u) rdc_telemetry" where
  "session_libs es er rl hw rocp a =
     (if a = rocp
      then lift_telemetry (\<lambda>t. snd (fst t)) (\<lambda>b t. ((fst (fst t), b), snd t)) (rocp_telemetry er rl hw)
      else lift_telemetry (\<lambda>t. (fst (fst t), snd t)) (\<lambda>s t. ((fst s, snd (fst t)), snd s)) (smi_lib es))"

lemma session_libs_source:
  "telemetry_source (rdc_telemetry_fields_value_get (session_libs es er rl hw rocp a))
     (if a = rocp then rocp_servable er rl hw else smi_ready es)"
proof -
  have "telemetry_source (rdc_telemetry_fields_value_get (rocp_telemetry er rl hw)) (rocp_servable er rl hw)"
    unfolding rocp_telemetry_def by simp (rule rocp_source.telemetry_source_axioms)
  moreover have "telemetry_source (rdc_telemetry_fields_value_get (smi_lib es)) (smi_ready es)"
    unfolding smi_lib_def by simp (rule smi_source.telemetry_source_axioms)
  ultimately show ?thesis by (auto simp: session_libs_def intro!: lift_telemetry_source)
qed

lemma map_of_register:
  "map_of (fold (\<lambda>f. map_insert f (Some a)) ids t) f =
     (case map_of t f of Some r \<Rightarrow> Some r | None \<Rightarrow> if f \<in> set ids then Some (Some a) else None)"
  by (induction ids arbitrary: t) (auto simp: map_of_map_insert split: option.splits)

lemma field_owner_register:
  "field_owner (fold (\<lambda>f. map_insert f (Some a)) ids t) f =
     (case map_of t f of Some r \<Rightarrow> r | None \<Rightarrow> if f \<in> set ids then Some a else None)"
  by (simp add: field_owner_def map_of_register split: option.split)

lemma session_field_owner:
  assumes "smi \<noteq> rocp" and "rl_query rl" and "hw \<noteq> None"
  shows "field_owner (tm_fields_id_module (new_telemetry_module
      (session_libs es er rl hw rocp :: nat \<Rightarrow> (session_tel, 'u) rdc_telemetry) t [smi, rocp])) f =
    (if f \<in> set smi_supported_fields then Some smi
     else if f \<in> set (map_keys (rb_field_to_metric (snd (fst t)))) then Some rocp else None)"
proof -
  let ?L = "session_libs es er rl hw rocp :: nat \<Rightarrow> (session_tel, 'u) rdc_telemetry"
  have "rdc_telemetry_fields_query (?L smi) t = (RDC_ST_OK, smi_supported_fields)"
    using assms(1) by (simp add: session_libs_def lift_telemetry_def smi_lib_def)
  moreover have "rdc_telemetry_fields_query (?L rocp) t
      = (RDC_ST_OK, map_keys (rb_field_to_metric (snd (fst t))))"
    using assms(2,3) by (simp add: session_libs_def lift_telemetry_def rocp_telemetry_def rocp_lib_query_def rocp_fields_query_def)
  ultimately show ?thesis
    by (simp add: new_telemetry_module_def register_module_def field_owner_register map_of_register)
qed

text \<open>
  (C17) A session with the SMI and the profiler library answers every field of either. The telemetry module has been built
  on the two libraries, of which the profiler library has its query function and its object; up to 8192 fields are requested, each an SMI field that can be read or a profiler field whose
  measurement succeeds, which needs the reserved memory of its contexts to be usable; and the callback accepts all it is given. Then the module returns OK and the callback receives over all its calls exactly one value for each
  requested pair of GPU and field; no field is reported as unsupported.
\<close>
theorem session_libraries_answer:
  fixes cb :: "'u field_value_f"
  assumes "smi \<noteq> rocp" and "rl_query rl" and "hw \<noteq> None" and "accepts cb" and "length fks \<le> MAX_NUM_FIELDS"
    and "tm = new_telemetry_module (session_libs es er rl hw rocp :: nat \<Rightarrow> (session_tel, 'u) rdc_telemetry) t [smi, rocp]"
    and "\<And>fk. fk \<in> set fks \<Longrightarrow>
      if snd fk \<in> set smi_supported_fields then smi_ready es fk
      else snd fk \<in> set (map_keys (rb_field_to_metric (snd (fst t)))) \<and> rocp_servable er rl hw fk"
  shows "\<exists>bs tm' t'. module_fields_value_get (session_libs es er rl hw rocp) (Some fks) cb (tm, t, u)
      = Some (RDC_ST_OK, tm', t', snd (cb None (deliver cb bs u)))
    \<and> mset (map value_key (concat bs)) = mset fks"
proof -
  let ?sv = "\<lambda>a. if a = rocp then rocp_servable er rl hw else smi_ready es"
  have own: "field_owner (tm_fields_id_module tm) f = (if f \<in> set smi_supported_fields then Some smi
     else if f \<in> set (map_keys (rb_field_to_metric (snd (fst t)))) then Some rocp else None)" for f
    unfolding assms(6) by (rule session_field_owner [OF assms(1-3)])
  have "?sv a fk" if "fk \<in> set fks" "field_owner (tm_fields_id_module tm) (snd fk) = Some a" for fk a
    using assms(7) [OF that(1)] that(2) assms(1) by (auto simp: own split: if_splits)
  from module_value_get_lemma [where servable = ?sv and s = t and u = u, OF session_libs_source assms(4,5) this] obtain bs un tm' t' where
    r: "module_fields_value_get (session_libs es er rl hw rocp) (Some fks) cb (tm, t, u)
        = Some (RDC_ST_OK, tm', t', snd (cb (vec_ptr un) (deliver cb bs u)))"
    and m: "mset (map value_key (concat bs @ un)) = mset fks"
    and un: "un = map unsupported_value (filter (\<lambda>fk. field_owner (tm_fields_id_module tm) (snd fk) = None) fks)" by blast
  have "field_owner (tm_fields_id_module tm) (snd fk) \<noteq> None" if "fk \<in> set fks" for fk
    using assms(7) [OF that] by (auto simp: own split: if_splits)
  then have "un = []" unfolding un by (simp add: filter_empty_conv)
  with r m show ?thesis by (auto simp: vec_ptr_def)
qed

definition demo_rocp_env :: rocp_env where
  "demo_rocp_env = \<lparr>rp_hsa_init = 0, rp_agents = [10, 11, 12], rp_device_type = (\<lambda>a. (0, a \<noteq> 10)),
     rp_node_id = (\<lambda>a. (0, word_of_nat (a - 10))), rp_metrics = [(1, ''SQ_WAVES''), (2, ''GRBM_COUNT'')],
     rp_queue_create = Some, rp_open = (\<lambda>_ _ _. 0), rp_start = (\<lambda>_. 0), rp_stop = (\<lambda>_. 0), rp_read = (\<lambda>_. 0),
     rp_get_data = (\<lambda>_. 0), rp_get_metrics = (\<lambda>_. 0), rp_close = (\<lambda>_. 0), rp_data = (\<lambda>_ _ _. Data_int32 7),
     rp_elapsed = (\<lambda>_. 10), rp_reserved_usable = True, rp_now = 5, rp_bits = (\<lambda>_. 0)\<rparr>"

definition all_pointers :: rocp_lib where
  "all_pointers = \<lparr>rl_query = True, rl_value_get = True, rl_watch = True, rl_unwatch = True, rl_init = True, rl_destroy = True\<rparr>"

definition demo_hw :: rocp_hw where
  "demo_hw = \<lparr>rh_agents = [11, 12], rh_queues = [Some 11, Some 12]\<rparr>"

definition wave_readings :: "(rocp_env \<times> nat \<times> u32 \<times> u32) list" where
  "wave_readings = map (\<lambda>x. (demo_rocp_env\<lparr>rp_data := \<lambda>_ _ _. Data_double x\<rparr>, 0, 0, RDC_FI_PROF_ACTIVE_WAVES)) [1, 2, 3, 4, 5]"

theorem profiler_moving_average_witness:
  "\<exists>b1 b3. readings demo_hw (0, RDC_FI_PROF_ACTIVE_WAVES) wave_readings (reset_average (0, RDC_FI_PROF_ACTIVE_WAVES) one_average) = Some ([1, 2, 3, 4, 5], b1)
    \<and> rocp_lookup (demo_rocp_env\<lparr>rp_data := \<lambda>_ _ _. Data_double 6\<rparr>) demo_hw 0 (0, RDC_FI_PROF_ACTIVE_WAVES) b1 = Some (RDC_ST_OK, Finite 4, b3)"
proof -
  let ?p = "(0 :: u32, RDC_FI_PROF_ACTIVE_WAVES)"
  have a: "map_of (rb_average one_average) ?p \<noteq> None" by (simp add: one_average_def)
  have run: "\<exists>b2. run_profiler (demo_rocp_env\<lparr>rp_data := \<lambda>_ _ _. Data_double x\<rparr>) demo_hw 0 (fst ?p) (snd ?p) b = Some (x, b2)" for x b
    by (simp add: run_profiler_def read_feature_def demo_rocp_env_def demo_hw_def Let_def)
  have step: "\<exists>b'. readings demo_hw ?p ((demo_rocp_env\<lparr>rp_data := \<lambda>_ _ _. Data_double x\<rparr>, 0, ?p) # xs) b
      = map_option (\<lambda>(rs, b2). (x # rs, b2)) (readings demo_hw ?p xs b')" for x xs b
  proof -
    from run [of x b] obtain b2 where r: "run_profiler (demo_rocp_env\<lparr>rp_data := \<lambda>_ _ _. Data_double x\<rparr>) demo_hw 0 (fst ?p) (snd ?p) b = Some (x, b2)" by blast
    from rocp_lookup_run [where fk = ?p and pair = ?p, OF r] r show ?thesis by auto
  qed
  have "\<exists>b1. readings demo_hw ?p (map (\<lambda>x. (demo_rocp_env\<lparr>rp_data := \<lambda>_ _ _. Data_double x\<rparr>, 0, ?p)) rs) b = Some (rs, b1)" for rs b
  proof (induction rs arbitrary: b)
    case (Cons x rs)
    from step obtain b' where "readings demo_hw ?p ((demo_rocp_env\<lparr>rp_data := \<lambda>_ _ _. Data_double x\<rparr>, 0, ?p) # map (\<lambda>x. (demo_rocp_env\<lparr>rp_data := \<lambda>_ _ _. Data_double x\<rparr>, 0, ?p)) rs) b
      = map_option (\<lambda>(rs, b2). (x # rs, b2)) (readings demo_hw ?p (map (\<lambda>x. (demo_rocp_env\<lparr>rp_data := \<lambda>_ _ _. Data_double x\<rparr>, 0, ?p)) rs) b')" by blast
    with Cons.IH [of b'] show ?case by auto
  qed simp
  then obtain b1 where b1: "readings demo_hw ?p wave_readings (reset_average ?p one_average) = Some ([1, 2, 3, 4, 5], b1)" unfolding wave_readings_def by blast
  from run obtain b2 where "run_profiler (demo_rocp_env\<lparr>rp_data := \<lambda>_ _ _. Data_double 6\<rparr>) demo_hw 0 (fst ?p) (snd ?p) b1 = Some (6, b2)" by blast
  from profiler_moving_average [OF a b1 this] b1 show ?thesis by (simp add: value_divisor_def eval_fields_def)
qed

theorem session_libraries_answer_witness:
  "\<exists>bs tm' t'. module_fields_value_get (session_libs two_gpu_env demo_rocp_env all_pointers (Some demo_hw) 2)
      (Some [(0, RDC_FI_PROF_ACTIVE_WAVES), (1, RDC_FI_GPU_TEMP)]) (\<lambda>vs n. (RDC_ST_OK, n + (1 :: nat)))
      (new_telemetry_module (session_libs two_gpu_env demo_rocp_env all_pointers (Some demo_hw) 2 :: nat \<Rightarrow> (session_tel, nat) rdc_telemetry)
         ((metric_fetcher_init, one_average), {}) [1, 2], ((metric_fetcher_init, one_average), {}), 0)
      = Some (RDC_ST_OK, tm', t', snd ((\<lambda>vs n. (RDC_ST_OK, n + 1)) None (deliver (\<lambda>vs n. (RDC_ST_OK, n + 1)) bs 0)))
    \<and> mset (map value_key (concat bs)) = mset [(0, RDC_FI_PROF_ACTIVE_WAVES), (1, RDC_FI_GPU_TEMP)]"
proof (rule session_libraries_answer [OF _ _ _ _ _ refl])
  fix fk :: "u32 \<times> u32"
  assume "fk \<in> set [(0, RDC_FI_PROF_ACTIVE_WAVES), (1, RDC_FI_GPU_TEMP)]"
  then consider (prof) "fk = (0, RDC_FI_PROF_ACTIVE_WAVES)" | (temp) "fk = (1, RDC_FI_GPU_TEMP)" by auto
  then show "if snd fk \<in> set smi_supported_fields then smi_ready two_gpu_env fk
      else snd fk \<in> set (map_keys (rb_field_to_metric (snd (fst ((metric_fetcher_init, one_average), {})))))
        \<and> rocp_servable demo_rocp_env all_pointers (Some demo_hw) fk"
  proof cases
    case prof
    then show ?thesis
      by (simp add: smi_supported_fields_def map_keys_def one_average_def rocp_servable_def demo_hw_def all_pointers_def demo_rocp_env_def)
  next
    case temp
    have "smi_servable two_gpu_env (1, RDC_FI_GPU_TEMP)" by (rule smi_servable_temp) simp
    with temp show ?thesis
      by (simp add: smi_supported_fields_def smi_ready_def) (simp add: two_gpu_env_def bulk_fetch_enabled_def BULK_FIELDS_MAX_def)
  qed
qed (simp_all add: all_pointers_def accepts_def MAX_NUM_FIELDS_def)

section \<open>Which metrics are registered\<close>

lemma register_metrics_average:
  "map_of (rb_average b) p \<noteq> None \<Longrightarrow> map_of (rb_average (register_metrics g checked b)) p \<noteq> None"
proof -
  have "map_of (rb_average b) p \<noteq> None \<Longrightarrow> map_of (rb_average (fold (\<lambda>(k, v) b. if v \<in> set checked
      then b\<lparr>rb_field_to_metric := map_insert k (Some v) (rb_field_to_metric b),
             rb_average := map_insert (g, k) \<lparr>av_buffer = [], av_index = 0\<rparr> (rb_average b)\<rparr> else b) l b)) p \<noteq> None" for l
    by (induction l arbitrary: b) (auto simp: map_of_map_insert split: option.splits)
  then show "map_of (rb_average b) p \<noteq> None \<Longrightarrow> map_of (rb_average (register_metrics g checked b)) p \<noteq> None"
    by (simp add: register_metrics_def)
qed

lemma register_metrics_registers:
  assumes "(k, v) \<in> set temp_field_map_k" and "v \<in> set checked"
  shows "map_of (rb_average (register_metrics g checked b)) (g, k) \<noteq> None"
proof -
  let ?f = "\<lambda>(k, v) b. if v \<in> set checked
      then b\<lparr>rb_field_to_metric := map_insert k (Some v) (rb_field_to_metric b),
             rb_average := map_insert (g, k) \<lparr>av_buffer = [], av_index = 0\<rparr> (rb_average b)\<rparr> else b"
  have keep: "map_of (rb_average b) p \<noteq> None \<Longrightarrow> map_of (rb_average (fold ?f l b)) p \<noteq> None" for l b p
    by (induction l arbitrary: b) (auto simp: map_of_map_insert split: option.splits)
  have "(k, v) \<in> set l \<Longrightarrow> map_of (rb_average (fold ?f l b)) (g, k) \<noteq> None" for l
  proof (induction l arbitrary: b)
    case (Cons e l)
    show ?case
    proof (cases "e = (k, v)")
      case True
      then show ?thesis using assms(2) by (auto simp: map_of_map_insert split: option.splits intro!: keep [simplified not_None_eq])
    qed (use Cons in auto)
  qed simp
  with assms(1) show ?thesis by (simp add: register_metrics_def)
qed

lemma register_gpus_average:
  "map_of (rb_average b) p \<noteq> None \<Longrightarrow> map_of (rb_average (register_gpus e as g n checked b)) p \<noteq> None"
  by (induction e as g n checked b rule: register_gpus.induct) (simp_all add: Let_def register_metrics_average del: not_None_eq)

lemma init_features_average [simp]: "rb_average (init_features n b) = rb_average b"
proof -
  have i: "rb_average (fold (\<lambda>(_, v) b. b\<lparr>rb_gpuid_to_feature := map_insert (word_of_nat g) v (rb_gpuid_to_feature b)\<rparr>) l b)
      = rb_average b" for g l b
    by (induction l arbitrary: b) auto
  have "rb_average (fold (\<lambda>g b. fold (\<lambda>(_, v) b. b\<lparr>rb_gpuid_to_feature := map_insert (word_of_nat g) v (rb_gpuid_to_feature b)\<rparr>)
      (rb_field_to_metric b) b) gs b) = rb_average b" for gs
    by (induction gs arbitrary: b) (simp_all add: i)
  then show ?thesis by (simp add: init_features_def)
qed

lemma register_gpus_registers:
  assumes "(k, v) \<in> set temp_field_map_k" and "v \<in> set checked" and "j < length as"
  shows "map_of (rb_average (register_gpus e as g n checked b)) (g + word_of_nat j, k) \<noteq> None"
  using assms(2,3)
proof (induction as arbitrary: j g n checked b)
  case (Cons a as)
  let ?n = "case rp_node_id e a of (st, m) \<Rightarrow> if st = 0 then m else n"
  let ?c = "check_metrics_supported e ?n (map snd temp_field_map_k) checked"
  have c: "v \<in> set ?c" using Cons.prems(1) by (simp add: check_metrics_supported_def)
  show ?case
  proof (cases j)
    case 0
    then show ?thesis
      using register_gpus_average [OF register_metrics_registers [OF assms(1) c]] by (simp add: Let_def)
  next
    case (Suc j')
    with Cons.IH [OF c, of j' "g + 1" ?n] Cons.prems(2) show ?thesis by (simp add: Let_def add.assoc)
  qed
qed simp

text \<open>
  The list of supported metrics is not emptied between two GPUs: a metric that rocprofiler lists for the node of the
  first GPU is registered for every GPU of the machine, whether its own node has the metric or not.
\<close>
theorem profiler_metric_registered_everywhere:
  assumes "rp_hsa_init e = 0" and "get_agents e (rp_agents e) [] = Some (a # as)" and "rp_node_id e a = (0, n)"
    and "(n, v) \<in> set (rp_metrics e)" and "(k, v) \<in> set temp_field_map_k" and "j \<le> length as"
  shows "\<exists>hw b. new_rocp_base e = Some (hw, b) \<and> map_of (rb_average b) (word_of_nat j, k) \<noteq> None"
proof -
  let ?c = "check_metrics_supported e n (map snd temp_field_map_k) []"
  have c: "v \<in> set ?c" using assms(4,5) by (force simp: check_metrics_supported_def)
  have "map_of (rb_average (register_gpus e (a # as) 0 0 [] empty_base)) (word_of_nat j, k) \<noteq> None"
  proof (cases j)
    case 0
    then show ?thesis
      using register_gpus_average [OF register_metrics_registers [OF assms(5) c]] assms(3) by (simp add: Let_def)
  next
    case (Suc j')
    with register_gpus_registers [OF assms(5) c, of j' as e 1 n] assms(3,6) show ?thesis by (simp add: Let_def)
  qed
  with assms(1,2) show ?thesis by (simp add: new_rocp_base_def)
qed

theorem profiler_metric_registered_everywhere_witness:
  "\<exists>hw b. new_rocp_base demo_rocp_env = Some (hw, b) \<and> map_of (rb_average b) (1, RDC_FI_PROF_ACTIVE_WAVES) \<noteq> None
    \<and> (2, ''SQ_WAVES'') \<notin> set (rp_metrics demo_rocp_env)"
proof -
  have "get_agents demo_rocp_env (rp_agents demo_rocp_env) [] = Some [11, 12]" by (simp add: demo_rocp_env_def)
  moreover have "rp_node_id demo_rocp_env 11 = (0, 1)" "(1, ''SQ_WAVES'') \<in> set (rp_metrics demo_rocp_env)"
    by (simp_all add: demo_rocp_env_def)
  moreover have "(RDC_FI_PROF_ACTIVE_WAVES, ''SQ_WAVES'') \<in> set temp_field_map_k" by code_simp
  ultimately obtain hw b where "new_rocp_base demo_rocp_env = Some (hw, b)"
    "map_of (rb_average b) (1, RDC_FI_PROF_ACTIVE_WAVES) \<noteq> None"
    using profiler_metric_registered_everywhere [of demo_rocp_env 11 "[12]" 1 "''SQ_WAVES''" RDC_FI_PROF_ACTIVE_WAVES 1]
    by (auto simp: demo_rocp_env_def)
  then show ?thesis by (auto simp: demo_rocp_env_def)
qed

section \<open>The installation path\<close>

lemma walk_back_word:
  assumes "CHR '' '' \<notin> set dir"
  shows "walk_back (pre @ CHR '' '' # dir @ rest) (Suc (length pre) + length dir) = Suc (length pre)"
  using assms
proof (induction dir arbitrary: rest rule: rev_induct)
  case (snoc c dir)
  have "walk_back (pre @ CHR '' '' # dir @ c # rest) (Suc (length pre) + length dir) = Suc (length pre)"
    by (rule snoc.IH) (use snoc.prems in simp)
  with snoc.prems show ?case by (auto simp: nth_append)
qed (simp add: nth_append)

text \<open>
  The path is taken from the first line of the memory map that names the library: the directory, from the
  last space on, with \<^verbatim>\<open>..\<close> added.
\<close>
lemma rocm_path_of_library:
  assumes "str_find ''librocprofiler64.so'' (pre @ CHR '' '' # dir @ ''librocprofiler64.so'' @ post) = Some (Suc (length pre) + length dir)"
    and "CHR '' '' \<notin> set dir" and "\<forall>l\<in>set before. str_find ''librocprofiler64.so'' l = None"
  shows "get_rocm_path env (Some (before @ (pre @ CHR '' '' # dir @ ''librocprofiler64.so'' @ post) # after)) = dir @ ''..''"
proof -
  have "scan_maps p (before @ (pre @ CHR '' '' # dir @ ''librocprofiler64.so'' @ post) # after) = dir @ ''..''" for p
    using assms(3)
  proof (induction before)
    case Nil
    show ?case using assms(1) walk_back_word [OF assms(2), of pre "''librocprofiler64.so'' @ post"] by (simp add: Let_def)
  qed simp
  then show ?thesis by (simp add: get_rocm_path_def Let_def)
qed

end
