(* ===== verification/Rdc_Rocr.thy ===== *)
theory Rdc_Rocr
  imports Rdc_Diagnostics
begin

text \<open>
  The test programs of \<^verbatim>\<open>librdc_rocr.so\<close> that run on the GPU: the helpers of \<^verbatim>\<open>common.cc\<close> and
  \<^verbatim>\<open>base_rocr_utils.cc\<close>, the base class \<^verbatim>\<open>TestBase\<close>, \<^verbatim>\<open>MemoryTest\<close> and \<^verbatim>\<open>MemoryAccessTest\<close>. The HSA runtime is a
  parameter; memory is an explicit store, so that an access outside a buffer is visible.
\<close>

unbundle bit_operations_syntax

section \<open>The HSA runtime\<close>

text \<open>
  A status, a call with its arguments, and what a call writes to its out parameter. Handles and pointers
  are numbers. An iteration hands over the objects for which the runtime calls the callback; a buffer
  comes with its words, as many as the runtime really provides.
\<close>

datatype hsa_status = HSA_STATUS_SUCCESS | HSA_STATUS_INFO_BREAK | HSA_STATUS_ERROR | HSA_STATUS_ERROR_INVALID_ARGUMENT
  | HSA_STATUS_ERROR_INVALID_ALLOCATION | HSA_STATUS_ERROR_OUT_OF_RESOURCES | HSA_STATUS_OTHER u32

datatype agent_attr = AGENT_NAME | AGENT_DEVICE | AGENT_NODE | AGENT_PROFILE | AGENT_QUEUE_MAX_SIZE
datatype pool_attr = POOL_SEGMENT | POOL_GLOBAL_FLAGS | POOL_SIZE | POOL_ALLOC_ALLOWED | POOL_ALLOC_GRANULE | POOL_ALLOC_ALIGNMENT
  | POOL_ACCESSIBLE_BY_ALL | POOL_ALLOC_MAX_SIZE
datatype symbol_attr = KERNEL_OBJECT | KERNEL_PRIVATE_SEGMENT_SIZE | KERNEL_GROUP_SEGMENT_SIZE | KERNARG_SEGMENT_SIZE | KERNARG_SEGMENT_ALIGNMENT

datatype hsa_call =
    Hsa_init | Hsa_shut_down | Set_env string string
  | Iterate_agents | Agent_info agent_attr u64 | Iterate_pools u64 | Pool_info pool_attr u64 | Agent_pool_access u64 u64
  | Pool_allocate u64 u64 | Pool_free u64 | Memory_free u64 | Memory_copy u64 u64 | Allow_access "u64 list" u64
  | Signal_create | Signal_destroy u64 | Signal_store u64 u64 | Queue_create u64 u32 | Queue_destroy u64
  | Queue_load_index u64 | Queue_store_index u64 u64 | Queue_add_index u64
  | Open_file string | Reader_create u64 | Executable_create | Executable_load u64 u64 u64
  | Executable_freeze u64 | Executable_symbol u64 string u64 | Symbol_info symbol_attr u64

datatype hsa_out = H_none | H_word u64 | H_list "u64 list" | H_text string | H_buffer u64 "u32 list"

definition HSA_DEVICE_TYPE_CPU :: u64 where "HSA_DEVICE_TYPE_CPU = 0"
definition HSA_DEVICE_TYPE_GPU :: u64 where "HSA_DEVICE_TYPE_GPU = 1"
definition HSA_PROFILE_FULL :: u64 where "HSA_PROFILE_FULL = 1"
definition HSA_AMD_SEGMENT_GLOBAL :: u64 where "HSA_AMD_SEGMENT_GLOBAL = 0"
definition FLAG_KERNARG_INIT :: u64 where "FLAG_KERNARG_INIT = 1"
definition FLAG_FINE_GRAINED :: u64 where "FLAG_FINE_GRAINED = 2"
definition FLAG_COARSE_GRAINED :: u64 where "FLAG_COARSE_GRAINED = 4"
definition ACCESS_NEVER_ALLOWED :: u64 where "ACCESS_NEVER_ALLOWED = 0"

lemmas hsa_constants = HSA_DEVICE_TYPE_CPU_def HSA_DEVICE_TYPE_GPU_def HSA_PROFILE_FULL_def HSA_AMD_SEGMENT_GLOBAL_def
  FLAG_KERNARG_INIT_def FLAG_FINE_GRAINED_def FLAG_COARSE_GRAINED_def ACCESS_NEVER_ALLOWED_def

text \<open>The packet that starts a kernel, with the fields that the tests fill in.\<close>

record aql_packet =
  pk_header :: u32
  pk_setup :: u32
  pk_workgroup_x :: u32
  pk_grid_x :: u32
  pk_private_segment :: u32
  pk_group_segment :: u32
  pk_kernel_object :: u64
  pk_kernarg :: u64
  pk_signal :: u64

type_synonym buffers = "u64 \<rightharpoonup> u32 list"
type_synonym kernargs = "u64 \<rightharpoonup> u64 list"

text \<open>
  A ring of packets with its size and the signal that is its doorbell. \<open>hs_run\<close> is what the packet processor
  does with a packet until the completion signal is set, \<open>hs_wait\<close> the value that waiting for a signal returns,
  if it returns, and \<open>hs_copy\<close> the asynchronous copy of a number of words.
\<close>

record 'h hsa =
  hs_call :: "hsa_call \<Rightarrow> 'h \<Rightarrow> hsa_status \<times> hsa_out \<times> 'h"
  hs_run :: "aql_packet \<Rightarrow> kernargs \<Rightarrow> buffers \<Rightarrow> 'h \<Rightarrow> buffers \<times> 'h"
  hs_wait :: "u64 \<Rightarrow> 'h \<Rightarrow> (u64 \<times> 'h) option"
  hs_copy :: "u64 \<Rightarrow> u64 \<Rightarrow> nat \<Rightarrow> buffers \<Rightarrow> 'h \<Rightarrow> hsa_status \<times> buffers \<times> 'h"
  hs_queue_size :: "u64 \<Rightarrow> u32"
  hs_error_text :: "hsa_status \<Rightarrow> string"

text \<open>
  Files of the machine: which paths exist, the lines of \<^verbatim>\<open>/proc/self/maps\<close>, the directory of the program. \<open>rf_junk\<close> is
  what an uninitialised handle on the stack holds.
\<close>

record rocr_files =
  rf_exists :: "string \<Rightarrow> bool"
  rf_maps :: "string list option"
  rf_app_dir :: string
  rf_junk :: u64

record 'h gpu_world =
  gw_hsa :: 'h
  gw_mem :: buffers
  gw_args :: kernargs
  gw_rings :: "u64 \<Rightarrow> u32 \<Rightarrow> aql_packet"

section \<open>Test programs\<close>

text \<open>A test returns, throws, or has no result: undefined behaviour, or it does not end.\<close>

datatype test_exc = Runtime_error string | Skip_exception string

type_synonym ('h, 'a) test_prog = "'h gpu_world \<Rightarrow> ((test_exc + 'a) \<times> 'h gpu_world) option"

definition t_ret :: "'a \<Rightarrow> ('h, 'a) test_prog" where "t_ret a w = Some (Inr a, w)"
definition t_throw :: "test_exc \<Rightarrow> ('h, 'a) test_prog" where "t_throw x w = Some (Inl x, w)"
definition t_undefined :: "('h, 'a) test_prog" where "t_undefined w = None"

definition t_bind :: "('h, 'a) test_prog \<Rightarrow> ('a \<Rightarrow> ('h, 'b) test_prog) \<Rightarrow> ('h, 'b) test_prog" where
  "t_bind m k w = (case m w of None \<Rightarrow> None | Some (Inl x, w') \<Rightarrow> Some (Inl x, w') | Some (Inr a, w') \<Rightarrow> k a w')"

definition t_then :: "('h, unit) test_prog \<Rightarrow> ('h, 'b) test_prog \<Rightarrow> ('h, 'b) test_prog" where
  "t_then m k = t_bind m (\<lambda>_. k)"

fun t_fold :: "('x \<Rightarrow> 's \<Rightarrow> ('h, 's) test_prog) \<Rightarrow> 'x list \<Rightarrow> 's \<Rightarrow> ('h, 's) test_prog" where
  "t_fold body [] a = t_ret a"
| "t_fold body (x # xs) a = t_bind (body x a) (t_fold body xs)"

definition hsa :: "'h hsa \<Rightarrow> hsa_call \<Rightarrow> ('h, hsa_status \<times> hsa_out) test_prog" where
  "hsa e c w = (case hs_call e c (gw_hsa w) of (st, out, h) \<Rightarrow> Some (Inr (st, out), w\<lparr>gw_hsa := h\<rparr>))"

definition throw_if_error :: "'h hsa \<Rightarrow> hsa_status \<Rightarrow> string \<Rightarrow> ('h, unit) test_prog" where
  "throw_if_error e err msg =
     (if err \<noteq> HSA_STATUS_SUCCESS then t_throw (Runtime_error (msg @ '' hsa error code: '' @ hs_error_text e err)) else t_ret ())"

text \<open>A call whose status is checked, and the readers of the results.\<close>

definition checked :: "'h hsa \<Rightarrow> hsa_call \<Rightarrow> string \<Rightarrow> ('h, hsa_out) test_prog" where
  "checked e c msg = t_bind (hsa e c) (\<lambda>(st, out). t_then (throw_if_error e st msg) (t_ret out))"

definition word_out :: "hsa_out \<Rightarrow> u64" where
  "word_out out = (case out of H_word x \<Rightarrow> x | _ \<Rightarrow> 0)"

definition list_out :: "hsa_out \<Rightarrow> u64 list" where
  "list_out out = (case out of H_list l \<Rightarrow> l | _ \<Rightarrow> [])"

definition text_out :: "hsa_out \<Rightarrow> string" where
  "text_out out = (case out of H_text t \<Rightarrow> t | _ \<Rightarrow> [])"

definition ask :: "'h hsa \<Rightarrow> hsa_call \<Rightarrow> ('h, u64) test_prog" where
  "ask e c = t_bind (checked e c []) (\<lambda>out. t_ret (word_out out))"

definition tell :: "'h hsa \<Rightarrow> hsa_call \<Rightarrow> ('h, unit) test_prog" where
  "tell e c = t_bind (checked e c []) (\<lambda>_. t_ret ())"

definition ignored :: "'h hsa \<Rightarrow> hsa_call \<Rightarrow> ('h, unit) test_prog" where
  "ignored e c = t_bind (hsa e c) (\<lambda>_. t_ret ())"

section \<open>\<open>common.cc\<close>\<close>

text \<open>Rounding an address; the subtraction and the addition wrap.\<close>

definition AlignDown :: "u64 \<Rightarrow> u64 \<Rightarrow> u64" where
  "AlignDown v alignment = v AND NOT (alignment - 1)"

definition AlignUp :: "u64 \<Rightarrow> u64 \<Rightarrow> u64" where
  "AlignUp v alignment = AlignDown (v + alignment - 1) alignment"

text \<open>
  The runtime calls the callback for one object after the other until it returns something else than
  success, and returns that; \<open>data\<close> is what the callback writes to.
\<close>

fun iterate_list :: "(u64 \<Rightarrow> 's \<Rightarrow> ('h, hsa_status \<times> 's) test_prog) \<Rightarrow> u64 list \<Rightarrow> 's \<Rightarrow> ('h, hsa_status \<times> 's) test_prog" where
  "iterate_list cb [] data = t_ret (HSA_STATUS_SUCCESS, data)"
| "iterate_list cb (x # xs) data =
     t_bind (cb x data) (\<lambda>(st, data'). if st \<noteq> HSA_STATUS_SUCCESS then t_ret (st, data') else iterate_list cb xs data')"

definition iterate ::
    "'h hsa \<Rightarrow> hsa_call \<Rightarrow> (u64 \<Rightarrow> 's \<Rightarrow> ('h, hsa_status \<times> 's) test_prog) \<Rightarrow> 's \<Rightarrow> ('h, hsa_status \<times> 's) test_prog" where
  "iterate e c cb data =
     t_bind (hsa e c) (\<lambda>(st, out). if st \<noteq> HSA_STATUS_SUCCESS then t_ret (st, data) else iterate_list cb (list_out out) data)"

definition FindAgent :: "'h hsa \<Rightarrow> u64 \<Rightarrow> u64 \<Rightarrow> u64 \<Rightarrow> ('h, hsa_status \<times> u64) test_prog" where
  "FindAgent e dev_type agent data =
     t_bind (ask e (Agent_info AGENT_DEVICE agent)) (\<lambda>t.
       t_ret (if t = dev_type then (HSA_STATUS_INFO_BREAK, agent) else (HSA_STATUS_SUCCESS, data)))"

text \<open>\<^verbatim>\<open>IterateCPUAgents\<close> and \<^verbatim>\<open>IterateGPUAgents\<close> differ in the type of the devices they collect.\<close>

definition collect_agents :: "'h hsa \<Rightarrow> u64 \<Rightarrow> u64 \<Rightarrow> u64 list \<Rightarrow> ('h, hsa_status \<times> u64 list) test_prog" where
  "collect_agents e dev_type agent agents =
     t_bind (ask e (Agent_info AGENT_DEVICE agent)) (\<lambda>t.
       t_ret (HSA_STATUS_SUCCESS, if t = dev_type then agents @ [agent] else agents))"

definition IterateCPUAgents :: "'h hsa \<Rightarrow> u64 \<Rightarrow> u64 list \<Rightarrow> ('h, hsa_status \<times> u64 list) test_prog" where
  "IterateCPUAgents e = collect_agents e HSA_DEVICE_TYPE_CPU"

definition IterateGPUAgents :: "'h hsa \<Rightarrow> u64 \<Rightarrow> u64 list \<Rightarrow> ('h, hsa_status \<times> u64 list) test_prog" where
  "IterateGPUAgents e = collect_agents e HSA_DEVICE_TYPE_GPU"

definition GetGlobalMemoryPool :: "'h hsa \<Rightarrow> u64 \<Rightarrow> u64 \<Rightarrow> ('h, hsa_status \<times> u64) test_prog" where
  "GetGlobalMemoryPool e pool data =
     t_bind (hsa e (Pool_info POOL_SEGMENT pool)) (\<lambda>(err, seg).
       if word_out seg \<noteq> HSA_AMD_SEGMENT_GLOBAL then t_ret (err, data)
       else t_bind (ask e (Pool_info POOL_GLOBAL_FLAGS pool)) (\<lambda>flags.
         t_ret (HSA_STATUS_SUCCESS,
           if flags AND FLAG_COARSE_GRAINED \<noteq> 0 then pool else if flags AND FLAG_FINE_GRAINED \<noteq> 0 then pool else data)))"

definition GetKernArgMemoryPool :: "'h hsa \<Rightarrow> u64 \<Rightarrow> u64 \<Rightarrow> ('h, hsa_status \<times> u64) test_prog" where
  "GetKernArgMemoryPool e pool data =
     t_bind (ask e (Pool_info POOL_SEGMENT pool)) (\<lambda>seg.
       if seg \<noteq> HSA_AMD_SEGMENT_GLOBAL then t_ret (HSA_STATUS_SUCCESS, data)
       else t_bind (ask e (Pool_info POOL_GLOBAL_FLAGS pool)) (\<lambda>flags.
         t_ret (HSA_STATUS_SUCCESS, if flags AND FLAG_KERNARG_INIT \<noteq> 0 then pool else data)))"

datatype pool_prop = POOL_PROP_OFF | POOL_PROP_ON | POOL_PROP_DONT_CARE

definition prop_fails :: "pool_prop \<Rightarrow> bool \<Rightarrow> bool" where
  "prop_fails p present \<longleftrightarrow> (case p of POOL_PROP_DONT_CARE \<Rightarrow> False | POOL_PROP_ON \<Rightarrow> \<not> present | POOL_PROP_OFF \<Rightarrow> present)"

definition FindPool :: "'h hsa \<Rightarrow> u64 \<Rightarrow> pool_prop \<Rightarrow> pool_prop \<Rightarrow> pool_prop \<Rightarrow> u64 \<Rightarrow> u64 \<Rightarrow> ('h, hsa_status \<times> u64) test_prog" where
  "FindPool e in_segment accessible kern_arg fine_grain pool data =
     t_bind (ask e (Pool_info POOL_SEGMENT pool)) (\<lambda>segment.
       if in_segment \<noteq> segment then t_ret (HSA_STATUS_SUCCESS, data)
       else t_bind (if HSA_AMD_SEGMENT_GLOBAL = in_segment
                    then t_bind (ask e (Pool_info POOL_GLOBAL_FLAGS pool)) (\<lambda>flag.
                           t_ret (prop_fails kern_arg (flag AND FLAG_KERNARG_INIT \<noteq> 0) \<or> prop_fails fine_grain (flag AND FLAG_FINE_GRAINED \<noteq> 0)))
                    else t_ret False) (\<lambda>unfit.
         if unfit then t_ret (HSA_STATUS_SUCCESS, data)
         else if accessible = POOL_PROP_DONT_CARE then t_ret (HSA_STATUS_INFO_BREAK, pool)
         else t_bind (ask e (Pool_info POOL_ACCESSIBLE_BY_ALL pool)) (\<lambda>access_read.
           t_ret (if prop_fails accessible (access_read \<noteq> 0) then (HSA_STATUS_SUCCESS, data) else (HSA_STATUS_INFO_BREAK, pool)))))"

definition FindStandardPool :: "'h hsa \<Rightarrow> u64 \<Rightarrow> u64 \<Rightarrow> ('h, hsa_status \<times> u64) test_prog" where
  "FindStandardPool e = FindPool e HSA_AMD_SEGMENT_GLOBAL POOL_PROP_DONT_CARE POOL_PROP_OFF POOL_PROP_DONT_CARE"

definition FindKernArgPool :: "'h hsa \<Rightarrow> u64 \<Rightarrow> u64 \<Rightarrow> ('h, hsa_status \<times> u64) test_prog" where
  "FindKernArgPool e = FindPool e HSA_AMD_SEGMENT_GLOBAL POOL_PROP_DONT_CARE POOL_PROP_ON POOL_PROP_DONT_CARE"

definition FindGlobalPool :: "'h hsa \<Rightarrow> u64 \<Rightarrow> u64 \<Rightarrow> ('h, hsa_status \<times> u64) test_prog" where
  "FindGlobalPool e = FindPool e HSA_AMD_SEGMENT_GLOBAL POOL_PROP_ON POOL_PROP_OFF POOL_PROP_DONT_CARE"

definition FindAPUStandardPool :: "'h hsa \<Rightarrow> u64 \<Rightarrow> u64 \<Rightarrow> ('h, hsa_status \<times> u64) test_prog" where
  "FindAPUStandardPool e = FindPool e HSA_AMD_SEGMENT_GLOBAL POOL_PROP_DONT_CARE POOL_PROP_DONT_CARE POOL_PROP_DONT_CARE"

text \<open>An agent with its pools is stored even when listing the pools fails, which then ends the iteration.\<close>

definition GetAgentPools :: "'h hsa \<Rightarrow> ('h, hsa_status \<times> (u64 \<times> u64 list) list) test_prog" where
  "GetAgentPools e = iterate e Iterate_agents (\<lambda>a ags.
     t_bind (iterate e (Iterate_pools a) (\<lambda>p ps. t_ret (HSA_STATUS_SUCCESS, ps @ [p])) []) (\<lambda>(err, ps).
       t_ret (err, ags @ [(a, ps)]))) []"

record pool_info =
  pi_segment :: u64
  pi_size :: u64
  pi_alloc_allowed :: bool
  pi_alloc_granule :: u64
  pi_alloc_alignment :: u64
  pi_accessible_by_all :: bool
  pi_global_flag :: u64
  pi_aggregate_alloc_max :: u64

definition AcquirePoolInfo :: "'h hsa \<Rightarrow> u64 \<Rightarrow> ('h, pool_info) test_prog" where
  "AcquirePoolInfo e pool =
     t_bind (ask e (Pool_info POOL_GLOBAL_FLAGS pool)) (\<lambda>flags.
     t_bind (ask e (Pool_info POOL_SEGMENT pool)) (\<lambda>seg.
     t_bind (ask e (Pool_info POOL_SIZE pool)) (\<lambda>size.
     t_bind (ask e (Pool_info POOL_ALLOC_ALLOWED pool)) (\<lambda>allowed.
     t_bind (ask e (Pool_info POOL_ALLOC_GRANULE pool)) (\<lambda>granule.
     t_bind (ask e (Pool_info POOL_ALLOC_ALIGNMENT pool)) (\<lambda>align.
     t_bind (ask e (Pool_info POOL_ACCESSIBLE_BY_ALL pool)) (\<lambda>acc.
     t_bind (ask e (Pool_info POOL_ALLOC_MAX_SIZE pool)) (\<lambda>m.
       t_ret \<lparr>pi_segment = seg, pi_size = size, pi_alloc_allowed = (allowed \<noteq> 0), pi_alloc_granule = granule,
              pi_alloc_alignment = align, pi_accessible_by_all = (acc \<noteq> 0), pi_global_flag = flags, pi_aggregate_alloc_max = m\<rparr>))))))))"

section \<open>\<open>base_rocr_utils.cc\<close>\<close>

text \<open>The members of \<^verbatim>\<open>RdcRocrBase\<close> and \<^verbatim>\<open>TestBase\<close>; a null pointer is 0.\<close>

record rocr_test =
  rt_gpu_index :: u32
  rt_title :: string
  rt_gpu_info :: string
  rt_per_gpu_info :: string
  rt_cpu_device :: u64
  rt_gpu_device1 :: u64
  rt_cpu_pool :: u64
  rt_device_pool :: u64
  rt_kern_arg_pool :: u64
  rt_main_queue :: u64
  rt_kernarg_buffer :: u64
  rt_kernel_object :: u64
  rt_profile :: u64
  rt_requires_profile :: "u64 option"
  rt_enable_interrupt :: bool
  rt_orig_hsa_enable_interrupt :: "string option"
  rt_kernel_file_name :: string
  rt_kernel_name :: string
  rt_agent_name :: string
  rt_private_segment_size :: u32
  rt_group_segment_size :: u32
  rt_kernarg_size :: u32
  rt_kernarg_align :: u32
  rt_aql :: aql_packet

definition zero_packet :: aql_packet where
  "zero_packet = \<lparr>pk_header = 0, pk_setup = 0, pk_workgroup_x = 0, pk_grid_x = 0, pk_private_segment = 0, pk_group_segment = 0, pk_kernel_object = 0,
     pk_kernarg = 0, pk_signal = 0\<rparr>"

text \<open>The constructor leaves some members as they were in memory; they are those of \<open>junk\<close>.\<close>

definition new_rocr_base :: "rocr_test \<Rightarrow> rocr_test" where
  "new_rocr_base junk = junk\<lparr>rt_cpu_device := - 1, rt_gpu_device1 := - 1, rt_device_pool := 0, rt_kern_arg_pool := 0, rt_main_queue := 0,
     rt_kernarg_buffer := 0, rt_kernel_object := 0, rt_aql := zero_packet, rt_requires_profile := None, rt_enable_interrupt := False,
     rt_kernel_file_name := [], rt_kernel_name := [], rt_agent_name := [], rt_title := ''unset_title'', rt_orig_hsa_enable_interrupt := None,
     rt_gpu_info := [], rt_per_gpu_info := []\<rparr>"

definition SetEnv :: "'h hsa \<Rightarrow> string \<Rightarrow> string \<Rightarrow> ('h, unit) test_prog" where
  "SetEnv e name val =
     t_bind (hsa e (Set_env name val)) (\<lambda>(_, err).
       if word_out err \<noteq> 0 then throw_if_error e HSA_STATUS_ERROR ''Set environment variable failed'' else t_ret ())"

definition CommonCleanUp :: "'h hsa \<Rightarrow> rocr_test \<Rightarrow> ('h, rocr_test) test_prog" where
  "CommonCleanUp e t =
     t_bind (if rt_kernarg_buffer t \<noteq> 0 then t_then (tell e (Pool_free (rt_kernarg_buffer t))) (t_ret (t\<lparr>rt_kernarg_buffer := 0\<rparr>)) else t_ret t) (\<lambda>t1.
     t_bind (if rt_main_queue t1 \<noteq> 0 then t_then (tell e (Queue_destroy (rt_main_queue t1))) (t_ret (t1\<lparr>rt_main_queue := 0\<rparr>)) else t_ret t1) (\<lambda>t2.
     t_then (if pk_signal (rt_aql t2) \<noteq> 0 then tell e (Signal_destroy (pk_signal (rt_aql t2))) else t_ret ())
    (t_then (tell e Hsa_shut_down)
    (t_then (SetEnv e ''HSA_ENABLE_INTERRUPT'' (case rt_orig_hsa_enable_interrupt t2 of None \<Rightarrow> [] | Some v \<Rightarrow> v)) (t_ret t2)))))"

definition CheckProfile :: "rocr_test \<Rightarrow> bool" where
  "CheckProfile t \<longleftrightarrow> (case rt_requires_profile t of None \<Rightarrow> True | Some p \<Rightarrow> p = rt_profile t)"

definition ProcessIterateError :: "hsa_status \<Rightarrow> hsa_status" where
  "ProcessIterateError err =
     (if err = HSA_STATUS_INFO_BREAK then HSA_STATUS_SUCCESS else if err = HSA_STATUS_SUCCESS then HSA_STATUS_ERROR else err)"

text \<open>Searching by an iteration: the object must be found.\<close>

definition search_for :: "'h hsa \<Rightarrow> hsa_call \<Rightarrow> (u64 \<Rightarrow> u64 \<Rightarrow> ('h, hsa_status \<times> u64) test_prog) \<Rightarrow> u64 \<Rightarrow> ('h, u64) test_prog" where
  "search_for e c cb data =
     t_bind (iterate e c cb data) (\<lambda>(err, x). t_then (throw_if_error e (ProcessIterateError err) []) (t_ret x))"

definition SetPoolsTypical :: "'h hsa \<Rightarrow> rocr_test \<Rightarrow> ('h, rocr_test) test_prog" where
  "SetPoolsTypical e t =
     (let cpu = Iterate_pools (rt_cpu_device t); gpu = Iterate_pools (rt_gpu_device1 t); apu = rt_profile t = HSA_PROFILE_FULL in
      t_bind (search_for e cpu (if apu then FindAPUStandardPool e else FindStandardPool e) (rt_cpu_pool t)) (\<lambda>c.
      t_bind (search_for e (if apu then cpu else gpu) (if apu then FindAPUStandardPool e else FindStandardPool e) (rt_device_pool t)) (\<lambda>d.
      t_bind (search_for e cpu (if apu then FindAPUStandardPool e else FindKernArgPool e) (rt_kern_arg_pool t)) (\<lambda>k.
      t_ret (t\<lparr>rt_cpu_pool := c, rt_device_pool := d, rt_kern_arg_pool := k\<rparr>)))))"

definition InitAndSetupHSA :: "'h hsa \<Rightarrow> rocr_test \<Rightarrow> ('h, unit) test_prog" where
  "InitAndSetupHSA e t =
     t_then (if rt_enable_interrupt t then SetEnv e ''HSA_ENABLE_INTERRUPT'' ''1'' else t_ret ()) (tell e Hsa_init)"

definition SetDefaultAgents :: "'h hsa \<Rightarrow> rocr_test \<Rightarrow> ('h, hsa_status \<times> rocr_test) test_prog" where
  "SetDefaultAgents e t =
     t_bind (search_for e Iterate_agents (FindAgent e HSA_DEVICE_TYPE_GPU) 0) (\<lambda>gpu.
     t_bind (search_for e Iterate_agents (FindAgent e HSA_DEVICE_TYPE_CPU) 0) (\<lambda>cpu.
     t_then (if gpu = 0 then throw_if_error e HSA_STATUS_ERROR ''GPU Device is not Created properly!'' else t_ret ())
    (t_then (if cpu = 0 then throw_if_error e HSA_STATUS_ERROR ''CPU Device is not Created properly!'' else t_ret ())
    (t_then (tell e (Agent_info AGENT_NAME gpu))
    (t_bind (ask e (Agent_info AGENT_PROFILE gpu)) (\<lambda>profile.
     let t' = t\<lparr>rt_gpu_device1 := gpu, rt_cpu_device := cpu, rt_profile := profile\<rparr>
     in t_ret (if CheckProfile t' then HSA_STATUS_SUCCESS else HSA_STATUS_ERROR, t')))))))"

text \<open>The directory of a library, from the first line of the memory map that contains its path.\<close>

fun before_first :: "string \<Rightarrow> string \<Rightarrow> string option" where
  "before_first pat line =
     (if take (length pat) line = pat then Some []
      else case line of [] \<Rightarrow> None | c # cs \<Rightarrow> map_option (Cons c) (before_first pat cs))"

declare before_first.simps [simp del]

definition is_space :: "char \<Rightarrow> bool" where
  "is_space c \<longleftrightarrow> c = CHR '' '' \<or> CHR 0x09 \<le> c \<and> c \<le> CHR 0x0D"

text \<open>Going back from the end of \<open>pre\<close>, the first character of the line is not looked at.\<close>

definition last_word :: "string \<Rightarrow> string" where
  "last_word pre = (if list_ex is_space (tl pre) then rev (takeWhile (\<lambda>c. \<not> is_space c) (rev pre)) else pre)"

fun lib_dir_lines :: "string \<Rightarrow> string list \<Rightarrow> string" where
  "lib_dir_lines lib_path [] = []"
| "lib_dir_lines lib_path (l # ls) = (case before_first lib_path l of Some pre \<Rightarrow> last_word pre | None \<Rightarrow> lib_dir_lines lib_path ls)"

definition get_lib_dir :: "rocr_files \<Rightarrow> string \<Rightarrow> string" where
  "get_lib_dir fs lib_name = (case rf_maps fs of None \<Rightarrow> [] | Some ls \<Rightarrow> lib_dir_lines (''/'' @ lib_name) ls)"

definition search_hsaco_full_path :: "rocr_files \<Rightarrow> string \<Rightarrow> string \<Rightarrow> string" where
  "search_hsaco_full_path fs file agent =
     (let lib_dir = get_lib_dir fs ''librdc_rocr.so'' in
      case filter (rf_exists fs)
             [''./'' @ file, rf_app_dir fs @ ''/'' @ file, lib_dir @ ''/'' @ file,
              lib_dir @ ''/rdc/hsaco/'' @ agent @ ''/'' @ file, lib_dir @ ''/hsaco/'' @ agent @ ''/'' @ file,
              lib_dir @ ''/../../rdc_libs/rdc_modules/kernels/hsaco/'' @ agent @ ''/'' @ file] of
        [] \<Rightarrow> [] | p # _ \<Rightarrow> p)"

text \<open>
  Loading a kernel: the steps from the opened file to the attributes of its symbol. A file that exists but
  cannot be opened is an error status, which the caller turns into an exception.
\<close>

record kernel_info =
  ki_object :: u64
  ki_private_size :: u64
  ki_group_size :: u64
  ki_kernarg_size :: u64
  ki_kernarg_align :: u64

definition load_symbol :: "'h hsa \<Rightarrow> u64 \<Rightarrow> string \<Rightarrow> u64 \<Rightarrow> ('h, kernel_info) test_prog" where
  "load_symbol e file name agent =
     t_bind (ask e (Reader_create file)) (\<lambda>rdr.
     t_bind (ask e Executable_create) (\<lambda>exec.
     t_then (tell e (Executable_load exec agent rdr))
    (t_then (tell e (Executable_freeze exec))
    (t_bind (ask e (Executable_symbol exec name agent)) (\<lambda>sym.
     t_bind (ask e (Symbol_info KERNEL_OBJECT sym)) (\<lambda>obj.
     t_bind (ask e (Symbol_info KERNEL_PRIVATE_SEGMENT_SIZE sym)) (\<lambda>priv.
     t_bind (ask e (Symbol_info KERNEL_GROUP_SEGMENT_SIZE sym)) (\<lambda>grp.
     t_bind (ask e (Symbol_info KERNARG_SEGMENT_SIZE sym)) (\<lambda>ksize.
     t_bind (ask e (Symbol_info KERNARG_SEGMENT_ALIGNMENT sym)) (\<lambda>kalign.
     t_ret \<lparr>ki_object = obj, ki_private_size = priv, ki_group_size = grp, ki_kernarg_size = ksize,
            ki_kernarg_align = (if kalign = 0 then 16 else kalign)\<rparr>))))))))))"

definition open_kernel :: "'h hsa \<Rightarrow> rocr_files \<Rightarrow> string \<Rightarrow> string \<Rightarrow> ('h, hsa_status \<times> u64) test_prog" where
  "open_kernel e fs file agent_name =
     (let path = search_hsaco_full_path fs file agent_name in
      if path = [] then t_throw (Skip_exception (''fail to open '' @ file))
      else t_bind (hsa e (Open_file path)) (\<lambda>(err, out). t_ret (if word_out out = - 1 then (err, - 1) else (HSA_STATUS_SUCCESS, word_out out))))"

definition LoadKernelFromObjFile :: "'h hsa \<Rightarrow> rocr_files \<Rightarrow> u64 \<Rightarrow> rocr_test \<Rightarrow> ('h, hsa_status \<times> rocr_test) test_prog" where
  "LoadKernelFromObjFile e fs agent t =
     t_bind (if rt_agent_name t = [] then t_bind (checked e (Agent_info AGENT_NAME agent) []) (\<lambda>n. t_ret (t\<lparr>rt_agent_name := text_out n\<rparr>)) else t_ret t) (\<lambda>t1.
     t_bind (open_kernel e fs (rt_kernel_file_name t1) (rt_agent_name t1)) (\<lambda>(err, file).
     if file = - 1 then t_ret (err, t1)
     else t_bind (load_symbol e file (rt_kernel_name t1 @ ''.kd'') agent) (\<lambda>k.
       t_ret (HSA_STATUS_SUCCESS, t1\<lparr>rt_kernel_object := ki_object k, rt_private_segment_size := ucast (ki_private_size k),
         rt_group_segment_size := ucast (ki_group_size k), rt_kernarg_size := ucast (ki_kernarg_size k), rt_kernarg_align := ucast (ki_kernarg_align k)\<rparr>))))"

text \<open>Writing a packet to a slot of a queue: the header and the setup word stay, and are set afterwards.\<close>

definition ring_slot :: "'h hsa \<Rightarrow> u64 \<Rightarrow> u64 \<Rightarrow> u32" where
  "ring_slot e queue indx = ucast (indx AND ucast (hs_queue_size e queue - 1))"

definition WriteAQLToQueueLoc :: "'h hsa \<Rightarrow> u64 \<Rightarrow> u64 \<Rightarrow> aql_packet \<Rightarrow> ('h, unit) test_prog" where
  "WriteAQLToQueueLoc e queue indx pkt w =
     (let i = ring_slot e queue indx; ring = gw_rings w queue; old = ring i
      in Some (Inr (), w\<lparr>gw_rings := (gw_rings w)(queue := ring(i := pkt\<lparr>pk_header := pk_header old, pk_setup := pk_setup old\<rparr>))\<rparr>))"

definition AtomicSetPacketHeader :: "'h hsa \<Rightarrow> u32 \<Rightarrow> u32 \<Rightarrow> u64 \<Rightarrow> u64 \<Rightarrow> ('h, unit) test_prog" where
  "AtomicSetPacketHeader e header setup queue indx w =
     (let i = ring_slot e queue indx; ring = gw_rings w queue
      in Some (Inr (), w\<lparr>gw_rings := (gw_rings w)(queue := ring(i := (ring i)\<lparr>pk_header := header, pk_setup := setup\<rparr>))\<rparr>))"

text \<open>
  Ringing the doorbell. The program looks at the memory again only when the completion signal is set, so
  the effect of the kernel can be put here.
\<close>

definition ring_doorbell :: "'h hsa \<Rightarrow> u64 \<Rightarrow> u64 \<Rightarrow> ('h, unit) test_prog" where
  "ring_doorbell e queue indx w =
     (case hs_run e (gw_rings w queue (ring_slot e queue indx)) (gw_args w) (gw_mem w) (gw_hsa w) of (mem, h) \<Rightarrow>
        Some (Inr (), w\<lparr>gw_mem := mem, gw_hsa := h\<rparr>))"

definition signal_wait :: "'h hsa \<Rightarrow> u64 \<Rightarrow> ('h, u64) test_prog" where
  "signal_wait e s w = map_option (\<lambda>(v, h). (Inr v, w\<lparr>gw_hsa := h\<rparr>)) (hs_wait e s (gw_hsa w))"

section \<open>Memory\<close>

text \<open>Words of a buffer; an access outside the buffer is undefined.\<close>

definition load_word :: "u64 \<Rightarrow> nat \<Rightarrow> ('h, u32) test_prog" where
  "load_word p i w =
     (case gw_mem w p of None \<Rightarrow> None | Some l \<Rightarrow> if i < length l then Some (Inr (l ! i), w) else None)"

definition store_word :: "u64 \<Rightarrow> nat \<Rightarrow> u32 \<Rightarrow> ('h, unit) test_prog" where
  "store_word p i v w =
     (case gw_mem w p of
        None \<Rightarrow> None
      | Some l \<Rightarrow> if i < length l then Some (Inr (), w\<lparr>gw_mem := (gw_mem w)(p \<mapsto> l[i := v])\<rparr>) else None)"

definition clear_bytes :: "u64 \<Rightarrow> nat \<Rightarrow> ('h, unit) test_prog" where
  "clear_bytes p n w =
     (case gw_mem w p of
        None \<Rightarrow> None
      | Some l \<Rightarrow> if n \<le> 4 * length l then Some (Inr (), w\<lparr>gw_mem := (gw_mem w)(p \<mapsto> replicate (n div 4) 0 @ drop (n div 4) l)\<rparr>) else None)"

definition t_for :: "'x list \<Rightarrow> ('x \<Rightarrow> ('h, unit) test_prog) \<Rightarrow> ('h, unit) test_prog" where
  "t_for xs body = t_fold (\<lambda>x _. body x) xs ()"

definition allocate :: "'h hsa \<Rightarrow> u64 \<Rightarrow> u64 \<Rightarrow> ('h, u64) test_prog" where
  "allocate e pool sz =
     t_bind (checked e (Pool_allocate pool sz) []) (\<lambda>out.
       case out of H_buffer p cells \<Rightarrow> (\<lambda>w. Some (Inr p, w\<lparr>gw_mem := (gw_mem w)(p \<mapsto> cells)\<rparr>)) | _ \<Rightarrow> t_undefined)"

text \<open>Filling in a structure of kernel arguments, which takes two words for a pointer.\<close>

definition set_kernargs :: "u64 \<Rightarrow> u64 list \<Rightarrow> ('h, unit) test_prog" where
  "set_kernargs p args w =
     (case gw_mem w p of
        None \<Rightarrow> None
      | Some l \<Rightarrow> if 2 * length args \<le> length l then Some (Inr (), w\<lparr>gw_args := (gw_args w)(p \<mapsto> args)\<rparr>) else None)"

text \<open>The helpers of \<^verbatim>\<open>base_rocr_utils.cc\<close> around the members of a test. The three tests bring their own.\<close>

definition CreateQueue :: "'h hsa \<Rightarrow> u64 \<Rightarrow> u32 \<Rightarrow> ('h, hsa_status \<times> u64) test_prog" where
  "CreateQueue e device num_pkts =
     t_bind (if num_pkts = 0 then t_bind (ask e (Agent_info AGENT_QUEUE_MAX_SIZE device)) (\<lambda>n. t_ret (ucast n)) else t_ret num_pkts) (\<lambda>n.
     t_bind (ask e (Queue_create device n)) (\<lambda>q. t_ret (HSA_STATUS_SUCCESS, q)))"

definition InitializeAQLPacket :: "'h hsa \<Rightarrow> rocr_test \<Rightarrow> aql_packet option \<Rightarrow> ('h, hsa_status \<times> aql_packet option) test_prog" where
  "InitializeAQLPacket e t aql =
     (case aql of
        None \<Rightarrow> t_ret (HSA_STATUS_ERROR, None)
      | Some a \<Rightarrow> t_bind (hsa e Signal_create) (\<lambda>(err, out).
          t_ret (err, Some (a\<lparr>pk_header := 1, pk_setup := 1, pk_workgroup_x := 256, pk_grid_x := 256, pk_private_segment := rt_private_segment_size t,
            pk_group_segment := rt_group_segment_size t, pk_kernel_object := rt_kernel_object t,
            pk_signal := (if err = HSA_STATUS_SUCCESS then word_out out else pk_signal a)\<rparr>))))"

definition write_test_packet :: "'h hsa \<Rightarrow> rocr_test \<Rightarrow> ('h, u64) test_prog" where
  "write_test_packet e t =
     t_bind (hsa e (Queue_add_index (rt_main_queue t))) (\<lambda>(_, idx).
     t_then (WriteAQLToQueueLoc e (rt_main_queue t) (word_out idx) (rt_aql t)) (t_ret (word_out idx)))"

definition set_test_kernargs :: "'h hsa \<Rightarrow> rocr_test \<Rightarrow> u64 list \<Rightarrow> u64 \<Rightarrow> ('h, hsa_status \<times> rocr_test) test_prog" where
  "set_test_kernargs e t args arg_size =
     (let align = ucast (rt_kernarg_align t) :: u64 in
      t_bind (allocate e (rt_kern_arg_pool t) (arg_size + push_bit 1 align)) (\<lambda>buf.
      let addr = AlignUp buf align in
      t_then (tell e (Allow_access [rt_gpu_device1 t, rt_cpu_device t] buf))
     (t_then (tell e (Memory_copy addr arg_size))
     (t_then (\<lambda>w. case gw_mem w buf of
                None \<Rightarrow> None
              | Some l \<Rightarrow> if unat (addr - buf) + unat arg_size \<le> 4 * length l then Some (Inr (), w\<lparr>gw_args := (gw_args w)(addr \<mapsto> args)\<rparr>) else None)
        (t_ret (HSA_STATUS_SUCCESS, t\<lparr>rt_kernarg_buffer := buf, rt_aql := (rt_aql t)\<lparr>pk_kernarg := addr\<rparr>\<rparr>))))))"

section \<open>\<open>TestBase\<close>\<close>

text \<open>
  A test object in a block: its constructor calls the \<^verbatim>\<open>SetUp\<close> of the base class, its destructor
  \<^verbatim>\<open>CommonCleanUp\<close>, also when the body throws. An exception in the destructor ends the process. The body does
  not change the members that the clean-up looks at.
\<close>

definition with_test :: "'h hsa \<Rightarrow> rocr_test \<Rightarrow> u32 \<Rightarrow> string \<Rightarrow> (rocr_test \<Rightarrow> ('h, 'a) test_prog) \<Rightarrow> ('h, 'a) test_prog" where
  "with_test e junk gpu_index title body =
     (let t = (new_rocr_base junk)\<lparr>rt_gpu_index := gpu_index\<rparr> in
      t_bind (InitAndSetupHSA e t) (\<lambda>_ w.
        case body (t\<lparr>rt_title := title\<rparr>) w of
          None \<Rightarrow> None
        | Some (r, w') \<Rightarrow> (case CommonCleanUp e t w' of Some (Inr _, w'') \<Rightarrow> Some (r, w'') | _ \<Rightarrow> None)))"

text \<open>
  The \<^verbatim>\<open>SetUp\<close> of the derived classes; that of \<^verbatim>\<open>MemoryAccessTest\<close> throws where the others return a status. The constructor of
  the base class cannot reach them, and nobody else calls them.
\<close>

definition test_SetUp :: "'h hsa \<Rightarrow> rocr_test \<Rightarrow> ('h, hsa_status \<times> rocr_test) test_prog" where
  "test_SetUp e t =
     t_then (InitAndSetupHSA e t)
    (t_bind (SetDefaultAgents e t) (\<lambda>(err, t1).
     if err \<noteq> HSA_STATUS_SUCCESS then t_ret (err, t1) else t_bind (SetPoolsTypical e t1) (\<lambda>t2. t_ret (HSA_STATUS_SUCCESS, t2))))"

definition memory_access_SetUp :: "'h hsa \<Rightarrow> rocr_test \<Rightarrow> ('h, hsa_status \<times> rocr_test) test_prog" where
  "memory_access_SetUp e t = t_bind (test_SetUp e t) (\<lambda>(err, t1). t_then (throw_if_error e err []) (t_ret (err, t1)))"

text \<open>The check of the index does not throw, since the status it looks at is a success.\<close>

definition get_agent_by_gpu_index :: "'h hsa \<Rightarrow> u32 \<Rightarrow> ('h, hsa_status \<times> u64) test_prog" where
  "get_agent_by_gpu_index e gpu_index =
     t_bind (iterate e Iterate_agents (IterateGPUAgents e) []) (\<lambda>(err, gpus).
     t_then (throw_if_error e err ''Fail to iterate agents.'')
    (t_then (if length gpus \<le> unat gpu_index then throw_if_error e err ''GPU index is too large.'' else t_ret ())
    (if unat gpu_index < length gpus then t_ret (err, gpus ! unat gpu_index) else t_undefined)))"

definition cpu_agents :: "'h hsa \<Rightarrow> ('h, u64 list) test_prog" where
  "cpu_agents e = t_bind (iterate e Iterate_agents (IterateCPUAgents e) []) (\<lambda>(err, cpus). t_then (throw_if_error e err []) (t_ret cpus))"

definition pass_info :: "string \<Rightarrow> u32 \<Rightarrow> string" where
  "pass_info what g = what @ '' for GPU '' @ u32_string g @ '' Pass. ''"

section \<open>\<open>MemoryTest\<close>\<close>

definition TestAllocate :: "'h hsa \<Rightarrow> u64 \<Rightarrow> u64 \<Rightarrow> ('h, hsa_status) test_prog" where
  "TestAllocate e pool sz =
     t_bind (hsa e (Pool_allocate pool sz)) (\<lambda>(err, out).
       if err = HSA_STATUS_SUCCESS
       then t_bind (hsa e (Memory_free (case out of H_buffer p _ \<Rightarrow> p | _ \<Rightarrow> 0))) (\<lambda>(err', _). t_ret err')
       else t_ret err)"

text \<open>
  The search for the largest allocation, in granules. It ends with a status that the function returns at
  once, or with the size at which the bounds met.
\<close>

partial_function (option) alloc_search ::
    "'h hsa \<Rightarrow> u64 \<Rightarrow> u64 \<Rightarrow> u64 \<Rightarrow> u64 \<Rightarrow> u64 \<Rightarrow> 'h gpu_world \<Rightarrow> ((test_exc + hsa_status \<times> u64 option) \<times> 'h gpu_world) option" where
  "alloc_search e pool gran max_size upper lower w =
     (case TestAllocate e pool (max_size * gran) w of
        None \<Rightarrow> None
      | Some (Inl x, w') \<Rightarrow> Some (Inl x, w')
      | Some (Inr err, w') \<Rightarrow>
          if err \<noteq> HSA_STATUS_SUCCESS \<or> err \<noteq> HSA_STATUS_ERROR_OUT_OF_RESOURCES then Some (Inr (err, None), w')
          else let upper' = (if err = HSA_STATUS_SUCCESS then upper else max_size);
                   lower' = (if err = HSA_STATUS_SUCCESS then max_size else lower);
                   half = (upper' - lower') div 2;
                   max' = (if err = HSA_STATUS_SUCCESS then max_size + half else max_size - half)
               in if upper' - lower' < 2 then Some (Inr (err, Some max'), w')
                  else if upper' \<le> lower' then Some (Inr (err, None), w')
                  else alloc_search e pool gran max' upper' lower' w')"

definition max_single_allocation :: "'h hsa \<Rightarrow> u64 \<Rightarrow> u64 \<Rightarrow> ('h, hsa_status) test_prog" where
  "max_single_allocation e ag pool =
     t_bind (hsa e (Agent_info AGENT_NAME ag)) (\<lambda>(err, _). if err \<noteq> HSA_STATUS_SUCCESS then t_ret err else
     t_bind (hsa e (Agent_info AGENT_DEVICE ag)) (\<lambda>(err, ag_type). if err \<noteq> HSA_STATUS_SUCCESS then t_ret err else
     t_bind (hsa e (Agent_info AGENT_NODE ag)) (\<lambda>(err, _). if err \<noteq> HSA_STATUS_SUCCESS then t_ret err else
     t_bind (AcquirePoolInfo e pool) (\<lambda>pi.
       if \<not> pi_alloc_allowed pi \<or> pi_alloc_granule pi = 0 \<or> pi_alloc_alignment pi = 0 then t_ret HSA_STATUS_SUCCESS
       else let gran = pi_alloc_granule pi; pool_sz = pi_aggregate_alloc_max pi div gran in
         t_bind (TestAllocate e pool (pool_sz * gran + gran)) (\<lambda>err.
         if err \<noteq> HSA_STATUS_ERROR_INVALID_ALLOCATION then t_ret err
         else t_bind (alloc_search e pool gran (pool_sz div 2) pool_sz 0) (\<lambda>(err, found).
           case found of
             None \<Rightarrow> t_ret err
           | Some n \<Rightarrow>
               t_then (if word_out ag_type = HSA_DEVICE_TYPE_GPU \<and> real (unat n) / real (unat pool_sz) < 15 / 16
                       then throw_if_error e HSA_STATUS_ERROR ''The allocate size is wrong'' else t_ret ())
                 (t_ret err)))))))"

text \<open>Every pool of the agent, with the number of pools so far.\<close>

definition pool_step :: "'h hsa \<Rightarrow> rocr_test \<Rightarrow> u64 \<Rightarrow> u64 \<Rightarrow> nat \<times> string \<Rightarrow> ('h, nat \<times> string) test_prog" where
  "pool_step e t ag p = (\<lambda>(idx, info).
     t_bind (max_single_allocation e ag p) (\<lambda>err.
     t_then (throw_if_error e err ''MaxSingleAllocationTest .'')
       (t_ret (Suc idx, info @ rt_title t @ '' Pool '' @ nat_string (Suc idx) @ '' test pass. ''))))"

definition MaxSingleAllocationTest :: "'h hsa \<Rightarrow> rocr_test \<Rightarrow> ('h, rocr_test) test_prog" where
  "MaxSingleAllocationTest e t =
     t_bind (GetAgentPools e) (\<lambda>(err, ags).
     t_then (throw_if_error e err ''GetAgentPools pool fail.'')
    (t_bind (get_agent_by_gpu_index e (rt_gpu_index t)) (\<lambda>(err, gpu).
     t_then (throw_if_error e err ''Get agent by GPU index fail.'')
    (t_bind (t_fold (\<lambda>(a, ps) s. if a \<noteq> gpu then t_ret s else t_fold (pool_step e t a) ps s) ags (0, rt_per_gpu_info t)) (\<lambda>(_, info).
       t_ret (t\<lparr>rt_per_gpu_info := info, rt_gpu_info := rt_gpu_info t @ pass_info (rt_title t) (rt_gpu_index t)\<rparr>))))))"

definition memory_test_title :: string where
  "memory_test_title = ''Max Single Allocation Memory Test''"

section \<open>\<open>MemoryAccessTest\<close>\<close>

text \<open>A block of \<^verbatim>\<open>malloc\<close> as the list of the words that lie in it.\<close>

fun fill_block :: "nat list \<Rightarrow> u32 list \<Rightarrow> u32 list option" where
  "fill_block [] l = Some l"
| "fill_block (i # is) l = (if i < length l then fill_block is (l[i := word_of_nat i]) else None)"

text \<open>Values that differ are only printed.\<close>

definition cpu_access_pool :: "'h hsa \<Rightarrow> u64 \<Rightarrow> u64 \<Rightarrow> ('h, unit) test_prog" where
  "cpu_access_pool e cpu pool =
     t_bind (AcquirePoolInfo e pool) (\<lambda>pi.
     if \<not> (pi_segment pi = HSA_AMD_SEGMENT_GLOBAL \<and> pi_global_flag pi = FLAG_COARSE_GRAINED) then t_ret ()
     else t_bind (hsa e (Agent_pool_access cpu pool)) (\<lambda>(_, access).
     if word_out access = ACCESS_NEVER_ALLOWED then t_ret ()
     else if \<not> pi_alloc_allowed pi \<or> pi_alloc_granule pi = 0 \<or> pi_alloc_alignment pi = 0 then t_ret ()
     else let max_alloc = pi_size pi div pi_alloc_granule pi div 2;
              max_element = unat (ucast (max_alloc div 4) :: u32);
              elements = [1..<Suc max_element]
          in case fill_block elements (replicate (unat max_alloc div 4) 0) of
               None \<Rightarrow> t_undefined
             | Some sys_data \<Rightarrow>
                 t_bind (allocate e pool max_alloc) (\<lambda>gpu_data.
                 t_then (tell e (Allow_access [cpu] gpu_data))
                (t_then (clear_bytes gpu_data (unat max_alloc))
                (t_then (t_for elements (\<lambda>i. store_word gpu_data i (word_of_nat i)))
                (t_then (t_for elements (\<lambda>i. t_bind (load_word gpu_data i) (\<lambda>_. t_ret ())))
                        (ignored e (Pool_free gpu_data))))))))"

definition first_cpu :: "u64 list \<Rightarrow> ('h, u64) test_prog" where
  "first_cpu cpus = (case cpus of [] \<Rightarrow> t_undefined | c # _ \<Rightarrow> t_ret c)"

text \<open>All GPUs of the machine; a GPU without a global pool ends the function. The result says whether it got to its end.\<close>

fun cpu_access_gpus :: "'h hsa \<Rightarrow> u64 list \<Rightarrow> u64 list \<Rightarrow> ('h, bool) test_prog" where
  "cpu_access_gpus e cpus [] = t_ret True"
| "cpu_access_gpus e cpus (g # gs) =
     t_bind (iterate e (Iterate_pools g) (GetGlobalMemoryPool e) 0) (\<lambda>(err, pool).
     t_then (throw_if_error e err [])
    (if pool = 0 then t_ret False
     else t_bind (first_cpu cpus) (\<lambda>c. t_then (cpu_access_pool e c pool) (cpu_access_gpus e cpus gs))))"

definition CPUAccessToGPUMemoryTest :: "'h hsa \<Rightarrow> rocr_test \<Rightarrow> ('h, rocr_test) test_prog" where
  "CPUAccessToGPUMemoryTest e t =
     t_bind (cpu_agents e) (\<lambda>cpus.
     t_bind (iterate e Iterate_agents (IterateGPUAgents e) []) (\<lambda>(err, gpus).
     t_then (throw_if_error e err [])
    (t_bind (cpu_access_gpus e cpus gpus) (\<lambda>finished.
     t_ret (if finished
            then t\<lparr>rt_per_gpu_info := rt_per_gpu_info t @ ''CPUAccessToGPUMemoryTest Pass.'',
                   rt_gpu_info := rt_gpu_info t @ pass_info ''CPUAccessToGPUMemoryTest'' (rt_gpu_index t)\<rparr>
            else t)))))"

definition kMemoryAllocSize :: nat where "kMemoryAllocSize = 1024"

text \<open>\<^verbatim>\<open>HSA_PACKET_TYPE_KERNEL_DISPATCH\<close> with the fences of the system scope, and the barrier bit.\<close>

definition dispatch_header :: "u32 \<Rightarrow> u32" where
  "dispatch_header barrier = 2 OR push_bit 8 barrier OR push_bit 9 2 OR push_bit 11 2"

partial_function (option) wait_done :: "'h hsa \<Rightarrow> u64 \<Rightarrow> 'h gpu_world \<Rightarrow> ((test_exc + unit) \<times> 'h gpu_world) option" where
  "wait_done e s w =
     (case signal_wait e s w of
        None \<Rightarrow> None
      | Some (Inl x, w') \<Rightarrow> Some (Inl x, w')
      | Some (Inr v, w') \<Rightarrow> if v = 0 then Some (Inr (), w') else wait_done e s w')"

text \<open>The host side buffers; the random summand \<^verbatim>\<open>rand_r(&seed) % 1\<close> is 0.\<close>

definition fill_words :: "u64 \<Rightarrow> u64 \<Rightarrow> ('h, unit) test_prog" where
  "fill_words sys_data dup_sys_data =
     t_for [0..<kMemoryAllocSize] (\<lambda>i. t_then (store_word sys_data i 1) (t_bind (load_word sys_data i) (\<lambda>x. store_word dup_sys_data i x)))"

definition launch_read_write :: "'h hsa \<Rightarrow> u64 \<Rightarrow> u64 \<Rightarrow> u64 \<Rightarrow> u64 \<Rightarrow> ('h, unit) test_prog" where
  "launch_read_write e queue signal kernel_object kernargs =
     (let aql = \<lparr>pk_header = 0, pk_setup = 0, pk_workgroup_x = 256, pk_grid_x = word_of_nat kMemoryAllocSize, pk_private_segment = 0,
                 pk_group_segment = 0, pk_kernel_object = kernel_object, pk_kernarg = kernargs, pk_signal = signal\<rparr> in
      t_bind (hsa e (Queue_load_index queue)) (\<lambda>(_, out). let index = word_out out in
      t_then (ignored e (Queue_store_index queue (index + 1)))
     (t_then (WriteAQLToQueueLoc e queue index aql)
     (t_then (AtomicSetPacketHeader e (dispatch_header 1) 1 queue index)
     (t_then (ring_doorbell e queue index)
     (t_then (wait_done e signal)
             (ignored e (Signal_store signal 1))))))))"

definition check_words :: "'h hsa \<Rightarrow> (nat \<Rightarrow> ('h, bool) test_prog) \<Rightarrow> string \<Rightarrow> ('h, unit) test_prog" where
  "check_words e ok msg =
     t_for [0..<kMemoryAllocSize] (\<lambda>i. t_bind (ok i) (\<lambda>b. if b then t_ret () else throw_if_error e HSA_STATUS_ERROR msg))"

definition find_global_pool :: "'h hsa \<Rightarrow> rocr_files \<Rightarrow> (u64 \<Rightarrow> u64 \<Rightarrow> ('h, hsa_status \<times> u64) test_prog) \<Rightarrow> u64 \<Rightarrow> ('h, u64) test_prog" where
  "find_global_pool e fs cb agent =
     t_bind (iterate e (Iterate_pools agent) cb (rf_junk fs)) (\<lambda>(err, pool). t_then (throw_if_error e err []) (t_ret pool))"

definition gpu_access_agent :: "'h hsa \<Rightarrow> rocr_files \<Rightarrow> rocr_test \<Rightarrow> u64 \<Rightarrow> u64 \<Rightarrow> ('h, unit) test_prog" where
  "gpu_access_agent e fs t cpu gpu =
     t_bind (find_global_pool e fs (GetGlobalMemoryPool e) gpu) (\<lambda>gpu_pool.
     t_bind (hsa e (Agent_pool_access cpu gpu_pool)) (\<lambda>(_, access).
     if word_out access = ACCESS_NEVER_ALLOWED then t_ret ()
     else
       t_bind (ask e (Agent_info AGENT_QUEUE_MAX_SIZE gpu)) (\<lambda>queue_size.
       t_bind (ask e (Queue_create gpu (ucast queue_size))) (\<lambda>queue.
       t_bind (find_global_pool e fs (GetGlobalMemoryPool e) cpu) (\<lambda>global_pool.
       t_bind (find_global_pool e fs (GetKernArgMemoryPool e) cpu) (\<lambda>kernarg_pool.
       t_bind (allocate e global_pool (word_of_nat kMemoryAllocSize)) (\<lambda>cpuResult.
       t_bind (allocate e global_pool (word_of_nat kMemoryAllocSize)) (\<lambda>sys_data.
       t_bind (allocate e global_pool (word_of_nat kMemoryAllocSize)) (\<lambda>dup_sys_data.
       t_bind (allocate e kernarg_pool 32) (\<lambda>kernArgs.
       t_then (fill_words sys_data dup_sys_data)
      (t_then (clear_bytes cpuResult (kMemoryAllocSize * 4))
      (t_bind (allocate e gpu_pool (word_of_nat kMemoryAllocSize)) (\<lambda>gpuResult.
       t_then (tell e (Allow_access [cpu] gpuResult))
      (t_then (clear_bytes gpuResult (kMemoryAllocSize * 4))
      (t_then (t_for [cpuResult, sys_data, dup_sys_data, kernArgs] (\<lambda>p. tell e (Allow_access [gpu] p)))
      (t_then (set_kernargs kernArgs [sys_data, cpuResult, gpuResult])
      (t_bind (LoadKernelFromObjFile e fs gpu (t\<lparr>rt_kernel_file_name := ''gpuReadWrite_kernels.hsaco'', rt_kernel_name := ''gpuReadWrite''\<rparr>)) (\<lambda>(err, t1).
       t_then (throw_if_error e err [])
      (t_bind (ask e Signal_create) (\<lambda>signal.
       t_then (launch_read_write e queue signal (rt_kernel_object t1) kernArgs)
      (t_then (check_words e (\<lambda>i. t_bind (load_word gpuResult i) (\<lambda>x. t_bind (load_word dup_sys_data i) (\<lambda>y. t_ret (x = y))))
                 ''gpuResult does not match dup_sys_data.'')
      (t_then (check_words e (\<lambda>i. t_bind (load_word cpuResult i) (\<lambda>x. t_ret (x = word_of_nat i)))
                 ''The CPU memory size does not match the system memory size.'')
      (t_then (t_for [sys_data, dup_sys_data, cpuResult, gpuResult, kernArgs] (\<lambda>p. if p \<noteq> 0 then ignored e (Memory_free p) else t_ret ()))
      (t_then (if signal \<noteq> 0 then ignored e (Signal_destroy signal) else t_ret ())
              (if queue \<noteq> 0 then ignored e (Queue_destroy queue) else t_ret ())))))))))))))))))))))))))"

definition GPUAccessToCPUMemoryTest :: "'h hsa \<Rightarrow> rocr_files \<Rightarrow> rocr_test \<Rightarrow> ('h, rocr_test) test_prog" where
  "GPUAccessToCPUMemoryTest e fs t =
     t_bind (cpu_agents e) (\<lambda>cpus.
     t_bind (get_agent_by_gpu_index e (rt_gpu_index t)) (\<lambda>(err, gpu).
     t_then (throw_if_error e err ''Get agent by GPU index fail.'')
    (t_bind (first_cpu cpus) (\<lambda>cpu.
     t_then (gpu_access_agent e fs t cpu gpu)
       (t_ret (t\<lparr>rt_per_gpu_info := rt_per_gpu_info t @ ''GPUAccessToCPUMemoryTest Pass.'',
                 rt_gpu_info := rt_gpu_info t @ pass_info ''GPUAccessToCPUMemoryTest'' (rt_gpu_index t)\<rparr>))))))"

definition memory_access_title :: string where
  "memory_access_title = ''RocR Memory Access Tests''"

end
