(* ===== verification/Rdc_Rocr_Queue.thy ===== *)
theory Rdc_Rocr_Queue
  imports Rdc_Rocr
begin

text \<open>
  \<^verbatim>\<open>ComputeQueueTest\<close>, which searches an array on the GPU: the buffers, the kernel, the packets of the queue and
  the search itself. The pseudo random steps of the array are a parameter.
\<close>

section \<open>The search object\<close>

record binary_search =
  bs_length :: u32
  bs_work_group_size :: u32
  bs_work_grid_size :: u32
  bs_num_sub_divisions :: u32
  bs_find_me :: u32
  bs_input :: u64
  bs_input_arr :: u64
  bs_input_arr_local :: u64
  bs_output :: u64
  bs_kern_arg_buffer :: u64
  bs_kern_arg_address :: u64
  bs_kernel_file_name :: string
  bs_kernel_name :: string
  bs_kernel :: kernel_info
  bs_gpu_dev :: u64
  bs_cpu_dev :: u64
  bs_signal :: u64
  bs_queue :: u64
  bs_cpu_pool :: u64
  bs_gpu_pool :: u64
  bs_kern_arg_pool :: u64

definition kBinarySearchLength :: u32 where "kBinarySearchLength = 512"
definition kBinarySearchFindMe :: u32 where "kBinarySearchFindMe = 108"
definition kWorkGroupSize :: u32 where "kWorkGroupSize = 256"

definition InitializeBinarySearch :: "binary_search \<Rightarrow> binary_search" where
  "InitializeBinarySearch bs = bs\<lparr>bs_kernel_file_name := ''binary_search_kernels.hsaco'', bs_kernel_name := ''binarySearch.kd'',
     bs_length := kBinarySearchLength, bs_find_me := kBinarySearchFindMe, bs_work_group_size := kWorkGroupSize,
     bs_num_sub_divisions := kBinarySearchLength div kWorkGroupSize\<rparr>"

section \<open>Memory and kernel\<close>

text \<open>The size is a number of words.\<close>

definition AgentMemcpy :: "'h hsa \<Rightarrow> u64 \<Rightarrow> u64 \<Rightarrow> nat \<Rightarrow> ('h, unit) test_prog" where
  "AgentMemcpy e dst src n =
     t_bind (ask e Signal_create) (\<lambda>s.
     t_bind (\<lambda>w. case hs_copy e dst src n (gw_mem w) (gw_hsa w) of (st, mem, h) \<Rightarrow> Some (Inr st, w\<lparr>gw_mem := mem, gw_hsa := h\<rparr>)) (\<lambda>err.
     t_then (throw_if_error e err [])
    (t_bind (signal_wait e s) (\<lambda>v.
     t_then (if v \<noteq> 0 then throw_if_error e HSA_STATUS_ERROR [] else t_ret ()) (tell e (Signal_destroy s))))))"

definition FindPools :: "'h hsa \<Rightarrow> binary_search \<Rightarrow> ('h, hsa_status \<times> binary_search) test_prog" where
  "FindPools e bs =
     t_bind (iterate e (Iterate_pools (bs_cpu_dev bs)) (FindStandardPool e) (bs_cpu_pool bs)) (\<lambda>(err, c).
       if err \<noteq> HSA_STATUS_INFO_BREAK then t_ret (HSA_STATUS_ERROR, bs)
       else t_bind (iterate e (Iterate_pools (bs_gpu_dev bs)) (FindStandardPool e) (bs_gpu_pool bs)) (\<lambda>(err, g).
         if err \<noteq> HSA_STATUS_INFO_BREAK then t_ret (HSA_STATUS_ERROR, bs)
         else t_bind (iterate e (Iterate_pools (bs_cpu_dev bs)) (FindKernArgPool e) (bs_kern_arg_pool bs)) (\<lambda>(err, k).
           if err \<noteq> HSA_STATUS_INFO_BREAK then t_ret (HSA_STATUS_ERROR, bs)
           else t_ret (HSA_STATUS_SUCCESS, bs\<lparr>bs_cpu_pool := c, bs_gpu_pool := g, bs_kern_arg_pool := k\<rparr>))))"

definition shared_buffer :: "'h hsa \<Rightarrow> binary_search \<Rightarrow> u32 \<Rightarrow> ('h, u64) test_prog" where
  "shared_buffer e bs len =
     t_bind (allocate e (bs_cpu_pool bs) (ucast len)) (\<lambda>p. t_then (tell e (Allow_access [bs_gpu_dev bs, bs_cpu_dev bs] p)) (t_ret p))"

text \<open>The three calls of \<^verbatim>\<open>memset\<close> all clear the input; the output buffer keeps what was in the memory.\<close>

definition AllocateAndInitBuffers :: "'h hsa \<Rightarrow> (nat \<Rightarrow> u32) \<Rightarrow> binary_search \<Rightarrow> ('h, binary_search) test_prog" where
  "AllocateAndInitBuffers e steps bs =
     (let out_length = 16; in_length = bs_num_sub_divisions bs * 2 * 4 in
      t_bind (shared_buffer e bs in_length) (\<lambda>input.
      t_then (clear_bytes input (unat in_length))
     (t_bind (shared_buffer e bs out_length) (\<lambda>output.
      t_then (clear_bytes input (unat in_length))
     (t_bind (shared_buffer e bs in_length) (\<lambda>arr.
      t_then (clear_bytes input (unat in_length))
     (t_bind (shared_buffer e bs in_length) (\<lambda>arr_local.
      t_then (store_word input 0 0)
     (t_then (t_for [1..<unat (bs_length bs)] (\<lambda>i. t_bind (load_word input (i - 1)) (\<lambda>x. store_word input i (x + steps i))))
      (t_ret (bs\<lparr>bs_input := input, bs_output := output, bs_input_arr := arr, bs_input_arr_local := arr_local\<rparr>)))))))))))"

definition load_search_kernel :: "'h hsa \<Rightarrow> rocr_files \<Rightarrow> binary_search \<Rightarrow> ('h, hsa_status \<times> binary_search) test_prog" where
  "load_search_kernel e fs bs =
     t_bind (checked e (Agent_info AGENT_NAME (bs_gpu_dev bs)) []) (\<lambda>name.
     t_bind (open_kernel e fs (bs_kernel_file_name bs) (text_out name)) (\<lambda>(_, file).
     if file = - 1 then t_ret (HSA_STATUS_ERROR, bs)
     else t_bind (load_symbol e file (bs_kernel_name bs) (bs_gpu_dev bs)) (\<lambda>k. t_ret (HSA_STATUS_SUCCESS, bs\<lparr>bs_kernel := k\<rparr>))))"

definition PopulateAQLPacket :: "binary_search \<Rightarrow> aql_packet" where
  "PopulateAQLPacket bs =
     \<lparr>pk_header = 0, pk_setup = 1, pk_workgroup_x = bs_work_group_size bs, pk_grid_x = bs_work_grid_size bs,
      pk_private_segment = ucast (ki_private_size (bs_kernel bs)), pk_group_segment = ucast (ki_group_size (bs_kernel bs)),
      pk_kernel_object = ki_object (bs_kernel bs), pk_kernarg = bs_kern_arg_address bs, pk_signal = bs_signal bs\<rparr>"

definition WriteAQLToQueue :: "'h hsa \<Rightarrow> aql_packet \<Rightarrow> u64 \<Rightarrow> ('h, unit) test_prog" where
  "WriteAQLToQueue e pkt q = t_bind (hsa e (Queue_add_index q)) (\<lambda>(_, idx). WriteAQLToQueueLoc e q (word_out idx) pkt)"

definition AllocAndSetKernArgs :: "'h hsa \<Rightarrow> binary_search \<Rightarrow> u64 list \<Rightarrow> u64 \<Rightarrow> ('h, binary_search) test_prog" where
  "AllocAndSetKernArgs e bs args arg_size =
     (let align = ki_kernarg_align (bs_kernel bs) in
      t_bind (allocate e (bs_kern_arg_pool bs) (arg_size + push_bit 1 align)) (\<lambda>buf.
      let addr = AlignUp buf align in
      t_then (\<lambda>w. case gw_mem w buf of
                None \<Rightarrow> None
              | Some l \<Rightarrow> if unat (addr - buf) + unat arg_size \<le> 4 * length l then Some (Inr (), w\<lparr>gw_args := (gw_args w)(addr \<mapsto> args)\<rparr>) else None)
     (t_then (tell e (Allow_access [bs_gpu_dev bs, bs_cpu_dev bs] buf))
             (t_ret (bs\<lparr>bs_kern_arg_buffer := buf, bs_kern_arg_address := addr\<rparr>)))))"

section \<open>The search\<close>

definition adjust_work :: "binary_search \<Rightarrow> binary_search" where
  "adjust_work bs =
     (let bs1 = (if 64 < bs_work_group_size bs then bs\<lparr>bs_work_group_size := 64, bs_num_sub_divisions := bs_length bs div 64\<rparr> else bs);
          bs2 = (if bs_num_sub_divisions bs1 < bs_work_group_size bs1 then bs1\<lparr>bs_num_sub_divisions := bs_work_group_size bs1\<rparr> else bs1)
      in bs2\<lparr>bs_work_grid_size := bs_num_sub_divisions bs2\<rparr>)"

text \<open>The ends of every segment go to the kernel.\<close>

definition segment_ends :: "binary_search \<Rightarrow> u32 \<Rightarrow> ('h, unit) test_prog" where
  "segment_ends bs sub_div =
     t_for [0..<unat (bs_num_sub_divisions bs)] (\<lambda>i.
       t_bind (load_word (bs_input bs) (unat (word_of_nat i * sub_div))) (\<lambda>x.
       t_then (store_word (bs_input_arr bs) (2 * i) x)
      (t_bind (load_word (bs_input bs) (unat (word_of_nat (Suc i) * sub_div - 1))) (\<lambda>y.
       store_word (bs_input_arr bs) (2 * i + 1) y))))"

text \<open>One pass of the loop; the result is the new lower bound, upper bound and size of a segment.\<close>

definition search_pass :: "'h hsa \<Rightarrow> binary_search \<Rightarrow> aql_packet \<Rightarrow> u32 \<Rightarrow> ('h, u32 \<times> u32 \<times> u32) test_prog" where
  "search_pass e bs aql sub_div =
     t_then (segment_ends bs sub_div)
    (t_then (AgentMemcpy e (bs_input_arr_local bs) (bs_input_arr bs) (unat (bs_num_sub_divisions bs * 2)))
    (t_then (store_word (bs_output bs) 3 0)
    (t_bind (hsa e (Queue_load_index (bs_queue bs))) (\<lambda>(_, idx).
     t_then (WriteAQLToQueue e aql (bs_queue bs))
    (t_then (AtomicSetPacketHeader e (dispatch_header 0) (pk_setup aql) (bs_queue bs) (word_out idx))
    (t_then (ignored e (Queue_store_index (bs_queue bs) (word_out idx + 1)))
    (t_then (ring_doorbell e (bs_queue bs) (word_out idx))
    (t_bind (signal_wait e (bs_signal bs)) (\<lambda>v.
     t_then (if v \<noteq> 0 then throw_if_error e HSA_STATUS_ERROR [] else t_ret ())
    (t_then (ignored e (Signal_store (bs_signal bs) 1))
    (t_bind (load_word (bs_output bs) 0) (\<lambda>o0.
     let lower = o0 * sub_div; upper = lower + sub_div - 1
     in t_ret (lower, upper, (upper - lower + 1) div bs_num_sub_divisions bs)))))))))))))"

partial_function (option) search_loop ::
    "'h hsa \<Rightarrow> binary_search \<Rightarrow> aql_packet \<Rightarrow> u32 \<times> u32 \<times> u32 \<Rightarrow> 'h gpu_world \<Rightarrow> ((test_exc + u32 \<times> u32 \<times> u32) \<times> 'h gpu_world) option" where
  "search_loop e bs aql r w =
     (if snd (snd r) \<le> 1 then Some (Inr r, w)
      else case load_word (bs_output bs) 3 w of
             None \<Rightarrow> None
           | Some (Inl x, w') \<Rightarrow> Some (Inl x, w')
           | Some (Inr o3, w') \<Rightarrow>
               if o3 = 0 then Some (Inr r, w')
               else case search_pass e bs aql (snd (snd r)) w' of
                      None \<Rightarrow> None
                    | Some (Inl x, w2) \<Rightarrow> Some (Inl x, w2)
                    | Some (Inr r', w2) \<Rightarrow> search_loop e bs aql r' w2)"

fun scan_region :: "binary_search \<Rightarrow> nat list \<Rightarrow> ('h, unit) test_prog" where
  "scan_region bs [] = t_ret ()"
| "scan_region bs (i # is) =
     t_bind (load_word (bs_input bs) i) (\<lambda>x.
       if x = bs_find_me bs
       then t_then (store_word (bs_output bs) 0 (word_of_nat i))
           (t_then (store_word (bs_output bs) 1 (word_of_nat i + 1)) (store_word (bs_output bs) 2 1))
       else t_then (store_word (bs_output bs) 2 0) (scan_region bs is))"

definition run_search :: "'h hsa \<Rightarrow> binary_search \<Rightarrow> ('h, binary_search) test_prog" where
  "run_search e bs0 =
     (let bs = adjust_work bs0 in
      t_bind (load_word (bs_input bs) 0) (\<lambda>first.
      t_bind (if bs_find_me bs < first then t_ret True
              else t_bind (load_word (bs_input bs) (unat (bs_length bs - 1))) (\<lambda>last. t_ret (last < bs_find_me bs))) (\<lambda>outside.
      if outside
      then t_then (store_word (bs_output bs) 0 0) (t_then (store_word (bs_output bs) 1 (bs_length bs - 1))
          (t_then (store_word (bs_output bs) 2 0) (t_ret bs)))
      else t_then (store_word (bs_output bs) 3 1)
          (t_bind (AllocAndSetKernArgs e bs [bs_output bs, bs_input_arr_local bs, ucast (bs_find_me bs), 0, 0, 0, 0, 0, 0] 80) (\<lambda>bs1.
           t_bind (search_loop e bs1 (PopulateAQLPacket bs1) (0, bs_length bs1 - 1, bs_length bs1 div bs_num_sub_divisions bs1)) (\<lambda>(lower, upper, _).
           t_then (scan_region bs1 [unat lower..<Suc (unat upper)]) (t_ret bs1)))))))"

definition search_clean_up :: "'h hsa \<Rightarrow> binary_search \<Rightarrow> ('h, unit) test_prog" where
  "search_clean_up e bs =
     t_then (t_for [bs_input bs, bs_output bs, bs_input_arr bs, bs_kern_arg_buffer bs] (\<lambda>p. ignored e (Pool_free p)))
    (t_then (ignored e (Queue_destroy (bs_queue bs))) (ignored e (Signal_destroy (bs_signal bs))))"

definition RunBinarySearchTest :: "'h hsa \<Rightarrow> rocr_files \<Rightarrow> (nat \<Rightarrow> u32) \<Rightarrow> binary_search \<Rightarrow> rocr_test \<Rightarrow> ('h, rocr_test) test_prog" where
  "RunBinarySearchTest e fs steps junk t =
     t_bind (get_agent_by_gpu_index e (rt_gpu_index t)) (\<lambda>(err, gpu).
     t_then (throw_if_error e err ''Get agent by GPU index fail.'')
    (t_bind (cpu_agents e) (\<lambda>cpus.
     t_bind (first_cpu cpus) (\<lambda>cpu.
     t_bind (checked e Signal_create ''Fail to create signal.'') (\<lambda>signal.
     t_bind (checked e (Queue_create gpu 128) ''Fail to create queue.'') (\<lambda>queue.
     t_bind (FindPools e ((InitializeBinarySearch junk)\<lparr>bs_gpu_dev := gpu, bs_cpu_dev := cpu, bs_signal := word_out signal, bs_queue := word_out queue\<rparr>)) (\<lambda>(err, bs).
     t_then (throw_if_error e err ''Fail to find pools.'')
    (t_bind (AllocateAndInitBuffers e steps bs) (\<lambda>bs.
     t_bind (load_search_kernel e fs bs) (\<lambda>(err, bs).
     t_then (throw_if_error e err ''Load kernel from Object file fail.'')
    (t_bind (run_search e bs) (\<lambda>bs.
     t_then (search_clean_up e bs)
       (t_ret (t\<lparr>rt_gpu_info := rt_gpu_info t @ ''Run binary search task on GPU '' @ u32_string (rt_gpu_index t) @ '' Pass.''\<rparr>))))))))))))))"

definition compute_queue_title :: string where
  "compute_queue_title = ''ComputeQueue Test''"

end
