(* ===== verification/Rdc_Test_Modules.thy ===== *)
theory Rdc_Test_Modules
  imports Rdc_Rocr_Queue
begin

text \<open>
  The libraries that bring test cases to the diagnostic module besides the SMI library: \<^verbatim>\<open>librdc_rocr.so\<close> with the
  tests of \<open>Rdc_Rocr\<close>, \<^verbatim>\<open>librdc_rvs.so\<close> with the validation suite RVS, and the classes \<^verbatim>\<open>RdcRocrLib\<close> and
  \<^verbatim>\<open>RdcRVSLib\<close> that load them.
\<close>

section \<open>\<open>librdc_rocr.so\<close>\<close>

text \<open>
  One \<^verbatim>\<open>try\<close> block: the verdict, the text for the test and the text for the GPU, before and after. A test that
  passes leaves the verdict alone, any other sets it.
\<close>

type_synonym verdict = "rdc_diag_result \<times> string \<times> string"

definition block_result :: "string \<Rightarrow> u32 \<Rightarrow> test_exc + rocr_test \<Rightarrow> verdict \<Rightarrow> verdict" where
  "block_result label g r = (\<lambda>(st, info, per).
     case r of
       Inr t \<Rightarrow> (st, info @ rt_gpu_info t, per @ rt_per_gpu_info t)
     | Inl (Skip_exception m) \<Rightarrow>
         (RDC_DIAG_RESULT_SKIP, info @ ''GPU '' @ u32_string g @ '' '' @ label @ '' is skipped: '' @ m @ ''.'', per @ label @ '' is skipped: '' @ m)
     | Inl (Runtime_error m) \<Rightarrow>
         (RDC_DIAG_RESULT_FAIL, info @ ''GPU '' @ u32_string g @ '' '' @ label @ '' returns with error '' @ m @ ''.'',
          per @ label @ '' returns with error '' @ m))"

fun run_blocks :: "u32 \<Rightarrow> (string \<times> ('h, rocr_test) test_prog) list \<Rightarrow> verdict \<Rightarrow> 'h gpu_world \<Rightarrow> (verdict \<times> 'h gpu_world) option" where
  "run_blocks g [] v w = Some (v, w)"
| "run_blocks g ((label, test) # ts) v w = (case test w of None \<Rightarrow> None | Some (r, w') \<Rightarrow> run_blocks g ts (block_result label g r v) w')"

text \<open>What the tests depend on besides the runtime: files, the steps of the array, and uninitialised memory.\<close>

record rocr_env =
  re_test_files :: rocr_files
  re_steps :: "nat \<Rightarrow> u32"
  re_test_junk :: rocr_test
  re_search_junk :: binary_search

definition memory_blocks :: "'h hsa \<Rightarrow> rocr_env \<Rightarrow> u32 \<Rightarrow> (string \<times> ('h, rocr_test) test_prog) list" where
  "memory_blocks e v g =
     [(''MaxSingleAllocationTest'', with_test e (re_test_junk v) g memory_test_title (MaxSingleAllocationTest e)),
      (''Memory Access'', with_test e (re_test_junk v) g memory_access_title (\<lambda>t.
         t_bind (CPUAccessToGPUMemoryTest e t) (GPUAccessToCPUMemoryTest e (re_test_files v))))]"

definition queue_blocks :: "'h hsa \<Rightarrow> rocr_env \<Rightarrow> u32 \<Rightarrow> (string \<times> ('h, rocr_test) test_prog) list" where
  "queue_blocks e v g =
     [(''Compute Queue test'', with_test e (re_test_junk v) g compute_queue_title
         (RunBinarySearchTest e (re_test_files v) (re_steps v) (re_search_junk v)))]"

text \<open>The texts of a GPU are in the array element with the index of the GPU.\<close>

definition run_gpu_test ::
    "(u32 \<Rightarrow> (string \<times> ('h, rocr_test) test_prog) list) \<Rightarrow> u32 \<Rightarrow> rdc_diag_test_result \<times> 'h gpu_world \<Rightarrow> (rdc_diag_test_result \<times> 'h gpu_world) option" where
  "run_gpu_test blocks g = (\<lambda>(r, w).
     if length (tr_gpu_results r) \<le> unat g then None
     else let pg = tr_gpu_results r ! unat g in
       map_option (\<lambda>((st, info, per), w').
           ((put_info info r)\<lparr>tr_status := st, tr_gpu_results := (tr_gpu_results r)[unat g := pg\<lparr>pg_gpu_result := (pg_gpu_result pg)\<lparr>dd_msg :=
               strncpy_with_null (dd_msg (pg_gpu_result pg)) per MAX_DIAG_MSG_LENGTH\<rparr>\<rparr>]\<rparr>, w'))
         (run_blocks g (blocks g) (tr_status r, tr_info r, dd_msg (pg_gpu_result pg)) w))"

fun run_gpu_tests ::
    "(u32 \<Rightarrow> (string \<times> ('h, rocr_test) test_prog) list) \<Rightarrow> u32 list \<Rightarrow> rdc_diag_test_result \<times> 'h gpu_world \<Rightarrow> (rdc_diag_test_result \<times> 'h gpu_world) option" where
  "run_gpu_tests blocks [] s = Some s"
| "run_gpu_tests blocks (g # gs) s = Option.bind (run_gpu_test blocks g s) (run_gpu_tests blocks gs)"

definition rocr_test_case_run ::
    "'h hsa \<Rightarrow> rocr_env \<Rightarrow> rdc_diag_test_cases \<Rightarrow> u32 list \<Rightarrow> string option \<Rightarrow> rdc_diag_test_result option \<Rightarrow> 'h gpu_world
     \<Rightarrow> (rdc_status \<times> rdc_diag_test_result option \<times> 'h gpu_world) option" where
  "rocr_test_case_run e v tc gpus config res w =
     (if res = None \<or> gpus = [] then Some (RDC_ST_BAD_PARAMETER, res, w)
      else if tc \<noteq> RDC_DIAG_COMPUTE_QUEUE \<and> tc \<noteq> RDC_DIAG_SYS_MEM_CHECK then Some (RDC_ST_OK, res, w)
      else map_option (\<lambda>(r, w'). (RDC_ST_OK, Some r, w'))
             (run_gpu_tests (if tc = RDC_DIAG_SYS_MEM_CHECK then memory_blocks e v else queue_blocks e v) gpus
               (empty_result\<lparr>tr_test_case := tc, tr_status := RDC_DIAG_RESULT_PASS\<rparr>, w)))"

section \<open>\<open>librdc_rvs.so\<close>\<close>

text \<open>
  RVS as a parameter. The suite reports the progress of a session to \<^verbatim>\<open>session_callback\<close>, which stores the state in
  a global variable: a call hands over the states that it reports. \<open>rv_tick\<close> is what is reported between two
  looks at the variable.
\<close>

datatype rvs_status = RVS_STATUS_SUCCESS | RVS_STATUS_FAILED | RVS_STATUS_INVALID_ARGUMENT | RVS_STATUS_OTHER u32
datatype rvs_state = RVS_SESSION_STATE_IDLE | RVS_SESSION_STATE_COMPLETED | RVS_SESSION_STATE_OTHER u32

record 'v rvs =
  rv_initialize :: "'v \<Rightarrow> rvs_status \<times> 'v"
  rv_session_create :: "'v \<Rightarrow> rvs_status \<times> u32 \<times> rvs_state list \<times> 'v"
  rv_set_property :: "u32 \<Rightarrow> string \<Rightarrow> 'v \<Rightarrow> rvs_status \<times> rvs_state list \<times> 'v"
  rv_execute :: "u32 \<Rightarrow> 'v \<Rightarrow> rvs_status \<times> rvs_state list \<times> 'v"
  rv_tick :: "'v \<Rightarrow> rvs_state list \<times> 'v"
  rv_destroy :: "u32 \<Rightarrow> 'v \<Rightarrow> rvs_status \<times> 'v"

definition MAX_CONFIG_LENGTH :: nat where "MAX_CONFIG_LENGTH = 1024"

definition gst_config :: string where
  "gst_config = ''{actions: [{name: gpustress-9000-sgemm-false, device: all, device_index: '' @ [CHR 0x27] @ ''0'' @ [CHR 0x27]
     @ '', module: gst, parallel: false, count: 1, duration: 10000, copy_matrix: false, target_stress: 9000, matrix_size_a: 8640, ''
     @ ''matrix_size_b: 8640, matrix_size_c: 8640, ops_type: sgemm, lda: 8640, ldb: 8640, ldc: 8640}]}''"

definition session_callback :: "rvs_state list \<Rightarrow> rvs_state \<Rightarrow> rvs_state" where
  "session_callback reported s = last (s # reported)"

definition active_config :: "string option \<Rightarrow> nat \<Rightarrow> string option" where
  "active_config config config_size =
     (case config of
        None \<Rightarrow> Some (strncpy_with_null [] gst_config MAX_CONFIG_LENGTH)
      | Some c \<Rightarrow>
          if config_size = 0 then Some (strncpy_with_null [] gst_config MAX_CONFIG_LENGTH)
          else if MAX_CONFIG_LENGTH < config_size then None
          else Some (strncpy_with_null [] c config_size))"

text \<open>
  Along the calls of the diagnosis the size that comes with a configuration is its length, as the documentation of the interface asks and the command
  line tool passes it; \<open>config_length\<close> stands for that argument.
\<close>

definition config_length :: "string option \<Rightarrow> nat" where
  "config_length config = (case config of None \<Rightarrow> 0 | Some c \<Rightarrow> length c)"

partial_function (option) rvs_wait :: "'v rvs \<Rightarrow> rvs_state \<Rightarrow> 'v \<Rightarrow> 'v option" where
  "rvs_wait e st v =
     (if st = RVS_SESSION_STATE_COMPLETED then Some v
      else case rv_tick e v of (l, v') \<Rightarrow> rvs_wait e (session_callback l st) v')"

definition run_rvs_app :: "'v rvs \<Rightarrow> string option \<Rightarrow> 'v \<Rightarrow> (rvs_status \<times> 'v) option" where
  "run_rvs_app e config v =
     (case active_config config (config_length config) of
        None \<Rightarrow> Some (RVS_STATUS_INVALID_ARGUMENT, v)
      | Some act \<Rightarrow>
          (case rv_initialize e v of (st0, v0) \<Rightarrow>
             if st0 = RVS_STATUS_FAILED then Some (st0, v0)
             else case rv_session_create e v0 of (_, sid, l1, v1) \<Rightarrow>
                  case rv_set_property e sid act v1 of (_, l2, v2) \<Rightarrow>
                  case rv_execute e sid v2 of (st3, l3, v3) \<Rightarrow>
                    if st3 \<noteq> RVS_STATUS_SUCCESS then Some (st3, snd (rv_destroy e sid v3))
                    else map_option (rv_destroy e sid) (rvs_wait e (session_callback (l1 @ l2 @ l3) RVS_SESSION_STATE_IDLE) v3)))"

definition rvs_test_case_run ::
    "'v rvs \<Rightarrow> rdc_diag_test_cases \<Rightarrow> u32 list \<Rightarrow> string option \<Rightarrow> rdc_diag_test_result option \<Rightarrow> 'v
     \<Rightarrow> (rdc_status \<times> rdc_diag_test_result option \<times> 'v) option" where
  "rvs_test_case_run e tc gpus config res v =
     (if res = None \<or> gpus = [] then Some (RDC_ST_BAD_PARAMETER, res, v)
      else if tc \<noteq> RDC_DIAG_RVS_TEST then Some (RDC_ST_BAD_PARAMETER, res, v)
      else map_option (\<lambda>(st, v').
             let r = put_info ''Finished running RDC_DIAG_RVS_TEST!'' (empty_result\<lparr>tr_test_case := tc, tr_status := RDC_DIAG_RESULT_PASS\<rparr>)
             in (RDC_ST_OK, Some (if st \<noteq> RVS_STATUS_SUCCESS then r\<lparr>tr_status := RDC_DIAG_RESULT_FAIL\<rparr> else r), v'))
           (run_rvs_app e config v))"

section \<open>Loading\<close>

text \<open>
  What the dynamic linker finds in a library. A symbol that is missing is a null pointer; without the
  initialisation nothing else is looked up.
\<close>

record 's diag_so =
  so_loads :: bool
  so_init :: "('s \<Rightarrow> rdc_status \<times> 's) option"
  so_destroy :: "('s \<Rightarrow> rdc_status \<times> 's) option"
  so_run :: "(rdc_diag_test_cases \<Rightarrow> u32 list \<Rightarrow> string option \<Rightarrow> rdc_diag_test_result option \<Rightarrow> 's
     \<Rightarrow> (rdc_status \<times> rdc_diag_test_result option \<times> 's) option) option"
  so_query :: "('s \<Rightarrow> rdc_status \<times> rdc_diag_test_cases list) option"

definition no_diag_so :: "'s diag_so" where
  "no_diag_so = \<lparr>so_loads = False, so_init = None, so_destroy = None, so_run = None, so_query = None\<rparr>"

definition load_diag_lib :: "'s diag_so \<Rightarrow> 's \<Rightarrow> 's diag_so \<times> 's" where
  "load_diag_lib so s =
     (if \<not> so_loads so then (no_diag_so, s)
      else case so_init so of
             None \<Rightarrow> (no_diag_so, s)
           | Some f \<Rightarrow> (case f s of (st, s') \<Rightarrow>
               if st \<noteq> RDC_ST_OK then (no_diag_so\<lparr>so_init := Some f\<rparr>, s') else (so, s')))"

definition loaded_diagnostic :: "'s diag_so \<Rightarrow> 's rdc_diagnostic" where
  "loaded_diagnostic so =
     \<lparr>rdc_diag_test_cases_query = (\<lambda>s. case so_query so of None \<Rightarrow> (RDC_ST_FAIL_LOAD_MODULE, []) | Some f \<Rightarrow> f s),
      rdc_diag_test_case_run = (\<lambda>tc gpus config res s.
        if res = None then Some (RDC_ST_BAD_PARAMETER, res, s)
        else case so_run so of None \<Rightarrow> Some (RDC_ST_FAIL_LOAD_MODULE, res, s) | Some f \<Rightarrow> f tc gpus config res s),
      rdc_diag_init = (\<lambda>s. case so_init so of None \<Rightarrow> (RDC_ST_FAIL_LOAD_MODULE, s) | Some f \<Rightarrow> f s),
      rdc_diag_destroy = (\<lambda>s. case so_destroy so of None \<Rightarrow> (RDC_ST_FAIL_LOAD_MODULE, s) | Some f \<Rightarrow> f s)\<rparr>"

definition unload_diag_lib :: "'s diag_so \<Rightarrow> 's \<Rightarrow> 's" where
  "unload_diag_lib so s = (case so_destroy so of None \<Rightarrow> s | Some f \<Rightarrow> snd (f s))"

definition rocr_test_cases :: "rdc_diag_test_cases list" where
  "rocr_test_cases = [RDC_DIAG_COMPUTE_QUEUE, RDC_DIAG_SYS_MEM_CHECK]"

definition rvs_test_cases :: "rdc_diag_test_cases list" where
  "rvs_test_cases = [RDC_DIAG_RVS_TEST]"

definition rocr_so :: "'h hsa \<Rightarrow> rocr_env \<Rightarrow> 'h gpu_world diag_so" where
  "rocr_so e v = \<lparr>so_loads = True, so_init = Some (Pair RDC_ST_OK), so_destroy = Some (Pair RDC_ST_OK),
     so_run = Some (rocr_test_case_run e v), so_query = Some (\<lambda>_. (RDC_ST_OK, rocr_test_cases))\<rparr>"

definition rvs_so :: "'v rvs \<Rightarrow> 'v diag_so" where
  "rvs_so e = \<lparr>so_loads = True, so_init = Some (Pair RDC_ST_OK), so_destroy = Some (Pair RDC_ST_OK),
     so_run = Some (rvs_test_case_run e), so_query = Some (\<lambda>_. (RDC_ST_OK, rvs_test_cases))\<rparr>"

text \<open>The constructors of \<^verbatim>\<open>RdcRocrLib\<close> and \<^verbatim>\<open>RdcRVSLib\<close>, where the library is on the machine or not.\<close>

definition new_RdcRocrLib :: "bool \<Rightarrow> 'h hsa \<Rightarrow> rocr_env \<Rightarrow> 'h gpu_world \<Rightarrow> 'h gpu_world diag_so \<times> 'h gpu_world" where
  "new_RdcRocrLib installed e v w = load_diag_lib ((rocr_so e v)\<lparr>so_loads := installed\<rparr>) w"

definition new_RdcRVSLib :: "bool \<Rightarrow> 'v rvs \<Rightarrow> 'v \<Rightarrow> 'v diag_so \<times> 'v" where
  "new_RdcRVSLib installed e v = load_diag_lib ((rvs_so e)\<lparr>so_loads := installed\<rparr>) v"

text \<open>The constructor changes nothing, and what it loads is the library, or nothing that runs a test.\<close>

lemma new_RdcRocrLib_loads: "new_RdcRocrLib installed e v w = (if installed then rocr_so e v else no_diag_so, w)"
  by (simp add: new_RdcRocrLib_def load_diag_lib_def rocr_so_def)

lemma new_RdcRVSLib_loads: "new_RdcRVSLib installed e v = (if installed then rvs_so e else no_diag_so, v)"
  by (simp add: new_RdcRVSLib_def load_diag_lib_def rvs_so_def)

end
