(* ===== verification/Rdc_Search.thy ===== *)
theory Rdc_Search
  imports Rdc_Rocr_Queue
begin

text \<open>
  The search of \<^verbatim>\<open>ComputeQueueTest\<close> together with its OpenCL kernel: on a runtime that conforms to its
  specification the element is found, and without a segment that contains it the bounds come from memory that nobody
  wrote. Programs are reasoned about with weakest preconditions.
\<close>

unbundle bit_operations_syntax

lemmas t_defs = t_ret_def t_throw_def t_undefined_def t_bind_def t_then_def hsa_def throw_if_error_def checked_def ask_def tell_def ignored_def

section \<open>The kernel\<close>

text \<open>One thread of \<^verbatim>\<open>binarySearch\<close>: \<open>srt\<close> holds the ends of the segments in pairs.\<close>

definition binarySearch :: "u32 list \<Rightarrow> u32 \<Rightarrow> nat \<Rightarrow> u32 list \<Rightarrow> u32 list" where
  "binarySearch srt findMe tid out =
     (if findMe < srt ! (2 * tid) \<or> srt ! (2 * tid + 1) < findMe then out else out[0 := word_of_nat tid, 3 := 1])"

definition hits :: "u32 list \<Rightarrow> u32 \<Rightarrow> nat \<Rightarrow> bool" where
  "hits srt findMe tid \<longleftrightarrow> srt ! (2 * tid) \<le> findMe \<and> findMe \<le> srt ! (2 * tid + 1)"

lemma binarySearch_hits: "binarySearch srt findMe tid out = (if hits srt findMe tid then out[0 := word_of_nat tid, 3 := 1] else out)"
  by (auto simp: binarySearch_def hits_def not_less)

text \<open>The threads of a grid run in some order; the last one that finds its segment wins.\<close>

lemma threads_none: "(\<forall>t\<in>set order. \<not> hits srt f t) \<Longrightarrow> fold (binarySearch srt f) order out = out"
  by (induction order arbitrary: out) (simp_all add: binarySearch_hits)

lemma length_threads [simp]: "length (fold (binarySearch srt f) order out) = length out"
  by (induction order arbitrary: out) (simp_all add: binarySearch_hits)

lemma threads_some:
  assumes "\<exists>t\<in>set order. hits srt f t" and "4 \<le> length out"
  shows "\<exists>t\<in>set order. hits srt f t \<and> fold (binarySearch srt f) order out ! 0 = word_of_nat t"
  using assms
proof (induction order rule: rev_induct)
  case (snoc t ts)
  from snoc.prems have "out \<noteq> []" by auto
  with snoc show ?case
    by (cases "hits srt f t") (auto simp: binarySearch_hits [of srt f t])
qed simp

section \<open>Weakest preconditions\<close>

definition wp :: "('h, 'a) test_prog \<Rightarrow> ('a \<Rightarrow> 'h gpu_world \<Rightarrow> bool) \<Rightarrow> 'h gpu_world \<Rightarrow> bool" where
  "wp m Q w \<longleftrightarrow> (\<exists>a w'. m w = Some (Inr a, w') \<and> Q a w')"

lemma wpI: "m w = Some (Inr a, w') \<Longrightarrow> Q a w' \<Longrightarrow> wp m Q w"
  by (auto simp: wp_def)

lemma wp_ret [simp]: "wp (t_ret a) Q w = Q a w"
  by (simp add: wp_def t_ret_def)

lemma wp_bind [simp]: "wp (t_bind m k) Q w = wp m (\<lambda>a. wp (k a) Q) w"
  by (auto simp: wp_def t_bind_def split: option.split sum.split)

lemma wp_then [simp]: "wp (t_then m k) Q w = wp m (\<lambda>_. wp k Q) w"
  by (simp add: t_then_def)

lemma wp_load: "wp (load_word p i) Q w \<longleftrightarrow> (\<exists>l. gw_mem w p = Some l \<and> i < length l \<and> Q (l ! i) w)"
  by (auto simp: wp_def load_word_def split: option.split)

lemma wp_store: "wp (store_word p i v) Q w \<longleftrightarrow> (\<exists>l. gw_mem w p = Some l \<and> i < length l \<and> Q () (w\<lparr>gw_mem := (gw_mem w)(p \<mapsto> l[i := v])\<rparr>))"
  by (auto simp: wp_def store_word_def split: option.split)

lemma wp_mono: "wp m Q w \<Longrightarrow> (\<And>a w'. Q a w' \<Longrightarrow> Q' a w') \<Longrightarrow> wp m Q' w"
  by (auto simp: wp_def)

lemma wp_for:
  assumes "a \<le> b" and "I a w" and "\<And>i w. a \<le> i \<Longrightarrow> i < b \<Longrightarrow> I i w \<Longrightarrow> wp (body i) (\<lambda>_. I (Suc i)) w"
  shows "wp (t_for [a..<b] body) (\<lambda>_. I b) w"
  using assms
proof (induction "b - a" arbitrary: a w)
  case 0
  then show ?case by (simp add: t_for_def)
next
  case (Suc n)
  then have "[a..<b] = a # [Suc a..<b]" by (simp add: upt_conv_Cons)
  moreover have "wp (body a) (\<lambda>_. I (Suc a)) w" using Suc.hyps(2) by (intro Suc.prems(3)) (use Suc.prems(2) in auto)
  then have "wp (body a) (\<lambda>_ w'. wp (t_for [Suc a..<b] body) (\<lambda>_. I b) w') w"
    by (rule wp_mono) (use Suc.hyps Suc.prems(3) in \<open>auto intro!: Suc.hyps(1)\<close>)
  ultimately show ?case by (simp add: t_for_def)
qed

section \<open>Runtimes that conform\<close>

text \<open>
  What the test relies on: calls succeed, a queue with one user hands out its write index, waiting ends with 0,
  copies copy and a dispatched kernel runs each thread of its grid once.
\<close>

definition conforming_calls :: "'h hsa \<Rightarrow> binary_search \<Rightarrow> bool" where
  "conforming_calls e bs \<longleftrightarrow>
     (\<forall>c h. fst (hs_call e c h) = HSA_STATUS_SUCCESS)
   \<and> (\<forall>h. word_out (fst (snd (hs_call e (Queue_add_index (bs_queue bs)) (snd (snd (hs_call e (Queue_load_index (bs_queue bs)) h))))))
        = word_out (fst (snd (hs_call e (Queue_load_index (bs_queue bs)) h))))
   \<and> (\<forall>s h. \<exists>h'. hs_wait e s h = Some (0, h'))"

text \<open>
  The allocations. The documentation of \<^verbatim>\<open>hsa_amd_memory_pool_allocate\<close> promises a size rounded up to a multiple of the allocation granule of the pool;
  \<open>g\<close> is that granule. The blocks in use are those that have been handed out, and a new block is none of them, as long
  as fewer than \<open>limit\<close> blocks are in use. Sizes up to 4096 bytes are enough here.
\<close>

definition allocates_granules :: "'h hsa \<Rightarrow> nat \<Rightarrow> ('h \<Rightarrow> u64 set) \<Rightarrow> nat \<Rightarrow> bool" where
  "allocates_granules e g used limit \<longleftrightarrow>
     (\<forall>ags p h. used (snd (snd (hs_call e (Allow_access ags p) h))) = used h)
   \<and> (\<forall>pool n h. 0 < n \<longrightarrow> unat n \<le> 4096 \<longrightarrow> card (used h) < limit \<longrightarrow> (\<exists>p cells h'.
        hs_call e (Pool_allocate pool n) h = (HSA_STATUS_SUCCESS, H_buffer p cells, h') \<and> p \<notin> used h \<and> used h' = insert p (used h)
        \<and> 4 * length cells = g * ((unat n + g - 1) div g) \<and> unat p + 4 * length cells \<le> 2 ^ 64))"

lemma allocated_size:
  assumes "0 < g" and "0 < n" and "c = g * ((n + g - 1) div g)"
  shows "n \<le> c" and "g \<le> (c :: nat)"
proof -
  have "(n + g - 1) mod g < g" using assms(1) by simp
  moreover have "n + g - 1 = c + (n + g - 1) mod g" using assms(3) by simp
  ultimately show "n \<le> c" using assms(1) by linarith
  have "1 \<le> (n + g - 1) div g" using assms(1,2) by (simp add: div_greater_zero_iff Suc_le_eq)
  then show "g \<le> c" using assms(3) by simp
qed

text \<open>What the search needs for its kernel arguments.\<close>

definition kernargs_ready :: "'h hsa \<Rightarrow> binary_search \<Rightarrow> 'h \<Rightarrow> bool" where
  "kernargs_ready e bs h \<longleftrightarrow>
     (\<forall>n. 0 < n \<longrightarrow> unat n \<le> 4096 \<longrightarrow> (\<exists>p cells h'. hs_call e (Pool_allocate (bs_kern_arg_pool bs) n) h = (HSA_STATUS_SUCCESS, H_buffer p cells, h')
        \<and> p \<notin> {bs_input bs, bs_output bs, bs_input_arr bs, bs_input_arr_local bs} \<and> unat n \<le> 4 * length cells \<and> unat p + 4 * length cells \<le> 2 ^ 64))"

lemma granules_kernargs:
  assumes "allocates_granules e g used limit" and "0 < g" and "card (used h) < limit"
    and "{bs_input bs, bs_output bs, bs_input_arr bs, bs_input_arr_local bs} \<subseteq> used h"
  shows "kernargs_ready e bs h"
  unfolding kernargs_ready_def
proof (intro allI impI)
  fix n :: u64
  assume n: "0 < n" "unat n \<le> 4096"
  with assms(1,3) obtain p cells h' where c: "hs_call e (Pool_allocate (bs_kern_arg_pool bs) n) h = (HSA_STATUS_SUCCESS, H_buffer p cells, h')" "p \<notin> used h"
    "4 * length cells = g * ((unat n + g - 1) div g)" "unat p + 4 * length cells \<le> 2 ^ 64" unfolding allocates_granules_def by blast
  moreover have "0 < unat n" using n(1) by (simp add: word_less_nat_alt)
  ultimately show "\<exists>p cells h'. hs_call e (Pool_allocate (bs_kern_arg_pool bs) n) h = (HSA_STATUS_SUCCESS, H_buffer p cells, h')
        \<and> p \<notin> {bs_input bs, bs_output bs, bs_input_arr bs, bs_input_arr_local bs} \<and> unat n \<le> 4 * length cells \<and> unat p + 4 * length cells \<le> 2 ^ 64"
    using allocated_size(1) [OF assms(2) _ c(3)] assms(4) by blast
qed

definition conforming_copy :: "'h hsa \<Rightarrow> bool" where
  "conforming_copy e \<longleftrightarrow> (\<forall>dst src d s n mem h. mem dst = Some d \<longrightarrow> mem src = Some s \<longrightarrow> n \<le> length d \<longrightarrow> n \<le> length s \<longrightarrow>
     (\<exists>h'. hs_copy e dst src n mem h = (HSA_STATUS_SUCCESS, mem(dst \<mapsto> take n s @ drop n d), h')))"

definition runs_search_kernel :: "'h hsa \<Rightarrow> u64 \<Rightarrow> bool" where
  "runs_search_kernel e obj \<longleftrightarrow> (\<forall>pkt args mem h outp sp f rest out srt.
     pk_kernel_object pkt = obj \<longrightarrow> pk_header pkt = dispatch_header 0 \<longrightarrow> pk_setup pkt = 1 \<longrightarrow> args (pk_kernarg pkt) = Some (outp # sp # f # rest) \<longrightarrow>
     mem outp = Some out \<longrightarrow> 4 \<le> length out \<longrightarrow> mem sp = Some srt \<longrightarrow> 2 * unat (pk_grid_x pkt) \<le> length srt \<longrightarrow>
     (\<exists>order h'. set order = {..<unat (pk_grid_x pkt)} \<and> distinct order
        \<and> hs_run e pkt args mem h = (mem(outp \<mapsto> fold (binarySearch srt (ucast f)) order out), h')))"

lemma wp_call:
  assumes "conforming_calls e bs" and "\<And>out h. Q (HSA_STATUS_SUCCESS, out) (w\<lparr>gw_hsa := h\<rparr>)"
  shows "wp (hsa e c) Q w"
proof -
  obtain st out h where c: "hs_call e c (gw_hsa w) = (st, out, h)" by (cases "hs_call e c (gw_hsa w)") auto
  with assms(1) have "st = HSA_STATUS_SUCCESS" by (metis conforming_calls_def fst_conv)
  with c assms(2) show ?thesis by (simp add: wp_def hsa_def)
qed

lemma throw_success [simp]: "throw_if_error e HSA_STATUS_SUCCESS msg = t_ret ()"
  by (simp add: throw_if_error_def)

lemma wp_ignored: "conforming_calls e bs \<Longrightarrow> (\<And>h. Q () (w\<lparr>gw_hsa := h\<rparr>)) \<Longrightarrow> wp (ignored e c) Q w"
  unfolding ignored_def by (simp add: wp_call)

lemma wp_tell: "conforming_calls e bs \<Longrightarrow> (\<And>h. Q () (w\<lparr>gw_hsa := h\<rparr>)) \<Longrightarrow> wp (tell e c) Q w"
  unfolding tell_def checked_def by (simp add: wp_call)

lemma wp_ask: "conforming_calls e bs \<Longrightarrow> (\<And>x h. Q x (w\<lparr>gw_hsa := h\<rparr>)) \<Longrightarrow> wp (ask e c) Q w"
  unfolding ask_def checked_def by (simp add: wp_call)

lemma wp_wait:
  assumes "conforming_calls e bs" and "\<And>h. Q 0 (w\<lparr>gw_hsa := h\<rparr>)"
  shows "wp (signal_wait e sig) Q w"
proof -
  from assms(1) obtain h' where "hs_wait e sig (gw_hsa w) = Some (0, h')" unfolding conforming_calls_def by blast
  with assms(2) show ?thesis by (simp add: wp_def signal_wait_def)
qed

lemma wp_copy:
  assumes "conforming_calls e bs" and "conforming_copy e" and "gw_mem w dst = Some d" and "gw_mem w src = Some s" and "n \<le> length d" and "n \<le> length s"
    and "\<And>h. Q () (w\<lparr>gw_mem := (gw_mem w)(dst \<mapsto> take n s @ drop n d), gw_hsa := h\<rparr>)"
  shows "wp (AgentMemcpy e dst src n) Q w"
proof -
  have copied: "\<exists>h'. hs_copy e dst src n (gw_mem w) h = (HSA_STATUS_SUCCESS, (gw_mem w)(dst \<mapsto> take n s @ drop n d), h')" for h
    using assms(2-6) unfolding conforming_copy_def by blast
  show ?thesis unfolding AgentMemcpy_def wp_bind wp_then
  proof (rule wp_ask [OF assms(1)])
    fix sig h
    from copied [of h] obtain h' where c: "hs_copy e dst src n (gw_mem w) h = (HSA_STATUS_SUCCESS, (gw_mem w)(dst \<mapsto> take n s @ drop n d), h')" ..
    show "wp (\<lambda>w. case hs_copy e dst src n (gw_mem w) (gw_hsa w) of (st, mem, h) \<Rightarrow> Some (Inr st, w\<lparr>gw_mem := mem, gw_hsa := h\<rparr>))
       (\<lambda>a. wp (throw_if_error e a []) (\<lambda>_. wp (signal_wait e sig)
          (\<lambda>a. wp (if a \<noteq> 0 then throw_if_error e HSA_STATUS_ERROR [] else t_ret ()) (\<lambda>_. wp (tell e (Signal_destroy sig)) Q)))) (w\<lparr>gw_hsa := h\<rparr>)"
    proof (rule wpI)
      let ?w = "w\<lparr>gw_mem := (gw_mem w)(dst \<mapsto> take n s @ drop n d), gw_hsa := h'\<rparr>"
      show "wp (throw_if_error e HSA_STATUS_SUCCESS []) (\<lambda>_. wp (signal_wait e sig)
          (\<lambda>a. wp (if a \<noteq> 0 then throw_if_error e HSA_STATUS_ERROR [] else t_ret ()) (\<lambda>_. wp (tell e (Signal_destroy sig)) Q))) ?w"
        by (auto intro!: wp_wait [OF assms(1)] wp_tell [OF assms(1)] assms(7))
    qed (simp add: c)
  qed
qed

section \<open>Addresses of kernel arguments\<close>

lemma and_not_mask: "v AND NOT (mask k) = v - take_bit k (v :: u64)"
proof -
  have "v AND NOT (mask k) = push_bit k (drop_bit k v)" by (rule bit_eqI) (auto simp: bit_simps)
  then show ?thesis using bits_ident [of k v] by (simp add: eq_diff_eq)
qed

lemma AlignDown_eq: "AlignDown v (2 ^ k) = v - take_bit k v"
  by (simp add: AlignDown_def and_not_mask flip: mask_eq_exp_minus_1)

lemma unat_AlignDown: "unat (AlignDown v (2 ^ k)) = unat v - unat v mod 2 ^ k"
proof -
  have "take_bit k v \<le> v" by (simp add: word_le_nat_alt unsigned_take_bit_eq take_bit_nat_less_eq_self)
  then have "unat (AlignDown v (2 ^ k)) = unat v - unat (take_bit k v)" by (simp only: AlignDown_eq unat_sub)
  then show ?thesis by (simp only: unsigned_take_bit_eq) (simp add: take_bit_eq_mod)
qed

text \<open>Rounding up gives the next multiple, unless the sum wraps.\<close>

lemma unat_AlignUp:
  assumes "unat v + 2 ^ k \<le> 2 ^ 64"
  shows "2 ^ k dvd unat (AlignUp v (2 ^ k))" and "unat v \<le> unat (AlignUp v (2 ^ k))" and "unat (AlignUp v (2 ^ k)) < unat v + 2 ^ k"
proof -
  have "1 \<le> unat v + 2 ^ k" by (simp add: trans_le_add2)
  then have "v + 2 ^ k - 1 = word_of_nat (unat v + 2 ^ k - 1)" by (simp only: of_nat_diff) simp
  moreover have "unat v + 2 ^ k - 1 < 2 ^ 64" using assms by (simp add: less_eq_Suc_le)
  ultimately have s: "unat (v + 2 ^ k - 1) = unat v + 2 ^ k - 1" by (simp add: take_bit_nat_eq_self unsigned_of_nat)
  have a: "unat (AlignUp v (2 ^ k)) = unat v + 2 ^ k - 1 - (unat v + 2 ^ k - 1) mod 2 ^ k"
    unfolding AlignUp_def unat_AlignDown s ..
  show "2 ^ k dvd unat (AlignUp v (2 ^ k))" unfolding a by (rule dvd_minus_mod)
  have "(unat v + 2 ^ k - 1) mod 2 ^ k < 2 ^ k" by simp
  then show "unat v \<le> unat (AlignUp v (2 ^ k))" unfolding a by linarith
  show "unat (AlignUp v (2 ^ k)) < unat v + 2 ^ k" unfolding a by (simp add: less_imp_diff_less)
qed

lemma AllocAndSetKernArgs_fits:
  assumes "ki_kernarg_align (bs_kernel bs) = 2 ^ k"
    and "hs_call e (Pool_allocate (bs_kern_arg_pool bs) (sz + push_bit 1 (ki_kernarg_align (bs_kernel bs)))) (gw_hsa w)
      = (HSA_STATUS_SUCCESS, H_buffer buf cells, h)"
    and "unat sz + 2 * 2 ^ k \<le> 4 * length cells" and "unat buf + 4 * length cells \<le> 2 ^ 64"
    and "hs_call e (Allow_access [bs_gpu_dev bs, bs_cpu_dev bs] buf) h = (HSA_STATUS_SUCCESS, out, h')"
  shows "\<exists>addr. AllocAndSetKernArgs e bs args sz w = Some (Inr (bs\<lparr>bs_kern_arg_buffer := buf, bs_kern_arg_address := addr\<rparr>),
      w\<lparr>gw_hsa := h', gw_mem := (gw_mem w)(buf \<mapsto> cells), gw_args := (gw_args w)(addr \<mapsto> args)\<rparr>)
    \<and> 2 ^ k dvd unat addr \<and> unat buf \<le> unat addr \<and> unat addr + unat sz \<le> unat buf + 4 * length cells"
proof -
  let ?addr = "AlignUp buf (2 ^ k)"
  have "unat buf + 2 ^ k \<le> 2 ^ 64" using assms(3,4) by simp
  note up = unat_AlignUp [OF this]
  have fits: "unat (?addr - buf) + unat sz \<le> 4 * length cells"
    using up(2,3) assms(3) by (simp add: unat_sub word_le_nat_alt)
  then have "AllocAndSetKernArgs e bs args sz w = Some (Inr (bs\<lparr>bs_kern_arg_buffer := buf, bs_kern_arg_address := ?addr\<rparr>),
      w\<lparr>gw_hsa := h', gw_mem := (gw_mem w)(buf \<mapsto> cells), gw_args := (gw_args w)(?addr \<mapsto> args)\<rparr>)"
    using assms(2,5) unfolding assms(1) by (simp add: AllocAndSetKernArgs_def assms(1) allocate_def t_defs Let_def)
  then show ?thesis using up assms(3) by (intro exI [of _ ?addr]) simp
qed

lemma wp_kernargs:
  assumes conf: "conforming_calls e bs" and align: "ki_kernarg_align (bs_kernel bs) = 2 ^ k" and "k \<le> 10"
    and ready: "kernargs_ready e bs (gw_hsa w)" and Q: "\<And>buf cells addr h. buf \<notin> {bs_input bs, bs_output bs, bs_input_arr bs, bs_input_arr_local bs} \<Longrightarrow>
      Q (bs\<lparr>bs_kern_arg_buffer := buf, bs_kern_arg_address := addr\<rparr>)
        (w\<lparr>gw_hsa := h, gw_mem := (gw_mem w)(buf \<mapsto> cells), gw_args := (gw_args w)(addr \<mapsto> args)\<rparr>)"
  shows "wp (AllocAndSetKernArgs e bs args 80) Q w"
proof -
  let ?n = "80 + push_bit 1 (ki_kernarg_align (bs_kernel bs))"
  have "(2 :: nat) ^ k \<le> 2 ^ 10" using assms(3) by (intro power_increasing) auto
  then have k: "80 + 2 * 2 ^ k \<le> (4096 :: nat)" by simp
  have "?n = word_of_nat (80 + 2 * 2 ^ k)" by (simp add: align push_bit_eq_mult)
  then have n: "unat ?n = 80 + 2 * 2 ^ k" using k by (simp only: unsigned_of_nat) (simp add: take_bit_nat_eq_self)
  then have "0 < ?n" by (simp add: word_less_nat_alt)
  with ready k n obtain buf cells h where alloc: "hs_call e (Pool_allocate (bs_kern_arg_pool bs) ?n) (gw_hsa w) = (HSA_STATUS_SUCCESS, H_buffer buf cells, h)"
    and new: "buf \<notin> {bs_input bs, bs_output bs, bs_input_arr bs, bs_input_arr_local bs}"
    and room: "unat ?n \<le> 4 * length cells" "unat buf + 4 * length cells \<le> 2 ^ 64" unfolding kernargs_ready_def by metis
  obtain out h' where allow: "hs_call e (Allow_access [bs_gpu_dev bs, bs_cpu_dev bs] buf) h = (HSA_STATUS_SUCCESS, out, h')"
    using conf by (metis conforming_calls_def prod.collapse)
  from AllocAndSetKernArgs_fits [OF align alloc _ room(2) allow] room(1) n obtain addr where
    "AllocAndSetKernArgs e bs args 80 w = Some (Inr (bs\<lparr>bs_kern_arg_buffer := buf, bs_kern_arg_address := addr\<rparr>),
      w\<lparr>gw_hsa := h', gw_mem := (gw_mem w)(buf \<mapsto> cells), gw_args := (gw_args w)(addr \<mapsto> args)\<rparr>)" by auto
  then show ?thesis using Q [OF new] by (rule wpI)
qed

section \<open>The segments\<close>

definition segment_pairs :: "u32 list \<Rightarrow> nat \<Rightarrow> u32 list" where
  "segment_pairs l n = concat (map (\<lambda>j. [l ! (8 * j), l ! (8 * j + 7)]) [0..<n])"

lemma length_segment_pairs [simp]: "length (segment_pairs l n) = 2 * n"
  by (induction n) (simp_all add: segment_pairs_def)

lemma segment_pairs_Suc: "segment_pairs l (Suc n) = segment_pairs l n @ [l ! (8 * n), l ! (8 * n + 7)]"
  by (simp add: segment_pairs_def)

lemma nth_segment_pairs: "t < n \<Longrightarrow> segment_pairs l n ! (2 * t) = l ! (8 * t) \<and> segment_pairs l n ! (2 * t + 1) = l ! (8 * t + 7)"
proof (induction n)
  case (Suc n)
  then show ?case by (cases "t < n") (auto simp: segment_pairs_Suc nth_append less_Suc_eq)
qed simp

lemma update_pair:
  "n = length xs \<Longrightarrow> Suc n < length ys \<Longrightarrow> (xs @ drop n ys)[n := a, Suc n := b] = xs @ a # b # drop (Suc (Suc n)) ys"
  by (simp add: list_update_append Suc_lessD flip: Cons_nth_drop_Suc)

lemma segment_index:
  assumes "i < 64"
  shows "unat (word_of_nat i * 8 :: u32) = 8 * i" and "unat (word_of_nat (Suc i) * 8 - 1 :: u32) = 8 * i + 7"
proof -
  have "(word_of_nat i * 8 :: u32) = word_of_nat (8 * i)" and "(word_of_nat (Suc i) * 8 - 1 :: u32) = word_of_nat (8 * i + 7)" by (simp_all add: algebra_simps)
  then show "unat (word_of_nat i * 8 :: u32) = 8 * i" and "unat (word_of_nat (Suc i) * 8 - 1 :: u32) = 8 * i + 7"
    using assms by (simp_all only: unsigned_of_nat) (simp_all add: take_bit_nat_eq_self)
qed

lemma segment_bounds:
  assumes "unat (x :: u32) < 2 ^ 29"
  shows "unat (x * 8) = 8 * unat x" and "unat (x * 8 + 7) = 8 * unat x + 7"
proof -
  have "x * 8 = word_of_nat (8 * unat x)" and "x * 8 + 7 = word_of_nat (8 * unat x + 7)" by simp_all
  then show "unat (x * 8) = 8 * unat x" and "unat (x * 8 + 7) = 8 * unat x + 7"
    using assms by (simp_all only: unsigned_of_nat) (simp_all add: take_bit_nat_eq_self)
qed

lemma segment_ends_wp:
  assumes "bs_num_sub_divisions bs = 64" and "gw_mem w (bs_input bs) = Some l" and "512 \<le> length l"
    and "gw_mem w (bs_input_arr bs) = Some arr" and "128 \<le> length arr" and "bs_input bs \<noteq> bs_input_arr bs"
  shows "wp (segment_ends bs 8) (\<lambda>_ w'. w' = w\<lparr>gw_mem := (gw_mem w)(bs_input_arr bs \<mapsto> segment_pairs l 64 @ drop 128 arr)\<rparr>) w"
proof -
  let ?I = "\<lambda>i w'. w' = w\<lparr>gw_mem := (gw_mem w)(bs_input_arr bs \<mapsto> segment_pairs l i @ drop (2 * i) arr)\<rparr>"
  have n: "unat (64 :: u32) = 64" by simp
  have "wp (segment_ends bs 8) (\<lambda>_. ?I 64) w"
    unfolding segment_ends_def assms(1) n
  proof (rule wp_for [where I = ?I])
    show "?I 0 w" using assms(4) by (simp add: segment_pairs_def fun_upd_idem)
  next
    fix i w' assume i: "i < 64" "?I i w'"
    then have "2 * i < length arr" "Suc (2 * i) < length arr" using assms(5) by auto
    then show "wp (t_bind (load_word (bs_input bs) (unat (word_of_nat i * 8 :: u32))) (\<lambda>x.
       t_then (store_word (bs_input_arr bs) (2 * i) x)
      (t_bind (load_word (bs_input bs) (unat (word_of_nat (Suc i) * 8 - 1 :: u32))) (\<lambda>y. store_word (bs_input_arr bs) (2 * i + 1) y)))) (\<lambda>_. ?I (Suc i)) w'"
      using i(2) assms(2-6) i(1) unfolding segment_index [OF i(1)] by (simp add: wp_load wp_store segment_pairs_Suc update_pair)
  qed simp_all
  then show ?thesis by simp
qed

section \<open>One pass\<close>

lemma wp_hsa: "wp (hsa e c) Q w = (case hs_call e c (gw_hsa w) of (st, out, h) \<Rightarrow> Q (st, out) (w\<lparr>gw_hsa := h\<rparr>))"
  by (simp add: wp_def hsa_def split: prod.split)

lemma wp_WriteAQLToQueueLoc:
  "wp (WriteAQLToQueueLoc e q i pkt) Q w = Q () (w\<lparr>gw_rings := (gw_rings w)(q := (gw_rings w q)(ring_slot e q i :=
     pkt\<lparr>pk_header := pk_header (gw_rings w q (ring_slot e q i)), pk_setup := pk_setup (gw_rings w q (ring_slot e q i))\<rparr>))\<rparr>)"
  by (simp add: wp_def WriteAQLToQueueLoc_def Let_def)

lemma wp_AtomicSetPacketHeader:
  "wp (AtomicSetPacketHeader e header setup q i) Q w = Q () (w\<lparr>gw_rings := (gw_rings w)(q := (gw_rings w q)(ring_slot e q i :=
     (gw_rings w q (ring_slot e q i))\<lparr>pk_header := header, pk_setup := setup\<rparr>))\<rparr>)"
  by (simp add: wp_def AtomicSetPacketHeader_def Let_def)

lemma wp_ring_doorbell:
  "wp (ring_doorbell e q i) Q w =
     (case hs_run e (gw_rings w q (ring_slot e q i)) (gw_args w) (gw_mem w) (gw_hsa w) of (mem, h) \<Rightarrow> Q () (w\<lparr>gw_mem := mem, gw_hsa := h\<rparr>))"
  by (simp add: wp_def ring_doorbell_def split: prod.split)

lemmas wp_queue = wp_hsa wp_WriteAQLToQueueLoc wp_AtomicSetPacketHeader wp_ring_doorbell

text \<open>The packet in the slot of the queue is the one of the program, with its header.\<close>

lemma wp_launch:
  assumes conf: "conforming_calls e bs" and kernel: "runs_search_kernel e (pk_kernel_object aql)" and "pk_setup aql = 1"
    and "gw_args w (pk_kernarg aql) = Some (outp # sp # f # rest)" and "gw_mem w outp = Some out" and "4 \<le> length out"
    and "gw_mem w sp = Some srt" and "2 * unat (pk_grid_x aql) \<le> length srt"
    and Q: "\<And>order rings h. set order = {..<unat (pk_grid_x aql)} \<Longrightarrow> wp k Q (w\<lparr>gw_rings := rings,
      gw_mem := (gw_mem w)(outp \<mapsto> fold (binarySearch srt (ucast f)) order out), gw_hsa := h\<rparr>)"
  shows "wp (t_bind (hsa e (Queue_load_index (bs_queue bs))) (\<lambda>(_, idx).
     t_then (WriteAQLToQueue e aql (bs_queue bs))
    (t_then (AtomicSetPacketHeader e (dispatch_header 0) (pk_setup aql) (bs_queue bs) (word_out idx))
    (t_then (ignored e (Queue_store_index (bs_queue bs) (word_out idx + 1)))
    (t_then (ring_doorbell e (bs_queue bs) (word_out idx)) k))))) Q w"
proof -
  let ?q = "bs_queue bs"
  obtain st1 out1 h1 where load: "hs_call e (Queue_load_index ?q) (gw_hsa w) = (st1, out1, h1)" by (cases "hs_call e (Queue_load_index ?q) (gw_hsa w)") auto
  obtain st2 out2 h2 where add: "hs_call e (Queue_add_index ?q) h1 = (st2, out2, h2)" by (cases "hs_call e (Queue_add_index ?q) h1") auto
  from conf have "word_out (fst (snd (hs_call e (Queue_add_index ?q) (snd (snd (hs_call e (Queue_load_index ?q) (gw_hsa w)))))))
      = word_out (fst (snd (hs_call e (Queue_load_index ?q) (gw_hsa w))))" unfolding conforming_calls_def by blast
  with load add have idx: "word_out out2 = word_out out1" by simp
  obtain st3 out3 h3 where store: "hs_call e (Queue_store_index ?q (word_out out1 + 1)) h2 = (st3, out3, h3)"
    by (cases "hs_call e (Queue_store_index ?q (word_out out1 + 1)) h2") auto
  let ?pkt = "aql\<lparr>pk_header := dispatch_header 0, pk_setup := 1\<rparr>"
  have "pk_kernel_object ?pkt = pk_kernel_object aql" "pk_header ?pkt = dispatch_header 0" "pk_setup ?pkt = 1"
    "gw_args w (pk_kernarg ?pkt) = Some (outp # sp # f # rest)" "2 * unat (pk_grid_x ?pkt) \<le> length srt" using assms(4,8) by simp_all
  with kernel assms(5-7) obtain order h4 where order: "set order = {..<unat (pk_grid_x ?pkt)}"
    and run: "hs_run e ?pkt (gw_args w) (gw_mem w) h3 = ((gw_mem w)(outp \<mapsto> fold (binarySearch srt (ucast f)) order out), h4)"
    unfolding runs_search_kernel_def by blast
  show ?thesis using Q [OF order [simplified]] assms(3) run
    by (simp add: wp_queue load add store idx WriteAQLToQueue_def ignored_def)
qed

text \<open>
  The buffers of a search as the program uses them: all different, with room for 512 words of input and both ends of 64 segments. The program asks for
  16 bytes each; that a runtime with granules of at least 2048 bytes gives it such buffers is shown below.
\<close>

definition search_buffers :: "binary_search \<Rightarrow> u32 list \<Rightarrow> u32 list \<Rightarrow> buffers \<Rightarrow> bool" where
  "search_buffers bs l out mem \<longleftrightarrow>
     distinct [bs_input bs, bs_output bs, bs_input_arr bs, bs_input_arr_local bs]
   \<and> mem (bs_input bs) = Some l \<and> 512 \<le> length l \<and> mem (bs_output bs) = Some out \<and> 4 \<le> length out
   \<and> (\<exists>arr. mem (bs_input_arr bs) = Some arr \<and> 128 \<le> length arr) \<and> (\<exists>loc. mem (bs_input_arr_local bs) = Some loc \<and> 128 \<le> length loc)"

definition search_packet :: "binary_search \<Rightarrow> aql_packet \<Rightarrow> kernargs \<Rightarrow> bool" where
  "search_packet bs aql args \<longleftrightarrow> pk_setup aql = 1 \<and> pk_grid_x aql = 64
     \<and> (\<exists>rest. args (pk_kernarg aql) = Some (bs_output bs # bs_input_arr_local bs # ucast (bs_find_me bs) # rest))"

text \<open>What a pass leaves in the output, for some order of the threads.\<close>

definition pass_output :: "u32 list \<Rightarrow> u32 \<Rightarrow> u32 list \<Rightarrow> u32 list \<Rightarrow> bool" where
  "pass_output l f out out' \<longleftrightarrow> (\<exists>order srt. set order = {..<64} \<and> out' = fold (binarySearch (segment_pairs l 64 @ srt) f) order (out[3 := 0]))"

lemma ucast_32_64_32: "ucast (ucast (x :: u32) :: u64) = x"
  by transfer (simp add: take_bit_take_bit)

lemma search_tail_wp:
  assumes conf: "conforming_calls e bs" and "gw_mem w p = Some out" and "out \<noteq> []" and Q: "\<And>h. Q (out ! 0 * 8, out ! 0 * 8 + 7, 0) (w\<lparr>gw_hsa := h\<rparr>)"
  shows "wp (t_bind (signal_wait e sig) (\<lambda>v.
     t_then (if v \<noteq> 0 then throw_if_error e HSA_STATUS_ERROR [] else t_ret ())
    (t_then (ignored e (Signal_store sig 1))
    (t_bind (load_word p 0) (\<lambda>o0.
     let lower = o0 * 8; upper = lower + 8 - 1 in t_ret (lower, upper, (upper - lower + 1) div 64)))))) Q w"
proof -
  have "(x :: u32) + 8 - 1 = x + 7" for x by simp
  moreover have "((x :: u32) + 7 - x + 1) div 64 = 0" for x by (simp add: word_div_def)
  moreover have "Q (out ! 0 * 8, 7 + out ! 0 * 8, 0) (w\<lparr>gw_hsa := h\<rparr>)" for h using Q [of h] by (simp add: add.commute)
  ultimately show ?thesis using assms(2,3) by (auto simp: wp_load Let_def intro!: wp_wait [OF conf] wp_ignored [OF conf])
qed

lemma search_pass_wp:
  assumes conf: "conforming_calls e bs" and copy: "conforming_copy e" and kernel: "runs_search_kernel e (pk_kernel_object aql)"
    and n: "bs_num_sub_divisions bs = 64" and bufs: "search_buffers bs l out (gw_mem w)" and pkt: "search_packet bs aql (gw_args w)"
    and Q: "\<And>out' w'. pass_output l (bs_find_me bs) out out' \<Longrightarrow> gw_mem w' (bs_input bs) = Some l \<Longrightarrow> gw_mem w' (bs_output bs) = Some out'
      \<Longrightarrow> Q (out' ! 0 * 8, out' ! 0 * 8 + 7, 0) w'"
  shows "wp (search_pass e bs aql 8) Q w"
proof -
  from bufs obtain arr loc where mem: "gw_mem w (bs_input bs) = Some l" "512 \<le> length l" "gw_mem w (bs_output bs) = Some out" "4 \<le> length out"
    "gw_mem w (bs_input_arr bs) = Some arr" "128 \<le> length arr" "gw_mem w (bs_input_arr_local bs) = Some loc" "128 \<le> length loc"
    and diff: "distinct [bs_input bs, bs_output bs, bs_input_arr bs, bs_input_arr_local bs]" unfolding search_buffers_def by auto
  from pkt obtain rest where args: "gw_args w (pk_kernarg aql) = Some (bs_output bs # bs_input_arr_local bs # ucast (bs_find_me bs) # rest)"
    and aql: "pk_setup aql = 1" "pk_grid_x aql = 64" unfolding search_packet_def by auto
  let ?m1 = "(gw_mem w)(bs_input_arr bs \<mapsto> segment_pairs l 64 @ drop 128 arr)"
  let ?m2 = "?m1(bs_input_arr_local bs \<mapsto> segment_pairs l 64 @ drop 128 loc)"
  let ?m3 = "?m2(bs_output bs \<mapsto> out[3 := 0])"
  let ?launch = "t_bind (hsa e (Queue_load_index (bs_queue bs))) (\<lambda>(_, idx).
     t_then (WriteAQLToQueue e aql (bs_queue bs))
    (t_then (AtomicSetPacketHeader e (dispatch_header 0) (pk_setup aql) (bs_queue bs) (word_out idx))
    (t_then (ignored e (Queue_store_index (bs_queue bs) (word_out idx + 1)))
    (t_then (ring_doorbell e (bs_queue bs) (word_out idx)) (t_bind (signal_wait e (bs_signal bs)) (\<lambda>v.
     t_then (if v \<noteq> 0 then throw_if_error e HSA_STATUS_ERROR [] else t_ret ())
    (t_then (ignored e (Signal_store (bs_signal bs) 1))
    (t_bind (load_word (bs_output bs) 0) (\<lambda>o0.
     let lower = o0 * 8; upper = lower + 8 - 1 in t_ret (lower, upper, (upper - lower + 1) div 64))))))))))"
  have launch: "wp ?launch Q (w\<lparr>gw_hsa := h, gw_mem := ?m3\<rparr>)" for h
  proof (rule wp_launch [OF conf kernel])
    fix order rings h'
    assume order: "set order = {..<unat (pk_grid_x aql)}"
    let ?out = "fold (binarySearch (segment_pairs l 64 @ drop 128 loc) (ucast (ucast (bs_find_me bs) :: u64))) order (out[3 := 0])"
    have "length ?out = length out" by simp
    then have "?out \<noteq> []" using mem(4) by (metis le_zero_eq list.size(3) zero_neq_numeral)
    moreover have "pass_output l (bs_find_me bs) out ?out" unfolding pass_output_def
      by (intro exI [of _ order] exI [of _ "drop 128 loc"]) (simp add: order aql ucast_32_64_32)
    ultimately show "wp (t_bind (signal_wait e (bs_signal bs)) (\<lambda>v.
        t_then (if v \<noteq> 0 then throw_if_error e HSA_STATUS_ERROR [] else t_ret ())
       (t_then (ignored e (Signal_store (bs_signal bs) 1)) (t_bind (load_word (bs_output bs) 0) (\<lambda>o0.
        let lower = o0 * 8; upper = lower + 8 - 1 in t_ret (lower, upper, (upper - lower + 1) div 64)))))) Q
      ((w\<lparr>gw_hsa := h, gw_mem := ?m3\<rparr>)\<lparr>gw_rings := rings, gw_mem := (gw_mem (w\<lparr>gw_hsa := h, gw_mem := ?m3\<rparr>))(bs_output bs \<mapsto> ?out), gw_hsa := h'\<rparr>)"
      using mem diff by (intro search_tail_wp [OF conf, where out = ?out] Q) auto
  qed (use mem diff args aql in auto)
  have "wp (AgentMemcpy e (bs_input_arr_local bs) (bs_input_arr bs) 128) (\<lambda>_. wp (store_word (bs_output bs) 3 0) (\<lambda>_. wp ?launch Q)) (w\<lparr>gw_mem := ?m1\<rparr>)"
    using mem diff launch by (intro wp_copy [OF conf copy, where d = loc and s = "segment_pairs l 64 @ drop 128 arr"]) (auto simp: wp_store)
  then show ?thesis
    unfolding search_pass_def wp_then n using diff by (intro wp_mono [OF segment_ends_wp [OF n mem(1,2,5,6)]]) auto
qed

section \<open>The whole search\<close>

lemma scan_region_found:
  assumes "gw_mem w (bs_input bs) = Some l" and "\<forall>i\<in>set is. i < length l" and "\<exists>i\<in>set is. l ! i = bs_find_me bs"
    and "gw_mem w (bs_output bs) = Some out" and "4 \<le> length out" and "bs_input bs \<noteq> bs_output bs"
  shows "wp (scan_region bs is) (\<lambda>_ w'. \<exists>i\<in>set is. l ! i = bs_find_me bs
    \<and> (\<exists>out'. gw_mem w' (bs_output bs) = Some out' \<and> out' ! 0 = word_of_nat i \<and> out' ! 1 = word_of_nat (Suc i) \<and> out' ! 2 = 1)) w"
  using assms
proof (induction "is" arbitrary: w out)
  case (Cons i "is")
  show ?case
  proof (cases "l ! i = bs_find_me bs")
    case True
    moreover have "out \<noteq> []" using Cons.prems(5) by auto
    ultimately show ?thesis using Cons.prems by (auto simp: wp_load wp_store)
  next
    case False
    let ?w = "w\<lparr>gw_mem := (gw_mem w)(bs_output bs \<mapsto> out[2 := 0])\<rparr>"
    from False Cons.prems have "wp (scan_region bs is) (\<lambda>_ w'. \<exists>i\<in>set is. l ! i = bs_find_me bs
      \<and> (\<exists>out'. gw_mem w' (bs_output bs) = Some out' \<and> out' ! 0 = word_of_nat i \<and> out' ! 1 = word_of_nat (Suc i) \<and> out' ! 2 = 1)) ?w"
      by (intro Cons.IH [where out = "out[2 := 0]"]) auto
    then have "wp (scan_region bs is) (\<lambda>_ w'. \<exists>i\<in>set (i # is). l ! i = bs_find_me bs
      \<and> (\<exists>out'. gw_mem w' (bs_output bs) = Some out' \<and> out' ! 0 = word_of_nat i \<and> out' ! 1 = word_of_nat (Suc i) \<and> out' ! 2 = 1)) ?w"
      by (rule wp_mono) auto
    with False Cons.prems show ?thesis by (auto simp: wp_load wp_store)
  qed
qed simp

lemma search_loop_wp:
  assumes "wp (search_pass e bs aql 8) (\<lambda>r w'. snd (snd r) = 0 \<and> Q r w') w" and "gw_mem w (bs_output bs) = Some out" and "3 < length out" and "out ! 3 \<noteq> 0"
  shows "wp (search_loop e bs aql (lo, up, 8)) Q w"
proof -
  from assms(1) obtain r w' where pass: "search_pass e bs aql 8 w = Some (Inr r, w')" "snd (snd r) = 0" "Q r w'" unfolding wp_def by blast
  moreover have "\<not> (8 :: u32) \<le> 1" by (simp add: word_le_nat_alt)
  ultimately have "search_loop e bs aql (lo, up, 8) w = Some (Inr r, w')" using assms(2-4)
    by (simp add: search_loop.simps [of e bs aql "(lo, up, 8)"] search_loop.simps [of e bs aql r] load_word_def)
  with pass(3) show ?thesis by (auto simp: wp_def)
qed

lemma adjust_work_constants:
  "bs_length bs = kBinarySearchLength \<Longrightarrow> bs_work_group_size bs = kWorkGroupSize \<Longrightarrow>
   adjust_work bs = bs\<lparr>bs_work_group_size := 64, bs_num_sub_divisions := 64, bs_work_grid_size := 64\<rparr>"
  by (simp add: adjust_work_def kBinarySearchLength_def kWorkGroupSize_def Let_def)


text \<open>In a sorted array the segments around the element contain it.\<close>

lemma hit_contains:
  assumes "sorted (take 512 l)" and "512 \<le> length l" and "f \<in> set (take 512 l)" and "t < 64" and "hits (segment_pairs l 64 @ srt) f t"
  shows "\<exists>i\<in>{8 * t..<8 * t + 8}. l ! i = f"
proof -
  from assms(3) obtain j where j: "j < 512" "l ! j = f" using assms(2) by (auto simp: in_set_conv_nth)
  have mono: "l ! a \<le> l ! b" if "a \<le> b" "b < 512" for a b
    using sorted_nth_mono [OF assms(1), of a b] that assms(2) by simp
  from assms(4,5) have ends: "l ! (8 * t) \<le> f" "f \<le> l ! (8 * t + 7)" using nth_segment_pairs [of t 64 l]
    by (simp_all add: hits_def nth_append)
  consider "j < 8 * t" | "8 * t \<le> j" "j < 8 * t + 8" | "8 * t + 8 \<le> j" by linarith
  then show ?thesis
  proof cases
    case 1
    then have "l ! (8 * t) = f" using mono [of j "8 * t"] ends(1) j assms(4) by simp
    then show ?thesis by (intro bexI [of _ "8 * t"]) auto
  next
    case 3
    then have "l ! (8 * t + 7) = f" using mono [of "8 * t + 7" j] ends(2) j by simp
    then show ?thesis by (intro bexI [of _ "8 * t + 7"]) auto
  qed (use j in auto)
qed

lemma segment_hits:
  assumes "sorted (take 512 l)" and "512 \<le> length l" and "f \<in> set (take 512 l)"
  shows "\<exists>t<64. hits (segment_pairs l 64 @ srt) f t"
proof -
  from assms(3) obtain j where j: "j < 512" "l ! j = f" using assms(2) by (auto simp: in_set_conv_nth)
  let ?t = "j div 8"
  have t: "8 * ?t \<le> j" "j \<le> 8 * ?t + 7" "?t < 64" using j(1) by auto
  then have "l ! (8 * ?t) \<le> f" "f \<le> l ! (8 * ?t + 7)"
    using sorted_nth_mono [OF assms(1), of "8 * ?t" j] sorted_nth_mono [OF assms(1), of j "8 * ?t + 7"] j assms(2) by auto
  then show ?thesis using nth_segment_pairs [OF t(3), of l] t(3) by (intro exI [of _ ?t]) (simp add: hits_def nth_append)
qed

lemma pass_output_hit:
  assumes "sorted (take 512 l)" and "512 \<le> length l" and "f \<in> set (take 512 l)" and "4 \<le> length out" and "pass_output l f out out'"
  shows "\<exists>t<64. out' ! 0 = word_of_nat t \<and> (\<exists>i\<in>{8 * t..<8 * t + 8}. l ! i = f)" and "length out' = length out"
proof -
  from assms(5) obtain order srt where order: "set order = {..<64}"
    and out': "out' = fold (binarySearch (segment_pairs l 64 @ srt) f) order (out[3 := 0])" unfolding pass_output_def by auto
  from segment_hits [OF assms(1-3), of srt] order have "\<exists>t\<in>set order. hits (segment_pairs l 64 @ srt) f t" by auto
  from threads_some [OF this, of "out[3 := 0]"] assms(4) order out' obtain t where
    "t < 64" "hits (segment_pairs l 64 @ srt) f t" "out' ! 0 = word_of_nat t" by auto
  with hit_contains [OF assms(1-3), of t srt] show "\<exists>t<64. out' ! 0 = word_of_nat t \<and> (\<exists>i\<in>{8 * t..<8 * t + 8}. l ! i = f)" by blast
  show "length out' = length out" using out' by simp
qed

text \<open>Up to the final scan, when the element lies between the ends of the array.\<close>

lemma run_search_reduces:
  assumes conf: "conforming_calls e bs" and copy: "conforming_copy e" and kernel: "runs_search_kernel e (ki_object (bs_kernel bs))"
    and len: "bs_length bs = kBinarySearchLength" "bs_work_group_size bs = kWorkGroupSize"
    and align: "ki_kernarg_align (bs_kernel bs) = 2 ^ k" "k \<le> 10" and bufs: "search_buffers bs l out (gw_mem w)"
    and ready: "kernargs_ready e bs (gw_hsa w)"
    and within: "l ! 0 \<le> bs_find_me bs" "bs_find_me bs \<le> l ! 511"
  obtains out' bs' w' where "pass_output l (bs_find_me bs) (out[3 := 1]) out'" and "gw_mem w' (bs_input bs) = Some l" and "gw_mem w' (bs_output bs) = Some out'"
    and "bs_input bs' = bs_input bs" and "bs_output bs' = bs_output bs" and "bs_find_me bs' = bs_find_me bs"
    and "run_search e bs w = t_then (scan_region bs' [unat (out' ! 0 * 8)..<Suc (unat (out' ! 0 * 8 + 7))]) (t_ret bs') w'"
proof -
  let ?bs = "bs\<lparr>bs_work_group_size := 64, bs_num_sub_divisions := 64, bs_work_grid_size := 64\<rparr>"
  let ?args = "[bs_output bs, bs_input_arr_local bs, ucast (bs_find_me bs), 0, 0, 0, 0, 0, 0]"
  let ?w = "w\<lparr>gw_mem := (gw_mem w)(bs_output bs \<mapsto> out[3 := 1])\<rparr>"
  let ?Q = "\<lambda>b (r :: u32 \<times> u32 \<times> u32) w'. bs_input b = bs_input bs \<and> bs_output b = bs_output bs \<and> bs_find_me b = bs_find_me bs
    \<and> bs_length b = bs_length bs \<and> bs_num_sub_divisions b = 64
    \<and> (\<exists>out'. pass_output l (bs_find_me bs) (out[3 := 1]) out' \<and> gw_mem w' (bs_input bs) = Some l \<and> gw_mem w' (bs_output bs) = Some out'
       \<and> r = (out' ! 0 * 8, out' ! 0 * 8 + 7, 0))"
  have conf': "conforming_calls e ?bs" and pkt: "\<And>addr buf. conforming_calls e (?bs\<lparr>bs_kern_arg_buffer := buf, bs_kern_arg_address := addr\<rparr>)"
    using conf by (simp_all add: conforming_calls_def)
  have "wp (AllocAndSetKernArgs e ?bs ?args 80) (\<lambda>b. wp (search_loop e b (PopulateAQLPacket b) (0, 511, 8)) (?Q b)) ?w"
  proof (rule wp_kernargs [OF conf', where k = k])
    fix buf cells addr h
    assume buf: "buf \<notin> {bs_input ?bs, bs_output ?bs, bs_input_arr ?bs, bs_input_arr_local ?bs}"
    let ?b = "?bs\<lparr>bs_kern_arg_buffer := buf, bs_kern_arg_address := addr\<rparr>"
    let ?w2 = "?w\<lparr>gw_hsa := h, gw_mem := (gw_mem ?w)(buf \<mapsto> cells), gw_args := (gw_args ?w)(addr \<mapsto> ?args)\<rparr>"
    have "wp (search_pass e ?b (PopulateAQLPacket ?b) 8) (\<lambda>r w'. snd (snd r) = 0 \<and> ?Q ?b r w') ?w2"
    proof (rule search_pass_wp [OF pkt copy, where l = l and out = "out[3 := 1]"])
      show "search_buffers ?b l (out[3 := 1]) (gw_mem ?w2)" using bufs buf by (auto simp: search_buffers_def)
    qed (use kernel in \<open>auto simp: PopulateAQLPacket_def search_packet_def\<close>)
    then show "wp (search_loop e ?b (PopulateAQLPacket ?b) (0, 511, 8)) (?Q ?b) ?w2"
      by (rule search_loop_wp [where out = "out[3 := 1]"]) (use bufs buf in \<open>auto simp: search_buffers_def\<close>)
  qed (use align ready in \<open>auto simp: kernargs_ready_def\<close>)
  then obtain b w2 r w3 where steps: "AllocAndSetKernArgs e ?bs ?args 80 ?w = Some (Inr b, w2)"
    "search_loop e b (PopulateAQLPacket b) (0, 511, 8) w2 = Some (Inr r, w3)" and Q: "?Q b r w3" unfolding wp_def by blast
  from Q obtain out' where out': "pass_output l (bs_find_me bs) (out[3 := 1]) out'" "gw_mem w3 (bs_input bs) = Some l" "gw_mem w3 (bs_output bs) = Some out'"
    "r = (out' ! 0 * 8, out' ! 0 * 8 + 7, 0)" by blast
  from bufs have mem: "gw_mem w (bs_input bs) = Some l" "l \<noteq> []" "511 < length l" "gw_mem w (bs_output bs) = Some out" "3 < length out"
    by (auto simp: search_buffers_def)
  show ?thesis
  proof (rule that [OF out'(1-3)])
    from Q have "bs_length b = bs_length bs \<and> bs_num_sub_divisions b = 64" by blast
    then show "run_search e bs w = t_then (scan_region b [unat (out' ! 0 * 8)..<Suc (unat (out' ! 0 * 8 + 7))]) (t_ret b) w3"
      using steps mem within unfolding out'(4)
      by (simp add: run_search_def adjust_work_constants [OF len] Let_def load_word_def store_word_def t_then_def t_bind_def t_ret_def
         len kBinarySearchLength_def not_less [symmetric] del: upt_Suc)
  qed (use Q in auto)
qed

text \<open>A machine for the examples: the array holds the even numbers, the output whatever was in the memory.\<close>

definition demo_search :: "u32 \<Rightarrow> binary_search" where
  "demo_search f = \<lparr>bs_length = kBinarySearchLength, bs_work_group_size = kWorkGroupSize, bs_work_grid_size = 0, bs_num_sub_divisions = 2, bs_find_me = f,
     bs_input = 1, bs_input_arr = 2, bs_input_arr_local = 3, bs_output = 4, bs_kern_arg_buffer = 0, bs_kern_arg_address = 0,
     bs_kernel_file_name = [], bs_kernel_name = [],
     bs_kernel = \<lparr>ki_object = 11, ki_private_size = 0, ki_group_size = 0, ki_kernarg_size = 80, ki_kernarg_align = 16\<rparr>,
     bs_gpu_dev = 7, bs_cpu_dev = 8, bs_signal = 5, bs_queue = 6, bs_cpu_pool = 9, bs_gpu_pool = 9, bs_kern_arg_pool = 9\<rparr>"

text \<open>The runtime counts the pages that it has handed out, up to 1000, and rounds sizes up to pages of 4096 bytes.\<close>

definition pages :: "nat \<Rightarrow> u64 set" where
  "pages k = (\<lambda>i. word_of_nat (4096 * Suc i)) ` {..<min k 1000}"

definition search_hsa :: "nat hsa" where
  "search_hsa = \<lparr>hs_call = (\<lambda>c k. case c of
       Pool_allocate _ n \<Rightarrow> (HSA_STATUS_SUCCESS, H_buffer (word_of_nat (4096 * Suc (min k 1000))) (replicate (1024 * ((unat n + 4096 - 1) div 4096)) 0), Suc k)
     | _ \<Rightarrow> (HSA_STATUS_SUCCESS, H_word 0, k)),
     hs_run = (\<lambda>pkt args mem h.
       (case args (pk_kernarg pkt) of
          Some (outp # sp # f # _) \<Rightarrow> mem(outp := map_option (fold (binarySearch (the (mem sp)) (ucast f)) [0..<unat (pk_grid_x pkt)]) (mem outp))
        | _ \<Rightarrow> mem, h)),
     hs_wait = (\<lambda>_ h. Some (0, h)), hs_copy = (\<lambda>dst src n mem h. (HSA_STATUS_SUCCESS, mem(dst := map_option (\<lambda>d. take n (the (mem src)) @ drop n d) (mem dst)), h)),
     hs_queue_size = (\<lambda>_. 128), hs_error_text = (\<lambda>_. [])\<rparr>"

definition even_numbers :: "u32 list" where
  "even_numbers = map (\<lambda>i. word_of_nat (2 * i)) [0..<512]"

definition search_world :: "nat gpu_world" where
  "search_world = \<lparr>gw_hsa = 0, gw_mem = [1 \<mapsto> even_numbers, 2 \<mapsto> replicate 128 0, 3 \<mapsto> replicate 128 0, 4 \<mapsto> [77, 0, 0, 0]], gw_args = Map.empty,
     gw_rings = (\<lambda>_ _. \<lparr>pk_header = 0, pk_setup = 0, pk_workgroup_x = 0, pk_grid_x = 0, pk_private_segment = 0, pk_group_segment = 0,
       pk_kernel_object = 0, pk_kernarg = 0, pk_signal = 0\<rparr>)\<rparr>"

lemma search_hsa_conforms: "conforming_calls search_hsa (demo_search f)" "conforming_copy search_hsa" "runs_search_kernel search_hsa obj"
proof -
  show "conforming_calls search_hsa (demo_search f)" by (simp add: conforming_calls_def search_hsa_def demo_search_def split: hsa_call.split)
  show "conforming_copy search_hsa" by (simp add: conforming_copy_def search_hsa_def)
  show "runs_search_kernel search_hsa obj" unfolding runs_search_kernel_def
  proof (intro allI impI)
    fix pkt :: aql_packet and args :: kernargs and mem :: buffers and h outp sp f rest out srt
    assume "args (pk_kernarg pkt) = Some (outp # sp # f # rest)" "mem outp = Some out" "mem sp = Some srt"
    then have "hs_run search_hsa pkt args mem h = (mem(outp \<mapsto> fold (binarySearch srt (ucast f)) [0..<unat (pk_grid_x pkt)] out), h)"
      by (simp add: search_hsa_def)
    moreover have "set [0..<unat (pk_grid_x pkt)] = {..<unat (pk_grid_x pkt)}" by auto
    ultimately show "\<exists>order h'. set order = {..<unat (pk_grid_x pkt)} \<and> distinct order
        \<and> hs_run search_hsa pkt args mem h = (mem(outp \<mapsto> fold (binarySearch srt (ucast f)) order out), h')"
      by (metis distinct_upt)
  qed
qed

lemma page_inj: "inj_on (\<lambda>i. word_of_nat (4096 * Suc i) :: u64) {..<1001}"
proof (rule inj_onI)
  fix i j :: nat
  assume "i \<in> {..<1001}" "j \<in> {..<1001}" "word_of_nat (4096 * Suc i) = (word_of_nat (4096 * Suc j) :: u64)"
  moreover have "unat (word_of_nat (4096 * Suc i) :: u64) = 4096 * Suc i" if "i < 1001" for i
    using that by (simp only: unsigned_of_nat) (simp add: take_bit_nat_eq_self)
  ultimately show "i = j" by (metis lessThan_iff mult_cancel1 nat.inject zero_neq_numeral)
qed

lemma card_pages: "card (pages k) = min k 1000"
proof -
  have "{..<min k 1000} \<subseteq> {..<1001 :: nat}" by auto
  from card_image [OF inj_on_subset [OF page_inj this]] show ?thesis unfolding pages_def by (simp only: card_lessThan)
qed

lemma search_hsa_granules: "allocates_granules search_hsa 4096 pages 1000"
proof -
  have "\<exists>p cells h'. hs_call search_hsa (Pool_allocate pool n) h = (HSA_STATUS_SUCCESS, H_buffer p cells, h') \<and> p \<notin> pages h \<and> pages h' = insert p (pages h)
        \<and> 4 * length cells = 4096 * ((unat n + 4096 - 1) div 4096) \<and> unat p + 4 * length cells \<le> 2 ^ 64"
    if "unat n \<le> 4096" "card (pages h) < 1000" for pool n h
  proof -
    from that(2) have h: "h < 1000" by (simp add: card_pages)
    have "word_of_nat (4096 * Suc h) \<notin> pages h"
      using inj_on_image_mem_iff [OF page_inj, of h "{..<h}"] h by (auto simp: pages_def min_def)
    moreover have "pages (Suc h) = insert (word_of_nat (4096 * Suc h)) (pages h)" using h by (simp add: pages_def lessThan_Suc min_def)
    moreover have "unat (word_of_nat (4096 * Suc h) :: u64) = 4096 * Suc h" using h by (simp only: unsigned_of_nat) (simp add: take_bit_nat_eq_self)
    moreover have "4096 * ((unat n + 4096 - 1) div 4096) \<le> 8192" using that(1) by simp
    moreover have "4096 * Suc h + 8192 \<le> 2 ^ 64" using h by simp
    ultimately show ?thesis using h by (simp add: search_hsa_def min_def)
  qed
  then show ?thesis by (simp add: allocates_granules_def) (simp add: search_hsa_def)
qed

lemma search_world_kernargs: "kernargs_ready search_hsa (demo_search f) (gw_hsa search_world)"
  unfolding kernargs_ready_def by (auto simp: search_hsa_def demo_search_def search_world_def)

lemma search_world_buffers: "search_buffers (demo_search f) even_numbers [77, 0, 0, 0] (gw_mem search_world)"
  by (simp add: search_buffers_def demo_search_def search_world_def even_numbers_def)

lemma nth_even_numbers: "i < 512 \<Longrightarrow> unat (even_numbers ! i) = 2 * i"
  by (simp add: even_numbers_def unsigned_of_nat take_bit_nat_eq_self del: of_nat_mult)

lemma length_even_numbers [simp]: "length even_numbers = 512"
  by (simp add: even_numbers_def)

section \<open>Properties\<close>

lemma search_finds:
  assumes "conforming_calls e bs" and "conforming_copy e" and "runs_search_kernel e (ki_object (bs_kernel bs))"
    and "bs_length bs = kBinarySearchLength" and "bs_work_group_size bs = kWorkGroupSize"
    and "ki_kernarg_align (bs_kernel bs) = 2 ^ k" and "k \<le> 10" and "search_buffers bs l out (gw_mem w)"
    and "kernargs_ready e bs (gw_hsa w)" and "sorted (take 512 l)" and "bs_find_me bs \<in> set (take 512 l)"
  shows "\<exists>bs' w' i out'. run_search e bs w = Some (Inr bs', w') \<and> l ! i = bs_find_me bs \<and> i < 512
    \<and> gw_mem w' (bs_output bs) = Some out' \<and> out' ! 0 = word_of_nat i \<and> out' ! 1 = word_of_nat (Suc i) \<and> out' ! 2 = 1"
proof -
  from assms(8) have bufs: "512 \<le> length l" "4 \<le> length out" "bs_input bs \<noteq> bs_output bs" by (auto simp: search_buffers_def)
  from assms(11) obtain j where j: "j < 512" "l ! j = bs_find_me bs" using bufs(1) by (auto simp: in_set_conv_nth)
  then have "l ! 0 \<le> bs_find_me bs" "bs_find_me bs \<le> l ! 511"
    using sorted_nth_mono [OF assms(10), of 0 j] sorted_nth_mono [OF assms(10), of j 511] bufs(1) by auto
  from run_search_reduces [OF assms(1-9) this] obtain out' bs' w' where out': "pass_output l (bs_find_me bs) (out[3 := 1]) out'"
    and w': "gw_mem w' (bs_input bs') = Some l" "gw_mem w' (bs_output bs') = Some out'" and bs': "bs_input bs' = bs_input bs" "bs_output bs' = bs_output bs"
      "bs_find_me bs' = bs_find_me bs"
    and run: "run_search e bs w = t_then (scan_region bs' [unat (out' ! 0 * 8)..<Suc (unat (out' ! 0 * 8 + 7))]) (t_ret bs') w'" by (metis (full_types))
  from pass_output_hit [OF assms(10) bufs(1) assms(11) _ out'] bufs(2) obtain t where t: "t < 64" "out' ! 0 = word_of_nat t"
    "\<exists>i\<in>{8 * t..<8 * t + 8}. l ! i = bs_find_me bs" and len: "length out' = length out" by auto
  from t have "unat (out' ! 0) = t" by (simp add: unsigned_of_nat take_bit_nat_eq_self)
  with t(1) have "unat (out' ! 0 * 8) = 8 * t" "unat (out' ! 0 * 8 + 7) = 8 * t + 7" using segment_bounds [of "out' ! 0"] by simp_all
  then have region: "[unat (out' ! 0 * 8)..<Suc (unat (out' ! 0 * 8 + 7))] = [8 * t..<8 * t + 8]" by (simp only: add_Suc_right [symmetric]) simp
  have "wp (scan_region bs' [8 * t..<8 * t + 8]) (\<lambda>_ w'. \<exists>i\<in>set [8 * t..<8 * t + 8]. l ! i = bs_find_me bs'
    \<and> (\<exists>out'. gw_mem w' (bs_output bs') = Some out' \<and> out' ! 0 = word_of_nat i \<and> out' ! 1 = word_of_nat (Suc i) \<and> out' ! 2 = 1)) w'"
    by (rule scan_region_found [OF w'(1) _ _ w'(2)]) (use t bufs bs' len in auto)
  then obtain w2 i out2 where scan: "scan_region bs' [8 * t..<8 * t + 8] w' = Some (Inr (), w2)" and i: "i \<in> set [8 * t..<8 * t + 8]" "l ! i = bs_find_me bs"
    and found: "gw_mem w2 (bs_output bs) = Some out2" "out2 ! 0 = word_of_nat i" "out2 ! 1 = word_of_nat (Suc i)" "out2 ! 2 = 1"
    unfolding wp_def bs' by auto
  from scan have "run_search e bs w = Some (Inr bs', w2)" unfolding run region by (simp add: t_then_def t_bind_def t_ret_def)
  moreover have "i < 512" using i(1) t(1) by simp
  ultimately show ?thesis using i(2) found by blast
qed

text \<open>The elements of the array that the program searches: the sums of the steps.\<close>

fun array_element :: "(nat \<Rightarrow> u32) \<Rightarrow> nat \<Rightarrow> u32" where
  "array_element steps 0 = 0"
| "array_element steps (Suc i) = array_element steps i + steps (Suc i)"

lemma array_element_bound:
  assumes "\<And>i. unat (steps i) \<le> 10240"
  shows "i < 512 \<Longrightarrow> unat (array_element steps i) \<le> 10240 * i"
proof (induction i)
  case (Suc i)
  then have "unat (array_element steps i) + unat (steps (Suc i)) \<le> 10240 * Suc i" using assms [of "Suc i"] by simp
  moreover have "10240 * Suc i < 2 ^ 32" using Suc.prems by simp
  ultimately show ?case by (simp add: unat_word_ariths)
qed simp

lemma array_element_mono:
  assumes "\<And>i. unat (steps i) \<le> 10240" and "i \<le> j" and "j < 512"
  shows "array_element steps i \<le> array_element steps j"
  using assms(2,3)
proof (induction j rule: dec_induct)
  case (step j)
  have "unat (array_element steps j) + unat (steps (Suc j)) < 2 ^ 32" using array_element_bound [where steps = steps and i = j, OF assms(1)] assms(1) [of "Suc j"] step.prems by simp
  then have "array_element steps j \<le> array_element steps (Suc j)" by (simp add: word_le_nat_alt unat_word_ariths)
  with step.IH step.prems show ?case by (meson Suc_lessD order_trans)
qed simp

lemma wp_clear: "wp (clear_bytes p n) Q w \<longleftrightarrow> (\<exists>l. gw_mem w p = Some l \<and> n \<le> 4 * length l
    \<and> Q () (w\<lparr>gw_mem := (gw_mem w)(p \<mapsto> replicate (n div 4) 0 @ drop (n div 4) l)\<rparr>))"
  by (auto simp: wp_def clear_bytes_def split: option.split)

lemma wp_shared_buffer:
  assumes "conforming_calls e bs" and alloc: "allocates_granules e g used limit" and "0 < g" and "card (used h) < limit"
    and len: "0 < len" "unat len \<le> 4096"
  obtains p cells h' where "\<And>w Q. gw_hsa w = h \<Longrightarrow> wp (shared_buffer e b len) Q w = Q p (w\<lparr>gw_hsa := h', gw_mem := (gw_mem w)(p \<mapsto> cells)\<rparr>)"
    and "p \<notin> used h" and "used h' = insert p (used h)" and "unat len \<le> 4 * length cells" and "g \<le> 4 * length cells"
proof -
  have n: "unat (ucast len :: u64) = unat len" using len(2) by (simp add: unsigned_ucast_eq take_bit_nat_eq_self)
  with len have pos: "0 < (ucast len :: u64)" "unat (ucast len :: u64) \<le> 4096" "0 < unat len" by (simp_all add: word_less_nat_alt)
  with alloc assms(4) obtain p cells h1 where c: "hs_call e (Pool_allocate (bs_cpu_pool b) (ucast len)) h = (HSA_STATUS_SUCCESS, H_buffer p cells, h1)"
    "p \<notin> used h" "used h1 = insert p (used h)" "4 * length cells = g * ((unat len + g - 1) div g)"
    unfolding allocates_granules_def n [symmetric] by blast
  obtain out h2 where allow: "hs_call e (Allow_access [bs_gpu_dev b, bs_cpu_dev b] p) h1 = (HSA_STATUS_SUCCESS, out, h2)"
    using assms(1) by (metis conforming_calls_def prod.collapse)
  moreover from alloc have "used (snd (snd (hs_call e (Allow_access [bs_gpu_dev b, bs_cpu_dev b] p) h1))) = used h1" unfolding allocates_granules_def by blast
  ultimately have "used h2 = insert p (used h)" using c(3) by simp
  moreover have "shared_buffer e b len w = Some (Inr p, w\<lparr>gw_hsa := h2, gw_mem := (gw_mem w)(p \<mapsto> cells)\<rparr>)" if "gw_hsa w = h" for w
    using c(1) allow that by (simp add: shared_buffer_def allocate_def t_defs)
  ultimately show ?thesis using that [of p cells h2] c(2) allocated_size [OF assms(3) pos(3) c(4)] by (simp add: wp_def)
qed

text \<open>The loop that fills the array.\<close>

lemma wp_fill:
  assumes "gw_mem w p = Some l" and "512 \<le> length l" and "l ! 0 = 0"
    and Q: "\<And>l'. length l' = length l \<Longrightarrow> (\<And>i. i < 512 \<Longrightarrow> l' ! i = array_element steps i) \<Longrightarrow> Q () (w\<lparr>gw_mem := (gw_mem w)(p \<mapsto> l')\<rparr>)"
  shows "wp (t_for [1..<512] (\<lambda>i. t_bind (load_word p (i - 1)) (\<lambda>x. store_word p i (x + steps i)))) Q w"
proof -
  let ?I = "\<lambda>n w'. \<exists>l'. w' = w\<lparr>gw_mem := (gw_mem w)(p \<mapsto> l')\<rparr> \<and> length l' = length l \<and> (\<forall>i<n. l' ! i = array_element steps i)"
  have "wp (t_for [1..<512] (\<lambda>i. t_bind (load_word p (i - 1)) (\<lambda>x. store_word p i (x + steps i)))) (\<lambda>_. ?I 512) w"
  proof (rule wp_for [where I = ?I])
    show "?I 1 w" using assms(1,3) by (intro exI [of _ l]) (simp add: fun_upd_idem)
    fix i w'
    assume i: "1 \<le> i" "i < 512" and "?I i w'"
    then obtain l' where l': "w' = w\<lparr>gw_mem := (gw_mem w)(p \<mapsto> l')\<rparr>" "length l' = length l" "\<And>j. j < i \<Longrightarrow> l' ! j = array_element steps j" by blast
    obtain j where j: "i = Suc j" using i(1) by (cases i) auto
    have "?I (Suc i) (w\<lparr>gw_mem := (gw_mem w)(p \<mapsto> l'[i := l' ! (i - 1) + steps i])\<rparr>)"
      using l'(2,3) i assms(2) by (intro exI [of _ "l'[i := l' ! (i - 1) + steps i]"]) (auto simp: j less_Suc_eq)
    then show "wp (t_bind (load_word p (i - 1)) (\<lambda>x. store_word p i (x + steps i))) (\<lambda>_. ?I (Suc i)) w'"
      using l'(1,2) i assms(2) by (simp add: wp_load wp_store)
  qed simp
  then show ?thesis by (rule wp_mono) (use Q in auto)
qed

definition with_buffers :: "binary_search \<Rightarrow> binary_search \<Rightarrow> binary_search" where
  "with_buffers bs b = bs\<lparr>bs_input := bs_input b, bs_output := bs_output b, bs_input_arr := bs_input_arr b, bs_input_arr_local := bs_input_arr_local b\<rparr>"

lemma AllocateAndInitBuffers_ready:
  assumes conf: "conforming_calls e bs" and alloc: "allocates_granules e g used limit" and g: "2048 \<le> g" and room: "card (used (gw_hsa w)) + 4 \<le> limit"
    and len: "bs_num_sub_divisions bs = 2" "bs_length bs = 512"
  shows "wp (AllocateAndInitBuffers e steps bs) (\<lambda>b w'. b = with_buffers bs b
    \<and> {bs_input b, bs_output b, bs_input_arr b, bs_input_arr_local b} \<subseteq> used (gw_hsa w') \<and> card (used (gw_hsa w')) = card (used (gw_hsa w)) + 4
    \<and> (\<exists>l out. search_buffers b l out (gw_mem w') \<and> (\<forall>i<512. l ! i = array_element steps i))) w"
proof -
  have g0: "0 < g" using g by simp
  note buffer = wp_shared_buffer [OF conf alloc g0, where len = 16 and b = bs]
  obtain p1 c1 h1 where 1: "\<And>w' Q. gw_hsa w' = gw_hsa w \<Longrightarrow> wp (shared_buffer e bs 16) Q w' = Q p1 (w'\<lparr>gw_hsa := h1, gw_mem := (gw_mem w')(p1 \<mapsto> c1)\<rparr>)"
    "p1 \<notin> used (gw_hsa w)" "used h1 = insert p1 (used (gw_hsa w))" "g \<le> 4 * length c1"
    by (rule buffer [of "gw_hsa w"]) (use room in auto)
  obtain p2 c2 h2 where 2: "\<And>w' Q. gw_hsa w' = h1 \<Longrightarrow> wp (shared_buffer e bs 16) Q w' = Q p2 (w'\<lparr>gw_hsa := h2, gw_mem := (gw_mem w')(p2 \<mapsto> c2)\<rparr>)"
    "p2 \<notin> used h1" "used h2 = insert p2 (used h1)" "g \<le> 4 * length c2"
    by (rule buffer [of h1]) (use room 1 in auto)
  obtain p3 c3 h3 where 3: "\<And>w' Q. gw_hsa w' = h2 \<Longrightarrow> wp (shared_buffer e bs 16) Q w' = Q p3 (w'\<lparr>gw_hsa := h3, gw_mem := (gw_mem w')(p3 \<mapsto> c3)\<rparr>)"
    "p3 \<notin> used h2" "used h3 = insert p3 (used h2)" "g \<le> 4 * length c3"
    by (rule buffer [of h2]) (use room 1 2 in auto)
  obtain p4 c4 h4 where 4: "\<And>w' Q. gw_hsa w' = h3 \<Longrightarrow> wp (shared_buffer e bs 16) Q w' = Q p4 (w'\<lparr>gw_hsa := h4, gw_mem := (gw_mem w')(p4 \<mapsto> c4)\<rparr>)"
    "p4 \<notin> used h3" "used h4 = insert p4 (used h3)" "g \<le> 4 * length c4"
    by (rule buffer [of h3]) (use room 1 2 3 in auto)
  have diff: "p2 \<noteq> p1" "p3 \<noteq> p1" "p3 \<noteq> p2" "p4 \<noteq> p1" "p4 \<noteq> p2" "p4 \<noteq> p3" using 1 2 3 4 by auto
  have used: "used h4 = {p4, p3, p2, p1} \<union> used (gw_hsa w)" "card (used h4) = card (used (gw_hsa w)) + 4" using 1 2 3 4 by auto
  have big: "512 \<le> length c1" "512 \<le> length c2" "512 \<le> length c3" "512 \<le> length c4" using g 1 2 3 4 by auto
  have "(replicate 4 0 @ drop 4 c1)[0 := 0] ! 0 = 0" using nth_list_update_eq [of 0 "replicate 4 0 @ drop 4 c1" 0] by simp
  moreover have "(2 :: u32) * 2 * 4 = 16" by simp
  ultimately show ?thesis unfolding AllocateAndInitBuffers_def Let_def wp_bind wp_then len
    using diff big used
    by (auto simp: 1(1) 2(1) 3(1) 4(1) wp_clear wp_store with_buffers_def search_buffers_def intro!: wp_fill [simplified])
qed

text \<open>
  (C8) The program asks for 16 bytes for each of its buffers and uses up to 2048. On a runtime with an allocation granule of at least 2048 bytes, to which allocations are
  rounded up, and with room for the blocks, where all calls succeed, copies copy and the kernel runs each thread of its grid once, the
  buffers are allocated and the array is filled; and the search, with a loaded kernel whose arguments are aligned to a power of two up to 1024, finds an element of the array, for every order of the threads and
  every initial content of the output: the output holds an index of the element, the index after it and the mark.
  The steps between the elements are at most 10240, the bound of the program.
\<close>
theorem gpu_search_finds:
  assumes "conforming_calls e bs" and "conforming_copy e" and "allocates_granules e g used limit" and "2048 \<le> g" and "card (used (gw_hsa w)) + 4 \<le> limit"
    and "bs_length bs = kBinarySearchLength" and "bs_work_group_size bs = kWorkGroupSize" and "bs_num_sub_divisions bs = kBinarySearchLength div kWorkGroupSize"
    and "\<And>i. unat (steps i) \<le> 10240" and "bs_find_me bs \<in> array_element steps ` {..<512}"
  shows "\<exists>bs' w'. AllocateAndInitBuffers e steps bs w = Some (Inr bs', w') \<and> card (used (gw_hsa w')) = card (used (gw_hsa w)) + 4
    \<and> (\<forall>kern k h. runs_search_kernel e (ki_object kern) \<longrightarrow> ki_kernarg_align kern = 2 ^ k \<longrightarrow> k \<le> 10 \<longrightarrow> used (gw_hsa w') \<subseteq> used h \<longrightarrow> card (used h) < limit \<longrightarrow>
         (\<exists>b w2 i out. run_search e (bs'\<lparr>bs_kernel := kern\<rparr>) (w'\<lparr>gw_hsa := h\<rparr>) = Some (Inr b, w2) \<and> i < 512 \<and> array_element steps i = bs_find_me bs
            \<and> gw_mem w2 (bs_output bs') = Some out \<and> out ! 0 = word_of_nat i \<and> out ! 1 = word_of_nat (Suc i) \<and> out ! 2 = 1))"
proof -
  have "bs_num_sub_divisions bs = 2" "bs_length bs = 512" using assms(6,8) by (simp_all add: kBinarySearchLength_def kWorkGroupSize_def)
  from AllocateAndInitBuffers_ready [OF assms(1,3-5) this, of steps] obtain b w' l out where
    run: "AllocateAndInitBuffers e steps bs w = Some (Inr b, w')" and b: "b = with_buffers bs b" and card: "card (used (gw_hsa w')) = card (used (gw_hsa w)) + 4"
    and used: "{bs_input b, bs_output b, bs_input_arr b, bs_input_arr_local b} \<subseteq> used (gw_hsa w')"
    and bufs: "search_buffers b l out (gw_mem w')" and l: "\<And>i. i < 512 \<Longrightarrow> l ! i = array_element steps i" unfolding wp_def by blast
  have len: "512 \<le> length l" using bufs by (simp add: search_buffers_def)
  have sorted: "sorted (take 512 l)" using array_element_mono [where steps = steps, OF assms(9)] l len by (simp add: sorted_iff_nth_mono)
  have mem: "bs_find_me b \<in> set (take 512 l)"
  proof -
    have "bs_find_me b = bs_find_me bs" by (subst b) (simp add: with_buffers_def)
    with assms(10) l len show ?thesis by (fastforce simp: in_set_conv_nth)
  qed
  have "\<exists>b2 w2 i out. run_search e (b\<lparr>bs_kernel := kern\<rparr>) (w'\<lparr>gw_hsa := h\<rparr>) = Some (Inr b2, w2) \<and> i < 512 \<and> array_element steps i = bs_find_me bs
      \<and> gw_mem w2 (bs_output b) = Some out \<and> out ! 0 = word_of_nat i \<and> out ! 1 = word_of_nat (Suc i) \<and> out ! 2 = 1"
    if h: "runs_search_kernel e (ki_object kern)" "ki_kernarg_align kern = 2 ^ k" "k \<le> 10" "used (gw_hsa w') \<subseteq> used h" "card (used h) < limit" for kern k h
  proof -
    let ?b = "b\<lparr>bs_kernel := kern\<rparr>" and ?w = "w'\<lparr>gw_hsa := h\<rparr>"
    have q: "bs_queue b = bs_queue bs" "bs_length b = bs_length bs" "bs_work_group_size b = bs_work_group_size bs" "bs_find_me b = bs_find_me bs"
      by (subst b, simp add: with_buffers_def)+
    have "kernargs_ready e ?b (gw_hsa ?w)" by (rule granules_kernargs [OF assms(3)]) (use assms(4) h used in auto)
    moreover have "conforming_calls e ?b" using assms(1) by (simp add: conforming_calls_def q)
    ultimately show ?thesis using search_finds [of e ?b k l out ?w] assms(2,6,7) h bufs sorted mem l q by (force simp: search_buffers_def)
  qed
  with run card show ?thesis by blast
qed

lemma array_element_const: "array_element (\<lambda>_. 2) i = word_of_nat (2 * i)"
  by (induction i) simp_all

theorem gpu_search_finds_witness:
  "\<exists>bs' w' b w2 i out. AllocateAndInitBuffers search_hsa (\<lambda>_. 2) (demo_search 108) search_world = Some (Inr bs', w')
    \<and> run_search search_hsa (bs'\<lparr>bs_kernel := bs_kernel (demo_search 108)\<rparr>) w' = Some (Inr b, w2)
    \<and> i < 512 \<and> word_of_nat (2 * i) = (108 :: u32) \<and> gw_mem w2 (bs_output bs') = Some out \<and> out ! 0 = word_of_nat i \<and> out ! 2 = 1"
proof -
  have "bs_find_me (demo_search 108) \<in> array_element (\<lambda>_. 2) ` {..<512}"
    by (rule image_eqI [of _ _ 54]) (simp_all add: demo_search_def array_element_const)
  then obtain bs' w' where a: "AllocateAndInitBuffers search_hsa (\<lambda>_. 2) (demo_search 108) search_world = Some (Inr bs', w')"
      "card (pages (gw_hsa w')) = card (pages (gw_hsa search_world)) + 4"
    and s: "\<And>kern k h. runs_search_kernel search_hsa (ki_object kern) \<Longrightarrow> ki_kernarg_align kern = 2 ^ k \<Longrightarrow> k \<le> 10 \<Longrightarrow> pages (gw_hsa w') \<subseteq> pages h \<Longrightarrow> card (pages h) < 1000 \<Longrightarrow>
         (\<exists>b w2 i out. run_search search_hsa (bs'\<lparr>bs_kernel := kern\<rparr>) (w'\<lparr>gw_hsa := h\<rparr>) = Some (Inr b, w2) \<and> i < 512
            \<and> array_element (\<lambda>_. 2) i = bs_find_me (demo_search 108)
            \<and> gw_mem w2 (bs_output bs') = Some out \<and> out ! 0 = word_of_nat i \<and> out ! 1 = word_of_nat (Suc i) \<and> out ! 2 = 1)"
    using gpu_search_finds [where e = search_hsa and bs = "demo_search 108" and steps = "\<lambda>_. 2" and w = search_world,
        OF search_hsa_conforms(1,2) search_hsa_granules]
    by (auto simp: demo_search_def card_pages search_world_def kBinarySearchLength_def kWorkGroupSize_def)
  from s [OF search_hsa_conforms(3), of "bs_kernel (demo_search 108)" 4 "gw_hsa w'"] a(2)
  obtain b w2 i out where "run_search search_hsa (bs'\<lparr>bs_kernel := bs_kernel (demo_search 108)\<rparr>) w' = Some (Inr b, w2)" "i < 512"
      "array_element (\<lambda>_. 2) i = bs_find_me (demo_search 108)" "gw_mem w2 (bs_output bs') = Some out" "out ! 0 = word_of_nat i" "out ! 2 = 1"
    by (auto simp: card_pages search_world_def demo_search_def)
  with a(1) show ?thesis by (intro exI conjI) (auto simp: array_element_const demo_search_def)
qed

text \<open>
  When the element lies between the ends of the array but in no segment, for example in the step from one
  segment to the next, no thread writes the output, whose first word has never been written. Its content is
  then taken for the number of the segment, and the program reads the array behind its end
  when that number is too large.
\<close>
theorem search_gap_reads_garbage:
  assumes "conforming_calls e bs" and "conforming_copy e" and "runs_search_kernel e (ki_object (bs_kernel bs))"
    and "bs_length bs = kBinarySearchLength" and "bs_work_group_size bs = kWorkGroupSize"
    and "ki_kernarg_align (bs_kernel bs) = 2 ^ k" and "k \<le> 10" and "search_buffers bs l out (gw_mem w)" and "kernargs_ready e bs (gw_hsa w)"
    and "l ! 0 \<le> bs_find_me bs" and "bs_find_me bs \<le> l ! 511" and "\<forall>t<64. bs_find_me bs < l ! (8 * t) \<or> l ! (8 * t + 7) < bs_find_me bs"
    and "length l \<le> 8 * unat (out ! 0)" and "unat (out ! 0) < 2 ^ 29"
  shows "run_search e bs w = None"
proof -
  from run_search_reduces [OF assms(1-11)] obtain out' bs' w' where out': "pass_output l (bs_find_me bs) (out[3 := 1]) out'"
    and w': "gw_mem w' (bs_input bs') = Some l"
    and run: "run_search e bs w = t_then (scan_region bs' [unat (out' ! 0 * 8)..<Suc (unat (out' ! 0 * 8 + 7))]) (t_ret bs') w'" by (metis (full_types))
  have "\<not> hits (segment_pairs l 64 @ srt) (bs_find_me bs) t" if "t < 64" for t srt
    using assms(12) nth_segment_pairs [OF that, of l] that by (auto simp: hits_def nth_append)
  with out' have "out' ! 0 = out ! 0" unfolding pass_output_def by (auto simp: threads_none)
  with segment_bounds [OF assms(14)] show ?thesis unfolding run using w' assms(13)
    by (simp add: upt_conv_Cons load_word_def t_then_def t_bind_def)
qed

text \<open>15 lies between the first segment, which ends with 14, and the second, which begins with 16.\<close>

theorem search_gap_reads_garbage_witness: "run_search search_hsa (demo_search 15) search_world = None"
  by (rule search_gap_reads_garbage [where k = 4 and l = even_numbers and out = "[77, 0, 0, 0]", OF search_hsa_conforms _ _ _ _ search_world_buffers search_world_kernargs])
     (auto simp: demo_search_def word_le_nat_alt word_less_nat_alt nth_even_numbers)

end
