(* ===== verification/Rdc_Test_Properties.thy ===== *)
theory Rdc_Test_Properties
  imports Rdc_Test_Modules Rdc_Search Rdc_Embedded_Handler
begin

text \<open>
  What the test libraries promise: the verdicts, the search on the GPU, the memory tests, and RVS as a
  library of the diagnostic module.
\<close>

unbundle bit_operations_syntax

section \<open>Runtimes that answer\<close>

text \<open>A call succeeds, with a result, and leaves the runtime as it is.\<close>

definition replies :: "'h hsa \<Rightarrow> 'h gpu_world \<Rightarrow> hsa_call \<Rightarrow> hsa_out \<Rightarrow> bool" where
  "replies e w c out \<longleftrightarrow> hs_call e c (gw_hsa w) = (HSA_STATUS_SUCCESS, out, gw_hsa w)"

definition pool_answers :: "'h hsa \<Rightarrow> 'h gpu_world \<Rightarrow> u64 \<Rightarrow> pool_info \<Rightarrow> bool" where
  "pool_answers e w pool info \<longleftrightarrow>
     replies e w (Pool_info POOL_GLOBAL_FLAGS pool) (H_word (pi_global_flag info)) \<and> replies e w (Pool_info POOL_SEGMENT pool) (H_word (pi_segment info))
   \<and> replies e w (Pool_info POOL_SIZE pool) (H_word (pi_size info)) \<and> replies e w (Pool_info POOL_ALLOC_ALLOWED pool) (H_word (of_bool (pi_alloc_allowed info)))
   \<and> replies e w (Pool_info POOL_ALLOC_GRANULE pool) (H_word (pi_alloc_granule info)) \<and> replies e w (Pool_info POOL_ALLOC_ALIGNMENT pool) (H_word (pi_alloc_alignment info))
   \<and> replies e w (Pool_info POOL_ACCESSIBLE_BY_ALL pool) (H_word (of_bool (pi_accessible_by_all info)))
   \<and> replies e w (Pool_info POOL_ALLOC_MAX_SIZE pool) (H_word (pi_aggregate_alloc_max info))"

lemma AcquirePoolInfo_answers: "pool_answers e w pool info \<Longrightarrow> AcquirePoolInfo e pool w = Some (Inr info, w)"
  by (simp add: AcquirePoolInfo_def pool_answers_def replies_def t_defs word_out_def)

lemma alloc_search_once:
  "alloc_search e pool gran n up lo = t_bind (TestAllocate e pool (n * gran)) (\<lambda>err. t_ret (err, None))"
  by (rule ext) (subst alloc_search.simps, auto simp: t_bind_def t_ret_def split: option.split sum.split)

text \<open>
  A runtime for the examples: one pool of 16 granules, of which at most 8 can be allocated at once. Its state says whether it can be initialised.
\<close>

definition demo_pool :: pool_info where
  "demo_pool = \<lparr>pi_segment = HSA_AMD_SEGMENT_GLOBAL, pi_size = 65536, pi_alloc_allowed = True, pi_alloc_granule = 4096, pi_alloc_alignment = 4096,
     pi_accessible_by_all = False, pi_global_flag = FLAG_COARSE_GRAINED, pi_aggregate_alloc_max = 65536\<rparr>"

definition demo_pool_word :: "pool_attr \<Rightarrow> u64" where
  "demo_pool_word a = (case a of POOL_SEGMENT \<Rightarrow> pi_segment demo_pool | POOL_GLOBAL_FLAGS \<Rightarrow> pi_global_flag demo_pool | POOL_SIZE \<Rightarrow> pi_size demo_pool
     | POOL_ALLOC_ALLOWED \<Rightarrow> 1 | POOL_ALLOC_GRANULE \<Rightarrow> pi_alloc_granule demo_pool | POOL_ALLOC_ALIGNMENT \<Rightarrow> pi_alloc_alignment demo_pool
     | POOL_ACCESSIBLE_BY_ALL \<Rightarrow> 0 | POOL_ALLOC_MAX_SIZE \<Rightarrow> pi_aggregate_alloc_max demo_pool)"

definition demo_call :: "hsa_call \<Rightarrow> bool \<Rightarrow> hsa_status \<times> hsa_out \<times> bool" where
  "demo_call c h =
     (case c of
        Hsa_init \<Rightarrow> (if h then HSA_STATUS_SUCCESS else HSA_STATUS_ERROR, H_none, h)
      | Pool_info a _ \<Rightarrow> (HSA_STATUS_SUCCESS, H_word (demo_pool_word a), h)
      | Pool_allocate _ n \<Rightarrow>
          if n \<le> 32768 then (HSA_STATUS_SUCCESS, H_buffer 4096 (replicate 32 0), h) else (HSA_STATUS_ERROR_INVALID_ALLOCATION, H_none, h)
      | Agent_pool_access _ _ \<Rightarrow> (HSA_STATUS_SUCCESS, H_word 1, h)
      | _ \<Rightarrow> (HSA_STATUS_SUCCESS, H_none, h))"

definition demo_hsa :: "bool hsa" where
  "demo_hsa = \<lparr>hs_call = demo_call, hs_run = (\<lambda>_ _ mem h. (mem, h)), hs_wait = (\<lambda>_ h. Some (0, h)),
     hs_copy = (\<lambda>_ _ _ mem h. (HSA_STATUS_SUCCESS, mem, h)), hs_queue_size = (\<lambda>_. 128), hs_error_text = (\<lambda>_. ''error'')\<rparr>"

definition demo_gpu_world :: "bool \<Rightarrow> bool gpu_world" where
  "demo_gpu_world ok = \<lparr>gw_hsa = ok, gw_mem = Map.empty, gw_args = Map.empty,
     gw_rings = (\<lambda>_ _. \<lparr>pk_header = 0, pk_setup = 0, pk_workgroup_x = 0, pk_grid_x = 0, pk_private_segment = 0, pk_group_segment = 0,
       pk_kernel_object = 0, pk_kernarg = 0, pk_signal = 0\<rparr>)\<rparr>"

lemmas demo_defs = demo_hsa_def demo_gpu_world_def demo_call_def demo_pool_word_def demo_pool_def hsa_constants

lemma demo_answers: "pool_answers demo_hsa (demo_gpu_world ok) p demo_pool"
  by (simp add: pool_answers_def replies_def demo_defs)

section \<open>The memory tests\<close>

text \<open>
  The test of the largest allocation passes as soon as the runtime refuses more than the whole pool and grants
  half of it. Nothing else is tried, so that a pool of which no more than half can be allocated passes too,
  although the test asks for fifteen sixteenths.
\<close>
theorem memory_test_accepts_half:
  assumes "replies e w (Agent_info AGENT_NAME ag) nm" and "replies e w (Agent_info AGENT_DEVICE ag) dev" and "replies e w (Agent_info AGENT_NODE ag) node"
    and "pool_answers e w pool info" and "pi_alloc_allowed info" and "pi_alloc_granule info \<noteq> 0" and "pi_alloc_alignment info \<noteq> 0"
    and "hs_call e (Pool_allocate pool (pi_aggregate_alloc_max info div pi_alloc_granule info * pi_alloc_granule info + pi_alloc_granule info)) (gw_hsa w)
      = (HSA_STATUS_ERROR_INVALID_ALLOCATION, H_none, gw_hsa w)"
    and "replies e w (Pool_allocate pool (pi_aggregate_alloc_max info div pi_alloc_granule info div 2 * pi_alloc_granule info)) (H_buffer p cells)"
    and "replies e w (Memory_free p) H_none"
  shows "max_single_allocation e ag pool w = Some (Inr HSA_STATUS_SUCCESS, w)"
  using assms
  by (simp add: max_single_allocation_def AcquirePoolInfo_answers Let_def alloc_search_once TestAllocate_def replies_def t_defs)

text \<open>The pool of the example has sixteen granules, and no more than eight of them can be allocated.\<close>

theorem memory_test_accepts_half_witness:
  "max_single_allocation demo_hsa 7 9 (demo_gpu_world True) = Some (Inr HSA_STATUS_SUCCESS, demo_gpu_world True)"
  by (rule memory_test_accepts_half [where e = demo_hsa and w = "demo_gpu_world True" and info = demo_pool and nm = H_none and dev = H_none
        and node = H_none and p = 4096 and cells = "replicate 32 0", OF _ _ _ demo_answers]) (simp_all add: replies_def demo_defs)

lemma fill_block_overrun: "length l \<in> set is \<Longrightarrow> fill_block is l = None"
  by (induction "is" arbitrary: l) auto

text \<open>
  On a pool that the CPU can reach and of which at least 8 granules exist, the test of the CPU's access to the
  memory of the GPU writes one word behind the block it has from \<^verbatim>\<open>malloc\<close>: its behaviour is undefined.
\<close>
theorem cpu_access_overruns:
  assumes "pool_answers e w pool info" and "pi_segment info = HSA_AMD_SEGMENT_GLOBAL" and "pi_global_flag info = FLAG_COARSE_GRAINED"
    and "pi_alloc_allowed info" and "pi_alloc_granule info \<noteq> 0" and "pi_alloc_alignment info \<noteq> 0"
    and "replies e w (Agent_pool_access cpu pool) (H_word access)" and "access \<noteq> ACCESS_NEVER_ALLOWED"
    and "8 \<le> unat (pi_size info) div unat (pi_alloc_granule info)" and "unat (pi_size info) div unat (pi_alloc_granule info) < 2 ^ 35"
  shows "cpu_access_pool e cpu pool w = None"
proof -
  let ?m = "pi_size info div pi_alloc_granule info div 2"
  have m: "unat ?m = unat (pi_size info) div unat (pi_alloc_granule info) div 2" by (simp add: unat_div)
  have d: "unat (?m div 4) = unat ?m div 4" by (simp add: unat_div)
  have "unat (ucast (?m div 4) :: u32) = unat ?m div 4"
    using assms(10) unfolding unsigned_ucast_eq d m by (simp add: take_bit_nat_eq_self)
  moreover have "fill_block [1..<Suc (unat ?m div 4)] (replicate (unat ?m div 4) 0) = None"
    by (rule fill_block_overrun) (use assms(9) m in auto)
  ultimately show ?thesis using assms(1-8)
    by (simp add: cpu_access_pool_def AcquirePoolInfo_answers Let_def word_out_def replies_def t_defs del: upt_Suc)
qed

theorem cpu_access_overruns_witness: "cpu_access_pool demo_hsa 7 9 (demo_gpu_world True) = None"
  by (rule cpu_access_overruns [where access = 1, OF demo_answers]) (simp_all add: replies_def demo_defs)

section \<open>Addresses of kernel arguments\<close>

text \<open>
  The arguments of the search kernel lie at a multiple of the kernel's alignment and inside the buffer, when
  the runtime provides at least the bytes it is asked for, below the end of the address space: twice the
  alignment is enough room for rounding up.
\<close>
theorem kernel_arguments_fit:
  assumes "ki_kernarg_align (bs_kernel bs) = 2 ^ k"
    and "hs_call e (Pool_allocate (bs_kern_arg_pool bs) (sz + push_bit 1 (ki_kernarg_align (bs_kernel bs)))) (gw_hsa w)
      = (HSA_STATUS_SUCCESS, H_buffer buf cells, h)"
    and "unat sz + 2 * 2 ^ k \<le> 4 * length cells" and "unat buf + 4 * length cells \<le> 2 ^ 64"
    and "hs_call e (Allow_access [bs_gpu_dev bs, bs_cpu_dev bs] buf) h = (HSA_STATUS_SUCCESS, out, h')"
  shows "\<exists>addr. AllocAndSetKernArgs e bs args sz w = Some (Inr (bs\<lparr>bs_kern_arg_buffer := buf, bs_kern_arg_address := addr\<rparr>),
      w\<lparr>gw_hsa := h', gw_mem := (gw_mem w)(buf \<mapsto> cells), gw_args := (gw_args w)(addr \<mapsto> args)\<rparr>)
    \<and> 2 ^ k dvd unat addr \<and> unat buf \<le> unat addr \<and> unat addr + unat sz \<le> unat buf + 4 * length cells"
  by (rule AllocAndSetKernArgs_fits) (use assms in auto)

theorem kernel_arguments_fit_witness:
  "\<exists>addr w'. AllocAndSetKernArgs demo_hsa (demo_search 108) [4, 3, 108] 80 (demo_gpu_world True)
      = Some (Inr ((demo_search 108)\<lparr>bs_kern_arg_buffer := 4096, bs_kern_arg_address := addr\<rparr>), w')
    \<and> 16 dvd unat addr \<and> unat addr + 80 \<le> 4096 + 128"
  using kernel_arguments_fit [where k = 4 and bs = "demo_search 108" and e = demo_hsa and w = "demo_gpu_world True" and sz = 80 and buf = 4096
      and cells = "replicate 32 0" and h = True and h' = True and out = H_none and args = "[4, 3, 108]"]
  by (auto simp: demo_search_def demo_defs)

section \<open>RVS\<close>

text \<open>What the waiting loop sees after a number of looks: the state of the session and of the suite.\<close>

fun polled :: "'v rvs \<Rightarrow> nat \<Rightarrow> rvs_state \<times> 'v \<Rightarrow> rvs_state \<times> 'v" where
  "polled e 0 s = s"
| "polled e (Suc n) (st, v) = (case rv_tick e v of (l, v') \<Rightarrow> polled e n (session_callback l st, v'))"

lemma rvs_wait_returns:
  "fst (polled e n (st, v)) = RVS_SESSION_STATE_COMPLETED \<Longrightarrow> \<exists>m v'. rvs_wait e st v = Some v' \<and> polled e m (st, v) = (RVS_SESSION_STATE_COMPLETED, v')"
proof (induction n arbitrary: st v)
  case 0
  then show ?case by (intro exI [of _ 0]) (simp add: rvs_wait.simps)
next
  case (Suc n)
  obtain l v1 where tick: "rv_tick e v = (l, v1)" by (cases "rv_tick e v")
  show ?case
  proof (cases "st = RVS_SESSION_STATE_COMPLETED")
    case True
    then show ?thesis by (intro exI [of _ 0]) (simp add: rvs_wait.simps)
  next
    case False
    from Suc tick obtain m v' where "rvs_wait e (session_callback l st) v1 = Some v'"
      "polled e m (session_callback l st, v1) = (RVS_SESSION_STATE_COMPLETED, v')" by fastforce
    with False tick show ?thesis by (intro exI [of _ "Suc m"] exI [of _ v']) (simp add: rvs_wait.simps [of e st v])
  qed
qed

lemma rvs_wait_completed:
  assumes "rvs_wait e st v = Some v'"
  shows "\<exists>n. polled e n (st, v) = (RVS_SESSION_STATE_COMPLETED, v')"
proof (rule rvs_wait.raw_induct [OF _ assms, where P = "\<lambda>e st v v'. \<exists>n. polled e n (st, v) = (RVS_SESSION_STATE_COMPLETED, v')"])
  fix f :: "'a rvs \<Rightarrow> rvs_state \<Rightarrow> 'a \<Rightarrow> 'a option" and e st v v'
  assume IH: "\<And>e st v v'. f e st v = Some v' \<Longrightarrow> \<exists>n. polled e n (st, v) = (RVS_SESSION_STATE_COMPLETED, v')"
    and body: "(if st = RVS_SESSION_STATE_COMPLETED then Some v else case rv_tick e v of (l, v') \<Rightarrow> f e (session_callback l st) v') = Some v'"
  obtain l v1 where tick: "rv_tick e v = (l, v1)" by (cases "rv_tick e v")
  show "\<exists>n. polled e n (st, v) = (RVS_SESSION_STATE_COMPLETED, v')"
  proof (cases "st = RVS_SESSION_STATE_COMPLETED")
    case True
    with body show ?thesis by (intro exI [of _ 0]) simp
  next
    case False
    with body tick have "f e (session_callback l st) v1 = Some v'" by simp
    from IH [OF this] obtain n where "polled e n (session_callback l st, v1) = (RVS_SESSION_STATE_COMPLETED, v')" ..
    with tick show ?thesis by (intro exI [of _ "Suc n"]) simp
  qed
qed

text \<open>
  The wait for RVS ends exactly when some look at the session finds it completed. There is no limit and no other way out: a
  session whose last report is not the completion keeps the diagnosis waiting for ever.
\<close>
theorem rvs_wait_ends_iff:
  "(\<exists>v'. rvs_wait e st v = Some v') \<longleftrightarrow> (\<exists>n. fst (polled e n (st, v)) = RVS_SESSION_STATE_COMPLETED)"
  using rvs_wait_returns [of e _ st v] rvs_wait_completed [of e st v] by (metis fst_conv)

lemma active_config_custom: "0 < length c \<Longrightarrow> length c \<le> MAX_CONFIG_LENGTH \<Longrightarrow> active_config (Some c) (config_length (Some c)) = Some (butlast c)"
  by (simp add: config_length_def active_config_def strncpy_with_null_def butlast_conv_take)

text \<open>
  (C36) A run of the validation suite with a configuration of the user: the session gets the configuration without its last character, what creating
  the session and setting its property return is not looked at, and once the session is completed the verdict is
  PASS exactly when the session can be destroyed.
\<close>
theorem rvs_run_with_configuration:
  assumes "0 < length c" and "length c \<le> MAX_CONFIG_LENGTH" and "gpus \<noteq> []"
    and "rv_initialize e v = (st0, v0)" and "st0 \<noteq> RVS_STATUS_FAILED" and "rv_session_create e v0 = (st1, sid, l1, v1)"
    and "rv_set_property e sid (butlast c) v1 = (st2, l2, v2)" and "rv_execute e sid v2 = (RVS_STATUS_SUCCESS, l3, v3)"
    and "rvs_wait e (last (RVS_SESSION_STATE_IDLE # l1 @ l2 @ l3)) v3 = Some v4" and "rv_destroy e sid v4 = (st5, v5)"
  shows "\<exists>r'. rdc_diag_test_case_run (loaded_diagnostic (rvs_so e)) RDC_DIAG_RVS_TEST gpus (Some c) (Some r) v = Some (RDC_ST_OK, Some r', v5)
    \<and> tr_status r' = (if st5 = RVS_STATUS_SUCCESS then RDC_DIAG_RESULT_PASS else RDC_DIAG_RESULT_FAIL)"
  using assms
  by (simp add: loaded_diagnostic_def rvs_so_def rvs_test_case_run_def run_rvs_app_def active_config_custom session_callback_def put_info_def)

text \<open>A suite that reports the completion after some looks; its state counts them.\<close>

definition demo_rvs :: "nat rvs" where
  "demo_rvs = \<lparr>rv_initialize = Pair RVS_STATUS_SUCCESS, rv_session_create = (\<lambda>v. (RVS_STATUS_SUCCESS, 1, [], v)),
     rv_set_property = (\<lambda>_ _ v. (RVS_STATUS_SUCCESS, [], v)), rv_execute = (\<lambda>_ v. (RVS_STATUS_SUCCESS, [RVS_SESSION_STATE_OTHER 2], v)),
     rv_tick = (\<lambda>v. (if v = 0 then [RVS_SESSION_STATE_COMPLETED] else [], v - 1)), rv_destroy = (\<lambda>_ v. (RVS_STATUS_SUCCESS, v))\<rparr>"

theorem rvs_run_with_configuration_witness:
  "\<exists>r'. rdc_diag_test_case_run (loaded_diagnostic (rvs_so demo_rvs)) RDC_DIAG_RVS_TEST [0] (Some ''{actions: []}'') (Some empty_result) 2 = Some (RDC_ST_OK, Some r', 0)
    \<and> tr_status r' = RDC_DIAG_RESULT_PASS"
  using rvs_run_with_configuration [where c = "''{actions: []}''" and gpus = "[0]" and e = demo_rvs and v = 2 and ?v0.0 = 2 and ?v1.0 = 2 and ?v2.0 = 2
      and ?v3.0 = 2 and ?v4.0 = 0 and ?v5.0 = 0 and ?st0.0 = RVS_STATUS_SUCCESS and ?st1.0 = RVS_STATUS_SUCCESS and ?st2.0 = RVS_STATUS_SUCCESS
      and ?st5.0 = RVS_STATUS_SUCCESS and sid = 1 and ?l1.0 = "[]" and ?l2.0 = "[]" and ?l3.0 = "[RVS_SESSION_STATE_OTHER 2]" and r = empty_result]
  by (simp add: demo_rvs_def MAX_CONFIG_LENGTH_def rvs_wait.simps session_callback_def)

section \<open>Verdicts of \<open>librdc_rocr.so\<close>\<close>

text \<open>The exceptions of the tests, in the order in which they are thrown.\<close>

fun thrown_by :: "('h, rocr_test) test_prog list \<Rightarrow> 'h gpu_world \<Rightarrow> (test_exc list \<times> 'h gpu_world) option" where
  "thrown_by [] w = Some ([], w)"
| "thrown_by (t # ts) w =
     (case t w of
        None \<Rightarrow> None
      | Some (r, w') \<Rightarrow> map_option (\<lambda>(xs, w2). (case r of Inl x \<Rightarrow> x # xs | Inr _ \<Rightarrow> xs, w2)) (thrown_by ts w'))"

definition verdict_of :: "test_exc \<Rightarrow> rdc_diag_result" where
  "verdict_of x = (case x of Skip_exception _ \<Rightarrow> RDC_DIAG_RESULT_SKIP | Runtime_error _ \<Rightarrow> RDC_DIAG_RESULT_FAIL)"

definition last_verdict :: "rdc_diag_result \<Rightarrow> test_exc list \<Rightarrow> rdc_diag_result" where
  "last_verdict st xs = last (st # map verdict_of xs)"

lemma last_verdict_simps [simp]:
  "last_verdict st [] = st" "last_verdict st (x # xs) = last_verdict (verdict_of x) xs" "last_verdict st (xs @ ys) = last_verdict (last_verdict st xs) ys"
  by (simp_all add: last_verdict_def last_append)

lemma thrown_by_append:
  "thrown_by (ts @ us) w =
     (case thrown_by ts w of None \<Rightarrow> None | Some (xs, w') \<Rightarrow> map_option (\<lambda>(ys, w2). (xs @ ys, w2)) (thrown_by us w'))"
  by (induction ts arbitrary: w) (auto simp: option.map_comp option.map_ident comp_def case_prod_unfold split: option.split sum.split)

lemma block_result_status: "fst (block_result label g r v) = (case r of Inl x \<Rightarrow> verdict_of x | Inr _ \<Rightarrow> fst v)"
  by (cases v) (auto simp: block_result_def verdict_of_def split: sum.split test_exc.split)

lemma run_blocks_verdict:
  "map_option (\<lambda>(v', w'). (fst v', w')) (run_blocks g bs v w) = map_option (\<lambda>(xs, w'). (last_verdict (fst v) xs, w')) (thrown_by (map snd bs) w)"
proof (induction bs arbitrary: v w)
  case (Cons b bs)
  obtain l t where b: "b = (l, t)" by (cases b)
  show ?case
  proof (cases "t w")
    case (Some rw)
    obtain r w' where rw: "rw = (r, w')" by (cases rw)
    show ?thesis using Cons [of "block_result l g r v" w'] Some
      by (cases r) (simp_all add: b rw block_result_status option.map_comp comp_def case_prod_unfold)
  qed (simp add: b)
qed simp

text \<open>All tests of all GPUs, in the order of their execution.\<close>

definition gpu_tests :: "(u32 \<Rightarrow> (string \<times> ('h, rocr_test) test_prog) list) \<Rightarrow> u32 list \<Rightarrow> ('h, rocr_test) test_prog list" where
  "gpu_tests blocks gpus = concat (map (\<lambda>g. map snd (blocks g)) gpus)"

lemma run_gpu_tests_verdict:
  assumes "\<forall>g\<in>set gpus. unat g < length (tr_gpu_results r)"
  shows "map_option (\<lambda>(r', w'). (tr_status r', w')) (run_gpu_tests blocks gpus (r, w)) =
    map_option (\<lambda>(xs, w'). (last_verdict (tr_status r) xs, w')) (thrown_by (gpu_tests blocks gpus) w)"
  using assms
proof (induction gpus arbitrary: r w)
  case (Cons g gs)
  let ?v = "(tr_status r, tr_info r, dd_msg (pg_gpu_result (tr_gpu_results r ! unat g)))"
  from Cons.prems have g: "unat g < length (tr_gpu_results r)" by simp
  show ?case
  proof (cases "run_blocks g (blocks g) ?v w")
    case None
    with run_blocks_verdict [of g "blocks g" ?v w] g show ?thesis
      by (simp add: run_gpu_test_def gpu_tests_def thrown_by_append Let_def)
  next
    case (Some y)
    then obtain st info per w' where y: "run_blocks g (blocks g) ?v w = Some ((st, info, per), w')" by (cases y) auto
    with run_blocks_verdict [of g "blocks g" ?v w] obtain xs where
      xs: "thrown_by (map snd (blocks g)) w = Some (xs, w')" and st: "st = last_verdict (tr_status r) xs"
      by (cases "thrown_by (map snd (blocks g)) w") auto
    from y g obtain r1 where r1: "run_gpu_test blocks g (r, w) = Some (r1, w')" "tr_status r1 = st" "length (tr_gpu_results r1) = length (tr_gpu_results r)"
      by (simp add: run_gpu_test_def Let_def put_info_def)
    with Cons.IH [of r1 w'] Cons.prems xs st show ?thesis
      by (simp add: gpu_tests_def thrown_by_append option.map_comp comp_def case_prod_unfold)
  qed
qed (simp add: gpu_tests_def)

definition rocr_blocks :: "'h hsa \<Rightarrow> rocr_env \<Rightarrow> rdc_diag_test_cases \<Rightarrow> u32 \<Rightarrow> (string \<times> ('h, rocr_test) test_prog) list" where
  "rocr_blocks e v tc = (if tc = RDC_DIAG_SYS_MEM_CHECK then memory_blocks e v else queue_blocks e v)"

text \<open>
  (C35) The verdict on the test cases of the ROCr library, on GPUs with indices in range: PASS when no test throws, and
  otherwise what the last exception stands for. A GPU that fails is reported as skipped when a
  later test of the run cannot find its kernel.
\<close>
theorem rocr_verdict_is_last:
  assumes "tc = RDC_DIAG_COMPUTE_QUEUE \<or> tc = RDC_DIAG_SYS_MEM_CHECK" and "gpus \<noteq> []" and "\<forall>g\<in>set gpus. unat g < RDC_MAX_NUM_DEVICES"
  shows "map_option (\<lambda>(st, r', w'). (st, map_option tr_status r', w')) (rdc_diag_test_case_run (loaded_diagnostic (rocr_so e v)) tc gpus config (Some r) w) =
    map_option (\<lambda>(xs, w'). (RDC_ST_OK, Some (last (RDC_DIAG_RESULT_PASS # map verdict_of xs)), w')) (thrown_by (gpu_tests (rocr_blocks e v tc) gpus) w)"
proof -
  let ?r = "empty_result\<lparr>tr_test_case := tc, tr_status := RDC_DIAG_RESULT_PASS\<rparr>"
  let ?run = "run_gpu_tests (rocr_blocks e v tc) gpus (?r, w)"
  have "map_option (\<lambda>(r', w'). (tr_status r', w')) ?run
      = map_option (\<lambda>(xs, w'). (last_verdict (tr_status ?r) xs, w')) (thrown_by (gpu_tests (rocr_blocks e v tc) gpus) w)"
    using assms(3) by (intro run_gpu_tests_verdict) simp
  moreover have "rdc_diag_test_case_run (loaded_diagnostic (rocr_so e v)) tc gpus config (Some r) w = map_option (\<lambda>(r, w'). (RDC_ST_OK, Some r, w')) ?run"
    using assms(1,2) by (auto simp: loaded_diagnostic_def rocr_so_def rocr_test_case_run_def rocr_blocks_def)
  ultimately show ?thesis
    by (cases ?run; cases "thrown_by (gpu_tests (rocr_blocks e v tc) gpus) w") (auto simp: last_verdict_def)
qed

text \<open>On a machine where the runtime cannot be initialised.\<close>

theorem rocr_verdict_is_last_witness:
  "\<forall>v. map_option (\<lambda>(st, r', w'). (st, map_option tr_status r', w')) (rdc_diag_test_case_run (loaded_diagnostic (rocr_so demo_hsa v))
     RDC_DIAG_SYS_MEM_CHECK [0] None (Some empty_result) (demo_gpu_world False)) = Some (RDC_ST_OK, Some RDC_DIAG_RESULT_FAIL, demo_gpu_world False)" (is "\<forall>v. ?P v")
proof
  fix v
  have "InitAndSetupHSA demo_hsa ((new_rocr_base t)\<lparr>rt_gpu_index := 0\<rparr>) (demo_gpu_world False)
      = Some (Inl (Runtime_error ('' hsa error code: '' @ ''error'')), demo_gpu_world False)" for t
    by (simp add: InitAndSetupHSA_def new_rocr_base_def t_defs demo_defs)
  then have "thrown_by (gpu_tests (rocr_blocks demo_hsa v RDC_DIAG_SYS_MEM_CHECK) [0]) (demo_gpu_world False)
      = Some ([Runtime_error ('' hsa error code: '' @ ''error''), Runtime_error ('' hsa error code: '' @ ''error'')], demo_gpu_world False)"
    by (simp add: gpu_tests_def rocr_blocks_def memory_blocks_def with_test_def Let_def t_bind_def)
  then show "?P v"
    using rocr_verdict_is_last [where tc = RDC_DIAG_SYS_MEM_CHECK and gpus = "[0]" and e = demo_hsa and v = v and config = None and r = empty_result
        and w = "demo_gpu_world False"]
    by (simp add: RDC_MAX_NUM_DEVICES_def verdict_of_def)
qed

section \<open>The libraries of a machine\<close>

text \<open>The tests of the ROCr library have a result when they have one from every state of the machine, on GPUs in range.\<close>

definition rocr_ready :: "'h hsa \<Rightarrow> rocr_env \<Rightarrow> rdc_diag_test_cases \<Rightarrow> u32 list \<Rightarrow> bool" where
  "rocr_ready e v tc gpus \<longleftrightarrow> (\<forall>g\<in>set gpus. unat g < RDC_MAX_NUM_DEVICES) \<and> (\<forall>w. thrown_by (gpu_tests (rocr_blocks e v tc) gpus) w \<noteq> None)"

interpretation rocr_tests: test_runner "rdc_diag_test_case_run (loaded_diagnostic (rocr_so e v))" "rocr_ready e v" for e v
proof
  fix tc gpus config r w
  assume ready: "rocr_ready e v tc gpus"
  let ?r = "empty_result\<lparr>tr_test_case := tc, tr_status := RDC_DIAG_RESULT_PASS\<rparr>"
  from ready have "map_option (\<lambda>(r', w'). (tr_status r', w')) (run_gpu_tests (rocr_blocks e v tc) gpus (?r, w)) \<noteq> None"
    by (subst run_gpu_tests_verdict) (auto simp: rocr_ready_def)
  then obtain r' w' where "run_gpu_tests (rocr_blocks e v tc) gpus (?r, w) = Some (r', w')" by auto
  then show "\<exists>st r' w'. rdc_diag_test_case_run (loaded_diagnostic (rocr_so e v)) tc gpus config (Some r) w = Some (st, Some r', w')"
    by (auto simp: loaded_diagnostic_def rocr_so_def rocr_test_case_run_def rocr_blocks_def)
qed

definition rvs_always_ends :: "'v rvs \<Rightarrow> bool" where
  "rvs_always_ends e \<longleftrightarrow> (\<forall>st v. \<exists>n. fst (polled e n (st, v)) = RVS_SESSION_STATE_COMPLETED)"

interpretation rvs_tests: test_runner "rdc_diag_test_case_run (loaded_diagnostic (rvs_so e))" "\<lambda>_ _. rvs_always_ends e" for e
proof
  fix tc gpus config r v
  assume "rvs_always_ends e"
  then have "\<exists>v'. rvs_wait e st v = Some v'" for st v using rvs_wait_returns unfolding rvs_always_ends_def by metis
  then have "\<exists>st v'. run_rvs_app e config v = Some (st, v')"
    by (auto simp: run_rvs_app_def split: option.split prod.split) (metis option.map_disc_iff option.distinct(1) prod.collapse option.exhaust)
  then show "\<exists>st r' v'. rdc_diag_test_case_run (loaded_diagnostic (rvs_so e)) tc gpus config (Some r) v = Some (st, Some r', v')"
    by (auto simp: loaded_diagnostic_def rvs_so_def rvs_test_case_run_def Let_def)
qed

text \<open>The libraries that the module manager inserts, by their position; the third is the profiler, which has no test cases.\<close>

definition machine_libs :: "smi_diag \<Rightarrow> 'h hsa \<Rightarrow> rocr_env \<Rightarrow> nat \<Rightarrow> 'h gpu_world rdc_diagnostic" where
  "machine_libs d e v a = (if a = 0 then smi_diag_lib d else loaded_diagnostic (rocr_so e v))"

lemma machine_test_runner: "test_runner (rdc_diag_test_case_run (machine_libs d e v a)) (if a = 0 then smi_diag_ready d else rocr_ready e v)"
  by (simp add: machine_libs_def smi_tests.test_runner_axioms rocr_tests.test_runner_axioms)

lemma machine_tests:
  "map_of (dm_testcases_to_module (new_diagnostic_module (machine_libs d e v) s (ml_diagnostic (new_module_mgr (Inr 0) (Inr 1) rocp)))) tc =
     (if tc \<in> set smi_test_cases then Some 0 else if tc \<in> set rocr_test_cases then Some 1 else None)"
  by (cases rocp; cases tc)
     (simp_all add: new_diagnostic_module_def new_module_mgr_def insert_module_def insert_constructed_def Let_def register_tests_def machine_libs_def
       smi_diag_lib_def loaded_diagnostic_def rocr_so_def smi_test_cases_def rocr_test_cases_def map_of_map_insert)

lemma medium_tests: "level_tests RDC_DIAG_LVL_MED = smi_test_cases @ rocr_test_cases @ rvs_test_cases"
  by (simp add: level_tests_def diag_order_defs smi_test_cases_def rocr_test_cases_def rvs_test_cases_def)

text \<open>The results of a medium diagnosis: three from the SMI library, two from the ROCr library and a skipped one.\<close>

definition medium_results :: "smi_diag \<Rightarrow> 'h hsa \<Rightarrow> rocr_env \<Rightarrow> u32 list \<Rightarrow> string option \<Rightarrow> rdc_diag_test_result list \<Rightarrow> rdc_diag_test_result list \<Rightarrow> bool" where
  "medium_results d e v gpus config rs rs' \<longleftrightarrow>
     (\<forall>k<3. \<exists>st. smi_test_case_run d (smi_test_cases ! k) gpus (Some ((rs ! k)\<lparr>tr_test_case := smi_test_cases ! k\<rparr>)) = Some (st, Some (rs' ! k)))
   \<and> (\<forall>k<2. \<exists>st w w'. rocr_test_case_run e v (rocr_test_cases ! k) gpus config (Some ((rs ! (k + 3))\<lparr>tr_test_case := rocr_test_cases ! k\<rparr>)) w
        = Some (st, Some (rs' ! (k + 3)), w'))
   \<and> rs' ! 5 = (rs ! 5)\<lparr>tr_test_case := RDC_DIAG_RVS_TEST, tr_status := RDC_DIAG_RESULT_SKIP, tr_info := ''Not implemented''\<rparr>"

lemma medium_results_answered:
  fixes rocp :: "rdc_status + nat" and e :: "'h hsa"
  assumes dm: "dm = new_diagnostic_module (machine_libs d e v) s0 (ml_diagnostic (new_module_mgr (Inr 0) (Inr 1) rocp))"
    and all: "\<And>k. k < 6 \<Longrightarrow> answered (machine_libs d e v) dm gpus config (level_tests RDC_DIAG_LVL_MED ! k) (rs ! k) (rs' ! k)"
  shows "medium_results d e v gpus config rs rs'"
proof -
  note tests = machine_tests [of d e v s0 rocp, folded dm]
  have "\<exists>st. smi_test_case_run d (smi_test_cases ! k) gpus (Some ((rs ! k)\<lparr>tr_test_case := smi_test_cases ! k\<rparr>)) = Some (st, Some (rs' ! k))" if "k < 3" for k
  proof -
    from that have "level_tests RDC_DIAG_LVL_MED ! k = smi_test_cases ! k" "smi_test_cases ! k \<in> set smi_test_cases"
      by (auto simp: medium_tests nth_append smi_test_cases_def less_Suc_eq numeral_3_eq_3)
    then show ?thesis using all [of k] that by (auto simp: answered_def tests machine_libs_def smi_diag_lib_def)
  qed
  moreover have "\<exists>st w w'. rocr_test_case_run e v (rocr_test_cases ! k) gpus config (Some ((rs ! (k + 3))\<lparr>tr_test_case := rocr_test_cases ! k\<rparr>)) w
       = Some (st, Some (rs' ! (k + 3)), w')" if "k < 2" for k
  proof -
    from that have "level_tests RDC_DIAG_LVL_MED ! (k + 3) = rocr_test_cases ! k" "rocr_test_cases ! k \<in> set rocr_test_cases" "rocr_test_cases ! k \<notin> set smi_test_cases"
      by (auto simp: medium_tests nth_append smi_test_cases_def rocr_test_cases_def less_Suc_eq numeral_2_eq_2)
    then show ?thesis using all [of "k + 3"] that by (auto simp: answered_def tests machine_libs_def loaded_diagnostic_def rocr_so_def)
  qed
  moreover have "rs' ! 5 = (rs ! 5)\<lparr>tr_test_case := RDC_DIAG_RVS_TEST, tr_status := RDC_DIAG_RESULT_SKIP, tr_info := ''Not implemented''\<rparr>"
    using all [of 5] by (simp add: answered_def tests medium_tests nth_append smi_test_cases_def rocr_test_cases_def rvs_test_cases_def)
  ultimately show ?thesis unfolding medium_results_def by blast
qed

text \<open>
  (C9) A medium diagnosis on a machine with all libraries. Whenever it returns, it returns OK and six results, the first three from the SMI library, the next two from
  the ROCr library; the validation suite is never asked, since the module manager does not insert \<^verbatim>\<open>RdcRVSLib\<close>:
  its test case is always skipped as not implemented. The diagnosis returns when the GPUs are known, at most 128 and with numbers below 128, the
  process lists fit their buffers, and the tests of the ROCr library have a defined result from every state of the machine; the
  memory access test has none on a machine whose memory pools the CPU can access.
\<close>
theorem medium_diagnosis_skips_rvs:
  "(\<forall>out. module_diagnostic_run (machine_libs d e v)
       (new_diagnostic_module (machine_libs d e v) s0 (ml_diagnostic (new_module_mgr (Inr 0) (Inr 1) rocp))) gpus RDC_DIAG_LVL_MED config (Some resp) s = Some out \<longrightarrow>
      (\<exists>resp' s'. out = (RDC_ST_OK, Some resp', s') \<and> rp_results_count resp' = 6
        \<and> medium_results d e v (entity_ids gpus) config (rp_diag_info resp) (rp_diag_info resp')))
   \<and> (length (rp_diag_info resp) = MAX_TEST_CASES \<longrightarrow> (\<forall>tc. smi_diag_ready d tc (entity_ids gpus)) \<longrightarrow> (\<forall>tc. rocr_ready e v tc (entity_ids gpus)) \<longrightarrow>
      module_diagnostic_run (machine_libs d e v)
       (new_diagnostic_module (machine_libs d e v) s0 (ml_diagnostic (new_module_mgr (Inr 0) (Inr 1) rocp))) gpus RDC_DIAG_LVL_MED config (Some resp) s \<noteq> None)"
proof -
  let ?libs = "machine_libs d e v" and ?dm = "new_diagnostic_module (machine_libs d e v) s0 (ml_diagnostic (new_module_mgr (Inr 0) (Inr 1) rocp))"
  let ?run = "module_diagnostic_run ?libs ?dm gpus RDC_DIAG_LVL_MED config (Some resp) s"
  have "\<exists>resp' s'. out = (RDC_ST_OK, Some resp', s') \<and> rp_results_count resp' = 6
      \<and> medium_results d e v (entity_ids gpus) config (rp_diag_info resp) (rp_diag_info resp')" if "?run = Some out" for out
  proof -
    from that obtain resp' s' where o: "out = (RDC_ST_OK, Some resp', s')"
      and "run_tests ?libs ?dm (entity_ids gpus) config 0 (level_tests RDC_DIAG_LVL_MED) (resp\<lparr>rp_results_count := 0\<rparr>, s) = Some (resp', s')"
      by (auto simp: module_diagnostic_run_def)
    note r = run_tests_result [OF this(2)]
    have len: "length (level_tests RDC_DIAG_LVL_MED) = 6" by (simp add: medium_tests smi_test_cases_def rocr_test_cases_def rvs_test_cases_def)
    have "answered ?libs ?dm (entity_ids gpus) config (level_tests RDC_DIAG_LVL_MED ! k) (rp_diag_info resp ! k) (rp_diag_info resp' ! k)" if "k < 6" for k
      using conjunct2 [OF r, rule_format, of k] len that by simp
    from medium_results_answered [OF refl this]
    have "medium_results d e v (entity_ids gpus) config (rp_diag_info resp) (rp_diag_info resp')" .
    with o conjunct1 [OF r] len show ?thesis by simp
  qed
  moreover have "?run \<noteq> None" if "length (rp_diag_info resp) = MAX_TEST_CASES" "\<forall>tc. smi_diag_ready d tc (entity_ids gpus)" "\<forall>tc. rocr_ready e v tc (entity_ids gpus)"
  proof -
    have "(if a = 0 then smi_diag_ready d else rocr_ready e v) tc (entity_ids gpus)" for a :: nat and tc using that by simp
    from module_diagnostic_run_answers [where libs = ?libs and dm = ?dm and gpus = gpus and level = RDC_DIAG_LVL_MED and config = config and s = s,
        OF machine_test_runner this that(1)] show ?thesis by auto
  qed
  ultimately show ?thesis by blast
qed

text \<open>On a machine where the runtime cannot be initialised, the tests of the ROCr library throw at once.\<close>

definition dead_hsa :: "bool hsa" where
  "dead_hsa = demo_hsa\<lparr>hs_call := (\<lambda>_ h. (HSA_STATUS_ERROR, H_none, h))\<rparr>"

lemma dead_hsa_ready: "rocr_ready dead_hsa v tc [0, 1]"
proof -
  have "with_test dead_hsa j g title body w = Some (Inl (Runtime_error ('' hsa error code: '' @ ''error'')), w)"
    for j g title and body :: "rocr_test \<Rightarrow> (bool, rocr_test) test_prog" and w
    by (simp add: with_test_def InitAndSetupHSA_def new_rocr_base_def Let_def t_defs dead_hsa_def demo_hsa_def)
  then have "thrown_by (gpu_tests (rocr_blocks dead_hsa v tc) [0, 1]) w \<noteq> None" for w
    by (simp add: gpu_tests_def rocr_blocks_def memory_blocks_def queue_blocks_def)
  then show ?thesis by (simp add: rocr_ready_def RDC_MAX_NUM_DEVICES_def)
qed

theorem medium_diagnosis_skips_rvs_witness:
  "\<forall>v. \<exists>resp' s'. module_diagnostic_run (machine_libs demo_diag dead_hsa v)
       (new_diagnostic_module (machine_libs demo_diag dead_hsa v) (demo_gpu_world False) (ml_diagnostic (new_module_mgr (Inr 0) (Inr 1) (Inr 2))))
       \<lparr>group_name = ''g'', entity_ids = [0, 1]\<rparr> RDC_DIAG_LVL_MED None (Some \<lparr>rp_results_count = 0, rp_diag_info = replicate 6 empty_result\<rparr>) (demo_gpu_world False)
     = Some (RDC_ST_OK, Some resp', s') \<and> rp_results_count resp' = 6 \<and> tr_status (rp_diag_info resp' ! 5) = RDC_DIAG_RESULT_SKIP"
proof
  fix v
  let ?gi = "\<lparr>group_name = ''g'', entity_ids = [0, 1]\<rparr>" and ?rp = "\<lparr>rp_results_count = 0, rp_diag_info = replicate 6 empty_result\<rparr>"
  have "smi_diag_ready demo_diag tc (entity_ids ?gi)" for tc
    by (simp add: smi_diag_ready_def demo_diag_def demo_handles RDC_MAX_NUM_DEVICES_def lists_fit_def)
  moreover have "rocr_ready dead_hsa v tc (entity_ids ?gi)" for tc by (simp add: dead_hsa_ready)
  moreover have "length (rp_diag_info ?rp) = MAX_TEST_CASES" by (simp add: MAX_TEST_CASES_def)
  ultimately obtain resp' s' where "module_diagnostic_run (machine_libs demo_diag dead_hsa v)
       (new_diagnostic_module (machine_libs demo_diag dead_hsa v) (demo_gpu_world False) (ml_diagnostic (new_module_mgr (Inr 0) (Inr 1) (Inr 2))))
       ?gi RDC_DIAG_LVL_MED None (Some ?rp) (demo_gpu_world False) = Some (RDC_ST_OK, Some resp', s')" "rp_results_count resp' = 6"
    "rp_diag_info resp' ! 5 = (rp_diag_info ?rp ! 5)\<lparr>tr_test_case := RDC_DIAG_RVS_TEST, tr_status := RDC_DIAG_RESULT_SKIP, tr_info := ''Not implemented''\<rparr>"
    using medium_diagnosis_skips_rvs [where d = demo_diag and e = dead_hsa and v = v and gpus = ?gi and resp = ?rp and ?s0.0 = "demo_gpu_world False"
        and rocp = "Inr 2" and config = None and s = "demo_gpu_world False"] unfolding medium_results_def by blast
  then show "\<exists>resp' s'. module_diagnostic_run (machine_libs demo_diag dead_hsa v)
       (new_diagnostic_module (machine_libs demo_diag dead_hsa v) (demo_gpu_world False) (ml_diagnostic (new_module_mgr (Inr 0) (Inr 1) (Inr 2))))
       ?gi RDC_DIAG_LVL_MED None (Some ?rp) (demo_gpu_world False)
     = Some (RDC_ST_OK, Some resp', s') \<and> rp_results_count resp' = 6 \<and> tr_status (rp_diag_info resp' ! 5) = RDC_DIAG_RESULT_SKIP" by auto
qed

end
