(* ===== verification/Rdc_Service.thy ===== *)
theory Rdc_Service
  imports Rdc_Api
begin

text \<open>
  The gRPC service of the daemon: the messages of \<^verbatim>\<open>protos/rdc.proto\<close> and \<^verbatim>\<open>RdcAPIServiceImpl\<close>
  (\<^verbatim>\<open>server/src/rdc_api_service.cc\<close>), one definition per remote procedure, which calls the C API of an
  embedded session and packs its results. The request and the reply that the framework passes are not null.
\<close>

section \<open>Numbers of enumerators\<close>

text \<open>Enumerations travel as numbers. A number that is no enumerator's cannot be turned back.\<close>

fun status_code :: "rdc_status \<Rightarrow> u32" where
  "status_code RDC_ST_OK = 0"
| "status_code RDC_ST_NOT_SUPPORTED = 1"
| "status_code RDC_ST_MSI_ERROR = 2"
| "status_code RDC_ST_FAIL_LOAD_MODULE = 3"
| "status_code RDC_ST_INVALID_HANDLER = 4"
| "status_code RDC_ST_BAD_PARAMETER = 5"
| "status_code RDC_ST_NOT_FOUND = 6"
| "status_code RDC_ST_CONFLICT = 7"
| "status_code RDC_ST_CLIENT_ERROR = 8"
| "status_code RDC_ST_ALREADY_EXIST = 9"
| "status_code RDC_ST_MAX_LIMIT = 10"
| "status_code RDC_ST_INSUFF_RESOURCES = 11"
| "status_code RDC_ST_FILE_ERROR = 12"
| "status_code RDC_ST_NO_DATA = 13"
| "status_code RDC_ST_PERM_ERROR = 14"
| "status_code RDC_ST_DISABLED_MODULE = 15"
| "status_code RDC_ST_UNKNOWN_ERROR = 0xFFFFFFFF"

definition all_statuses :: "rdc_status list" where
  "all_statuses = [RDC_ST_OK, RDC_ST_NOT_SUPPORTED, RDC_ST_MSI_ERROR, RDC_ST_FAIL_LOAD_MODULE, RDC_ST_INVALID_HANDLER,
     RDC_ST_BAD_PARAMETER, RDC_ST_NOT_FOUND, RDC_ST_CONFLICT, RDC_ST_CLIENT_ERROR, RDC_ST_ALREADY_EXIST, RDC_ST_MAX_LIMIT,
     RDC_ST_INSUFF_RESOURCES, RDC_ST_FILE_ERROR, RDC_ST_NO_DATA, RDC_ST_PERM_ERROR, RDC_ST_DISABLED_MODULE, RDC_ST_UNKNOWN_ERROR]"

definition decode_enum :: "('e \<Rightarrow> u32) \<Rightarrow> 'e list \<Rightarrow> u32 \<Rightarrow> 'e option" where
  "decode_enum code es w = find (\<lambda>e. code e = w) es"

definition status_of_code :: "u32 \<Rightarrow> rdc_status option" where
  "status_of_code = decode_enum status_code all_statuses"

fun type_code :: "rdc_field_type \<Rightarrow> u32" where
  "type_code INTEGER = 0" | "type_code DOUBLE = 1" | "type_code STRING = 2" | "type_code BLOB = 3"

definition type_of_code :: "u32 \<Rightarrow> rdc_field_type option" where
  "type_of_code = decode_enum type_code [INTEGER, DOUBLE, STRING, BLOB]"

fun group_type_code :: "rdc_group_type \<Rightarrow> u32" where
  "group_type_code RDC_GROUP_DEFAULT = 0" | "group_type_code RDC_GROUP_EMPTY = 1"

definition group_type_of_code :: "u32 \<Rightarrow> rdc_group_type option" where
  "group_type_of_code = decode_enum group_type_code [RDC_GROUP_DEFAULT, RDC_GROUP_EMPTY]"

definition level_code :: "rdc_diag_level \<Rightarrow> u32" where "level_code l = word_of_nat (level_number l)"

definition level_of_code :: "u32 \<Rightarrow> rdc_diag_level option" where
  "level_of_code = decode_enum level_code [RDC_DIAG_LVL_INVALID, RDC_DIAG_LVL_SHORT, RDC_DIAG_LVL_MED, RDC_DIAG_LVL_LONG]"

definition test_code :: "rdc_diag_test_cases \<Rightarrow> u32" where "test_code t = word_of_nat (test_number t)"

definition test_of_code :: "u32 \<Rightarrow> rdc_diag_test_cases option" where
  "test_of_code = decode_enum test_code [RDC_DIAG_COMPUTE_PROCESS, RDC_DIAG_COMPUTE_QUEUE, RDC_DIAG_SYS_MEM_CHECK,
     RDC_DIAG_NODE_TOPOLOGY, RDC_DIAG_RVS_TEST, RDC_DIAG_GPU_PARAMETERS]"

definition result_code :: "rdc_diag_result \<Rightarrow> u32" where "result_code r = word_of_nat (result_number r)"

definition result_of_code :: "u32 \<Rightarrow> rdc_diag_result option" where
  "result_of_code = decode_enum result_code [RDC_DIAG_RESULT_PASS, RDC_DIAG_RESULT_SKIP, RDC_DIAG_RESULT_WARN, RDC_DIAG_RESULT_FAIL]"

section \<open>Messages\<close>

datatype rpc_request =
    GetAllDevicesRequest
  | GetDeviceAttributesRequest u32
  | GetComponentVersionRequest u32
  | CreateGpuGroupRequest u32 string
  | AddToGpuGroupRequest u32 u32
  | CreateFieldGroupRequest "u32 list" string
  | GetFieldGroupInfoRequest u32
  | GetGpuGroupInfoRequest u32
  | DestroyGpuGroupRequest u32
  | DestroyFieldGroupRequest u32
  | WatchFieldsRequest u32 u32 u64 real u32
  | GetLatestFieldValueRequest u32 u32
  | GetFieldSinceRequest u32 u32 u64
  | UnWatchFieldsRequest u32 u32
  | UpdateAllFieldsRequest u32
  | GetGroupAllIdsRequest
  | GetFieldGroupAllIdsRequest
  | StartJobStatsRequest u32 string u64
  | GetJobStatsRequest string
  | StopJobStatsRequest string
  | RemoveJobRequest string
  | RemoveAllJobRequest
  | DiagnosticRunRequest u32 u32 string u32
  | DiagnosticTestCaseRunRequest u32 u32 string u32
  | GetMixedComponentVersionRequest u32

record job_stats_summary_msg =
  jm_max_value :: u64
  jm_min_value :: u64
  jm_average :: u64
  jm_standard_deviation :: real

record gpu_usage_msg =
  gm_gpu_id :: u32
  gm_start_time :: u64
  gm_end_time :: u64
  gm_energy_consumed :: u64
  gm_power_usage :: job_stats_summary_msg
  gm_gpu_clock :: job_stats_summary_msg
  gm_gpu_utilization :: job_stats_summary_msg
  gm_max_gpu_memory_used :: u64
  gm_memory_utilization :: job_stats_summary_msg
  gm_ecc_correct :: u64
  gm_ecc_uncorrect :: u64
  gm_pcie_tx :: job_stats_summary_msg
  gm_pcie_rx :: job_stats_summary_msg
  gm_memory_clock :: job_stats_summary_msg
  gm_gpu_temperature :: job_stats_summary_msg

text \<open>
  The \<^verbatim>\<open>oneof\<close> of a value, with the getters that give a default for a member that is not set. The status of
  the value is an integer that goes through unchanged; a \<^verbatim>\<open>double\<close> is its bit pattern.
\<close>

datatype oneof_value = No_value | V_int u64 | V_dbl u64 | V_str string

fun msg_l_int :: "oneof_value \<Rightarrow> u64" where "msg_l_int (V_int w) = w" | "msg_l_int _ = 0"
fun msg_dbl :: "oneof_value \<Rightarrow> u64" where "msg_dbl (V_dbl w) = w" | "msg_dbl _ = 0"
fun msg_str :: "oneof_value \<Rightarrow> string" where "msg_str (V_str s) = s" | "msg_str _ = []"

record value_msg =
  vm_field_id :: u32
  vm_rdc_status :: value_status
  vm_ts :: u64
  vm_type :: u32
  vm_value :: oneof_value

text \<open>The members of the detail messages are those of the structures, which stand for them.\<close>

record test_result_msg =
  tm_status :: u32
  tm_details :: rdc_diag_detail
  tm_test_case :: u32
  tm_per_gpu_result_count :: u32
  tm_gpu_results :: "rdc_diag_per_gpu_result list"
  tm_info :: string

datatype rpc_reply =
    StatusReply u32
  | IdsReply u32 "u32 list"
  | IdReply u32 u32
  | TextReply u32 string
  | GroupReply u32 string "u32 list"
  | ValueReply u32 "value_msg option"
  | SinceReply u32 u64 "value_msg option"
  | JobReply u32 u32 "gpu_usage_msg option" "gpu_usage_msg list"
  | DiagReply u32 u32 "test_result_msg list"
  | TestReply u32 "test_result_msg option"

fun reply_status :: "rpc_reply \<Rightarrow> u32" where
  "reply_status (StatusReply s) = s"
| "reply_status (IdsReply s _) = s"
| "reply_status (IdReply s _) = s"
| "reply_status (TextReply s _) = s"
| "reply_status (GroupReply s _ _) = s"
| "reply_status (ValueReply s _) = s"
| "reply_status (SinceReply s _ _) = s"
| "reply_status (JobReply s _ _ _) = s"
| "reply_status (DiagReply s _ _) = s"
| "reply_status (TestReply s _) = s"

section \<open>The service\<close>

text \<open>
  The indeterminate local variables of the service functions, and the version string that is compiled in.
  The state of the service is the handle of its embedded session.
\<close>

record 'r server_env =
  sv_env :: "'r handler_env"
  sv_text :: string
  sv_id :: u32
  sv_next :: u64
  sv_value :: rdc_field_value
  sv_job :: rdc_job_info
  sv_diag :: rdc_diag_response
  sv_test :: rdc_diag_test_result
  sv_version :: string

type_synonym 'r rpc_result = "((unit + rpc_reply) \<times> 'r handler option) option"

text \<open>Calling the API and packing the reply, which is undefined where the packing reads beyond an array.\<close>

definition serve ::
    "'r server_env \<Rightarrow> api_call \<Rightarrow> (rdc_status \<Rightarrow> api_out \<Rightarrow> rpc_reply option) \<Rightarrow> 'r handler option \<Rightarrow> 'r rpc_result" where
  "serve e call pack hh =
     (case api_exec (emb_exec (sv_env e)) call hh of
        None \<Rightarrow> None
      | Some (st, out, hh') \<Rightarrow> map_option (\<lambda>r. (Inr r, hh')) (pack st out))"

definition status_only_reply :: "rdc_status \<Rightarrow> api_out \<Rightarrow> rpc_reply option" where
  "status_only_reply st out = Some (StatusReply (status_code st))"

fun ids_reply :: "rdc_status \<Rightarrow> api_out \<Rightarrow> rpc_reply option" where
  "ids_reply st (O_ids (Some l)) = Some (IdsReply (status_code st) (if st = RDC_ST_OK then l else []))"
| "ids_reply st _ = Some (IdsReply (status_code st) [])"

fun id_reply :: "u32 \<Rightarrow> rdc_status \<Rightarrow> api_out \<Rightarrow> rpc_reply option" where
  "id_reply d st (O_id (Some i)) = Some (IdReply (status_code st) (if st = RDC_ST_OK then i else 0))"
| "id_reply d st _ = Some (IdReply (status_code st) (if st = RDC_ST_OK then d else 0))"

text \<open>The text is packed whatever the status; when the call has not written it, it is what the buffer held.\<close>

fun text_reply :: "string \<Rightarrow> rdc_status \<Rightarrow> api_out \<Rightarrow> rpc_reply option" where
  "text_reply d st (O_text (Some s)) = Some (TextReply (status_code st) s)"
| "text_reply d st _ = Some (TextReply (status_code st) d)"

definition GetAllDevices :: "'r server_env \<Rightarrow> 'r handler option \<Rightarrow> 'r rpc_result" where
  "GetAllDevices e = serve e (A_device_get_all True) ids_reply"

definition GetDeviceAttributes :: "'r server_env \<Rightarrow> u32 \<Rightarrow> 'r handler option \<Rightarrow> 'r rpc_result" where
  "GetDeviceAttributes e gpu_index = serve e (A_device_get_attributes gpu_index (Some (sv_text e))) (text_reply (sv_text e))"

definition GetComponentVersion :: "'r server_env \<Rightarrow> u32 \<Rightarrow> 'r handler option \<Rightarrow> 'r rpc_result" where
  "GetComponentVersion e component =
     serve e (A_device_get_component_version component (Some (sv_text e))) (text_reply (sv_text e))"

definition CreateGpuGroup :: "'r server_env \<Rightarrow> u32 \<Rightarrow> string \<Rightarrow> 'r handler option \<Rightarrow> 'r rpc_result" where
  "CreateGpuGroup e type name hh =
     (case group_type_of_code type of
        None \<Rightarrow> None | Some t \<Rightarrow> serve e (A_group_gpu_create t (Some name) True) (id_reply 0) hh)"

definition AddToGpuGroup :: "'r server_env \<Rightarrow> u32 \<Rightarrow> u32 \<Rightarrow> 'r handler option \<Rightarrow> 'r rpc_result" where
  "AddToGpuGroup e gid g = serve e (A_group_gpu_add gid g) status_only_reply"

fun group_reply :: "rdc_status \<Rightarrow> api_out \<Rightarrow> rpc_reply option" where
  "group_reply st (O_group (Some i)) =
     Some (if st = RDC_ST_OK then GroupReply (status_code st) (group_name i) (entity_ids i) else GroupReply (status_code st) [] [])"
| "group_reply st _ = Some (GroupReply (status_code st) [] [])"

definition GetGpuGroupInfo :: "'r server_env \<Rightarrow> u32 \<Rightarrow> 'r handler option \<Rightarrow> 'r rpc_result" where
  "GetGpuGroupInfo e gid = serve e (A_group_gpu_get_info gid True) group_reply"

definition GetGroupAllIds :: "'r server_env \<Rightarrow> 'r handler option \<Rightarrow> 'r rpc_result" where
  "GetGroupAllIds e = serve e (A_group_get_all_ids True) ids_reply"

definition GetFieldGroupAllIds :: "'r server_env \<Rightarrow> 'r handler option \<Rightarrow> 'r rpc_result" where
  "GetFieldGroupAllIds e = serve e (A_group_field_get_all_ids True) ids_reply"

definition DestroyGpuGroup :: "'r server_env \<Rightarrow> u32 \<Rightarrow> 'r handler option \<Rightarrow> 'r rpc_result" where
  "DestroyGpuGroup e gid = serve e (A_group_gpu_destroy gid) status_only_reply"

text \<open>The fields are copied to an array of \<^const>\<open>RDC_MAX_FIELD_IDS_PER_FIELD_GROUP\<close> elements without a test.\<close>

definition CreateFieldGroup :: "'r server_env \<Rightarrow> u32 list \<Rightarrow> string \<Rightarrow> 'r handler option \<Rightarrow> 'r rpc_result" where
  "CreateFieldGroup e fids name hh =
     (if RDC_MAX_FIELD_IDS_PER_FIELD_GROUP < length fids then None
      else serve e (A_group_field_create (Some fids) (Some name) True) (id_reply (sv_id e)) hh)"

fun field_group_reply :: "rdc_status \<Rightarrow> api_out \<Rightarrow> rpc_reply option" where
  "field_group_reply st (O_field_group (Some i)) =
     Some (if st = RDC_ST_OK then GroupReply (status_code st) (fgroup_name i) (field_ids i) else GroupReply (status_code st) [] [])"
| "field_group_reply st _ = Some (GroupReply (status_code st) [] [])"

definition GetFieldGroupInfo :: "'r server_env \<Rightarrow> u32 \<Rightarrow> 'r handler option \<Rightarrow> 'r rpc_result" where
  "GetFieldGroupInfo e fgid = serve e (A_group_field_get_info fgid True) field_group_reply"

definition DestroyFieldGroup :: "'r server_env \<Rightarrow> u32 \<Rightarrow> 'r handler option \<Rightarrow> 'r rpc_result" where
  "DestroyFieldGroup e fgid = serve e (A_group_field_destroy fgid) status_only_reply"

definition WatchFields :: "'r server_env \<Rightarrow> u32 \<Rightarrow> u32 \<Rightarrow> u64 \<Rightarrow> real \<Rightarrow> u32 \<Rightarrow> 'r handler option \<Rightarrow> 'r rpc_result" where
  "WatchFields e gid fgid freq age n = serve e (A_field_watch gid fgid freq age n) status_only_reply"

text \<open>
  Packing a value: only the member that the type names. \<^verbatim>\<open>GetFieldSince\<close> first overwrites the blank
  after the last other character with a zero.
\<close>

definition pack_value :: "(string \<Rightarrow> string) \<Rightarrow> rdc_field_value \<Rightarrow> value_msg" where
  "pack_value f v = \<lparr>vm_field_id = fv_field_id v, vm_rdc_status = fv_status v, vm_ts = fv_ts v, vm_type = type_code (fv_type v),
     vm_value = (case fv_type v of INTEGER \<Rightarrow> V_int (l_int (fv_value v)) | DOUBLE \<Rightarrow> V_dbl (l_int (fv_value v))
                 | _ \<Rightarrow> V_str (f (c_str (fv_value v))))\<rparr>"

fun value_reply :: "rdc_status \<Rightarrow> api_out \<Rightarrow> rpc_reply option" where
  "value_reply st (O_value (Some v)) = Some (ValueReply (status_code st) (if st = RDC_ST_OK then Some (pack_value (\<lambda>s. s) v) else None))"
| "value_reply st _ = Some (ValueReply (status_code st) None)"

definition GetLatestFieldValue :: "'r server_env \<Rightarrow> u32 \<Rightarrow> u32 \<Rightarrow> 'r handler option \<Rightarrow> 'r rpc_result" where
  "GetLatestFieldValue e g f = serve e (A_field_get_latest_value g f (Some (sv_value e))) value_reply"

definition cut_blanks :: "string \<Rightarrow> string" where
  "cut_blanks s = s[length (dropWhile (\<lambda>c. c = CHR '' '') (rev s)) := CHR 0x00]"

fun since_reply :: "rdc_status \<Rightarrow> api_out \<Rightarrow> rpc_reply option" where
  "since_reply st (O_since (Some n) (Some v)) =
     Some (if st = RDC_ST_OK then SinceReply (status_code st) n (Some (pack_value cut_blanks v)) else SinceReply (status_code st) 0 None)"
| "since_reply st _ = Some (SinceReply (status_code st) 0 None)"

definition GetFieldSince :: "'r server_env \<Rightarrow> u32 \<Rightarrow> u32 \<Rightarrow> u64 \<Rightarrow> 'r handler option \<Rightarrow> 'r rpc_result" where
  "GetFieldSince e g f since =
     serve e (A_field_get_value_since g f since (Some (sv_next e)) (Some (sv_value e))) since_reply"

definition UnWatchFields :: "'r server_env \<Rightarrow> u32 \<Rightarrow> u32 \<Rightarrow> 'r handler option \<Rightarrow> 'r rpc_result" where
  "UnWatchFields e gid fgid = serve e (A_field_unwatch gid fgid) status_only_reply"

definition UpdateAllFields :: "'r server_env \<Rightarrow> u32 \<Rightarrow> 'r handler option \<Rightarrow> 'r rpc_result" where
  "UpdateAllFields e wait = serve e (A_field_update_all wait) status_only_reply"

definition StartJobStats :: "'r server_env \<Rightarrow> u32 \<Rightarrow> string \<Rightarrow> u64 \<Rightarrow> 'r handler option \<Rightarrow> 'r rpc_result" where
  "StartJobStats e gid j freq = serve e (A_job_start_stats gid j freq) status_only_reply"

definition pack_stats :: "rdc_stats_summary \<Rightarrow> job_stats_summary_msg" where
  "pack_stats s = \<lparr>jm_max_value = ss_max_value s, jm_min_value = ss_min_value s, jm_average = ss_average s,
     jm_standard_deviation = ss_standard_deviation s\<rparr>"

text \<open>\<^verbatim>\<open>RdcAPIServiceImpl::copy_gpu_usage_info\<close>.\<close>

definition pack_usage :: "rdc_gpu_usage_info \<Rightarrow> gpu_usage_msg" where
  "pack_usage src =
     \<lparr>gm_gpu_id = gu_gpu_id src, gm_start_time = gu_start_time src, gm_end_time = gu_end_time src,
      gm_energy_consumed = gu_energy_consumed src, gm_power_usage = pack_stats (gu_power_usage src),
      gm_gpu_clock = pack_stats (gu_gpu_clock src), gm_gpu_utilization = pack_stats (gu_gpu_utilization src),
      gm_max_gpu_memory_used = gu_max_gpu_memory_used src, gm_memory_utilization = pack_stats (gu_memory_utilization src),
      gm_ecc_correct = gu_ecc_correct src, gm_ecc_uncorrect = gu_ecc_uncorrect src,
      gm_pcie_tx = pack_stats (gu_pcie_tx src), gm_pcie_rx = pack_stats (gu_pcie_rx src),
      gm_memory_clock = pack_stats (gu_memory_clock src), gm_gpu_temperature = pack_stats (gu_gpu_temperature src)\<rparr>"

fun job_reply :: "rdc_status \<Rightarrow> api_out \<Rightarrow> rpc_reply option" where
  "job_reply st (O_job (Some i)) =
     (if st \<noteq> RDC_ST_OK then Some (JobReply (status_code st) 0 None [])
      else if length (ji_gpus i) < unat (ji_num_gpus i) then None
      else Some (JobReply (status_code st) (ji_num_gpus i) (Some (pack_usage (ji_summary i)))
                  (map pack_usage (take (unat (ji_num_gpus i)) (ji_gpus i)))))"
| "job_reply st _ = Some (JobReply (status_code st) 0 None [])"

definition GetJobStats :: "'r server_env \<Rightarrow> string \<Rightarrow> 'r handler option \<Rightarrow> 'r rpc_result" where
  "GetJobStats e j = serve e (A_job_get_stats j (Some (sv_job e))) job_reply"

definition StopJobStats :: "'r server_env \<Rightarrow> string \<Rightarrow> 'r handler option \<Rightarrow> 'r rpc_result" where
  "StopJobStats e j = serve e (A_job_stop_stats j) status_only_reply"

definition RemoveJob :: "'r server_env \<Rightarrow> string \<Rightarrow> 'r handler option \<Rightarrow> 'r rpc_result" where
  "RemoveJob e j = serve e (A_job_remove j) status_only_reply"

definition RemoveAllJob :: "'r server_env \<Rightarrow> 'r handler option \<Rightarrow> 'r rpc_result" where
  "RemoveAllJob e = serve e A_job_remove_all status_only_reply"

definition pack_test :: "rdc_diag_test_result \<Rightarrow> test_result_msg option" where
  "pack_test r =
     (if length (tr_gpu_results r) < unat (tr_per_gpu_result_count r) then None
      else Some \<lparr>tm_status = result_code (tr_status r), tm_details = tr_details r, tm_test_case = test_code (tr_test_case r),
                 tm_per_gpu_result_count = tr_per_gpu_result_count r,
                 tm_gpu_results = take (unat (tr_per_gpu_result_count r)) (tr_gpu_results r), tm_info = tr_info r\<rparr>)"

fun pack_tests :: "rdc_diag_test_result list \<Rightarrow> test_result_msg list option" where
  "pack_tests [] = Some []"
| "pack_tests (r # rs) = Option.bind (pack_test r) (\<lambda>m. map_option (Cons m) (pack_tests rs))"

fun diag_reply :: "rdc_status \<Rightarrow> api_out \<Rightarrow> rpc_reply option" where
  "diag_reply st (O_diag (Some r)) =
     (if st \<noteq> RDC_ST_OK then Some (DiagReply (status_code st) 0 [])
      else if length (rp_diag_info r) < unat (rp_results_count r) then None
      else map_option (DiagReply (status_code st) (rp_results_count r))
             (pack_tests (take (unat (rp_results_count r)) (rp_diag_info r))))"
| "diag_reply st _ = Some (DiagReply (status_code st) 0 [])"

definition DiagnosticRun :: "'r server_env \<Rightarrow> u32 \<Rightarrow> u32 \<Rightarrow> string \<Rightarrow> 'r handler option \<Rightarrow> 'r rpc_result" where
  "DiagnosticRun e gid level config hh =
     (case level_of_code level of
        None \<Rightarrow> None | Some l \<Rightarrow> serve e (A_diagnostic_run gid l (Some config) (Some (sv_diag e))) diag_reply hh)"

fun test_reply :: "rdc_status \<Rightarrow> api_out \<Rightarrow> rpc_reply option" where
  "test_reply st (O_test (Some r)) =
     (if st \<noteq> RDC_ST_OK then Some (TestReply (status_code st) None)
      else map_option (\<lambda>m. TestReply (status_code st) (Some m)) (pack_test r))"
| "test_reply st _ = Some (TestReply (status_code st) None)"

definition DiagnosticTestCaseRun :: "'r server_env \<Rightarrow> u32 \<Rightarrow> u32 \<Rightarrow> string \<Rightarrow> 'r handler option \<Rightarrow> 'r rpc_result" where
  "DiagnosticTestCaseRun e gid tc config hh =
     (case test_of_code tc of
        None \<Rightarrow> None | Some t \<Rightarrow> serve e (A_test_case_run gid t (Some config) (Some (sv_test e))) test_reply hh)"

text \<open>The only component is the daemon, number 0; another number is a failed call.\<close>

definition GetMixedComponentVersion :: "'r server_env \<Rightarrow> u32 \<Rightarrow> 'r handler option \<Rightarrow> 'r rpc_result" where
  "GetMixedComponentVersion e component hh =
     Some (if component = 0 then Inr (TextReply (status_code RDC_ST_OK) (sv_version e)) else Inl (), hh)"

text \<open>The configuration's size is not read from the message: the service takes the length of the text.\<close>

fun serve_request :: "'r server_env \<Rightarrow> rpc_request \<Rightarrow> 'r handler option \<Rightarrow> 'r rpc_result" where
  "serve_request e GetAllDevicesRequest = GetAllDevices e"
| "serve_request e (GetDeviceAttributesRequest g) = GetDeviceAttributes e g"
| "serve_request e (GetComponentVersionRequest c) = GetComponentVersion e c"
| "serve_request e (CreateGpuGroupRequest t nm) = CreateGpuGroup e t nm"
| "serve_request e (AddToGpuGroupRequest gid g) = AddToGpuGroup e gid g"
| "serve_request e (CreateFieldGroupRequest fids nm) = CreateFieldGroup e fids nm"
| "serve_request e (GetFieldGroupInfoRequest fgid) = GetFieldGroupInfo e fgid"
| "serve_request e (GetGpuGroupInfoRequest gid) = GetGpuGroupInfo e gid"
| "serve_request e (DestroyGpuGroupRequest gid) = DestroyGpuGroup e gid"
| "serve_request e (DestroyFieldGroupRequest fgid) = DestroyFieldGroup e fgid"
| "serve_request e (WatchFieldsRequest gid fgid freq age n) = WatchFields e gid fgid freq age n"
| "serve_request e (GetLatestFieldValueRequest g f) = GetLatestFieldValue e g f"
| "serve_request e (GetFieldSinceRequest g f t) = GetFieldSince e g f t"
| "serve_request e (UnWatchFieldsRequest gid fgid) = UnWatchFields e gid fgid"
| "serve_request e (UpdateAllFieldsRequest w) = UpdateAllFields e w"
| "serve_request e GetGroupAllIdsRequest = GetGroupAllIds e"
| "serve_request e GetFieldGroupAllIdsRequest = GetFieldGroupAllIds e"
| "serve_request e (StartJobStatsRequest gid j freq) = StartJobStats e gid j freq"
| "serve_request e (GetJobStatsRequest j) = GetJobStats e j"
| "serve_request e (StopJobStatsRequest j) = StopJobStats e j"
| "serve_request e (RemoveJobRequest j) = RemoveJob e j"
| "serve_request e RemoveAllJobRequest = RemoveAllJob e"
| "serve_request e (DiagnosticRunRequest gid l c n) = DiagnosticRun e gid l c"
| "serve_request e (DiagnosticTestCaseRunRequest gid t c n) = DiagnosticTestCaseRun e gid t c"
| "serve_request e (GetMixedComponentVersionRequest c) = GetMixedComponentVersion e c"

text \<open>\<^verbatim>\<open>Initialize\<close> and the destructor. The handle variable starts as the null pointer.\<close>

definition service_initialize ::
    "dynamic_linker \<Rightarrow> (rdc_operation_mode \<Rightarrow> 'r handler) \<Rightarrow> u64 \<Rightarrow> lib_loader \<Rightarrow> rdc_status \<times> 'r handler option \<times> lib_loader" where
  "service_initialize dl mk flags l =
     (if rdc_init flags \<noteq> RDC_ST_OK then (rdc_init flags, None, l)
      else case rdc_start_embedded dl RDC_OPERATION_MODE_AUTO mk True l of
             (st, written, l') \<Rightarrow> (st, case written of None \<Rightarrow> None | Some hh \<Rightarrow> hh, l'))"

definition service_destroy :: "'r handler option \<Rightarrow> lib_loader \<Rightarrow> 'r handler option \<times> lib_loader" where
  "service_destroy hh l = (None, snd (rdc_shutdown l))"

end
