(* ===== verification/Rdc_Client.thy ===== *)
theory Rdc_Client
  imports Rdc_Service
begin

text \<open>
  \<^verbatim>\<open>RdcStandaloneHandler\<close> (\<^verbatim>\<open>rdc_libs/rdc_client\<close>): the handler behind a remote session. Each method tests its
  out parameters, sends one request, and unpacks the reply into the caller's memory. The channel is a
  function from a request to the outcome of the call; its state is whatever is at the other end.
\<close>

section \<open>Calling\<close>

type_synonym 'w channel = "rpc_request \<Rightarrow> 'w \<Rightarrow> ((unit + rpc_reply) \<times> 'w) option"

text \<open>\<^verbatim>\<open>error_handle\<close>: a failed call is a client error, otherwise the status is that of the reply.\<close>

definition error_handle :: "unit + rpc_reply \<Rightarrow> rdc_status option" where
  "error_handle r = (case r of Inl _ \<Rightarrow> Some RDC_ST_CLIENT_ERROR | Inr m \<Rightarrow> status_of_code (reply_status m))"

definition client_call ::
    "'w channel \<Rightarrow> rpc_request \<Rightarrow> api_out \<Rightarrow> (rpc_reply \<Rightarrow> (rdc_status \<times> api_out) option) \<Rightarrow> 'w
     \<Rightarrow> (rdc_status \<times> api_out \<times> 'w) option" where
  "client_call ch rq out unpack w =
     (case ch rq w of
        None \<Rightarrow> None
      | Some (r, w') \<Rightarrow>
          (case error_handle r of
             None \<Rightarrow> None
           | Some st \<Rightarrow>
               (if st \<noteq> RDC_ST_OK then Some (st, out, w')
                else case r of Inl _ \<Rightarrow> None | Inr m \<Rightarrow> map_option (\<lambda>(st', out'). (st', out', w')) (unpack m))))"

definition status_call :: "'w channel \<Rightarrow> rpc_request \<Rightarrow> 'w \<Rightarrow> (rdc_status \<times> api_out \<times> 'w) option" where
  "status_call ch rq = client_call ch rq O_none (\<lambda>_. Some (RDC_ST_OK, O_none))"

section \<open>Jobs\<close>

definition unpack_stats :: "job_stats_summary_msg \<Rightarrow> rdc_stats_summary \<Rightarrow> rdc_stats_summary" where
  "unpack_stats m t = t\<lparr>ss_max_value := jm_max_value m, ss_min_value := jm_min_value m, ss_average := jm_average m,
     ss_standard_deviation := jm_standard_deviation m\<rparr>"

text \<open>\<^verbatim>\<open>RdcStandaloneHandler::copy_gpu_usage_info\<close>.\<close>

definition unpack_usage :: "gpu_usage_msg \<Rightarrow> rdc_gpu_usage_info \<Rightarrow> rdc_gpu_usage_info" where
  "unpack_usage src t =
     t\<lparr>gu_gpu_id := gm_gpu_id src, gu_start_time := gm_start_time src, gu_end_time := gm_end_time src,
       gu_energy_consumed := gm_energy_consumed src, gu_max_gpu_memory_used := gm_max_gpu_memory_used src,
       gu_ecc_correct := gm_ecc_correct src, gu_ecc_uncorrect := gm_ecc_uncorrect src,
       gu_power_usage := unpack_stats (gm_power_usage src) (gu_power_usage t),
       gu_gpu_clock := unpack_stats (gm_gpu_clock src) (gu_gpu_clock t),
       gu_gpu_utilization := unpack_stats (gm_gpu_utilization src) (gu_gpu_utilization t),
       gu_memory_utilization := unpack_stats (gm_memory_utilization src) (gu_memory_utilization t),
       gu_pcie_tx := unpack_stats (gm_pcie_tx src) (gu_pcie_tx t),
       gu_pcie_rx := unpack_stats (gm_pcie_rx src) (gu_pcie_rx t),
       gu_memory_clock := unpack_stats (gm_memory_clock src) (gu_memory_clock t),
       gu_gpu_temperature := unpack_stats (gm_gpu_temperature src) (gu_gpu_temperature t)\<rparr>"

text \<open>The loop over the GPUs of the reply; writing beyond the array is undefined.\<close>

fun unpack_gpus :: "gpu_usage_msg list \<Rightarrow> nat \<Rightarrow> rdc_gpu_usage_info list \<Rightarrow> rdc_gpu_usage_info list option" where
  "unpack_gpus [] i gs = Some gs"
| "unpack_gpus (m # ms) i gs =
     (if length gs \<le> i then None else unpack_gpus ms (Suc i) (gs[i := unpack_usage m (gs ! i)]))"

text \<open>A reply without a summary has the default one, whose members are all zero.\<close>

definition empty_stats_msg :: job_stats_summary_msg where
  "empty_stats_msg = \<lparr>jm_max_value = 0, jm_min_value = 0, jm_average = 0, jm_standard_deviation = 0\<rparr>"

definition empty_usage_msg :: gpu_usage_msg where
  "empty_usage_msg =
     \<lparr>gm_gpu_id = 0, gm_start_time = 0, gm_end_time = 0, gm_energy_consumed = 0, gm_power_usage = empty_stats_msg,
      gm_gpu_clock = empty_stats_msg, gm_gpu_utilization = empty_stats_msg, gm_max_gpu_memory_used = 0,
      gm_memory_utilization = empty_stats_msg, gm_ecc_correct = 0, gm_ecc_uncorrect = 0, gm_pcie_tx = empty_stats_msg,
      gm_pcie_rx = empty_stats_msg, gm_memory_clock = empty_stats_msg, gm_gpu_temperature = empty_stats_msg\<rparr>"

definition sta_job_start_stats :: "'w channel \<Rightarrow> u32 \<Rightarrow> string \<Rightarrow> u64 \<Rightarrow> 'w \<Rightarrow> (rdc_status \<times> api_out \<times> 'w) option" where
  "sta_job_start_stats ch gid j freq = status_call ch (StartJobStatsRequest gid j freq)"

fun unpack_job :: "rdc_job_info \<Rightarrow> rpc_reply \<Rightarrow> (rdc_status \<times> api_out) option" where
  "unpack_job ji (JobReply _ n summ gs) =
     map_option (\<lambda>gs'. (RDC_ST_OK, O_job (Some \<lparr>ji_num_gpus = n,
         ji_summary = unpack_usage (case summ of Some m \<Rightarrow> m | None \<Rightarrow> empty_usage_msg) (ji_summary ji), ji_gpus = gs'\<rparr>)))
       (unpack_gpus gs 0 (ji_gpus ji))"
| "unpack_job ji _ = None"

definition sta_job_get_stats :: "'w channel \<Rightarrow> string \<Rightarrow> rdc_job_info option \<Rightarrow> 'w \<Rightarrow> (rdc_status \<times> api_out \<times> 'w) option" where
  "sta_job_get_stats ch j info w =
     (case info of
        None \<Rightarrow> Some (RDC_ST_BAD_PARAMETER, O_job None, w)
      | Some ji \<Rightarrow> client_call ch (GetJobStatsRequest j) (O_job info) (unpack_job ji) w)"

definition sta_job_stop_stats :: "'w channel \<Rightarrow> string \<Rightarrow> 'w \<Rightarrow> (rdc_status \<times> api_out \<times> 'w) option" where
  "sta_job_stop_stats ch j = status_call ch (StopJobStatsRequest j)"

definition sta_job_remove :: "'w channel \<Rightarrow> string \<Rightarrow> 'w \<Rightarrow> (rdc_status \<times> api_out \<times> 'w) option" where
  "sta_job_remove ch j = status_call ch (RemoveJobRequest j)"

definition sta_job_remove_all :: "'w channel \<Rightarrow> 'w \<Rightarrow> (rdc_status \<times> api_out \<times> 'w) option" where
  "sta_job_remove_all ch = status_call ch RemoveAllJobRequest"

section \<open>Discovery\<close>

text \<open>A test of an out parameter before the request.\<close>

definition when_pointer ::
    "bool \<Rightarrow> api_out \<Rightarrow> ('w \<Rightarrow> (rdc_status \<times> api_out \<times> 'w) option) \<Rightarrow> 'w \<Rightarrow> (rdc_status \<times> api_out \<times> 'w) option" where
  "when_pointer present out f w = (if present then f w else Some (RDC_ST_BAD_PARAMETER, out, w))"

fun unpack_devices :: "rpc_reply \<Rightarrow> (rdc_status \<times> api_out) option" where
  "unpack_devices (IdsReply _ l) =
     Some (if RDC_MAX_NUM_DEVICES < length l then (RDC_ST_BAD_PARAMETER, O_ids None) else (RDC_ST_OK, O_ids (Some l)))"
| "unpack_devices _ = None"

definition sta_device_get_all :: "'w channel \<Rightarrow> bool \<Rightarrow> 'w \<Rightarrow> (rdc_status \<times> api_out \<times> 'w) option" where
  "sta_device_get_all ch has_count =
     when_pointer has_count (O_ids None) (client_call ch GetAllDevicesRequest (O_ids None) unpack_devices)"

text \<open>A \<^verbatim>\<open>std::string\<close> read as a C string ends at its first zero.\<close>

definition c_string :: "string \<Rightarrow> string" where
  "c_string s = takeWhile (\<lambda>c. c \<noteq> CHR 0x00) s"

fun unpack_text :: "string option \<Rightarrow> nat \<Rightarrow> rpc_reply \<Rightarrow> (rdc_status \<times> api_out) option" where
  "unpack_text (Some old) n (TextReply _ s) = Some (RDC_ST_OK, O_text (Some (strncpy_with_null old (c_string s) n)))"
| "unpack_text _ n _ = None"

definition sta_device_get_attributes :: "'w channel \<Rightarrow> u32 \<Rightarrow> string option \<Rightarrow> 'w \<Rightarrow> (rdc_status \<times> api_out \<times> 'w) option" where
  "sta_device_get_attributes ch g attr =
     when_pointer (attr \<noteq> None) (O_text None)
       (client_call ch (GetDeviceAttributesRequest g) (O_text attr) (unpack_text attr RDC_MAX_STR_LENGTH))"

definition sta_device_get_component_version :: "'w channel \<Rightarrow> u32 \<Rightarrow> string option \<Rightarrow> 'w \<Rightarrow> (rdc_status \<times> api_out \<times> 'w) option" where
  "sta_device_get_component_version ch component compv =
     when_pointer (compv \<noteq> None) (O_text None)
       (client_call ch (GetComponentVersionRequest component) (O_text compv) (unpack_text compv RDC_MAX_VERSION_STR_LENGTH))"

section \<open>Groups\<close>

fun unpack_id :: "rpc_reply \<Rightarrow> (rdc_status \<times> api_out) option" where
  "unpack_id (IdReply _ i) = Some (RDC_ST_OK, O_id (Some i))"
| "unpack_id _ = None"

definition sta_group_gpu_create :: "'w channel \<Rightarrow> rdc_group_type \<Rightarrow> string option \<Rightarrow> bool \<Rightarrow> 'w \<Rightarrow> (rdc_status \<times> api_out \<times> 'w) option" where
  "sta_group_gpu_create ch type name has_id w =
     (case name of
        None \<Rightarrow> Some (RDC_ST_BAD_PARAMETER, O_id None, w)
      | Some nm \<Rightarrow> when_pointer has_id (O_id None)
                     (client_call ch (CreateGpuGroupRequest (group_type_code type) nm) (O_id None) unpack_id) w)"

definition sta_group_gpu_add :: "'w channel \<Rightarrow> u32 \<Rightarrow> u32 \<Rightarrow> 'w \<Rightarrow> (rdc_status \<times> api_out \<times> 'w) option" where
  "sta_group_gpu_add ch gid g = status_call ch (AddToGpuGroupRequest gid g)"

definition sta_group_field_create :: "'w channel \<Rightarrow> u32 list option \<Rightarrow> string option \<Rightarrow> bool \<Rightarrow> 'w \<Rightarrow> (rdc_status \<times> api_out \<times> 'w) option" where
  "sta_group_field_create ch fids name has_id w =
     (case (fids, name) of
        (Some fs, Some nm) \<Rightarrow> when_pointer has_id (O_id None) (client_call ch (CreateFieldGroupRequest fs nm) (O_id None) unpack_id) w
      | _ \<Rightarrow> Some (RDC_ST_BAD_PARAMETER, O_id None, w))"

fun unpack_field_group :: "rpc_reply \<Rightarrow> (rdc_status \<times> api_out) option" where
  "unpack_field_group (GroupReply _ nm l) =
     Some (if RDC_MAX_FIELD_IDS_PER_FIELD_GROUP < length l then (RDC_ST_MAX_LIMIT, O_field_group None)
           else (RDC_ST_OK, O_field_group (Some \<lparr>fgroup_name = strncpy_with_null [] (c_string nm) RDC_MAX_STR_LENGTH, field_ids = l\<rparr>)))"
| "unpack_field_group _ = None"

definition sta_group_field_get_info :: "'w channel \<Rightarrow> u32 \<Rightarrow> bool \<Rightarrow> 'w \<Rightarrow> (rdc_status \<times> api_out \<times> 'w) option" where
  "sta_group_field_get_info ch fgid has_info =
     when_pointer has_info (O_field_group None) (client_call ch (GetFieldGroupInfoRequest fgid) (O_field_group None) unpack_field_group)"

fun unpack_group :: "rpc_reply \<Rightarrow> (rdc_status \<times> api_out) option" where
  "unpack_group (GroupReply _ nm l) =
     Some (if RDC_GROUP_MAX_ENTITIES < length l then (RDC_ST_MAX_LIMIT, O_group None)
           else (RDC_ST_OK, O_group (Some \<lparr>group_name = strncpy_with_null [] (c_string nm) RDC_MAX_STR_LENGTH, entity_ids = l\<rparr>)))"
| "unpack_group _ = None"

definition sta_group_gpu_get_info :: "'w channel \<Rightarrow> u32 \<Rightarrow> bool \<Rightarrow> 'w \<Rightarrow> (rdc_status \<times> api_out \<times> 'w) option" where
  "sta_group_gpu_get_info ch gid has_info =
     when_pointer has_info (O_group None) (client_call ch (GetGpuGroupInfoRequest gid) (O_group None) unpack_group)"

text \<open>A full table is refused: the test is \<^verbatim>\<open>>=\<close>, after the number of groups has been written.\<close>

fun unpack_ids :: "nat \<Rightarrow> rpc_reply \<Rightarrow> (rdc_status \<times> api_out) option" where
  "unpack_ids bnd (IdsReply _ l) = Some (if bnd \<le> length l then (RDC_ST_MAX_LIMIT, O_count (word_of_nat (length l))) else (RDC_ST_OK, O_ids (Some l)))"
| "unpack_ids bnd _ = None"

definition sta_group_get_all_ids :: "'w channel \<Rightarrow> bool \<Rightarrow> 'w \<Rightarrow> (rdc_status \<times> api_out \<times> 'w) option" where
  "sta_group_get_all_ids ch has_count =
     when_pointer has_count (O_ids None) (client_call ch GetGroupAllIdsRequest (O_ids None) (unpack_ids RDC_MAX_NUM_GROUPS))"

definition sta_group_field_get_all_ids :: "'w channel \<Rightarrow> bool \<Rightarrow> 'w \<Rightarrow> (rdc_status \<times> api_out \<times> 'w) option" where
  "sta_group_field_get_all_ids ch has_count =
     when_pointer has_count (O_ids None) (client_call ch GetFieldGroupAllIdsRequest (O_ids None) (unpack_ids RDC_MAX_NUM_FIELD_GROUPS))"

definition sta_group_gpu_destroy :: "'w channel \<Rightarrow> u32 \<Rightarrow> 'w \<Rightarrow> (rdc_status \<times> api_out \<times> 'w) option" where
  "sta_group_gpu_destroy ch gid = status_call ch (DestroyGpuGroupRequest gid)"

definition sta_group_field_destroy :: "'w channel \<Rightarrow> u32 \<Rightarrow> 'w \<Rightarrow> (rdc_status \<times> api_out \<times> 'w) option" where
  "sta_group_field_destroy ch fgid = status_call ch (DestroyFieldGroupRequest fgid)"

section \<open>Fields\<close>

definition sta_field_watch :: "'w channel \<Rightarrow> u32 \<Rightarrow> u32 \<Rightarrow> u64 \<Rightarrow> real \<Rightarrow> u32 \<Rightarrow> 'w \<Rightarrow> (rdc_status \<times> api_out \<times> 'w) option" where
  "sta_field_watch ch gid fgid freq age n = status_call ch (WatchFieldsRequest gid fgid freq age n)"

text \<open>A reply without a value has the default members.\<close>

definition empty_value_msg :: value_msg where
  "empty_value_msg = \<lparr>vm_field_id = 0, vm_rdc_status = St_rdc RDC_ST_OK, vm_ts = 0, vm_type = 0, vm_value = No_value\<rparr>"

definition unpack_value :: "value_msg option \<Rightarrow> rdc_field_value \<Rightarrow> rdc_field_value option" where
  "unpack_value m v =
     (let m' = (case m of Some x \<Rightarrow> x | None \<Rightarrow> empty_value_msg) in
      map_option (\<lambda>t. v\<lparr>fv_field_id := vm_field_id m', fv_status := vm_rdc_status m', fv_ts := vm_ts m', fv_type := t,
          fv_value := (case t of INTEGER \<Rightarrow> L_int (msg_l_int (vm_value m')) | DOUBLE \<Rightarrow> Dbl (msg_dbl (vm_value m'))
                       | _ \<Rightarrow> Str (strncpy_with_null [] (c_string (msg_str (vm_value m'))) RDC_MAX_STR_LENGTH))\<rparr>)
        (type_of_code (vm_type m')))"

fun unpack_latest :: "rdc_field_value \<Rightarrow> rpc_reply \<Rightarrow> (rdc_status \<times> api_out) option" where
  "unpack_latest v (ValueReply _ m) = map_option (\<lambda>v'. (RDC_ST_OK, O_value (Some v'))) (unpack_value m v)"
| "unpack_latest v _ = None"

definition sta_field_get_latest_value ::
    "'w channel \<Rightarrow> u32 \<Rightarrow> u32 \<Rightarrow> rdc_field_value option \<Rightarrow> 'w \<Rightarrow> (rdc_status \<times> api_out \<times> 'w) option" where
  "sta_field_get_latest_value ch g f val w =
     (case val of
        None \<Rightarrow> Some (RDC_ST_BAD_PARAMETER, O_value None, w)
      | Some v \<Rightarrow> client_call ch (GetLatestFieldValueRequest g f) (O_value val) (unpack_latest v) w)"

fun unpack_since :: "rdc_field_value \<Rightarrow> rpc_reply \<Rightarrow> (rdc_status \<times> api_out) option" where
  "unpack_since v (SinceReply _ n m) = map_option (\<lambda>v'. (RDC_ST_OK, O_since (Some n) (Some v'))) (unpack_value m v)"
| "unpack_since v _ = None"

definition sta_field_get_value_since ::
    "'w channel \<Rightarrow> u32 \<Rightarrow> u32 \<Rightarrow> u64 \<Rightarrow> u64 option \<Rightarrow> rdc_field_value option \<Rightarrow> 'w \<Rightarrow> (rdc_status \<times> api_out \<times> 'w) option" where
  "sta_field_get_value_since ch g f since next_ts val w =
     (case (next_ts, val) of
        (Some _, Some v) \<Rightarrow> client_call ch (GetFieldSinceRequest g f since) (O_since next_ts val) (unpack_since v) w
      | _ \<Rightarrow> Some (RDC_ST_BAD_PARAMETER, O_since next_ts val, w))"

definition sta_field_unwatch :: "'w channel \<Rightarrow> u32 \<Rightarrow> u32 \<Rightarrow> 'w \<Rightarrow> (rdc_status \<times> api_out \<times> 'w) option" where
  "sta_field_unwatch ch gid fgid = status_call ch (UnWatchFieldsRequest gid fgid)"

section \<open>Diagnostics\<close>

definition copy_detail :: "rdc_diag_detail \<Rightarrow> rdc_diag_detail \<Rightarrow> rdc_diag_detail" where
  "copy_detail m t = t\<lparr>dd_code := dd_code m, dd_msg := strncpy_with_null (dd_msg t) (c_string (dd_msg m)) MAX_DIAG_MSG_LENGTH\<rparr>"

fun copy_gpu_results :: "rdc_diag_per_gpu_result list \<Rightarrow> nat \<Rightarrow> rdc_diag_per_gpu_result list \<Rightarrow> rdc_diag_per_gpu_result list" where
  "copy_gpu_results [] j gs = gs"
| "copy_gpu_results (m # ms) j gs =
     copy_gpu_results ms (Suc j)
       (gs[j := (gs ! j)\<lparr>pg_gpu_index := pg_gpu_index m, pg_gpu_result := copy_detail (pg_gpu_result m) (pg_gpu_result (gs ! j))\<rparr>])"

text \<open>
  One test result. A reply with more GPUs than the array holds is refused after the first members are
  written. Numbers of results and test cases that are no enumerator's leave the model.
\<close>

definition copy_test_result :: "test_result_msg \<Rightarrow> rdc_diag_test_result \<Rightarrow> (rdc_status \<times> rdc_diag_test_result) option" where
  "copy_test_result m t =
     (case (result_of_code (tm_status m), test_of_code (tm_test_case m)) of
        (Some st, Some tc) \<Rightarrow>
          let t1 = t\<lparr>tr_status := st, tr_details := copy_detail (tm_details m) (tr_details t), tr_test_case := tc,
                     tr_per_gpu_result_count := tm_per_gpu_result_count m\<rparr>
          in Some (if RDC_MAX_NUM_DEVICES < length (tm_gpu_results m) then (RDC_ST_BAD_PARAMETER, t1)
                   else (RDC_ST_OK, put_info (c_string (tm_info m))
                           (t1\<lparr>tr_gpu_results := copy_gpu_results (tm_gpu_results m) 0 (tr_gpu_results t1)\<rparr>)))
      | _ \<Rightarrow> None)"

fun copy_test_results :: "test_result_msg list \<Rightarrow> nat \<Rightarrow> rdc_diag_test_result list \<Rightarrow> (rdc_status \<times> rdc_diag_test_result list) option" where
  "copy_test_results [] i ts = Some (RDC_ST_OK, ts)"
| "copy_test_results (m # ms) i ts =
     (case copy_test_result m (ts ! i) of
        None \<Rightarrow> None
      | Some (st, t) \<Rightarrow> if st \<noteq> RDC_ST_OK then Some (st, ts[i := t]) else copy_test_results ms (Suc i) (ts[i := t]))"

fun unpack_diag :: "rdc_diag_response \<Rightarrow> rpc_reply \<Rightarrow> (rdc_status \<times> api_out) option" where
  "unpack_diag r (DiagReply _ n ms) =
     (let r1 = r\<lparr>rp_results_count := n\<rparr> in
      if MAX_TEST_CASES < length ms then Some (RDC_ST_BAD_PARAMETER, O_diag (Some r1))
      else map_option (\<lambda>(st, ts). (st, O_diag (Some (r1\<lparr>rp_diag_info := ts\<rparr>)))) (copy_test_results ms 0 (rp_diag_info r1)))"
| "unpack_diag r _ = None"

text \<open>A configuration that is the null pointer cannot be put into a request.\<close>

definition sta_diagnostic_run ::
    "'w channel \<Rightarrow> u32 \<Rightarrow> rdc_diag_level \<Rightarrow> string option \<Rightarrow> rdc_diag_response option \<Rightarrow> 'w \<Rightarrow> (rdc_status \<times> api_out \<times> 'w) option" where
  "sta_diagnostic_run ch gid level config resp w =
     (case resp of
        None \<Rightarrow> Some (RDC_ST_BAD_PARAMETER, O_diag None, w)
      | Some r \<Rightarrow>
          (case config of
             None \<Rightarrow> None
           | Some c \<Rightarrow> client_call ch (DiagnosticRunRequest gid (level_code level) c (word_of_nat (length c))) (O_diag resp) (unpack_diag r) w))"

definition empty_test_msg :: test_result_msg where
  "empty_test_msg = \<lparr>tm_status = 0, tm_details = empty_detail, tm_test_case = 0, tm_per_gpu_result_count = 0, tm_gpu_results = [], tm_info = []\<rparr>"

fun unpack_test :: "rdc_diag_test_result \<Rightarrow> rpc_reply \<Rightarrow> (rdc_status \<times> api_out) option" where
  "unpack_test t (TestReply _ m) =
     map_option (\<lambda>(st, t'). (st, O_test (Some t'))) (copy_test_result (case m of Some x \<Rightarrow> x | None \<Rightarrow> empty_test_msg) t)"
| "unpack_test t _ = None"

definition sta_test_case_run ::
    "'w channel \<Rightarrow> u32 \<Rightarrow> rdc_diag_test_cases \<Rightarrow> string option \<Rightarrow> rdc_diag_test_result option \<Rightarrow> 'w \<Rightarrow> (rdc_status \<times> api_out \<times> 'w) option" where
  "sta_test_case_run ch gid tc config res w =
     (case res of
        None \<Rightarrow> Some (RDC_ST_BAD_PARAMETER, O_test None, w)
      | Some t \<Rightarrow>
          (case config of
             None \<Rightarrow> None
           | Some c \<Rightarrow> client_call ch (DiagnosticTestCaseRunRequest gid (test_code tc) c (word_of_nat (length c))) (O_test res) (unpack_test t) w))"

section \<open>Control\<close>

definition sta_field_update_all :: "'w channel \<Rightarrow> u32 \<Rightarrow> 'w \<Rightarrow> (rdc_status \<times> api_out \<times> 'w) option" where
  "sta_field_update_all ch wait = status_call ch (UpdateAllFieldsRequest wait)"

definition USR_MAX_VERSION_STR_LENGTH :: nat where "USR_MAX_VERSION_STR_LENGTH = 60"

definition sta_mixed_component_version :: "'w channel \<Rightarrow> u32 \<Rightarrow> string option \<Rightarrow> 'w \<Rightarrow> (rdc_status \<times> api_out \<times> 'w) option" where
  "sta_mixed_component_version ch component ver =
     when_pointer (ver \<noteq> None) (O_text None)
       (client_call ch (GetMixedComponentVersionRequest component) (O_text ver) (unpack_text ver USR_MAX_VERSION_STR_LENGTH))"

fun sta_exec :: "'w channel \<Rightarrow> api_call \<Rightarrow> 'w \<Rightarrow> (rdc_status \<times> api_out \<times> 'w) option" where
  "sta_exec ch (A_job_start_stats gid j freq) = sta_job_start_stats ch gid j freq"
| "sta_exec ch (A_job_get_stats j info) = sta_job_get_stats ch j info"
| "sta_exec ch (A_job_stop_stats j) = sta_job_stop_stats ch j"
| "sta_exec ch (A_job_remove j) = sta_job_remove ch j"
| "sta_exec ch A_job_remove_all = sta_job_remove_all ch"
| "sta_exec ch (A_device_get_all c) = sta_device_get_all ch c"
| "sta_exec ch (A_device_get_attributes g a) = sta_device_get_attributes ch g a"
| "sta_exec ch (A_device_get_component_version c v) = sta_device_get_component_version ch c v"
| "sta_exec ch (A_group_gpu_create t nm i) = sta_group_gpu_create ch t nm i"
| "sta_exec ch (A_group_gpu_add gid g) = sta_group_gpu_add ch gid g"
| "sta_exec ch (A_group_field_create fs nm i) = sta_group_field_create ch fs nm i"
| "sta_exec ch (A_group_field_get_info fgid i) = sta_group_field_get_info ch fgid i"
| "sta_exec ch (A_group_gpu_get_info gid i) = sta_group_gpu_get_info ch gid i"
| "sta_exec ch (A_group_get_all_ids c) = sta_group_get_all_ids ch c"
| "sta_exec ch (A_group_field_get_all_ids c) = sta_group_field_get_all_ids ch c"
| "sta_exec ch (A_group_gpu_destroy gid) = sta_group_gpu_destroy ch gid"
| "sta_exec ch (A_group_field_destroy fgid) = sta_group_field_destroy ch fgid"
| "sta_exec ch (A_field_watch gid fgid freq age n) = sta_field_watch ch gid fgid freq age n"
| "sta_exec ch (A_field_get_latest_value g f v) = sta_field_get_latest_value ch g f v"
| "sta_exec ch (A_field_get_value_since g f t n v) = sta_field_get_value_since ch g f t n v"
| "sta_exec ch (A_field_unwatch gid fgid) = sta_field_unwatch ch gid fgid"
| "sta_exec ch (A_diagnostic_run gid l c r) = sta_diagnostic_run ch gid l c r"
| "sta_exec ch (A_test_case_run gid t c r) = sta_test_case_run ch gid t c r"
| "sta_exec ch (A_field_update_all w) = sta_field_update_all ch w"
| "sta_exec ch (A_mixed_component_version c v) = sta_mixed_component_version ch c v"

end
