(* ===== verification/Rdci.thy ===== *)
theory Rdci
  imports Rdc_Client
begin

text \<open>
  The command line tool \<^verbatim>\<open>rdci\<close>: the base class \<^verbatim>\<open>RdciSubSystem\<close> and the helpers of \<^verbatim>\<open>rdc_utils.cc\<close>, the
  subsystems \<^verbatim>\<open>group\<close>, \<^verbatim>\<open>fieldgroup\<close>, \<^verbatim>\<open>stats\<close>, \<^verbatim>\<open>discovery\<close> and \<^verbatim>\<open>diag\<close>. A command is a function of the
  session it talks to; \<^verbatim>\<open>getopt_long\<close> is represented by the list of its results, the API by a parameter.
\<close>

section \<open>Commands\<close>

text \<open>
  The output is a list of texts; the usage information of a subsystem is one item. An exception is an
  \<^verbatim>\<open>RdcException\<close> with its status and message, or another one. \<open>cl_json\<close> is the flag of the subsystem that
  \<^verbatim>\<open>main\<close> still reads after an exception.
\<close>

datatype chunk = Text string | Help string

datatype cli_exc = Rdc_exception rdc_status string | Other_exception

record 'w cli =
  cl_world :: 'w
  cl_out :: "chunk list"
  cl_json :: bool

type_synonym ('w, 'a) cmd = "'w cli \<Rightarrow> ((cli_exc + 'a) \<times> 'w cli) option"
type_synonym 'w api = "api_call \<Rightarrow> 'w \<Rightarrow> (rdc_status \<times> api_out \<times> 'w) option"

definition ret :: "'a \<Rightarrow> ('w, 'a) cmd" where
  "ret a s = Some (Inr a, s)"

definition throw :: "cli_exc \<Rightarrow> ('w, 'a) cmd" where
  "throw x s = Some (Inl x, s)"

text \<open>Undefined behaviour of the command itself.\<close>

definition undefined_cmd :: "('w, 'a) cmd" where
  "undefined_cmd s = None"

definition bind_cmd :: "('w, 'a) cmd \<Rightarrow> ('a \<Rightarrow> ('w, 'b) cmd) \<Rightarrow> ('w, 'b) cmd" where
  "bind_cmd m k s =
     (case m s of None \<Rightarrow> None | Some (Inl x, s') \<Rightarrow> Some (Inl x, s') | Some (Inr a, s') \<Rightarrow> k a s')"

definition then_cmd :: "('w, unit) cmd \<Rightarrow> ('w, 'b) cmd \<Rightarrow> ('w, 'b) cmd" where
  "then_cmd m k = bind_cmd m (\<lambda>_. k)"

fun for_each :: "'x list \<Rightarrow> ('x \<Rightarrow> ('w, unit) cmd) \<Rightarrow> ('w, unit) cmd" where
  "for_each [] body = ret ()"
| "for_each (x # xs) body = then_cmd (body x) (for_each xs body)"

definition say :: "string \<Rightarrow> ('w, unit) cmd" where
  "say t s = Some (Inr (), s\<lparr>cl_out := cl_out s @ [Text t]\<rparr>)"

definition show_help :: "string \<Rightarrow> ('w, unit) cmd" where
  "show_help subsystem s = Some (Inr (), s\<lparr>cl_out := cl_out s @ [Help subsystem]\<rparr>)"

definition call :: "'w api \<Rightarrow> api_call \<Rightarrow> ('w, rdc_status \<times> api_out) cmd" where
  "call api c s =
     (case api c (cl_world s) of
        None \<Rightarrow> None
      | Some (st, out, w) \<Rightarrow> Some (Inr (st, out), s\<lparr>cl_world := w\<rparr>))"

definition nl :: string where "nl = [CHR 0x0A]"
definition tab :: string where "tab = [CHR 0x09]"
definition qt :: "string \<Rightarrow> string" where "qt s = CHR 0x22 # s @ [CHR 0x22]"

definition setw :: "nat \<Rightarrow> string \<Rightarrow> string" where
  "setw n s = s @ replicate (n - length s) CHR '' ''"

section \<open>Numbers and lists on the command line\<close>

definition is_digit :: "char \<Rightarrow> bool" where
  "is_digit c \<longleftrightarrow> CHR ''0'' \<le> c \<and> c \<le> CHR ''9''"

definition IsNumber :: "string \<Rightarrow> bool" where
  "IsNumber s \<longleftrightarrow> s \<noteq> [] \<and> list_all is_digit s"

definition digits_value :: "string \<Rightarrow> nat" where
  "digits_value s = foldl (\<lambda>n c. 10 * n + (of_char c - 48)) 0 s"

text \<open>\<^verbatim>\<open>std::stoi\<close> on a string of digits throws when the number does not fit an \<^verbatim>\<open>int\<close>.\<close>

definition stoi :: "string \<Rightarrow> ('w, u32) cmd" where
  "stoi s = (if digits_value s < 2 ^ 31 then ret (word_of_nat (digits_value s)) else throw Other_exception)"

text \<open>\<^verbatim>\<open>std::getline\<close> until the end of the stream: a delimiter at the end adds no empty token.\<close>

fun split_loop :: "char \<Rightarrow> string \<Rightarrow> string \<Rightarrow> string list" where
  "split_loop d token [] = (if token = [] then [] else [token])"
| "split_loop d token (c # cs) = (if c = d then token # split_loop d [] cs else split_loop d (token @ [c]) cs)"

definition split_string :: "string \<Rightarrow> char \<Rightarrow> string list" where
  "split_string s d = split_loop d [] s"

section \<open>\<open>RdciSubSystem\<close>\<close>

text \<open>An option as \<^verbatim>\<open>getopt_long\<close> delivers it, with \<^verbatim>\<open>optarg\<close>.\<close>

datatype cli_opt = HOST_OPTIONS | JSON_OPTIONS | LIST_ALL_FIELDS_OPT | Short char | Unknown_opt

type_synonym cli_args = "(cli_opt \<times> string option) list"

record subsystem =
  ss_ip_port :: string
  ss_use_auth :: bool
  ss_root_ca :: string
  ss_client_cert :: string
  ss_client_key :: string
  ss_json :: bool

definition new_subsystem :: subsystem where
  "new_subsystem = \<lparr>ss_ip_port = ''localhost:50051'', ss_use_auth = True,
     ss_root_ca = ''/etc/rdc/client/certs/rdc_cacert.pem'',
     ss_client_cert = ''/etc/rdc/client/certs/rdc_client_cert.pem'',
     ss_client_key = ''/etc/rdc/client/private/rdc_client_cert.key'', ss_json = False\<rparr>"

text \<open>The content of a file that exists; reading it may fail all the same.\<close>

record file_system =
  fs_exists :: "string \<Rightarrow> bool"
  fs_read :: "string \<Rightarrow> string option"

definition need_file :: "file_system \<Rightarrow> string \<Rightarrow> string \<Rightarrow> string \<Rightarrow> string \<Rightarrow> ('w, string) cmd" where
  "need_file fs path what missing unreadable =
     (if \<not> fs_exists fs path
      then then_cmd (say (''In order to use the SSL mutual authentication, the '' @ what @ '' must be copied to '' @ path @ nl))
             (throw (Rdc_exception RDC_ST_BAD_PARAMETER missing))
      else case fs_read fs path of
             None \<Rightarrow> throw (Rdc_exception RDC_ST_BAD_PARAMETER (unreadable @ path))
           | Some t \<Rightarrow> ret t)"

text \<open>\<open>open_channel\<close> is \<^verbatim>\<open>rdc_connect\<close> with the address and the credentials; its status is checked.\<close>

definition connect ::
    "file_system \<Rightarrow> (string \<Rightarrow> (string \<times> string \<times> string) option \<Rightarrow> rdc_status) \<Rightarrow> subsystem \<Rightarrow> ('w, unit) cmd" where
  "connect fs open_channel co =
     bind_cmd
       (if ss_use_auth co
        then bind_cmd (need_file fs (ss_root_ca co) ''root CA'' ''root CA not found'' ''Fail to read root CA at'') (\<lambda>ca.
             bind_cmd (need_file fs (ss_client_cert co) ''client certificate'' ''client cert not found'' ''Fail to read client certificate at'') (\<lambda>cert.
             bind_cmd (need_file fs (ss_client_key co) ''client private key'' ''client key not found'' ''Fail to read client key at '') (\<lambda>key.
             ret (open_channel (ss_ip_port co) (Some (ca, cert, key))))))
        else ret (open_channel (ss_ip_port co) None))
       (\<lambda>status. if status \<noteq> RDC_ST_OK
                 then throw (Rdc_exception status ''Fail to setup the connection. Please check all libraries in right folder'')
                 else ret ())"

definition help_unless_json :: "subsystem \<Rightarrow> string \<Rightarrow> ('w, unit) cmd" where
  "help_unless_json co name = (if ss_json co then ret () else show_help name)"

definition set_json_output :: "subsystem \<Rightarrow> ('w, subsystem) cmd" where
  "set_json_output co =
     then_cmd (\<lambda>s. Some (Inr (), s\<lparr>cl_json := True\<rparr>)) (then_cmd (say ''{'') (ret (co\<lparr>ss_json := True\<rparr>)))"

text \<open>A number on the command line, or the usage information and an exception.\<close>

definition number_arg :: "('w, unit) cmd \<Rightarrow> string \<Rightarrow> string option \<Rightarrow> ('w, u32) cmd" where
  "number_arg help msg optarg =
     (case optarg of
        None \<Rightarrow> undefined_cmd
      | Some a \<Rightarrow>
          if IsNumber a then stoi a else then_cmd help (throw (Rdc_exception RDC_ST_BAD_PARAMETER msg)))"

definition bad_usage :: "('w, unit) cmd \<Rightarrow> string \<Rightarrow> ('w, 'a) cmd" where
  "bad_usage help msg = then_cmd help (throw (Rdc_exception RDC_ST_BAD_PARAMETER msg))"

definition string_arg :: "string option \<Rightarrow> ('w, string) cmd" where
  "string_arg optarg = (case optarg of None \<Rightarrow> undefined_cmd | Some a \<Rightarrow> ret a)"

fun ids_text :: "u32 list \<Rightarrow> string" where
  "ids_text [] = ''''"
| "ids_text [i] = u32_string i"
| "ids_text (i # ids) = u32_string i @ '','' @ ids_text ids"

section \<open>\<open>group\<close>\<close>

datatype group_op = GROUP_UNKNOWN | GROUP_HELP | GROUP_CREATE | GROUP_DELETE | GROUP_LIST | GROUP_ADD_GPUS | GROUP_INFO

record group_cmd =
  gc_base :: subsystem
  gc_op :: group_op
  gc_set :: bool
  gc_group_id :: u32
  gc_name :: string
  gc_ids :: string

definition new_group_cmd :: group_cmd where
  "new_group_cmd = \<lparr>gc_base = new_subsystem, gc_op = GROUP_UNKNOWN, gc_set = False, gc_group_id = 0, gc_name = '''', gc_ids = ''''\<rparr>"

definition group_help :: "group_cmd \<Rightarrow> ('w, unit) cmd" where
  "group_help co = help_unless_json (gc_base co) ''group''"

fun group_parse :: "cli_args \<Rightarrow> group_cmd \<Rightarrow> ('w, group_cmd) cmd" where
  "group_parse [] co =
     (if gc_op co = GROUP_UNKNOWN then bad_usage (group_help co) ''Must specify a valid operations'' else ret co)"
| "group_parse ((opt, optarg) # args) co =
     (case opt of
        HOST_OPTIONS \<Rightarrow> bind_cmd (string_arg optarg) (\<lambda>a. group_parse args (co\<lparr>gc_base := (gc_base co)\<lparr>ss_ip_port := a\<rparr>\<rparr>))
      | JSON_OPTIONS \<Rightarrow> bind_cmd (set_json_output (gc_base co)) (\<lambda>b. group_parse args (co\<lparr>gc_base := b\<rparr>))
      | Short c \<Rightarrow>
          if c = CHR ''h'' then ret (co\<lparr>gc_op := GROUP_HELP\<rparr>)
          else if c = CHR ''u'' then group_parse args (co\<lparr>gc_base := (gc_base co)\<lparr>ss_use_auth := False\<rparr>\<rparr>)
          else if c = CHR ''l'' then group_parse args (co\<lparr>gc_op := GROUP_LIST\<rparr>)
          else if c = CHR ''g'' then
            bind_cmd (number_arg (group_help co) ''The group id needs to be a number'' optarg)
              (\<lambda>n. group_parse args (co\<lparr>gc_group_id := n, gc_set := True\<rparr>))
          else if c = CHR ''c'' then bind_cmd (string_arg optarg) (\<lambda>a. group_parse args (co\<lparr>gc_op := GROUP_CREATE, gc_name := a\<rparr>))
          else if c = CHR ''a'' then
            bind_cmd (string_arg optarg) (\<lambda>a. group_parse args
              (co\<lparr>gc_op := (if gc_op co \<noteq> GROUP_CREATE then GROUP_ADD_GPUS else gc_op co), gc_ids := a\<rparr>))
          else if c = CHR ''i'' then group_parse args (co\<lparr>gc_op := GROUP_INFO\<rparr>)
          else if c = CHR ''d'' then
            bind_cmd (number_arg (group_help (co\<lparr>gc_op := GROUP_DELETE\<rparr>)) ''The group id needs to be a number'' optarg)
              (\<lambda>n. group_parse args (co\<lparr>gc_op := GROUP_DELETE, gc_group_id := n, gc_set := True\<rparr>))
          else bad_usage (group_help co) ''Unknown command line options''
      | _ \<Rightarrow> bad_usage (group_help co) ''Unknown command line options'')"

text \<open>Adding the GPUs of a comma-separated list, one call each; the list stops at the first error.\<close>

definition add_gpus :: "'w api \<Rightarrow> u32 \<Rightarrow> string list \<Rightarrow> ('w, unit) cmd" where
  "add_gpus api gid ids =
     for_each ids (\<lambda>t.
       if \<not> IsNumber t then throw (Rdc_exception RDC_ST_BAD_PARAMETER (''The GPU Id '' @ t @ '' needs to be a number''))
       else bind_cmd (stoi t) (\<lambda>n.
            bind_cmd (call api (A_group_gpu_add gid n)) (\<lambda>(st, _).
            if st \<noteq> RDC_ST_OK then throw (Rdc_exception st (''Fail to add GPU '' @ t @ '' to the group'')) else ret ())))"

definition out_id :: "api_out \<Rightarrow> ('w, u32) cmd" where
  "out_id out = (case out of O_id (Some i) \<Rightarrow> ret i | _ \<Rightarrow> undefined_cmd)"

definition out_ids :: "api_out \<Rightarrow> ('w, u32 list) cmd" where
  "out_ids out = (case out of O_ids (Some l) \<Rightarrow> ret l | _ \<Rightarrow> undefined_cmd)"

definition out_group :: "api_out \<Rightarrow> ('w, rdc_group_info) cmd" where
  "out_group out = (case out of O_group (Some g) \<Rightarrow> ret g | _ \<Rightarrow> undefined_cmd)"

definition out_field_group :: "api_out \<Rightarrow> ('w, rdc_field_group_info) cmd" where
  "out_field_group out = (case out of O_field_group (Some g) \<Rightarrow> ret g | _ \<Rightarrow> undefined_cmd)"

definition throw_status :: "rdc_status \<Rightarrow> ('w, 'a) cmd" where
  "throw_status st = throw (Rdc_exception st (rdc_status_string st))"

definition group_create :: "'w api \<Rightarrow> group_cmd \<Rightarrow> ('w, unit) cmd" where
  "group_create api co =
     (if gc_name co = '''' then bad_usage (group_help co) ''Must specify the group name when create a group''
      else bind_cmd (call api (A_group_gpu_create RDC_GROUP_EMPTY (Some (gc_name co)) True)) (\<lambda>(st, out).
           if st \<noteq> RDC_ST_OK then throw (Rdc_exception st (''Fail to create group '' @ gc_name co))
           else bind_cmd (out_id out) (\<lambda>gid.
                then_cmd (add_gpus api gid (split_string (gc_ids co) CHR '',''))
                  (say (if ss_json (gc_base co)
                        then qt ''group_id'' @ '': '' @ qt (u32_string gid) @ '', '' @ qt ''status'' @ '': '' @ qt ''ok''
                        else ''Successfully created group with a group ID '' @ u32_string gid @ nl)))))"

definition group_delete :: "'w api \<Rightarrow> group_cmd \<Rightarrow> ('w, unit) cmd" where
  "group_delete api co =
     (if \<not> gc_set co then bad_usage (group_help co) ''Need to specify the group id to delete a group''
      else bind_cmd (call api (A_group_gpu_destroy (gc_group_id co))) (\<lambda>(st, _).
           if st \<noteq> RDC_ST_OK then throw_status st
           else say (if ss_json (gc_base co)
                     then qt ''group_id'' @ '': '' @ qt (u32_string (gc_group_id co)) @ '', '' @ qt ''status'' @ '': '' @ qt ''ok''
                     else ''Successfully deleted the group '' @ u32_string (gc_group_id co) @ nl)))"

fun list_json :: "string list \<Rightarrow> string" where
  "list_json [] = ''''"
| "list_json [x] = x"
| "list_json (x # xs) = x @ '','' @ list_json xs"

text \<open>
  One line or one object of the listing. The text listing prints a line as soon as it has been read, the other form is collected
  and printed at the end.
\<close>

definition entry_json :: "string \<Rightarrow> u32 \<Rightarrow> string \<Rightarrow> u32 list \<Rightarrow> string" where
  "entry_json member gid name ids =
     ''{'' @ qt ''group_id'' @ '': '' @ qt (u32_string gid) @ '', '' @ qt ''group_name'' @ '': '' @ qt name @ '', ''
       @ qt member @ '': ['' @ ids_text ids @ '']}''"

definition entry_line :: "u32 \<Rightarrow> string \<Rightarrow> u32 list \<Rightarrow> string" where
  "entry_line gid name ids = u32_string gid @ tab @ name @ tab @ tab @ ids_text ids @ nl"

fun list_entries ::
    "(u32 \<Rightarrow> ('w, string \<times> u32 list) cmd) \<Rightarrow> bool \<Rightarrow> string \<Rightarrow> u32 list \<Rightarrow> string list \<Rightarrow> ('w, string list) cmd" where
  "list_entries info json member [] acc = ret acc"
| "list_entries info json member (g # gs) acc =
     bind_cmd (info g) (\<lambda>(name, ids).
       if json then list_entries info json member gs (acc @ [entry_json member g name ids])
       else then_cmd (say (entry_line g name ids)) (list_entries info json member gs acc))"

definition group_list_info :: "'w api \<Rightarrow> u32 \<Rightarrow> ('w, string \<times> u32 list) cmd" where
  "group_list_info api g =
     bind_cmd (call api (A_group_gpu_get_info g True)) (\<lambda>(st, out).
       if st \<noteq> RDC_ST_OK
       then throw (Rdc_exception RDC_ST_BAD_PARAMETER (''Fail to get information for group '' @ u32_string g))
       else bind_cmd (out_group out) (\<lambda>gi. ret (group_name gi, entity_ids gi)))"

definition group_list :: "'w api \<Rightarrow> group_cmd \<Rightarrow> ('w, unit) cmd" where
  "group_list api co =
     (let json = ss_json (gc_base co) in
      bind_cmd (call api (A_group_get_all_ids True)) (\<lambda>(st, out).
        if st \<noteq> RDC_ST_OK then throw_status st
        else bind_cmd (out_ids out) (\<lambda>ids.
             then_cmd (if json then ret ()
                       else say (nat_string (length ids) @ '' group found.'' @ nl @ ''GroupID'' @ tab @ ''GroupName'' @ tab @ ''GPUIndex'' @ nl))
               (bind_cmd (list_entries (group_list_info api) json ''gpu_indexes'' ids [])
                  (\<lambda>entries. if json
                             then say (qt ''gpu_groups'' @ '': ['' @ list_json entries @ ''], '' @ qt ''status'' @ '': '' @ qt ''ok'')
                             else ret ())))))"

definition group_add :: "'w api \<Rightarrow> group_cmd \<Rightarrow> ('w, unit) cmd" where
  "group_add api co =
     (if \<not> gc_set co then bad_usage (group_help co) ''Need to specify the group id to add a group''
      else then_cmd (add_gpus api (gc_group_id co) (split_string (gc_ids co) CHR '',''))
             (say (if ss_json (gc_base co)
                   then qt ''group_id'' @ '': '' @ qt (u32_string (gc_group_id co)) @ '', '' @ qt ''status'' @ '': '' @ qt ''ok''
                   else ''Successfully added the GPU '' @ gc_ids co @ '' to group '' @ u32_string (gc_group_id co) @ nl)))"

definition info_text_of :: "bool \<Rightarrow> string \<Rightarrow> string \<Rightarrow> string \<Rightarrow> u32 list \<Rightarrow> string" where
  "info_text_of json member title name ids =
     (if json
      then qt ''group_name'' @ '': '' @ qt name @ '', '' @ qt member @ '': ['' @ ids_text ids @ ''], '' @ qt ''status'' @ '': '' @ qt ''ok''
      else ''Group name: '' @ name @ nl @ title @ concat (map (\<lambda>i. u32_string i @ '' '') ids) @ nl)"

definition group_info_cmd :: "'w api \<Rightarrow> group_cmd \<Rightarrow> ('w, unit) cmd" where
  "group_info_cmd api co =
     (if \<not> gc_set co then bad_usage (group_help co) ''Need to specify the group id to show group info''
      else bind_cmd (call api (A_group_gpu_get_info (gc_group_id co) True)) (\<lambda>(st, out).
           if st \<noteq> RDC_ST_OK then throw_status st
           else bind_cmd (out_group out) (\<lambda>gi.
                say (info_text_of (ss_json (gc_base co)) ''gpu_indexes'' ''Gpu indexes: '' (group_name gi) (entity_ids gi)))))"

definition group_process :: "'w api \<Rightarrow> group_cmd \<Rightarrow> ('w, unit) cmd" where
  "group_process api co =
     (case gc_op co of
        GROUP_HELP \<Rightarrow> group_help co
      | GROUP_CREATE \<Rightarrow> group_create api co
      | GROUP_DELETE \<Rightarrow> group_delete api co
      | GROUP_LIST \<Rightarrow> group_list api co
      | GROUP_ADD_GPUS \<Rightarrow> group_add api co
      | GROUP_INFO \<Rightarrow> group_info_cmd api co
      | GROUP_UNKNOWN \<Rightarrow> throw (Rdc_exception RDC_ST_BAD_PARAMETER ''Unknown command''))"

end
