(* ===== verification/Rdc_Server.thy ===== *)
theory Rdc_Server
  imports Rdci
begin

text \<open>
  The daemon process \<^verbatim>\<open>rdcd\<close>: its command line, the certificates, the lock file that keeps a second daemon out, the
  capabilities it gives up, and the server that it runs. Texts on the terminal are left out.
\<close>

section \<open>\<open>rdc_utils.cc\<close>\<close>

text \<open>
  What the operating system answers: files, the lock files, descriptors and the start of threads. Error
  numbers are natural numbers. \<open>sy_start\<close> says whether gRPC can build a server at an address with its credentials.
\<close>

record ssl_opts =
  so_require_client_cert :: bool
  so_root_certs :: string
  so_key_cert_pairs :: "(string \<times> string) list"

record sys =
  sy_euid :: u32
  sy_exists :: "string \<Rightarrow> bool"
  sy_readable :: "string \<Rightarrow> bool"
  sy_read :: "string \<Rightarrow> nat + string"
  sy_stat :: "string \<Rightarrow> nat + u32"
  sy_getpwuid :: "u32 \<Rightarrow> nat \<times> string"
  sy_open_ro :: "string \<Rightarrow> nat"
  sy_getlk :: "string \<Rightarrow> nat"
  sy_open_rw :: "string \<Rightarrow> bool"
  sy_rlimit :: nat
  sy_open_null :: bool
  sy_thread :: nat
  sy_start :: "string \<Rightarrow> ssl_opts option \<Rightarrow> bool"

definition ENOENT :: nat where "ENOENT = 2"

definition FileExists :: "sys \<Rightarrow> string \<Rightarrow> bool" where
  "FileExists sys fn = sy_exists sys fn"

definition ReadFile :: "sys \<Rightarrow> string \<Rightarrow> bool \<Rightarrow> nat \<times> string" where
  "ReadFile sys path chop_newline =
     (case sy_read sys path of
        Inl err \<Rightarrow> (err, [])
      | Inr s \<Rightarrow> (0, if chop_newline then filter (\<lambda>c. c \<noteq> CHR 0x0A) s else s))"

text \<open>\<^verbatim>\<open>inet_pton\<close> for \<^verbatim>\<open>AF_INET\<close>: four decimal numbers up to 255 without leading zeros.\<close>

fun split_dots :: "string \<Rightarrow> string list" where
  "split_dots [] = [[]]"
| "split_dots (c # cs) =
     (if c = CHR ''.'' then [] # split_dots cs
      else case split_dots cs of [] \<Rightarrow> [[c]] | p # ps \<Rightarrow> (c # p) # ps)"

definition octet_value :: "string \<Rightarrow> nat" where
  "octet_value s = foldl (\<lambda>n c. 10 * n + (of_char c - 48)) 0 s"

definition is_octet :: "string \<Rightarrow> bool" where
  "is_octet s \<longleftrightarrow> IsNumber s \<and> octet_value s \<le> 255 \<and> (s ! 0 = CHR ''0'' \<longrightarrow> length s = 1)"

definition IsIP :: "string \<Rightarrow> bool" where
  "IsIP s \<longleftrightarrow> length (split_dots s) = 4 \<and> list_all is_octet (split_dots s)"

section \<open>The command line\<close>

record rdcd_opts =
  listen_address :: string
  listen_port :: string
  no_authentication :: bool
  use_pinned_certs :: bool
  log_dbg :: bool

definition init_cmd_line_opts :: rdcd_opts where
  "init_cmd_line_opts = \<lparr>listen_address = ''0.0.0.0'', listen_port = ''50051'', no_authentication = False, use_pinned_certs = False, log_dbg = False\<rparr>"

text \<open>
  The options as \<^verbatim>\<open>getopt_long\<close> delivers them, with \<^verbatim>\<open>optarg\<close>. \<^const>\<open>Inl\<close> is the end of the process with an exit code. An option that is
  not known ends the loop and the function, which then reports success.
\<close>

fun ProcessCmdline :: "(char \<times> string) list \<Rightarrow> rdcd_opts \<Rightarrow> int + u32 \<times> rdcd_opts" where
  "ProcessCmdline [] opts = Inr (if use_pinned_certs opts \<and> no_authentication opts then (- 1, opts) else (0, opts))"
| "ProcessCmdline ((a, arg) # rest) opts =
     (if a = CHR ''a'' then if IsIP arg then ProcessCmdline rest (opts\<lparr>listen_address := arg\<rparr>) else Inr (- 1, opts)
      else if a = CHR ''p'' then if IsNumber arg then ProcessCmdline rest (opts\<lparr>listen_port := arg\<rparr>) else Inr (- 1, opts)
      else if a = CHR ''u'' then ProcessCmdline rest (opts\<lparr>no_authentication := True\<rparr>)
      else if a = CHR ''i'' then ProcessCmdline rest (opts\<lparr>use_pinned_certs := True\<rparr>)
      else if a = CHR ''d'' then ProcessCmdline rest (opts\<lparr>log_dbg := True\<rparr>)
      else if a = CHR ''v'' \<or> a = CHR ''h'' then Inl 0
      else Inr (0, opts))"

section \<open>Certificates\<close>

record cert_paths =
  cp_server_key :: string
  cp_server_cert :: string
  cp_client_cert :: string

definition pinned_paths :: cert_paths where
  "pinned_paths = \<lparr>cp_server_key = ''/etc/rdc/server/private/rdc_server.key'', cp_server_cert = ''/etc/rdc/server/rdc_server.crt'',
     cp_client_cert = ''/etc/rdc/client/rdc_client.crt''\<rparr>"

definition pki_paths :: cert_paths where
  "pki_paths = \<lparr>cp_server_key = ''/etc/rdc/server/private/rdc_server_cert.key'', cp_server_cert = ''/etc/rdc/server/certs/rdc_server_cert.pem'',
     cp_client_cert = ''/etc/rdc/client/certs/rdc_cacert.pem''\<rparr>"

text \<open>The two functions do the same with different files; the result is an error number, negative for a missing file.\<close>

definition construct_ssl_opts :: "sys \<Rightarrow> cert_paths \<Rightarrow> int \<times> ssl_opts option" where
  "construct_ssl_opts sys p =
     (if \<not> FileExists sys (cp_server_key p) \<or> \<not> FileExists sys (cp_server_cert p) \<or> \<not> FileExists sys (cp_client_cert p) then (- int ENOENT, None)
      else case ReadFile sys (cp_server_key p) False of (r1, key) \<Rightarrow> if r1 \<noteq> 0 then (int r1, None)
      else case ReadFile sys (cp_server_cert p) False of (r2, crt) \<Rightarrow> if r2 \<noteq> 0 then (int r2, None)
      else case ReadFile sys (cp_client_cert p) False of (r3, cli) \<Rightarrow> if r3 \<noteq> 0 then (int r3, None)
      else (0, Some \<lparr>so_require_client_cert = True, so_root_certs = cli, so_key_cert_pairs = [(key, crt)]\<rparr>))"

definition ConstructSSLOptsPin :: "sys \<Rightarrow> int \<times> ssl_opts option" where
  "ConstructSSLOptsPin sys = construct_ssl_opts sys pinned_paths"

definition ConstructSSLOptsPKI :: "sys \<Rightarrow> int \<times> ssl_opts option" where
  "ConstructSSLOptsPKI sys = construct_ssl_opts sys pki_paths"

definition certs_readable :: "sys \<Rightarrow> rdcd_opts \<Rightarrow> bool" where
  "certs_readable sys opts \<longleftrightarrow> no_authentication opts
     \<or> (let p = (if use_pinned_certs opts then pinned_paths else pki_paths)
        in sy_readable sys (cp_server_cert p) \<and> sy_readable sys (cp_server_key p) \<and> sy_readable sys (cp_client_cert p))"

section \<open>The lock file\<close>

text \<open>The table of the write locks on files, by process. A process does not see its own locks.\<close>

type_synonym lock_table = "string \<rightharpoonup> nat"

definition kDaemonLockFileRoot :: string where "kDaemonLockFileRoot = ''/var/run/rdcd.lock''"
definition kDaemonLockFile :: string where "kDaemonLockFile = ''/tmp/rdcd.lock''"

definition FileIsLocked :: "sys \<Rightarrow> string \<Rightarrow> nat \<Rightarrow> lock_table \<Rightarrow> int + bool" where
  "FileIsLocked sys fn pid locks =
     (if sy_open_ro sys fn = ENOENT then Inr False
      else if sy_open_ro sys fn \<noteq> 0 \<or> sy_getlk sys fn \<noteq> 0 then Inl 1
      else Inr (case locks fn of None \<Rightarrow> False | Some p \<Rightarrow> p \<noteq> pid))"

definition FileOwner :: "sys \<Rightarrow> string \<Rightarrow> nat \<times> string" where
  "FileOwner sys fn =
     (case sy_stat sys fn of
        Inl err \<Rightarrow> (err, [])
      | Inr uid \<Rightarrow> (case sy_getpwuid sys uid of (rc, buf) \<Rightarrow> if rc = 0 then (0, buf) else (rc, [])))"

text \<open>
  \<^verbatim>\<open>ExitIfAlreadyRunning\<close> is a sequence of four system calls that other processes can get between. A
  program counter says where a process is.
\<close>

datatype start_pc = Check_root | Check_user | Open_lock | Take_lock | Holding | Exited int

definition lock_file :: "bool \<Rightarrow> string" where
  "lock_file is_root = (if is_root then kDaemonLockFileRoot else kDaemonLockFile)"

definition check_lock :: "sys \<Rightarrow> string \<Rightarrow> nat \<Rightarrow> lock_table \<Rightarrow> start_pc \<Rightarrow> start_pc" where
  "check_lock sys fn pid locks nxt =
     (case FileIsLocked sys fn pid locks of Inl c \<Rightarrow> Exited c | Inr locked \<Rightarrow> if locked then Exited 1 else nxt)"

fun lock_action :: "sys \<Rightarrow> nat \<Rightarrow> bool \<Rightarrow> start_pc \<times> lock_table \<Rightarrow> start_pc \<times> lock_table" where
  "lock_action sys pid is_root (Check_root, locks) = (check_lock sys kDaemonLockFileRoot pid locks Check_user, locks)"
| "lock_action sys pid is_root (Check_user, locks) = (check_lock sys kDaemonLockFile pid locks Open_lock, locks)"
| "lock_action sys pid is_root (Open_lock, locks) =
     (if sy_open_rw sys (lock_file is_root) then Take_lock
      else case FileOwner sys (lock_file is_root) of (rc, _) \<Rightarrow> if rc \<noteq> 0 then Exited (int rc) else Exited 1, locks)"
| "lock_action sys pid is_root (Take_lock, locks) =
     (case locks (lock_file is_root) of
        None \<Rightarrow> (Holding, locks(lock_file is_root \<mapsto> pid))
      | Some p \<Rightarrow> if p = pid then (Holding, locks) else (Exited 0, locks))"
| "lock_action sys pid is_root (Holding, locks) = (Holding, locks)"
| "lock_action sys pid is_root (Exited c, locks) = (Exited c, locks)"

definition ExitIfAlreadyRunning :: "sys \<Rightarrow> nat \<Rightarrow> bool \<Rightarrow> lock_table \<Rightarrow> start_pc \<times> lock_table" where
  "ExitIfAlreadyRunning sys pid is_root locks = (lock_action sys pid is_root ^^ 4) (Check_root, locks)"

text \<open>
  Standard input is closed, output and error stay open, and so does what lies behind the first 1024 descriptors. A file that is opened gets
  the lowest free descriptor. The directory and the file mode mask of the process are left out.
\<close>

definition close_files :: "nat \<Rightarrow> nat list \<Rightarrow> nat list" where
  "close_files rlim_max fds = filter (\<lambda>i. i = 1 \<or> i = 2 \<or> max 3 (min rlim_max 1024) \<le> i) fds"

definition lowest_free :: "nat list \<Rightarrow> nat" where
  "lowest_free fds = hd (filter (\<lambda>i. i \<notin> set fds) [0..<Suc (length fds)])"

definition MakeDaemon :: "sys \<Rightarrow> nat \<Rightarrow> bool \<Rightarrow> nat list \<times> lock_table \<Rightarrow> int option \<times> nat list \<times> lock_table" where
  "MakeDaemon sys pid is_root = (\<lambda>(fds, locks).
     let fds1 = close_files (sy_rlimit sys) fds in
     if \<not> sy_open_null sys then (Some 1, fds1, locks)
     else if lowest_free fds1 \<noteq> 0 then (Some 1, lowest_free fds1 # fds1, locks)
     else let fds2 = 0 # fds1 in
       (case ExitIfAlreadyRunning sys pid is_root locks of
          (Exited c, locks') \<Rightarrow> (Some c, fds2, locks')
        | (_, locks') \<Rightarrow> (None, lowest_free fds2 # fds2, locks')))"

section \<open>Capabilities\<close>

text \<open>What \<^verbatim>\<open>main\<close> does with the capabilities: the exit code, if it ends there, and the capabilities afterwards.\<close>

definition drop_inheritance :: "libcap \<Rightarrow> cap_state \<Rightarrow> int option \<times> cap_state" where
  "drop_inheritance lc caps =
     (case ModifyCapability lc CAP_DAC_OVERRIDE CAP_INHERITABLE False caps of (err, caps1) \<Rightarrow>
        if err \<noteq> 0 then (Some 1, caps1)
        else case ModifyCapability lc CAP_DAC_OVERRIDE CAP_EFFECTIVE False caps1 of (err, caps2) \<Rightarrow>
          if err \<noteq> 0 then (Some 1, caps2) else (None, caps2))"

definition set_capabilities :: "libcap \<Rightarrow> cap_state \<Rightarrow> int option \<times> cap_state" where
  "set_capabilities lc caps =
     (case GetCapability lc CAP_DAC_OVERRIDE CAP_EFFECTIVE caps of (err, enabled) \<Rightarrow>
        if err \<noteq> 0 then (Some 1, caps)
        else if enabled = Some True \<and> fst (GetCapability lc CAP_DAC_OVERRIDE CAP_PERMITTED caps) \<noteq> 0 then (Some 1, caps)
        else drop_inheritance lc caps)"

section \<open>The server\<close>

text \<open>\<open>rs_api\<close> is the service with its handler; the constructor does not initialise the pointer.\<close>

record 'r rdc_server =
  rs_address :: string
  rs_secure_creds :: bool
  rs_pinned :: bool
  rs_debug :: bool
  rs_start_admin :: bool
  rs_start_api :: bool
  rs_admin :: bool
  rs_api :: "'r handler option option"
  rs_listening :: "ssl_opts option option"

definition server_initialize :: "rdcd_opts \<Rightarrow> 'r rdc_server \<Rightarrow> 'r rdc_server" where
  "server_initialize cl s = s\<lparr>rs_address := listen_address cl @ '':'' @ listen_port cl, rs_secure_creds := \<not> no_authentication cl,
     rs_pinned := use_pinned_certs cl, rs_debug := log_dbg cl\<rparr>"

text \<open>
  \<^verbatim>\<open>Run\<close> up to the wait: whether the server listens, unless the null pointer that \<^verbatim>\<open>BuildAndStart\<close> returns at an address
  it cannot bind is followed.
\<close>

definition server_credentials :: "sys \<Rightarrow> 'r rdc_server \<Rightarrow> int \<times> ssl_opts option" where
  "server_credentials sys s =
     (if rs_secure_creds s then if rs_pinned s then ConstructSSLOptsPin sys else ConstructSSLOptsPKI sys else (0, None))"

definition server_run ::
    "sys \<Rightarrow> dynamic_linker \<Rightarrow> (rdc_operation_mode \<Rightarrow> 'r handler) \<Rightarrow> 'r rdc_server \<Rightarrow> lib_loader \<Rightarrow> (bool \<times> 'r rdc_server \<times> lib_loader) option" where
  "server_run sys dl mk s l =
     (case server_credentials sys s of (rc, creds) \<Rightarrow>
        if rc \<noteq> 0 then Some (False, s, l)
        else let s1 = (if rs_start_admin s then s\<lparr>rs_admin := True\<rparr> else s);
                 (st, s2, l2) = (if rs_start_api s then case service_initialize dl mk 0 l of (st, hh, l2) \<Rightarrow> (st, s1\<lparr>rs_api := Some hh\<rparr>, l2)
                                 else (RDC_ST_OK, s1, l))
             in if st \<noteq> RDC_ST_OK then Some (False, s2, l2)
                else if sy_start sys (rs_address s2) creds then Some (True, s2\<lparr>rs_listening := Some creds\<rparr>, l2) else None)"

definition server_shut_down :: "'r rdc_server \<Rightarrow> lib_loader \<Rightarrow> ('r rdc_server \<times> lib_loader) option" where
  "server_shut_down s l =
     (case rs_listening s of
        None \<Rightarrow> None
      | Some _ \<Rightarrow> (case rs_api s of
          None \<Rightarrow> Some (s\<lparr>rs_listening := None, rs_admin := False\<rparr>, l)
        | Some hh \<Rightarrow> Some (s\<lparr>rs_listening := None, rs_admin := False, rs_api := None\<rparr>, snd (service_destroy hh l))))"

definition VerifyConnection :: "u64 \<Rightarrow> u64" where
  "VerifyConnection magic_num = magic_num"

section \<open>Signals\<close>

definition SIGINT :: int where "SIGINT = 2"
definition SIGTERM :: int where "SIGTERM = 15"

definition HandleSignal :: "int \<Rightarrow> bool \<Rightarrow> bool" where
  "HandleSignal sig shut_down = (if sig = SIGINT \<or> sig = SIGTERM then True else shut_down)"

text \<open>A round of the thread that looks at the flag every second; \<^const>\<open>Inr\<close> is the next round.\<close>

definition signal_round :: "bool \<Rightarrow> 'r rdc_server \<times> lib_loader \<Rightarrow> ('r rdc_server \<times> lib_loader + 'r rdc_server \<times> lib_loader) option" where
  "signal_round shut_down = (\<lambda>(s, l). if shut_down then map_option Inl (server_shut_down s l) else Some (Inr (s, l)))"

section \<open>\<open>main\<close>\<close>

text \<open>
  The process has ended with a code, serves, or its behaviour is undefined. \<open>sigs\<close> are the signals that arrive while the server
  waits. The members of the server that the constructor leaves alone are those of \<open>junk\<close>.
\<close>

datatype 'r rdcd_state = Exit_code int | Serving "'r rdc_server" | Undefined

definition new_rdc_server :: "'r rdc_server \<Rightarrow> 'r rdc_server" where
  "new_rdc_server junk = junk\<lparr>rs_address := [], rs_secure_creds := False, rs_admin := False, rs_listening := None\<rparr>"

definition run_server ::
    "sys \<Rightarrow> dynamic_linker \<Rightarrow> (rdc_operation_mode \<Rightarrow> 'r handler) \<Rightarrow> int list \<Rightarrow> 'r rdc_server \<Rightarrow> lib_loader \<Rightarrow> 'r rdcd_state" where
  "run_server sys dl mk sigs s l =
     (case server_run sys dl mk s l of
        None \<Rightarrow> Undefined
      | Some (listening, s', l') \<Rightarrow>
          if \<not> listening then Exit_code 1
          else (case signal_round (fold HandleSignal sigs False) (s', l') of
                  None \<Rightarrow> Undefined
                | Some (Inl _) \<Rightarrow> Exit_code 0
                | Some (Inr (s'', _)) \<Rightarrow> Serving s''))"

definition rdcd_main ::
    "sys \<Rightarrow> libcap \<Rightarrow> dynamic_linker \<Rightarrow> (rdc_operation_mode \<Rightarrow> 'r handler) \<Rightarrow> nat \<Rightarrow> (char \<times> string) list \<Rightarrow> int list \<Rightarrow> 'r rdc_server
     \<Rightarrow> lib_loader \<Rightarrow> cap_state \<times> nat list \<times> lock_table \<Rightarrow> 'r rdcd_state \<times> cap_state \<times> nat list \<times> lock_table" where
  "rdcd_main sys lc dl mk pid args sigs junk l = (\<lambda>(caps, fds, locks).
     case ProcessCmdline args init_cmd_line_opts of
       Inl c \<Rightarrow> (Exit_code c, caps, fds, locks)
     | Inr (rc, opts) \<Rightarrow>
         if rc \<noteq> 0 \<or> \<not> certs_readable sys opts then (Exit_code 1, caps, fds, locks)
         else case MakeDaemon sys pid (sy_euid sys = 0) (fds, locks) of
                (Some c, fds1, locks1) \<Rightarrow> (Exit_code c, caps, fds1, locks1)
              | (None, fds1, locks1) \<Rightarrow>
                  (case set_capabilities lc caps of
                     (Some c, caps1) \<Rightarrow> (Exit_code c, caps1, fds1, locks1)
                   | (None, caps1) \<Rightarrow>
                       if sy_thread sys \<noteq> 0 then (Exit_code 1, caps1, fds1, locks1)
                       else (run_server sys dl mk sigs ((server_initialize opts (new_rdc_server junk))\<lparr>rs_start_admin := True, rs_start_api := True\<rparr>) l,
                             caps1, fds1, locks1)))"

section \<open>One daemon\<close>

text \<open>
  Any number of processes on one machine. A process makes its next system call, or it dies, and the
  system releases its locks.
\<close>

record daemons =
  dn_pc :: "nat \<Rightarrow> start_pc"
  dn_locks :: lock_table

inductive daemon_step :: "sys \<Rightarrow> (nat \<Rightarrow> bool) \<Rightarrow> daemons \<Rightarrow> daemons \<Rightarrow> bool" for sys is_root where
  action: "lock_action sys p (is_root p) (dn_pc s p, dn_locks s) = (pc', locks') \<Longrightarrow>
     daemon_step sys is_root s \<lparr>dn_pc = (dn_pc s)(p := pc'), dn_locks = locks'\<rparr>"
| death: "daemon_step sys is_root s \<lparr>dn_pc = (dn_pc s)(p := Exited c), dn_locks = (\<lambda>f. if dn_locks s f = Some p then None else dn_locks s f)\<rparr>"

definition machine_start :: "daemons \<Rightarrow> bool" where
  "machine_start s \<longleftrightarrow> (\<forall>p. dn_pc s p = Check_root) \<and> dn_locks s = Map.empty"

definition lock_inv :: "(nat \<Rightarrow> bool) \<Rightarrow> daemons \<Rightarrow> bool" where
  "lock_inv is_root s \<longleftrightarrow> (\<forall>p f. dn_locks s f = Some p \<longleftrightarrow> dn_pc s p = Holding \<and> f = lock_file (is_root p))"

lemma lock_invD: "lock_inv is_root s \<Longrightarrow> dn_pc s p = Holding \<Longrightarrow> dn_locks s (lock_file (is_root p)) = Some p"
  unfolding lock_inv_def by blast

lemma lock_inv_unique:
  "lock_inv is_root s \<Longrightarrow> dn_pc s p = Holding \<Longrightarrow> dn_pc s q = Holding \<Longrightarrow> lock_file (is_root p) = lock_file (is_root q) \<Longrightarrow> p = q"
  by (metis lock_invD option.inject)

lemma check_lock_not_holding: "nxt \<noteq> Holding \<Longrightarrow> check_lock sys fn p locks nxt \<noteq> Holding"
  by (auto simp: check_lock_def split: sum.split)

interpretation daemon_locks: invariant_system machine_start "daemon_step sys is_root" "lock_inv is_root" for sys is_root
proof
  show "machine_start s \<Longrightarrow> lock_inv is_root s" for s
    by (simp add: machine_start_def lock_inv_def)
next
  fix s s'
  assume inv: "lock_inv is_root s" and step: "daemon_step sys is_root s s'"
  from step show "lock_inv is_root s'"
  proof (cases rule: daemon_step.cases)
    case (action p pc' locks')
    show ?thesis
    proof (cases "dn_pc s p")
      case Take_lock
      have "dn_locks s (lock_file (is_root p)) = None \<Longrightarrow> dn_pc s q = Holding \<Longrightarrow> lock_file (is_root q) \<noteq> lock_file (is_root p)" for q
        using lock_invD [OF inv, of q] by auto
      with Take_lock action inv show ?thesis by (auto simp: lock_inv_def split: option.splits if_splits)
    qed (use action inv check_lock_not_holding in \<open>auto simp: lock_inv_def split: if_splits prod.splits\<close>)
  next
    case (death p c)
    then show ?thesis using inv lock_inv_unique [OF inv] by (auto simp: lock_inv_def split: if_splits)
  qed
qed

text \<open>
  (C11) However the starts of daemons are interleaved, and whichever processes die, two processes of the same kind (root or not) that
  have got past the lock are one and the same.
\<close>
theorem one_daemon_per_kind:
  assumes "machine_start s0" and "(daemon_step sys is_root)\<^sup>*\<^sup>* s0 s" and "dn_pc s p = Holding" and "dn_pc s q = Holding" and "is_root p = is_root q"
  shows "p = q"
  by (rule lock_inv_unique [OF daemon_locks.inv_reachable [OF assms(1,2)] assms(3,4)]) (simp only: assms(5))

definition quiet_sys :: sys where
  "quiet_sys = \<lparr>sy_euid = 0, sy_exists = (\<lambda>_. True), sy_readable = (\<lambda>_. True), sy_read = Inr, sy_stat = (\<lambda>_. Inr 0), sy_getpwuid = (\<lambda>_. (0, [])),
     sy_open_ro = (\<lambda>_. 0), sy_getlk = (\<lambda>_. 0), sy_open_rw = (\<lambda>_. True), sy_rlimit = 1024, sy_open_null = True, sy_thread = 0,
     sy_start = (\<lambda>_ _. True)\<rparr>"

definition idle_machine :: daemons where
  "idle_machine = \<lparr>dn_pc = (\<lambda>_. Check_root), dn_locks = Map.empty\<rparr>"

text \<open>The next system call of process \<open>p\<close>, as a function.\<close>

definition schedule :: "sys \<Rightarrow> (nat \<Rightarrow> bool) \<Rightarrow> nat \<Rightarrow> daemons \<Rightarrow> daemons" where
  "schedule sys is_root p s = (case lock_action sys p (is_root p) (dn_pc s p, dn_locks s) of (pc, locks) \<Rightarrow> \<lparr>dn_pc = (dn_pc s)(p := pc), dn_locks = locks\<rparr>)"

lemma schedule_reachable: "(daemon_step sys is_root)\<^sup>*\<^sup>* s (fold (schedule sys is_root) ps s)"
proof (induction ps arbitrary: s)
  case (Cons p ps)
  have "daemon_step sys is_root s (schedule sys is_root p s)"
    by (auto simp: schedule_def split: prod.split intro: daemon_step.action)
  with Cons show ?case by (simp add: converse_rtranclp_into_rtranclp)
qed simp

text \<open>Two daemons of root start in lock step.\<close>

theorem one_daemon_per_kind_witness:
  "{q. dn_pc (fold (schedule quiet_sys (\<lambda>_. True)) [5, 7, 5, 7, 5, 7, 5, 7] idle_machine) q = Holding} = {5}"
proof -
  let ?s = "fold (schedule quiet_sys (\<lambda>_. True)) [5, 7, 5, 7, 5, 7, 5, 7] idle_machine"
  have "dn_pc ?s 5 = Holding" by (simp add: schedule_def idle_machine_def check_lock_def FileIsLocked_def quiet_sys_def ENOENT_def)
  moreover have "machine_start idle_machine" by (simp add: machine_start_def idle_machine_def)
  ultimately show ?thesis
    using one_daemon_per_kind [where ?s0.0 = idle_machine and s = ?s and p = 5 and is_root = "\<lambda>_. True", OF _ schedule_reachable] by blast
qed

text \<open>
  The locks of root and of other users are different files, and looking at both is not one step with taking one: a
  daemon of root and one of a user that start at the same time both get through.
\<close>

lemma root_and_user_daemon_race:
  "\<exists>s. (daemon_step quiet_sys (\<lambda>p. p = 5))\<^sup>*\<^sup>* idle_machine s \<and> dn_pc s 5 = Holding \<and> dn_pc s 7 = Holding"
proof (intro exI conjI)
  let ?s = "fold (schedule quiet_sys (\<lambda>p. p = 5)) [5, 7, 5, 7, 5, 7, 5, 7] idle_machine"
  show "(daemon_step quiet_sys (\<lambda>p. p = 5))\<^sup>*\<^sup>* idle_machine ?s" by (rule schedule_reachable)
  show "dn_pc ?s 5 = Holding" "dn_pc ?s 7 = Holding"
    by (simp_all add: schedule_def idle_machine_def check_lock_def FileIsLocked_def quiet_sys_def ENOENT_def lock_file_def kDaemonLockFile_def kDaemonLockFileRoot_def)
qed

text \<open>Without such an interleaving, a daemon of either kind keeps a second one out.\<close>

lemma second_daemon_exits:
  assumes "locks (lock_file r) = Some q" and "q \<noteq> pid" and "sy_open_ro sys kDaemonLockFileRoot = 0" and "sy_open_ro sys kDaemonLockFile = 0"
    and "sy_getlk sys kDaemonLockFileRoot = 0" and "sy_getlk sys kDaemonLockFile = 0"
  shows "ExitIfAlreadyRunning sys pid is_root locks = (Exited 1, locks)"
  using assms by (cases r) (auto simp: ExitIfAlreadyRunning_def eval_nat_numeral check_lock_def FileIsLocked_def ENOENT_def lock_file_def split: option.split)

section \<open>The daemon at work\<close>

lemma ProcessCmdline_authentication:
  "ProcessCmdline args opts = Inr (rc, opts') \<Longrightarrow> CHR ''u'' \<notin> fst ` set args \<Longrightarrow> no_authentication opts' = no_authentication opts"
  by (induction args opts rule: ProcessCmdline.induct) (auto split: if_splits)

lemma construct_ssl_opts_secure:
  "construct_ssl_opts sys p = (0, creds) \<Longrightarrow> \<exists>cli key crt. creds = Some \<lparr>so_require_client_cert = True, so_root_certs = cli, so_key_cert_pairs = [(key, crt)]\<rparr>"
  by (auto simp: construct_ssl_opts_def ENOENT_def split: if_splits prod.splits)

lemma server_run_listening:
  assumes "server_run sys dl mk s l = Some (True, s', l')"
  shows "\<exists>creds. server_credentials sys s = (0, creds) \<and> rs_listening s' = Some creds \<and> rs_address s' = rs_address s"
  using assms by (auto simp: server_run_def Let_def split: prod.splits if_splits)

lemma run_server_serving:
  assumes "run_server sys dl mk sigs s l = Serving s'"
  shows "\<exists>l'. server_run sys dl mk s l = Some (True, s', l')"
  using assms by (auto simp: run_server_def signal_round_def split: option.splits prod.splits if_splits sum.splits)

lemma ExitIfAlreadyRunning_ends:
  assumes "ExitIfAlreadyRunning sys pid is_root locks = (pc, locks')"
  shows "(\<exists>c. pc = Exited c) \<or> pc = Holding \<and> locks' (lock_file is_root) = Some pid"
proof -
  have check: "check_lock sys fn pid ls nxt = nxt \<or> (\<exists>c. check_lock sys fn pid ls nxt = Exited c)" for fn ls nxt
    by (auto simp: check_lock_def split: sum.split)
  consider c where "check_lock sys kDaemonLockFileRoot pid locks Check_user = Exited c"
    | c where "check_lock sys kDaemonLockFileRoot pid locks Check_user = Check_user" "check_lock sys kDaemonLockFile pid locks Open_lock = Exited c"
    | "check_lock sys kDaemonLockFileRoot pid locks Check_user = Check_user" "check_lock sys kDaemonLockFile pid locks Open_lock = Open_lock"
    using check by metis
  then show ?thesis
  proof cases
    case (1 c)
    then have "ExitIfAlreadyRunning sys pid is_root locks = (Exited c, locks)" by (simp add: ExitIfAlreadyRunning_def eval_nat_numeral)
    with assms show ?thesis by auto
  next
    case (2 c)
    then have "ExitIfAlreadyRunning sys pid is_root locks = (Exited c, locks)" by (simp add: ExitIfAlreadyRunning_def eval_nat_numeral)
    with assms show ?thesis by auto
  next
    case 3
    with assms show ?thesis by (auto simp: ExitIfAlreadyRunning_def eval_nat_numeral split: option.splits if_splits prod.splits)
  qed
qed

lemma drop_inheritance_drops:
  "drop_inheritance lc caps = (None, caps') \<Longrightarrow> caps' = caps - {(CAP_DAC_OVERRIDE, CAP_EFFECTIVE), (CAP_DAC_OVERRIDE, CAP_INHERITABLE)}"
  by (auto simp: drop_inheritance_def ModifyCapability_def split: if_splits prod.splits)

lemma rdcd_main_serving:
  assumes "rdcd_main sys lc dl mk pid args sigs junk l (caps, fds, locks) = (Serving s, caps', fds', locks')"
  shows "\<exists>opts l'. ProcessCmdline args init_cmd_line_opts = Inr (0, opts) \<and> drop_inheritance lc caps = (None, caps')
    \<and> (\<exists>pc. ExitIfAlreadyRunning sys pid (sy_euid sys = 0) locks = (pc, locks') \<and> (\<forall>c. pc \<noteq> Exited c))
    \<and> server_run sys dl mk ((server_initialize opts (new_rdc_server junk))\<lparr>rs_start_admin := True, rs_start_api := True\<rparr>) l = Some (True, s, l')"
  using assms run_server_serving
  by (fastforce simp: rdcd_main_def MakeDaemon_def Let_def set_capabilities_def split: sum.splits prod.splits if_splits option.splits start_pc.splits)

text \<open>A start of the daemon by root, with all capabilities, on a quiet machine.\<close>

definition demo_start :: "(rdc_operation_mode \<Rightarrow> unit handler) \<Rightarrow> unit rdc_server \<Rightarrow> unit rdcd_state \<times> cap_state \<times> nat list \<times> lock_table" where
  "demo_start mk junk = rdcd_main quiet_sys quiet_libcap \<lparr>dl_open = (\<lambda>_. Some 1), dl_sym = (\<lambda>_ _. True)\<rparr> mk 5 [(CHR ''p'', ''50052''), (CHR ''i'', [])] [] junk None
     ({(CAP_DAC_OVERRIDE, CAP_EFFECTIVE), (CAP_DAC_OVERRIDE, CAP_INHERITABLE), (CAP_DAC_OVERRIDE, CAP_PERMITTED)}, [0, 1, 2, 3], Map.empty)"

lemma demo_start_serves: "\<exists>s caps' fds' locks'. demo_start mk junk = (Serving s, caps', fds', locks')"
  by (simp add: demo_start_def rdcd_main_def init_cmd_line_opts_def IsNumber_def is_digit_def certs_readable_def MakeDaemon_def Let_def close_files_def
      lowest_free_def ExitIfAlreadyRunning_def eval_nat_numeral check_lock_def FileIsLocked_def ENOENT_def quiet_sys_def
      set_capabilities_def drop_inheritance_def GetCapability_def ModifyCapability_def quiet_libcap_def)
     (simp add: run_server_def server_run_def server_credentials_def server_initialize_def new_rdc_server_def ConstructSSLOptsPin_def construct_ssl_opts_def
      FileExists_def ReadFile_def pinned_paths_def service_initialize_def rdc_init_def rdc_start_embedded_def rdc_open_def loader_load_def loader_open_def
      loader_symbol_def signal_round_def)

text \<open>
  (C12) When the daemon begins to serve, \<^verbatim>\<open>CAP_DAC_OVERRIDE\<close> is neither in effect nor inheritable, whatever the command line and the capabilities it was
  started with, and the other flags are as they were: a permitted capability stays permitted, and later calls raise it again for
  the time they need it. The daemon holds its lock file.
\<close>
theorem rdcd_serves_unprivileged:
  assumes "rdcd_main sys lc dl mk pid args sigs junk l (caps, fds, locks) = (Serving s, caps', fds', locks')"
  shows "caps' = caps - {(CAP_DAC_OVERRIDE, CAP_EFFECTIVE), (CAP_DAC_OVERRIDE, CAP_INHERITABLE)} \<and> \<not> has_dac caps'
    \<and> locks' (lock_file (sy_euid sys = 0)) = Some pid"
proof -
  from rdcd_main_serving [OF assms] obtain pc where d: "drop_inheritance lc caps = (None, caps')"
    and l: "ExitIfAlreadyRunning sys pid (sy_euid sys = 0) locks = (pc, locks')" "\<forall>c. pc \<noteq> Exited c" by blast
  from l ExitIfAlreadyRunning_ends have "locks' (lock_file (sy_euid sys = 0)) = Some pid" by fastforce
  with drop_inheritance_drops [OF d] show ?thesis by (simp add: has_dac_def)
qed

theorem rdcd_serves_unprivileged_witness:
  "\<forall>mk junk. \<exists>s caps' fds' locks'. demo_start mk junk = (Serving s, caps', fds', locks') \<and> caps' = {(CAP_DAC_OVERRIDE, CAP_PERMITTED)}
     \<and> locks' ''/var/run/rdcd.lock'' = Some 5"
proof (intro allI)
  fix mk junk
  from demo_start_serves [of mk junk] obtain s caps' fds' locks' where start: "demo_start mk junk = (Serving s, caps', fds', locks')" by blast
  from rdcd_serves_unprivileged [OF start [unfolded demo_start_def]] have "caps' = {(CAP_DAC_OVERRIDE, CAP_PERMITTED)} \<and> locks' ''/var/run/rdcd.lock'' = Some 5"
    by (auto simp: quiet_sys_def lock_file_def kDaemonLockFileRoot_def)
  with start show "\<exists>s caps' fds' locks'. demo_start mk junk = (Serving s, caps', fds', locks') \<and> caps' = {(CAP_DAC_OVERRIDE, CAP_PERMITTED)}
     \<and> locks' ''/var/run/rdcd.lock'' = Some 5" by blast
qed

text \<open>
  (C10) Without the option for unauthenticated connections, a daemon that serves demands and verifies a certificate of
  every client, and it presents a key and a certificate of its own.
\<close>
theorem rdcd_serves_authenticated:
  assumes "rdcd_main sys lc dl mk pid args sigs junk l (caps, fds, locks) = (Serving s, caps', fds', locks')" and "CHR ''u'' \<notin> fst ` set args"
  shows "\<exists>cli key crt. rs_listening s = Some (Some \<lparr>so_require_client_cert = True, so_root_certs = cli, so_key_cert_pairs = [(key, crt)]\<rparr>)"
proof -
  from rdcd_main_serving [OF assms(1)] obtain opts l' where opts: "ProcessCmdline args init_cmd_line_opts = Inr (0, opts)"
    and run: "server_run sys dl mk ((server_initialize opts (new_rdc_server junk))\<lparr>rs_start_admin := True, rs_start_api := True\<rparr>) l = Some (True, s, l')" by blast
  from ProcessCmdline_authentication [OF opts assms(2)] have "\<not> no_authentication opts" by (simp add: init_cmd_line_opts_def)
  with server_run_listening [OF run] construct_ssl_opts_secure show ?thesis
    by (fastforce simp: server_credentials_def server_initialize_def ConstructSSLOptsPin_def ConstructSSLOptsPKI_def split: if_splits)
qed

theorem rdcd_serves_authenticated_witness:
  "\<forall>mk junk. \<exists>s caps' fds' locks' cli key crt. demo_start mk junk = (Serving s, caps', fds', locks')
     \<and> rs_listening s = Some (Some \<lparr>so_require_client_cert = True, so_root_certs = cli, so_key_cert_pairs = [(key, crt)]\<rparr>)"
proof (intro allI)
  fix mk junk
  from demo_start_serves [of mk junk] obtain s caps' fds' locks' where start: "demo_start mk junk = (Serving s, caps', fds', locks')" by blast
  have "CHR ''u'' \<notin> fst ` set [(CHR ''p'', ''50052''), (CHR ''i'', [])]" by simp
  from rdcd_serves_authenticated [OF start [unfolded demo_start_def] this] start
  show "\<exists>s caps' fds' locks' cli key crt. demo_start mk junk = (Serving s, caps', fds', locks')
     \<and> rs_listening s = Some (Some \<lparr>so_require_client_cert = True, so_root_certs = cli, so_key_cert_pairs = [(key, crt)]\<rparr>)" by blast
qed

text \<open>The check of incompatible options is not reached when an unknown option follows them.\<close>

lemma unknown_option_skips_check:
  "ProcessCmdline [(CHR ''u'', []), (CHR ''i'', []), (CHR ''?'', [])] init_cmd_line_opts
   = Inr (0, init_cmd_line_opts\<lparr>no_authentication := True, use_pinned_certs := True\<rparr>)"
  by (simp add: init_cmd_line_opts_def)

end
