(* ===== verification/Rdc_Perf_Timer.thy ===== *)
theory Rdc_Perf_Timer
  imports Rdc_Prelude
begin

text \<open>
  The timers of the GPU tests, \<^verbatim>\<open>RdcPerfTimer\<close>: a vector of accumulating timers read in nanoseconds of the
  monotonic clock, and the measurement of the time stamp counter that every constructor makes. The clock
  readings are arguments; the alternative behind \<^verbatim>\<open>_AMD\<close>, which no build defines, is left out.
\<close>

section \<open>Clocks\<close>

record timespec =
  tv_sec :: i64
  tv_nsec :: i64

definition kNanosecondsPerSecond :: u64 where
  "kNanosecondsPerSecond = 1000000000"

text \<open>The value that \<^verbatim>\<open>StartTimer\<close> and \<^verbatim>\<open>StopTimer\<close> make of a reading; both factors are cast to 64 bits without sign.\<close>

definition clock_ns :: "timespec \<Rightarrow> u64" where
  "clock_ns s = tv_sec s * kNanosecondsPerSecond + tv_nsec s"

definition CoarseTimestampUs :: "timespec \<Rightarrow> u64" where
  "CoarseTimestampUs ts = tv_sec ts * 1000000 + word_of_int (sint (tv_nsec ts) sdiv 1000)"

section \<open>Measuring the time stamp counter\<close>

text \<open>
  \<open>tsc k\<close> is the \<open>k\<close>-th reading of the counter after the first. The loop has a result when some reading is a
  gigacycle past the first one.
\<close>

partial_function (option) tsc_loop :: "(nat \<Rightarrow> u64) \<Rightarrow> u64 \<Rightarrow> nat \<Rightarrow> (nat \<times> u64) option" where
  "tsc_loop tsc start k = (if tsc k - start < 1000000000 then tsc_loop tsc start (Suc k) else Some (k, tsc k))"

text \<open>\<open>raw k\<close> is the coarse clock after reading \<open>k\<close>. An interval of 0 nanoseconds is divided by all the same: no result.\<close>

definition MeasureTSCFreqHz :: "(nat \<Rightarrow> u64) \<Rightarrow> (nat \<Rightarrow> timespec) \<Rightarrow> timespec \<Rightarrow> u64 \<Rightarrow> u64 option" where
  "MeasureTSCFreqHz tsc raw raw0 tscTicksBegin =
     (case tsc_loop tsc tscTicksBegin 0 of
        None \<Rightarrow> None
      | Some (k, tscTicksEnd) \<Rightarrow>
          let coarseIntervalNs = (CoarseTimestampUs (raw k) - CoarseTimestampUs raw0) * 1000;
              tscIntervalTicks = tscTicksEnd - tscTicksBegin
          in if coarseIntervalNs = 0 then None
             else Some ((tscIntervalTicks * 10 + coarseIntervalNs div 2) div coarseIntervalNs))"

section \<open>Timers\<close>

record timer =
  pt_name :: string
  pt_freq :: u64
  pt_clocks :: u64
  pt_start :: u64

text \<open>\<open>pf_out\<close> is what \<^verbatim>\<open>Error\<close> has written to the standard output.\<close>

record perf_timer =
  pf_timers :: "timer list"
  pf_freq_in_100mhz :: real
  pf_out :: "string list"

definition new_perf_timer :: "(nat \<Rightarrow> u64) \<Rightarrow> (nat \<Rightarrow> timespec) \<Rightarrow> timespec \<Rightarrow> u64 \<Rightarrow> perf_timer option" where
  "new_perf_timer tsc raw raw0 tsc0 =
     map_option (\<lambda>f. \<lparr>pf_timers = [], pf_freq_in_100mhz = real (unat f), pf_out = []\<rparr>) (MeasureTSCFreqHz tsc raw raw0 tsc0)"

definition timer_error :: "string \<Rightarrow> perf_timer \<Rightarrow> perf_timer" where
  "timer_error str p = p\<lparr>pf_out := pf_out p @ [str @ [CHR 0x0A]]\<rparr>"

definition CreateTimer :: "perf_timer \<Rightarrow> u32 \<times> perf_timer" where
  "CreateTimer p =
     (let newTimer = \<lparr>pt_name = '''', pt_freq = kNanosecondsPerSecond, pt_clocks = 0, pt_start = 0\<rparr>;
          ts = pf_timers p @ [newTimer]
      in (word_of_nat (length ts - 1), p\<lparr>pf_timers := ts\<rparr>))"

text \<open>
  The handle is an \<^verbatim>\<open>int\<close>, compared with the number of timers as an \<^verbatim>\<open>int\<close>. A negative handle passes the
  comparison and indexes the vector out of range.
\<close>

definition bad_handle :: "u32 \<Rightarrow> perf_timer \<Rightarrow> bool" where
  "bad_handle index p \<longleftrightarrow> sint (word_of_nat (length (pf_timers p)) :: u32) \<le> sint index"

definition timer_at :: "u32 \<Rightarrow> perf_timer \<Rightarrow> timer option" where
  "timer_at index p =
     (if sint index < 0 \<or> length (pf_timers p) \<le> nat (sint index) then None else Some (pf_timers p ! nat (sint index)))"

definition put_timer :: "u32 \<Rightarrow> timer \<Rightarrow> perf_timer \<Rightarrow> perf_timer" where
  "put_timer index t p = p\<lparr>pf_timers := (pf_timers p)[nat (sint index) := t]\<rparr>"


definition StopTimer :: "u32 \<Rightarrow> timespec \<Rightarrow> perf_timer \<Rightarrow> (u32 \<times> perf_timer) option" where
  "StopTimer index s p =
     (if bad_handle index p then Some (1, timer_error ''Cannot reset timer. Invalid handle.'' p)
      else case timer_at index p of
             None \<Rightarrow> None
           | Some t \<Rightarrow>
               let n = clock_ns s - pt_start t
               in Some (0, put_timer index (t\<lparr>pt_start := 0, pt_clocks := pt_clocks t + n\<rparr>) p))"

definition ReadTimer :: "u32 \<Rightarrow> perf_timer \<Rightarrow> (real \<times> perf_timer) option" where
  "ReadTimer index p =
     (if bad_handle index p then Some (1, timer_error ''Cannot read timer. Invalid handle.'' p)
      else case timer_at index p of
             None \<Rightarrow> None
           | Some t \<Rightarrow> Some (real (unat (pt_clocks t)) / real (unat (pt_freq t)), p))"


section \<open>The loop of the measurement\<close>

lemma tsc_loop_returns:
  assumes "tsc n - start \<ge> 1000000000" and "k \<le> n"
  shows "\<exists>m. tsc_loop tsc start k = Some (m, tsc m) \<and> k \<le> m \<and> m \<le> n \<and> 1000000000 \<le> tsc m - start"
  using assms(2)
proof (induction "n - k" arbitrary: k rule: less_induct)
  case less
  show ?case
  proof (cases "tsc k - start < 1000000000")
    case True
    with assms(1) less.prems have "Suc k \<le> n" by (metis leD le_eq_less_or_eq Suc_leI)
    moreover then have "n - Suc k < n - k" by simp
    ultimately obtain m where "tsc_loop tsc start (Suc k) = Some (m, tsc m) \<and> Suc k \<le> m \<and> m \<le> n \<and> 1000000000 \<le> tsc m - start"
      using less.hyps [of "Suc k"] by blast
    with True show ?thesis by (auto simp: tsc_loop.simps [of tsc start k])
  qed (use less.prems in \<open>auto simp: tsc_loop.simps [of tsc start k] not_less\<close>)
qed

text \<open>The quotient is rounded to the nearest 100 MHz as long as ten times the ticks fit the word.\<close>

lemma rounded_quotient:
  fixes n d :: nat
  assumes "0 < d"
  shows "2 * \<bar>int n - int ((n + d div 2) div d) * int d\<bar> \<le> int d"
proof -
  let ?q = "(n + d div 2) div d"
  have "?q * d \<le> n + d div 2" "n + d div 2 < ?q * d + d"
    using assms dividend_less_div_times [of d "n + d div 2"] by simp_all
  then have "int ?q * int d \<le> int n + int (d div 2)" "int n + int (d div 2) < int ?q * int d + int d"
    by (metis of_nat_add of_nat_le_iff of_nat_mult, metis of_nat_add of_nat_less_iff of_nat_mult)
  then show ?thesis by (auto simp: abs_if zdiv_int)
qed

lemma measured_frequency:
  assumes loop: "tsc_loop tsc t0 0 = Some (k, t1)"
    and ns: "ns = (CoarseTimestampUs (raw k) - CoarseTimestampUs raw0) * 1000" "ns \<noteq> 0"
    and fits: "10 * unat (t1 - t0) + unat ns div 2 < 2 ^ 64"
  shows "\<exists>f. MeasureTSCFreqHz tsc raw raw0 t0 = Some f
    \<and> 2 * \<bar>10 * int (unat (t1 - t0)) - int (unat f) * int (unat ns)\<bar> \<le> int (unat ns)"
proof -
  let ?x = "(t1 - t0) * 10 + ns div 2"
  have a: "unat ((t1 - t0) * 10) = 10 * unat (t1 - t0)" using fits by (subst unat_mult_lem [THEN iffD1]) simp_all
  have "unat ?x = 10 * unat (t1 - t0) + unat ns div 2"
    using fits a by (subst unat_add_lem [THEN iffD1]) (simp_all add: unat_div_distrib)
  then have "unat (?x div ns) = (10 * unat (t1 - t0) + unat ns div 2) div unat ns" by (simp add: unat_div_distrib)
  then have "2 * \<bar>int (10 * unat (t1 - t0)) - int (unat (?x div ns)) * int (unat ns)\<bar> \<le> int (unat ns)"
    using rounded_quotient [of "unat ns" "10 * unat (t1 - t0)"] ns(2) by (simp only: unat_gt_0 not_False_eq_True simp_thms)
  moreover have "MeasureTSCFreqHz tsc raw raw0 t0 = Some (?x div ns)" using loop ns by (simp add: MeasureTSCFreqHz_def Let_def)
  ultimately show ?thesis by (intro exI [of _ "?x div ns"]) (simp only: of_nat_mult of_nat_numeral simp_thms)
qed

section \<open>A program of timer calls\<close>








definition handle_ok :: "nat \<Rightarrow> u32 \<Rightarrow> bool" where
  "handle_ok n h \<longleftrightarrow> 0 \<le> sint h \<and> nat (sint h) < n"



lemma sint_small: "n < 2 ^ 31 \<Longrightarrow> sint (word_of_nat n :: u32) = int n"
  by (simp add: signed_of_nat signed_take_bit_int_eq_self)

lemma handle_in_range:
  assumes "handle_ok (length (pf_timers p)) h" and "length (pf_timers p) < 2 ^ 31"
  shows "\<not> bad_handle h p" and "timer_at h p = Some (pf_timers p ! nat (sint h))"
  using assms by (auto simp: bad_handle_def timer_at_def handle_ok_def sint_small)







section \<open>Properties\<close>





text \<open>A stop without a start adds the reading itself, the time since the epoch of the clock.\<close>

lemma stop_adds_reading:
  assumes "CreateTimer p0 = (h, p)" and "length (pf_timers p) < 2 ^ 31"
  shows "\<exists>p'. StopTimer h s p = Some (0, p') \<and> ReadTimer h p' = Some (real (unat (clock_ns s)) / 10 ^ 9, p')"
proof -
  have p: "h = word_of_nat (length (pf_timers p0))" "length (pf_timers p) = Suc (length (pf_timers p0))"
    using assms(1) by (auto simp: CreateTimer_def Let_def)
  have "sint h = int (length (pf_timers p0))" unfolding p(1) using assms(2) p(2) by (intro sint_small) simp
  then have ok: "handle_ok (length (pf_timers p)) h" by (simp add: handle_ok_def p(2))
  then have l: "nat (sint h) < length (pf_timers p)" by (simp add: handle_ok_def)
  have t: "pf_timers p ! nat (sint h) = \<lparr>pt_name = [], pt_freq = kNanosecondsPerSecond, pt_clocks = 0, pt_start = 0\<rparr>"
    using assms(1) \<open>sint h = _\<close> by (auto simp: CreateTimer_def Let_def)
  let ?p' = "put_timer h \<lparr>pt_name = [], pt_freq = kNanosecondsPerSecond, pt_clocks = clock_ns s, pt_start = 0\<rparr> p"
  have "handle_ok (length (pf_timers ?p')) h" "length (pf_timers ?p') < 2 ^ 31" using ok assms(2) by (simp_all add: put_timer_def)
  from handle_in_range [OF this] handle_in_range [OF ok assms(2)] t l show ?thesis
    by (intro exI [of _ ?p']) (simp add: StopTimer_def ReadTimer_def put_timer_def kNanosecondsPerSecond_def)
qed

end
