(* ===== verification/Rdc_Reports.thy ===== *)
theory Rdc_Reports
  imports Rdc_Watch_Table Rdc_Rocr
begin

text \<open>
  What the libraries write for a human reader: the logger \<^verbatim>\<open>RdcLogger\<close>, the status dump of the watch table and of the
  cache, the banners and the description of the GPU tests, and the dumps of memory pools and pointers.
\<close>

abbreviation newline :: char where "newline \<equiv> CHR 0x0A"

section \<open>\<open>RdcLogger\<close>\<close>

definition RDC_ERROR :: u32 where "RDC_ERROR = 0"
definition RDC_INFO :: u32 where "RDC_INFO = 1"
definition RDC_DEBUG :: u32 where "RDC_DEBUG = 2"

lemmas severity_defs = RDC_ERROR_def RDC_INFO_def RDC_DEBUG_def

text \<open>\<open>lg_os\<close> is the text the stream has received, one item per message.\<close>

record logger =
  lg_os :: "string list"
  lg_log_level :: u32

text \<open>The argument is the value of the environment variable \<^verbatim>\<open>RDC_LOG\<close>.\<close>

definition new_logger :: "string option \<Rightarrow> logger" where
  "new_logger verbose = \<lparr>lg_os = [], lg_log_level =
     (case verbose of
        None \<Rightarrow> RDC_ERROR
      | Some v \<Rightarrow> if v = ''DEBUG'' then RDC_DEBUG else if v = ''INFO'' then RDC_INFO else RDC_ERROR)\<rparr>"

definition should_log :: "u32 \<Rightarrow> logger \<Rightarrow> bool" where
  "should_log severity lg \<longleftrightarrow> severity \<le> lg_log_level lg"

text \<open>The time since the epoch in seconds with three decimals.\<close>

definition seconds_text :: "nat \<Rightarrow> string" where
  "seconds_text ms =
     nat_string (ms div 1000) @ ''.'' @ map (\<lambda>d. char_of (48 + d)) [ms mod 1000 div 100, ms mod 100 div 10, ms mod 10]"

text \<open>The part of a path after its last slash, the whole path when there is none.\<close>

definition base_name :: "string \<Rightarrow> string" where
  "base_name file = rev (takeWhile (\<lambda>c. c \<noteq> CHR ''/'') (rev file))"

definition get_log_header :: "nat \<Rightarrow> u32 \<Rightarrow> string option \<Rightarrow> nat \<Rightarrow> string" where
  "get_log_header ms severity file line =
     seconds_text ms @ '' ''
     @ (if severity = RDC_DEBUG then ''DEBUG '' else if severity = RDC_INFO then ''INFO '' else ''ERROR '')
     @ (case file of None \<Rightarrow> '''' | Some f \<Rightarrow> base_name f @ ''('' @ nat_string line @ ''): '')"

definition RDC_LOG :: "nat \<Rightarrow> string \<Rightarrow> nat \<Rightarrow> u32 \<Rightarrow> string \<Rightarrow> logger \<Rightarrow> logger" where
  "RDC_LOG ms file line severity msg lg =
     (if should_log severity lg
      then lg\<lparr>lg_os := lg_os lg @ [get_log_header ms severity (Some file) line @ msg @ [newline]]\<rparr> else lg)"

text \<open>Messages of one severity from one file, each with its line; \<open>clock n\<close> is the time of the \<open>n\<close>-th of them.\<close>

definition log_lines :: "(nat \<Rightarrow> nat) \<Rightarrow> string \<Rightarrow> u32 \<Rightarrow> (nat \<times> string) list \<Rightarrow> logger \<Rightarrow> logger" where
  "log_lines clock file severity msgs lg =
     fold (\<lambda>(n, line, msg). RDC_LOG (clock n) file line severity msg) (enumerate 0 msgs) lg"

subsection \<open>What is printed\<close>

lemma base_name_plain: "CHR ''/'' \<notin> set (base_name file)"
  by (auto simp: base_name_def dest: set_takeWhileD)

lemma base_name_suffix: "\<exists>dir. file = dir @ base_name file \<and> (dir \<noteq> [] \<longrightarrow> last dir = CHR ''/'')"
proof -
  let ?P = "\<lambda>c. c \<noteq> CHR ''/''"
  have "file = rev (dropWhile ?P (rev file)) @ base_name file"
    unfolding base_name_def by (metis rev_append rev_rev_ident takeWhile_dropWhile_id)
  moreover have "dropWhile ?P (rev file) \<noteq> [] \<longrightarrow> hd (dropWhile ?P (rev file)) = CHR ''/''"
    using hd_dropWhile by blast
  ultimately show ?thesis by (intro exI [of _ "rev (dropWhile ?P (rev file))"]) (simp add: last_rev)
qed

lemma log_level_values: "lg_log_level (new_logger v) = RDC_DEBUG \<longleftrightarrow> v = Some ''DEBUG''"
  "lg_log_level (new_logger v) = RDC_INFO \<longleftrightarrow> v = Some ''INFO''"
  by (auto simp: new_logger_def severity_defs split: option.split)

lemma log_threshold:
  "lg_os (RDC_LOG ms file line severity msg lg) =
     lg_os lg @ (if severity \<le> lg_log_level lg then [get_log_header ms severity (Some file) line @ msg @ [newline]] else [])"
  "lg_log_level (RDC_LOG ms file line severity msg lg) = lg_log_level lg"
  by (simp_all add: RDC_LOG_def should_log_def)

lemma fold_log:
  "lg_log_level (fold (\<lambda>(n, line, msg). RDC_LOG (clock n) file line severity msg) ms lg) = lg_log_level lg
   \<and> lg_os (fold (\<lambda>(n, line, msg). RDC_LOG (clock n) file line severity msg) ms lg) =
       lg_os lg @ (if severity \<le> lg_log_level lg
                   then map (\<lambda>(n, line, msg). get_log_header (clock n) severity (Some file) line @ msg @ [newline]) ms else [])"
  by (induction ms arbitrary: lg) (auto simp: log_threshold)

lemma log_lines_os:
  "lg_os (log_lines clock file severity msgs lg) =
     lg_os lg @ (if severity \<le> lg_log_level lg
                 then map (\<lambda>(n, line, msg). get_log_header (clock n) severity (Some file) line @ msg @ [newline]) (enumerate 0 msgs) else [])"
  by (simp add: log_lines_def fold_log)

section \<open>The status of the watch table\<close>

definition bool_text :: "bool \<Rightarrow> string" where
  "bool_text b = (if b then ''1'' else ''0'')"

definition get_cache_stats :: "cache_manager \<Rightarrow> string" where
  "get_cache_stats c =
     ''Cache samples:''
     @ concat (map (\<lambda>((g, f), es). ''<'' @ u32_string g @ '','' @ u32_string f @ '':'' @ nat_string (length es) @ ''> '') (cache_samples c))
     @ '' Job caches:''
     @ concat (map (\<lambda>(j, e). ''<'' @ j @ '':'' @ nat_string (length (je_gpu_stats e)) @ ''> '') (cache_jobs c))"

text \<open>\<open>dbl\<close> is the rendering of a \<^verbatim>\<open>double\<close> by the stream.\<close>

definition settings_text :: "(real \<Rightarrow> string) \<Rightarrow> (u32 \<times> u32) \<times> field_settings \<Rightarrow> string" where
  "settings_text dbl = (\<lambda>((a, b), s).
     u32_string a @ '','' @ u32_string b @ '': age:'' @ dbl (st_max_keep_age s) @ '', samples:'' @ u32_string (st_max_keep_samples s)
     @ '', is_watching:'' @ bool_text (st_is_watching s) @ '', last_update_time:'' @ u64_string (st_last_update_time s)
     @ '', update_freq:'' @ u64_string (st_update_freq s))"

definition job_text :: "string \<times> job_watch_entry \<Rightarrow> string" where
  "job_text = (\<lambda>(j, e). j @ '': '' @ u32_string (jw_group_id e) @ '' fields : ''
     @ concat (map (\<lambda>(g, f). ''<'' @ u32_string g @ '','' @ u32_string f @ ''> '') (jw_fields e)))"

definition titled :: "nat \<Rightarrow> string \<Rightarrow> nat \<Rightarrow> ('x \<Rightarrow> string) \<Rightarrow> 'x list \<Rightarrow> (nat \<times> string) list" where
  "titled l title l' show xs = (if xs \<noteq> [] then [(l, title)] else []) @ map (\<lambda>x. (l', show x)) xs"

definition debug_status :: "(real \<Rightarrow> string) \<Rightarrow> (nat \<Rightarrow> nat) \<Rightarrow> watch_core \<Rightarrow> logger \<Rightarrow> logger" where
  "debug_status dbl clock c =
     log_lines clock ''RdcWatchTableImpl.cc'' RDC_DEBUG
       ([(549, ''fields_to_watch_:'' @ nat_string (length (wt_fields c)) @ '' watch_table_:'' @ nat_string (length (wt_watch_table c))
               @ '' job_watch_table_:'' @ nat_string (length (wt_job_table c)) @ '' cache stats:'' @ get_cache_stats (wt_cache c))]
        @ titled 555 ''watch table details:'' 558 (settings_text dbl) (wt_watch_table c)
        @ titled 567 ''job watch table details: '' 574 job_text (wt_job_table c)
        @ titled 579 ''fields to watch details:'' 582 (settings_text dbl) (wt_fields c))"

text \<open>The dump is written only when the environment asks for it, and then has a line for every entry.\<close>

lemma debug_status_lines:
  "length (lg_os (debug_status dbl clock c lg)) = length (lg_os lg) +
     (if RDC_DEBUG \<le> lg_log_level lg
      then 1 + (length (wt_watch_table c) + length (wt_job_table c) + length (wt_fields c))
           + length (filter (\<lambda>n. n \<noteq> 0) [length (wt_watch_table c), length (wt_job_table c), length (wt_fields c)]) else 0)"
  by (simp add: debug_status_def log_lines_os titled_def)

section \<open>Banners and description of a test\<close>

definition kOutputLineLength :: nat where "kOutputLineLength = 80"

definition MakeHeaderStr :: "string \<Rightarrow> string" where
  "MakeHeaderStr inStr = ''####'' @ '' '' @ inStr @ '' '' @ ''####''"

definition DisplayResults :: string where
  "DisplayResults = [newline, CHR 0x09] @ MakeHeaderStr ''TEST RESULTS'' @ [newline]"

definition banner :: "string \<Rightarrow> string \<Rightarrow> string" where
  "banner label body = [newline, CHR 0x09] @ MakeHeaderStr label @ [newline] @ body @ [newline]"

definition VERBOSE_STANDARD :: nat where "VERBOSE_STANDARD = 1"

definition DisplayTestInfo :: "nat \<Rightarrow> string \<Rightarrow> string \<Rightarrow> string" where
  "DisplayTestInfo verbosity title description =
     replicate 79 CHR ''#'' @ [newline] @ banner ''TEST NAME'' title
     @ (if VERBOSE_STANDARD \<le> verbosity then banner ''TEST DESCRIPTION'' description else '''')"

text \<open>\<^verbatim>\<open>std::string::find_last_of\<close> with one character: the last position up to \<open>i\<close>.\<close>

definition find_last_of :: "char \<Rightarrow> nat \<Rightarrow> string \<Rightarrow> nat option" where
  "find_last_of c i s =
     (let ps = filter (\<lambda>p. s ! p = c) [0..<min (Suc i) (length s)] in if ps = [] then None else Some (last ps))"

lemma find_last_of_Some:
  assumes "find_last_of c i s = Some p"
  shows "p \<le> i" "p < length s" "s ! p = c"
proof -
  let ?ps = "filter (\<lambda>p. s ! p = c) [0..<min (Suc i) (length s)]"
  from assms have "p \<in> set ?ps" unfolding find_last_of_def Let_def by (metis last_in_set option.distinct(1) option.inject)
  then show "p \<le> i" "p < length s" "s ! p = c" by auto
qed

lemma sorted_last: "sorted (xs :: 'a::linorder list) \<Longrightarrow> x \<in> set xs \<Longrightarrow> x \<le> last xs"
  by (induction xs) auto

lemma find_last_of_ge:
  assumes "j \<le> i" "j < length s" "s ! j = c"
  shows "\<exists>p. find_last_of c i s = Some p \<and> j \<le> p"
proof -
  let ?ps = "filter (\<lambda>p. s ! p = c) [0..<min (Suc i) (length s)]"
  have j: "j \<in> set ?ps" using assms by simp
  have "sorted ?ps" by (simp add: sorted_wrt_filter)
  with j have "j \<le> last ?ps" by (rule sorted_last [rotated])
  moreover have "?ps \<noteq> []" using j by force
  ultimately show ?thesis by (simp only: find_last_of_def Let_def if_False option.inject) blast
qed

lemma count_list_update: "p < length s \<Longrightarrow> s ! p = c \<Longrightarrow> d \<noteq> c \<Longrightarrow> count_list (s[p := d]) c < count_list s c"
  by (induction s arbitrary: p) (auto simp: nth_Cons split: nat.splits)

text \<open>
  The loop of \<^verbatim>\<open>set_description\<close>; without a space to break at, \<^verbatim>\<open>replace\<close> throws. A round takes a space away,
  so the loop ends even though the position may move backwards.
\<close>

function wrap_loop :: "nat \<Rightarrow> nat \<Rightarrow> string \<Rightarrow> string option" where
  "wrap_loop le i s =
     (if i < length s
      then case find_last_of CHR '' '' i s of
             None \<Rightarrow> None
           | Some endlptr \<Rightarrow> wrap_loop le (endlptr + le) (s[endlptr := newline])
      else Some s)"
  by pat_completeness auto

termination
proof (relation "measure (\<lambda>(le, i, s). count_list s CHR '' '')")
  fix le i :: nat and s p
  assume "find_last_of CHR '' '' i s = Some p"
  note p = find_last_of_Some [OF this]
  have "count_list (s[p := newline]) CHR '' '' < count_list s CHR '' ''" by (rule count_list_update) (use p in simp_all)
  then show "((le, p + le, s[p := newline]), le, i, s) \<in> measure (\<lambda>(le, i, s). count_list s CHR '' '')" by simp
qed simp

declare wrap_loop.simps [simp del]

definition set_description :: "string \<Rightarrow> string option" where
  "set_description d = (let le = kOutputLineLength - 4 in wrap_loop le le d)"

text \<open>Up to position \<open>b\<close> the text is broken into lines, behind it nothing has changed.\<close>

definition broken :: "nat \<Rightarrow> string \<Rightarrow> nat \<Rightarrow> string \<Rightarrow> bool" where
  "broken le d b s \<longleftrightarrow> length s = length d \<and> (b = 0 \<or> s ! b = newline) \<and> (\<forall>j<length d. b < j \<longrightarrow> s ! j = d ! j)
     \<and> (\<forall>j<length d. s ! j = d ! j \<or> d ! j = CHR '' '' \<and> s ! j = newline)
     \<and> (\<forall>k. k + le \<le> b \<longrightarrow> (\<exists>j. k \<le> j \<and> j \<le> k + le \<and> s ! j = newline))"

lemma broken_step:
  assumes "broken le d b s" and "b < p" and "p \<le> b + le" and "p < length d" and "s ! p = CHR '' ''"
  shows "broken le d p (s[p := newline])"
proof -
  have l: "length s = length d" and b: "b = 0 \<or> s ! b = newline"
    and w: "\<And>k. k + le \<le> b \<Longrightarrow> \<exists>j. k \<le> j \<and> j \<le> k + le \<and> s ! j = newline"
    using assms(1) by (auto simp: broken_def)
  have "\<exists>j. k \<le> j \<and> j \<le> k + le \<and> s[p := newline] ! j = newline" if k: "k + le \<le> p" for k
  proof (cases "k + le \<le> b")
    case True
    from w [OF this] obtain j where "k \<le> j" "j \<le> k + le" "s ! j = newline" by blast
    then show ?thesis by (intro exI [of _ j]) (cases "j = p"; simp add: \<open>p < length d\<close> l)
  next
    case False
    show ?thesis
    proof (cases "k \<le> b \<and> b \<noteq> 0")
      case True
      with False b assms(2) show ?thesis by (intro exI [of _ b]) auto
    next
      case False
      with k assms(2,3) have "p \<le> k + le" by auto
      with k assms(4) l show ?thesis by (intro exI [of _ p]) auto
    qed
  qed
  with assms l show ?thesis by (auto simp: broken_def nth_list_update)
qed

lemma wrap_loop_lines:
  assumes "broken le d b s" and gaps: "\<forall>k. k + le \<le> length d \<longrightarrow> (\<exists>j. k \<le> j \<and> j < k + le \<and> d ! j = CHR '' '')"
  shows "\<exists>w. wrap_loop le (b + le) s = Some w \<and> length w = length d
    \<and> (\<forall>j<length d. w ! j = d ! j \<or> d ! j = CHR '' '' \<and> w ! j = newline)
    \<and> (\<forall>k. k + le < length d \<longrightarrow> (\<exists>j. k \<le> j \<and> j \<le> k + le \<and> w ! j = newline))"
  using assms(1)
proof (induction "length d - b" arbitrary: b s rule: less_induct)
  case less
  then have l: "length s = length d" and same: "\<And>j. j < length d \<Longrightarrow> b < j \<Longrightarrow> s ! j = d ! j" by (auto simp: broken_def)
  show ?case
  proof (cases "b + le < length d")
    case True
    with gaps obtain j where j: "Suc b \<le> j" "j < Suc b + le" "d ! j = CHR '' ''" by (metis Suc_leI add_Suc)
    then have "s ! j = CHR '' ''" using same True by auto
    with j True l obtain p where p: "find_last_of CHR '' '' (b + le) s = Some p" "j \<le> p"
      using find_last_of_ge [of j "b + le" s] by auto
    note q = find_last_of_Some [OF p(1)]
    have "broken le d p (s[p := newline])" using less.prems q p(2) j(1) l by (intro broken_step) auto
    moreover have "length d - p < length d - b" using p(2) j(1) q(2) l by simp
    ultimately show ?thesis using less.hyps [of p "s[p := newline]"] p(1) True l by (simp add: wrap_loop.simps [of le "b + le" s])
  next
    case False
    have "\<exists>j. k \<le> j \<and> j \<le> k + le \<and> s ! j = newline" if "k + le < length d" for k
    proof (cases "k + le \<le> b")
      case False
      with that \<open>\<not> b + le < length d\<close> less.prems show ?thesis by (intro exI [of _ b]) (auto simp: broken_def)
    qed (use less.prems in \<open>auto simp: broken_def\<close>)
    with False less.prems l show ?thesis by (auto simp: wrap_loop.simps [of le "b + le" s] broken_def)
  qed
qed

section \<open>Pools and pointers\<close>

definition HSA_AMD_SEGMENT_READONLY :: u64 where "HSA_AMD_SEGMENT_READONLY = 1"
definition HSA_AMD_SEGMENT_PRIVATE :: u64 where "HSA_AMD_SEGMENT_PRIVATE = 2"
definition HSA_AMD_SEGMENT_GROUP :: u64 where "HSA_AMD_SEGMENT_GROUP = 3"

definition MakeGlobalFlagsString :: "pool_info \<Rightarrow> string" where
  "MakeGlobalFlagsString pool_i =
     (let global_flag = pi_global_flag pool_i;
          flags = (if FLAG_KERNARG_INIT AND global_flag \<noteq> 0 then [''KERNARG''] else [])
                @ (if FLAG_FINE_GRAINED AND global_flag \<noteq> 0 then [''FINE GRAINED''] else [])
                @ (if FLAG_COARSE_GRAINED AND global_flag \<noteq> 0 then [''COARSE GRAINED''] else [])
      in (if flags \<noteq> [] then flags ! 0 else '''') @ concat (map (\<lambda>f. '', '' @ f) (drop 1 flags)))"

text \<open>
  The indentation reaches \<^verbatim>\<open>DumpSegment\<close> as a pointer to a string, and it is the pointer that is printed:
  \<open>ind_lvl\<close> is the text of the address. The segments are those of the HSA header.
\<close>

definition DumpSegment :: "string \<Rightarrow> pool_info \<Rightarrow> (nat \<times> string) list" where
  "DumpSegment ind_lvl pool_i =
     [(331, ind_lvl @ '' Pool Segment:'')]
     @ (if pi_segment pool_i = HSA_AMD_SEGMENT_GLOBAL then [(360, ''GLOBAL; FLAGS: '' @ MakeGlobalFlagsString pool_i)]
        else if pi_segment pool_i = HSA_AMD_SEGMENT_READONLY then [(360, ''READONLY'')]
        else if pi_segment pool_i = HSA_AMD_SEGMENT_PRIVATE then [(360, ''PRIVATE'')]
        else if pi_segment pool_i = HSA_AMD_SEGMENT_GROUP then [(360, ''GROUP'')]
        else [(356, ''Not Supported''), (360, '''')])"

definition kb_text :: "u64 \<Rightarrow> string" where
  "kb_text n = u64_string (n div 1024) @ ''KB''"

definition truth_text :: "bool \<Rightarrow> string" where
  "truth_text b = (if b then ''TRUE'' else ''FALSE'')"

definition DumpMemoryPoolInfo :: "string \<Rightarrow> (nat \<Rightarrow> nat) \<Rightarrow> pool_info \<Rightarrow> u32 \<Rightarrow> logger \<Rightarrow> logger" where
  "DumpMemoryPoolInfo address clock pool_i indent =
     (let ind_lvl = replicate (unat indent) CHR '' '' in
      log_lines clock ''common.cc'' RDC_DEBUG
        (DumpSegment address pool_i
         @ [(408, ind_lvl @ '' Pool Size:'' @ kb_text (pi_size pool_i)),
            (410, ind_lvl @ '' Pool Allocatable:'' @ truth_text (pi_alloc_allowed pool_i)),
            (413, ind_lvl @ '' Pool Alloc Granule:'' @ kb_text (pi_alloc_granule pool_i)),
            (416, ind_lvl @ '' Pool Alloc Alignment:'' @ kb_text (pi_alloc_alignment pool_i)),
            (417, ind_lvl @ '' Pool Acessible by all:'' @ truth_text (pi_accessible_by_all pool_i)),
            (421, ind_lvl @ ''Pool Aggregate Alloc Size:'' @ kb_text (pi_aggregate_alloc_max pool_i))]))"

text \<open>What \<^verbatim>\<open>hsa_amd_pointer_info\<close> reports, with the list of agents; \<open>ptr_text\<close> is the rendering of a pointer.\<close>

record pointer_info =
  qi_type :: nat
  qi_agentBaseAddress :: u64
  qi_hostBaseAddress :: u64
  qi_sizeInBytes :: u64
  qi_userData :: u64

definition pointer_types :: "string list" where
  "pointer_types = [''HSA_EXT_POINTER_TYPE_UNKNOWN'', ''HSA_EXT_POINTER_TYPE_HSA'', ''HSA_EXT_POINTER_TYPE_LOCKED'',
     ''HSA_EXT_POINTER_TYPE_GRAPHICS'', ''HSA_EXT_POINTER_TYPE_IPC'']"

definition DumpPointerInfo ::
    "(u64 \<Rightarrow> string) \<Rightarrow> (u64 \<Rightarrow> hsa_status \<times> pointer_info \<times> u64 list) \<Rightarrow> u64 \<Rightarrow> (hsa_status + string list) option" where
  "DumpPointerInfo ptr_text query ptr =
     (case query ptr of (err, info, agents) \<Rightarrow>
        if err \<noteq> HSA_STATUS_SUCCESS then Some (Inl err)
        else if length pointer_types \<le> qi_type info then None
        else Some (Inr
          [''Info for ptr: '' @ ptr_text ptr, ''CPU ptr: '' @ ptr_text (qi_hostBaseAddress info),
           ''GPU ptr: '' @ ptr_text (qi_agentBaseAddress info), ''Size: '' @ u64_string (qi_sizeInBytes info),
           ''Type: '' @ pointer_types ! qi_type info, ''UsrPtr '' @ ptr_text (qi_userData info),
           ''Accessible by: '' @ concat (map (\<lambda>a. u64_string a @ '' '') agents) @ '' ;[EOM]'']))"

section \<open>Properties\<close>

text \<open>
  (C38) The description of a GPU test is broken into lines of at most 76 characters: \<^verbatim>\<open>set_description\<close> ends without an
  exception when every 76 consecutive characters of the text have a space among them, it changes nothing but spaces into
  line ends, and in the result every 77 consecutive characters have a line end among them.
\<close>
theorem description_wrapped:
  assumes "\<forall>k. k + 76 \<le> length d \<longrightarrow> (\<exists>j. k \<le> j \<and> j < k + 76 \<and> d ! j = CHR '' '')"
  shows "\<exists>w. set_description d = Some w \<and> length w = length d
    \<and> (\<forall>j<length d. w ! j = d ! j \<or> d ! j = CHR '' '' \<and> w ! j = newline)
    \<and> (\<forall>k. k + 77 \<le> length w \<longrightarrow> (\<exists>j. k \<le> j \<and> j < k + 77 \<and> w ! j = newline))"
proof -
  have "broken 76 d 0 d" by (simp add: broken_def)
  from wrap_loop_lines [OF this assms] obtain w where w: "wrap_loop 76 76 d = Some w" "length w = length d"
    "\<forall>j<length d. w ! j = d ! j \<or> d ! j = CHR '' '' \<and> w ! j = newline"
    "\<forall>k. k + 76 < length d \<longrightarrow> (\<exists>j. k \<le> j \<and> j \<le> k + 76 \<and> w ! j = newline)" by auto
  moreover have "\<exists>j. k \<le> j \<and> j < k + 77 \<and> w ! j = newline" if "k + 77 \<le> length w" for k
    using w(2) w(4) [rule_format, of k] that by fastforce
  ultimately show ?thesis by (auto simp: set_description_def kOutputLineLength_def)
qed

text \<open>The description that the constructor of \<^verbatim>\<open>MemoryTest\<close> sets.\<close>

definition memory_test_description :: string where
  "memory_test_description = ''This series of tests check memory allocation limits, extent''
     @ '' of GPU access to system memory and other memory related '' @ ''functionality.''"

theorem description_wrapped_witness:
  "\<exists>w. set_description memory_test_description = Some w \<and> length w = 130
    \<and> (\<forall>k. k + 77 \<le> length w \<longrightarrow> (\<exists>j. k \<le> j \<and> j < k + 77 \<and> w ! j = newline))"
proof -
  have l: "length memory_test_description = 130" and sp: "memory_test_description ! 59 = CHR '' ''"
    by (simp_all add: memory_test_description_def)
  have "\<forall>k. k + 76 \<le> length memory_test_description \<longrightarrow> (\<exists>j. k \<le> j \<and> j < k + 76 \<and> memory_test_description ! j = CHR '' '')"
  proof (intro allI impI)
    fix k assume "k + 76 \<le> length memory_test_description"
    with l sp show "\<exists>j. k \<le> j \<and> j < k + 76 \<and> memory_test_description ! j = CHR '' ''" by (intro exI [of _ 59]) simp
  qed
  from description_wrapped [OF this] show ?thesis by (auto simp: l)
qed

end
