(* ===== verification/Rdci_Commands.thy ===== *)
theory Rdci_Commands
  imports Rdci
begin

text \<open>
  The subsystems \<^verbatim>\<open>fieldgroup\<close>, \<^verbatim>\<open>stats\<close>, \<^verbatim>\<open>discovery\<close> and \<^verbatim>\<open>diag\<close> of the command line tool. What the
  tool leaves to the stream library, the rendering of \<^verbatim>\<open>double\<close> values and of calendar times, is a parameter.
\<close>

section \<open>\<open>fieldgroup\<close>\<close>

datatype field_group_op = FIELD_GROUP_UNKNOWN | FIELD_GROUP_HELP | FIELD_GROUP_CREATE | FIELD_GROUP_DELETE
  | FIELD_GROUP_LIST | FIELD_GROUP_INFO

record field_group_cmd =
  fc_base :: subsystem
  fc_op :: field_group_op
  fc_set :: bool
  fc_group_id :: u32
  fc_name :: string
  fc_ids :: string

definition new_field_group_cmd :: field_group_cmd where
  "new_field_group_cmd = \<lparr>fc_base = new_subsystem, fc_op = FIELD_GROUP_UNKNOWN, fc_set = False, fc_group_id = 0,
     fc_name = '''', fc_ids = ''''\<rparr>"

definition field_group_help :: "field_group_cmd \<Rightarrow> ('w, unit) cmd" where
  "field_group_help co = help_unless_json (fc_base co) ''fieldgroup''"

fun field_group_parse :: "cli_args \<Rightarrow> field_group_cmd \<Rightarrow> ('w, field_group_cmd) cmd" where
  "field_group_parse [] co =
     (if fc_op co = FIELD_GROUP_UNKNOWN then bad_usage (field_group_help co) ''Must specify a valid operations'' else ret co)"
| "field_group_parse ((opt, optarg) # args) co =
     (case opt of
        HOST_OPTIONS \<Rightarrow> bind_cmd (string_arg optarg) (\<lambda>a. field_group_parse args (co\<lparr>fc_base := (fc_base co)\<lparr>ss_ip_port := a\<rparr>\<rparr>))
      | JSON_OPTIONS \<Rightarrow> bind_cmd (set_json_output (fc_base co)) (\<lambda>b. field_group_parse args (co\<lparr>fc_base := b\<rparr>))
      | Short c \<Rightarrow>
          if c = CHR ''h'' then ret (co\<lparr>fc_op := FIELD_GROUP_HELP\<rparr>)
          else if c = CHR ''u'' then field_group_parse args (co\<lparr>fc_base := (fc_base co)\<lparr>ss_use_auth := False\<rparr>\<rparr>)
          else if c = CHR ''l'' then field_group_parse args (co\<lparr>fc_op := FIELD_GROUP_LIST\<rparr>)
          else if c = CHR ''f'' then bind_cmd (string_arg optarg) (\<lambda>a. field_group_parse args (co\<lparr>fc_ids := a\<rparr>))
          else if c = CHR ''g'' then
            bind_cmd (number_arg (field_group_help co) ''The group id needs to be a number'' optarg)
              (\<lambda>n. field_group_parse args (co\<lparr>fc_group_id := n, fc_set := True\<rparr>))
          else if c = CHR ''c'' then
            bind_cmd (string_arg optarg) (\<lambda>a. field_group_parse args (co\<lparr>fc_op := FIELD_GROUP_CREATE, fc_name := a\<rparr>))
          else if c = CHR ''i'' then field_group_parse args (co\<lparr>fc_op := FIELD_GROUP_INFO\<rparr>)
          else if c = CHR ''d'' then
            bind_cmd (number_arg (field_group_help (co\<lparr>fc_op := FIELD_GROUP_DELETE\<rparr>)) ''The group id needs to be a number'' optarg)
              (\<lambda>n. field_group_parse args (co\<lparr>fc_op := FIELD_GROUP_DELETE, fc_group_id := n, fc_set := True\<rparr>))
          else bad_usage (field_group_help co) ''Unknown command line options''
      | _ \<Rightarrow> bad_usage (field_group_help co) ''Unknown command line options'')"

text \<open>A field is named by its number or by its name.\<close>

definition field_id_arg :: "string \<Rightarrow> ('w, u32) cmd" where
  "field_id_arg t =
     (if IsNumber t then stoi t
      else case find_field_id_from_name t of
             Some i \<Rightarrow> ret i
           | None \<Rightarrow> throw (Rdc_exception RDC_ST_BAD_PARAMETER (''The field name '' @ t @ '' is not valid'')))"

text \<open>The identifiers are written to an array of 128 elements before their number is looked at.\<close>

fun field_id_args :: "string list \<Rightarrow> u32 list \<Rightarrow> ('w, u32 list) cmd" where
  "field_id_args [] acc = ret acc"
| "field_id_args (t # ts) acc =
     (if RDC_MAX_FIELD_IDS_PER_FIELD_GROUP \<le> length acc then undefined_cmd
      else bind_cmd (field_id_arg t) (\<lambda>i. field_id_args ts (acc @ [i])))"

definition field_group_create :: "'w api \<Rightarrow> field_group_cmd \<Rightarrow> ('w, unit) cmd" where
  "field_group_create api co =
     (if fc_name co = '''' then bad_usage (field_group_help co) ''Must specify the group name when create a field group''
      else bind_cmd (field_id_args (split_string (fc_ids co) CHR '','') []) (\<lambda>ids.
           bind_cmd (call api (A_group_field_create (Some ids) (Some (fc_name co)) True)) (\<lambda>(st, out).
           if st \<noteq> RDC_ST_OK then throw_status st
           else bind_cmd (out_id out) (\<lambda>gid.
                say (if ss_json (fc_base co)
                     then qt ''field_group_id'' @ '': '' @ qt (u32_string gid) @ '', '' @ qt ''status'' @ '': '' @ qt ''ok''
                     else ''Successfully created a field group with a group ID '' @ u32_string gid @ nl)))))"

definition field_group_delete :: "'w api \<Rightarrow> field_group_cmd \<Rightarrow> ('w, unit) cmd" where
  "field_group_delete api co =
     (if \<not> fc_set co then bad_usage (field_group_help co) ''Need to specify the group id to delete a group''
      else bind_cmd (call api (A_group_field_destroy (fc_group_id co))) (\<lambda>(st, _).
           if st \<noteq> RDC_ST_OK then throw_status st
           else say (if ss_json (fc_base co)
                     then qt ''field_group_id'' @ '': '' @ qt (u32_string (fc_group_id co)) @ '', '' @ qt ''status'' @ '': '' @ qt ''ok''
                     else ''Successfully deleted the field group '' @ u32_string (fc_group_id co) @ nl)))"

definition field_group_list_info :: "'w api \<Rightarrow> u32 \<Rightarrow> ('w, string \<times> u32 list) cmd" where
  "field_group_list_info api g =
     bind_cmd (call api (A_group_field_get_info g True)) (\<lambda>(st, out).
       if st \<noteq> RDC_ST_OK
       then throw (Rdc_exception RDC_ST_BAD_PARAMETER (''Fail to get information for field group '' @ u32_string g))
       else bind_cmd (out_field_group out) (\<lambda>gi. ret (fgroup_name gi, field_ids gi)))"

definition field_group_list :: "'w api \<Rightarrow> field_group_cmd \<Rightarrow> ('w, unit) cmd" where
  "field_group_list api co =
     (let json = ss_json (fc_base co) in
      bind_cmd (call api (A_group_field_get_all_ids True)) (\<lambda>(st, out).
        if st \<noteq> RDC_ST_OK then throw_status st
        else bind_cmd (out_ids out) (\<lambda>ids.
             then_cmd (if json then ret ()
                       else say (nat_string (length ids) @ '' field group found.'' @ nl @ ''GroupID'' @ tab @ ''GroupName'' @ tab @ ''FieldIds'' @ nl))
               (bind_cmd (list_entries (field_group_list_info api) json ''field_ids'' ids [])
                  (\<lambda>entries. if json
                             then say (qt ''field_groups'' @ '': ['' @ list_json entries @ ''], '' @ qt ''status'' @ '': '' @ qt ''ok'')
                             else ret ())))))"

definition field_group_info_cmd :: "'w api \<Rightarrow> field_group_cmd \<Rightarrow> ('w, unit) cmd" where
  "field_group_info_cmd api co =
     (if \<not> fc_set co then bad_usage (field_group_help co) ''Need to specify the group id to show field group info''
      else bind_cmd (call api (A_group_field_get_info (fc_group_id co) True)) (\<lambda>(st, out).
           if st \<noteq> RDC_ST_OK then throw_status st
           else bind_cmd (out_field_group out) (\<lambda>gi.
                say (info_text_of (ss_json (fc_base co)) ''field_ids'' ''Field Ids: '' (fgroup_name gi) (field_ids gi)))))"

definition field_group_process :: "'w api \<Rightarrow> field_group_cmd \<Rightarrow> ('w, unit) cmd" where
  "field_group_process api co =
     (case fc_op co of
        FIELD_GROUP_HELP \<Rightarrow> field_group_help co
      | FIELD_GROUP_CREATE \<Rightarrow> field_group_create api co
      | FIELD_GROUP_DELETE \<Rightarrow> field_group_delete api co
      | FIELD_GROUP_LIST \<Rightarrow> field_group_list api co
      | FIELD_GROUP_INFO \<Rightarrow> field_group_info_cmd api co
      | FIELD_GROUP_UNKNOWN \<Rightarrow> throw (Rdc_exception RDC_ST_BAD_PARAMETER ''Unknown command''))"

section \<open>\<open>stats\<close>\<close>

datatype stats_op = STATS_UNKNOWN | STATS_HELP | STATS_START_RECORDING | STATS_STOP_RECORDING | STATS_DISPLAY
  | STATS_REMOVE | STATS_REMOVE_ALL

record stats_cmd =
  sc_base :: subsystem
  sc_op :: stats_op
  sc_job_id :: string
  sc_group_id :: u32
  sc_group_set :: bool
  sc_verbose :: bool

text \<open>The constructor does not set the operation: it is what the memory holds.\<close>

definition new_stats_cmd :: "stats_op \<Rightarrow> stats_cmd" where
  "new_stats_cmd op0 = \<lparr>sc_base = new_subsystem, sc_op = op0, sc_job_id = '''', sc_group_id = 0, sc_group_set = False, sc_verbose = False\<rparr>"

definition stats_help :: "stats_cmd \<Rightarrow> ('w, unit) cmd" where
  "stats_help co = help_unless_json (sc_base co) ''stats''"

fun stats_parse :: "cli_args \<Rightarrow> stats_cmd \<Rightarrow> ('w, stats_cmd) cmd" where
  "stats_parse [] co =
     (if sc_op co = STATS_START_RECORDING \<and> \<not> sc_group_set co
      then bad_usage (stats_help co) ''Need to specify the group id to start recording'' else ret co)"
| "stats_parse ((opt, optarg) # args) co =
     (case opt of
        HOST_OPTIONS \<Rightarrow> bind_cmd (string_arg optarg) (\<lambda>a. stats_parse args (co\<lparr>sc_base := (sc_base co)\<lparr>ss_ip_port := a\<rparr>\<rparr>))
      | JSON_OPTIONS \<Rightarrow> bind_cmd (set_json_output (sc_base co)) (\<lambda>b. stats_parse args (co\<lparr>sc_base := b\<rparr>))
      | Short c \<Rightarrow>
          if c = CHR ''h'' then ret (co\<lparr>sc_op := STATS_HELP\<rparr>)
          else if c = CHR ''u'' then stats_parse args (co\<lparr>sc_base := (sc_base co)\<lparr>ss_use_auth := False\<rparr>\<rparr>)
          else if c = CHR ''s'' then bind_cmd (string_arg optarg) (\<lambda>a. stats_parse args (co\<lparr>sc_op := STATS_START_RECORDING, sc_job_id := a\<rparr>))
          else if c = CHR ''g'' then
            bind_cmd (number_arg (stats_help co) ''The group id needs to be a number'' optarg)
              (\<lambda>n. stats_parse args (co\<lparr>sc_group_id := n, sc_group_set := True\<rparr>))
          else if c = CHR ''x'' then bind_cmd (string_arg optarg) (\<lambda>a. stats_parse args (co\<lparr>sc_op := STATS_STOP_RECORDING, sc_job_id := a\<rparr>))
          else if c = CHR ''j'' then bind_cmd (string_arg optarg) (\<lambda>a. stats_parse args (co\<lparr>sc_op := STATS_DISPLAY, sc_job_id := a\<rparr>))
          else if c = CHR ''v'' then stats_parse args (co\<lparr>sc_verbose := True\<rparr>)
          else if c = CHR ''r'' then bind_cmd (string_arg optarg) (\<lambda>a. stats_parse args (co\<lparr>sc_op := STATS_REMOVE, sc_job_id := a\<rparr>))
          else if c = CHR ''a'' then stats_parse args (co\<lparr>sc_op := STATS_REMOVE_ALL\<rparr>)
          else bad_usage (stats_help co) ''Unknown command line options''
      | _ \<Rightarrow> bad_usage (stats_help co) ''Unknown command line options'')"

record stream_format =
  sf_default :: "real \<Rightarrow> string"
  sf_fixed :: "nat \<Rightarrow> real \<Rightarrow> string"
  sf_fixed_bits :: "nat \<Rightarrow> u64 \<Rightarrow> string"
  sf_gmtime :: "u64 \<Rightarrow> string"
  sf_localtime :: "u64 \<Rightarrow> string"

definition member :: "string \<Rightarrow> string \<Rightarrow> string" where
  "member name v = qt name @ '': '' @ v"

definition summary_json :: "stream_format \<Rightarrow> string \<Rightarrow> string \<Rightarrow> rdc_stats_summary \<Rightarrow> string list" where
  "summary_json f name sd x =
     [member (name @ ''_max'') (u64_string (ss_max_value x)), member (name @ ''_min'') (u64_string (ss_min_value x)),
      member (name @ ''_avg'') (u64_string (ss_average x)), member sd (sf_default f (ss_standard_deviation x))]"

definition job_stats_json :: "stream_format \<Rightarrow> rdc_gpu_usage_info \<Rightarrow> string" where
  "job_stats_json f g = list_json
     ([member ''start_time'' (u64_string (gu_start_time g)), member ''end_time'' (u64_string (gu_end_time g)),
       member ''execution_time'' (u64_string (gu_end_time g - gu_start_time g)),
       member ''energy_consumed'' (u64_string (gu_energy_consumed g))]
      @ summary_json f ''power_usage'' ''power_usage_stanard_deviation'' (gu_power_usage g)
      @ summary_json f ''gpu_clock'' ''gpu_clock_stanard_deviation'' (gu_gpu_clock g)
      @ summary_json f ''memory_clock'' ''memory_clock_stanard_deviation'' (gu_memory_clock g)
      @ summary_json f ''gpu_utilization'' ''gpu_utilization_deviation'' (gu_gpu_utilization g)
      @ [member ''max_gpu_memory_used'' (u64_string (gu_max_gpu_memory_used g))]
      @ summary_json f ''memory_utilization'' ''memory_utilization_stanard_deviation'' (gu_memory_utilization g)
      @ summary_json f ''gpu_temperature'' ''gpu_temperature_stanard_deviation'' (gu_gpu_temperature g)
      @ summary_json f ''pcie_rx'' ''pcie_rx_stanard_deviation'' (gu_pcie_rx g)
      @ summary_json f ''pcie_tx'' ''pcie_tx_stanard_deviation'' (gu_pcie_tx g)
      @ [member ''ecc_correct'' (u64_string (gu_ecc_correct g)), member ''ecc_uncorrect'' (u64_string (gu_ecc_uncorrect g))])"

definition row :: "string \<Rightarrow> string \<Rightarrow> string" where
  "row title v = ''| '' @ setw 33 title @ ''| '' @ v @ nl"

definition summary_row :: "stream_format \<Rightarrow> rdc_stats_summary \<Rightarrow> string" where
  "summary_row f x =
     ''Max: '' @ u64_string (ss_max_value x) @ '' Min: '' @ u64_string (ss_min_value x) @ '' Avg: '' @ u64_string (ss_average x)
       @ '' SD: '' @ sf_fixed f 2 (ss_standard_deviation x)"

definition job_stats_text :: "stream_format \<Rightarrow> rdc_gpu_usage_info \<Rightarrow> string" where
  "job_stats_text f g =
     ''|------- Execution Stats ----------+------------------------------------'' @ nl
     @ row ''Start Time'' (sf_gmtime f (gu_start_time g))
     @ row ''End Time'' (sf_gmtime f (gu_end_time g))
     @ row ''Total Execution Time (sec)'' (u64_string (gu_end_time g - gu_start_time g))
     @ ''+------- Performance Stats --------+------------------------------------'' @ nl
     @ row ''Energy Consumed (Joules)'' (u64_string (gu_energy_consumed g))
     @ row ''Power Usage (Watts)'' (summary_row f (gu_power_usage g))
     @ row ''GPU Clock (MHz)'' (summary_row f (gu_gpu_clock g))
     @ row ''Memory Clock (MHz)'' (summary_row f (gu_memory_clock g))
     @ row ''GPU Utilization (%)'' (summary_row f (gu_gpu_utilization g))
     @ row ''Max GPU Memory Used (bytes)'' (u64_string (gu_max_gpu_memory_used g))
     @ row ''Memory Utilization (%)'' (summary_row f (gu_memory_utilization g))
     @ row ''GPU Temperature (Celsius)'' (summary_row f (gu_gpu_temperature g))
     @ row ''PCIe Rx Bandwidth (megabytes)'' (summary_row f (gu_pcie_rx g))
     @ row ''PCIe Tx Bandwidth (megabytes)'' (summary_row f (gu_pcie_tx g))
     @ row ''Correctable ECC Errors'' (u64_string (gu_ecc_correct g))
     @ row ''Uncorrectable ECC Errors'' (u64_string (gu_ecc_uncorrect g))
     @ ''+----------------------------------+------------------------------------'' @ nl"

text \<open>The array of the GPUs has 16 elements.\<close>

fun show_gpus :: "stream_format \<Rightarrow> bool \<Rightarrow> rdc_job_info \<Rightarrow> nat list \<Rightarrow> ('w, unit) cmd" where
  "show_gpus f json info [] = ret ()"
| "show_gpus f json info (i # is') =
     (if length (ji_gpus info) \<le> i then undefined_cmd
      else then_cmd (say (if json then '', '' @ qt (''gpu_'' @ nat_string i) @ '': {'' @ job_stats_json f (ji_gpus info ! i) @ ''}''
                          else ''|         GPU '' @ nat_string i @ nl @ job_stats_text f (ji_gpus info ! i)))
             (show_gpus f json info is'))"

definition stats_display :: "stream_format \<Rightarrow> 'w api \<Rightarrow> rdc_job_info \<Rightarrow> stats_cmd \<Rightarrow> ('w, unit) cmd" where
  "stats_display f api stack co =
     bind_cmd (call api (A_job_get_stats (sc_job_id co) (Some stack))) (\<lambda>(st, out).
       if st \<noteq> RDC_ST_OK then throw_status st
       else (case out of
               O_job (Some info) \<Rightarrow>
                 then_cmd (say (if ss_json (sc_base co) then qt ''job_summary'' @ '' : {'' @ job_stats_json f (ji_summary info) @ ''}''
                                else ''|         Summary '' @ nl @ job_stats_text f (ji_summary info)))
                   (if \<not> sc_verbose co then ret () else show_gpus f (ss_json (sc_base co)) info [0..<unat (ji_num_gpus info)])
             | _ \<Rightarrow> undefined_cmd))"

text \<open>A call with a status alone and the message of its success.\<close>

definition simple_call :: "'w api \<Rightarrow> api_call \<Rightarrow> string \<Rightarrow> ('w, unit) cmd" where
  "simple_call api c t = bind_cmd (call api c) (\<lambda>(st, _). if st \<noteq> RDC_ST_OK then throw_status st else say t)"

definition stats_process :: "stream_format \<Rightarrow> 'w api \<Rightarrow> rdc_job_info \<Rightarrow> stats_cmd \<Rightarrow> ('w, unit) cmd" where
  "stats_process f api stack co =
     (let json = ss_json (sc_base co); job = sc_job_id co; ok = qt ''status'' @ '': '' @ qt ''ok''
      in case sc_op co of
           STATS_UNKNOWN \<Rightarrow> stats_help co
         | STATS_HELP \<Rightarrow> stats_help co
         | STATS_START_RECORDING \<Rightarrow>
             simple_call api (A_job_start_stats (sc_group_id co) job 1000000)
               (if json then member ''job_id'' (qt job) @ '', '' @ member ''group_id'' (qt (u32_string (sc_group_id co))) @ '', '' @ ok
                else ''Successfully started recording job '' @ job @ '' with a group ID '' @ u32_string (sc_group_id co) @ nl)
         | STATS_STOP_RECORDING \<Rightarrow>
             simple_call api (A_job_stop_stats job)
               (if json then member ''job_id'' (qt job) @ '', '' @ ok else ''Successfully stopped recording job '' @ job @ nl)
         | STATS_DISPLAY \<Rightarrow> stats_display f api stack co
         | STATS_REMOVE \<Rightarrow>
             simple_call api (A_job_remove job)
               (if json then member ''job_id'' (qt job) @ '', '' @ ok else ''Successfully removed job '' @ job @ nl)
         | STATS_REMOVE_ALL \<Rightarrow> simple_call api A_job_remove_all (if json then ok else ''Successfully removed all jobs'' @ nl))"

section \<open>\<open>discovery\<close>\<close>

record discovery_cmd =
  dc_base :: subsystem
  dc_help :: bool
  dc_list :: bool
  dc_version :: bool

definition new_discovery_cmd :: discovery_cmd where
  "new_discovery_cmd = \<lparr>dc_base = new_subsystem, dc_help = False, dc_list = False, dc_version = False\<rparr>"

definition discovery_help :: "discovery_cmd \<Rightarrow> ('w, unit) cmd" where
  "discovery_help co = help_unless_json (dc_base co) ''discovery''"

fun discovery_parse :: "cli_args \<Rightarrow> discovery_cmd \<Rightarrow> ('w, discovery_cmd) cmd" where
  "discovery_parse [] co =
     (if (\<not> dc_list co \<and> \<not> dc_version co) \<or> (dc_list co \<and> dc_version co)
      then bad_usage (discovery_help co) ''Need to specify operations'' else ret co)"
| "discovery_parse ((opt, optarg) # args) co =
     (case opt of
        HOST_OPTIONS \<Rightarrow> bind_cmd (string_arg optarg) (\<lambda>a. discovery_parse args (co\<lparr>dc_base := (dc_base co)\<lparr>ss_ip_port := a\<rparr>\<rparr>))
      | JSON_OPTIONS \<Rightarrow> bind_cmd (set_json_output (dc_base co)) (\<lambda>b. discovery_parse args (co\<lparr>dc_base := b\<rparr>))
      | Short c \<Rightarrow>
          if c = CHR ''h'' then ret (co\<lparr>dc_help := True\<rparr>)
          else if c = CHR ''u'' then discovery_parse args (co\<lparr>dc_base := (dc_base co)\<lparr>ss_use_auth := False\<rparr>\<rparr>)
          else if c = CHR ''l'' then discovery_parse args (co\<lparr>dc_list := True\<rparr>)
          else if c = CHR ''v'' then discovery_parse args (co\<lparr>dc_version := True\<rparr>)
          else bad_usage (discovery_help co) ''Unknown command line options''
      | _ \<Rightarrow> bad_usage (discovery_help co) ''Unknown command line options'')"

definition rule_line :: string where
  "rule_line = replicate 65 CHR ''-'' @ nl"

text \<open>The loop ends silently at the first GPU whose attributes cannot be read; the number printed is the position.\<close>

fun show_devices :: "'w api \<Rightarrow> string \<Rightarrow> bool \<Rightarrow> nat \<Rightarrow> u32 list \<Rightarrow> ('w, bool) cmd" where
  "show_devices api stack json i [] = ret True"
| "show_devices api stack json i (g # gs) =
     bind_cmd (call api (A_device_get_attributes g (Some stack))) (\<lambda>(st, out).
       if st \<noteq> RDC_ST_OK then ret False
       else (case out of
               O_text (Some nm) \<Rightarrow>
                 then_cmd (say (if json
                                then ''{'' @ member ''gpu_index'' (qt (nat_string i)) @ '', '' @ member ''device_name'' (qt nm) @ ''}''
                                       @ (if gs \<noteq> [] then '','' else '''')
                                else nat_string i @ tab @ tab @ nm @ nl))
                   (show_devices api stack json (i + 1) gs)
             | _ \<Rightarrow> undefined_cmd))"

definition show_attributes :: "'w api \<Rightarrow> string \<Rightarrow> discovery_cmd \<Rightarrow> ('w, unit) cmd" where
  "show_attributes api stack co =
     (let json = ss_json (dc_base co) in
      bind_cmd (call api (A_device_get_all True)) (\<lambda>(st, out).
        if st \<noteq> RDC_ST_OK then throw (Rdc_exception st ''Fail to get device information'')
        else bind_cmd (out_ids out) (\<lambda>gpus.
             if gpus = []
             then say (if json then qt ''gpus'' @ '' : [], '' @ qt ''status'' @ '': '' @ qt ''ok'' else ''No GPUs find on the system'' @ nl)
             else then_cmd (say (if json then qt ''gpus'' @ '' : [''
                                 else nat_string (length gpus) @ '' GPUs found.'' @ nl @ rule_line @ ''GPU Index'' @ tab @ '' Device Information'' @ nl))
                    (bind_cmd (show_devices api stack json 0 gpus)
                       (\<lambda>complete. if complete then say (if json then '']'' else rule_line) else ret ())))))"

definition show_version :: "'w api \<Rightarrow> string \<Rightarrow> discovery_cmd \<Rightarrow> ('w, unit) cmd" where
  "show_version api stack co =
     bind_cmd (call api (A_device_get_component_version 0 (Some stack))) (\<lambda>(st, out).
       if st \<noteq> RDC_ST_OK then ret ()
       else bind_cmd (call api (A_mixed_component_version 0 (Some stack))) (\<lambda>(st1, out1).
            if st1 \<noteq> RDC_ST_OK then say (''get rdcd version fail'' @ nl)
            else (case (out, out1) of
                    (O_text (Some smiv), O_text (Some rdcdv)) \<Rightarrow>
                      say (if ss_json (dc_base co)
                           then qt ''version'' @ '' : {'' @ member ''rdcd'' (qt rdcdv) @ '', '' @ member ''amdsmi_lib'' (qt smiv) @ ''}''
                           else ''RDCD : '' @ rdcdv @ ''  |  AMDSMI Library : '' @ smiv @ nl)
                  | _ \<Rightarrow> undefined_cmd)))"

definition discovery_process :: "'w api \<Rightarrow> string \<Rightarrow> discovery_cmd \<Rightarrow> ('w, unit) cmd" where
  "discovery_process api stack co =
     (if dc_help co then discovery_help co
      else if dc_list co then show_attributes api stack co
      else if dc_version co then show_version api stack co else ret ())"

section \<open>\<open>diag\<close>\<close>

record diag_cmd =
  gd_base :: subsystem
  gd_help :: bool
  gd_level :: u32
  gd_group_id :: u32
  gd_group_set :: bool
  gd_config :: string

definition new_diag_cmd :: diag_cmd where
  "new_diag_cmd = \<lparr>gd_base = new_subsystem, gd_help = False, gd_level = 1, gd_group_id = 0, gd_group_set = False, gd_config = ''''\<rparr>"

definition diag_help :: "('w, unit) cmd" where
  "diag_help = show_help ''diag''"

text \<open>With \<^verbatim>\<open>--config-test\<close> and no value the argument is null.\<close>

fun diag_parse :: "cli_args \<Rightarrow> diag_cmd \<Rightarrow> ('w, diag_cmd) cmd" where
  "diag_parse [] co = (if \<not> gd_group_set co then bad_usage diag_help ''Need to specify the GPU group id'' else ret co)"
| "diag_parse ((opt, optarg) # args) co =
     (case opt of
        HOST_OPTIONS \<Rightarrow> bind_cmd (string_arg optarg) (\<lambda>a. diag_parse args (co\<lparr>gd_base := (gd_base co)\<lparr>ss_ip_port := a\<rparr>\<rparr>))
      | Short c \<Rightarrow>
          if c = CHR ''h'' then ret (co\<lparr>gd_help := True\<rparr>)
          else if c = CHR ''u'' then diag_parse args (co\<lparr>gd_base := (gd_base co)\<lparr>ss_use_auth := False\<rparr>\<rparr>)
          else if c = CHR ''c'' then
            bind_cmd (string_arg optarg) (\<lambda>a.
              then_cmd (say (''config_test_ = '' @ a @ nl @ ''config_test_.length = '' @ nat_string (length a) @ nl))
                (diag_parse args (co\<lparr>gd_config := a\<rparr>)))
          else if c = CHR ''g'' then
            bind_cmd (number_arg diag_help ''The group id needs to be a number'' optarg)
              (\<lambda>n. diag_parse args (co\<lparr>gd_group_id := n, gd_group_set := True\<rparr>))
          else if c = CHR ''r'' then
            bind_cmd (number_arg diag_help ''The run level needs to be a number'' optarg)
              (\<lambda>n. diag_parse args (co\<lparr>gd_level := n\<rparr>))
          else bad_usage diag_help ''Unknown command line options''
      | _ \<Rightarrow> bad_usage diag_help ''Unknown command line options'')"

text \<open>The entry of the last test case is not inserted: its key is that of the GPU parameters.\<close>

fun get_test_name :: "rdc_diag_test_cases \<Rightarrow> string" where
  "get_test_name RDC_DIAG_COMPUTE_PROCESS = ''No compute process''"
| "get_test_name RDC_DIAG_COMPUTE_QUEUE = ''Compute Queue ready''"
| "get_test_name RDC_DIAG_SYS_MEM_CHECK = ''System memory check''"
| "get_test_name RDC_DIAG_NODE_TOPOLOGY = ''Node topology check''"
| "get_test_name RDC_DIAG_RVS_TEST = ''Pre-defined config RVS check''"
| "get_test_name RDC_DIAG_GPU_PARAMETERS = ''GPU parameters check''"

definition test_line :: "rdc_diag_test_result \<Rightarrow> string" where
  "test_line t = setw 26 (get_test_name (tr_test_case t) @ '':'') @ rdc_diagnostic_result_string (tr_status t) @ nl"

definition test_details :: "rdc_diag_test_result \<Rightarrow> string" where
  "test_details t =
     (if tr_info t \<noteq> '''' then setw 26 (get_test_name (tr_test_case t) @ '':'') @ tr_info t @ nl else '''')
     @ concat (map (\<lambda>g. if dd_msg (pg_gpu_result g) \<noteq> '''' then '' GPU '' @ u32_string (pg_gpu_index g) @ '' '' @ dd_msg (pg_gpu_result g) @ nl else '''')
         (take (unat (tr_per_gpu_result_count t)) (tr_gpu_results t)))"

definition diag_process :: "'w api \<Rightarrow> rdc_diag_response \<Rightarrow> diag_cmd \<Rightarrow> ('w, unit) cmd" where
  "diag_process api stack co =
     (if gd_help co then diag_help
      else case level_of_code (gd_level co) of
             None \<Rightarrow> undefined_cmd
           | Some level \<Rightarrow>
               bind_cmd (call api (A_diagnostic_run (gd_group_id co) level (Some (gd_config co)) (Some stack))) (\<lambda>(st, out).
                 if st \<noteq> RDC_ST_OK then throw_status st
                 else (case out of
                         O_diag (Some r) \<Rightarrow>
                           let ts = take (unat (rp_results_count r)) (rp_diag_info r) in
                           if length (rp_diag_info r) < unat (rp_results_count r) \<or>
                              (\<exists>t\<in>set ts. length (tr_gpu_results t) < unat (tr_per_gpu_result_count t)) then undefined_cmd
                           else say (concat (map test_line ts) @ '' =============== Diagnostic Details =================='' @ nl
                                     @ concat (map test_details ts))
                       | _ \<Rightarrow> undefined_cmd)))"

end
