(* ===== verification/Rdci_Dmon.thy ===== *)
theory Rdci_Dmon
  imports Rdci_Commands
begin

text \<open>
  The subsystem \<^verbatim>\<open>dmon\<close> of the command line tool, which watches fields and prints their values and the
  events of the GPUs until it is interrupted, and the \<^verbatim>\<open>main\<close> function. Unlike the other subsystems \<^verbatim>\<open>dmon\<close>
  changes its own object while it works and its destructor cleans up, also after an exception: the
  object is part of the state. What happens while it sleeps is a parameter.
\<close>

section \<open>The texts of the fields\<close>

text \<open>Description, label and display flag of \<^verbatim>\<open>rdc_field.data\<close>.\<close>

definition field_texts :: "(u32 \<times> string \<times> string \<times> bool) list" where
  "field_texts =
    [(RDC_FI_INVALID, ''Unknown/Invalid field'', ''INVALID'', False),
     (RDC_FI_GPU_COUNT, ''GPU count in the system'', ''GPU_COUNT'', True),
     (RDC_FI_DEV_NAME, ''Name of the device'', ''DEV_NAME'', True),
     (RDC_FI_OAM_ID, ''OAM ID of the device'', ''OAM_ID'', True),
     (RDC_FI_GPU_CLOCK, ''Current GPU clock frequencies'', ''GPU_CLOCK'', True),
     (RDC_FI_MEM_CLOCK, ''Current Memory clock frequencies'', ''MEM_CLOCK'', True),
     (RDC_FI_MEMORY_TEMP, ''Memory temperature in millidegrees Celsius'', ''MEMORY_TEMP'', True),
     (RDC_FI_GPU_TEMP, ''GPU temperature in millidegrees Celsius'', ''GPU_TEMP'', True),
     (RDC_FI_POWER_USAGE, ''Power usage in microwatts'', ''POWER_USAGE'', True),
     (RDC_FI_PCIE_TX, ''PCIe Tx utilization in bytes/second'', ''PCIE_TX'', True),
     (RDC_FI_PCIE_RX, ''PCIe Rx utilization in bytes/second'', ''PCIE_RX'', True),
     (RDC_FI_PCIE_BANDWIDTH, ''PCIe bandwidth in GB/sec'', ''PCIE_BANDWIDTH'', True),
     (RDC_FI_GPU_UTIL, ''GPU busy percentage'', ''GPU_UTIL'', True),
     (RDC_FI_GPU_MEMORY_USAGE, ''Memory usage of the GPU instance in bytes'', ''GPU_MEMORY_USAGE'', True),
     (RDC_FI_GPU_MEMORY_TOTAL, ''Total memory of the GPU instance'', ''GPU_MEMORY_TOTAL'', True),
     (RDC_FI_GPU_MM_ENC_UTIL, ''Mutilmedia encoder busy percentage'', ''GPU_MM_ENC_UTIL'', True),
     (RDC_FI_GPU_MM_DEC_UTIL, ''Mutilmedia decoder busy percentage'', ''GPU_MM_DEC_UTIL'', True),
     (RDC_FI_GPU_MEMORY_ACTIVITY, ''Memory busy percentage'', ''GPU_MEM_UTIL'', True),
     (RDC_FI_ECC_CORRECT_TOTAL, ''Accumulated Single Error Correction'', ''ECC_CORRECT'', True),
     (RDC_FI_ECC_UNCORRECT_TOTAL, ''Accumulated Double Error Detection'', ''ECC_UNCORRECT'', True),
     (RDC_FI_ECC_SDMA_CE, ''SDMA Correctable Error'', ''ECC_SDMA_CE'', True),
     (RDC_FI_ECC_SDMA_UE, ''SDMA Uncorrectable Error'', ''ECC_SDMA_UE'', True),
     (RDC_FI_ECC_GFX_CE, ''GFX Correctable Error'', ''ECC_GFX_CE'', True),
     (RDC_FI_ECC_GFX_UE, ''GFX Uncorrectable Error'', ''ECC_GFX_UE'', True),
     (RDC_FI_ECC_MMHUB_CE, ''MMHUB Correctable Error'', ''ECC_MMHUB_CE'', True),
     (RDC_FI_ECC_MMHUB_UE, ''MMHUB Uncorrectable Error'', ''ECC_MMHUB_UE'', True),
     (RDC_FI_ECC_ATHUB_CE, ''ATHUB Correctable Error'', ''ECC_ATHUB_CE'', True),
     (RDC_FI_ECC_ATHUB_UE, ''ATHUB Uncorrectable Error'', ''ECC_ATHUB_UE'', True),
     (RDC_FI_ECC_PCIE_BIF_CE, ''PCIE_BIF Correctable Error'', ''ECC_PCIE_BIF_CE'', True),
     (RDC_FI_ECC_PCIE_BIF_UE, ''PCIE_BIF Uncorrectable Error'', ''ECC_PCIE_BIF_UE'', True),
     (RDC_FI_ECC_HDP_CE, ''HDP Correctable Error'', ''ECC_HDP_CE'', True),
     (RDC_FI_ECC_HDP_UE, ''HDP Uncorrectable Error'', ''ECC_HDP_UE'', True),
     (RDC_FI_ECC_XGMI_WAFL_CE, ''XGMI_WAFL Correctable Error'', ''ECC_XGMI_WAFL_CE'', True),
     (RDC_FI_ECC_XGMI_WAFL_UE, ''XGMI_WAFL Uncorrectable Error'', ''ECC_XGMI_WAFL_UE'', True),
     (RDC_FI_ECC_DF_CE, ''DF Correctable Error'', ''ECC_DF_CE'', True),
     (RDC_FI_ECC_DF_UE, ''DF Uncorrectable Error'', ''ECC_DF_UE'', True),
     (RDC_FI_ECC_SMN_CE, ''SMN Correctable Error'', ''ECC_SMN_CE'', True),
     (RDC_FI_ECC_SMN_UE, ''SMN Uncorrectable Error'', ''ECC_SMN_UE'', True),
     (RDC_FI_ECC_SEM_CE, ''SEM Correctable Error'', ''ECC_SEM_CE'', True),
     (RDC_FI_ECC_SEM_UE, ''SEM Uncorrectable Error'', ''ECC_SEM_UE'', True),
     (RDC_FI_ECC_MP0_CE, ''MP0 Correctable Error'', ''ECC_MP0_CE'', True),
     (RDC_FI_ECC_MP0_UE, ''MP0 Uncorrectable Error'', ''ECC_MP0_UE'', True),
     (RDC_FI_ECC_MP1_CE, ''MP1 Correctable Error'', ''ECC_MP1_CE'', True),
     (RDC_FI_ECC_MP1_UE, ''MP1 Uncorrectable Error'', ''ECC_MP1_UE'', True),
     (RDC_FI_ECC_FUSE_CE, ''FUSE Correctable Error'', ''ECC_FUSE_CE'', True),
     (RDC_FI_ECC_FUSE_UE, ''FUSE Uncorrectable Error'', ''ECC_FUSE_UE'', True),
     (RDC_FI_ECC_UMC_CE, ''UMC Correctable Error'', ''ECC_UMC_CE'', True),
     (RDC_FI_ECC_UMC_UE, ''UMC Uncorrectable Error'', ''ECC_UMC_UE'', True),
     (RDC_FI_ECC_MCA_CE, ''MCA Correctable Error'', ''ECC_MCA_CE'', True),
     (RDC_FI_ECC_MCA_UE, ''MCA Uncorrectable Error'', ''ECC_MCA_UE'', True),
     (RDC_FI_ECC_VCN_CE, ''VCN Correctable Error'', ''ECC_VCN_CE'', True),
     (RDC_FI_ECC_VCN_UE, ''VCN Uncorrectable Error'', ''ECC_VCN_UE'', True),
     (RDC_FI_ECC_JPEG_CE, ''JPEG Correctable Error'', ''ECC_JPEG_CE'', True),
     (RDC_FI_ECC_JPEG_UE, ''JPEG Uncorrectable Error'', ''ECC_JPEG_UE'', True),
     (RDC_FI_ECC_IH_CE, ''IH Correctable Error'', ''ECC_IH_CE'', True),
     (RDC_FI_ECC_IH_UE, ''IH Uncorrectable Error'', ''ECC_IH_UE'', True),
     (RDC_FI_ECC_MPIO_CE, ''MPIO Correctable Error'', ''ECC_MPIO_CE'', True),
     (RDC_FI_ECC_MPIO_UE, ''MPIO Uncorrectable Error'', ''ECC_MPIO_UE'', True),
     (RDC_FI_XGMI_0_READ_KB, ''XGMI0 accumulated data read size (KB)'', ''XGMI_0_READ'', True),
     (RDC_FI_XGMI_1_READ_KB, ''XGMI1 accumulated data read size (KB)'', ''XGMI_1_READ'', True),
     (RDC_FI_XGMI_2_READ_KB, ''XGMI2 accumulated data read size (KB)'', ''XGMI_2_READ'', True),
     (RDC_FI_XGMI_3_READ_KB, ''XGMI3 accumulated data read size (KB)'', ''XGMI_3_READ'', True),
     (RDC_FI_XGMI_4_READ_KB, ''XGMI4 accumulated data read size (KB)'', ''XGMI_4_READ'', True),
     (RDC_FI_XGMI_5_READ_KB, ''XGMI5 accumulated data read size (KB)'', ''XGMI_5_READ'', True),
     (RDC_FI_XGMI_6_READ_KB, ''XGMI6 accumulated data read size (KB)'', ''XGMI_6_READ'', True),
     (RDC_FI_XGMI_7_READ_KB, ''XGMI7 accumulated data read size (KB)'', ''XGMI_7_READ'', True),
     (RDC_FI_XGMI_0_WRITE_KB, ''XGMI0 accumulated data write size (KB)'', ''XGMI_0_WRITE'', True),
     (RDC_FI_XGMI_1_WRITE_KB, ''XGMI1 accumulated data write size (KB)'', ''XGMI_1_WRITE'', True),
     (RDC_FI_XGMI_2_WRITE_KB, ''XGMI2 accumulated data write size (KB)'', ''XGMI_2_WRITE'', True),
     (RDC_FI_XGMI_3_WRITE_KB, ''XGMI3 accumulated data write size (KB)'', ''XGMI_3_WRITE'', True),
     (RDC_FI_XGMI_4_WRITE_KB, ''XGMI4 accumulated data write size (KB)'', ''XGMI_4_WRITE'', True),
     (RDC_FI_XGMI_5_WRITE_KB, ''XGMI5 accumulated data write size (KB)'', ''XGMI_5_WRITE'', True),
     (RDC_FI_XGMI_6_WRITE_KB, ''XGMI6 accumulated data write size (KB)'', ''XGMI_6_WRITE'', True),
     (RDC_FI_XGMI_7_WRITE_KB, ''XGMI7 accumulated data write size (KB)'', ''XGMI_7_WRITE'', True),
     (RDC_FI_XGMI_TOTAL_READ_KB, ''XGMI accumlated data read size across all lanes (KB)'', ''XGMI_TOTAL_READ'', True),
     (RDC_FI_XGMI_TOTAL_WRITE_KB, ''XGMI accumlated data write size across all lanes (KB)'', ''XGMI_TOTAL_WRITE'', True),
     (RDC_FI_PROF_OCCUPANCY_PERCENT, ''Percent of GPU occupancy'', ''OCCUPANCY_PERCENT'', False),
     (RDC_FI_PROF_ACTIVE_CYCLES, ''Number of Active Cycles'', ''ACTIVE_CYCLES'', False),
     (RDC_FI_PROF_ACTIVE_WAVES, ''Number of Active Waves'', ''ACTIVE_WAVES'', False),
     (RDC_FI_PROF_ELAPSED_CYCLES, ''Number of Elapsed Cycles over all SMs'', ''ELAPSED_CYCLES'', False),
     (RDC_FI_PROF_TENSOR_ACTIVE_PERCENT, ''Percent of Active Pipe Tensors'', ''TENSOR_PERCENT'', False),
     (RDC_FI_PROF_GPU_UTIL_PERCENT, ''Percent of GPU Utilization'', ''GPU_UTIL_PERCENT'', False),
     (RDC_FI_PROF_EVAL_MEM_R_BW, ''Fetched from video memory kb / ms'', ''MEM_R_BW'', False),
     (RDC_FI_PROF_EVAL_MEM_W_BW, ''Written to video memory kb / ms'', ''MEM_W_BW'', False),
     (RDC_FI_PROF_EVAL_FLOPS_16, ''Number of fp16 OPS / ms'', ''FLOPS_16'', False),
     (RDC_FI_PROF_EVAL_FLOPS_32, ''Number of fp32 OPS / ms'', ''FLOPS_32'', False),
     (RDC_FI_PROF_EVAL_FLOPS_64, ''Number of fp64 OPS / ms'', ''FLOPS_64'', False),
     (RDC_EVNT_XGMI_0_NOP_TX, ''NOPs sent to neighbor 0'', ''XGMI_NOP_0'', False),
     (RDC_EVNT_XGMI_0_REQ_TX, ''Outgoing requests to neighbor 0'', ''XGMI_REQ_0'', False),
     (RDC_EVNT_XGMI_0_RESP_TX, ''Outgoing responses to neighbor 0'', ''XGMI_RES_0'', False),
     (RDC_EVNT_XGMI_0_BEATS_TX, ''Data sent to neighbor 0 (32 byte pkts)'', ''XGMI_BTS_0'', False),
     (RDC_EVNT_XGMI_1_NOP_TX, ''NOPs sent to neighbor 1'', ''XGMI_NOP_1'', False),
     (RDC_EVNT_XGMI_1_REQ_TX, ''Outgoing requests to neighbor 1'', ''XGMI_REQ_1'', False),
     (RDC_EVNT_XGMI_1_RESP_TX, ''Outgoing responses to neighbor 1'', ''XGMI_RES_1'', False),
     (RDC_EVNT_XGMI_1_BEATS_TX, ''Data sent to neighbor 1 (32 byte pkts)'', ''XGMI_BTS_1'', False),
     (RDC_EVNT_XGMI_0_THRPUT, ''Tx throughput to XGMI neighbor 0 in b/s'', ''XGMI_0_T'', True),
     (RDC_EVNT_XGMI_1_THRPUT, ''Tx throughput to XGMI neighbor 1 in b/s'', ''XGMI_1_T'', True),
     (RDC_EVNT_XGMI_2_THRPUT, ''Tx throughput to XGMI neighbor 2 in b/s'', ''XGMI_2_T'', True),
     (RDC_EVNT_XGMI_3_THRPUT, ''Tx throughput to XGMI neighbor 3 in b/s'', ''XGMI_3_T'', True),
     (RDC_EVNT_XGMI_4_THRPUT, ''Tx throughput to XGMI neighbor 4 in b/s'', ''XGMI_4_T'', True),
     (RDC_EVNT_XGMI_5_THRPUT, ''Tx throughput to XGMI neighbor 5 in b/s'', ''XGMI_5_T'', True),
     (RDC_EVNT_NOTIF_VMFAULT, ''VM page fault'', ''VM_PAGE_FAULT'', False),
     (RDC_EVNT_NOTIF_THERMAL_THROTTLE, ''Clk freq decrease due to temp'', ''THERMAL_THROT'', False),
     (RDC_EVNT_NOTIF_PRE_RESET, ''GPU reset is about to occur'', ''GPU_PRE_RESET'', False),
     (RDC_EVNT_NOTIF_POST_RESET, ''GPU reset just occurred'', ''GPU_POST_RESET'', False),
     (RDC_EVNT_NOTIF_RING_HANG, ''GPU ring hang just occured'', ''RING_HANG'', False)]"

definition field_label :: "u32 \<Rightarrow> string option" where
  "field_label f = map_option (fst \<circ> snd) (map_of field_texts f)"

definition is_notif_field :: "u32 \<Rightarrow> bool" where
  "is_notif_field f \<longleftrightarrow> RDC_EVNT_NOTIF_FIRST \<le> f \<and> f \<le> RDC_EVNT_NOTIF_LAST"

section \<open>The object\<close>

datatype dmon_op = DMON_UNKNOWN | DMON_HELP | DMON_LIST_FIELDS | DMON_LIST_ALL_FIELDS | DMON_MONITOR

datatype dmon_option = OPTIONS_UNKNOWN | OPTIONS_COUNT | OPTIONS_DELAY | OPTIONS_FIELD_GROUP_ID | OPTIONS_GROUP_ID

record dmon_cmd =
  dm_base :: subsystem
  dm_op :: dmon_op
  dm_options :: "dmon_option \<rightharpoonup> u32"
  dm_field_ids :: "u32 list"
  dm_gpu_indexes :: "u32 list"
  dm_need_cleanup :: bool
  dm_show_timestamps :: bool

definition new_dmon_cmd :: dmon_cmd where
  "new_dmon_cmd = \<lparr>dm_base = new_subsystem, dm_op = DMON_MONITOR, dm_options = Map.empty, dm_field_ids = [],
     dm_gpu_indexes = [], dm_need_cleanup = False, dm_show_timestamps = False\<rparr>"

text \<open>\<^verbatim>\<open>std::map::insert\<close> keeps an entry that is there.\<close>

definition insert_option :: "dmon_option \<Rightarrow> u32 \<Rightarrow> dmon_cmd \<Rightarrow> dmon_cmd" where
  "insert_option k n co = (if dm_options co k = None then co\<lparr>dm_options := (dm_options co)(k \<mapsto> n)\<rparr> else co)"

abbreviation dmon_help :: "('w, unit) cmd" where
  "dmon_help \<equiv> show_help ''dmon''"

fun gpu_index_args :: "string list \<Rightarrow> u32 list \<Rightarrow> ('w, u32 list) cmd" where
  "gpu_index_args [] acc = ret acc"
| "gpu_index_args (t # ts) acc =
     (if \<not> IsNumber t then throw (Rdc_exception RDC_ST_BAD_PARAMETER (''The GPU index '' @ t @ '' needs to be a number''))
      else bind_cmd (stoi t) (\<lambda>i. gpu_index_args ts (acc @ [i])))"

fun dmon_field_args :: "string list \<Rightarrow> u32 list \<Rightarrow> ('w, u32 list) cmd" where
  "dmon_field_args [] acc = ret acc"
| "dmon_field_args (t # ts) acc = bind_cmd (field_id_arg t) (\<lambda>i. dmon_field_args ts (acc @ [i]))"

text \<open>The checks after the options have been read.\<close>

definition dmon_defaults :: "dmon_cmd \<Rightarrow> dmon_cmd" where
  "dmon_defaults co = insert_option OPTIONS_COUNT (- 1) (insert_option OPTIONS_DELAY 1000 co)"

definition dmon_fields_check :: "string \<Rightarrow> dmon_cmd \<Rightarrow> ('w, dmon_cmd) cmd" where
  "dmon_fields_check fids co =
     (if dm_options co OPTIONS_FIELD_GROUP_ID \<noteq> None then ret co
      else if fids = '''' then bad_usage dmon_help ''Need to specify the fields or field group id''
      else bind_cmd (dmon_field_args (split_string fids CHR '','') (dm_field_ids co)) (\<lambda>l. ret (co\<lparr>dm_field_ids := l\<rparr>)))"

definition dmon_gpus_check :: "string \<Rightarrow> dmon_cmd \<Rightarrow> ('w, dmon_cmd) cmd" where
  "dmon_gpus_check gpus co =
     (if dm_options co OPTIONS_GROUP_ID \<noteq> None then ret co
      else if gpus = '''' then bad_usage dmon_help ''Need to specify the GPUs or group id''
      else bind_cmd (gpu_index_args (split_string gpus CHR '','') (dm_gpu_indexes co)) (\<lambda>l. ret (co\<lparr>dm_gpu_indexes := l\<rparr>)))"

definition dmon_check :: "string \<Rightarrow> string \<Rightarrow> dmon_cmd \<Rightarrow> ('w, dmon_cmd) cmd" where
  "dmon_check fids gpus co =
     (if dm_op co = DMON_LIST_FIELDS \<or> dm_op co = DMON_LIST_ALL_FIELDS then ret co
      else bind_cmd (dmon_fields_check fids co) (\<lambda>co.
           bind_cmd (dmon_gpus_check gpus co) (\<lambda>co.
           if gpus \<noteq> '''' \<and> dm_options co OPTIONS_GROUP_ID \<noteq> None then bad_usage dmon_help ''Use either the group or GPU indexes''
           else if fids \<noteq> '''' \<and> dm_options co OPTIONS_FIELD_GROUP_ID \<noteq> None
           then bad_usage dmon_help ''Use either the field group or field IDs''
           else ret (dmon_defaults co))))"

fun dmon_parse :: "cli_args \<Rightarrow> string \<Rightarrow> string \<Rightarrow> dmon_cmd \<Rightarrow> ('w, dmon_cmd) cmd" where
  "dmon_parse [] fids gpus co = dmon_check fids gpus co"
| "dmon_parse ((opt, optarg) # args) fids gpus co =
     (let number = (\<lambda>k msg. bind_cmd (number_arg dmon_help msg optarg) (\<lambda>n. dmon_parse args fids gpus (insert_option k n co)))
      in case opt of
        HOST_OPTIONS \<Rightarrow> bind_cmd (string_arg optarg) (\<lambda>a. dmon_parse args fids gpus (co\<lparr>dm_base := (dm_base co)\<lparr>ss_ip_port := a\<rparr>\<rparr>))
      | LIST_ALL_FIELDS_OPT \<Rightarrow> dmon_parse args fids gpus (co\<lparr>dm_op := DMON_LIST_ALL_FIELDS\<rparr>)
      | Short c \<Rightarrow>
          if c = CHR ''h'' then ret (co\<lparr>dm_op := DMON_HELP\<rparr>)
          else if c = CHR ''u'' then dmon_parse args fids gpus (co\<lparr>dm_base := (dm_base co)\<lparr>ss_use_auth := False\<rparr>\<rparr>)
          else if c = CHR ''t'' then dmon_parse args fids gpus (co\<lparr>dm_show_timestamps := True\<rparr>)
          else if c = CHR ''l'' then dmon_parse args fids gpus (co\<lparr>dm_op := DMON_LIST_FIELDS\<rparr>)
          else if c = CHR ''f'' then number OPTIONS_FIELD_GROUP_ID ''The field group id needs to be a number''
          else if c = CHR ''e'' then bind_cmd (string_arg optarg) (\<lambda>a. dmon_parse args a gpus co)
          else if c = CHR ''i'' then bind_cmd (string_arg optarg) (\<lambda>a. dmon_parse args fids a co)
          else if c = CHR ''g'' then number OPTIONS_GROUP_ID ''The group id needs to be a number''
          else if c = CHR ''c'' then number OPTIONS_COUNT ''The count needs to be a number''
          else if c = CHR ''d'' then number OPTIONS_DELAY ''The delay needs to be a number''
          else bad_usage dmon_help ''Unknown command line options''
      | _ \<Rightarrow> bad_usage dmon_help ''Unknown command line options'')"

section \<open>Acting on the object\<close>

type_synonym ('w, 'a) dmon = "('w \<times> dmon_cmd, 'a) cmd"

definition on_session :: "'w api \<Rightarrow> ('w \<times> dmon_cmd) api" where
  "on_session api c wd = map_option (\<lambda>(st, out, w). (st, out, (w, snd wd))) (api c (fst wd))"

definition the_object :: "('w, dmon_cmd) dmon" where
  "the_object s = ret (snd (cl_world s)) s"

definition change_object :: "(dmon_cmd \<Rightarrow> dmon_cmd) \<Rightarrow> ('w, unit) dmon" where
  "change_object f s = Some (Inr (), s\<lparr>cl_world := (fst (cl_world s), f (snd (cl_world s)))\<rparr>)"

text \<open>\<^verbatim>\<open>options_[k]\<close> inserts 0 when the key is missing.\<close>

definition option_at :: "dmon_option \<Rightarrow> ('w, u32) dmon" where
  "option_at k =
     then_cmd (change_object (insert_option k 0)) (bind_cmd the_object (\<lambda>co. ret (the (dm_options co k))))"

section \<open>Temporary groups\<close>

text \<open>A call whose failure is an exception, and one whose status nobody looks at.\<close>

definition checked_call :: "'w api \<Rightarrow> api_call \<Rightarrow> string \<Rightarrow> ('w, api_out) cmd" where
  "checked_call api c msg = bind_cmd (call api c) (\<lambda>(st, out). if st \<noteq> RDC_ST_OK then throw (Rdc_exception st msg) else ret out)"

definition ignored_call :: "'w api \<Rightarrow> api_call \<Rightarrow> ('w, unit) cmd" where
  "ignored_call api c = bind_cmd (call api c) (\<lambda>_. ret ())"

definition create_temp_group :: "'w api \<Rightarrow> ('w, unit) dmon" where
  "create_temp_group api =
     bind_cmd the_object (\<lambda>co.
       if dm_gpu_indexes co = [] then ret ()
       else bind_cmd (checked_call (on_session api) (A_group_gpu_create RDC_GROUP_EMPTY (Some ''rdci-dmon-group'') True)
                        ''Fail to create the dmon group'') (\<lambda>out.
            bind_cmd (out_id out) (\<lambda>gid.
            then_cmd (change_object (\<lambda>co. co\<lparr>dm_need_cleanup := True\<rparr>))
           (then_cmd (for_each (dm_gpu_indexes co) (\<lambda>g.
              bind_cmd (checked_call (on_session api) (A_group_gpu_add gid g) (''Fail to add '' @ u32_string g @ '' to the dmon group.'')) (\<lambda>_. ret ())))
            (change_object (insert_option OPTIONS_GROUP_ID gid))))))"

text \<open>The identifiers are copied to an array of 128 elements.\<close>

definition create_temp_field_group :: "'w api \<Rightarrow> ('w, unit) dmon" where
  "create_temp_field_group api =
     bind_cmd the_object (\<lambda>co.
       if dm_field_ids co = [] then ret ()
       else if RDC_MAX_FIELD_IDS_PER_FIELD_GROUP < length (dm_field_ids co) then undefined_cmd
       else bind_cmd (checked_call (on_session api) (A_group_field_create (Some (dm_field_ids co)) (Some ''rdci-dmon-field-group'') True)
                        ''Fail to create the dmon field group.'') (\<lambda>out.
            bind_cmd (out_id out) (\<lambda>gid.
            change_object (\<lambda>co. insert_option OPTIONS_FIELD_GROUP_ID gid (co\<lparr>dm_need_cleanup := True\<rparr>)))))"

definition show_field_usage :: "dmon_cmd \<Rightarrow> ('w, unit) cmd" where
  "show_field_usage co =
     say (''Supported fields Ids:'' @ nl
       @ concat (map (\<lambda>((i, name), (_, description, label, display)).
           if display \<or> dm_op co = DMON_LIST_ALL_FIELDS then u32_string i @ '' '' @ name @ '' : '' @ description @ ''.'' @ nl else '''')
           (zip field_id_to_descript field_texts))
       @ nl @ ''* Note: The field ID number associated with a field ID can change'' @ nl
       @ ''  from release to release. Field name strings should be used in scripts.'' @ nl)"

definition separate_notf_events :: "rdc_field_group_info \<Rightarrow> u32 list \<times> u32 list" where
  "separate_notf_events fi = (filter is_notif_field (field_ids fi), filter (\<lambda>f. \<not> is_notif_field f) (field_ids fi))"

section \<open>Events\<close>

text \<open>
  The locals of \<^verbatim>\<open>collect_new_notifs\<close>, the cursors and the queue. The loop over the
  events of a field may not end: then there is no result.
\<close>

record notif_state =
  ns_next :: u64
  ns_value :: rdc_field_value
  ns_ts :: "u64 list"
  ns_pq :: "(u32 \<times> rdc_field_value) list"

definition since_out :: "api_out \<Rightarrow> notif_state \<Rightarrow> notif_state" where
  "since_out out ns = (case out of O_since (Some n) (Some v) \<Rightarrow> ns\<lparr>ns_next := n, ns_value := v\<rparr> | _ \<Rightarrow> ns)"

text \<open>What a successful read does to the cursor of the field and to the queue.\<close>

definition take_notif :: "bool \<Rightarrow> u32 \<Rightarrow> nat \<Rightarrow> notif_state \<Rightarrow> notif_state" where
  "take_notif has_pq g i ns =
     ns\<lparr>ns_ts := (ns_ts ns)[i := ns_next ns], ns_pq := ns_pq ns @ (if has_pq then [(g, ns_value ns)] else [])\<rparr>"

partial_function (option) drain_notifs ::
    "'w api \<Rightarrow> bool \<Rightarrow> u32 \<Rightarrow> u32 \<Rightarrow> nat \<Rightarrow> notif_state \<Rightarrow> 'w cli \<Rightarrow> ((cli_exc + notif_state) \<times> 'w cli) option" where
  "drain_notifs api has_pq g f i ns s =
     (case call api (A_field_get_value_since g f (ns_ts ns ! i) (Some (ns_next ns)) (Some (ns_value ns))) s of
        None \<Rightarrow> None
      | Some (Inl x, s') \<Rightarrow> Some (Inl x, s')
      | Some (Inr (st, out), s') \<Rightarrow>
          if st = RDC_ST_NOT_FOUND then Some (Inr (since_out out ns), s')
          else if st = RDC_ST_OK then drain_notifs api has_pq g f i (take_notif has_pq g i (since_out out ns)) s'
          else Some (Inl (Rdc_exception st ''rdc_field_get_value_since() failed''), s'))"

fun fold_cmd :: "('x \<Rightarrow> 's \<Rightarrow> ('w, 's) cmd) \<Rightarrow> 'x list \<Rightarrow> 's \<Rightarrow> ('w, 's) cmd" where
  "fold_cmd body [] a = ret a"
| "fold_cmd body (x # xs) a = bind_cmd (body x a) (fold_cmd body xs)"

definition collect_new_notifs ::
    "'w api \<Rightarrow> bool \<Rightarrow> u32 list \<Rightarrow> u32 list \<Rightarrow> notif_state \<Rightarrow> ('w, notif_state) cmd" where
  "collect_new_notifs api has_pq gpus notif_fields =
     fold_cmd (\<lambda>g. fold_cmd (\<lambda>(i, f). drain_notifs api has_pq g f i) (enumerate 0 notif_fields)) gpus"

text \<open>
  The priority queue hands out the events by time. The order of events with the same time stamp is
  left open by the queue; here it is the order of arrival.
\<close>

definition at_label :: "u32 \<Rightarrow> ('w, string) cmd" where
  "at_label f = (case field_label f of Some l \<Rightarrow> ret l | None \<Rightarrow> throw Other_exception)"

text \<open>The time is divided by 1000 before the conversion.\<close>

definition ts_string :: "stream_format \<Rightarrow> u64 \<Rightarrow> string" where
  "ts_string fm ts = sf_localtime fm (word_of_int (sgn (sint ts) * (\<bar>sint ts\<bar> div 1000)))"

definition print_notif :: "stream_format \<Rightarrow> bool \<Rightarrow> u32 \<times> rdc_field_value \<Rightarrow> ('w, unit) cmd" where
  "print_notif fm ts = (\<lambda>(g, v).
     then_cmd (say (u32_string g @ tab @ (if ts then setw 25 (ts_string fm (fv_ts v)) else '''')))
       (bind_cmd (at_label (fv_field_id v)) (\<lambda>l.
        say (''   **Event: '' @ l @ tab @ qt (c_str (fv_value v)) @ nl))))"

definition print_and_clr_notif_pq :: "stream_format \<Rightarrow> bool \<Rightarrow> (u32 \<times> rdc_field_value) list \<Rightarrow> ('w, unit) cmd" where
  "print_and_clr_notif_pq fm ts pq = for_each (sort_key (fv_ts \<circ> snd) pq) (print_notif fm ts)"

section \<open>The monitor\<close>

text \<open>
  The environment: the rendering of the stream library, what the world does during \<^verbatim>\<open>usleep\<close>,
  whether \<^verbatim>\<open>SIGINT\<close> has arrived, and the contents of the uninitialised locals.
\<close>

record 'w dmon_env =
  de_format :: stream_format
  de_usleep :: "u32 \<Rightarrow> 'w \<Rightarrow> 'w"
  de_terminating :: "'w \<Rightarrow> bool"
  de_next :: u64
  de_value :: rdc_field_value

definition dmon_clean_up :: "'w api \<Rightarrow> ('w, unit) dmon" where
  "dmon_clean_up api =
     bind_cmd the_object (\<lambda>co.
       if \<not> dm_need_cleanup co then ret ()
       else then_cmd
              (case (dm_options co OPTIONS_GROUP_ID, dm_options co OPTIONS_FIELD_GROUP_ID) of
                 (Some g, Some fg) \<Rightarrow> ignored_call (on_session api) (A_field_unwatch g fg)
               | _ \<Rightarrow> ret ())
              (then_cmd
                 (case dm_options co OPTIONS_GROUP_ID of
                    Some g \<Rightarrow> if dm_gpu_indexes co = [] then ret () else ignored_call (on_session api) (A_group_gpu_destroy g)
                  | None \<Rightarrow> ret ())
                 (then_cmd
                    (case dm_options co OPTIONS_FIELD_GROUP_ID of
                       Some fg \<Rightarrow> if dm_field_ids co = [] then ret () else ignored_call (on_session api) (A_group_field_destroy fg)
                     | None \<Rightarrow> ret ())
                    (change_object (\<lambda>co. co\<lparr>dm_need_cleanup := False\<rparr>)))))"

definition value_text :: "stream_format \<Rightarrow> rdc_field_value \<Rightarrow> string" where
  "value_text fm v =
     (if fv_type v = INTEGER then i64_string (l_int (fv_value v))
      else if fv_type v = DOUBLE then sf_fixed_bits fm 3 (l_int (fv_value v))
      else c_str (fv_value v))"

text \<open>The values of one GPU; the result says whether the signal has been seen.\<close>

fun print_values :: "'w dmon_env \<Rightarrow> 'w api \<Rightarrow> bool \<Rightarrow> u32 \<Rightarrow> bool \<Rightarrow> u32 list \<Rightarrow> ('w, bool) dmon" where
  "print_values e api ts g first [] = ret False"
| "print_values e api ts g first (f # fs) =
     bind_cmd (call (on_session api) (A_field_get_latest_value g f (Some (de_value e)))) (\<lambda>(st, out).
       bind_cmd (if st \<noteq> RDC_ST_OK then say (setw 20 ''N/A'')
                 else (case out of
                         O_value (Some v) \<Rightarrow>
                           say ((if ts \<and> first then setw 25 (ts_string (de_format e) (fv_ts v)) @ ''  '' else '''')
                                @ setw 20 (value_text (de_format e) v))
                       | _ \<Rightarrow> undefined_cmd)) (\<lambda>_.
       \<lambda>s. if de_terminating e (fst (cl_world s)) then ret True s else print_values e api ts g False fs s))"

fun print_gpus :: "'w dmon_env \<Rightarrow> 'w api \<Rightarrow> bool \<Rightarrow> u32 list \<Rightarrow> u32 list \<Rightarrow> ('w, bool) dmon" where
  "print_gpus e api ts reg_fields [] = ret False"
| "print_gpus e api ts reg_fields (g # gs) =
     then_cmd (say (u32_string g @ tab))
       (bind_cmd (print_values e api ts g True reg_fields) (\<lambda>stop.
          if stop then ret True
          else then_cmd (if reg_fields \<noteq> [] then say nl else ret ()) (print_gpus e api ts reg_fields gs)))"

definition sleep_cmd :: "'w dmon_env \<Rightarrow> u32 \<Rightarrow> ('w, unit) dmon" where
  "sleep_cmd e usec s = Some (Inr (), s\<lparr>cl_world := (de_usleep e usec (fst (cl_world s)), snd (cl_world s))\<rparr>)"

definition fresh_notifs :: "'w dmon_env \<Rightarrow> u64 list \<Rightarrow> notif_state" where
  "fresh_notifs e ts = \<lparr>ns_next = de_next e, ns_value = de_value e, ns_ts = ts, ns_pq = []\<rparr>"

text \<open>The rounds that are left, from round \<open>i\<close> on; the signal ends them.\<close>

fun monitor ::
    "'w dmon_env \<Rightarrow> 'w api \<Rightarrow> string \<Rightarrow> u32 list \<Rightarrow> u32 list \<Rightarrow> u32 list \<Rightarrow> nat \<Rightarrow> nat \<Rightarrow> u64 list \<Rightarrow> ('w, unit) dmon" where
  "monitor e api header gpus notif_fields reg_fields i 0 notif_ts = ret ()"
| "monitor e api header gpus notif_fields reg_fields i (Suc n) notif_ts =
     then_cmd (if i mod 50 = 0 then say header else ret ())
     (bind_cmd (option_at OPTIONS_DELAY) (\<lambda>delay.
      then_cmd (sleep_cmd e (delay * 1000))
     (bind_cmd (collect_new_notifs (on_session api) True gpus notif_fields (fresh_notifs e notif_ts)) (\<lambda>ns.
      bind_cmd the_object (\<lambda>co.
      then_cmd (print_and_clr_notif_pq (de_format e) (dm_show_timestamps co) (ns_pq ns))
     (bind_cmd (print_gpus e api (dm_show_timestamps co) reg_fields gpus) (\<lambda>stop.
      if stop then ret () else monitor e api header gpus notif_fields reg_fields (Suc i) n (ns_ts ns))))))))"

definition labels_cmd :: "u32 list \<Rightarrow> ('w, string list) cmd" where
  "labels_cmd fs = fold_cmd (\<lambda>f ls. bind_cmd (at_label f) (\<lambda>l. ret (ls @ [l]))) fs []"

text \<open>\<^verbatim>\<open>field_id_string\<close> dereferences the end of the table for an unknown field.\<close>

definition field_id_string :: "u32 \<Rightarrow> ('w, string) cmd" where
  "field_id_string f = (case field_label f of Some l \<Rightarrow> ret l | None \<Rightarrow> undefined_cmd)"

definition columns_cmd :: "u32 list \<Rightarrow> ('w, string list) cmd" where
  "columns_cmd fs = fold_cmd (\<lambda>f ls. bind_cmd (field_id_string f) (\<lambda>l. ret (ls @ [l]))) fs []"

definition header_line :: "bool \<Rightarrow> string list \<Rightarrow> string list \<Rightarrow> string" where
  "header_line ts events columns =
     (if events = [] then ''''
      else ''Listening for events: '' @ concat (map (\<lambda>l. l @ '', '') (butlast events)) @ last events @ nl)
     @ ''GPU'' @ tab @ (if ts then setw 25 ''TIMESTAMP'' @ ''  '' else '''') @ concat (map (setw 20) columns) @ nl"

text \<open>The groups a monitor looks at, with the errors of the queries.\<close>

definition group_of :: "'w api \<Rightarrow> u32 \<Rightarrow> ('w, u32 list) dmon" where
  "group_of api gid =
     bind_cmd (call (on_session api) (A_group_gpu_get_info gid True)) (\<lambda>(st, out).
       if st \<noteq> RDC_ST_OK
       then throw (Rdc_exception st (if st = RDC_ST_NOT_FOUND then ''Cannot find the group '' @ u32_string gid else rdc_status_string st))
       else bind_cmd (out_group out) (\<lambda>gi.
            if entity_ids gi = []
            then throw (Rdc_exception RDC_ST_NOT_FOUND (''The gpu group '' @ u32_string gid @ '' must contain at least 1 GPU.''))
            else ret (entity_ids gi)))"

definition field_group_of :: "'w api \<Rightarrow> u32 \<Rightarrow> ('w, rdc_field_group_info) dmon" where
  "field_group_of api fgid =
     bind_cmd (call (on_session api) (A_group_field_get_info fgid True)) (\<lambda>(st, out).
       if st \<noteq> RDC_ST_OK
       then throw (Rdc_exception st (if st = RDC_ST_NOT_FOUND then ''Cannot find the field group '' @ u32_string fgid else rdc_status_string st))
       else bind_cmd (out_field_group out) (\<lambda>fi.
            if field_ids fi = []
            then throw (Rdc_exception RDC_ST_NOT_FOUND (''The field group '' @ u32_string fgid @ '' must contain at least 1 field.''))
            else ret fi))"

text \<open>
  The monitoring operation: the status of \<^verbatim>\<open>rdc_field_watch\<close> is not looked at. After it, the first
  look at the events only sets the cursors.
\<close>

definition dmon_watch :: "'w dmon_env \<Rightarrow> 'w api \<Rightarrow> u32 \<Rightarrow> u32 \<Rightarrow> u32 list \<Rightarrow> rdc_field_group_info \<Rightarrow> ('w, unit) dmon" where
  "dmon_watch e api gid fgid gpus fi =
     (let (notif_fields, reg_fields) = separate_notf_events fi in
      bind_cmd (option_at OPTIONS_DELAY) (\<lambda>delay.
      then_cmd (ignored_call (on_session api) (A_field_watch gid fgid (ucast (delay * 1000)) (real (unat delay) / 1000 + 60) 10))
     (then_cmd (change_object (\<lambda>co. co\<lparr>dm_need_cleanup := True\<rparr>))
     (bind_cmd (labels_cmd notif_fields) (\<lambda>events.
      bind_cmd (columns_cmd reg_fields) (\<lambda>columns.
      bind_cmd the_object (\<lambda>co.
      bind_cmd (collect_new_notifs (on_session api) False gpus notif_fields (fresh_notifs e (replicate (length notif_fields) 0))) (\<lambda>ns.
      bind_cmd (option_at OPTIONS_COUNT) (\<lambda>count.
      monitor e api (header_line (dm_show_timestamps co) events columns) gpus notif_fields reg_fields 0 (unat count) (ns_ts ns)))))))))) "

definition dmon_monitor :: "'w dmon_env \<Rightarrow> 'w api \<Rightarrow> ('w, unit) dmon" where
  "dmon_monitor e api =
     then_cmd (create_temp_group api) (then_cmd (create_temp_field_group api)
    (bind_cmd (option_at OPTIONS_GROUP_ID) (\<lambda>gid.
     bind_cmd (group_of api gid) (\<lambda>gpus.
     bind_cmd (option_at OPTIONS_FIELD_GROUP_ID) (\<lambda>fgid.
     bind_cmd (field_group_of api fgid) (\<lambda>fi.
     then_cmd (dmon_watch e api gid fgid gpus fi) (dmon_clean_up api)))))))"

definition dmon_process :: "'w dmon_env \<Rightarrow> 'w api \<Rightarrow> ('w, unit) dmon" where
  "dmon_process e api =
     bind_cmd the_object (\<lambda>co.
       case dm_op co of
         DMON_HELP \<Rightarrow> dmon_help
       | DMON_UNKNOWN \<Rightarrow> dmon_help
       | DMON_LIST_FIELDS \<Rightarrow> show_field_usage co
       | DMON_LIST_ALL_FIELDS \<Rightarrow> show_field_usage co
       | DMON_MONITOR \<Rightarrow> dmon_monitor e api)"

section \<open>\<open>main\<close>\<close>

text \<open>
  \<open>after_parse\<close> is the part of \<^verbatim>\<open>main\<close> between the construction of a subsystem and the catch clauses.
  The exceptions are caught there and the destructors run at the end, when the message is out.
\<close>

definition try_cmd :: "('w, unit) cmd \<Rightarrow> ('w, cli_exc option) cmd" where
  "try_cmd m s = (case m s of None \<Rightarrow> None | Some (Inl x, s') \<Rightarrow> Some (Inr (Some x), s') | Some (Inr _, s') \<Rightarrow> Some (Inr None, s'))"

definition report_exception :: "cli_exc option \<Rightarrow> ('w, u32) cmd" where
  "report_exception r s =
     (case r of
        None \<Rightarrow> ret 0 s
      | Some (Rdc_exception st msg) \<Rightarrow>
          then_cmd (say (if cl_json s then qt ''status'' @ '': '' @ qt ''error'' @ '', '' @ qt ''description'' @ '': '' @ qt msg
                         else ''rdci Error: '' @ msg @ nl)) (ret (status_code st)) s
      | Some Other_exception \<Rightarrow>
          then_cmd (say (if cl_json s then qt ''status'' @ '': '' @ qt ''error'' @ '', '' @ qt ''description'' @ '': '' @ qt ''Unhandled exception.''
                         else ''Unhandled exception.'' @ nl)) (ret 1) s)"

text \<open>\<^verbatim>\<open>~RdciSubSystem\<close>.\<close>

definition close_subsystem :: "('w, unit) cmd" where
  "close_subsystem s = (if cl_json s then say (''}'' @ nl) s else ret () s)"

definition run_subsystem :: "('w, 'c) cmd \<Rightarrow> ('c \<Rightarrow> ('w, unit) cmd) \<Rightarrow> ('c \<Rightarrow> ('w, unit) cmd) \<Rightarrow> ('w, u32) cmd" where
  "run_subsystem parse connect_to process =
     bind_cmd (try_cmd (bind_cmd parse (\<lambda>co. then_cmd (connect_to co) (process co)))) (\<lambda>r.
     bind_cmd (report_exception r) (\<lambda>code.
     then_cmd close_subsystem (ret code)))"

text \<open>
  The \<^verbatim>\<open>dmon\<close> object outlives the exception: its destructor is what cleans up. \<open>with_object\<close> runs a
  command that knows the session only.
\<close>

definition with_object :: "('w, 'a) cmd \<Rightarrow> ('w, 'a) dmon" where
  "with_object m s =
     (case m \<lparr>cl_world = fst (cl_world s), cl_out = cl_out s, cl_json = cl_json s\<rparr> of
        None \<Rightarrow> None
      | Some (r, t) \<Rightarrow> Some (r, \<lparr>cl_world = (cl_world t, snd (cl_world s)), cl_out = cl_out t, cl_json = cl_json t\<rparr>))"

definition run_dmon :: "('w, dmon_cmd) cmd \<Rightarrow> (dmon_cmd \<Rightarrow> ('w, unit) cmd) \<Rightarrow> 'w dmon_env \<Rightarrow> 'w api \<Rightarrow> ('w, u32) dmon" where
  "run_dmon parse connect_to e api =
     bind_cmd (try_cmd (bind_cmd (with_object parse) (\<lambda>co.
                then_cmd (change_object (\<lambda>_. co)) (then_cmd (with_object (connect_to co)) (dmon_process e api))))) (\<lambda>r.
     bind_cmd (report_exception r) (\<lambda>code.
     then_cmd (dmon_clean_up api) (then_cmd close_subsystem (ret code))))"

definition without_object :: "('w, 'a) dmon \<Rightarrow> ('w, 'a) cmd" where
  "without_object m s =
     (case m \<lparr>cl_world = (cl_world s, new_dmon_cmd), cl_out = cl_out s, cl_json = cl_json s\<rparr> of
        None \<Rightarrow> None
      | Some (r, t) \<Rightarrow> Some (r, \<lparr>cl_world = fst (cl_world t), cl_out = cl_out t, cl_json = cl_json t\<rparr>))"

record rdci_env =
  re_files :: file_system
  re_connect :: "string \<Rightarrow> (string \<times> string \<times> string) option \<Rightarrow> rdc_status"
  re_getopt :: "string list \<Rightarrow> cli_args"
  re_job :: rdc_job_info
  re_text :: string
  re_diag :: rdc_diag_response
  re_stats_op :: stats_op
  re_git_hash :: string

definition usage_help :: string where
  "usage_help = ''Usage:'' @ tab @ ''rdci <subsystem>|<options>'' @ nl @ ''subsystem: '' @ nl
     @ ''          discovery, dmon, group, fieldgroup, stats, diag'' @ nl @ ''options: '' @ nl
     @ ''        -v(--version) : Print client version information only'' @ nl"

definition rdci_main :: "rdci_env \<Rightarrow> 'w dmon_env \<Rightarrow> 'w api \<Rightarrow> string list \<Rightarrow> ('w, u32) cmd" where
  "rdci_main r e api argv =
     (case argv of
        [] \<Rightarrow> then_cmd (say usage_help) (ret 0)
      | [_] \<Rightarrow> then_cmd (say usage_help) (ret 0)
      | _ # name # _ \<Rightarrow>
          let args = re_getopt r argv; open_to = connect (re_files r) (re_connect r); fm = de_format e in
          if name = ''-v'' \<or> name = ''--version'' then then_cmd (say (''RDCI : 1.0.0+'' @ re_git_hash r @ nl)) (ret 0)
          else if name = ''discovery'' then
            run_subsystem (discovery_parse args new_discovery_cmd) (open_to \<circ> dc_base) (discovery_process api (re_text r))
          else if name = ''dmon'' then
            without_object (run_dmon (dmon_parse args '''' '''' new_dmon_cmd) (open_to \<circ> dm_base) e api)
          else if name = ''diag'' then run_subsystem (diag_parse args new_diag_cmd) (open_to \<circ> gd_base) (diag_process api (re_diag r))
          else if name = ''group'' then run_subsystem (group_parse args new_group_cmd) (open_to \<circ> gc_base) (group_process api)
          else if name = ''fieldgroup'' then
            run_subsystem (field_group_parse args new_field_group_cmd) (open_to \<circ> fc_base) (field_group_process api)
          else if name = ''stats'' then
            run_subsystem (stats_parse args (new_stats_cmd (re_stats_op r))) (open_to \<circ> sc_base) (stats_process fm api (re_job r))
          else then_cmd (say usage_help) (ret 0))"

end
