(* ===== verification/Rdc_Remote.thy ===== *)
theory Rdc_Remote
  imports Rdc_Client Rdc_Handler_Properties
begin

text \<open>
  A remote session: the client handler connected to the service. A call that is delivered does what a
  local call does; a call whose request or reply is lost is a client error, and has been executed at most
  once.
\<close>

section \<open>The connection\<close>

datatype delivery = Delivered | Request_lost | Reply_lost

definition transport :: "delivery \<Rightarrow> 'r server_env \<Rightarrow> ('r handler option) channel" where
  "transport d e rq hh =
     (case d of
        Delivered \<Rightarrow> serve_request e rq hh
      | Request_lost \<Rightarrow> Some (Inl (), hh)
      | Reply_lost \<Rightarrow> map_option (\<lambda>(_, hh'). (Inl (), hh')) (serve_request e rq hh))"

definition remote_exec :: "delivery \<Rightarrow> 'r server_env \<Rightarrow> api_call \<Rightarrow> 'r handler option \<Rightarrow> (rdc_status \<times> api_out \<times> 'r handler option) option" where
  "remote_exec d e = sta_exec (transport d e)"

section \<open>Packing and unpacking\<close>

lemma status_roundtrip [simp]: "status_of_code (status_code st) = Some st"
  by (cases st) (simp_all add: status_of_code_def decode_enum_def all_statuses_def)

declare status_code.simps [simp del]

lemma enum_roundtrips [simp]:
  shows "type_of_code (type_code t) = Some t" and "group_type_of_code (group_type_code gt) = Some gt"
    and "level_of_code (level_code l) = Some l" and "test_of_code (test_code tc) = Some tc"
    and "result_of_code (result_code r) = Some r"
proof -
  show "type_of_code (type_code t) = Some t" by (cases t) (simp_all add: type_of_code_def decode_enum_def)
  show "group_type_of_code (group_type_code gt) = Some gt" by (cases gt) (simp_all add: group_type_of_code_def decode_enum_def)
  show "level_of_code (level_code l) = Some l" by (cases l) (simp_all add: level_of_code_def decode_enum_def level_code_def)
  show "test_of_code (test_code tc) = Some tc" by (cases tc) (simp_all add: test_of_code_def decode_enum_def test_code_def)
  show "result_of_code (result_code r) = Some r" by (cases r) (simp_all add: result_of_code_def decode_enum_def result_code_def)
qed

lemma unpack_pack_stats [simp]: "unpack_stats (pack_stats s) t = s"
  by (cases s; cases t) (simp add: unpack_stats_def pack_stats_def)

lemma unpack_pack_usage: "unpack_usage (pack_usage u) t = u"
  by (cases u; cases t) (simp add: unpack_usage_def pack_usage_def)

lemma unpack_gpus_pack:
  "i + length us \<le> length gs \<Longrightarrow>
   unpack_gpus (map pack_usage us) i gs = Some (take i gs @ us @ drop (i + length us) gs)"
proof (induction us arbitrary: i gs)
  case (Cons u us)
  then have "unpack_gpus (map pack_usage (u # us)) i gs = unpack_gpus (map pack_usage us) (Suc i) (gs[i := u])"
    by (simp add: unpack_pack_usage)
  also have "\<dots> = Some (take (Suc i) (gs[i := u]) @ us @ drop (Suc i + length us) (gs[i := u]))"
    using Cons.prems by (intro Cons.IH) simp
  finally show ?case using Cons.prems by (simp add: take_Suc_conv_app_nth)
qed simp

text \<open>What a text, a name, a value and a test result look like at the other end.\<close>

definition seen_value :: "(string \<Rightarrow> string) \<Rightarrow> rdc_field_value \<Rightarrow> rdc_field_value" where
  "seen_value f v = v\<lparr>fv_value := (case fv_type v of INTEGER \<Rightarrow> L_int (l_int (fv_value v)) | DOUBLE \<Rightarrow> Dbl (l_int (fv_value v))
     | _ \<Rightarrow> Str (take 255 (c_string (f (c_str (fv_value v))))))\<rparr>"

lemma unpack_pack_value: "unpack_value (Some (pack_value f v)) old = Some (seen_value f v)"
  by (cases v; cases old)
    (simp add: unpack_value_def pack_value_def seen_value_def Let_def strncpy_with_null_def RDC_MAX_STR_LENGTH_def split: rdc_field_type.split)

definition seen_detail :: "rdc_diag_detail \<Rightarrow> rdc_diag_detail" where
  "seen_detail d = d\<lparr>dd_msg := take 4095 (c_string (dd_msg d))\<rparr>"

definition seen_gpu_result :: "rdc_diag_per_gpu_result \<Rightarrow> rdc_diag_per_gpu_result" where
  "seen_gpu_result g = g\<lparr>pg_gpu_result := seen_detail (pg_gpu_result g)\<rparr>"

text \<open>A test result \<open>r\<close> copied over \<open>t\<close>: entries beyond the number of GPUs stay as they were.\<close>

definition seen_test :: "rdc_diag_test_result \<Rightarrow> rdc_diag_test_result \<Rightarrow> rdc_diag_test_result" where
  "seen_test r t =
     r\<lparr>tr_details := seen_detail (tr_details r), tr_info := take 4095 (c_string (tr_info r)),
       tr_gpu_results := (let n = unat (tr_per_gpu_result_count r)
         in map seen_gpu_result (take n (tr_gpu_results r)) @ drop n (tr_gpu_results t))\<rparr>"

lemma copy_detail_seen: "copy_detail m t = seen_detail m"
  by (cases m; cases t) (simp add: copy_detail_def seen_detail_def strncpy_with_null_def MAX_DIAG_MSG_LENGTH_def)

lemma copy_gpu_results_seen:
  "j + length ms \<le> length gs \<Longrightarrow>
   copy_gpu_results ms j gs = take j gs @ map seen_gpu_result ms @ drop (j + length ms) gs"
proof (induction ms arbitrary: j gs)
  case (Cons m ms)
  have "(gs ! j)\<lparr>pg_gpu_index := pg_gpu_index m, pg_gpu_result := copy_detail (pg_gpu_result m) (pg_gpu_result (gs ! j))\<rparr> = seen_gpu_result m"
    by (cases m; cases "gs ! j") (simp add: copy_detail_seen seen_gpu_result_def)
  then have "copy_gpu_results (m # ms) j gs = copy_gpu_results ms (Suc j) (gs[j := seen_gpu_result m])" by simp
  also have "\<dots> = take (Suc j) (gs[j := seen_gpu_result m]) @ map seen_gpu_result ms @ drop (Suc j + length ms) (gs[j := seen_gpu_result m])"
    using Cons.prems by (intro Cons.IH) simp
  finally show ?case using Cons.prems by (simp add: take_Suc_conv_app_nth)
qed simp

definition test_fits :: "rdc_diag_test_result \<Rightarrow> bool" where
  "test_fits r \<longleftrightarrow> length (tr_gpu_results r) = RDC_MAX_NUM_DEVICES \<and> unat (tr_per_gpu_result_count r) \<le> RDC_MAX_NUM_DEVICES"

lemma pack_copy_test:
  assumes "test_fits r" and "length (tr_gpu_results t) = RDC_MAX_NUM_DEVICES"
  shows "\<exists>m. pack_test r = Some m \<and> copy_test_result m t = Some (RDC_ST_OK, seen_test r t)"
proof -
  let ?n = "unat (tr_per_gpu_result_count r)"
  have n: "?n \<le> length (tr_gpu_results r)" "?n \<le> length (tr_gpu_results t)" using assms by (simp_all add: test_fits_def)
  then have c: "copy_gpu_results (take ?n (tr_gpu_results r)) 0 (tr_gpu_results t)
      = map seen_gpu_result (take ?n (tr_gpu_results r)) @ drop ?n (tr_gpu_results t)"
    by (subst copy_gpu_results_seen) (simp_all add: min_absorb2)
  show ?thesis using n assms c
    by (cases r; cases t) (simp add: pack_test_def copy_test_result_def Let_def test_fits_def min_absorb2 put_info_def
        strncpy_with_null_def MAX_DIAG_MSG_LENGTH_def seen_test_def copy_detail_seen)
qed

lemma pack_copy_tests:
  assumes "\<forall>r\<in>set rs. test_fits r" and "i + length rs \<le> length ts" and "\<forall>t\<in>set ts. length (tr_gpu_results t) = RDC_MAX_NUM_DEVICES"
  shows "\<exists>ms. pack_tests rs = Some ms \<and> length ms = length rs
    \<and> copy_test_results ms i ts = Some (RDC_ST_OK, take i ts @ map2 seen_test rs (drop i ts) @ drop (i + length rs) ts)"
  using assms
proof (induction rs arbitrary: i ts)
  case (Cons r rs)
  have i: "i < length ts" using Cons.prems(2) by simp
  then have t: "length (tr_gpu_results (ts ! i)) = RDC_MAX_NUM_DEVICES" using Cons.prems(3) nth_mem by blast
  from pack_copy_test [OF _ t] Cons.prems(1) obtain m where m: "pack_test r = Some m"
    "copy_test_result m (ts ! i) = Some (RDC_ST_OK, seen_test r (ts ! i))" by fastforce
  let ?ts = "ts[i := seen_test r (ts ! i)]"
  have len: "length (tr_gpu_results (seen_test r (ts ! i))) = RDC_MAX_NUM_DEVICES"
    using t Cons.prems(1) by (simp add: seen_test_def Let_def test_fits_def min_absorb2)
  have "\<forall>t\<in>set ?ts. length (tr_gpu_results t) = RDC_MAX_NUM_DEVICES"
    using Cons.prems(3) len set_update_subset_insert [of ts i] by fastforce
  then have "\<exists>ms. pack_tests rs = Some ms \<and> length ms = length rs
    \<and> copy_test_results ms (Suc i) ?ts = Some (RDC_ST_OK, take (Suc i) ?ts @ map2 seen_test rs (drop (Suc i) ?ts) @ drop (Suc i + length rs) ?ts)"
    using Cons.prems by (intro Cons.IH) auto
  then obtain ms where ms: "pack_tests rs = Some ms" "length ms = length rs"
    "copy_test_results ms (Suc i) ?ts = Some (RDC_ST_OK, take (Suc i) ?ts @ map2 seen_test rs (drop (Suc i) ?ts) @ drop (Suc i + length rs) ?ts)" by blast
  have "drop i ts = ts ! i # drop (Suc i) ts" using i by (simp add: Cons_nth_drop_Suc)
  then show ?case using m ms i by (intro exI [of _ "m # ms"]) (simp add: take_Suc_conv_app_nth)
qed simp


section \<open>A delivered call is a local call\<close>

text \<open>The call that the service makes: the out parameters are its own variables.\<close>

fun server_call :: "'r server_env \<Rightarrow> api_call \<Rightarrow> api_call" where
  "server_call e (A_job_get_stats j (Some _)) = A_job_get_stats j (Some (sv_job e))"
| "server_call e (A_device_get_attributes g (Some _)) = A_device_get_attributes g (Some (sv_text e))"
| "server_call e (A_device_get_component_version c (Some _)) = A_device_get_component_version c (Some (sv_text e))"
| "server_call e (A_field_get_latest_value g f (Some _)) = A_field_get_latest_value g f (Some (sv_value e))"
| "server_call e (A_field_get_value_since g f t (Some _) (Some _)) = A_field_get_value_since g f t (Some (sv_next e)) (Some (sv_value e))"
| "server_call e (A_diagnostic_run gid l c (Some _)) = A_diagnostic_run gid l c (Some (sv_diag e))"
| "server_call e (A_test_case_run gid t c (Some _)) = A_test_case_run gid t c (Some (sv_test e))"
| "server_call e call = call"

text \<open>What the caller's memory holds after a successful call, from what the service's variables hold.\<close>

definition carry_job :: "rdc_job_info \<Rightarrow> rdc_job_info \<Rightarrow> rdc_job_info" where
  "carry_job i ji = (let n = unat (ji_num_gpus i) in i\<lparr>ji_gpus := take n (ji_gpus i) @ drop n (ji_gpus ji)\<rparr>)"

definition carry_diag :: "rdc_diag_response \<Rightarrow> rdc_diag_response \<Rightarrow> rdc_diag_response" where
  "carry_diag r t =
     (let n = unat (rp_results_count r)
      in r\<lparr>rp_diag_info := map2 seen_test (take n (rp_diag_info r)) (rp_diag_info t) @ drop n (rp_diag_info t)\<rparr>)"

text \<open>The two results that are copied into an array of the caller depend on what the array held.\<close>

fun carry_out :: "rdc_job_info option \<Rightarrow> rdc_diag_response option \<Rightarrow> rdc_diag_test_result option \<Rightarrow> nat \<Rightarrow> (string \<Rightarrow> string) \<Rightarrow> api_out \<Rightarrow> api_out" where
  "carry_out ji dr tr n f O_none = O_none"
| "carry_out ji dr tr n f (O_job i) = O_job (case (i, ji) of (Some x, Some y) \<Rightarrow> Some (carry_job x y) | _ \<Rightarrow> i)"
| "carry_out ji dr tr n f (O_ids l) = O_ids l"
| "carry_out ji dr tr n f (O_count k) = O_count k"
| "carry_out ji dr tr n f (O_text s) = O_text (map_option (\<lambda>x. take n (c_string x)) s)"
| "carry_out ji dr tr n f (O_id i) = O_id i"
| "carry_out ji dr tr n f (O_group i) = O_group (map_option (\<lambda>x. x\<lparr>group_name := take 255 (c_string (group_name x))\<rparr>) i)"
| "carry_out ji dr tr n f (O_field_group i) = O_field_group (map_option (\<lambda>x. x\<lparr>fgroup_name := take 255 (c_string (fgroup_name x))\<rparr>) i)"
| "carry_out ji dr tr n f (O_value v) = O_value (map_option (seen_value f) v)"
| "carry_out ji dr tr n f (O_since t v) = O_since t (map_option (seen_value f) v)"
| "carry_out ji dr tr n f (O_diag r) = O_diag (case (r, dr) of (Some x, Some y) \<Rightarrow> Some (carry_diag x y) | _ \<Rightarrow> r)"
| "carry_out ji dr tr n f (O_test r) = O_test (case (r, tr) of (Some x, Some y) \<Rightarrow> Some (seen_test x y) | _ \<Rightarrow> r)"

definition carry :: "api_call \<Rightarrow> api_out \<Rightarrow> api_out" where
  "carry call =
     (case call of
        A_job_get_stats _ ji \<Rightarrow> carry_out ji None None 0 (\<lambda>s. s)
      | A_device_get_component_version _ _ \<Rightarrow> carry_out None None None 59 (\<lambda>s. s)
      | A_diagnostic_run _ _ _ dr \<Rightarrow> carry_out None dr None 0 (\<lambda>s. s)
      | A_test_case_run _ _ _ tr \<Rightarrow> carry_out None None tr 0 (\<lambda>s. s)
      | A_field_get_value_since _ _ _ _ _ \<Rightarrow> carry_out None None None 0 cut_blanks
      | _ \<Rightarrow> carry_out None None None 255 (\<lambda>s. s))"

text \<open>The calls that a client can send, and the results that fit the arrays and the bounds of both sides.\<close>

fun sendable :: "api_call \<Rightarrow> bool" where
  "sendable (A_group_field_create (Some fs) _ _) \<longleftrightarrow> length fs \<le> RDC_MAX_FIELD_IDS_PER_FIELD_GROUP"
| "sendable (A_diagnostic_run _ _ c _) \<longleftrightarrow> c \<noteq> None"
| "sendable (A_test_case_run _ _ c _) \<longleftrightarrow> c \<noteq> None"
| "sendable (A_mixed_component_version _ _) \<longleftrightarrow> False"
| "sendable _ \<longleftrightarrow> True"

definition fits :: "api_call \<Rightarrow> api_out \<Rightarrow> bool" where
  "fits call out =
     (case out of
        O_job (Some i) \<Rightarrow> unat (ji_num_gpus i) \<le> length (ji_gpus i)
          \<and> (case call of A_job_get_stats _ (Some ji) \<Rightarrow> unat (ji_num_gpus i) \<le> length (ji_gpus ji) | _ \<Rightarrow> True)
      | O_ids (Some l) \<Rightarrow> (case call of A_device_get_all _ \<Rightarrow> True | _ \<Rightarrow> length l < RDC_MAX_NUM_GROUPS)
      | O_group (Some i) \<Rightarrow> length (entity_ids i) \<le> RDC_GROUP_MAX_ENTITIES
      | O_field_group (Some i) \<Rightarrow> length (field_ids i) \<le> RDC_MAX_FIELD_IDS_PER_FIELD_GROUP
      | O_diag (Some r) \<Rightarrow> unat (rp_results_count r) \<le> length (rp_diag_info r) \<and> length (rp_diag_info r) = MAX_TEST_CASES
          \<and> list_all test_fits (rp_diag_info r)
          \<and> (case call of A_diagnostic_run _ _ _ (Some t) \<Rightarrow> length (rp_diag_info t) = MAX_TEST_CASES
                \<and> list_all (\<lambda>x. length (tr_gpu_results x) = RDC_MAX_NUM_DEVICES) (rp_diag_info t) | _ \<Rightarrow> True)
      | O_diag None \<Rightarrow> False
      | O_test None \<Rightarrow> False
      | O_test (Some r) \<Rightarrow> test_fits r
          \<and> (case call of A_test_case_run _ _ _ (Some t) \<Rightarrow> length (tr_gpu_results t) = RDC_MAX_NUM_DEVICES | _ \<Rightarrow> True)
      | _ \<Rightarrow> True)"

lemma delivered:
  assumes "serve_request e rq (Some h) = serve e c pack (Some h)" and "\<not> missing_pointer c"
    and "emb_exec (sv_env e) c h = Some (st, out, h')" and "pack st out = Some m" and "reply_status m = status_code st"
    and "st = RDC_ST_OK \<Longrightarrow> unpack m = Some (RDC_ST_OK, out')"
  shows "client_call (transport Delivered e) rq old unpack (Some h) = Some (st, if st = RDC_ST_OK then out' else old, Some h')"
  using assms by (simp add: client_call_def transport_def serve_def api_exec_def error_handle_def)

lemma delivered_status:
  assumes "serve_request e rq (Some h) = serve e c status_only_reply (Some h)" and "\<not> missing_pointer c"
    and "emb_exec (sv_env e) c h = Some (st, out, h')"
  shows "status_call (transport Delivered e) rq (Some h) = Some (st, O_none, Some h')"
  using assms by (simp add: status_call_def client_call_def transport_def serve_def api_exec_def error_handle_def status_only_reply_def)

definition agrees :: "api_call \<Rightarrow> (rdc_status \<times> api_out \<times> 'r handler) \<Rightarrow> (rdc_status \<times> api_out \<times> 'r handler option) option \<Rightarrow> bool" where
  "agrees call l r \<longleftrightarrow> (case l of (st, out, h') \<Rightarrow>
     \<exists>out'. r = Some (st, out', Some h') \<and> (st = RDC_ST_OK \<longrightarrow> out' = carry call out))"

lemma agreesI: "r = Some (st, if st = RDC_ST_OK then carry call out else old, Some h') \<Longrightarrow> agrees call (st, out, h') r"
  by (simp add: agrees_def)

lemmas sta_defs = sta_job_start_stats_def sta_job_get_stats_def sta_job_stop_stats_def sta_job_remove_def sta_job_remove_all_def
  sta_device_get_all_def sta_device_get_attributes_def sta_device_get_component_version_def sta_group_gpu_create_def
  sta_group_gpu_add_def sta_group_field_create_def sta_group_field_get_info_def sta_group_gpu_get_info_def
  sta_group_get_all_ids_def sta_group_field_get_all_ids_def sta_group_gpu_destroy_def sta_group_field_destroy_def
  sta_field_watch_def sta_field_get_latest_value_def sta_field_get_value_since_def sta_field_unwatch_def
  sta_diagnostic_run_def sta_test_case_run_def sta_field_update_all_def sta_mixed_component_version_def

lemmas service_defs = GetAllDevices_def GetDeviceAttributes_def GetComponentVersion_def CreateGpuGroup_def AddToGpuGroup_def
  GetGpuGroupInfo_def GetGroupAllIds_def GetFieldGroupAllIds_def DestroyGpuGroup_def CreateFieldGroup_def GetFieldGroupInfo_def
  DestroyFieldGroup_def WatchFields_def GetLatestFieldValue_def GetFieldSince_def UnWatchFields_def UpdateAllFields_def
  StartJobStats_def GetJobStats_def StopJobStats_def RemoveJob_def RemoveAllJob_def DiagnosticRun_def DiagnosticTestCaseRun_def

fun status_request :: "api_call \<Rightarrow> rpc_request option" where
  "status_request (A_job_start_stats gid j freq) = Some (StartJobStatsRequest gid j freq)"
| "status_request (A_job_stop_stats j) = Some (StopJobStatsRequest j)"
| "status_request (A_job_remove j) = Some (RemoveJobRequest j)"
| "status_request A_job_remove_all = Some RemoveAllJobRequest"
| "status_request (A_group_gpu_add gid g) = Some (AddToGpuGroupRequest gid g)"
| "status_request (A_group_gpu_destroy gid) = Some (DestroyGpuGroupRequest gid)"
| "status_request (A_group_field_destroy fgid) = Some (DestroyFieldGroupRequest fgid)"
| "status_request (A_field_watch gid fgid freq age n) = Some (WatchFieldsRequest gid fgid freq age n)"
| "status_request (A_field_unwatch gid fgid) = Some (UnWatchFieldsRequest gid fgid)"
| "status_request (A_field_update_all w) = Some (UpdateAllFieldsRequest w)"
| "status_request _ = None"

lemma agrees_status:
  assumes "status_request call = Some rq" and "emb_exec (sv_env e) call h = Some (st, out, h')"
  shows "agrees call (st, out, h') (remote_exec Delivered e call (Some h))"
proof -
  have s: "serve_request e rq (Some h) = serve e call status_only_reply (Some h)"
    using assms(1) by (cases call) (auto simp: service_defs)
  have p: "\<not> missing_pointer call" "carry call O_none = O_none" using assms(1) by (cases call; simp add: carry_def)+
  have r: "remote_exec Delivered e call (Some h) = status_call (transport Delivered e) rq (Some h)"
    using assms(1) by (cases call) (auto simp: remote_exec_def sta_defs)
  have "out = O_none" using assms by (cases call) (auto simp: act_def out_with_def split: prod.splits)
  with delivered_status [OF s p(1) assms(2)] r p(2) show ?thesis by (simp add: agrees_def)
qed


text \<open>The null pointers that both handlers test themselves.\<close>

fun null_pointer :: "api_call \<Rightarrow> bool" where
  "null_pointer (A_job_get_stats _ i) \<longleftrightarrow> i = None"
| "null_pointer (A_device_get_all c) \<longleftrightarrow> \<not> c"
| "null_pointer (A_device_get_attributes _ a) \<longleftrightarrow> a = None"
| "null_pointer (A_device_get_component_version _ v) \<longleftrightarrow> v = None"
| "null_pointer (A_group_gpu_create _ nm i) \<longleftrightarrow> nm = None \<or> \<not> i"
| "null_pointer (A_group_field_create fs nm i) \<longleftrightarrow> fs = None \<or> nm = None \<or> \<not> i"
| "null_pointer (A_group_field_get_info _ i) \<longleftrightarrow> \<not> i"
| "null_pointer (A_group_gpu_get_info _ i) \<longleftrightarrow> \<not> i"
| "null_pointer (A_group_get_all_ids c) \<longleftrightarrow> \<not> c"
| "null_pointer (A_group_field_get_all_ids c) \<longleftrightarrow> \<not> c"
| "null_pointer (A_field_get_latest_value _ _ v) \<longleftrightarrow> v = None"
| "null_pointer (A_field_get_value_since _ _ _ n v) \<longleftrightarrow> n = None \<or> v = None"
| "null_pointer (A_diagnostic_run _ _ _ r) \<longleftrightarrow> r = None"
| "null_pointer (A_test_case_run _ _ _ r) \<longleftrightarrow> r = None"
| "null_pointer _ \<longleftrightarrow> False"

text \<open>The interface of a handler: a missing out parameter is reported and nothing happens.\<close>

locale pointer_checking =
  fixes exec :: "api_call \<Rightarrow> 'h \<Rightarrow> (rdc_status \<times> api_out \<times> 'h) option"
  assumes rejects_null: "null_pointer call \<Longrightarrow> \<exists>out. exec call h = Some (RDC_ST_BAD_PARAMETER, out, h)"
begin

lemma api_rejects_null:
  assumes "null_pointer call"
  shows "\<exists>st out. api_exec exec call (Some h) = Some (st, out, Some h)
    \<and> st = (if missing_pointer call then RDC_ST_INVALID_HANDLER else RDC_ST_BAD_PARAMETER)"
  using rejects_null [OF assms, of h] by (auto simp: api_exec_def)

end

interpretation embedded: pointer_checking "emb_exec e" for e :: "'r handler_env"
proof
  fix call and h :: "'r handler" assume "null_pointer call"
  then show "\<exists>out. emb_exec e call h = Some (RDC_ST_BAD_PARAMETER, out, h)"
    by (cases call) (auto simp: out_with_def look_def emb_job_get_stats_def emb_device_get_all_def emb_device_get_attributes_def
        emb_device_get_component_version_def emb_group_gpu_create_def emb_group_field_create_def emb_group_field_get_info_def
        emb_group_gpu_get_info_def emb_group_get_all_ids_def emb_group_field_get_all_ids_def emb_field_get_latest_value_def
        emb_field_get_value_since_def emb_diagnostic_run_def emb_test_case_run_def split: option.split)
qed

interpretation standalone: pointer_checking "sta_exec ch" for ch :: "'w channel"
proof
  fix call and w :: 'w assume "null_pointer call"
  then show "\<exists>out. sta_exec ch call w = Some (RDC_ST_BAD_PARAMETER, out, w)"
    by (cases call) (auto simp: sta_defs when_pointer_def split: option.split)
qed

lemma agrees_null:
  assumes "null_pointer call" and "emb_exec (sv_env e) call h = Some (st, out, h')"
  shows "agrees call (st, out, h') (remote_exec d e call (Some h))"
  using embedded.rejects_null [OF assms(1), of "sv_env e" h] standalone.rejects_null [OF assms(1), of "transport d e" "Some h"] assms(2)
  by (auto simp: agrees_def remote_exec_def)

lemma server_call_null: "null_pointer call \<Longrightarrow> server_call e call = call"
  by (cases call) (auto split: option.split)

text \<open>Each call with results, all pointers given.\<close>

lemmas remote_simps = remote_exec_def sta_defs when_pointer_def client_call_def transport_def serve_def api_exec_def
  error_handle_def service_defs carry_def

lemma agrees_devices:
  assumes "emb_exec (sv_env e) (A_device_get_all True) h = Some (st, out, h')"
  shows "agrees (A_device_get_all True) (st, out, h') (remote_exec Delivered e (A_device_get_all True) (Some h))"
proof -
  from assms obtain l where l: "out = O_ids l" "st = RDC_ST_OK \<Longrightarrow> \<exists>x. l = Some x \<and> length x \<le> RDC_MAX_NUM_DEVICES"
    by (auto simp: out_with_def emb_device_get_all_def Let_def split: if_splits option.splits)
  then show ?thesis using assms by (cases l) (auto simp: agrees_def remote_simps)
qed

lemma agrees_attributes:
  assumes "emb_exec (sv_env e) (A_device_get_attributes g (Some (sv_text e))) h = Some (st, out, h')"
  shows "agrees (A_device_get_attributes g (Some a)) (st, out, h') (remote_exec Delivered e (A_device_get_attributes g (Some a)) (Some h))"
proof -
  from assms obtain x where "out = O_text (Some x)" by (auto simp: out_with_def emb_device_get_attributes_def)
  then show ?thesis using assms by (simp add: agrees_def remote_simps strncpy_with_null_def RDC_MAX_STR_LENGTH_def)
qed

lemma agrees_version:
  assumes "emb_exec (sv_env e) (A_device_get_component_version c (Some (sv_text e))) h = Some (st, out, h')"
  shows "agrees (A_device_get_component_version c (Some a)) (st, out, h') (remote_exec Delivered e (A_device_get_component_version c (Some a)) (Some h))"
proof -
  from assms obtain x where "out = O_text x" "st = RDC_ST_OK \<Longrightarrow> x \<noteq> None"
    by (auto simp: look_def emb_device_get_component_version_def split: if_splits prod.splits)
  then show ?thesis using assms by (cases x) (auto simp: agrees_def remote_simps strncpy_with_null_def RDC_MAX_VERSION_STR_LENGTH_def)
qed

lemma agrees_gpu_create:
  assumes "emb_exec (sv_env e) (A_group_gpu_create t (Some nm) True) h = Some (st, out, h')"
  shows "agrees (A_group_gpu_create t (Some nm) True) (st, out, h') (remote_exec Delivered e (A_group_gpu_create t (Some nm) True) (Some h))"
proof -
  from assms obtain x where "out = O_id x" "st = RDC_ST_OK \<Longrightarrow> x \<noteq> None"
    by (auto simp: out_with_def emb_group_gpu_create_def rdc_group_gpu_create_def Let_def split: if_splits prod.splits option.splits)
  then show ?thesis using assms by (cases x) (auto simp: agrees_def remote_simps)
qed

lemma agrees_field_create:
  assumes "emb_exec (sv_env e) (A_group_field_create (Some fs) (Some nm) True) h = Some (st, out, h')"
    and "length fs \<le> RDC_MAX_FIELD_IDS_PER_FIELD_GROUP"
  shows "agrees (A_group_field_create (Some fs) (Some nm) True) (st, out, h')
    (remote_exec Delivered e (A_group_field_create (Some fs) (Some nm) True) (Some h))"
proof -
  from assms(1) obtain x where "out = O_id x" "st = RDC_ST_OK \<Longrightarrow> x \<noteq> None"
    by (auto simp: out_with_def emb_group_field_create_def rdc_group_field_create_def split: if_splits prod.splits)
  then show ?thesis using assms by (cases x) (auto simp: agrees_def remote_simps)
qed

lemma agrees_infos:
  "emb_exec (sv_env e) (A_group_gpu_get_info gid True) h = Some (st, out, h') \<Longrightarrow>
   (st = RDC_ST_OK \<longrightarrow> fits (A_group_gpu_get_info gid True) out) \<Longrightarrow>
   agrees (A_group_gpu_get_info gid True) (st, out, h') (remote_exec Delivered e (A_group_gpu_get_info gid True) (Some h))"
  "emb_exec (sv_env e) (A_group_field_get_info gid True) h = Some (st, out, h') \<Longrightarrow>
   (st = RDC_ST_OK \<longrightarrow> fits (A_group_field_get_info gid True) out) \<Longrightarrow>
   agrees (A_group_field_get_info gid True) (st, out, h') (remote_exec Delivered e (A_group_field_get_info gid True) (Some h))"
  by (auto simp: agrees_def remote_simps look_def emb_group_gpu_get_info_def emb_group_field_get_info_def rdc_group_gpu_get_info_def
      rdc_group_field_get_info_def strncpy_with_null_def RDC_MAX_STR_LENGTH_def fits_def split: option.splits)


lemma agrees_ids:
  "emb_exec (sv_env e) (A_group_get_all_ids True) h = Some (st, out, h') \<Longrightarrow>
   (st = RDC_ST_OK \<longrightarrow> fits (A_group_get_all_ids True) out) \<Longrightarrow>
   agrees (A_group_get_all_ids True) (st, out, h') (remote_exec Delivered e (A_group_get_all_ids True) (Some h))"
  "emb_exec (sv_env e) (A_group_field_get_all_ids True) h = Some (st, out, h') \<Longrightarrow>
   (st = RDC_ST_OK \<longrightarrow> fits (A_group_field_get_all_ids True) out) \<Longrightarrow>
   agrees (A_group_field_get_all_ids True) (st, out, h') (remote_exec Delivered e (A_group_field_get_all_ids True) (Some h))"
  by (auto simp: agrees_def remote_simps look_def emb_group_get_all_ids_def emb_group_field_get_all_ids_def
      limit_defs fits_def split: prod.splits)

lemma agrees_latest:
  assumes "emb_exec (sv_env e) (A_field_get_latest_value g f (Some (sv_value e))) h = Some (st, out, h')"
  shows "agrees (A_field_get_latest_value g f (Some v)) (st, out, h') (remote_exec Delivered e (A_field_get_latest_value g f (Some v)) (Some h))"
proof -
  from assms obtain x where "out = O_value (Some x)"
    by (auto simp: look_def emb_field_get_latest_value_def rdc_field_get_latest_value_def Let_def split: if_splits option.splits)
  then show ?thesis using assms by (auto simp: agrees_def remote_simps unpack_pack_value)
qed

lemma agrees_since:
  assumes "emb_exec (sv_env e) (A_field_get_value_since g f t (Some (sv_next e)) (Some (sv_value e))) h = Some (st, out, h')"
  shows "agrees (A_field_get_value_since g f t (Some n) (Some v)) (st, out, h')
    (remote_exec Delivered e (A_field_get_value_since g f t (Some n) (Some v)) (Some h))"
proof -
  from assms obtain m x where "out = O_since (Some m) (Some x)"
    by (auto simp: look_def emb_field_get_value_since_def rdc_field_get_value_since_def split: if_splits option.splits prod.splits)
  then show ?thesis using assms by (auto simp: agrees_def remote_simps unpack_pack_value)
qed

lemma agrees_job:
  assumes "emb_exec (sv_env e) (A_job_get_stats j (Some (sv_job e))) h = Some (st, out, h')"
    and "st = RDC_ST_OK \<longrightarrow> fits (A_job_get_stats j (Some ji)) out"
  shows "agrees (A_job_get_stats j (Some ji)) (st, out, h') (remote_exec Delivered e (A_job_get_stats j (Some ji)) (Some h))"
proof -
  from assms(1) obtain i where o: "out = O_job i" "i \<noteq> None"
    by (auto simp: out_with_def emb_job_get_stats_def with_gauges_def split: if_splits option.splits)
  then obtain x where x: "i = Some x" by blast
  show ?thesis
  proof (cases "st = RDC_ST_OK")
    case False
    then show ?thesis using assms o x by (auto simp: agrees_def remote_simps)
  next
    case True
    let ?n = "unat (ji_num_gpus x)"
    have n: "?n \<le> length (ji_gpus x)" "?n \<le> length (ji_gpus ji)" using assms(2) True o x by (simp_all add: fits_def)
    then have "unpack_gpus (map pack_usage (take ?n (ji_gpus x))) 0 (ji_gpus ji) = Some (take ?n (ji_gpus x) @ drop ?n (ji_gpus ji))"
      by (subst unpack_gpus_pack) (simp_all add: min_absorb2)
    then show ?thesis using assms(1) True o x n
      by (cases x) (auto simp: agrees_def remote_simps carry_job_def unpack_pack_usage Let_def)
  qed
qed

lemma agrees_test:
  assumes "emb_exec (sv_env e) (A_test_case_run gid tc (Some c) (Some (sv_test e))) h = Some (st, out, h')"
    and "st = RDC_ST_OK \<longrightarrow> fits (A_test_case_run gid tc (Some c) (Some t)) out"
  shows "agrees (A_test_case_run gid tc (Some c) (Some t)) (st, out, h')
    (remote_exec Delivered e (A_test_case_run gid tc (Some c) (Some t)) (Some h))"
proof -
  from assms(1) obtain i where o: "out = O_test i" by (auto simp: out_with_def)
  show ?thesis
  proof (cases "st = RDC_ST_OK \<and> i \<noteq> None")
    case False
    then show ?thesis using assms o by (cases i) (auto simp: agrees_def remote_simps fits_def)
  next
    case True
    then obtain r where r: "i = Some r" by blast
    have "test_fits r" "length (tr_gpu_results t) = RDC_MAX_NUM_DEVICES" using assms(2) True o r by (simp_all add: fits_def)
    from pack_copy_test [OF this] show ?thesis using assms(1) True o r by (auto simp: agrees_def remote_simps)
  qed
qed

lemma agrees_diag:
  assumes "emb_exec (sv_env e) (A_diagnostic_run gid l (Some c) (Some (sv_diag e))) h = Some (st, out, h')"
    and "st = RDC_ST_OK \<longrightarrow> fits (A_diagnostic_run gid l (Some c) (Some t)) out"
  shows "agrees (A_diagnostic_run gid l (Some c) (Some t)) (st, out, h')
    (remote_exec Delivered e (A_diagnostic_run gid l (Some c) (Some t)) (Some h))"
proof -
  from assms(1) obtain i where o: "out = O_diag i" by (auto simp: out_with_def)
  show ?thesis
  proof (cases "st = RDC_ST_OK \<and> i \<noteq> None")
    case False
    then show ?thesis using assms o by (cases i) (auto simp: agrees_def remote_simps fits_def)
  next
    case True
    then obtain r where r: "i = Some r" by blast
    let ?n = "unat (rp_results_count r)"
    have n: "?n \<le> length (rp_diag_info r)" "length (rp_diag_info r) = MAX_TEST_CASES" "length (rp_diag_info t) = MAX_TEST_CASES"
      and f: "\<forall>x\<in>set (take ?n (rp_diag_info r)). test_fits x"
      and t: "\<forall>x\<in>set (rp_diag_info t). length (tr_gpu_results x) = RDC_MAX_NUM_DEVICES"
      using assms(2) True o r by (auto simp: fits_def list_all_iff dest: in_set_takeD)
    from pack_copy_tests [OF f _ t, of 0] n obtain ms where ms: "pack_tests (take ?n (rp_diag_info r)) = Some ms" "length ms = ?n"
      "copy_test_results ms 0 (rp_diag_info t) = Some (RDC_ST_OK, map2 seen_test (take ?n (rp_diag_info r)) (rp_diag_info t) @ drop ?n (rp_diag_info t))"
      by (auto simp: min_absorb2)
    then show ?thesis using assms(1) True o r n by (cases r) (auto simp: agrees_def remote_simps carry_diag_def Let_def)
  qed
qed


lemma remote_agrees:
  assumes "emb_exec (sv_env e) (server_call e call) h = Some (st, out, h')" and "sendable call"
    and "st = RDC_ST_OK \<longrightarrow> fits call out"
  shows "agrees call (st, out, h') (remote_exec Delivered e call (Some h))"
proof (cases "null_pointer call")
  case True
  then show ?thesis using assms(1) agrees_null server_call_null by metis
next
  case np: False
  show ?thesis
  proof (cases "status_request call")
    case (Some rq)
    then have "server_call e call = call" by (cases call) auto
    with agrees_status [OF Some] assms(1) show ?thesis by simp
  next
    case None
    with np assms show ?thesis
      by (cases call) (auto simp del: emb_exec.simps intro: agrees_devices agrees_attributes agrees_version agrees_gpu_create agrees_field_create
          agrees_infos agrees_ids agrees_latest agrees_since agrees_job agrees_test agrees_diag)
  qed
qed


text \<open>
  (C4) A delivered remote call does what the same call does in the daemon: the client gets the same status,
  the daemon's session makes the same step, and after a success the caller's memory holds the results,
  carried through the messages and cut to the sizes of its buffers. This covers every call of the API
  whose arguments can be sent and whose results fit the arrays of both sides.
\<close>
theorem remote_call_refines_local:
  assumes "emb_exec (sv_env e) (server_call e call) h = Some (st, out, h')" and "sendable call"
    and "st = RDC_ST_OK \<longrightarrow> fits call out"
  shows "\<exists>out'. remote_exec Delivered e call (Some h) = Some (st, out', Some h') \<and> (st = RDC_ST_OK \<longrightarrow> out' = carry call out)"
  using remote_agrees [OF assms] by (simp add: agrees_def)

section \<open>Lost messages\<close>

text \<open>The out parameters of a call that is not answered.\<close>

fun kept_out :: "api_call \<Rightarrow> api_out" where
  "kept_out (A_job_get_stats _ i) = O_job i"
| "kept_out (A_device_get_all _) = O_ids None"
| "kept_out (A_device_get_attributes _ a) = O_text a"
| "kept_out (A_device_get_component_version _ v) = O_text v"
| "kept_out (A_group_gpu_create _ _ _) = O_id None"
| "kept_out (A_group_field_create _ _ _) = O_id None"
| "kept_out (A_group_field_get_info _ _) = O_field_group None"
| "kept_out (A_group_gpu_get_info _ _) = O_group None"
| "kept_out (A_group_get_all_ids _) = O_ids None"
| "kept_out (A_group_field_get_all_ids _) = O_ids None"
| "kept_out (A_field_get_latest_value _ _ v) = O_value v"
| "kept_out (A_field_get_value_since _ _ _ n v) = O_since n v"
| "kept_out (A_diagnostic_run _ _ _ r) = O_diag r"
| "kept_out (A_test_case_run _ _ _ r) = O_test r"
| "kept_out (A_mixed_component_version _ v) = O_text v"
| "kept_out _ = O_none"

lemma sends_one_request:
  assumes "\<not> null_pointer call" and "sendable call"
  shows "\<exists>rq unpack. \<forall>ch w. sta_exec ch call w = client_call ch rq (kept_out call) unpack w"
  using assms by (cases call) (auto simp: sta_defs when_pointer_def status_call_def, (intro exI allI, rule refl)+)

lemma client_call_lost:
  "client_call (transport Request_lost e) rq old unpack hh = Some (RDC_ST_CLIENT_ERROR, old, hh)"
  "client_call (transport Delivered e) rq old unpack hh = Some (st, out, hh') \<Longrightarrow>
   client_call (transport Reply_lost e) rq old unpack hh = Some (RDC_ST_CLIENT_ERROR, old, hh')"
  by (auto simp: client_call_def transport_def error_handle_def split: option.splits sum.splits if_splits)

lemma remote_lost:
  fixes e :: "'r server_env"
  assumes "\<not> null_pointer call" and "sendable call"
  shows "remote_exec Request_lost e call hh = Some (RDC_ST_CLIENT_ERROR, kept_out call, hh)"
    and "remote_exec Delivered e call hh = Some (st, out, hh') \<Longrightarrow> remote_exec Reply_lost e call hh = Some (RDC_ST_CLIENT_ERROR, kept_out call, hh')"
proof -
  from sends_one_request [OF assms] obtain rq unpack where
    r: "\<And>(ch :: 'r handler option channel) w. sta_exec ch call w = client_call ch rq (kept_out call) unpack w" by blast
  show "remote_exec Request_lost e call hh = Some (RDC_ST_CLIENT_ERROR, kept_out call, hh)"
    by (simp add: remote_exec_def r client_call_lost)
  show "remote_exec Delivered e call hh = Some (st, out, hh') \<Longrightarrow> remote_exec Reply_lost e call hh = Some (RDC_ST_CLIENT_ERROR, kept_out call, hh')"
    by (simp add: remote_exec_def r client_call_lost)
qed

text \<open>
  (C30) A call whose request or reply is lost returns a client error and leaves the caller's memory as it was.
  The daemon has not seen it in the first case and has executed it exactly once in the second.
\<close>
theorem lost_call_client_error:
  assumes "emb_exec (sv_env e) (server_call e call) h = Some (st, out, h')" and "sendable call"
    and "st = RDC_ST_OK \<longrightarrow> fits call out" and "\<not> null_pointer call"
  shows "remote_exec Request_lost e call (Some h) = Some (RDC_ST_CLIENT_ERROR, kept_out call, Some h)
    \<and> remote_exec Reply_lost e call (Some h) = Some (RDC_ST_CLIENT_ERROR, kept_out call, Some h')"
proof -
  from remote_agrees [OF assms(1-3)] obtain out' where "remote_exec Delivered e call (Some h) = Some (st, out', Some h')"
    by (auto simp: agrees_def)
  from remote_lost(2) [OF assms(4,2) this] remote_lost(1) [OF assms(4,2)] show ?thesis by blast
qed

section \<open>A session over an unreliable connection\<close>

type_synonym 'r remote_call = "delivery \<times> 'r server_env \<times> api_call"

type_synonym call_result = "rdc_status \<times> api_out"

fun remote_run :: "'r remote_call list \<Rightarrow> 'r handler option \<Rightarrow> (call_result list \<times> 'r handler option) option" where
  "remote_run [] hh = Some ([], hh)"
| "remote_run ((d, e, c) # xs) hh =
     (case remote_exec d e c hh of
        None \<Rightarrow> None
      | Some (st, out, hh') \<Rightarrow> map_option (\<lambda>(rs, h2). ((st, out) # rs, h2)) (remote_run xs hh'))"

fun local_run :: "('r handler_env \<times> api_call) list \<Rightarrow> 'r handler \<Rightarrow> (call_result list \<times> 'r handler) option" where
  "local_run [] h = Some ([], h)"
| "local_run ((e, c) # xs) h =
     (case emb_exec e c h of
        None \<Rightarrow> None
      | Some (st, out, h') \<Rightarrow> map_option (\<lambda>(rs, h2). ((st, out) # rs, h2)) (local_run xs h'))"

text \<open>The calls that arrive: those with all their out parameters, when the request is not lost.\<close>

definition arrives :: "'r remote_call \<Rightarrow> bool" where
  "arrives x \<longleftrightarrow> fst x \<noteq> Request_lost \<and> \<not> null_pointer (snd (snd x))"

definition arrived :: "'r remote_call list \<Rightarrow> ('r handler_env \<times> api_call) list" where
  "arrived xs = map (\<lambda>(d, e, c). (sv_env e, server_call e c)) (filter arrives xs)"

text \<open>
  What the client sees of the result of an arrived call. The one difference to the local call is the listing of a full table, of
  which the client gets the number of groups and the status of the limit.
\<close>

fun listing :: "api_call \<Rightarrow> bool" where
  "listing (A_group_get_all_ids _) \<longleftrightarrow> True"
| "listing (A_group_field_get_all_ids _) \<longleftrightarrow> True"
| "listing _ \<longleftrightarrow> False"

definition seen_as :: "api_call \<Rightarrow> call_result \<Rightarrow> call_result \<Rightarrow> bool" where
  "seen_as c r r' \<longleftrightarrow>
     (if fst r = RDC_ST_OK \<and> listing c \<and> \<not> fits c (snd r)
      then \<exists>l. snd r = O_ids (Some l) \<and> r' = (RDC_ST_MAX_LIMIT, O_count (word_of_nat (length l)))
      else fst r' = fst r \<and> (fst r = RDC_ST_OK \<longrightarrow> snd r' = carry c (snd r)))"

definition client_sees :: "delivery \<Rightarrow> api_call \<Rightarrow> call_result \<Rightarrow> call_result \<Rightarrow> bool" where
  "client_sees d c r r' \<longleftrightarrow> (if d = Delivered then seen_as c r r' else r' = (RDC_ST_CLIENT_ERROR, kept_out c))"

text \<open>The results at the client, \<open>rs'\<close>, from the results \<open>rs\<close> of the arrived calls.\<close>

fun calls_answered :: "'r remote_call list \<Rightarrow> call_result list \<Rightarrow> call_result list \<Rightarrow> bool" where
  "calls_answered [] rs rs' \<longleftrightarrow> rs' = []"
| "calls_answered (x # xs) rs rs' \<longleftrightarrow> rs' \<noteq> [] \<and>
     (if arrives x then client_sees (fst x) (snd (snd x)) (hd rs) (hd rs') \<and> calls_answered xs (tl rs) (tl rs')
      else (if null_pointer (snd (snd x)) then fst (hd rs') = RDC_ST_BAD_PARAMETER
            else hd rs' = (RDC_ST_CLIENT_ERROR, kept_out (snd (snd x)))) \<and> calls_answered xs rs (tl rs'))"

definition result_fits :: "api_call \<Rightarrow> call_result \<Rightarrow> bool" where
  "result_fits c r \<longleftrightarrow> (fst r = RDC_ST_OK \<longrightarrow> listing c \<or> fits c (snd r))"

lemma full_listing:
  assumes "listing c" and "\<not> null_pointer c" and "emb_exec (sv_env e) c h = Some (RDC_ST_OK, out, h')" and "\<not> fits c out"
  shows "\<exists>l. out = O_ids (Some l) \<and> remote_exec Delivered e c (Some h) = Some (RDC_ST_MAX_LIMIT, O_count (word_of_nat (length l)), Some h')"
  using assms by (cases c) (auto simp: remote_simps look_def emb_group_get_all_ids_def emb_group_field_get_all_ids_def fits_def limit_defs split: prod.splits)

lemma remote_delivers:
  assumes "sendable c" and "\<not> null_pointer c" and "emb_exec (sv_env e) (server_call e c) h = Some (st, out, h')" and "result_fits c (st, out)"
  shows "\<exists>st' out'. remote_exec Delivered e c (Some h) = Some (st', out', Some h') \<and> seen_as c (st, out) (st', out')"
proof (cases "st = RDC_ST_OK \<and> listing c \<and> \<not> fits c out")
  case True
  then have "server_call e c = c" by (cases c) auto
  with full_listing [of c e h out h'] True assms(2,3) show ?thesis by (auto simp: seen_as_def)
next
  case False
  with remote_agrees [OF assms(3,1)] assms(4) show ?thesis by (auto simp: agrees_def seen_as_def result_fits_def)
qed

lemma remote_step:
  assumes "sendable c" and "\<not> null_pointer c" and "emb_exec (sv_env e) (server_call e c) h = Some (st, out, h')" and "result_fits c (st, out)"
    and "d \<noteq> Request_lost"
  shows "\<exists>st' out'. remote_exec d e c (Some h) = Some (st', out', Some h') \<and> client_sees d c (st, out) (st', out')"
proof -
  from remote_delivers [OF assms(1-4)] obtain st' out' where
    r: "remote_exec Delivered e c (Some h) = Some (st', out', Some h')" "seen_as c (st, out) (st', out')" by blast
  with remote_lost(2) [OF assms(2,1) r(1)] assms(5) show ?thesis by (cases d) (auto simp: client_sees_def)
qed

lemma remote_step_unsent:
  assumes "sendable c" and "\<not> arrives (d, e, c)"
  shows "\<exists>st out. remote_exec d e c hh = Some (st, out, hh)
    \<and> (if null_pointer c then st = RDC_ST_BAD_PARAMETER else (st, out) = (RDC_ST_CLIENT_ERROR, kept_out c))"
  using assms standalone.rejects_null [of c "transport d e" hh] remote_lost(1) [OF _ assms(1), of e hh]
  by (auto simp: remote_exec_def arrives_def)

text \<open>
  (C1) A sequence of remote calls over a connection that loses requests and replies leaves the daemon in the
  state that the arrived calls alone produce, in their order, with the daemon's own memory as their out parameters. For each delivered call the client sees the daemon's status and, after
  a success, the results, carried through the messages; the listing of a table with 64 groups is the exception: the client reports the limit and
  gets the number of the groups only. A call that lost a message returns a client error and leaves the caller's memory as it was; a call
  with a missing out parameter is refused by the client and not sent. This covers all calls of the API but the version of a mixed component, as long as a new field group has at most
  128 fields and the configuration of a diagnosis is not null, the arrived calls have a defined result at the daemon, and the results other than
  listings fit the arrays of both sides.
\<close>
theorem remote_session_refines_local:
  assumes "\<forall>x\<in>set xs. sendable (snd (snd x))" and "local_run (arrived xs) h = Some (rs, h')"
    and "list_all2 (\<lambda>x r. result_fits (snd (snd x)) r) (filter arrives xs) rs"
  shows "\<exists>rs'. remote_run xs (Some h) = Some (rs', Some h') \<and> calls_answered xs rs rs'"
  using assms
proof (induction xs arbitrary: h rs)
  case (Cons x xs)
  obtain d e c where x: "x = (d, e, c)" by (cases x)
  then have c: "sendable c" using Cons.prems(1) by simp
  show ?case
  proof (cases "arrives x")
    case False
    with Cons.prems have "\<exists>rs'. remote_run xs (Some h) = Some (rs', Some h') \<and> calls_answered xs rs rs'" by (intro Cons.IH) (simp_all add: arrived_def)
    with remote_step_unsent [OF c, of d e "Some h"] False x show ?thesis by auto
  next
    case True
    then have d: "d \<noteq> Request_lost" "\<not> null_pointer c" by (simp_all add: arrives_def x)
    from Cons.prems(2) True x obtain st out h1 where e1: "emb_exec (sv_env e) (server_call e c) h = Some (st, out, h1)"
      by (auto simp: arrived_def split: option.splits)
    with Cons.prems(2) True x obtain rs1 where r: "local_run (arrived xs) h1 = Some (rs1, h')" "rs = (st, out) # rs1" by (auto simp: arrived_def)
    from Cons.prems(3) True r(2) x have f: "result_fits c (st, out)" "list_all2 (\<lambda>x r. result_fits (snd (snd x)) r) (filter arrives xs) rs1" by auto
    from Cons.IH [OF _ r(1) f(2)] Cons.prems(1) obtain rs' where "remote_run xs (Some h1) = Some (rs', Some h')" "calls_answered xs rs1 rs'" by auto
    with remote_step [OF c d(2) e1 f(1) d(1)] r(2) True x show ?thesis by auto
  qed
qed (simp add: arrived_def)

subsection \<open>Examples\<close>

definition demo_server_env :: "unit server_env" where
  "demo_server_env =
     \<lparr>sv_env = demo_handler_env 5000, sv_text = ''?'', sv_id = 77, sv_next = 77, sv_value = blank_value, sv_job = blank_job_info,
      sv_diag = \<lparr>rp_results_count = 0, rp_diag_info = replicate MAX_TEST_CASES empty_result\<rparr>, sv_test = empty_result,
      sv_version = ''1.0''\<rparr>"

theorem remote_call_refines_local_witness:
  "\<exists>out'. remote_exec Delivered demo_server_env (A_group_gpu_get_info 1 True) (Some demo_handler) = Some (RDC_ST_OK, out', Some demo_handler)
    \<and> out' = O_group (Some \<lparr>group_name = ''g'', entity_ids = [0, 1]\<rparr>)"
proof -
  have e: "emb_exec (sv_env demo_server_env) (server_call demo_server_env (A_group_gpu_get_info 1 True)) demo_handler
      = Some (RDC_ST_OK, O_group (Some \<lparr>group_name = ''g'', entity_ids = [0, 1]\<rparr>), demo_handler)"
    by (simp add: look_def emb_group_gpu_get_info_def rdc_group_gpu_get_info_def demo_handler_def demo_groups_def strncpy_with_null_def
        RDC_MAX_STR_LENGTH_def)
  from remote_call_refines_local [OF e] show ?thesis
    by (auto simp: fits_def limit_defs carry_def c_string_def)
qed

theorem lost_call_client_error_witness:
  "\<exists>h'. remote_exec Request_lost demo_server_env (A_group_gpu_destroy 1) (Some demo_handler) = Some (RDC_ST_CLIENT_ERROR, O_none, Some demo_handler)
    \<and> remote_exec Reply_lost demo_server_env (A_group_gpu_destroy 1) (Some demo_handler) = Some (RDC_ST_CLIENT_ERROR, O_none, Some h')
    \<and> gpu_group (ww_groups (eh_watch h')) = []"
proof -
  let ?h = "on_groups (\<lambda>gs. gs\<lparr>gpu_group := []\<rparr>) demo_handler"
  have e: "emb_exec (sv_env demo_server_env) (server_call demo_server_env (A_group_gpu_destroy 1)) demo_handler = Some (RDC_ST_OK, O_none, ?h)"
    by (simp add: act_def emb_group_gpu_destroy_def rdc_group_gpu_destroy_def demo_handler_def demo_groups_def on_groups_def map_erase_def)
  from lost_call_client_error [OF e] show ?thesis by (intro exI [of _ ?h]) (simp add: fits_def on_groups_def)
qed

theorem remote_session_refines_local_witness:
  "\<exists>h' out. remote_run [(Delivered, demo_server_env, A_group_gpu_create RDC_GROUP_EMPTY (Some ''a'') True),
       (Request_lost, demo_server_env, A_group_gpu_destroy 1), (Delivered, demo_server_env, A_group_get_all_ids True),
       (Reply_lost, demo_server_env, A_group_gpu_destroy 9)] (Some fresh_handler)
      = Some ([(RDC_ST_OK, O_id (Some 1)), (RDC_ST_CLIENT_ERROR, O_none), (RDC_ST_OK, O_ids (Some [1])), (RDC_ST_CLIENT_ERROR, O_none)], Some h')
    \<and> map_keys (gpu_group (ww_groups (eh_watch h'))) = [1]"
proof -
  let ?xs = "[(Delivered, demo_server_env, A_group_gpu_create RDC_GROUP_EMPTY (Some ''a'') True),
       (Request_lost, demo_server_env, A_group_gpu_destroy 1), (Delivered, demo_server_env, A_group_get_all_ids True),
       (Reply_lost, demo_server_env, A_group_gpu_destroy 9)]"
  let ?rs = "[(RDC_ST_OK, O_id (Some 1)), (RDC_ST_OK, O_ids (Some [1])), (RDC_ST_NOT_FOUND, O_none)]"
  have i: "gpu_group group_settings_init = []" "cur_group_id group_settings_init = 1"
    by (simp_all add: group_settings_init_def rdc_group_field_create_def limit_defs job_fields_def)
  have f: "ww_groups (eh_watch fresh_handler) = group_settings_init" by (simp add: fresh_handler_def new_handler_def)
  have "\<exists>h'. local_run (arrived ?xs) fresh_handler = Some (?rs, h') \<and> map_keys (gpu_group (ww_groups (eh_watch h'))) = [1]"
    by (simp add: arrived_def arrives_def out_with_def act_def look_def emb_group_gpu_create_def rdc_group_gpu_create_def f i limit_defs Let_def
        emb_group_gpu_destroy_def emb_group_get_all_ids_def rdc_group_get_all_ids_def rdc_group_gpu_destroy_def map_insert_def map_keys_def)
  then obtain h' where l: "local_run (arrived ?xs) fresh_handler = Some (?rs, h')"
    and k: "map_keys (gpu_group (ww_groups (eh_watch h'))) = [1]" by blast
  have "list_all2 (\<lambda>x r. result_fits (snd (snd x)) r) (filter arrives ?xs) ?rs" by (simp add: arrives_def result_fits_def fits_def)
  from remote_session_refines_local [OF _ l this] obtain rs' where "remote_run ?xs (Some fresh_handler) = Some (rs', Some h')" "calls_answered ?xs ?rs rs'" by auto
  moreover from this(2) have "rs' = [(RDC_ST_OK, O_id (Some 1)), (RDC_ST_CLIENT_ERROR, O_none), (RDC_ST_OK, O_ids (Some [1])), (RDC_ST_CLIENT_ERROR, O_none)]"
    by (auto simp: arrives_def client_sees_def seen_as_def carry_def fits_def limit_defs neq_Nil_conv prod_eq_iff)
  ultimately show ?thesis using k by blast
qed

section \<open>Where remote and local calls differ\<close>

text \<open>
  The group table holds up to 64 groups, and a local listing of a full table succeeds; over the
  connection the same listing fails with the limit status.
\<close>
theorem remote_listing_refuses_full_table:
  assumes "length (gpu_group (ww_groups (eh_watch h))) = RDC_MAX_NUM_GROUPS"
  shows "emb_exec (sv_env e) (A_group_get_all_ids True) h = Some (RDC_ST_OK, O_ids (Some (map_keys (gpu_group (ww_groups (eh_watch h))))), h)
    \<and> remote_exec Delivered e (A_group_get_all_ids True) (Some h) = Some (RDC_ST_MAX_LIMIT, O_count 64, Some h)"
proof -
  have "rdc_group_get_all_ids (ww_groups (eh_watch h)) = (RDC_ST_OK, map_keys (gpu_group (ww_groups (eh_watch h))))"
    using assms by (simp add: rdc_group_get_all_ids_def collect_ids_OK)
  then have l: "emb_exec (sv_env e) (A_group_get_all_ids True) h
      = Some (RDC_ST_OK, O_ids (Some (map_keys (gpu_group (ww_groups (eh_watch h))))), h)"
    by (simp add: look_def emb_group_get_all_ids_def)
  moreover have "remote_exec Delivered e (A_group_get_all_ids True) (Some h) = Some (RDC_ST_MAX_LIMIT, O_count 64, Some h)"
    using l assms by (simp add: remote_simps limit_defs)
  ultimately show ?thesis by blast
qed

definition full_groups :: "(u32, rdc_group_info) smap" where
  "full_groups = map (\<lambda>i. (word_of_nat i, \<lparr>group_name = ''g'', entity_ids = []\<rparr>)) [1..<65]"

theorem remote_listing_refuses_full_table_witness:
  "remote_exec Delivered demo_server_env (A_group_get_all_ids True) (Some (on_groups (\<lambda>gs. gs\<lparr>gpu_group := full_groups\<rparr>) fresh_handler))
     = Some (RDC_ST_MAX_LIMIT, O_count 64, Some (on_groups (\<lambda>gs. gs\<lparr>gpu_group := full_groups\<rparr>) fresh_handler))"
  using remote_listing_refuses_full_table [of "on_groups (\<lambda>gs. gs\<lparr>gpu_group := full_groups\<rparr>) fresh_handler" demo_server_env]
  by (simp add: full_groups_def limit_defs)

text \<open>
  The report of a job stores the record of a GPU under the number of the GPU, but the service sends the
  first records only, as many as the job has GPUs. The record of a GPU whose number is not below the number
  of GPUs of the job does not reach the client: the call succeeds and the client's memory for this GPU is
  what it was.
\<close>
theorem remote_job_report_misses_gpu:
  assumes "emb_exec (sv_env e) (A_job_get_stats j (Some (sv_job e))) h = Some (RDC_ST_OK, O_job (Some i), h')"
    and "unat (ji_num_gpus i) \<le> length (ji_gpus i)" and "length (ji_gpus info) = length (ji_gpus i)"
    and "unat (ji_num_gpus i) \<le> unat g"
  shows "\<exists>i'. remote_exec Delivered e (A_job_get_stats j (Some info)) (Some h) = Some (RDC_ST_OK, O_job (Some i'), Some h')
    \<and> ji_gpus i' ! unat g = ji_gpus info ! unat g"
proof -
  have "fits (A_job_get_stats j (Some info)) (O_job (Some i))" using assms(2,3) by (simp add: fits_def)
  with remote_agrees [of e "A_job_get_stats j (Some info)" h] assms(1)
  have "remote_exec Delivered e (A_job_get_stats j (Some info)) (Some h) = Some (RDC_ST_OK, O_job (Some (carry_job i info)), Some h')"
    by (simp add: agrees_def carry_def)
  moreover have "ji_gpus (carry_job i info) ! unat g = ji_gpus info ! unat g"
    using assms(2-4) by (simp add: carry_job_def Let_def nth_append min_absorb2)
  ultimately show ?thesis by blast
qed


lemma report_gpus_length: "report_gpus b gg m info = Some (st, info') \<Longrightarrow> length (ji_gpus info') = length (ji_gpus info)"
proof (induction m arbitrary: info)
  case (Cons e m)
  then show ?case by (cases e) (fastforce simp: Let_def bind_eq_Some_conv split: if_splits option.splits dest: Cons.IH)
qed simp

lemma job_get_stats_length: "rdc_job_get_stats j gg now info c = Some (st, info') \<Longrightarrow> length (ji_gpus info') = length (ji_gpus info)"
  by (auto simp: rdc_job_get_stats_def Let_def split: option.splits if_splits dest!: report_gpus_length)

definition one_gpu_job :: cache_manager where
  "one_gpu_job = snd (rdc_job_start_stats ''job'' \<lparr>group_name = ''g'', entity_ids = [1]\<rparr>
     \<lparr>fgroup_name = ''f'', field_ids = [RDC_FI_GPU_TEMP]\<rparr> [] 7 cache_manager_init)"

definition one_gpu_handler :: "unit handler" where
  "one_gpu_handler = fresh_handler\<lparr>eh_watch := (eh_watch fresh_handler)\<lparr>ww_core := watch_core_init\<lparr>wt_cache := one_gpu_job\<rparr>\<rparr>\<rparr>"

lemma one_gpu_report:
  "\<exists>i. emb_exec (sv_env demo_server_env) (A_job_get_stats ''job'' (Some (sv_job demo_server_env))) one_gpu_handler
      = Some (RDC_ST_OK, O_job (Some i), one_gpu_handler) \<and> ji_num_gpus i = 1 \<and> length (ji_gpus i) = 16"
proof -
  let ?job = "\<lparr>je_start_time = 7, je_end_time = 0, je_gpu_stats = [(1, new_gpu_stats [] [RDC_FI_GPU_TEMP] 1)]\<rparr>"
  from get_gpu_gauges_ok [OF demo_readings, of 5000 one_gpu_handler] obtain gg where
    gg: "get_gpu_gauges (demo_handler_env 5000) one_gpu_handler = Some (RDC_ST_OK, gg, one_gpu_handler)"
    and m: "map_of gg (1, RDC_FI_GPU_MEMORY_TOTAL) = Some 65536" by (auto simp: two_gpu_numbers)
  have j: "map_of (cache_jobs one_gpu_job) ''job'' = Some ?job"
    by (simp add: one_gpu_job_def rdc_job_start_stats_def cache_manager_init_def map_insert_def map_erase_def)
  have l: "length (ji_gpus blank_job_info) = 16" by (simp add: blank_job_info_def Let_def)
  have "\<exists>i. rdc_job_get_stats ''job'' gg 5 blank_job_info one_gpu_job = Some (RDC_ST_OK, i) \<and> unat (ji_num_gpus i) = length (je_gpu_stats ?job)"
    using job_report_lemma [OF j, of gg blank_job_info 5] m l by (auto simp: map_wf_def gpu_reportable_def)
  then obtain i where i: "rdc_job_get_stats ''job'' gg 5 blank_job_info one_gpu_job = Some (RDC_ST_OK, i)" "unat (ji_num_gpus i) = 1" by auto
  have "ji_num_gpus i = 1" using i(2) by (metis unsigned_1 unsigned_word_eqI)
  moreover have "length (ji_gpus i) = 16" using job_get_stats_length [OF i(1)] l by simp
  moreover have "emb_exec (sv_env demo_server_env) (A_job_get_stats ''job'' (Some (sv_job demo_server_env))) one_gpu_handler
      = Some (RDC_ST_OK, O_job (Some i), one_gpu_handler)"
    using gg i(1) by (simp add: out_with_def emb_job_get_stats_def with_gauges_def demo_server_env_def)
      (simp add: one_gpu_handler_def demo_handler_env_def)
  ultimately show ?thesis by blast
qed

theorem remote_job_report_misses_gpu_witness:
  "\<exists>i'. remote_exec Delivered demo_server_env (A_job_get_stats ''job'' (Some blank_job_info)) (Some one_gpu_handler)
      = Some (RDC_ST_OK, O_job (Some i'), Some one_gpu_handler) \<and> ji_gpus i' ! 1 = blank_usage"
proof -
  from one_gpu_report obtain i where i: "emb_exec (sv_env demo_server_env) (A_job_get_stats ''job'' (Some (sv_job demo_server_env))) one_gpu_handler
      = Some (RDC_ST_OK, O_job (Some i), one_gpu_handler)" "ji_num_gpus i = 1" "length (ji_gpus i) = 16" by blast
  from remote_job_report_misses_gpu [OF i(1), of blank_job_info 1] i(2,3) show ?thesis
    by (simp add: blank_job_info_def Let_def)
qed

text \<open>
  The service blanks out the tail of a text that is fetched by time stamp, but not of one that is fetched as
  the latest value.
\<close>

lemma cut_blanks_trims:
  assumes "CHR 0x00 \<notin> set s" and "s = [] \<or> last s \<noteq> CHR '' ''"
  shows "c_string (cut_blanks (s @ replicate k CHR '' '')) = s" and "c_string (s @ replicate k CHR '' '') = s @ replicate k CHR '' ''"
proof -
  have "dropWhile (\<lambda>c. c = CHR '' '') (rev (s @ replicate k CHR '' '')) = rev s"
    using assms(2) by (cases s rule: rev_cases) (auto simp: dropWhile_append3)
  then have "cut_blanks (s @ replicate k CHR '' '') = (s @ replicate k CHR '' '')[length s := CHR 0x00]"
    by (simp add: cut_blanks_def)
  then show "c_string (cut_blanks (s @ replicate k CHR '' '')) = s"
    using assms(1) by (cases k) (auto simp: c_string_def takeWhile_append list_update_append list_update_beyond takeWhile_eq_all_conv)
  show "c_string (s @ replicate k CHR '' '') = s @ replicate k CHR '' ''"
    using assms(1) by (auto simp: c_string_def takeWhile_eq_all_conv)
qed

section \<open>Null handles and null pointers\<close>



text \<open>
  The usage record of a GPU survives the connection: what the service packs and the client unpacks
  is the record, in every one of its members, whatever the client's memory held.
\<close>
theorem usage_info_roundtrip: "unpack_usage (pack_usage u) t = u"
  by (rule unpack_pack_usage)

end
