(* ===== verification/Rdci_Properties.thy ===== *)
theory Rdci_Properties
  imports Rdci_Dmon Rdc_Remote
begin

text \<open>
  What \<^verbatim>\<open>dmon\<close> reports of the events that the daemon has cached. The interface it relies on is the locale
  \<open>event_source\<close>, interpreted on the remote session.
\<close>

declare status_code.simps [simp del]

section \<open>Reading events\<close>

text \<open>
  What \<^verbatim>\<open>dmon\<close> relies on: a call returns the first event from the cursor on and the next cursor. An event is the field, the time
  stamp, the type and the value; \<open>sent\<close> is what the source makes of a cached entry of a field.
\<close>

definition event_of :: "rdc_field_value \<Rightarrow> u32 \<times> u64 \<times> rdc_field_type \<times> rdc_field_value_data" where
  "event_of v = (fv_field_id v, fv_ts v, fv_type v, fv_value v)"

lemma collect_cons: "collect_new_notifs api b (g # gs) fs ns = bind_cmd (collect_new_notifs api b [g] fs ns) (collect_new_notifs api b gs fs)"
  by (rule ext) (simp add: collect_new_notifs_def bind_cmd_def ret_def split: option.split sum.split)

locale event_source =
  fixes api :: "'w api" and evs :: "'w \<Rightarrow> u32 \<Rightarrow> u32 \<Rightarrow> cache_entry list" and served :: "'w \<Rightarrow> u32 \<Rightarrow> bool"
    and sent :: "u32 \<Rightarrow> cache_entry \<Rightarrow> u32 \<times> u64 \<times> rdc_field_type \<times> rdc_field_value_data"
  assumes event: "served w f \<Longrightarrow> scan_since t (evs w g f) = Some (e, n) \<Longrightarrow>
      \<exists>v'. api (A_field_get_value_since g f t (Some m) (Some v)) w = Some (RDC_ST_OK, O_since (Some n) (Some v'), w) \<and> event_of v' = sent f e"
    and no_event: "served w f \<Longrightarrow> scan_since t (evs w g f) = None \<Longrightarrow>
      \<exists>m' v'. api (A_field_get_value_since g f t (Some m) (Some v)) w = Some (RDC_ST_NOT_FOUND, O_since (Some m') (Some v'), w)"
begin

lemma drain_event:
  assumes "served (cl_world s) f" and "scan_since (ns_ts ns ! i) (evs (cl_world s) g f) = Some (e, n)"
  shows "\<exists>v'. event_of v' = sent f e \<and> drain_notifs api has_pq g f i ns s
    = drain_notifs api has_pq g f i (take_notif has_pq g i (ns\<lparr>ns_next := n, ns_value := v'\<rparr>)) s"
proof -
  from event [OF assms] obtain v' where
    "api (A_field_get_value_since g f (ns_ts ns ! i) (Some (ns_next ns)) (Some (ns_value ns))) (cl_world s)
       = Some (RDC_ST_OK, O_since (Some n) (Some v'), cl_world s)" "event_of v' = sent f e" by blast
  then show ?thesis by (intro exI [of _ v']) (subst drain_notifs.simps, simp add: call_def since_out_def)
qed

lemma drain_end:
  assumes "served (cl_world s) f" and "scan_since (ns_ts ns ! i) (evs (cl_world s) g f) = None"
  shows "\<exists>m v. drain_notifs api has_pq g f i ns s = Some (Inr (ns\<lparr>ns_next := m, ns_value := v\<rparr>), s)"
proof -
  from no_event [OF assms] obtain m v where
    "api (A_field_get_value_since g f (ns_ts ns ! i) (Some (ns_next ns)) (Some (ns_value ns))) (cl_world s)
       = Some (RDC_ST_NOT_FOUND, O_since (Some m) (Some v), cl_world s)" by blast
  then show ?thesis by (intro exI [of _ m] exI [of _ v]) (subst drain_notifs.simps, simp add: call_def since_out_def)
qed

end

text \<open>The events from the cursor on, and where the cursor is when they have been read.\<close>

definition events_from :: "u64 \<Rightarrow> cache_entry list \<Rightarrow> u64 list" where
  "events_from t es = map ce_last_time (filter (\<lambda>e. t \<le> ce_last_time e) es)"

definition cursor_after :: "u64 \<Rightarrow> cache_entry list \<Rightarrow> u64" where
  "cursor_after t es = (if events_from t es = [] then t else last (events_from t es) + 1)"

definition pending :: "u64 \<Rightarrow> cache_entry list \<Rightarrow> cache_entry list" where
  "pending t es = filter (\<lambda>e. t \<le> ce_last_time e) es"

abbreviation queued :: "(u32 \<times> rdc_field_value) list \<Rightarrow> (u32 \<times> u32 \<times> u64 \<times> rdc_field_type \<times> rdc_field_value_data) list" where
  "queued pq \<equiv> map (\<lambda>(g, v). (g, event_of v)) pq"

lemma events_from_step:
  assumes "times_increasing es" and "scan_since t es = Some (e, n)"
  shows "events_from t es = ce_last_time e # events_from n es" and "cursor_after t es = cursor_after n es" and "pending t es = e # pending n es"
proof -
  note f = scan_since_filter [OF assms]
  then show "pending t es = e # pending n es" by (simp add: pending_def)
  from f show ev: "events_from t es = ce_last_time e # events_from n es" by (simp add: events_from_def)
  show "cursor_after t es = cursor_after n es"
  proof (cases "events_from n es = []")
    case False
    then show ?thesis by (simp add: cursor_after_def ev)
  next
    case True
    from scan_since_SomeD [OF assms(2)] obtain pre post where es: "es = pre @ e # post"
      and n: "n = (case post of [] \<Rightarrow> ce_last_time e + 1 | e' # _ \<Rightarrow> ce_last_time e')" by blast
    have "post = []"
    proof (cases post)
      case (Cons e' p)
      then have "e' \<in> set es" "n \<le> ce_last_time e'" using es n by simp_all
      with True show ?thesis by (auto simp: events_from_def filter_empty_conv)
    qed simp
    with n ev True show ?thesis by (simp add: cursor_after_def)
  qed
qed

context event_source
begin

lemma drain_all:
  assumes w: "served (cl_world s) f" "times_increasing (evs (cl_world s) g f)" and "i < length (ns_ts ns)"
  shows "\<exists>ns'. drain_notifs api has_pq g f i ns s = Some (Inr ns', s)
    \<and> ns_ts ns' = (ns_ts ns)[i := cursor_after (ns_ts ns ! i) (evs (cl_world s) g f)]
    \<and> queued (ns_pq ns') = queued (ns_pq ns) @ (if has_pq then map (\<lambda>x. (g, sent f x)) (pending (ns_ts ns ! i) (evs (cl_world s) g f)) else [])"
  using assms(3)
proof (induction "length (events_from (ns_ts ns ! i) (evs (cl_world s) g f))" arbitrary: ns)
  case 0
  then have n: "scan_since (ns_ts ns ! i) (evs (cl_world s) g f) = None" and e: "events_from (ns_ts ns ! i) (evs (cl_world s) g f) = []"
    by (auto simp: events_from_def scan_since_None filter_empty_conv not_le)
  from drain_end [OF w(1) n, of has_pq] obtain m v where d: "drain_notifs api has_pq g f i ns s = Some (Inr (ns\<lparr>ns_next := m, ns_value := v\<rparr>), s)" by blast
  from e have p: "pending (ns_ts ns ! i) (evs (cl_world s) g f) = []" by (simp add: events_from_def pending_def)
  show ?case by (intro exI conjI, rule d) (simp_all add: cursor_after_def e p)
next
  case (Suc k)
  let ?es = "evs (cl_world s) g f"
  from Suc.hyps(2) have "scan_since (ns_ts ns ! i) ?es \<noteq> None" by (auto simp: scan_since_None events_from_def not_le [symmetric] filter_empty_conv [symmetric])
  then obtain e n where sc: "scan_since (ns_ts ns ! i) ?es = Some (e, n)" by (cases "scan_since (ns_ts ns ! i) ?es") auto
  note ev = events_from_step [OF w(2) sc]
  from drain_event [OF w(1) sc, of has_pq] obtain v where v: "event_of v = sent f e" and
    d: "drain_notifs api has_pq g f i ns s = drain_notifs api has_pq g f i (take_notif has_pq g i (ns\<lparr>ns_next := n, ns_value := v\<rparr>)) s" by blast
  let ?ns = "take_notif has_pq g i (ns\<lparr>ns_next := n, ns_value := v\<rparr>)"
  have ts: "ns_ts ?ns = (ns_ts ns)[i := n]" "ns_ts ?ns ! i = n" using Suc.prems by (simp_all add: take_notif_def)
  have pq: "queued (ns_pq ?ns) = queued (ns_pq ns) @ (if has_pq then [(g, sent f e)] else [])" using v by (simp add: take_notif_def)
  have "k = length (events_from (ns_ts ?ns ! i) ?es)" using Suc.hyps(2) ev(1) ts(2) by simp
  from Suc.hyps(1) [OF this] Suc.prems ts(1) obtain ns' where "drain_notifs api has_pq g f i ?ns s = Some (Inr ns', s)"
    "ns_ts ns' = (ns_ts ?ns)[i := cursor_after n ?es]"
    "queued (ns_pq ns') = queued (ns_pq ?ns) @ (if has_pq then map (\<lambda>x. (g, sent f x)) (pending n ?es) else [])" unfolding ts(2) by auto
  with d ts(1) pq ev show ?case by (intro exI [of _ ns']) simp
qed

lemma drain_stuck:
  fixes e t
  defines "stuck \<equiv> \<lambda>g f i ns s. served (cl_world s) f \<and> i < length (ns_ts ns)
      \<and> scan_since (ns_ts ns ! i) (evs (cl_world s) g f) = Some (e, t) \<and> scan_since t (evs (cl_world s) g f) = Some (e, t)"
  assumes "drain_notifs api has_pq g f i ns s = Some r"
  shows "\<not> stuck g f i ns s"
proof -
  have "api' = api \<longrightarrow> \<not> stuck g f i ns s" if "drain_notifs api' has_pq g f i ns s = Some r" for api'
  proof (rule drain_notifs.raw_induct [OF _ that, where P = "\<lambda>api' _ g f i ns s _. api' = api \<longrightarrow> \<not> stuck g f i ns s"], intro impI notI)
    fix dr :: "'w api \<Rightarrow> bool \<Rightarrow> u32 \<Rightarrow> u32 \<Rightarrow> nat \<Rightarrow> notif_state \<Rightarrow> 'w cli \<Rightarrow> ((cli_exc + notif_state) \<times> 'w cli) option"
    fix api' has_pq g f i ns s r
    assume IH: "\<And>api' has_pq g f i ns s r. dr api' has_pq g f i ns s = Some r \<Longrightarrow> api' = api \<longrightarrow> \<not> stuck g f i ns s"
      and body: "(case call api' (A_field_get_value_since g f (ns_ts ns ! i) (Some (ns_next ns)) (Some (ns_value ns))) s of
        None \<Rightarrow> None
      | Some (Inl x, s') \<Rightarrow> Some (Inl x, s')
      | Some (Inr (st, out), s') \<Rightarrow>
          if st = RDC_ST_NOT_FOUND then Some (Inr (since_out out ns), s')
          else if st = RDC_ST_OK then dr api' has_pq g f i (take_notif has_pq g i (since_out out ns)) s'
          else Some (Inl (Rdc_exception st ''rdc_field_get_value_since() failed''), s')) = Some r"
      and a: "api' = api" "stuck g f i ns s"
    from a(2) have b: "served (cl_world s) f" "scan_since (ns_ts ns ! i) (evs (cl_world s) g f) = Some (e, t)" by (simp_all add: stuck_def)
    from event [OF b] obtain v' where "api (A_field_get_value_since g f (ns_ts ns ! i) (Some (ns_next ns)) (Some (ns_value ns))) (cl_world s)
       = Some (RDC_ST_OK, O_since (Some t) (Some v'), cl_world s)" by blast
    with body a(1) have "dr api has_pq g f i (take_notif has_pq g i (ns\<lparr>ns_next := t, ns_value := v'\<rparr>)) s = Some r"
      by (simp add: call_def since_out_def)
    from IH [OF this] a show False by (simp add: take_notif_def stuck_def)
  qed
  then show ?thesis using assms(2) by blast
qed

lemma drain_hangs:
  assumes "served (cl_world s) f" and es: "evs (cl_world s) g f = pre @ a # b # post" and "ce_last_time b = ce_last_time a"
    and "sorted_wrt (<) (map ce_last_time (pre @ [a]))" and "ns_ts ns ! i \<le> ce_last_time a" and "i < length (ns_ts ns)"
  shows "drain_notifs api has_pq g f i ns s = None"
  using assms(5,6)
proof (induction "length (filter (\<lambda>x. ns_ts ns ! i \<le> ce_last_time x) pre)" arbitrary: ns)
  case 0
  then have p: "\<forall>x\<in>set pre. ce_last_time x < ns_ts ns ! i" by (simp add: filter_empty_conv not_le)
  have "scan_since t (evs (cl_world s) g f) = Some (a, ce_last_time a)" if "ns_ts ns ! i \<le> t" "t \<le> ce_last_time a" for t
    unfolding es using p assms(3) that by (induction pre) auto
  with drain_stuck [of has_pq g f i ns s _ a "ce_last_time a"] assms(1) 0 show ?case
    by (cases "drain_notifs api has_pq g f i ns s") auto
next
  case (Suc k)
  then obtain us x vs where pre: "pre = us @ x # vs" and us: "\<forall>u\<in>set us. ce_last_time u < ns_ts ns ! i" and x: "ns_ts ns ! i \<le> ce_last_time x"
    and k: "k = length (filter (\<lambda>x. ns_ts ns ! i \<le> ce_last_time x) vs)"
    using filter_eq_ConsD [of "\<lambda>x. ns_ts ns ! i \<le> ce_last_time x" pre]
    by (cases "filter (\<lambda>x. ns_ts ns ! i \<le> ce_last_time x) pre") (auto simp: not_le)
  define n where "n = ce_last_time (hd (vs @ [a]))"
  have so: "\<forall>v\<in>set (vs @ [a]). ce_last_time x < ce_last_time v" "\<forall>v\<in>set (vs @ [a]). n \<le> ce_last_time v"
    using assms(4) unfolding pre n_def by (cases vs; auto simp: sorted_wrt_append)+
  have "scan_since (ns_ts ns ! i) (evs (cl_world s) g f) = Some (x, n)"
    unfolding es pre n_def using us x by (induction us) (auto, cases vs, auto)
  from drain_event [OF assms(1) this, of has_pq] obtain v where
    d: "drain_notifs api has_pq g f i ns s = drain_notifs api has_pq g f i (take_notif has_pq g i (ns\<lparr>ns_next := n, ns_value := v\<rparr>)) s" by blast
  let ?ns = "take_notif has_pq g i (ns\<lparr>ns_next := n, ns_value := v\<rparr>)"
  have ts: "ns_ts ?ns ! i = n" "i < length (ns_ts ?ns)" using Suc.prems by (simp_all add: take_notif_def)
  have xn: "ce_last_time x < n" using so(1) by (simp add: n_def) (metis hd_in_set so(1) snoc_eq_iff_butlast)
  have "filter (\<lambda>x. n \<le> ce_last_time x) pre = vs" "filter (\<lambda>x. ns_ts ns ! i \<le> ce_last_time x) vs = vs"
    using us x xn so unfolding pre by (auto simp: filter_empty_conv filter_id_conv not_le)
  then have "k = length (filter (\<lambda>x. ns_ts ?ns ! i \<le> ce_last_time x) pre)" using k ts by simp
  from Suc.hyps(1) [OF this] ts so(2) show ?case using d by simp
qed

lemma collect_fields:
  assumes "\<forall>f\<in>set fs. served (cl_world s) f \<and> times_increasing (evs (cl_world s) g f)" and "length (ns_ts ns) = k + length fs"
  shows "\<exists>ns'. fold_cmd (\<lambda>(i, f). drain_notifs api has_pq g f i) (enumerate k fs) ns s = Some (Inr ns', s)
    \<and> ns_ts ns' = take k (ns_ts ns) @ map2 (\<lambda>t f. cursor_after t (evs (cl_world s) g f)) (drop k (ns_ts ns)) fs
    \<and> queued (ns_pq ns') = queued (ns_pq ns) @ (if has_pq then concat (map2 (\<lambda>t f. map (\<lambda>x. (g, sent f x)) (pending t (evs (cl_world s) g f))) (drop k (ns_ts ns)) fs) else [])"
  using assms
proof (induction fs arbitrary: k ns)
  case (Cons f fs)
  have k: "k < length (ns_ts ns)" using Cons.prems(2) by simp
  from drain_all [of s f g k ns has_pq] Cons.prems(1) k obtain ns1 where
    d: "drain_notifs api has_pq g f k ns s = Some (Inr ns1, s)"
    and ts: "ns_ts ns1 = (ns_ts ns)[k := cursor_after (ns_ts ns ! k) (evs (cl_world s) g f)]"
    and pq: "queued (ns_pq ns1) = queued (ns_pq ns) @ (if has_pq then map (\<lambda>x. (g, sent f x)) (pending (ns_ts ns ! k) (evs (cl_world s) g f)) else [])" by auto
  from Cons.IH [of "ns1" "Suc k"] Cons.prems ts obtain ns' where
    "fold_cmd (\<lambda>(i, f). drain_notifs api has_pq g f i) (enumerate (Suc k) fs) ns1 s = Some (Inr ns', s)"
    "ns_ts ns' = take (Suc k) (ns_ts ns1) @ map2 (\<lambda>t f. cursor_after t (evs (cl_world s) g f)) (drop (Suc k) (ns_ts ns)) fs"
    "queued (ns_pq ns') = queued (ns_pq ns1) @ (if has_pq then concat (map2 (\<lambda>t f. map (\<lambda>x. (g, sent f x)) (pending t (evs (cl_world s) g f))) (drop (Suc k) (ns_ts ns)) fs) else [])"
    by auto
  moreover have "drop k (ns_ts ns) = ns_ts ns ! k # drop (Suc k) (ns_ts ns)" "take (Suc k) (ns_ts ns1) = take k (ns_ts ns) @ [cursor_after (ns_ts ns ! k) (evs (cl_world s) g f)]"
    using k by (simp_all add: Cons_nth_drop_Suc ts take_Suc_conv_app_nth)
  ultimately show ?case using d pq by (intro exI [of _ ns']) (simp add: bind_cmd_def)
qed (auto simp: ret_def)

lemma collect_gpu:
  assumes "\<forall>f\<in>set fs. served (cl_world s) f \<and> times_increasing (evs (cl_world s) g f)" and "length (ns_ts ns) = length fs"
  shows "\<exists>ns'. collect_new_notifs api has_pq [g] fs ns s = Some (Inr ns', s)
    \<and> ns_ts ns' = map2 (\<lambda>t f. cursor_after t (evs (cl_world s) g f)) (ns_ts ns) fs
    \<and> queued (ns_pq ns') = queued (ns_pq ns) @ (if has_pq then concat (map2 (\<lambda>t f. map (\<lambda>x. (g, sent f x)) (pending t (evs (cl_world s) g f))) (ns_ts ns) fs) else [])"
  using collect_fields [OF assms(1), of ns 0 has_pq] assms(2) by (auto simp: collect_new_notifs_def bind_cmd_def ret_def)

lemma collect_two_gpus:
  assumes "served (cl_world s) f" and "times_increasing (evs (cl_world s) g1 f)" and "times_increasing (evs (cl_world s) g2 f)"
    and "ns_ts ns = [t]" and c: "c = cursor_after t (evs (cl_world s) g1 f)"
  shows "\<exists>ns'. collect_new_notifs api True [g1, g2] [f] ns s = Some (Inr ns', s)
    \<and> queued (ns_pq ns') = queued (ns_pq ns) @ map (\<lambda>x. (g1, sent f x)) (pending t (evs (cl_world s) g1 f)) @ map (\<lambda>x. (g2, sent f x)) (pending c (evs (cl_world s) g2 f))"
proof -
  from collect_gpu [of "[f]" s g1 ns True] assms obtain ns1 where
    c1: "collect_new_notifs api True [g1] [f] ns s = Some (Inr ns1, s)" and n1: "ns_ts ns1 = [c]"
      "queued (ns_pq ns1) = queued (ns_pq ns) @ map (\<lambda>x. (g1, sent f x)) (pending t (evs (cl_world s) g1 f))" by auto
  from collect_gpu [of "[f]" s g2 ns1 True] assms n1(1) obtain ns2 where
    c2: "collect_new_notifs api True [g2] [f] ns1 s = Some (Inr ns2, s)"
    and n2: "queued (ns_pq ns2) = queued (ns_pq ns1) @ map (\<lambda>x. (g2, sent f x)) (pending c (evs (cl_world s) g2 f))" by auto
  have "collect_new_notifs api True [g1, g2] [f] ns s = Some (Inr ns2, s)"
    using c1 c2 collect_cons [of api True g1 "[g2]" "[f]" ns] by (simp add: bind_cmd_def)
  with n1 n2 show ?thesis by (intro exI [of _ ns2]) simp
qed

end

lemma cursor_past_events:
  assumes "times_increasing es" shows "events_from (cursor_after t es) es = []"
proof (cases "events_from t es = []")
  case False
  let ?l = "filter (\<lambda>e. t \<le> ce_last_time e) es"
  have l: "?l \<noteq> []" using False by (simp add: events_from_def)
  then have last: "last (events_from t es) = ce_last_time (last ?l)" "last ?l \<in> set es" using last_in_set [OF l] by (auto simp: events_from_def last_map)
  have "ce_last_time x \<le> ce_last_time (last ?l)" if "x \<in> set es" "t \<le> ce_last_time x" for x
  proof -
    have "sorted_wrt (\<lambda>a b. ce_last_time a < ce_last_time b) ?l"
      using assms by (simp add: times_increasing_def sorted_wrt_map sorted_wrt_filter)
    moreover have "x \<in> set ?l" using that by simp
    ultimately show ?thesis using l by (cases ?l rule: rev_cases) (auto simp: sorted_wrt_append)
  qed
  moreover have up: "ce_last_time (last ?l) < ce_last_time (last ?l) + 1"
    using assms last(2) word_le_less_plus_one [of "ce_last_time (last ?l)" "ce_last_time (last ?l)"] by (auto simp: times_increasing_def)
  ultimately have past: "\<not> ce_last_time (last ?l) + 1 \<le> ce_last_time x" if "x \<in> set es" "t \<le> ce_last_time x" for x
    using that by (meson le_less_trans not_le)
  have "\<not> ce_last_time (last ?l) + 1 \<le> ce_last_time x" if x: "x \<in> set es" for x
  proof (cases "t \<le> ce_last_time x")
    case False
    have "t \<le> ce_last_time (last ?l)" using last_in_set [OF l] by simp
    with False up show ?thesis by (meson le_less_trans less_imp_le not_le order_trans)
  qed (rule past [OF x])
  then show ?thesis using False last(1) by (simp add: events_from_def cursor_after_def filter_empty_conv)
qed (simp add: cursor_after_def)

lemma pending_Nil: "pending t es = [] \<longleftrightarrow> events_from t es = []"
  by (simp add: pending_def events_from_def)

subsection \<open>The remote session as a source of events\<close>

text \<open>What the client gets of a cached entry: the number, or the text without its trailing blanks.\<close>

definition cached_value :: "u32 \<Rightarrow> cache_entry \<Rightarrow> rdc_field_value" where
  "cached_value f ce = blank_value\<lparr>fv_ts := ce_last_time ce, fv_type := ce_type ce,
     fv_value := (if ce_type ce = STRING then Str (strncpy_with_null [] (c_str (ce_value ce)) RDC_MAX_STR_LENGTH) else L_int (l_int (ce_value ce))),
     fv_field_id := f\<rparr>"

definition remote_event :: "u32 \<Rightarrow> cache_entry \<Rightarrow> u32 \<times> u64 \<times> rdc_field_type \<times> rdc_field_value_data" where
  "remote_event f ce = event_of (seen_value cut_blanks (cached_value f ce))"

abbreviation cached_events :: "'r handler option \<times> dmon_cmd \<Rightarrow> u32 \<Rightarrow> u32 \<Rightarrow> cache_entry list" where
  "cached_events w g f \<equiv> (case fst w of Some h \<Rightarrow> samples (wt_cache (ww_core (eh_watch h))) (g, f) | None \<Rightarrow> [])"

interpretation remote_events: event_source "on_session (remote_exec Delivered e)" cached_events "\<lambda>w f. fst w \<noteq> None \<and> is_field_valid f" remote_event for e :: "'r server_env"
proof
  fix w :: "'r handler option \<times> dmon_cmd" and f t g ce n m v
  assume f: "fst w \<noteq> None \<and> is_field_valid f"
  then obtain h co where w: "w = (Some h, co)" by (cases w) auto
  let ?c = "A_field_get_value_since g f t (Some m) (Some v)"
  show "\<exists>v'. on_session (remote_exec Delivered e) ?c w = Some (RDC_ST_OK, O_since (Some n) (Some v'), w) \<and> event_of v' = remote_event f ce"
    if "scan_since t (cached_events w g f) = Some (ce, n)"
  proof -
    from that w f obtain v1 where "emb_exec (sv_env e) (server_call e ?c) h = Some (RDC_ST_OK, O_since (Some n) (Some v1), h)"
        "fv_ts v1 = ce_last_time ce" "fv_type v1 = ce_type ce" "fv_field_id v1 = f" "fv_value v1 = fv_value (cached_value f ce)"
      by (auto simp: cached_value_def look_def emb_field_get_value_since_def get_value_since_scan)
    with remote_agrees [of e ?c h] w show ?thesis
      by (auto simp: agrees_def fits_def carry_def on_session_def seen_value_def remote_event_def event_of_def cached_value_def split: rdc_field_type.split)
  qed
  show "\<exists>m' v'. on_session (remote_exec Delivered e) ?c w = Some (RDC_ST_NOT_FOUND, O_since (Some m') (Some v'), w)"
    if "scan_since t (cached_events w g f) = None"
    using that w f by (simp add: on_session_def remote_simps look_def emb_field_get_value_since_def get_value_since_scan)
qed

abbreviation events_of :: "'r handler \<Rightarrow> u32 \<Rightarrow> u32 \<Rightarrow> cache_entry list" where
  "events_of h g f \<equiv> samples (wt_cache (ww_core (eh_watch h))) (g, f)"

definition demo_event :: "u64 \<Rightarrow> cache_entry" where
  "demo_event t = \<lparr>ce_last_time = t, ce_type = STRING, ce_value = Str ''fault''\<rparr>"

definition event_handler :: "u64 list \<Rightarrow> u64 list \<Rightarrow> unit handler" where
  "event_handler l1 l2 = fresh_handler\<lparr>eh_watch := (eh_watch fresh_handler)\<lparr>ww_core := watch_core_init\<lparr>wt_cache :=
     \<lparr>cache_samples = [((0, RDC_EVNT_NOTIF_VMFAULT), map demo_event l1), ((1, RDC_EVNT_NOTIF_VMFAULT), map demo_event l2)],
      cache_jobs = []\<rparr>\<rparr>\<rparr>\<rparr>"

definition demo_cli :: "'w \<Rightarrow> 'w cli" where
  "demo_cli w = \<lparr>cl_world = w, cl_out = [], cl_json = False\<rparr>"

definition no_notifs :: "u64 list \<Rightarrow> notif_state" where
  "no_notifs ts = \<lparr>ns_next = 0, ns_value = blank_value, ns_ts = ts, ns_pq = []\<rparr>"

lemma event_handler_events [simp]:
  "events_of (event_handler l1 l2) 0 RDC_EVNT_NOTIF_VMFAULT = map demo_event l1"
  "events_of (event_handler l1 l2) 1 RDC_EVNT_NOTIF_VMFAULT = map demo_event l2"
  by (simp_all add: event_handler_def samples_def)

lemma vmfault_valid: "is_field_valid RDC_EVNT_NOTIF_VMFAULT"
  by (simp add: is_field_valid_iff field_id_to_descript_def)

lemma remote_demo_event: "remote_event f (demo_event t) = (f, t, STRING, Str ''fault'')"
  by (simp add: remote_event_def event_of_def seen_value_def cached_value_def demo_event_def blank_value_def strncpy_with_null_def RDC_MAX_STR_LENGTH_def
      cut_blanks_def c_string_def)

lemmas demo_event_simps = remote_demo_event [unfolded demo_event_def] pending_def demo_cli_def no_notifs_def demo_event_def events_from_def cursor_after_def times_increasing_def vmfault_valid

text \<open>
  (C20) One round of \<^verbatim>\<open>dmon\<close> over a GPU whose cached events have strictly increasing time stamps, field by field, ends and queues every cached event of each notification field from the
  field's cursor on, in the order of their time stamps, with its field, time, type and value, and nothing else; with the cursors it leaves, the
  next round over the same cache queues nothing. The messages are delivered and the fields valid. With two events of the same
  time stamp the round does not end.
\<close>
theorem dmon_reports_events_once:
  fixes e :: "'r server_env"
  assumes "cl_world s = (Some h, co)" and "\<forall>f\<in>set fs. is_field_valid f \<and> times_increasing (events_of h g f)" and "length (ns_ts ns) = length fs"
  shows "\<exists>ns'. collect_new_notifs (on_session (remote_exec Delivered e)) True [g] fs ns s = Some (Inr ns', s)
    \<and> queued (ns_pq ns') = queued (ns_pq ns) @ concat (map2 (\<lambda>t f. map (\<lambda>x. (g, remote_event f x)) (pending t (events_of h g f))) (ns_ts ns) fs)
    \<and> (\<exists>ns2. collect_new_notifs (on_session (remote_exec Delivered e)) True [g] fs ns' s = Some (Inr ns2, s) \<and> queued (ns_pq ns2) = queued (ns_pq ns'))"
proof -
  have a: "\<forall>f\<in>set fs. (fst (cl_world s) \<noteq> None \<and> is_field_valid f) \<and> times_increasing (cached_events (cl_world s) g f)" using assms by simp
  from remote_events.collect_gpu [OF a assms(3), of e True] assms(1) obtain ns' where
    c: "collect_new_notifs (on_session (remote_exec Delivered e)) True [g] fs ns s = Some (Inr ns', s)"
    and t: "ns_ts ns' = map2 (\<lambda>t f. cursor_after t (events_of h g f)) (ns_ts ns) fs"
    and p: "queued (ns_pq ns') = queued (ns_pq ns) @ concat (map2 (\<lambda>t f. map (\<lambda>x. (g, remote_event f x)) (pending t (events_of h g f))) (ns_ts ns) fs)" by auto
  have l: "length (ns_ts ns') = length fs" using t assms(3) by simp
  have "concat (map2 (\<lambda>t f. map (\<lambda>x. (g, remote_event f x)) (pending t (events_of h g f))) (ns_ts ns') fs) = []"
    using assms(2) unfolding t by (auto simp: in_set_zip pending_Nil cursor_past_events)
  with remote_events.collect_gpu [OF a l, of e True] assms(1) c p show ?thesis by auto
qed

theorem dmon_reports_events_once_witness:
  "\<exists>ns'. collect_new_notifs (on_session (remote_exec Delivered demo_server_env)) True [0] [RDC_EVNT_NOTIF_VMFAULT] (no_notifs [20])
      (demo_cli (Some (event_handler [10, 20, 30] []), new_dmon_cmd)) = Some (Inr ns', demo_cli (Some (event_handler [10, 20, 30] []), new_dmon_cmd))
    \<and> queued (ns_pq ns') = [(0, RDC_EVNT_NOTIF_VMFAULT, 20, STRING, Str ''fault''), (0, RDC_EVNT_NOTIF_VMFAULT, 30, STRING, Str ''fault'')]"
  using dmon_reports_events_once [of "demo_cli (Some (event_handler [10, 20, 30] []), new_dmon_cmd)" "event_handler [10, 20, 30] []" new_dmon_cmd
      "[RDC_EVNT_NOTIF_VMFAULT]" 0 "no_notifs [20]" demo_server_env]
  by (auto simp: demo_event_simps)

text \<open>
  All GPUs of a group share the cursor of a field. Of the events of the second GPU a round reports those
  after the last event of the first GPU only: an event of the second GPU that is not newer is lost, although
  it arrived since the last round.
\<close>
theorem dmon_drops_events_of_second_gpu:
  fixes e :: "'r server_env"
  assumes "cl_world s = (Some h, co)" and "is_field_valid f" and "times_increasing (events_of h g1 f)" and "times_increasing (events_of h g2 f)"
    and "ns_ts ns = [t]" and "events_from t (events_of h g1 f) \<noteq> []"
  shows "\<exists>ns'. collect_new_notifs (on_session (remote_exec Delivered e)) True [g1, g2] [f] ns s = Some (Inr ns', s)
    \<and> queued (ns_pq ns') = queued (ns_pq ns) @ map (\<lambda>x. (g1, remote_event f x)) (pending t (events_of h g1 f))
        @ map (\<lambda>x. (g2, remote_event f x)) (pending (last (events_from t (events_of h g1 f)) + 1) (events_of h g2 f))"
  using remote_events.collect_two_gpus [of s f g1 g2 ns t _ e] assms by (auto simp: cursor_after_def)

theorem dmon_drops_events_of_second_gpu_witness:
  "\<exists>ns'. collect_new_notifs (on_session (remote_exec Delivered demo_server_env)) True [0, 1] [RDC_EVNT_NOTIF_VMFAULT] (no_notifs [5])
      (demo_cli (Some (event_handler [30] [10, 40]), new_dmon_cmd)) = Some (Inr ns', demo_cli (Some (event_handler [30] [10, 40]), new_dmon_cmd))
    \<and> queued (ns_pq ns') = [(0, RDC_EVNT_NOTIF_VMFAULT, 30, STRING, Str ''fault''), (1, RDC_EVNT_NOTIF_VMFAULT, 40, STRING, Str ''fault'')]"
  using dmon_drops_events_of_second_gpu [of "demo_cli (Some (event_handler [30] [10, 40]), new_dmon_cmd)" "event_handler [30] [10, 40]" new_dmon_cmd
      RDC_EVNT_NOTIF_VMFAULT 0 1 "no_notifs [5]" 5 demo_server_env]
  by (auto simp: demo_event_simps)

text \<open>
  Two consecutive events of a GPU with the same time stamp, in milliseconds, make \<^verbatim>\<open>dmon\<close> hang: the loop that
  reads the events of the field gets the first of the two again and again and has no result.
\<close>
theorem dmon_hangs_on_equal_stamps:
  fixes e :: "'r server_env"
  assumes "cl_world s = (Some h, co)" and "is_field_valid f" and "events_of h g f = pre @ a # b # post"
    and "sorted_wrt (<) (map ce_last_time (pre @ [a]))" and "ce_last_time b = ce_last_time a" and "ns_ts ns = t # ts" and "t \<le> ce_last_time a"
  shows "collect_new_notifs (on_session (remote_exec Delivered e)) has_pq (g # gs) (f # fs) ns s = None"
proof -
  have "drain_notifs (on_session (remote_exec Delivered e)) has_pq g f 0 ns s = None"
    by (rule remote_events.drain_hangs [of s f g pre a b post]) (use assms in simp_all)
  then show ?thesis by (simp add: collect_new_notifs_def bind_cmd_def)
qed

theorem dmon_hangs_on_equal_stamps_witness:
  "collect_new_notifs (on_session (remote_exec Delivered demo_server_env)) False [0] [RDC_EVNT_NOTIF_VMFAULT] (no_notifs [0])
     (demo_cli (Some (event_handler [10, 20, 20] []), new_dmon_cmd)) = None"
  using dmon_hangs_on_equal_stamps [of "demo_cli (Some (event_handler [10, 20, 20] []), new_dmon_cmd)" "event_handler [10, 20, 20] []" new_dmon_cmd
      RDC_EVNT_NOTIF_VMFAULT 0 "[demo_event 10]" "demo_event 20" "demo_event 20" "[]" "no_notifs [0]" 0 "[]" demo_server_env False "[]" "[]"]
  by (simp add: demo_event_simps)

end
