(* ===== verification/Rdci_Cleanup.thy ===== *)
theory Rdci_Cleanup
  imports Rdci_Properties
begin

text \<open>
  The groups that \<^verbatim>\<open>dmon\<close> makes for its own use, and what is left of them when the program ends, normally or
  by an exception. The proof is a small Hoare logic over commands; the daemon's group tables are a locale.
\<close>

section \<open>Triples\<close>

text \<open>Partial correctness: \<open>Q\<close> after a return, \<open>E\<close> after an exception.\<close>

definition triple :: "('w \<Rightarrow> bool) \<Rightarrow> ('w, 'a) cmd \<Rightarrow> ('a \<Rightarrow> 'w \<Rightarrow> bool) \<Rightarrow> (cli_exc \<Rightarrow> 'w \<Rightarrow> bool) \<Rightarrow> bool" where
  "triple P m Q E \<longleftrightarrow> (\<forall>s r s'. P (cl_world s) \<longrightarrow> m s = Some (r, s')
     \<longrightarrow> (case r of Inl x \<Rightarrow> E x (cl_world s') | Inr a \<Rightarrow> Q a (cl_world s')))"

lemma triple_bind:
  "triple P m Q E \<Longrightarrow> (\<And>a. triple (Q a) (k a) R E) \<Longrightarrow> triple P (bind_cmd m k) R E"
  unfolding triple_def bind_cmd_def by (fastforce split: option.splits sum.splits)

lemma triple_then: "triple P m (\<lambda>_. Q) E \<Longrightarrow> triple Q k R E \<Longrightarrow> triple P (then_cmd m k) R E"
  unfolding then_cmd_def by (rule triple_bind)

lemma triple_conseq:
  "triple P' m Q' E' \<Longrightarrow> (\<And>w. P w \<Longrightarrow> P' w) \<Longrightarrow> (\<And>a w. Q' a w \<Longrightarrow> Q a w) \<Longrightarrow> (\<And>x w. E' x w \<Longrightarrow> E x w) \<Longrightarrow> triple P m Q E"
  unfolding triple_def by (auto split: sum.splits) blast+

lemma ex_world: "\<exists>s :: 'w cli. cl_world s = w"
  by (rule exI [of _ "demo_cli w"]) (simp add: demo_cli_def)

lemma triple_ret [simp]: "triple P (ret a) Q E \<longleftrightarrow> (\<forall>w. P w \<longrightarrow> Q a w)"
  unfolding triple_def ret_def using ex_world by (auto, metis)

lemma triple_throw [simp]: "triple P (throw x) Q E \<longleftrightarrow> (\<forall>w. P w \<longrightarrow> E x w)"
  unfolding triple_def throw_def using ex_world by (auto, metis)

lemma triple_undefined [simp]: "triple P undefined_cmd Q E"
  by (simp add: triple_def undefined_cmd_def)

lemma triple_say [simp]: "triple P (say t) Q E \<longleftrightarrow> (\<forall>w. P w \<longrightarrow> Q () w)" "triple P (show_help t) Q E \<longleftrightarrow> (\<forall>w. P w \<longrightarrow> Q () w)"
  unfolding triple_def say_def show_help_def using ex_world by (auto, metis+)

lemma triple_call [simp]:
  "triple P (call api c) Q E \<longleftrightarrow> (\<forall>w st out w'. P w \<longrightarrow> api c w = Some (st, out, w') \<longrightarrow> Q (st, out) w')"
  (is "?l \<longleftrightarrow> ?r")
proof
  assume l: ?l
  show ?r
  proof (intro allI impI)
    fix w st out w' assume "P w" "api c w = Some (st, out, w')"
    then show "Q (st, out) w'" using l [unfolded triple_def, rule_format, of "demo_cli w" "Inr (st, out)" "demo_cli w'"]
      by (simp add: demo_cli_def call_def)
  qed
qed (auto simp: triple_def call_def split: option.splits)

lemma triple_for_each: "(\<And>x. x \<in> set xs \<Longrightarrow> triple I (body x) (\<lambda>_. I) E) \<Longrightarrow> triple I (for_each xs body) (\<lambda>_. I) E"
  by (induction xs) (auto intro: triple_then)

lemma triple_fold: "(\<And>x a. triple I (body x a) (\<lambda>_. I) E) \<Longrightarrow> triple I (fold_cmd body xs a) (\<lambda>_. I) E"
  by (induction xs arbitrary: a) (auto intro: triple_bind)

text \<open>A command that keeps a predicate, also when it throws.\<close>

abbreviation keeps :: "('w \<Rightarrow> bool) \<Rightarrow> ('w, 'a) cmd \<Rightarrow> bool" where
  "keeps I m \<equiv> triple I m (\<lambda>_. I) (\<lambda>_. I)"

lemma keeps_bind: "keeps I m \<Longrightarrow> (\<And>a. keeps I (k a)) \<Longrightarrow> keeps I (bind_cmd m k)"
  by (rule triple_bind)

lemma keeps_then: "keeps I m1 \<Longrightarrow> keeps I m2 \<Longrightarrow> keeps I (then_cmd m1 m2)"
  by (rule triple_then)

lemma keeps_drain:
  assumes "\<And>t m v. keeps I (call api (A_field_get_value_since g f t m v))"
  shows "keeps I (drain_notifs api has_pq g f i ns)"
proof -
  have "api' = api \<and> g' = g \<and> f' = f \<and> I (cl_world s) \<longrightarrow> I (cl_world (snd r))" if "drain_notifs api' has_pq g' f' i ns s = Some r" for api' g' f' s r
  proof (rule drain_notifs.raw_induct [OF _ that, where P = "\<lambda>api' _ g' f' i ns s r. api' = api \<and> g' = g \<and> f' = f \<and> I (cl_world s) \<longrightarrow> I (cl_world (snd r))"], intro impI)
    fix dr :: "'a api \<Rightarrow> bool \<Rightarrow> u32 \<Rightarrow> u32 \<Rightarrow> nat \<Rightarrow> notif_state \<Rightarrow> 'a cli \<Rightarrow> ((cli_exc + notif_state) \<times> 'a cli) option"
    fix api' has_pq g' f' i ns s r
    assume IH: "\<And>api' has_pq g' f' i ns s r. dr api' has_pq g' f' i ns s = Some r \<Longrightarrow> api' = api \<and> g' = g \<and> f' = f \<and> I (cl_world s) \<longrightarrow> I (cl_world (snd r))"
      and body: "(case call api' (A_field_get_value_since g' f' (ns_ts ns ! i) (Some (ns_next ns)) (Some (ns_value ns))) s of
        None \<Rightarrow> None
      | Some (Inl x, s') \<Rightarrow> Some (Inl x, s')
      | Some (Inr (st, out), s') \<Rightarrow>
          if st = RDC_ST_NOT_FOUND then Some (Inr (since_out out ns), s')
          else if st = RDC_ST_OK then dr api' has_pq g' f' i (take_notif has_pq g' i (since_out out ns)) s'
          else Some (Inl (Rdc_exception st ''rdc_field_get_value_since() failed''), s')) = Some r"
      and a: "api' = api \<and> g' = g \<and> f' = f \<and> I (cl_world s)"
    obtain st out w' where c: "api (A_field_get_value_since g f (ns_ts ns ! i) (Some (ns_next ns)) (Some (ns_value ns))) (cl_world s) = Some (st, out, w')"
      using body a by (auto simp: call_def split: option.splits)
    then have w': "I w'" using assms [of "ns_ts ns ! i" "Some (ns_next ns)" "Some (ns_value ns)"] a by auto
    show "I (cl_world (snd r))"
      using body a c w' IH by (auto simp: call_def split: if_splits)
  qed
  then show ?thesis unfolding triple_def by (auto split: sum.split)
qed

section \<open>The object\<close>

lemma triple_object: "(\<And>co. triple (\<lambda>wd. P wd \<and> snd wd = co) (k co) R E) \<Longrightarrow> triple P (bind_cmd the_object k) R E"
  by (rule triple_bind [where Q = "\<lambda>co wd. P wd \<and> snd wd = co"]) (auto simp: triple_def the_object_def ret_def)

lemma keeps_object: "(\<And>co. keeps I (k co)) \<Longrightarrow> keeps I (bind_cmd the_object k)"
  by (rule keeps_bind) (auto simp: triple_def the_object_def ret_def)

lemma triple_change [simp]: "triple P (change_object f) Q E \<longleftrightarrow> (\<forall>w co. P (w, co) \<longrightarrow> Q () (w, f co))"
  unfolding triple_def change_object_def by (auto, metis cli.select_convs(1) fst_conv snd_conv)

lemma triple_try: "triple P m Q E \<Longrightarrow> triple P (try_cmd m) (\<lambda>r. case r of None \<Rightarrow> Q () | Some x \<Rightarrow> E x) E'"
  unfolding triple_def try_cmd_def by (fastforce split: option.splits sum.splits)

lemma triple_with_object:
  "triple P m Q E \<Longrightarrow> triple (\<lambda>(w, co). P w \<and> R co) (with_object m) (\<lambda>a (w, co). Q a w \<and> R co) (\<lambda>x (w, co). E x w \<and> R co)"
  unfolding triple_def with_object_def
  by (auto split: option.splits sum.splits) (metis cli.select_convs(1) fst_conv)+

lemma triple_without_object:
  assumes "triple P m Q E" and "\<And>w. P' w \<Longrightarrow> P (w, new_dmon_cmd)" and "\<And>a w co. Q a (w, co) \<Longrightarrow> Q' a w"
    and "\<And>x w co. E x (w, co) \<Longrightarrow> E' x w"
  shows "triple P' (without_object m) Q' E'"
  using assms unfolding triple_def without_object_def
  by (auto split: option.splits sum.splits) (metis cli.select_convs(1) sum.case prod.collapse)+

lemma triple_checked:
  "triple P (call api c) (\<lambda>(st, out) w. if st = RDC_ST_OK then Q out w else (\<forall>m. E (Rdc_exception st m) w)) E
   \<Longrightarrow> triple P (checked_call api c msg) Q E"
  unfolding checked_call_def by (rule triple_bind, assumption) (auto split: if_splits)

section \<open>What the command line leaves in the object\<close>

text \<open>A group is made for \<^verbatim>\<open>dmon\<close> itself exactly when its members are on the command line; then no identifier is.\<close>

definition parsed :: "dmon_cmd \<Rightarrow> bool" where
  "parsed co \<longleftrightarrow> \<not> dm_need_cleanup co \<and> (dm_gpu_indexes co \<noteq> [] \<longrightarrow> dm_options co OPTIONS_GROUP_ID = None)
     \<and> (dm_field_ids co \<noteq> [] \<longrightarrow> dm_options co OPTIONS_FIELD_GROUP_ID = None)"

abbreviation unread :: "dmon_cmd \<Rightarrow> bool" where
  "unread co \<equiv> \<not> dm_need_cleanup co \<and> dm_gpu_indexes co = [] \<and> dm_field_ids co = []"

lemma keeps_help: "keeps I (bad_usage (show_help h) msg)" "keeps I (stoi t)" "keeps I (string_arg a)"
  "keeps I (number_arg (show_help h) msg a)" "keeps I (field_id_arg t)"
  by (auto simp: bad_usage_def stoi_def string_arg_def number_arg_def field_id_arg_def intro!: keeps_then keeps_bind split: option.split)

lemma keeps_index_args: "keeps I (gpu_index_args ts acc)" "keeps I (dmon_field_args ts acc)"
  by (induction ts arbitrary: acc) (auto intro!: keeps_bind keeps_help)

lemma insert_option_fields [simp]:
  "dm_need_cleanup (insert_option k n co) = dm_need_cleanup co" "dm_gpu_indexes (insert_option k n co) = dm_gpu_indexes co"
  "dm_field_ids (insert_option k n co) = dm_field_ids co" "dm_op (insert_option k n co) = dm_op co"
  "dm_options (insert_option k n co) k' = (if k' = k \<and> dm_options co k = None then Some n else dm_options co k')"
  by (simp_all add: insert_option_def)

lemma triple_usage: "(\<And>w. P w \<Longrightarrow> E (Rdc_exception RDC_ST_BAD_PARAMETER msg) w) \<Longrightarrow> triple P (bad_usage (show_help h) msg) Q E"
  unfolding bad_usage_def by (rule triple_then [where Q = P]) simp_all

lemma parsed_check: "unread co \<Longrightarrow> triple P (dmon_check fids gpus co) (\<lambda>co w. P w \<and> parsed co) (\<lambda>_. P)"
proof -
  assume co: "unread co"
  let ?A = "\<lambda>co'. \<not> dm_need_cleanup co' \<and> dm_gpu_indexes co' = [] \<and> (dm_field_ids co' \<noteq> [] \<longrightarrow> dm_options co' OPTIONS_FIELD_GROUP_ID = None)"
  have a: "triple P (dmon_fields_check fids co) (\<lambda>co' w. P w \<and> ?A co') (\<lambda>_. P)"
    using co unfolding dmon_fields_check_def
    by (auto intro!: triple_usage triple_bind [where Q = "\<lambda>_. P"] keeps_index_args)
  have b: "triple (\<lambda>w. P w \<and> ?A co') (dmon_gpus_check gpus co') (\<lambda>co' w. P w \<and> parsed co') (\<lambda>_. P)" for co'
    unfolding dmon_gpus_check_def parsed_def
    by (auto intro!: triple_usage triple_bind [where Q = "\<lambda>_ w. P w \<and> ?A co'"]
        triple_conseq [OF keeps_index_args(1) [of "\<lambda>w. P w \<and> ?A co'"]])
  show ?thesis using co unfolding dmon_check_def
    by (auto simp: parsed_def dmon_defaults_def intro!: triple_bind [OF a] triple_bind [OF b] triple_usage)
qed

lemma parsed_parse: "unread co \<Longrightarrow> triple P (dmon_parse args fids gpus co) (\<lambda>co w. P w \<and> parsed co) (\<lambda>_. P)"
proof (induction args arbitrary: fids gpus co)
  case (Cons a args)
  obtain opt optarg where a: "a = (opt, optarg)" by fastforce
  show ?case using Cons unfolding a
    by (auto simp: Let_def parsed_def intro!: triple_bind [OF keeps_help(3)] triple_bind [OF keeps_help(4)] triple_usage split: cli_opt.split)
qed (simp add: parsed_check)

section \<open>The group tables of the daemon\<close>

type_synonym gpu_table = "u32 \<rightharpoonup> rdc_group_info"
type_synonym field_table = "u32 \<rightharpoonup> rdc_field_group_info"

abbreviation gpu_table :: "group_settings \<Rightarrow> gpu_table" where "gpu_table s \<equiv> map_of (gpu_group s)"
abbreviation field_table :: "group_settings \<Rightarrow> field_table" where "field_table s \<equiv> map_of (field_group s)"

text \<open>The calls of \<^verbatim>\<open>dmon\<close> that do not concern the tables.\<close>

fun quiet :: "api_call \<Rightarrow> bool" where
  "quiet (A_group_gpu_get_info _ _) = True"
| "quiet (A_group_field_get_info _ _) = True"
| "quiet (A_field_watch _ _ _ _ _) = True"
| "quiet (A_field_unwatch _ _) = True"
| "quiet (A_field_get_latest_value _ _ _) = True"
| "quiet (A_field_get_value_since _ _ _ _ _) = True"
| "quiet _ = False"

text \<open>The tables can be brought back by destroying the groups that the object has recorded.\<close>

definition gpus_undoable :: "gpu_table \<Rightarrow> group_settings \<Rightarrow> dmon_cmd \<Rightarrow> bool" where
  "gpus_undoable G s co \<longleftrightarrow>
     (case dm_options co OPTIONS_GROUP_ID of
        Some i \<Rightarrow> if dm_gpu_indexes co = [] then gpu_table s = G else dm_need_cleanup co \<and> (gpu_table s)(i := None) = G
      | None \<Rightarrow> gpu_table s = G)"

definition fields_undoable :: "field_table \<Rightarrow> group_settings \<Rightarrow> dmon_cmd \<Rightarrow> bool" where
  "fields_undoable F s co \<longleftrightarrow>
     (case dm_options co OPTIONS_FIELD_GROUP_ID of
        Some i \<Rightarrow> if dm_field_ids co = [] then field_table s = F else dm_need_cleanup co \<and> i \<noteq> JOB_FIELD_ID \<and> (field_table s)(i := None) = F
      | None \<Rightarrow> field_table s = F)"

text \<open>Both groups have been made, or neither is needed; and the state at the exception that leaves a group behind.\<close>

definition monitoring :: "gpu_table \<Rightarrow> field_table \<Rightarrow> group_settings \<Rightarrow> dmon_cmd \<Rightarrow> bool" where
  "monitoring G F s co \<longleftrightarrow> gpus_undoable G s co \<and> fields_undoable F s co
     \<and> (dm_gpu_indexes co \<noteq> [] \<longrightarrow> dm_options co OPTIONS_GROUP_ID \<noteq> None)
     \<and> (dm_field_ids co \<noteq> [] \<longrightarrow> dm_options co OPTIONS_FIELD_GROUP_ID \<noteq> None)"

definition filling :: "gpu_table \<Rightarrow> group_settings \<Rightarrow> u32 \<Rightarrow> group_settings \<Rightarrow> dmon_cmd \<Rightarrow> bool" where
  "filling G s0 i s co \<longleftrightarrow> (gpu_table s)(i := None) = G \<and> field_group s = field_group s0 \<and> cur_field_group_id s = cur_field_group_id s0
     \<and> dm_need_cleanup co \<and> dm_gpu_indexes co \<noteq> [] \<and> dm_options co OPTIONS_GROUP_ID = None
     \<and> (dm_field_ids co \<noteq> [] \<longrightarrow> dm_options co OPTIONS_FIELD_GROUP_ID = None)"

definition half_ready :: "gpu_table \<Rightarrow> group_settings \<Rightarrow> group_settings \<Rightarrow> dmon_cmd \<Rightarrow> bool" where
  "half_ready G s0 s co \<longleftrightarrow> gpus_undoable G s co \<and> field_group s = field_group s0 \<and> cur_field_group_id s = cur_field_group_id s0
     \<and> (dm_gpu_indexes co \<noteq> [] \<longrightarrow> dm_options co OPTIONS_GROUP_ID \<noteq> None)
     \<and> (dm_field_ids co \<noteq> [] \<longrightarrow> dm_options co OPTIONS_FIELD_GROUP_ID = None)"

definition restored :: "gpu_table \<Rightarrow> field_table \<Rightarrow> group_settings \<Rightarrow> dmon_cmd \<Rightarrow> bool" where
  "restored G F s co \<longleftrightarrow> \<not> dm_need_cleanup co \<and> gpu_table s = G \<and> field_table s = F"

text \<open>Before the clean-up: at most the group whose members could not be added is out of reach.\<close>

definition undoable :: "gpu_table \<Rightarrow> field_table \<Rightarrow> group_settings \<Rightarrow> dmon_cmd \<Rightarrow> bool" where
  "undoable G F s co \<longleftrightarrow> gpus_undoable G s co \<and> fields_undoable F s co \<or> restored G F s co"

definition stranded :: "gpu_table \<Rightarrow> field_table \<Rightarrow> cli_exc \<Rightarrow> group_settings \<Rightarrow> dmon_cmd \<Rightarrow> bool" where
  "stranded G F x s co \<longleftrightarrow> undoable G F s co
     \<or> fields_undoable F s co \<and> dm_need_cleanup co \<and> dm_options co OPTIONS_GROUP_ID = None
       \<and> (\<exists>i st m. (gpu_table s)(i := None) = G \<and> st \<noteq> RDC_ST_OK \<and> x = Rdc_exception st m)"

lemmas phase_defs = gpus_undoable_def fields_undoable_def monitoring_def filling_def half_ready_def restored_def undoable_def stranded_def

locale group_service =
  fixes api :: "'w api" and gs :: "'w \<Rightarrow> group_settings"
  assumes quiet_call: "quiet c \<Longrightarrow> api c w = Some (st, out, w') \<Longrightarrow> gs w' = gs w"
    and gpu_create: "api (A_group_gpu_create RDC_GROUP_EMPTY (Some nm) True) w = Some (st, out, w') \<Longrightarrow>
      (if st = RDC_ST_OK then \<exists>i. out = O_id (Some i) \<and> rdc_group_gpu_create nm (gs w) = (RDC_ST_OK, Some i, gs w') else gs w' = gs w)"
    and gpu_add: "api (A_group_gpu_add i g) w = Some (st, out, w') \<Longrightarrow> gs w' = gs w \<or> gs w' = snd (rdc_group_gpu_add i g (gs w))"
    and field_create: "length fs \<le> RDC_MAX_FIELD_IDS_PER_FIELD_GROUP \<Longrightarrow> api (A_group_field_create (Some fs) (Some nm) True) w = Some (st, out, w') \<Longrightarrow>
      (if st = RDC_ST_OK then \<exists>i. out = O_id (Some i) \<and> rdc_group_field_create (fs, nm) (gs w) = (RDC_ST_OK, Some i, gs w') else gs w' = gs w)"
    and gpu_destroy: "api (A_group_gpu_destroy i) w = Some (st, out, w') \<Longrightarrow> gs w' = snd (rdc_group_gpu_destroy i (gs w))"
    and field_destroy: "api (A_group_field_destroy i) w = Some (st, out, w') \<Longrightarrow> gs w' = snd (rdc_group_field_destroy i (gs w))"
begin

text \<open>A predicate on the tables and the object.\<close>

definition on_tables :: "(group_settings \<Rightarrow> dmon_cmd \<Rightarrow> bool) \<Rightarrow> 'w \<times> dmon_cmd \<Rightarrow> bool" where
  "on_tables J wd = J (gs (fst wd)) (snd wd)"

lemma on_tables_Pair [simp]: "on_tables J (w, co) = J (gs w) co"
  by (simp add: on_tables_def)

lemma call_on_tables:
  assumes "\<And>w co st out w'. P (gs w) co \<Longrightarrow> api c w = Some (st, out, w') \<Longrightarrow> Q (st, out) (gs w') co"
  shows "triple (on_tables P) (call (on_session api) c) (\<lambda>r. on_tables (Q r)) E"
  using assms by (auto simp: on_session_def)

lemma keeps_quiet: "quiet c \<Longrightarrow> keeps (on_tables J) (call (on_session api) c)"
  by (rule call_on_tables) (simp add: quiet_call)

lemma keeps_ignored: "quiet c \<Longrightarrow> keeps (on_tables J) (ignored_call (on_session api) c)"
  unfolding ignored_call_def by (rule keeps_bind [OF keeps_quiet]) simp_all

lemma keeps_out: "keeps I (out_group out)" "keeps I (out_field_group out)" "keeps I (at_label f)" "keeps I (field_id_string f)"
  by (auto simp: out_group_def out_field_group_def at_label_def field_id_string_def split: api_out.split option.split)

lemma keeps_infos: "keeps (on_tables J) (group_of api gid)" "keeps (on_tables J) (field_group_of api fgid)"
  unfolding group_of_def field_group_of_def by (auto intro!: keeps_bind keeps_quiet keeps_out)

lemma keeps_texts: "keeps I (labels_cmd fs)" "keeps I (columns_cmd fs)"
  unfolding labels_cmd_def columns_cmd_def by (auto intro!: triple_fold keeps_bind keeps_out)

lemma keeps_collect: "keeps (on_tables J) (collect_new_notifs (on_session api) b gpus fs ns)"
  unfolding collect_new_notifs_def by (auto intro!: triple_fold keeps_drain keeps_quiet)

lemma keeps_notifs: "keeps I (print_and_clr_notif_pq fm ts pq)"
  unfolding print_and_clr_notif_pq_def print_notif_def by (auto intro!: triple_for_each keeps_then keeps_bind keeps_out)

lemma keeps_values: "keeps (on_tables J) (print_values e api ts g first fs)"
proof (induction fs arbitrary: first)
  case (Cons f fs)
  have "keeps (on_tables J) (\<lambda>s. if de_terminating e (fst (cl_world s)) then ret True s else print_values e api ts g False fs s)"
    using Cons.IH [of False] unfolding triple_def by (simp add: ret_def)
  then show ?case by (auto intro!: keeps_bind keeps_quiet split: api_out.split option.split)
qed simp

lemma keeps_gpus: "keeps (on_tables J) (print_gpus e api ts fs gpus)"
  by (induction gpus) (auto intro!: keeps_then keeps_bind keeps_values)

lemma keeps_option_at:
  assumes "\<And>s co. J s co \<Longrightarrow> J s (insert_option k 0 co)"
  shows "keeps (on_tables J) (option_at k)"
  unfolding option_at_def using assms by (auto intro!: keeps_then keeps_object)

lemma keeps_sleep: "(\<And>w. gs (de_usleep e u w) = gs w) \<Longrightarrow> keeps (on_tables J) (sleep_cmd e u)"
  by (auto simp: triple_def sleep_cmd_def on_tables_def)

lemma monitoring_option: "monitoring G F s co \<Longrightarrow> monitoring G F s (insert_option k n co)"
  by (cases k) (auto simp: phase_defs split: option.splits if_splits)

lemma keeps_monitor:
  assumes "\<And>u w. gs (de_usleep e u w) = gs w"
  shows "keeps (on_tables (monitoring G F)) (monitor e api header gpus nfs rfs i n ts)"
  using assms
  by (induction n arbitrary: i ts) (auto intro!: keeps_then keeps_bind keeps_object keeps_option_at keeps_sleep keeps_collect keeps_notifs keeps_gpus monitoring_option)

lemma keeps_watch:
  assumes "\<And>u w. gs (de_usleep e u w) = gs w"
  shows "keeps (on_tables (monitoring G F)) (dmon_watch e api gid fgid gpus fi)"
  unfolding dmon_watch_def Let_def
  by (cases "separate_notf_events fi")
    (auto intro!: keeps_then keeps_bind keeps_object keeps_option_at keeps_ignored keeps_collect keeps_texts keeps_monitor assms monitoring_option
      simp: phase_defs split: option.splits if_splits)

lemma destroy_gpus: "gpu_table (snd (rdc_group_gpu_destroy i s)) = (gpu_table s)(i := None)" "field_group (snd (rdc_group_gpu_destroy i s)) = field_group s"
  by (auto simp: rdc_group_gpu_destroy_def fun_eq_iff split: option.split)

lemma destroy_fields: "i \<noteq> JOB_FIELD_ID \<Longrightarrow> field_table (snd (rdc_group_field_destroy i s)) = (field_table s)(i := None)"
  "gpu_group (snd (rdc_group_field_destroy i s)) = gpu_group s"
  by (auto simp: rdc_group_field_destroy_def fun_eq_iff split: option.split)

lemma ignored_on_tables:
  assumes "\<And>w co st out w'. P (gs w) co \<Longrightarrow> api c w = Some (st, out, w') \<Longrightarrow> Q (gs w') co"
  shows "triple (on_tables P) (ignored_call (on_session api) c) (\<lambda>_. on_tables Q) E"
  unfolding ignored_call_def by (rule triple_bind [OF call_on_tables [where Q = "\<lambda>_. Q"]]) (use assms in auto)

text \<open>The clean-up is the sequence of its two destructions.\<close>

definition gpus_freed :: "dmon_cmd \<Rightarrow> group_settings \<Rightarrow> group_settings" where
  "gpus_freed co s = (case dm_options co OPTIONS_GROUP_ID of
     Some i \<Rightarrow> if dm_gpu_indexes co = [] then s else snd (rdc_group_gpu_destroy i s) | None \<Rightarrow> s)"

definition fields_freed :: "dmon_cmd \<Rightarrow> group_settings \<Rightarrow> group_settings" where
  "fields_freed co s = (case dm_options co OPTIONS_FIELD_GROUP_ID of
     Some i \<Rightarrow> if dm_field_ids co = [] then s else snd (rdc_group_field_destroy i s) | None \<Rightarrow> s)"

lemma clean_up_tables:
  assumes need: "\<And>s co. P s co \<Longrightarrow> dm_need_cleanup co \<Longrightarrow> Q (fields_freed co (gpus_freed co s)) (co\<lparr>dm_need_cleanup := False\<rparr>)"
    and idle: "\<And>s co. P s co \<Longrightarrow> \<not> dm_need_cleanup co \<Longrightarrow> Q s co"
  shows "triple (on_tables P) (dmon_clean_up api) (\<lambda>_. on_tables Q) E"
proof -
  let ?J = "\<lambda>co s co'. P s co \<and> co' = co"
  let ?J1 = "\<lambda>co s co'. (\<exists>s0. P s0 co \<and> s = gpus_freed co s0) \<and> co' = co"
  let ?J2 = "\<lambda>co s co'. (\<exists>s0. P s0 co \<and> s = fields_freed co (gpus_freed co s0)) \<and> co' = co"
  have 1: "triple (on_tables (?J co)) (case (dm_options co OPTIONS_GROUP_ID, dm_options co OPTIONS_FIELD_GROUP_ID) of
      (Some g, Some fg) \<Rightarrow> ignored_call (on_session api) (A_field_unwatch g fg) | _ \<Rightarrow> ret ()) (\<lambda>_. on_tables (?J co)) E" for co
    by (auto intro!: ignored_on_tables dest: quiet_call [rotated] split: option.split)
  have 2: "triple (on_tables (?J co)) (case dm_options co OPTIONS_GROUP_ID of
      Some g \<Rightarrow> if dm_gpu_indexes co = [] then ret () else ignored_call (on_session api) (A_group_gpu_destroy g) | None \<Rightarrow> ret ()) (\<lambda>_. on_tables (?J1 co)) E" for co
    by (auto simp: gpus_freed_def on_tables_def intro!: ignored_on_tables dest!: gpu_destroy split: option.split)
  have 3: "triple (on_tables (?J1 co)) (case dm_options co OPTIONS_FIELD_GROUP_ID of
      Some fg \<Rightarrow> if dm_field_ids co = [] then ret () else ignored_call (on_session api) (A_group_field_destroy fg) | None \<Rightarrow> ret ()) (\<lambda>_. on_tables (?J2 co)) E" for co
    by (auto simp: fields_freed_def on_tables_def intro!: ignored_on_tables dest!: field_destroy split: option.split)
  have 4: "triple (on_tables (?J2 co)) (change_object (\<lambda>co. co\<lparr>dm_need_cleanup := False\<rparr>)) (\<lambda>_. on_tables Q) E" if "dm_need_cleanup co" for co
    using that need by auto
  show ?thesis unfolding dmon_clean_up_def
    apply (rule triple_object)
    subgoal for co
    proof (cases "dm_need_cleanup co")
      case True
      show ?thesis
        by (subst if_not_P, simp add: True, rule triple_conseq [OF triple_then [OF 1 triple_then [OF 2 triple_then [OF 3 4 [OF True]]]]], auto simp: on_tables_def)
    next
      case False
      then show ?thesis using idle by (auto simp: on_tables_def)
    qed
    done
qed

lemma clean_up_restores:
  "triple (on_tables (undoable G F)) (dmon_clean_up api) (\<lambda>_. on_tables (restored G F)) E"
  by (rule clean_up_tables) (auto simp: phase_defs gpus_freed_def fields_freed_def destroy_gpus destroy_fields split: option.splits if_splits)

lemma clean_up_stranded:
  "triple (on_tables (stranded G F x)) (dmon_clean_up api)
     (\<lambda>_. on_tables (\<lambda>s _. field_table s = F \<and> (gpu_table s = G \<or> (\<exists>i st m. (gpu_table s)(i := None) = G \<and> st \<noteq> RDC_ST_OK \<and> x = Rdc_exception st m)))) E"
  by (rule clean_up_tables) (auto simp: phase_defs gpus_freed_def fields_freed_def destroy_gpus destroy_fields split: option.splits if_splits)

text \<open>The two creations.\<close>

lemma checked_on_tables:
  assumes "\<And>w co st out w'. P (gs w) co \<Longrightarrow> api c w = Some (st, out, w') \<Longrightarrow>
      if st = RDC_ST_OK then Q out (gs w') co else (\<forall>m. E (Rdc_exception st m) (gs w') co)"
  shows "triple (on_tables P) (checked_call (on_session api) c msg) (\<lambda>out. on_tables (Q out)) (\<lambda>x. on_tables (E x))"
  by (rule triple_checked) (use assms in \<open>fastforce simp: on_session_def split: if_splits\<close>)

lemma object_on_tables:
  assumes "\<And>co. triple (on_tables (\<lambda>s co'. P s co' \<and> co' = co)) (k co) R E"
  shows "triple (on_tables P) (bind_cmd the_object k) R E"
  by (rule triple_object, rule triple_conseq [OF assms]) (auto simp: on_tables_def)

lemma add_tables: "(gpu_table (snd (rdc_group_gpu_add i g s)))(i := None) = (gpu_table s)(i := None)"
  "field_group (snd (rdc_group_gpu_add i g s)) = field_group s" "cur_field_group_id (snd (rdc_group_gpu_add i g s)) = cur_field_group_id s"
  by (auto simp: rdc_group_gpu_add_def fun_eq_iff map_of_map_modify split: option.split)

lemma filling_add: "filling G s0 i s co \<Longrightarrow> filling G s0 i (snd (rdc_group_gpu_add i g s)) co"
  by (simp add: filling_def add_tables)

lemma filling_stranded: "filling G s0 i s co \<Longrightarrow> st \<noteq> RDC_ST_OK \<Longrightarrow> stranded G (field_table s0) (Rdc_exception st m) s co"
  by (auto simp: filling_def stranded_def fields_undoable_def split: option.split)

lemma out_id_on_tables:
  assumes "\<And>i. triple (on_tables (P i)) (k i) R E"
  shows "triple (on_tables (\<lambda>s co. \<exists>i. out = O_id (Some i) \<and> P i s co)) (bind_cmd (out_id out) k) R E"
proof (cases "\<exists>i. out = O_id (Some i)")
  case True
  then obtain i where "out = O_id (Some i)" by blast
  then show ?thesis using assms [of i] by (auto simp: triple_def on_tables_def out_id_def bind_cmd_def ret_def)
qed (auto simp: triple_def on_tables_def)

lemma create_temp_group_tables:
  assumes inv: "group_settings_inv s0"
  defines "E \<equiv> \<lambda>x. on_tables (stranded (gpu_table s0) (field_table s0) x)"
  shows "triple (on_tables (\<lambda>s co. s = s0 \<and> parsed co)) (create_temp_group api) (\<lambda>_. on_tables (half_ready (gpu_table s0) s0)) E"
proof -
  let ?G = "gpu_table s0" and ?nm = "''rdci-dmon-group''"
  let ?made = "\<lambda>i s co. (gpu_table s)(i := None) = ?G \<and> field_group s = field_group s0 \<and> cur_field_group_id s = cur_field_group_id s0 \<and> parsed co \<and> dm_gpu_indexes co \<noteq> []"
  have 1: "triple (on_tables (\<lambda>s co'. s = s0 \<and> parsed co' \<and> co' = co))
      (checked_call (on_session api) (A_group_gpu_create RDC_GROUP_EMPTY (Some ?nm) True) msg)
      (\<lambda>out. on_tables (\<lambda>s co. \<exists>i. out = O_id (Some i) \<and> ?made i s co)) E" if "dm_gpu_indexes co \<noteq> []" for co msg
    unfolding E_def
  proof (rule checked_on_tables, elim conjE)
    fix w co' st out w' assume w: "gs w = s0" "parsed co'" "co' = co" and r: "api (A_group_gpu_create RDC_GROUP_EMPTY (Some ?nm) True) w = Some (st, out, w')"
    show "if st = RDC_ST_OK then \<exists>i. out = O_id (Some i) \<and> ?made i (gs w') co' else \<forall>m. stranded ?G (field_table s0) (Rdc_exception st m) (gs w') co'"
      using gpu_create [OF r] w that gpu_reg.lookup_created [OF group_settings_invD(1) [OF inv], of ?nm] gpu_create_frame [of ?nm s0]
      by (auto simp: phase_defs parsed_def fun_upd_idem split: option.split if_splits)
  qed
  have 2: "triple (on_tables (filling ?G s0 i)) (checked_call (on_session api) (A_group_gpu_add i g) m) (\<lambda>_. on_tables (filling ?G s0 i)) E" for i g m
    unfolding E_def by (rule checked_on_tables) (auto dest!: gpu_add intro: filling_add filling_stranded filling_stranded [OF filling_add])
  have 3: "triple (on_tables (?made i)) (change_object (\<lambda>co. co\<lparr>dm_need_cleanup := True\<rparr>)) (\<lambda>_. on_tables (filling ?G s0 i)) E" for i
    by (auto simp: filling_def parsed_def)
  have 4: "triple (on_tables (filling ?G s0 i)) (change_object (insert_option OPTIONS_GROUP_ID i)) (\<lambda>_. on_tables (half_ready ?G s0)) E" for i
    by (auto simp: phase_defs)
  have 5: "triple (on_tables (filling ?G s0 i)) (for_each l (\<lambda>g. bind_cmd (checked_call (on_session api) (A_group_gpu_add i g) (m g)) (\<lambda>_. ret ())))
      (\<lambda>_. on_tables (filling ?G s0 i)) E" for i l m
    by (rule triple_for_each, rule triple_bind [OF 2]) simp
  show ?thesis unfolding create_temp_group_def
    apply (rule object_on_tables)
    subgoal for co
    proof (cases "dm_gpu_indexes co = []")
      case False
      then show ?thesis by (auto intro!: triple_bind [OF 1] out_id_on_tables triple_then [OF 3] triple_then [OF 5] 4)
    qed (auto simp: half_ready_def gpus_undoable_def parsed_def split: option.split)
    done
qed

lemma field_created:
  assumes "rdc_group_field_create a s = (RDC_ST_OK, Some i, s')" and "field_table s (cur_field_group_id s) = None"
  shows "i = cur_field_group_id s" and "(field_table s')(i := None) = field_table s" and "gpu_group s' = gpu_group s"
  using assms by (auto simp: rdc_group_field_create_def map_of_map_insert fun_upd_idem split: if_splits)

lemma create_temp_field_group_tables:
  assumes inv: "group_settings_inv s0"
  defines "E \<equiv> \<lambda>x. on_tables (stranded (gpu_table s0) (field_table s0) x)"
  shows "triple (on_tables (half_ready (gpu_table s0) s0)) (create_temp_field_group api) (\<lambda>_. on_tables (monitoring (gpu_table s0) (field_table s0))) E"
proof -
  let ?G = "gpu_table s0" and ?F = "field_table s0" and ?nm = "''rdci-dmon-field-group''"
  let ?made = "\<lambda>i s co. (field_table s)(i := None) = ?F \<and> i \<noteq> JOB_FIELD_ID \<and> gpus_undoable ?G s co \<and> (dm_gpu_indexes co \<noteq> [] \<longrightarrow> dm_options co OPTIONS_GROUP_ID \<noteq> None)
    \<and> dm_field_ids co \<noteq> [] \<and> dm_options co OPTIONS_FIELD_GROUP_ID = None"
  have fresh: "map_of (field_group s0) (cur_field_group_id s0) = None" "cur_field_group_id s0 \<noteq> JOB_FIELD_ID"
    using field_reg.fresh [OF group_settings_invD(2) [OF inv]] group_settings_invD(5) [OF inv] by auto
  have 1: "triple (on_tables (\<lambda>s co'. half_ready ?G s0 s co' \<and> co' = co))
      (checked_call (on_session api) (A_group_field_create (Some (dm_field_ids co)) (Some ?nm) True) msg)
      (\<lambda>out. on_tables (\<lambda>s co. \<exists>i. out = O_id (Some i) \<and> ?made i s co)) E"
    if "dm_field_ids co \<noteq> []" "length (dm_field_ids co) \<le> RDC_MAX_FIELD_IDS_PER_FIELD_GROUP" for co msg
    unfolding E_def
  proof (rule checked_on_tables, elim conjE)
    fix w co' st out w' assume w: "half_ready ?G s0 (gs w) co'" "co' = co"
      and r: "api (A_group_field_create (Some (dm_field_ids co)) (Some ?nm) True) w = Some (st, out, w')"
    show "if st = RDC_ST_OK then \<exists>i. out = O_id (Some i) \<and> ?made i (gs w') co' else \<forall>m. stranded ?G ?F (Rdc_exception st m) (gs w') co'"
      using field_create [OF that(2) r] w that fresh field_created [of "(dm_field_ids co, ?nm)" "gs w" _ "gs w'"]
      by (auto simp: phase_defs split: option.splits if_splits)
  qed
  have 2: "triple (on_tables (?made i)) (change_object (\<lambda>co. insert_option OPTIONS_FIELD_GROUP_ID i (co\<lparr>dm_need_cleanup := True\<rparr>)))
      (\<lambda>_. on_tables (monitoring ?G ?F)) E" for i
    by (auto simp: phase_defs split: option.splits if_splits)
  show ?thesis unfolding create_temp_field_group_def
    apply (rule object_on_tables)
    subgoal for co
    proof (cases "dm_field_ids co = []")
      case False
      then show ?thesis by (auto intro!: triple_bind [OF 1] out_id_on_tables 2)
    qed (auto simp: phase_defs split: option.splits if_splits)
    done
qed

lemma stranded_mono: "undoable G F s co \<Longrightarrow> stranded G F x s co" "monitoring G F s co \<Longrightarrow> undoable G F s co" "restored G F s co \<Longrightarrow> undoable G F s co"
  by (simp_all add: stranded_def undoable_def monitoring_def)

lemma keeps_stranded:
  assumes "keeps (on_tables (monitoring G F)) m"
  shows "triple (on_tables (monitoring G F)) m (\<lambda>_. on_tables (monitoring G F)) (\<lambda>x. on_tables (stranded G F x))"
  by (rule triple_conseq [OF assms]) (auto simp: on_tables_def stranded_mono)

lemma dmon_monitor_tables:
  assumes inv: "group_settings_inv s0" and sleep: "\<And>u w. gs (de_usleep e u w) = gs w"
  shows "triple (on_tables (\<lambda>s co. s = s0 \<and> parsed co)) (dmon_monitor e api) (\<lambda>_. on_tables (undoable (gpu_table s0) (field_table s0)))
     (\<lambda>x. on_tables (stranded (gpu_table s0) (field_table s0) x))"
  unfolding dmon_monitor_def
  by (rule triple_then [OF create_temp_group_tables [OF inv]], rule triple_then [OF create_temp_field_group_tables [OF inv]],
      rule triple_bind [OF keeps_stranded [OF keeps_option_at]], erule monitoring_option,
      rule triple_bind [OF keeps_stranded [OF keeps_infos(1)]],
      rule triple_bind [OF keeps_stranded [OF keeps_option_at]], erule monitoring_option,
      rule triple_bind [OF keeps_stranded [OF keeps_infos(2)]],
      rule triple_then [OF keeps_stranded [OF keeps_watch [OF sleep]]],
      rule triple_conseq [OF clean_up_restores [of "gpu_table s0" "field_table s0"]]) (auto simp: on_tables_def stranded_mono)

lemma dmon_process_tables:
  assumes "group_settings_inv s0" and "\<And>u w. gs (de_usleep e u w) = gs w"
  shows "triple (on_tables (\<lambda>s co. s = s0 \<and> parsed co)) (dmon_process e api) (\<lambda>_. on_tables (undoable (gpu_table s0) (field_table s0)))
     (\<lambda>x. on_tables (stranded (gpu_table s0) (field_table s0) x))"
proof -
  have p: "undoable (gpu_table s0) (field_table s0) s0 co" if "parsed co" for co
    using that by (simp add: undoable_def restored_def parsed_def)
  show ?thesis unfolding dmon_process_def
    by (rule triple_object, rule triple_conseq [where P' = "on_tables (\<lambda>s co. s = s0 \<and> parsed co)" and Q' = "\<lambda>_. on_tables (undoable (gpu_table s0) (field_table s0))"
          and E' = "\<lambda>x. on_tables (stranded (gpu_table s0) (field_table s0) x)"])
      (use p dmon_monitor_tables [OF assms] in \<open>auto simp: show_field_usage_def split: dmon_op.split\<close>)
qed

text \<open>The whole program: what is left in the tables, with the exit code.\<close>

definition left_behind :: "gpu_table \<Rightarrow> field_table \<Rightarrow> u32 \<Rightarrow> group_settings \<Rightarrow> bool" where
  "left_behind G F code s \<longleftrightarrow> field_table s = F \<and> (gpu_table s = G \<or> code \<noteq> 0 \<and> (\<exists>i. (gpu_table s)(i := None) = G))"

lemma keeps_connect: "keeps I (connect fs oc b)"
  unfolding connect_def need_file_def by (auto intro!: keeps_bind keeps_then split: option.split)

lemma status_code_0: "status_code st = 0 \<longleftrightarrow> st = RDC_ST_OK"
  by (cases st) (simp_all add: status_code.simps)

definition exit_code :: "cli_exc option \<Rightarrow> u32" where
  "exit_code r = (case r of None \<Rightarrow> 0 | Some (Rdc_exception st _) \<Rightarrow> status_code st | Some Other_exception \<Rightarrow> 1)"

lemma report_exit_code: "triple P (report_exception r) (\<lambda>code w. P w \<and> code = exit_code r) E"
  by (auto simp: triple_def report_exception_def exit_code_def then_cmd_def bind_cmd_def say_def ret_def split: option.splits cli_exc.splits if_splits)

lemma keeps_close: "triple P close_subsystem (\<lambda>_. P) E"
  by (auto simp: triple_def close_subsystem_def say_def ret_def split: if_splits)

lemma run_dmon_tables:
  assumes inv: "group_settings_inv s0" and sleep: "\<And>u w. gs (de_usleep e u w) = gs w"
  shows "triple (on_tables (\<lambda>s co. s = s0 \<and> \<not> dm_need_cleanup co)) (run_dmon (dmon_parse args [] [] new_dmon_cmd) (connect fs oc \<circ> dm_base) e api)
     (\<lambda>code. on_tables (\<lambda>s _. left_behind (gpu_table s0) (field_table s0) code s)) (\<lambda>_ _. False)"
proof -
  let ?G = "gpu_table s0" and ?F = "field_table s0"
  let ?E = "\<lambda>x. on_tables (stranded ?G ?F x)" and ?P = "on_tables (\<lambda>s co. s = s0 \<and> \<not> dm_need_cleanup co)"
  have parse: "triple ?P (with_object (dmon_parse args [] [] new_dmon_cmd)) (\<lambda>co wd. ?P wd \<and> parsed co) ?E"
    by (rule triple_conseq [OF triple_with_object [OF parsed_parse [where P = "\<lambda>w. gs w = s0"], where R = "\<lambda>co. \<not> dm_need_cleanup co"]])
      (auto simp: on_tables_def new_dmon_cmd_def stranded_def undoable_def restored_def)
  have conn: "triple (on_tables (\<lambda>s co. s = s0 \<and> parsed co)) (with_object ((connect fs oc \<circ> dm_base) co)) (\<lambda>_. on_tables (\<lambda>s co. s = s0 \<and> parsed co)) ?E" for co
    unfolding o_apply by (rule triple_conseq [OF triple_with_object [OF keeps_connect [of "\<lambda>w. gs w = s0"], where R = parsed]])
      (auto simp: on_tables_def phase_defs parsed_def split: option.split)
  have body: "triple ?P (bind_cmd (with_object (dmon_parse args [] [] new_dmon_cmd)) (\<lambda>co.
      then_cmd (change_object (\<lambda>_. co)) (then_cmd (with_object ((connect fs oc \<circ> dm_base) co)) (dmon_process e api)))) (\<lambda>_. on_tables (undoable ?G ?F)) ?E"
    by (rule triple_bind [OF parse], rule triple_then [where Q = "on_tables (\<lambda>s co. s = s0 \<and> parsed co)"], simp,
        rule triple_then [OF conn], rule dmon_process_tables [OF inv sleep])
  have clean: "triple (\<lambda>wd. (case r of None \<Rightarrow> on_tables (undoable ?G ?F) | Some x \<Rightarrow> ?E x) wd \<and> code = exit_code r) (dmon_clean_up api)
      (\<lambda>_. on_tables (\<lambda>s _. left_behind ?G ?F code s)) (\<lambda>_ _. False)" for r code
  proof (cases r)
    case None
    then show ?thesis by (auto intro!: triple_conseq [OF clean_up_restores [of ?G ?F]] simp: on_tables_def left_behind_def restored_def)
  next
    case (Some x)
    show ?thesis
    proof (cases "code = exit_code r")
      case True
      show ?thesis unfolding Some True
        by (rule triple_conseq [OF clean_up_stranded [of ?G ?F x]]) (auto simp: on_tables_def left_behind_def exit_code_def status_code_0)
    qed (simp add: triple_def)
  qed
  show ?thesis unfolding run_dmon_def
    by (rule triple_bind [OF triple_try [OF body]], rule triple_bind [OF report_exit_code],
        rule triple_then [OF clean], rule triple_then [OF keeps_close]) simp
qed

end

subsection \<open>The remote session as a group service\<close>

abbreviation daemon_groups :: "'r handler option \<Rightarrow> group_settings" where
  "daemon_groups w \<equiv> (case w of Some h \<Rightarrow> ww_groups (eh_watch h) | None \<Rightarrow> group_settings_init)"

lemma watch_frames:
  "rdc_field_watch e gid fgid freq age n w = Some (st, w') \<Longrightarrow> ww_groups w' = ww_groups w"
  "rdc_field_unwatch e gid fgid w = Some (st, w') \<Longrightarrow> ww_groups w' = ww_groups w"
  by (auto simp: rdc_field_watch_def rdc_field_unwatch_def update_field_in_table_when_unwatch_def get_telemetry_module_def Let_def split: if_splits option.splits prod.splits)

lemma handler_fetch_frame: "handler_fetch e g f v h = Some (st, v', h') \<Longrightarrow> ww_groups (eh_watch h') = ww_groups (eh_watch h)"
  by (auto simp: handler_fetch_def Let_def)

lemma get_all_frame: "emb_device_get_all e b h = Some (st, l, h') \<Longrightarrow> ww_groups (eh_watch h') = ww_groups (eh_watch h)"
  by (auto simp: emb_device_get_all_def Let_def split: if_splits option.splits dest: handler_fetch_frame)

interpretation remote_groups: group_service "remote_exec Delivered e" daemon_groups for e :: "'r server_env"
proof
  fix c and w w' :: "'r handler option" and st out
  assume q: "quiet c" and r: "remote_exec Delivered e c w = Some (st, out, w')"
  show "daemon_groups w' = daemon_groups w"
    using q r by (cases c; cases w) (auto simp: remote_simps status_call_def look_def act_def on_watch_def emb_field_watch_def emb_field_unwatch_def
      dest!: watch_frames split: if_splits option.splits prod.splits)
next
  fix nm and w w' :: "'r handler option" and st out
  assume r: "remote_exec Delivered e (A_group_gpu_create RDC_GROUP_EMPTY (Some nm) True) w = Some (st, out, w')"
  show "if st = RDC_ST_OK then \<exists>i. out = O_id (Some i) \<and> rdc_group_gpu_create nm (daemon_groups w) = (RDC_ST_OK, Some i, daemon_groups w') else daemon_groups w' = daemon_groups w"
  proof (cases w)
    case (Some h)
    obtain st1 i1 s1 where c: "rdc_group_gpu_create nm (ww_groups (eh_watch h)) = (st1, i1, s1)" by (metis prod_cases3)
    have "emb_exec (sv_env e) (A_group_gpu_create RDC_GROUP_EMPTY (Some nm) True) h = Some (st1, O_id i1, on_groups (\<lambda>_. s1) h)"
      by (simp add: out_with_def emb_group_gpu_create_def c)
    from agrees_gpu_create [OF this] r c show ?thesis
      by (auto simp: Some agrees_def carry_def rdc_group_gpu_create_def split: if_splits)
  qed (use r in \<open>auto simp: remote_simps split: if_splits option.splits prod.splits\<close>)
next
  fix i g and w w' :: "'r handler option" and st out
  assume r: "remote_exec Delivered e (A_group_gpu_add i g) w = Some (st, out, w')"
  show "daemon_groups w' = daemon_groups w \<or> daemon_groups w' = snd (rdc_group_gpu_add i g (daemon_groups w))"
    using r by (cases w) (auto simp: remote_simps status_call_def act_def emb_group_gpu_add_def dest!: get_all_frame split: if_splits option.splits prod.splits)
next
  fix fs nm and w w' :: "'r handler option" and st out
  assume l: "length fs \<le> RDC_MAX_FIELD_IDS_PER_FIELD_GROUP" and r: "remote_exec Delivered e (A_group_field_create (Some fs) (Some nm) True) w = Some (st, out, w')"
  show "if st = RDC_ST_OK then \<exists>i. out = O_id (Some i) \<and> rdc_group_field_create (fs, nm) (daemon_groups w) = (RDC_ST_OK, Some i, daemon_groups w') else daemon_groups w' = daemon_groups w"
  proof (cases w)
    case (Some h)
    obtain st1 i1 s1 where c: "rdc_group_field_create (fs, nm) (ww_groups (eh_watch h)) = (st1, i1, s1)" by (metis prod_cases3)
    obtain st2 i2 h2 where "emb_group_field_create (Some fs) (Some nm) True h = (st2, i2, h2)"
      and x: "(st2, i2, ww_groups (eh_watch h2)) = (st1, i1, s1) \<or> st2 \<noteq> RDC_ST_OK \<and> h2 = h"
      using l by (cases "list_all is_field_valid fs") (auto simp: emb_group_field_create_def c)
    then have "emb_exec (sv_env e) (A_group_field_create (Some fs) (Some nm) True) h = Some (st2, O_id i2, h2)" by (simp add: out_with_def)
    from agrees_field_create [OF this l] r c x show ?thesis
      by (auto simp: Some agrees_def carry_def rdc_group_field_create_def split: if_splits)
  qed (use r in \<open>auto simp: remote_simps split: if_splits option.splits prod.splits\<close>)
next
  fix i and w w' :: "'r handler option" and st out
  assume r: "remote_exec Delivered e (A_group_gpu_destroy i) w = Some (st, out, w')"
  show "daemon_groups w' = snd (rdc_group_gpu_destroy i (daemon_groups w))"
    using r by (cases w) (auto simp: remote_simps status_call_def act_def emb_group_gpu_destroy_def rdc_group_gpu_destroy_def group_settings_init_def rdc_group_field_create_def split: if_splits option.splits prod.splits)
next
  fix i and w w' :: "'r handler option" and st out
  assume r: "remote_exec Delivered e (A_group_field_destroy i) w = Some (st, out, w')"
  show "daemon_groups w' = snd (rdc_group_field_destroy i (daemon_groups w))"
    using r by (cases w) (auto simp: remote_simps status_call_def act_def emb_group_field_destroy_def rdc_group_field_destroy_def group_settings_init_def rdc_group_field_create_def map_insert_def JOB_FIELD_ID_def split: if_splits option.splits prod.splits)
qed

section \<open>Properties\<close>

text \<open>
  (C18) Whatever the command line of \<^verbatim>\<open>rdci dmon\<close>, when the program ends, normally or by an exception, with every message delivered and
  nobody else changing the groups of the daemon, also not while the program sleeps, the field groups
  of the daemon are as before. The GPU groups are as before too, or the exit code is not 0 and there is at most one
  group more. The clean-up does not look at the status of its calls: when they are lost, the groups stay.
\<close>
theorem dmon_leaves_tables:
  fixes e :: "'r server_env"
  assumes "rdci_main r d (remote_exec Delivered e) (prog # ''dmon'' # args) s = Some (res, s')"
    and "group_settings_inv (daemon_groups (cl_world s))" and "\<forall>u w. daemon_groups (de_usleep d u w) = daemon_groups w"
  shows "\<exists>code. res = Inr code \<and> field_table (daemon_groups (cl_world s')) = field_table (daemon_groups (cl_world s))
    \<and> (gpu_table (daemon_groups (cl_world s')) = gpu_table (daemon_groups (cl_world s))
       \<or> code \<noteq> 0 \<and> (\<exists>i. (gpu_table (daemon_groups (cl_world s')))(i := None) = gpu_table (daemon_groups (cl_world s))))"
proof -
  let ?s0 = "daemon_groups (cl_world s)"
  have "triple (\<lambda>w. daemon_groups w = ?s0) (without_object (run_dmon (dmon_parse (re_getopt r (prog # ''dmon'' # args)) [] [] new_dmon_cmd)
      (connect (re_files r) (re_connect r) \<circ> dm_base) d (remote_exec Delivered e)))
      (\<lambda>code w. remote_groups.left_behind (gpu_table ?s0) (field_table ?s0) code (daemon_groups w)) (\<lambda>_ _. False)"
    by (rule triple_without_object [OF remote_groups.run_dmon_tables [OF assms(2)]])
      (use assms(3) in \<open>auto simp: new_dmon_cmd_def\<close>)
  with assms(1) show ?thesis
    by (cases res) (auto simp: triple_def rdci_main_def Let_def remote_groups.left_behind_def)
qed

definition demo_rdci :: "cli_args \<Rightarrow> rdci_env" where
  "demo_rdci opts = \<lparr>re_files = \<lparr>fs_exists = (\<lambda>_. False), fs_read = (\<lambda>_. None)\<rparr>, re_connect = (\<lambda>_ _. RDC_ST_OK), re_getopt = (\<lambda>_. opts),
     re_job = blank_job_info, re_text = [], re_diag = \<lparr>rp_results_count = 0, rp_diag_info = []\<rparr>, re_stats_op = STATS_UNKNOWN, re_git_hash = []\<rparr>"

definition demo_dmon :: "unit handler option dmon_env" where
  "demo_dmon = \<lparr>de_format = \<lparr>sf_default = (\<lambda>_. []), sf_fixed = (\<lambda>_ _. []), sf_fixed_bits = (\<lambda>_ _. []), sf_gmtime = (\<lambda>_. []), sf_localtime = (\<lambda>_. [])\<rparr>, de_usleep = (\<lambda>_ w. w), de_terminating = (\<lambda>_. True),
     de_next = 0, de_value = blank_value\<rparr>"

abbreviation demo_remote :: "unit handler option api" where
  "demo_remote \<equiv> remote_exec Delivered demo_server_env"

definition stranded_handler :: "unit handler" where
  "stranded_handler = on_groups (\<lambda>_. snd (snd (rdc_group_gpu_create ''rdci-dmon-group'' group_settings_init))) fresh_handler"

lemma demo_create:
  "demo_remote (A_group_gpu_create RDC_GROUP_EMPTY (Some ''rdci-dmon-group'') True) (Some fresh_handler) = Some (RDC_ST_OK, O_id (Some 1), Some stranded_handler)"
proof -
  have "emb_exec (sv_env demo_server_env) (A_group_gpu_create RDC_GROUP_EMPTY (Some ''rdci-dmon-group'') True) fresh_handler = Some (RDC_ST_OK, O_id (Some 1), stranded_handler)"
    by (simp add: out_with_def emb_group_gpu_create_def stranded_handler_def fresh_handler_def new_handler_def rdc_group_gpu_create_def
        group_settings_init_def rdc_group_field_create_def limit_defs job_fields_def)
  from agrees_gpu_create [OF this] show ?thesis by (simp add: agrees_def carry_def)
qed

lemma demo_add: "demo_remote (A_group_gpu_add 1 9) (Some stranded_handler) = Some (RDC_ST_NOT_FOUND, O_none, Some stranded_handler)"
proof -
  have "platform_gpus (we_smi (ee_watch (demo_handler_env 5000))) 2" by (rule demo_platform)
  note device_get_all [OF this, of stranded_handler]
  then show ?thesis
    by (simp add: remote_simps status_call_def act_def emb_group_gpu_add_def demo_server_env_def two_gpu_numbers status_only_reply_def)
qed

definition demo_opts :: cli_args where
  "demo_opts = [(Short CHR ''u'', None), (Short CHR ''i'', Some ''9''), (Short CHR ''e'', Some ''150'')]"

definition demo_object :: dmon_cmd where
  "demo_object = dmon_defaults (new_dmon_cmd\<lparr>dm_base := new_subsystem\<lparr>ss_use_auth := False\<rparr>, dm_field_ids := [150], dm_gpu_indexes := [9]\<rparr>)"

lemmas cmd_defs = bind_cmd_def then_cmd_def ret_def throw_def say_def call_def

lemma demo_parse: "dmon_parse demo_opts [] [] new_dmon_cmd s = Some (Inr demo_object, s)"
  by (simp add: demo_opts_def Let_def string_arg_def dmon_check_def dmon_fields_check_def dmon_gpus_check_def split_string_def field_id_arg_def
      IsNumber_def is_digit_def stoi_def digits_value_def demo_object_def new_dmon_cmd_def cmd_defs is_field_valid_iff field_id_to_descript_def)

lemma demo_connect: "connect fs (\<lambda>_ _. RDC_ST_OK) (dm_base demo_object) s = Some (Inr (), s)"
  by (simp add: connect_def demo_object_def dmon_defaults_def insert_option_def new_dmon_cmd_def cmd_defs)

lemma demo_process:
  "\<exists>s' m. dmon_process demo_dmon demo_remote \<lparr>cl_world = (Some fresh_handler, demo_object), cl_out = [], cl_json = False\<rparr>
     = Some (Inl (Rdc_exception RDC_ST_NOT_FOUND m), s')
   \<and> cl_world s' = (Some stranded_handler, demo_object\<lparr>dm_need_cleanup := True\<rparr>) \<and> \<not> cl_json s'"
  by (simp add: dmon_process_def dmon_monitor_def create_temp_group_def demo_object_def dmon_defaults_def insert_option_def new_dmon_cmd_def cmd_defs
    the_object_def checked_call_def on_session_def demo_create demo_add out_id_def change_object_def)

lemma demo_clean_up:
  "cl_world s = (Some stranded_handler, demo_object\<lparr>dm_need_cleanup := True\<rparr>) \<Longrightarrow>
   \<exists>co. dmon_clean_up demo_remote s = Some (Inr (), s\<lparr>cl_world := (Some stranded_handler, co)\<rparr>)"
  by (simp add: dmon_clean_up_def demo_object_def dmon_defaults_def insert_option_def new_dmon_cmd_def cmd_defs the_object_def change_object_def)
    (rule exI, rule refl)

lemma demo_run:
  "\<exists>s'. rdci_main (demo_rdci demo_opts) demo_dmon demo_remote [''rdci'', ''dmon''] (demo_cli (Some fresh_handler)) = Some (Inr (status_code RDC_ST_NOT_FOUND), s')
     \<and> cl_world s' = Some stranded_handler"
proof -
  obtain s1 m where p: "dmon_process demo_dmon demo_remote \<lparr>cl_world = (Some fresh_handler, demo_object), cl_out = [], cl_json = False\<rparr>
     = Some (Inl (Rdc_exception RDC_ST_NOT_FOUND m), s1)" "cl_world s1 = (Some stranded_handler, demo_object\<lparr>dm_need_cleanup := True\<rparr>)" "\<not> cl_json s1"
    using demo_process by blast
  obtain co where c: "dmon_clean_up demo_remote (s1\<lparr>cl_out := cl_out s1 @ [Text (''rdci Error: '' @ m @ nl)]\<rparr>)
      = Some (Inr (), s1\<lparr>cl_out := cl_out s1 @ [Text (''rdci Error: '' @ m @ nl)], cl_world := (Some stranded_handler, co)\<rparr>)"
    using demo_clean_up [of "s1\<lparr>cl_out := cl_out s1 @ [Text (''rdci Error: '' @ m @ nl)]\<rparr>"] p(2) by auto
  then show ?thesis
    by (simp add: rdci_main_def demo_rdci_def demo_cli_def Let_def without_object_def run_dmon_def try_cmd_def with_object_def demo_parse
        demo_connect change_object_def p report_exception_def close_subsystem_def cmd_defs)
qed

theorem dmon_leaves_tables_witness:
  "\<exists>s' code. rdci_main (demo_rdci demo_opts) demo_dmon (remote_exec Delivered demo_server_env) [''rdci'', ''dmon''] (demo_cli (Some fresh_handler)) = Some (Inr code, s')
     \<and> code \<noteq> 0 \<and> gpu_table (daemon_groups (cl_world s')) \<noteq> Map.empty
     \<and> (\<exists>i. (gpu_table (daemon_groups (cl_world s')))(i := None) = Map.empty) \<and> field_table (daemon_groups (cl_world s')) = field_table group_settings_init"
proof -
  obtain s' where s': "rdci_main (demo_rdci demo_opts) demo_dmon demo_remote [''rdci'', ''dmon''] (demo_cli (Some fresh_handler)) = Some (Inr (status_code RDC_ST_NOT_FOUND), s')"
    "cl_world s' = Some stranded_handler" using demo_run by blast
  have g: "daemon_groups (cl_world (demo_cli (Some fresh_handler))) = group_settings_init" by (simp add: demo_cli_def fresh_handler_def new_handler_def)
  have i: "gpu_group group_settings_init = []" "cur_group_id group_settings_init = 1"
    by (simp_all add: group_settings_init_def rdc_group_field_create_def limit_defs job_fields_def)
  have t: "gpu_table (daemon_groups (cl_world s')) \<noteq> Map.empty"
    by (simp add: s' stranded_handler_def rdc_group_gpu_create_def i limit_defs map_insert_def)
  have sl: "\<forall>u w. daemon_groups (de_usleep demo_dmon u w) = daemon_groups w" by (simp add: demo_dmon_def)
  from dmon_leaves_tables [OF s'(1)] sl t show ?thesis unfolding g
    by (intro exI [of _ s'] exI [of _ "status_code RDC_ST_NOT_FOUND"]) (auto simp: s' group_settings_inv_init i)
qed

end
