(* ===== verification/Rdc_Examples.thy ===== *)
theory Rdc_Examples
  imports Rdci_Cleanup
begin

text \<open>
  The example programs of the repository, as clients of the API: \<^verbatim>\<open>job_stats_example\<close>, \<^verbatim>\<open>field_value_example\<close>,
  and \<^verbatim>\<open>diagnostic_example\<close>. (The fourth, \<^verbatim>\<open>rocprofiler_example\<close>, names two fields that \<^verbatim>\<open>rdc.h\<close> does not have and
  cannot be compiled.) They use the commands of the command line tool's model; the
  session, the clock and the contents of uninitialised locals are parameters. What a run leaves behind in the daemon is proved with the triples
  of \<^verbatim>\<open>Rdci_Cleanup\<close>.
\<close>

section \<open>The common frame\<close>

text \<open>
  \<^verbatim>\<open>std::cin >> standalone\<close>: white space, an optional sign and digits; only the numbers 0 and 1 are accepted. After a
  failure one character is dropped and the program asks again, without end when the input is exhausted.
\<close>

definition cin_space :: "char \<Rightarrow> bool" where
  "cin_space c \<longleftrightarrow> c \<in> {CHR '' '', CHR 0x09, CHR 0x0A, CHR 0x0B, CHR 0x0C, CHR 0x0D}"

definition read_bool :: "string \<Rightarrow> bool option \<times> string" where
  "read_bool input =
     (let s = dropWhile cin_space input;
          t = (if s \<noteq> [] \<and> (hd s = CHR ''+'' \<or> hd s = CHR ''-'') then tl s else s);
          ds = takeWhile is_digit t; rest = dropWhile is_digit t;
          n = (if s \<noteq> [] \<and> hd s = CHR ''-'' then - int (digits_value ds) else int (digits_value ds))
      in (if ds \<noteq> [] \<and> n = 0 then Some False else if ds \<noteq> [] \<and> n = 1 then Some True else None, rest))"

partial_function (option) select_mode :: "string \<Rightarrow> 'w cli \<Rightarrow> (bool \<times> 'w cli) option" where
  "select_mode input s =
     (case read_bool input of
        (Some b, _) \<Rightarrow> Some (b, s)
      | (None, rest) \<Rightarrow> select_mode (tl rest) (s\<lparr>cl_out := cl_out s @ [Text (''Invalid input.'' @ nl)]\<rparr>))"

text \<open>
  Opening, closing and waiting. \<open>xe_job\<close>, \<open>xe_value\<close>, \<open>xe_text\<close>, \<open>xe_response\<close> and \<open>xe_result\<close> are the contents of the locals
  that receive the answers.
\<close>

record 'w example_env =
  xe_stdin :: string
  xe_init :: rdc_status
  xe_connect :: "string \<Rightarrow> 'w \<Rightarrow> rdc_status \<times> 'w"
  xe_start_embedded :: "rdc_operation_mode \<Rightarrow> 'w \<Rightarrow> rdc_status \<times> 'w"
  xe_disconnect :: "'w \<Rightarrow> 'w"
  xe_stop_embedded :: "'w \<Rightarrow> 'w"
  xe_shutdown :: "'w \<Rightarrow> 'w"
  xe_usleep :: "u32 \<Rightarrow> 'w \<Rightarrow> 'w"
  xe_time :: "'w \<Rightarrow> i64"
  xe_job :: rdc_job_info
  xe_value :: rdc_field_value
  xe_text :: string
  xe_response :: rdc_diag_response
  xe_result :: rdc_diag_test_result

text \<open>\<^verbatim>\<open>goto cleanup\<close> with the status in \<^verbatim>\<open>result\<close>.\<close>

definition goto_cleanup :: "rdc_status \<Rightarrow> ('w, 'a) cmd" where
  "goto_cleanup st = throw (Rdc_exception st '''')"

definition on_world :: "('w \<Rightarrow> 'a \<times> 'w) \<Rightarrow> ('w, 'a) cmd" where
  "on_world f s = (case f (cl_world s) of (a, w) \<Rightarrow> Some (Inr a, s\<lparr>cl_world := w\<rparr>))"

definition change_world :: "('w \<Rightarrow> 'w) \<Rightarrow> ('w, unit) cmd" where
  "change_world f s = Some (Inr (), s\<lparr>cl_world := f (cl_world s)\<rparr>)"

definition must_be_ok :: "string \<Rightarrow> string \<Rightarrow> rdc_status \<Rightarrow> ('w, unit) cmd" where
  "must_be_ok msg eol st = (if st \<noteq> RDC_ST_OK then then_cmd (say (msg @ rdc_status_string st @ eol)) (goto_cleanup st) else ret ())"

definition try_call :: "'w api \<Rightarrow> api_call \<Rightarrow> string \<Rightarrow> ('w, api_out) cmd" where
  "try_call api c msg = bind_cmd (call api c) (\<lambda>(st, out). then_cmd (must_be_ok msg '''' st) (ret out))"

definition ask_mode :: "'w example_env \<Rightarrow> ('w, bool) cmd" where
  "ask_mode e =
     then_cmd (say (''Start rdci in: '' @ nl @ ''0 - Embedded mode '' @ nl @ ''1 - Standalone mode '' @ nl))
     (bind_cmd (\<lambda>s. map_option (\<lambda>(b, s'). (Inr b, s')) (select_mode (xe_stdin e) s)) (\<lambda>b.
      then_cmd (say (nl @ (if b then ''Standalone mode selected.'' else ''Embedded mode selected.'') @ nl)) (ret b)))"

definition open_session :: "'w example_env \<Rightarrow> rdc_operation_mode \<Rightarrow> bool \<Rightarrow> ('w, unit) cmd" where
  "open_session e mode standalone =
     then_cmd (must_be_ok ''Error initializing RDC. Return: '' nl (xe_init e))
    (then_cmd (say (''RDC Initialized.'' @ nl))
    (if standalone
     then bind_cmd (on_world (xe_connect e ''127.0.0.1:50051'')) (must_be_ok ''Error connecting to remote rdcd. Return: '' nl)
     else bind_cmd (on_world (xe_start_embedded e mode)) (must_be_ok ''Error starting embedded RDC engine. Return: '' nl)))"

definition close_session :: "'w example_env \<Rightarrow> bool \<Rightarrow> ('w, unit) cmd" where
  "close_session e standalone =
     then_cmd (say (''Cleaning up.'' @ nl))
    (then_cmd (change_world (if standalone then xe_disconnect e else xe_stop_embedded e)) (change_world (xe_shutdown e)))"

text \<open>The value of \<^verbatim>\<open>result\<close> at the label \<^verbatim>\<open>cleanup\<close>, also after a jump.\<close>

definition at_cleanup :: "('w, rdc_status) cmd \<Rightarrow> ('w, rdc_status) cmd" where
  "at_cleanup m s =
     (case m s of
        None \<Rightarrow> None
      | Some (Inl (Rdc_exception st _), s') \<Rightarrow> Some (Inr st, s')
      | Some (Inl Other_exception, s') \<Rightarrow> Some (Inl Other_exception, s')
      | Some (Inr st, s') \<Rightarrow> Some (Inr st, s'))"

definition session_program :: "'w example_env \<Rightarrow> rdc_operation_mode \<Rightarrow> bool \<Rightarrow> ('w, rdc_status) cmd \<Rightarrow> ('w, rdc_status) cmd" where
  "session_program e mode standalone body =
     bind_cmd (at_cleanup (then_cmd (open_session e mode standalone) body)) (\<lambda>result.
     then_cmd (close_session e standalone) (ret result))"

section \<open>\<open>job_stats_example\<close>\<close>

definition usage_row :: "rdc_stats_summary \<Rightarrow> string" where
  "usage_row x = ''Max: '' @ u64_string (ss_max_value x) @ '' Min: '' @ u64_string (ss_min_value x) @ '' Avg: '' @ u64_string (ss_average x) @ nl"

definition job_report :: "rdc_gpu_usage_info \<Rightarrow> string" where
  "job_report g =
     ''|------- Execution Stats ----------+------------------------------------'' @ nl
     @ ''| Start Time *                     | '' @ u64_string (gu_start_time g) @ nl
     @ ''| End Time *                       | '' @ u64_string (gu_end_time g) @ nl
     @ ''| Total Execution Time (sec) *     | '' @ u64_string (gu_end_time g - gu_start_time g) @ nl
     @ ''+------- Performance Stats --------+------------------------------------'' @ nl
     @ ''| Energy Consumed (Joules)         | '' @ u64_string (gu_energy_consumed g) @ nl
     @ ''| Power Usage (Watts)              | '' @ usage_row (gu_power_usage g)
     @ ''| GPU Clock (MHz)                  | '' @ usage_row (gu_gpu_clock g)
     @ ''| GPU Utilization (%)              | '' @ usage_row (gu_gpu_utilization g)
     @ ''| Max GPU Memory Used (bytes) *    | '' @ u64_string (gu_max_gpu_memory_used g) @ nl
     @ ''| Memory Utilization (%)           | '' @ usage_row (gu_memory_utilization g)
     @ ''+----------------------------------+------------------------------------'' @ nl"

definition take_samples :: "'w api \<Rightarrow> 'w example_env \<Rightarrow> bool \<Rightarrow> ('w, unit) cmd" where
  "take_samples api e standalone =
     (if \<not> standalone
      then for_each [5, 4, 3, 2, 1 :: nat] (\<lambda>_. bind_cmd (try_call api (A_field_update_all 0) ''Error update all fields. Return: '') (\<lambda>_.
             change_world (xe_usleep e 1000000)))
      else change_world (xe_usleep e 5000000))"

definition job_stats_body :: "'w api \<Rightarrow> 'w example_env \<Rightarrow> bool \<Rightarrow> ('w, rdc_status) cmd" where
  "job_stats_body api e standalone =
     bind_cmd (try_call api (A_group_gpu_create RDC_GROUP_EMPTY (Some ''group1'') True) ''Error creating group. Return: '') (\<lambda>out.
     bind_cmd (out_id out) (\<lambda>group_id.
     bind_cmd (try_call api (A_group_gpu_add group_id 0) ''Error adding group. Return: '') (\<lambda>_.
     bind_cmd (try_call api (A_job_start_stats group_id ''123'' 1000000) ''Error start job stats. Return: '') (\<lambda>_.
     then_cmd (take_samples api e standalone)
    (bind_cmd (try_call api (A_job_stop_stats ''123'') ''Error stop job stats. Return: '') (\<lambda>_.
     bind_cmd (call api (A_job_get_stats ''123'' (Some (xe_job e)))) (\<lambda>(result, out).
     if result = RDC_ST_OK
     then (case out of O_job (Some job_info) \<Rightarrow> then_cmd (say (job_report (ji_summary job_info))) (ret result) | _ \<Rightarrow> undefined_cmd)
     else then_cmd (say (''No data for job stats found.'' @ nl)) (ret result))))))))"

definition job_stats_example :: "'w api \<Rightarrow> 'w example_env \<Rightarrow> ('w, rdc_status) cmd" where
  "job_stats_example api e =
     bind_cmd (ask_mode e) (\<lambda>standalone. session_program e RDC_OPERATION_MODE_MANUAL standalone (job_stats_body api e standalone))"

section \<open>\<open>field_value_example\<close>\<close>

text \<open>The table of the latest values, with a line per value that is there; every value is printed as an integer.\<close>

definition table_head :: string where
  "table_head = ''time_stamp'' @ tab @ ''GPU_index'' @ tab @ ''field_name'' @ tab @ tab @ ''field_value'' @ nl"

definition value_line :: "u32 \<Rightarrow> rdc_field_value \<Rightarrow> ('w, unit) cmd" where
  "value_line g v =
     bind_cmd (field_id_string (fv_field_id v)) (\<lambda>name.
     say (u64_string (fv_ts v) @ tab @ u32_string g @ tab @ tab @ setw 16 name @ tab @ i64_string (l_int (fv_value v)) @ nl))"

definition print_latest :: "'w api \<Rightarrow> 'w example_env \<Rightarrow> u32 \<Rightarrow> u32 \<Rightarrow> ('w, unit) cmd" where
  "print_latest api e g f =
     bind_cmd (call api (A_field_get_latest_value g f (Some (xe_value e)))) (\<lambda>(st, out).
     if st = RDC_ST_NOT_FOUND then ret ()
     else then_cmd (must_be_ok ''Error get least value. Return: '' '''' st)
            (case out of O_value (Some v) \<Rightarrow> value_line g v | _ \<Rightarrow> undefined_cmd))"

text \<open>The history of a field from a cursor on; \<^verbatim>\<open>next_timestamp\<close> keeps its value from field to field.\<close>

partial_function (option) print_history ::
    "'w api \<Rightarrow> 'w example_env \<Rightarrow> u32 \<Rightarrow> u32 \<Rightarrow> u64 \<Rightarrow> u64 \<Rightarrow> 'w cli \<Rightarrow> ((cli_exc + u64) \<times> 'w cli) option" where
  "print_history api e g f since next s =
     (case call api (A_field_get_value_since g f since (Some next) (Some (xe_value e))) s of
        None \<Rightarrow> None
      | Some (Inl x, s1) \<Rightarrow> Some (Inl x, s1)
      | Some (Inr (st, out), s1) \<Rightarrow>
          if st = RDC_ST_NOT_FOUND then Some (Inr (case out of O_since (Some n) _ \<Rightarrow> n | _ \<Rightarrow> next), s1)
          else if st \<noteq> RDC_ST_OK then then_cmd (say (''Error get history data. Return: '' @ rdc_status_string st)) (goto_cleanup st) s1
          else (case out of
                  O_since (Some n) (Some v) \<Rightarrow>
                    (case value_line g v s1 of
                       None \<Rightarrow> None
                     | Some (Inl x, s2) \<Rightarrow> Some (Inl x, s2)
                     | Some (Inr _, s2) \<Rightarrow> print_history api e g f n n s2)
                | _ \<Rightarrow> None))"

definition each_field :: "u32 list \<Rightarrow> u32 list \<Rightarrow> (u32 \<times> u32) list" where
  "each_field gs fs = concat (map (\<lambda>g. map (Pair g) fs) gs)"

definition report_values ::
    "'w api \<Rightarrow> 'w example_env \<Rightarrow> u32 \<Rightarrow> u32 \<Rightarrow> ('w, unit) cmd" where
  "report_values api e group_id field_group_id =
     (let both = ''group:'' @ u32_string group_id @ '' field_group:'' @ u32_string field_group_id @ nl in
      bind_cmd (try_call api (A_group_gpu_get_info group_id True) ''Error get gpu group info. Return: '') (\<lambda>out.
      bind_cmd (out_group out) (\<lambda>group_info.
      bind_cmd (try_call api (A_group_field_get_info field_group_id True) ''Error get field group info. Return: '') (\<lambda>out.
      bind_cmd (out_field_group out) (\<lambda>field_info.
      then_cmd (say (''Get the latest metrics for '' @ both @ table_head))
     (then_cmd (for_each (each_field (entity_ids group_info) (field_ids field_info)) (\<lambda>(g, f). print_latest api e g f))
     (bind_cmd (try_call api (A_field_unwatch group_id field_group_id) ''Error stop watch fields. Return: '') (\<lambda>_.
      then_cmd (say (''Stop watch group:'' @ u32_string group_id @ '', field_group:'' @ u32_string field_group_id @ nl
                     @ ''Get last 10 seconds metrics for '' @ both @ table_head))
     (bind_cmd (\<lambda>s. ret ((xe_time e (cl_world s) - 10) * 1000) s) (\<lambda>start_timestamp.
      bind_cmd (fold_cmd (\<lambda>(g, f). print_history api e g f start_timestamp)
                 (each_field (entity_ids group_info) (field_ids field_info)) 0) (\<lambda>_.
      ret ())))))))))))"

text \<open>The middle part, between finding the GPUs and deleting the groups, with a group of all GPUs and a group of fields.\<close>

definition add_and_describe :: "'w api \<Rightarrow> 'w example_env \<Rightarrow> u32 \<Rightarrow> u32 \<Rightarrow> ('w, unit) cmd" where
  "add_and_describe api e group_id g =
     bind_cmd (try_call api (A_group_gpu_add group_id g) ''Error adding group. Return: '') (\<lambda>_.
     bind_cmd (try_call api (A_device_get_attributes g (Some (xe_text e))) ''Error get GPU attribute. Return: '') (\<lambda>out.
     case out of
       O_text (Some device_name) \<Rightarrow> say (''Add GPU '' @ u32_string g @ '':'' @ device_name @ '' to group '' @ u32_string group_id @ nl)
     | _ \<Rightarrow> undefined_cmd))"

definition field_value_body :: "'w api \<Rightarrow> 'w example_env \<Rightarrow> ('w, rdc_status) cmd" where
  "field_value_body api e =
     bind_cmd (try_call api (A_device_get_all True) ''Error to find devices on the system. Return: '') (\<lambda>out.
     bind_cmd (out_ids out) (\<lambda>gpu_index_list.
     if gpu_index_list = [] then then_cmd (say ''No GPUs find on the sytem '') (ret RDC_ST_OK)
     else
     then_cmd (say (nat_string (length gpu_index_list) @ '' GPUs found in the system.'' @ nl))
    (bind_cmd (try_call api (A_group_gpu_create RDC_GROUP_EMPTY (Some ''group1'') True) ''Error creating group. Return: '') (\<lambda>out.
     bind_cmd (out_id out) (\<lambda>group_id.
     then_cmd (say (''Created the GPU group '' @ u32_string group_id @ nl))
    (then_cmd (for_each gpu_index_list (add_and_describe api e group_id))
    (bind_cmd (try_call api (A_group_field_create (Some [RDC_FI_GPU_MEMORY_USAGE, RDC_FI_POWER_USAGE]) (Some ''fieldgroup1'') True) ''Error create field group, Return: '') (\<lambda>out.
     bind_cmd (out_id out) (\<lambda>field_group_id.
     bind_cmd (field_id_string RDC_FI_GPU_MEMORY_USAGE) (\<lambda>a. bind_cmd (field_id_string RDC_FI_POWER_USAGE) (\<lambda>b.
     then_cmd (say (''Created the field group '' @ u32_string field_group_id @ '': '' @ a @ '', '' @ b @ nl))
    (bind_cmd (try_call api (A_field_watch group_id field_group_id 1000000 60 10) ''Error watch group fields. Return: '') (\<lambda>_.
     then_cmd (say (''Start to watch group:'' @ u32_string group_id @ '', field_group:'' @ u32_string field_group_id @ nl
                    @ ''Sleep a few seconds before retreive the data ...'' @ nl))
    (then_cmd (change_world (xe_usleep e 5000000))
    (then_cmd (report_values api e group_id field_group_id)
    (bind_cmd (try_call api (A_group_field_destroy field_group_id) ''Error delete field group. Return: '') (\<lambda>_.
     then_cmd (say (''Deleted the field group '' @ u32_string field_group_id @ nl))
    (bind_cmd (try_call api (A_group_gpu_destroy group_id) ''Error delete GPU group. Return: '') (\<lambda>_.
     then_cmd (say (''Deleted the GPU group '' @ u32_string group_id @ nl)) (ret RDC_ST_OK))))))))))))))))))))"

definition field_value_example :: "'w api \<Rightarrow> 'w example_env \<Rightarrow> ('w, rdc_status) cmd" where
  "field_value_example api e =
     bind_cmd (ask_mode e) (\<lambda>standalone. session_program e RDC_OPERATION_MODE_AUTO standalone (field_value_body api e))"

section \<open>\<open>diagnostic_example\<close>\<close>

fun example_test_name :: "rdc_diag_test_cases \<Rightarrow> string" where
  "example_test_name RDC_DIAG_COMPUTE_PROCESS = ''No compute process''"
| "example_test_name RDC_DIAG_COMPUTE_QUEUE = ''Compute Queue ready''"
| "example_test_name RDC_DIAG_SYS_MEM_CHECK = ''System memory check''"
| "example_test_name RDC_DIAG_NODE_TOPOLOGY = ''Node topology check''"
| "example_test_name RDC_DIAG_RVS_TEST = ''RVS check''"
| "example_test_name RDC_DIAG_GPU_PARAMETERS = ''GPU parameters check''"

definition diag_heading :: "rdc_diag_test_cases \<Rightarrow> string" where
  "diag_heading t = setw 22 (example_test_name t @ '':'')"

definition diag_details :: "rdc_diag_test_result \<Rightarrow> string" where
  "diag_details t =
     (if tr_info t \<noteq> '''' then diag_heading (tr_test_case t) @ tr_info t @ nl else '''')
     @ concat (map (\<lambda>g. if dd_msg (pg_gpu_result g) \<noteq> '''' then '' GPU '' @ u32_string (pg_gpu_index g) @ '' '' @ dd_msg (pg_gpu_result g) @ nl else '''')
         (take (unat (tr_per_gpu_result_count t)) (tr_gpu_results t)))"

definition show_response :: "rdc_diag_response \<Rightarrow> ('w, unit) cmd" where
  "show_response r =
     (let ts = take (unat (rp_results_count r)) (rp_diag_info r) in
      if length (rp_diag_info r) < unat (rp_results_count r) \<or>
         (\<exists>t\<in>set ts. length (tr_gpu_results t) < unat (tr_per_gpu_result_count t)) then undefined_cmd
      else say (concat (map (\<lambda>t. diag_heading (tr_test_case t) @ rdc_diagnostic_result_string (tr_status t) @ nl) ts)
                @ '' =============== Diagnostic Details =================='' @ nl @ concat (map diag_details ts)))"

definition diagnostic_body :: "'w api \<Rightarrow> 'w example_env \<Rightarrow> ('w, rdc_status) cmd" where
  "diagnostic_body api e =
     bind_cmd (try_call api (A_group_gpu_create RDC_GROUP_DEFAULT (Some ''diag_group'') True) ''Error creating group. Return: '') (\<lambda>out.
     bind_cmd (out_id out) (\<lambda>group_id.
     bind_cmd (try_call api (A_diagnostic_run group_id RDC_DIAG_LVL_SHORT None (Some (xe_response e)))
                 ''Error run RDC_DIAG_LVL_SHORT diagnostic. Return: '') (\<lambda>out.
     then_cmd (case out of O_diag (Some response) \<Rightarrow> show_response response | _ \<Rightarrow> undefined_cmd)
    (then_cmd (say ('' ============== Run individual diagnostic test ==========='' @ nl))
    (bind_cmd (try_call api (A_test_case_run group_id RDC_DIAG_COMPUTE_PROCESS None (Some (xe_result e)))
                 ''Error run RDC_DIAG_COMPUTE_PROCESS diagnostic. Return: '') (\<lambda>out.
     case out of
       O_test (Some test_result) \<Rightarrow>
         then_cmd (say (diag_heading RDC_DIAG_COMPUTE_PROCESS @ tr_info test_result @ nl)) (ret RDC_ST_OK)
     | _ \<Rightarrow> undefined_cmd))))))"

definition diagnostic_example :: "'w api \<Rightarrow> 'w example_env \<Rightarrow> ('w, rdc_status) cmd" where
  "diagnostic_example api e =
     bind_cmd (ask_mode e) (\<lambda>standalone. session_program e RDC_OPERATION_MODE_AUTO standalone (diagnostic_body api e))"

end
