(* ===== verification/Rdc_Example_Properties.thy ===== *)
theory Rdc_Example_Properties
  imports Rdc_Examples
begin

text \<open>
  What the example programs leave behind in a daemon, and how they end: triples over the group tables, in a locale for
  the service the examples rely on, interpreted on the remote session.
\<close>

declare status_code.simps [simp del]

section \<open>Commands of the examples\<close>

text \<open>A predicate of the group tables, and jumps to the clean-up with a status that is not OK.\<close>

definition jumps :: "('s \<Rightarrow> bool) \<Rightarrow> cli_exc \<Rightarrow> 's \<Rightarrow> bool" where
  "jumps J x s \<longleftrightarrow> (\<exists>st m. x = Rdc_exception st m \<and> st \<noteq> RDC_ST_OK) \<and> J s"

lemma tripleD:
  "triple P m Q E \<Longrightarrow> P (cl_world s) \<Longrightarrow> m s = Some (r, s') \<Longrightarrow> case r of Inl x \<Rightarrow> E x (cl_world s') | Inr a \<Rightarrow> Q a (cl_world s')"
  by (simp add: triple_def)

lemma triple_goto [simp]: "triple P (goto_cleanup st) Q E \<longleftrightarrow> (\<forall>w. P w \<longrightarrow> E (Rdc_exception st []) w)"
  by (simp add: goto_cleanup_def)

lemma triple_change_world [simp]: "triple P (change_world f) Q E \<longleftrightarrow> (\<forall>w. P w \<longrightarrow> Q () (f w))"
  unfolding triple_def change_world_def using ex_world by (auto, metis)

lemma triple_say_then: "triple P k R E \<Longrightarrow> triple P (then_cmd (say t) k) R E"
  by (rule triple_then [where Q = P]) simp_all

lemma triple_on_world: "(\<And>w a w'. P w \<Longrightarrow> f w = (a, w') \<Longrightarrow> Q a w') \<Longrightarrow> triple P (on_world f) Q E"
  by (auto simp: triple_def on_world_def split: prod.split)

lemma must_be_ok_jumps:
  "triple P (must_be_ok msg eol st) (\<lambda>_ w. P w \<and> st = RDC_ST_OK) (jumps P)"
  unfolding must_be_ok_def by (auto simp: jumps_def intro!: triple_then [where Q = P])

lemma triple_select: "triple P (\<lambda>s. map_option (\<lambda>(b, s'). (Inr b, s')) (select_mode input s)) (\<lambda>_. P) E"
proof -
  have "cl_world (snd r) = cl_world s" if "select_mode input s = Some r" for s :: "'w cli" and r
    using that
    by (rule select_mode.raw_induct [where P = "\<lambda>_ s r. cl_world (snd r) = cl_world s", rotated])
      (auto split: prod.splits option.splits)
  then show ?thesis by (fastforce simp: triple_def)
qed

lemma keeps_ask_mode: "keeps P (ask_mode e)"
  unfolding ask_mode_def by (auto intro!: keeps_then keeps_bind triple_select)

lemma triple_at_cleanup:
  "triple P m (\<lambda>st w. Q st w) E \<Longrightarrow> (\<And>st m w. E (Rdc_exception st m) w \<Longrightarrow> Q st w) \<Longrightarrow> (\<And>w. \<not> E Other_exception w) \<Longrightarrow>
   triple P (at_cleanup m) Q E'"
  unfolding triple_def at_cleanup_def by (fastforce split: option.splits sum.splits cli_exc.splits)

text \<open>The input that is exhausted: the program asks for ever.\<close>

lemma select_mode_end: "select_mode [] s = None"
proof -
  have "input \<noteq> []" if "select_mode input s = Some r" for input s r
    using that by (rule select_mode.raw_induct [where P = "\<lambda>input _ _. input \<noteq> []", rotated]) (fastforce simp: read_bool_def)
  then show ?thesis by (metis not_Some_eq)
qed

lemma select_mode_digit: "select_mode ''0'' s = Some (False, s)" "select_mode ''1'' s = Some (True, s)"
  by (simp_all add: select_mode.simps read_bool_def Let_def cin_space_def is_digit_def digits_value_def)

section \<open>The service\<close>

fun idle :: "api_call \<Rightarrow> bool" where
  "idle (A_device_get_all _) = True"
| "idle (A_device_get_attributes _ _) = True"
| "idle (A_job_start_stats _ _ _) = True"
| "idle (A_job_stop_stats _) = True"
| "idle (A_job_get_stats _ _) = True"
| "idle _ = False"

text \<open>The tables at most one group too large.\<close>

definition one_more :: "('k \<rightharpoonup> 'v) \<Rightarrow> ('k \<rightharpoonup> 'v) \<Rightarrow> bool" where
  "one_more T' T \<longleftrightarrow> T' = T \<or> (\<exists>i. T'(i := None) = T)"

lemma one_moreI: "T = T' \<Longrightarrow> one_more T' T" "T'(i := None) = T \<Longrightarrow> one_more T' T"
  by (auto simp: one_more_def)

locale example_service = group_service +
  assumes idle_call: "idle c \<Longrightarrow> api c w = Some (st, out, w') \<Longrightarrow> gs w' = gs w"
begin

abbreviation on_gs :: "(group_settings \<Rightarrow> bool) \<Rightarrow> 'a \<Rightarrow> bool" where
  "on_gs J w \<equiv> J (gs w)"

lemma try_call_gs:
  assumes "\<And>w st out w'. P (gs w) \<Longrightarrow> api c w = Some (st, out, w') \<Longrightarrow> if st = RDC_ST_OK then Q out (gs w') else J (gs w')"
  shows "triple (on_gs P) (try_call api c msg) (\<lambda>out. on_gs (Q out)) (jumps (on_gs J))"
  unfolding try_call_def
proof (rule triple_bind [where Q = "\<lambda>(st, out) w. if st = RDC_ST_OK then Q out (gs w) else J (gs w)"])
  show "triple (on_gs P) (call api c) (\<lambda>(st, out) w. if st = RDC_ST_OK then Q out (gs w) else J (gs w)) (jumps (on_gs J))"
    using assms by auto
  fix a :: "rdc_status \<times> api_out"
  obtain st out where a: "a = (st, out)" by fastforce
  show "triple (case a of (st, out) \<Rightarrow> \<lambda>w. if st = RDC_ST_OK then Q out (gs w) else J (gs w))
      (case a of (st, out) \<Rightarrow> then_cmd (must_be_ok msg [] st) (ret out)) (\<lambda>out. on_gs (Q out)) (jumps (on_gs J))"
  proof (cases "st = RDC_ST_OK")
    case True
    then show ?thesis by (simp add: a must_be_ok_def) (rule triple_then [where Q = "on_gs (Q out)"], simp_all)
  next
    case False
    then have "triple (on_gs J) (must_be_ok msg [] st) (\<lambda>_ _. False) (jumps (on_gs J))"
      by (auto simp: must_be_ok_def jumps_def intro!: triple_then [where Q = "on_gs J"])
    from triple_then [OF this, of "ret out"] False show ?thesis by (simp add: a)
  qed
qed

lemma try_still:
  assumes "quiet c \<or> idle c" and "\<And>s. P s \<Longrightarrow> J s"
  shows "triple (on_gs P) (try_call api c msg) (\<lambda>_. on_gs P) (jumps (on_gs J))"
  by (rule try_call_gs) (use assms quiet_call idle_call in \<open>auto split: if_splits\<close>)

lemma call_still: "quiet c \<or> idle c \<Longrightarrow> triple (on_gs P) (call api c) (\<lambda>_. on_gs P) E"
  using quiet_call idle_call by fastforce

lemma out_id_gs:
  assumes "\<And>i. triple (on_gs (P i)) (k i) R E"
  shows "triple (on_gs (\<lambda>s. \<exists>i. out = O_id (Some i) \<and> P i s)) (bind_cmd (out_id out) k) R E"
proof (cases "\<exists>i. out = O_id (Some i)")
  case True
  then obtain i where "out = O_id (Some i)" by blast
  then show ?thesis using assms [of i] by (auto simp: triple_def out_id_def bind_cmd_def ret_def)
qed (auto simp: triple_def)

lemma out_still:
  "triple P (out_ids out) (\<lambda>_. P) E" "triple P (out_group out) (\<lambda>_. P) E" "triple P (out_field_group out) (\<lambda>_. P) E"
  "triple P (field_id_string f) (\<lambda>_. P) E"
  by (auto simp: out_ids_def out_group_def out_field_group_def field_id_string_def split: api_out.split option.split)

lemma still_value_line: "triple P (value_line g v) (\<lambda>_. P) E"
  unfolding value_line_def by (auto intro!: triple_bind [where Q = "\<lambda>_. P"] out_still)

lemma still_latest:
  assumes "\<And>s. P s \<Longrightarrow> J s"
  shows "triple (on_gs P) (print_latest api e g f) (\<lambda>_. on_gs P) (jumps (on_gs J))"
proof -
  have "triple (on_gs P) (must_be_ok m eol st) (\<lambda>_. on_gs P) (jumps (on_gs J))" for m eol st
    by (rule triple_conseq [OF must_be_ok_jumps [of "on_gs P"]]) (auto simp: jumps_def assms)
  note ok = triple_then [OF this]
  show ?thesis unfolding print_latest_def
    by (auto intro!: triple_bind [OF call_still] ok still_value_line split: api_out.split option.split)
qed

lemma still_history:
  assumes "\<And>s. P s \<Longrightarrow> J s"
  shows "triple (on_gs P) (print_history api e g f since n) (\<lambda>_. on_gs P) (jumps (on_gs J))"
proof -
  let ?ok = "\<lambda>s r. on_gs P (cl_world s) \<longrightarrow> (case fst r of Inl x \<Rightarrow> jumps (on_gs J) x (cl_world (snd r)) | Inr _ \<Rightarrow> on_gs P (cl_world (snd r)))"
  have "api' = api \<longrightarrow> ?ok s r" if "print_history api' e g f since n s = Some r" for api' s r
  proof (rule print_history.raw_induct [OF _ that, where P = "\<lambda>api' _ _ _ _ _ s r. api' = api \<longrightarrow> ?ok s r"], intro impI)
    fix ph api' e g f since n s r
    assume IH: "\<And>api' e g f since n s r. ph api' e g f since n s = Some r \<Longrightarrow> api' = api \<longrightarrow> ?ok s r"
      and body: "(case call api' (A_field_get_value_since g f since (Some n) (Some (xe_value e))) s of
        None \<Rightarrow> None
      | Some (Inl x, s1) \<Rightarrow> Some (Inl x, s1)
      | Some (Inr (st, out), s1) \<Rightarrow>
          if st = RDC_ST_NOT_FOUND then Some (Inr (case out of O_since (Some n) _ \<Rightarrow> n | _ \<Rightarrow> n), s1)
          else if st \<noteq> RDC_ST_OK then then_cmd (say (''Error get history data. Return: '' @ rdc_status_string st)) (goto_cleanup st) s1
          else (case out of
                  O_since (Some n) (Some v) \<Rightarrow>
                    (case value_line g v s1 of
                       None \<Rightarrow> None
                     | Some (Inl x, s2) \<Rightarrow> Some (Inl x, s2)
                     | Some (Inr _, s2) \<Rightarrow> ph api' e g f n n s2)
                | _ \<Rightarrow> None)) = Some r" and a: "api' = api" and p: "on_gs P (cl_world s)"
    obtain st out w' where c: "api (A_field_get_value_since g f since (Some n) (Some (xe_value e))) (cl_world s) = Some (st, out, w')"
      using body a by (auto simp: call_def split: option.splits)
    let ?s1 = "s\<lparr>cl_world := w'\<rparr>"
    have w': "on_gs P w'" using quiet_call [OF _ c] p by simp
    show "case fst r of Inl x \<Rightarrow> jumps (on_gs J) x (cl_world (snd r)) | Inr _ \<Rightarrow> on_gs P (cl_world (snd r))"
    proof (cases "st = RDC_ST_OK")
      case False
      with body a c w' assms show ?thesis
        by (auto simp: call_def jumps_def then_cmd_def bind_cmd_def say_def goto_cleanup_def throw_def split: if_splits)
    next
      case True
      with body a c obtain n' v where out: "out = O_since (Some n') (Some v)" by (auto simp: call_def split: api_out.splits option.splits)
      from True body a c out obtain y s2 where v: "value_line g v ?s1 = Some (y, s2)" by (auto simp: call_def split: option.splits)
      have y: "case y of Inl x \<Rightarrow> False | Inr _ \<Rightarrow> on_gs P (cl_world s2)"
        using still_value_line [of "on_gs P" g v "\<lambda>_ _. False", unfolded triple_def, rule_format, of ?s1, OF _ v] w' by (simp split: sum.splits)
      with True body a c out v have "ph api e g f n' n' s2 = Some r" by (auto simp: call_def split: sum.splits)
      from IH [OF this] y show ?thesis by (auto split: sum.splits)
    qed
  qed
  note run = this
  show ?thesis unfolding triple_def
  proof (intro allI impI)
    fix s r s' assume "on_gs P (cl_world s)" "print_history api e g f since n s = Some (r, s')"
    then show "case r of Inl x \<Rightarrow> jumps (on_gs J) x (cl_world s') | Inr a \<Rightarrow> on_gs P (cl_world s')" using run [of api s "(r, s')"] by (simp split: sum.splits)
  qed
qed

lemma still_fold:
  "(\<And>x a. triple P (body x a) (\<lambda>_. P) E) \<Longrightarrow> triple P (fold_cmd body xs a) (\<lambda>_. P) E"
  by (rule triple_fold)

lemma still_values:
  assumes "\<And>s. P s \<Longrightarrow> J s"
  shows "triple (on_gs P) (report_values api e gid fgid) (\<lambda>_. on_gs P) (jumps (on_gs J))"
proof -
  have history: "triple (on_gs P) ((case x of (g, f) \<Rightarrow> print_history api e g f since) n) (\<lambda>_. on_gs P) (jumps (on_gs J))" for x since n
    by (cases x) (simp, rule still_history [OF assms])
  have latest: "triple (on_gs P) (case x of (g, f) \<Rightarrow> print_latest api e g f) (\<lambda>_. on_gs P) (jumps (on_gs J))" for x
    by (cases x) (simp, rule still_latest [OF assms])
  have time: "triple (on_gs P) (\<lambda>s. ret (f (cl_world s)) s) (\<lambda>_. on_gs P) E" for f :: "'a \<Rightarrow> u64" and E
    by (auto simp: triple_def ret_def)
  show ?thesis unfolding report_values_def Let_def
    by (intro triple_bind [OF try_still [OF _ assms]] triple_bind [OF out_still(2)] triple_bind [OF out_still(3)] triple_say_then
        triple_then [OF triple_for_each [OF latest]] triple_bind [OF time] triple_bind [OF still_fold [OF history]]) simp_all
qed

text \<open>The phases of a run: nothing made, the group made, both made, the fields destroyed.\<close>

definition group_made :: "group_settings \<Rightarrow> u32 \<Rightarrow> group_settings \<Rightarrow> bool" where
  "group_made s0 i s \<longleftrightarrow> (gpu_table s)(i := None) = gpu_table s0 \<and> field_group s = field_group s0 \<and> cur_field_group_id s = cur_field_group_id s0"

definition both_made :: "group_settings \<Rightarrow> u32 \<Rightarrow> u32 \<Rightarrow> group_settings \<Rightarrow> bool" where
  "both_made s0 i k s \<longleftrightarrow> (gpu_table s)(i := None) = gpu_table s0 \<and> (field_table s)(k := None) = field_table s0 \<and> k \<noteq> JOB_FIELD_ID"

definition fields_gone :: "group_settings \<Rightarrow> u32 \<Rightarrow> group_settings \<Rightarrow> bool" where
  "fields_gone s0 i s \<longleftrightarrow> (gpu_table s)(i := None) = gpu_table s0 \<and> field_table s = field_table s0"

definition loose :: "group_settings \<Rightarrow> group_settings \<Rightarrow> bool" where
  "loose s0 s \<longleftrightarrow> one_more (gpu_table s) (gpu_table s0) \<and> one_more (field_table s) (field_table s0)"

definition as_before :: "group_settings \<Rightarrow> group_settings \<Rightarrow> bool" where
  "as_before s0 s \<longleftrightarrow> gpu_table s = gpu_table s0 \<and> field_table s = field_table s0"

lemma phases_loose:
  "loose s0 s0" "group_made s0 i s \<Longrightarrow> loose s0 s" "both_made s0 i k s \<Longrightarrow> loose s0 s" "fields_gone s0 i s \<Longrightarrow> loose s0 s" "as_before s0 s \<Longrightarrow> loose s0 s"
  by (auto simp: loose_def group_made_def both_made_def fields_gone_def as_before_def intro: one_moreI)

lemma create_group:
  assumes "group_settings_inv s0" and "\<And>s. s = s0 \<Longrightarrow> J s"
  shows "triple (on_gs (\<lambda>s. s = s0)) (try_call api (A_group_gpu_create RDC_GROUP_EMPTY (Some nm) True) msg)
    (\<lambda>out. on_gs (\<lambda>s. \<exists>i. out = O_id (Some i) \<and> group_made s0 i s \<and> gpu_table s0 i = None \<and> gpu_table s = (gpu_table s0)(i \<mapsto> new_group_info nm)))
    (jumps (on_gs J))"
proof (rule try_call_gs)
  fix w st out w' assume w: "gs w = s0" and r: "api (A_group_gpu_create RDC_GROUP_EMPTY (Some nm) True) w = Some (st, out, w')"
  show "if st = RDC_ST_OK then \<exists>i. out = O_id (Some i) \<and> group_made s0 i (gs w') \<and> gpu_table s0 i = None \<and> gpu_table (gs w') = (gpu_table s0)(i \<mapsto> new_group_info nm)
    else J (gs w')"
    using gpu_create [OF r] w assms(2) gpu_reg.lookup_created [OF group_settings_invD(1) [OF assms(1)], of nm] gpu_create_frame [of nm s0]
    by (auto simp: group_made_def fun_upd_idem split: if_splits)
qed

lemma add_made: "group_made s0 i s \<Longrightarrow> group_made s0 i (snd (rdc_group_gpu_add i g s))"
  by (simp add: group_made_def add_tables)

lemma add_described:
  "triple (on_gs (group_made s0 i)) (add_and_describe api e i g) (\<lambda>_. on_gs (group_made s0 i)) (jumps (on_gs (loose s0)))"
  unfolding add_and_describe_def
  by (rule triple_bind [OF try_call_gs [where Q = "\<lambda>_. group_made s0 i"]], use gpu_add add_made phases_loose(2) in \<open>fastforce\<close>,
      rule triple_bind [OF try_still [OF _ phases_loose(2)]]) (auto split: api_out.split option.split)

lemma create_fields:
  assumes inv: "group_settings_inv s0" and l: "length fs \<le> RDC_MAX_FIELD_IDS_PER_FIELD_GROUP"
  shows "triple (on_gs (group_made s0 i)) (try_call api (A_group_field_create (Some fs) (Some nm) True) msg)
    (\<lambda>out. on_gs (\<lambda>s. \<exists>k. out = O_id (Some k) \<and> both_made s0 i k s)) (jumps (on_gs (loose s0)))"
proof (rule try_call_gs)
  fix w st out w' assume w: "group_made s0 i (gs w)" and r: "api (A_group_field_create (Some fs) (Some nm) True) w = Some (st, out, w')"
  have fresh: "map_of (field_group s0) (cur_field_group_id s0) = None" "cur_field_group_id s0 \<noteq> JOB_FIELD_ID"
    using field_reg.fresh [OF group_settings_invD(2) [OF inv]] group_settings_invD(5) [OF inv] by auto
  show "if st = RDC_ST_OK then \<exists>k. out = O_id (Some k) \<and> both_made s0 i k (gs w') else loose s0 (gs w')"
    using field_create [OF l r] w fresh field_created [of "(fs, nm)" "gs w" _ "gs w'"] phases_loose(2) [OF w]
    by (auto simp: group_made_def both_made_def split: if_splits)
qed

lemma destroy_both:
  "triple (on_gs (both_made s0 i k)) (try_call api (A_group_field_destroy k) msg) (\<lambda>_. on_gs (fields_gone s0 i)) (jumps (on_gs (loose s0)))"
  "triple (on_gs (fields_gone s0 i)) (try_call api (A_group_gpu_destroy i) msg) (\<lambda>_. on_gs (as_before s0)) (jumps (on_gs (loose s0)))"
proof -
  have "fields_gone s0 i (snd (rdc_group_field_destroy k s))" if "both_made s0 i k s" for s
    using that by (simp add: both_made_def fields_gone_def destroy_fields)
  note gone = this phases_loose(4) [OF this]
  then show "triple (on_gs (both_made s0 i k)) (try_call api (A_group_field_destroy k) msg) (\<lambda>_. on_gs (fields_gone s0 i)) (jumps (on_gs (loose s0)))"
    by (intro try_call_gs) (auto dest!: field_destroy)
  have "as_before s0 (snd (rdc_group_gpu_destroy i s))" if "fields_gone s0 i s" for s
    using that by (simp add: as_before_def fields_gone_def destroy_gpus)
  note before = this phases_loose(5) [OF this]
  then show "triple (on_gs (fields_gone s0 i)) (try_call api (A_group_gpu_destroy i) msg) (\<lambda>_. on_gs (as_before s0)) (jumps (on_gs (loose s0)))"
    by (intro try_call_gs) (auto dest!: gpu_destroy)
qed

lemma field_value_tables:
  assumes inv: "group_settings_inv s0" and sleep: "\<And>u w. gs (xe_usleep e u w) = gs w"
  shows "triple (on_gs (\<lambda>s. s = s0)) (field_value_body api e) (\<lambda>st w. st = RDC_ST_OK \<and> as_before s0 (gs w)) (jumps (on_gs (loose s0)))"
proof -
  have start: "\<And>s. s = s0 \<Longrightarrow> loose s0 s" by (simp add: phases_loose)
  have made: "triple (on_gs (\<lambda>s. s = s0)) (try_call api (A_group_gpu_create RDC_GROUP_EMPTY (Some nm) True) msg)
      (\<lambda>out. on_gs (\<lambda>s. \<exists>i. out = O_id (Some i) \<and> group_made s0 i s)) (jumps (on_gs (loose s0)))" for nm msg
    by (rule triple_conseq [OF create_group [OF inv start]]) auto
  have fs: "length [RDC_FI_GPU_MEMORY_USAGE, RDC_FI_POWER_USAGE] \<le> RDC_MAX_FIELD_IDS_PER_FIELD_GROUP" by (simp add: limit_defs)
  have sleeping: "triple (on_gs P) (change_world (xe_usleep e u)) (\<lambda>_. on_gs P) E" for P u E by (simp add: sleep)
  have none: "triple (on_gs (\<lambda>s. s = s0)) (ret RDC_ST_OK) (\<lambda>st w. st = RDC_ST_OK \<and> as_before s0 (gs w)) E" for E
    by (simp add: as_before_def)
  show ?thesis unfolding field_value_body_def
    apply (rule triple_bind [OF try_still [OF _ start]], simp, assumption)
    apply (rule triple_bind [OF out_still(1)])
    subgoal for out gpus
    proof (cases "gpus = []")
      case True
      then show ?thesis by (simp del: triple_ret) (rule triple_say_then, rule none)
    next
      case False
      show ?thesis
        apply (subst if_not_P [OF False])
        apply (rule triple_say_then, rule triple_bind [OF made], rule out_id_gs)
        apply (rule triple_say_then, rule triple_then [OF triple_for_each [OF add_described]])
        apply (rule triple_bind [OF create_fields [OF inv fs]], rule out_id_gs)
        apply (rule triple_bind [OF out_still(4)], rule triple_bind [OF out_still(4)], rule triple_say_then)
        apply (rule triple_bind [OF try_still [OF _ phases_loose(3)]], simp, assumption)
        apply (rule triple_say_then, rule triple_then [OF sleeping], rule triple_then [OF still_values [OF phases_loose(3)]], assumption)
        apply (rule triple_bind [OF destroy_both(1)], rule triple_say_then, rule triple_bind [OF destroy_both(2)], rule triple_say_then)
        apply simp
        done
    qed
    done
qed

text \<open>The group of the job example, which nothing destroys.\<close>

definition grown :: "group_settings \<Rightarrow> u32 \<Rightarrow> group_settings \<Rightarrow> bool" where
  "grown s0 i s \<longleftrightarrow> gpu_table s0 i = None \<and> field_table s = field_table s0
     \<and> (\<exists>gi. gpu_table s = (gpu_table s0)(i \<mapsto> gi) \<and> group_name gi = ''group1'')"

definition maybe_grown :: "group_settings \<Rightarrow> group_settings \<Rightarrow> bool" where
  "maybe_grown s0 s \<longleftrightarrow> as_before s0 s \<or> (\<exists>i. grown s0 i s)"

lemma grown_add: "grown s0 i s \<Longrightarrow> grown s0 i (snd (rdc_group_gpu_add i g s))"
proof -
  assume g: "grown s0 i s"
  then obtain gi where gi: "gpu_table s = (gpu_table s0)(i \<mapsto> gi)" "group_name gi = ''group1''" by (auto simp: grown_def)
  have "field_group (snd (rdc_group_gpu_add i g s)) = field_group s" by (rule add_tables(2))
  with g gi show ?thesis
    by (auto simp: grown_def rdc_group_gpu_add_def map_of_map_modify fun_eq_iff)
qed

lemma job_stats_tables:
  assumes inv: "group_settings_inv s0" and sleep: "\<And>u w. gs (xe_usleep e u w) = gs w"
  shows "triple (on_gs (\<lambda>s. s = s0)) (job_stats_body api e True) (\<lambda>st w. \<exists>i. grown s0 i (gs w)) (jumps (on_gs (maybe_grown s0)))"
proof -
  have start: "\<And>s. s = s0 \<Longrightarrow> maybe_grown s0 s" and grew: "\<And>i s. grown s0 i s \<Longrightarrow> maybe_grown s0 s"
    by (auto simp: maybe_grown_def as_before_def)
  have nm: "group_name (new_group_info ''group1'') = ''group1''" by (simp add: new_group_info_def strncpy_with_null_def limit_defs)
  have made: "triple (on_gs (\<lambda>s. s = s0)) (try_call api (A_group_gpu_create RDC_GROUP_EMPTY (Some ''group1'') True) msg)
      (\<lambda>out. on_gs (\<lambda>s. \<exists>i. out = O_id (Some i) \<and> grown s0 i s)) (jumps (on_gs (maybe_grown s0)))" for msg
    by (rule triple_conseq [OF create_group [OF inv start]]) (use nm in \<open>auto simp: grown_def group_made_def\<close>)
  have added: "triple (on_gs (grown s0 i)) (try_call api (A_group_gpu_add i g) msg) (\<lambda>_. on_gs (grown s0 i)) (jumps (on_gs (maybe_grown s0)))" for i g msg
    by (rule try_call_gs) (use gpu_add grown_add grew in \<open>fastforce\<close>)
  have sleeping: "triple (on_gs P) (take_samples api e True) (\<lambda>_. on_gs P) E" for P E by (simp add: take_samples_def sleep)
  have report: "triple (on_gs (grown s0 i)) (case r of (result, out) \<Rightarrow> if result = RDC_ST_OK
      then (case out of O_job (Some job_info) \<Rightarrow> then_cmd (say (job_report (ji_summary job_info))) (ret result) | _ \<Rightarrow> undefined_cmd)
      else then_cmd (say m) (ret result)) (\<lambda>st w. \<exists>i. grown s0 i (gs w)) E" for i r m E
    by (auto intro!: triple_say_then split: api_out.split option.split prod.split)
  show ?thesis unfolding job_stats_body_def
    by (rule triple_bind [OF made], rule out_id_gs, rule triple_bind [OF added],
        rule triple_bind [OF try_still [OF _ grew]], simp, assumption, rule triple_then [OF sleeping],
        rule triple_bind [OF try_still [OF _ grew]], simp, assumption, rule triple_bind [OF call_still], simp, rule report)
qed

end

text \<open>Nobody else works on the groups while an example opens and closes its session and sleeps.\<close>

definition undisturbed :: "('w \<Rightarrow> group_settings) \<Rightarrow> 'w example_env \<Rightarrow> bool" where
  "undisturbed gs e \<longleftrightarrow> (\<forall>a w. gs (snd (xe_connect e a w)) = gs w) \<and> (\<forall>w. gs (xe_disconnect e w) = gs w) \<and> (\<forall>w. gs (xe_shutdown e w) = gs w)
     \<and> (\<forall>u w. gs (xe_usleep e u w) = gs w)"

lemma session_tables:
  assumes env: "undisturbed gs e" and body: "triple (\<lambda>w. gs w = s0) body (\<lambda>st w. R st (gs w)) (jumps (\<lambda>w. J (gs w)))"
    and J: "J s0" and R: "\<And>st s. st \<noteq> RDC_ST_OK \<Longrightarrow> J s \<Longrightarrow> R st s"
  shows "triple (\<lambda>w. gs w = s0) (session_program e mode True body) (\<lambda>st w. R st (gs w)) (\<lambda>_ _. False)"
proof -
  have ok: "triple (\<lambda>w. gs w = s0) (must_be_ok msg eol st) (\<lambda>_ w. gs w = s0) (jumps (\<lambda>w. J (gs w)))" for msg eol st
    by (rule triple_conseq [OF must_be_ok_jumps [of "\<lambda>w. gs w = s0"]]) (auto simp: jumps_def J)
  have conn: "triple (\<lambda>w. gs w = s0) (on_world (xe_connect e a)) (\<lambda>_ w. gs w = s0) E" for a E
    by (rule triple_on_world) (use env in \<open>auto simp: undisturbed_def, metis snd_conv\<close>)
  have opened: "triple (\<lambda>w. gs w = s0) (open_session e mode True) (\<lambda>_ w. gs w = s0) (jumps (\<lambda>w. J (gs w)))"
    unfolding open_session_def by (simp del: triple_say) (rule triple_then [OF ok], rule triple_say_then, rule triple_bind [OF conn], rule ok)
  have closed: "triple (\<lambda>w. R st (gs w)) (then_cmd (close_session e True) (ret st)) (\<lambda>st w. R st (gs w)) (\<lambda>_ _. False)" for st
    unfolding close_session_def using env
    by (intro triple_then [where Q = "\<lambda>w. R st (gs w)"]) (auto simp: undisturbed_def)
  show ?thesis unfolding session_program_def
    by (rule triple_bind [OF triple_at_cleanup [OF triple_then [OF opened body]] closed]) (auto simp: jumps_def intro: R)
qed

subsection \<open>The remote session serves the examples\<close>

lemma gauges_frame: "get_gpu_gauges e h = Some (st, gg, h') \<Longrightarrow> ww_groups (eh_watch h') = ww_groups (eh_watch h)"
proof -
  have ecc: "insert_ecc_gauge e g f (v, gg, h) = Some (v', gg', h') \<Longrightarrow> ww_groups (eh_watch h') = ww_groups (eh_watch h)" for g f v gg h v' gg' h'
    by (auto simp: insert_ecc_gauge_def dest: handler_fetch_frame)
  have loop: "gauges_loop e gs gg h = Some (st, gg', h') \<Longrightarrow> ww_groups (eh_watch h') = ww_groups (eh_watch h)" for gs gg h st gg' h'
  proof (induction gs arbitrary: gg h)
    case (Cons g gs)
    then show ?case
      by (auto simp: bind_eq_Some_conv dest!: handler_fetch_frame ecc split: option.splits if_splits)
  qed simp
  assume "get_gpu_gauges e h = Some (st, gg, h')"
  then show ?thesis by (auto simp: get_gpu_gauges_def dest!: get_all_frame loop split: option.splits if_splits)
qed

lemma job_frames:
  "rdc_watch_job_start e gid j freq gg w = Some (st, w') \<Longrightarrow> ww_groups w' = ww_groups w"
  "rdc_watch_job_stop e j gg w = Some (st, w') \<Longrightarrow> ww_groups w' = ww_groups w"
  by (auto simp: rdc_watch_job_start_def rdc_watch_job_stop_def Let_def dest!: watch_frames split: if_splits option.splits prod.splits)

lemma job_call_frames:
  "emb_job_start_stats e gid j freq h = Some (st, x, h') \<Longrightarrow> ww_groups (eh_watch h') = ww_groups (eh_watch h)"
  "emb_job_stop_stats e j h = Some (st, x, h') \<Longrightarrow> ww_groups (eh_watch h') = ww_groups (eh_watch h)"
  "emb_job_get_stats e j info h = Some (st, y, h') \<Longrightarrow> ww_groups (eh_watch h') = ww_groups (eh_watch h)"
  by (auto simp: emb_job_start_stats_def emb_job_stop_stats_def emb_job_get_stats_def with_gauges_def status_only_def on_watch_def
      dest!: gauges_frame job_frames split: option.splits if_splits)

lemma attributes_frame: "emb_device_get_attributes e g a h = Some (st, x, h') \<Longrightarrow> ww_groups (eh_watch h') = ww_groups (eh_watch h)"
  by (auto simp: emb_device_get_attributes_def dest!: handler_fetch_frame split: option.splits)

interpretation remote_examples: example_service "remote_exec Delivered e" daemon_groups for e :: "'r server_env"
proof (intro_locales, unfold_locales)
  fix c and w w' :: "'r handler option" and st out
  assume q: "idle c" and r: "remote_exec Delivered e c w = Some (st, out, w')"
  show "daemon_groups w' = daemon_groups w"
    using q r by (cases c; cases w) (auto simp: remote_simps status_call_def out_with_def act_def
      dest!: get_all_frame job_call_frames attributes_frame split: if_splits option.splits prod.splits)
qed

section \<open>Properties\<close>

lemma ask_standalone: "fst (read_bool (xe_stdin x)) = Some True \<Longrightarrow> \<exists>s'. ask_mode x s = Some (Inr True, s') \<and> cl_world s' = cl_world s"
  by (cases "read_bool (xe_stdin x)") (auto simp: ask_mode_def cmd_defs select_mode.simps)

text \<open>
  (C19) What \<^verbatim>\<open>field_value_example\<close> leaves in a daemon when standalone mode is chosen: when the program returns success the
  GPU groups and the field groups of the daemon are as they were before; when it returns an error, there is at most one GPU
  group and one field group more, since the label \<^verbatim>\<open>cleanup\<close> only closes the session.
\<close>
theorem field_example_leaves_tables:
  fixes e :: "'r server_env"
  assumes "field_value_example (remote_exec Delivered e) x s = Some (res, s')" and "fst (read_bool (xe_stdin x)) = Some True"
    and "group_settings_inv (daemon_groups (cl_world s))" and "undisturbed daemon_groups x"
  shows "\<exists>st. res = Inr st
    \<and> (if st = RDC_ST_OK
       then gpu_table (daemon_groups (cl_world s')) = gpu_table (daemon_groups (cl_world s))
         \<and> field_table (daemon_groups (cl_world s')) = field_table (daemon_groups (cl_world s))
       else one_more (gpu_table (daemon_groups (cl_world s'))) (gpu_table (daemon_groups (cl_world s)))
         \<and> one_more (field_table (daemon_groups (cl_world s'))) (field_table (daemon_groups (cl_world s))))"
proof -
  let ?s0 = "daemon_groups (cl_world s)"
  let ?R = "\<lambda>st s. if st = RDC_ST_OK then remote_examples.as_before ?s0 s else remote_examples.loose ?s0 s"
  have sleep: "\<And>u w. daemon_groups (xe_usleep x u w) = daemon_groups w" using assms(4) by (auto simp: undisturbed_def)
  have body: "triple (\<lambda>w. daemon_groups w = ?s0) (field_value_body (remote_exec Delivered e) x) (\<lambda>st w. ?R st (daemon_groups w))
      (jumps (\<lambda>w. remote_examples.loose ?s0 (daemon_groups w)))"
    by (rule triple_conseq [OF remote_examples.field_value_tables [OF assms(3) sleep]]) auto
  have "triple (\<lambda>w. daemon_groups w = ?s0) (session_program x RDC_OPERATION_MODE_AUTO True (field_value_body (remote_exec Delivered e) x))
      (\<lambda>st w. ?R st (daemon_groups w)) (\<lambda>_ _. False)"
    by (rule session_tables [OF assms(4) body]) (auto simp: remote_examples.phases_loose)
  note session = this
  obtain s1 where s1: "ask_mode x s = Some (Inr True, s1)" "cl_world s1 = cl_world s" using ask_standalone [OF assms(2)] by blast
  then have "session_program x RDC_OPERATION_MODE_AUTO True (field_value_body (remote_exec Delivered e) x) s1 = Some (res, s')"
    using assms(1) by (simp add: field_value_example_def bind_cmd_def)
  from tripleD [OF session _ this] s1(2) obtain st where "res = Inr st" "?R st (daemon_groups (cl_world s'))" by (cases res) simp_all
  then show ?thesis unfolding remote_examples.as_before_def remote_examples.loose_def by (cases "st = RDC_ST_OK") simp_all
qed

text \<open>
  (C39) \<^verbatim>\<open>job_stats_example\<close> never gives its group back: whenever it returns success in standalone mode, the daemon has exactly
  one GPU group more than before, named \<^verbatim>\<open>group1\<close>, and its field groups are as before; after an error the group may
  be there or not. Every message is delivered, the tables of the daemon satisfy their invariant, and nobody else changes them, also not while the example
  connects, sleeps or disconnects.
\<close>
theorem job_example_leaves_group:
  fixes e :: "'r server_env"
  assumes "job_stats_example (remote_exec Delivered e) x s = Some (res, s')" and "fst (read_bool (xe_stdin x)) = Some True"
    and "group_settings_inv (daemon_groups (cl_world s))" and "undisturbed daemon_groups x"
  shows "\<exists>st. res = Inr st \<and> field_table (daemon_groups (cl_world s')) = field_table (daemon_groups (cl_world s))
    \<and> (st \<noteq> RDC_ST_OK \<and> gpu_table (daemon_groups (cl_world s')) = gpu_table (daemon_groups (cl_world s))
       \<or> (\<exists>i gi. gpu_table (daemon_groups (cl_world s)) i = None \<and> group_name gi = ''group1''
            \<and> gpu_table (daemon_groups (cl_world s')) = (gpu_table (daemon_groups (cl_world s)))(i \<mapsto> gi)))"
proof -
  let ?s0 = "daemon_groups (cl_world s)"
  let ?R = "\<lambda>st s. (\<exists>i. remote_examples.grown ?s0 i s) \<or> st \<noteq> RDC_ST_OK \<and> remote_examples.as_before ?s0 s"
  have sleep: "\<And>u w. daemon_groups (xe_usleep x u w) = daemon_groups w" using assms(4) by (auto simp: undisturbed_def)
  have body: "triple (\<lambda>w. daemon_groups w = ?s0) (job_stats_body (remote_exec Delivered e) x True) (\<lambda>st w. ?R st (daemon_groups w))
      (jumps (\<lambda>w. remote_examples.maybe_grown ?s0 (daemon_groups w)))"
    by (rule triple_conseq [OF remote_examples.job_stats_tables [OF assms(3) sleep]]) auto
  have "triple (\<lambda>w. daemon_groups w = ?s0) (session_program x RDC_OPERATION_MODE_MANUAL True (job_stats_body (remote_exec Delivered e) x True))
      (\<lambda>st w. ?R st (daemon_groups w)) (\<lambda>_ _. False)"
    by (rule session_tables [OF assms(4) body]) (auto simp: remote_examples.maybe_grown_def remote_examples.as_before_def)
  note session = this
  obtain s1 where s1: "ask_mode x s = Some (Inr True, s1)" "cl_world s1 = cl_world s" using ask_standalone [OF assms(2)] by blast
  then have "session_program x RDC_OPERATION_MODE_MANUAL True (job_stats_body (remote_exec Delivered e) x True) s1 = Some (res, s')"
    using assms(1) by (simp add: job_stats_example_def bind_cmd_def)
  from tripleD [OF session _ this] s1(2) obtain st where "res = Inr st" "?R st (daemon_groups (cl_world s'))" by (cases res) simp_all
  then show ?thesis unfolding remote_examples.as_before_def remote_examples.grown_def by blast
qed

subsection \<open>A daemon that has lost its GPUs, and one that cannot name them\<close>

definition demo_daemon :: "amdsmi \<Rightarrow> unit server_env" where
  "demo_daemon smi = demo_server_env\<lparr>sv_env := (demo_handler_env 5000)\<lparr>ee_watch := (ee_watch (demo_handler_env 5000))\<lparr>we_smi := smi\<rparr>\<rparr>\<rparr>"

definition no_gpu_smi :: amdsmi where
  "no_gpu_smi = two_gpu_smi\<lparr>smi_socket_handles := (AMDSMI_STATUS_SUCCESS, [])\<rparr>"

definition nameless_smi :: amdsmi where
  "nameless_smi = two_gpu_smi\<lparr>smi_asic_info := (\<lambda>_. (AMDSMI_STATUS_NOT_SUPPORTED, \<lparr>ai_market_name = [], ai_oam_id = 0\<rparr>))\<rparr>"

definition demo_example :: "unit handler option example_env" where
  "demo_example = \<lparr>xe_stdin = ''1'', xe_init = RDC_ST_OK, xe_connect = (\<lambda>_ w. (RDC_ST_OK, w)), xe_start_embedded = (\<lambda>_ w. (RDC_ST_OK, w)),
     xe_disconnect = (\<lambda>w. w), xe_stop_embedded = (\<lambda>w. w), xe_shutdown = (\<lambda>w. w), xe_usleep = (\<lambda>_ w. w), xe_time = (\<lambda>_. 1000),
     xe_job = blank_job_info, xe_value = blank_value, xe_text = [], xe_response = \<lparr>rp_results_count = 0, rp_diag_info = []\<rparr>, xe_result = empty_result\<rparr>"

lemma demo_daemon_smi: "we_smi (ee_watch (sv_env (demo_daemon smi))) = smi" "sv_text (demo_daemon smi) = ''?''"
  by (simp_all add: demo_daemon_def demo_server_env_def)

lemma same_handler: "(h :: unit handler)\<lparr>eh_watch := (eh_watch h)\<lparr>ww_tel := (fst (ww_tel (eh_watch h)), ())\<rparr>\<rparr> = h"
proof -
  have "(fst (ww_tel (eh_watch h)), ()) = ww_tel (eh_watch h)" by (cases "ww_tel (eh_watch h)") simp
  then show ?thesis by simp
qed

lemma no_gpus: "\<exists>st. st \<noteq> RDC_ST_OK \<and> emb_device_get_all (sv_env (demo_daemon no_gpu_smi)) True h = Some (st, None, h)"
  by (simp add: emb_device_get_all_def handler_fetch_def fetch_smi_field_def demo_daemon_smi get_processor_handle_from_id_def no_gpu_smi_def Let_def same_handler)

lemma two_nameless: "platform_gpus nameless_smi 2" "get_processor_handle_from_id nameless_smi 0 = Inr 100"
proof -
  have "get_processor_handle_from_id nameless_smi 0 = get_processor_handle_from_id two_gpu_smi 0" "get_processor_count nameless_smi = get_processor_count two_gpu_smi"
    by (simp_all add: get_processor_handle_from_id_def get_processor_count_def nameless_smi_def two_gpu_smi_def)
  then show "platform_gpus nameless_smi 2" "get_processor_handle_from_id nameless_smi 0 = Inr 100"
    by (simp_all add: platform_gpus_def two_gpu_handle two_gpu_count RDC_MAX_NUM_DEVICES_def)
qed

lemma nameless_asic: "smi_asic_info nameless_smi p = (AMDSMI_STATUS_NOT_SUPPORTED, \<lparr>ai_market_name = [], ai_oam_id = 0\<rparr>)"
  by (simp add: nameless_smi_def)

lemma demo_example_env: "fst (read_bool (xe_stdin demo_example)) = Some True" "undisturbed gs demo_example"
  by (simp_all add: demo_example_def read_bool_def Let_def cin_space_def is_digit_def digits_value_def undisturbed_def)

lemma demo_ask: "\<exists>out. ask_mode demo_example s = Some (Inr True, s\<lparr>cl_out := out\<rparr>)"
  by (simp add: ask_mode_def cmd_defs demo_example_def select_mode_digit) (rule exI, rule refl)

definition group1_handler :: "unit handler" where
  "group1_handler = on_groups (\<lambda>_. snd (snd (rdc_group_gpu_create ''group1'' group_settings_init))) fresh_handler"

lemma init_groups: "gpu_group group_settings_init = []" "cur_group_id group_settings_init = 1"
  by (simp_all add: group_settings_init_def rdc_group_field_create_def limit_defs job_fields_def)

lemma demo_create1:
  "remote_exec Delivered (demo_daemon smi) (A_group_gpu_create RDC_GROUP_EMPTY (Some ''group1'') True) (Some fresh_handler) = Some (RDC_ST_OK, O_id (Some 1), Some group1_handler)"
proof -
  have "emb_exec (sv_env (demo_daemon smi)) (A_group_gpu_create RDC_GROUP_EMPTY (Some ''group1'') True) fresh_handler = Some (RDC_ST_OK, O_id (Some 1), group1_handler)"
    by (simp add: out_with_def emb_group_gpu_create_def group1_handler_def fresh_handler_def new_handler_def rdc_group_gpu_create_def init_groups limit_defs)
  from agrees_gpu_create [OF this] show ?thesis by (simp add: agrees_def carry_def)
qed

lemma lost_add: "\<exists>st. st \<noteq> RDC_ST_OK \<and> remote_exec Delivered (demo_daemon no_gpu_smi) (A_group_gpu_add 1 0) (Some group1_handler) = Some (st, O_none, Some group1_handler)"
  using no_gpus [of group1_handler] by (auto simp: remote_simps status_call_def act_def emb_group_gpu_add_def status_only_reply_def)

definition filled_handler :: "unit handler" where
  "filled_handler = on_groups (\<lambda>_. snd (rdc_group_gpu_add 1 0 (ww_groups (eh_watch group1_handler)))) group1_handler"

lemma nameless_calls:
  "remote_exec Delivered (demo_daemon nameless_smi) (A_device_get_all True) (Some h) = Some (RDC_ST_OK, O_ids (Some [0, 1]), Some h)"
  "remote_exec Delivered (demo_daemon nameless_smi) (A_group_gpu_add 1 0) (Some group1_handler) = Some (RDC_ST_OK, O_none, Some filled_handler)"
  "\<exists>st out. st \<noteq> RDC_ST_OK \<and> remote_exec Delivered (demo_daemon nameless_smi) (A_device_get_attributes 0 (Some a)) (Some filled_handler) = Some (st, out, Some filled_handler)"
proof -
  have g: "emb_device_get_all (sv_env (demo_daemon nameless_smi)) True h = Some (RDC_ST_OK, Some [0, 1], h)" for h
    using device_get_all [of "sv_env (demo_daemon nameless_smi)" 2 h] by (simp add: demo_daemon_smi two_nameless two_gpu_numbers)
  then have "emb_exec (sv_env (demo_daemon nameless_smi)) (A_device_get_all True) h = Some (RDC_ST_OK, O_ids (Some [0, 1]), h)" by (simp add: out_with_def)
  from agrees_devices [OF this] show "remote_exec Delivered (demo_daemon nameless_smi) (A_device_get_all True) (Some h) = Some (RDC_ST_OK, O_ids (Some [0, 1]), Some h)"
    by (simp add: agrees_def carry_def)
  show "remote_exec Delivered (demo_daemon nameless_smi) (A_group_gpu_add 1 0) (Some group1_handler) = Some (RDC_ST_OK, O_none, Some filled_handler)"
    by (simp add: remote_simps status_call_def act_def emb_group_gpu_add_def g filled_handler_def status_only_reply_def group1_handler_def on_groups_def
        rdc_group_gpu_create_def init_groups limit_defs rdc_group_gpu_add_def map_insert_def new_group_info_def)
  show "\<exists>st out. st \<noteq> RDC_ST_OK \<and> remote_exec Delivered (demo_daemon nameless_smi) (A_device_get_attributes 0 (Some a)) (Some filled_handler) = Some (st, out, Some filled_handler)"
    by (simp add: remote_simps out_with_def emb_device_get_attributes_def handler_fetch_def fetch_smi_field_def demo_daemon_smi two_nameless
        is_field_valid_iff field_id_to_descript_def fetch_switch_def fetch_dev_name_def nameless_asic Let_def same_handler)
qed

lemmas example_defs = session_program_def open_session_def close_session_def must_be_ok_def at_cleanup_def try_call_def on_world_def change_world_def
  goto_cleanup_def out_id_def out_ids_def cmd_defs

lemma fresh_daemon: "group_settings_inv (daemon_groups (cl_world (demo_cli (Some fresh_handler))))"
  by (simp add: demo_cli_def fresh_handler_def new_handler_def group_settings_inv_init)

theorem field_example_leaves_tables_witness:
  "\<exists>s' st. field_value_example (remote_exec Delivered (demo_daemon nameless_smi)) demo_example (demo_cli (Some fresh_handler)) = Some (Inr st, s')
    \<and> gpu_table (daemon_groups (cl_world s')) \<noteq> Map.empty \<and> one_more (gpu_table (daemon_groups (cl_world s'))) Map.empty"
proof -
  obtain out where a: "ask_mode demo_example (demo_cli (Some fresh_handler)) = Some (Inr True, (demo_cli (Some fresh_handler))\<lparr>cl_out := out\<rparr>)"
    using demo_ask by blast
  note a = a [unfolded demo_cli_def]
  obtain st out' where n: "st \<noteq> RDC_ST_OK" "remote_exec Delivered (demo_daemon nameless_smi) (A_device_get_attributes 0 (Some (xe_text demo_example))) (Some filled_handler) = Some (st, out', Some filled_handler)"
    using nameless_calls(3) by blast
  have e: "xe_init demo_example = RDC_ST_OK" "xe_connect demo_example = (\<lambda>_ w. (RDC_ST_OK, w))" "xe_disconnect demo_example = (\<lambda>w. w)" "xe_shutdown demo_example = (\<lambda>w. w)"
    by (simp_all add: demo_example_def)
  obtain s' where r: "field_value_example (remote_exec Delivered (demo_daemon nameless_smi)) demo_example (demo_cli (Some fresh_handler)) = Some (Inr st, s')"
    "cl_world s' = Some filled_handler"
    by (simp add: field_value_example_def field_value_body_def add_and_describe_def example_defs a e n demo_cli_def nameless_calls(1,2) demo_create1)
  have "gpu_table (daemon_groups (cl_world s')) \<noteq> Map.empty"
    by (simp add: r(2) filled_handler_def group1_handler_def on_groups_def rdc_group_gpu_create_def init_groups limit_defs rdc_group_gpu_add_def map_insert_def
        new_group_info_def map_modify_def)
  moreover have "gpu_table (daemon_groups (cl_world (demo_cli (Some fresh_handler)))) = Map.empty"
    by (simp add: demo_cli_def fresh_handler_def new_handler_def init_groups)
  ultimately show ?thesis
    using field_example_leaves_tables [OF r(1) demo_example_env(1) fresh_daemon demo_example_env(2)] r(1) n(1) by auto
qed

theorem job_example_leaves_group_witness:
  "\<exists>s' st. job_stats_example (remote_exec Delivered (demo_daemon no_gpu_smi)) demo_example (demo_cli (Some fresh_handler)) = Some (Inr st, s')
    \<and> (\<exists>i gi. group_name gi = ''group1'' \<and> gpu_table (daemon_groups (cl_world s')) = Map.empty(i \<mapsto> gi))"
proof -
  obtain out where a: "ask_mode demo_example (demo_cli (Some fresh_handler)) = Some (Inr True, (demo_cli (Some fresh_handler))\<lparr>cl_out := out\<rparr>)"
    using demo_ask by blast
  note a = a [unfolded demo_cli_def]
  obtain st where n: "st \<noteq> RDC_ST_OK" "remote_exec Delivered (demo_daemon no_gpu_smi) (A_group_gpu_add 1 0) (Some group1_handler) = Some (st, O_none, Some group1_handler)"
    using lost_add by blast
  have e: "xe_init demo_example = RDC_ST_OK" "xe_connect demo_example = (\<lambda>_ w. (RDC_ST_OK, w))" "xe_disconnect demo_example = (\<lambda>w. w)" "xe_shutdown demo_example = (\<lambda>w. w)"
    by (simp_all add: demo_example_def)
  obtain s' where r: "job_stats_example (remote_exec Delivered (demo_daemon no_gpu_smi)) demo_example (demo_cli (Some fresh_handler)) = Some (Inr st, s')"
    "cl_world s' = Some group1_handler"
    by (simp add: job_stats_example_def job_stats_body_def example_defs a e n demo_cli_def demo_create1)
  have "gpu_table (daemon_groups (cl_world s')) \<noteq> Map.empty"
    by (simp add: r(2) group1_handler_def on_groups_def rdc_group_gpu_create_def init_groups limit_defs map_insert_def)
  moreover have "gpu_table (daemon_groups (cl_world (demo_cli (Some fresh_handler)))) = Map.empty"
    by (simp add: demo_cli_def fresh_handler_def new_handler_def init_groups)
  ultimately show ?thesis
    using job_example_leaves_group [OF r(1) demo_example_env(1) fresh_daemon demo_example_env(2)] r(1) by auto
qed

end
