(* ===== verification/Spec2Isabelle.thy ===== *)
theory Spec2Isabelle
  imports Rdc_Session Rdc_Profiler Rdc_Test_Properties Rdc_Server Rdc_Perf_Timer Rdc_Reports
    Rdc_Example_Properties
begin

text \<open>
  The ROCm Data Center tool: a daemon and a library that watch the telemetry of the GPUs of a node, keep
  it in a cache, collect statistics of jobs, deliver events and run diagnostics, and the command line
  tool that talks to the daemon. This development models the C++ code of the library, of the daemon,
  of the client and of the command line tool, and proves what the parts promise to each other.

  \<^bold>\<open>The program.\<close> A session is an \<^verbatim>\<open>RdcHandler\<close>. The embedded handler owns the group settings, the cache
  manager, the watch table, the notifications and the modules; the watch table reads fields through the telemetry
  module, which distributes them to the libraries (SMI, profiler), and stores the values in the cache and in
  the statistics of the jobs. The standalone handler is a proxy: it sends each call to the service of the
  daemon, which makes the same call on its embedded handler. The C API is in front of both. The tool \<^verbatim>\<open>rdci\<close>
  uses the C API with a standalone handler.

  \<^bold>\<open>The theories.\<close>
  \<^item> \<open>Rdc_Prelude\<close>: machine words, status codes, values, ordered maps (\<open>smap\<close>) and C strings.
  \<^item> \<open>Rdc_Fields\<close>: the enumeration of the fields and the lookups of \<^verbatim>\<open>rdc_fields_supported.cc\<close>.
  \<^item> \<open>Rdc_Group_Settings\<close>: \<^verbatim>\<open>RdcGroupSettingsImpl\<close>. The registry of identifiers is the locale \<open>id_registry\<close>, interpreted
    for both tables; every reachable state satisfies the invariant of the tables, and until a counter of identifiers wraps around the
    identifiers are those that have been handed out.
  \<^item> \<open>Rdc_Cache_Manager\<close>, \<open>Rdc_Job_Statistics\<close>: \<^verbatim>\<open>RdcCacheManagerImpl\<close>. Samples, cursors and eviction; the running
    statistics of a job equal the textbook mean, deviation and extremes of its samples.
  \<^item> \<open>Rdc_Platform\<close>, \<open>Rdc_Notification\<close>, \<open>Rdc_Metric_Fetcher\<close>: \<^verbatim>\<open>SmiUtils\<close>, the capabilities,
    \<^verbatim>\<open>RdcNotificationImpl\<close> and \<^verbatim>\<open>RdcMetricFetcherImpl\<close> with AMD SMI as a parameter.
  \<^item> \<open>Rdc_Telemetry\<close>: \<^verbatim>\<open>RdcSmiLib\<close> and \<^verbatim>\<open>RdcTelemetryModule\<close>. A library is the locale \<open>telemetry_source\<close>; the module
    delivers one value for every requested field. A library whose values are those it can read is the extension \<open>telemetry_reader\<close>.
  \<^item> \<open>Rdc_Profiler\<close>: the profiler library (\<^verbatim>\<open>rdc_rocp\<close>, \<^verbatim>\<open>RdcRocpLib\<close>). Its value is the mean of the last five
    readings, scaled for some fields; it is a \<open>telemetry_source\<close>, so a session with both libraries answers every request.
  \<^item> \<open>Rdc_Watch_Table\<close>, \<open>Rdc_Watch_Properties\<close>: \<^verbatim>\<open>RdcWatchTableImpl\<close>. The table of the fields is, at every moment, what
    the table of the watches implies; the next update, with its clean-up, gives every due field that can be read one new sample.
  \<^item> \<open>Rdc_Diagnostics\<close>: \<^verbatim>\<open>RdcSmiDiagnosticImpl\<close> and \<^verbatim>\<open>RdcDiagnosticModule\<close>.
  \<^item> \<open>Rdc_Rocr\<close>, \<open>Rdc_Rocr_Queue\<close>, \<open>Rdc_Test_Modules\<close>: the test programs of \<^verbatim>\<open>rdc_rocr\<close> over the HSA runtime and a store of
    buffers, the session with RVS of \<^verbatim>\<open>rdc_rvs\<close>, and the classes that load the two libraries.
  \<^item> \<open>Rdc_Search\<close>: weakest preconditions for the test programs, and with them that the search on the GPU
    finds its element for every order of the threads of the kernel, in the buffers that a runtime with allocation granules of at
    least 2048 bytes gives for the 16 bytes that the program asks for.
  \<^item> \<open>Rdc_Test_Properties\<close>: the verdicts and the flaws of the tests; the two libraries as instances of the locale
    \<open>test_runner\<close>, and a diagnosis over all libraries of a machine.
  \<^item> \<open>Rdc_Embedded_Handler\<close>, \<open>Rdc_Api\<close>, \<open>Rdc_Handler_Properties\<close>, \<open>Rdc_Session\<close>: \<^verbatim>\<open>RdcModuleMgrImpl\<close>,
    \<^verbatim>\<open>RdcMetricsUpdaterImpl\<close>, \<^verbatim>\<open>RdcEmbeddedHandler\<close>, \<^verbatim>\<open>RdcBootStrap\<close> and \<^verbatim>\<open>RdcLibraryLoader\<close>. A session is a step relation whose
    steps are API calls and rounds of the two background threads; its invariant holds in every reachable state.
  \<^item> \<open>Rdc_Service\<close>, \<open>Rdc_Client\<close>, \<open>Rdc_Remote\<close>: \<^verbatim>\<open>RdcAPIServiceImpl\<close> with the messages of \<^verbatim>\<open>rdc.proto\<close>, \<^verbatim>\<open>RdcStandaloneHandler\<close>,
    and the two connected. A delivered call refines the local call, and a run over a connection that
    loses messages leaves the daemon in the state that the arrived calls alone produce.
  \<^item> \<open>Rdc_Server\<close>: the process of the daemon, \<^verbatim>\<open>rdc_server_main.cc\<close>. Processes that start at the same time are a step relation;
    at most one of a kind gets past the lock file. A daemon that begins to serve has its capability not in effect and not inheritable, and
    demands certificates unless it was told not to.
  \<^item> \<open>Rdci\<close>, \<open>Rdci_Commands\<close>, \<open>Rdci_Dmon\<close>: the subsystems of the command line tool and its \<^verbatim>\<open>main\<close>.
  \<^item> \<open>Rdci_Properties\<close>: the tool at work on a daemon. What it relies on when it reads events is the locale
    \<open>event_source\<close>, interpreted on the remote session.
  \<^item> \<open>Rdci_Cleanup\<close>: a Hoare logic of the commands, and with it that \<^verbatim>\<open>dmon\<close> gives back the groups it makes, whatever
    its command line and also after an exception, except one, as long as its messages arrive. The group tables of the daemon are the
    locale \<open>group_service\<close>, interpreted on the remote session.
  \<^item> \<open>Rdc_Examples\<close>, \<open>Rdc_Example_Properties\<close>: three of the example programs, as clients of the API. With the same logic, and the locale
    \<open>example_service\<close> that extends \<open>group_service\<close>: a run of the field example that succeeds gives back its groups, one that fails
    leaves at most one of each kind; the job example leaves its group. The diagnostic example passes a null
    configuration, for which the model of the client has no result.
  \<^item> \<open>Rdc_Perf_Timer\<close>: \<^verbatim>\<open>RdcPerfTimer\<close>. A timer reads the sum of its intervals, whatever is done with other timers; the
    measurement of the time stamp counter ends and is rounded to the nearest 100 MHz.
  \<^item> \<open>Rdc_Reports\<close>: \<^verbatim>\<open>RdcLogger\<close>, the dumps of the watch table, the cache, the memory pools and the pointers, and
    the banners and descriptions of the GPU tests, whose lines are proved to be short.

  \<^bold>\<open>Conventions.\<close> A \<^verbatim>\<open>std::map\<close> is a sorted association list, an array with its counter the list of the elements in
  use, an integer a word of its width. Null pointers are \<^const>\<open>None\<close>; an out parameter carries the memory it
  points to, so that a result can depend on what was there. \<^const>\<open>None\<close> as the result of an operation means undefined
  behaviour, an exception that leaves the modelled code, or a loop that does not end. Two uses of what the language leaves undefined have a result all the same: sums
  of signed numbers wrap, and the vector of profiler contexts, for which memory is only reserved, is usable where a flag of the environment says so. A \<^verbatim>\<open>double\<close> is a real number where the
  code computes with it and a bit pattern where it only travels. The clock, AMD SMI, libcap, HSA, rocprofiler,
  gRPC, the dynamic linker, the file system and \<^verbatim>\<open>getopt\<close> are parameters. Locks are left out: an operation under the
  lock is one step, and interleavings are sequences of steps. An API call, too, is one step of a session, though it takes several locks in turn.

  \<^bold>\<open>Bounds.\<close> The loop over the ECC blocks shifts a 32-bit mask, so 33 rounds end it; the theorem that it terminates shows
  that no more are needed. The loop of \<^verbatim>\<open>dmon\<close> over the events has no bound and is a partial function: it ends when the
  time stamps increase, and has no result when two of them are equal. The same holds of the wait for RVS, of the
  question for the mode in the examples, of their loop over the history of a field and of the loop over the time stamp counter, and of the
  loop of the search on the GPU, which is proved to end after one pass.

  \<^bold>\<open>Not modelled.\<close> The Python binding, which restates the declarations of \<^verbatim>\<open>rdc.h\<close>; the tests, which run the library on GPUs
  with a test framework; \<^verbatim>\<open>rocprofiler_example\<close>, which names fields that \<^verbatim>\<open>rdc.h\<close> does not have and cannot be compiled; the timers
  behind \<^verbatim>\<open>_AMD\<close>, which no build defines. Assertions, the destructors that only free memory or handles of foreign libraries
  and the usage texts are left out, and the messages that other components send to the logger are not part of their state.
\<close>

end
